(* ===== verification/Prelude.thy ===== *)
theory Prelude
  imports Main "HOL-Library.Word"
begin

text \<open>
  The library shared by every component: the fixed-width integer types of \<open>nvdef.h\<close>, the
  access to C bit fields (a layout is the list of field names and widths in declaration order, so
  a position follows from the order in which the source declares the fields), little-endian bytes,
  bounds-checked array reads and the binary-search loop that the repository repeats.
\<close>

unbundle bit_operations_syntax

type_synonym u8 = "8 word"
type_synonym u16 = "16 word"
type_synonym u32 = "32 word"
type_synonym u64 = "64 word"

text \<open>
  \<open>layout\<close> collects the positions of bit fields, \<open>defs\<close> the unfoldings an evaluation needs.
\<close>

named_theorems layout
named_theorems defs

section \<open>Bit slices\<close>

definition slice_get :: "nat \<Rightarrow> nat \<Rightarrow> 'a::len word \<Rightarrow> 'a word" where
  "slice_get lo w x = take_bit w (drop_bit lo x)"

definition slice_put :: "nat \<Rightarrow> nat \<Rightarrow> 'a::len word \<Rightarrow> 'a word \<Rightarrow> 'a word" where
  "slice_put lo w v x = (x AND NOT (push_bit lo (mask w))) OR push_bit lo (take_bit w v)"

lemma bit_slice_get [bit_simps]: "bit (slice_get lo w x) n \<longleftrightarrow> n < w \<and> bit x (lo + n)"
  by (simp add: slice_get_def bit_simps)

lemma bit_slice_put [bit_simps]:
  "bit (slice_put lo w v (x :: 'a::len word)) n \<longleftrightarrow>
     (if lo \<le> n \<and> n < lo + w then n < LENGTH('a) \<and> bit v (n - lo) else bit x n)"
  using bit_imp_le_length [of x n] by (auto simp: slice_put_def bit_simps)

lemma slice_get_put_same [simp]:
  "lo + w \<le> LENGTH('a) \<Longrightarrow> slice_get lo w (slice_put lo w v (x :: 'a::len word)) = take_bit w v"
  by (rule bit_word_eqI) (auto simp: bit_simps)

lemma slice_get_put_other [simp]:
  "lo + w \<le> lo' \<or> lo' + w' \<le> lo \<Longrightarrow>
     slice_get lo w (slice_put lo' w' v (x :: 'a::len word)) = slice_get lo w x"
  by (rule bit_word_eqI) (auto simp: bit_simps dest: bit_imp_le_length)

lemma slice_put_put [simp]:
  "slice_put lo w v (slice_put lo w v' x) = slice_put lo w v (x :: 'a::len word)"
  by (rule bit_word_eqI) (auto simp: bit_simps)

lemma slice_get_zero [simp]: "slice_get lo w (0 :: 'a::len word) = 0"
  by (simp add: slice_get_def)

lemma unat_slice_get_less: "unat (slice_get lo w (x :: 'a::len word)) < 2 ^ w"
proof -
  have "unat (slice_get lo w x) = take_bit w (unat (drop_bit lo x))"
    by (simp add: slice_get_def unsigned_take_bit_eq)
  then show ?thesis by (simp add: take_bit_nat_less_exp)
qed

lemma take_bit_idem_slice [simp]: "take_bit w (slice_get lo w (x :: 'a::len word)) = slice_get lo w x"
  by (simp add: slice_get_def)

section \<open>C bit-field layouts\<close>

type_synonym bf_layout = "(string \<times> nat) list"

text \<open>
  A C structure of bit fields is the list of its fields with their widths; the first one starts
  at bit 0 and each field follows its predecessor (the allocation both supported compilers use).
\<close>

fun bf_lo :: "bf_layout \<Rightarrow> string \<Rightarrow> nat" where
  "bf_lo [] f = 0"
| "bf_lo ((g, w) # fs) f = (if g = f then 0 else w + bf_lo fs f)"

fun bf_width :: "bf_layout \<Rightarrow> string \<Rightarrow> nat" where
  "bf_width [] f = 0"
| "bf_width ((g, w) # fs) f = (if g = f then w else bf_width fs f)"

definition bf_size :: "bf_layout \<Rightarrow> nat" where
  "bf_size L = sum_list (map snd L)"

definition bf_get :: "bf_layout \<Rightarrow> string \<Rightarrow> 'a::len word \<Rightarrow> 'a word" where
  "bf_get L f x = slice_get (bf_lo L f) (bf_width L f) x"

definition bf_put :: "bf_layout \<Rightarrow> string \<Rightarrow> 'a::len word \<Rightarrow> 'a word \<Rightarrow> 'a word" where
  "bf_put L f v x = slice_put (bf_lo L f) (bf_width L f) v x"

definition bf_flag :: "bf_layout \<Rightarrow> string \<Rightarrow> 'a::len word \<Rightarrow> bool" where
  "bf_flag L f x \<longleftrightarrow> bf_get L f x \<noteq> 0"

text \<open>A field is inside the size of its structure, and two fields do not meet.\<close>

lemma bf_in_size: "bf_lo L f + bf_width L f \<le> bf_size L"
  by (induction L) (auto simp: bf_size_def)

lemma bf_disjoint:
  "f \<noteq> g \<Longrightarrow> bf_lo L f + bf_width L f \<le> bf_lo L g \<or> bf_lo L g + bf_width L g \<le> bf_lo L f
     \<or> bf_width L f = 0 \<or> bf_width L g = 0"
  by (induction L) (auto split: if_splits)

lemma bf_get_put_same:
  assumes "bf_size L \<le> LENGTH('a)"
  shows "bf_get L f (bf_put L f v (x :: 'a::len word)) = take_bit (bf_width L f) v"
  using bf_in_size [of L f] assms by (simp add: bf_get_def bf_put_def)

lemma bf_get_put_other:
  assumes "f \<noteq> g"
  shows "bf_get L f (bf_put L g v (x :: 'a::len word)) = bf_get L f x"
  using bf_disjoint [OF assms, of L]
  by (intro bit_word_eqI) (auto simp: bf_get_def bf_put_def bit_simps dest: bit_imp_le_length)

lemma unat_bf_get_less: "unat (bf_get L f (x :: 'a::len word)) < 2 ^ bf_width L f"
  by (simp add: bf_get_def unat_slice_get_less)

lemma bf_flag_bit:
  assumes "bf_width L f = Suc 0"
  shows "bf_flag L f x \<longleftrightarrow> bit x (bf_lo L f)"
proof
  assume "bf_flag L f x"
  then obtain n where "bit (bf_get L f x) n" unfolding bf_flag_def by (metis bit_eqI bit_0_eq bot_apply bot_bool_def)
  then show "bit x (bf_lo L f)" using assms by (auto simp: bf_get_def bit_simps)
next
  assume "bit x (bf_lo L f)"
  then have "bit (bf_get L f x) 0" using assms by (simp add: bf_get_def bit_simps)
  then show "bf_flag L f x" by (auto simp: bf_flag_def)
qed

text \<open>C's conversions of a truth value and of a bit test.\<close>

definition of_flag :: "bool \<Rightarrow> 'a::len word" where
  "of_flag b = (if b then 1 else 0)"

lemma of_flag_simps [simp]: "of_flag True = 1" "of_flag False = 0"
  by (simp_all add: of_flag_def)

lemma of_flag_eq_0 [simp]: "of_flag b = (0 :: 'a::len word) \<longleftrightarrow> \<not> b"
  by (simp add: of_flag_def)

definition noir_bt :: "'a::len word \<Rightarrow> nat \<Rightarrow> bool" where
  "noir_bt x n \<longleftrightarrow> bit x n"

section \<open>Arrays\<close>

text \<open>A read past the end of a C array has no defined value: the model returns \<open>None\<close>.\<close>

definition nth_opt :: "'a list \<Rightarrow> nat \<Rightarrow> 'a option" where
  "nth_opt xs i = (if i < length xs then Some (xs ! i) else None)"

lemma nth_opt_Some [simp]: "nth_opt xs i = Some x \<longleftrightarrow> i < length xs \<and> xs ! i = x"
  by (simp add: nth_opt_def)

lemma nth_opt_None [simp]: "nth_opt xs i = None \<longleftrightarrow> length xs \<le> i"
  by (auto simp: nth_opt_def)

section \<open>Bytes\<close>

text \<open>Memory seen through a byte pointer; a \<open>u64\<close> takes eight bytes, lowest first.\<close>

type_synonym bytes = "nat \<Rightarrow> u8"

definition load_u64 :: "bytes \<Rightarrow> nat \<Rightarrow> u64" where
  "load_u64 b p = foldr (\<lambda>i acc. push_bit (8 * i) (ucast (b (p + i))) OR acc) [0..<8] 0"

definition byte_of :: "u64 \<Rightarrow> nat \<Rightarrow> u8" where
  "byte_of v i = ucast (drop_bit (8 * i) v)"

definition store_u64 :: "bytes \<Rightarrow> nat \<Rightarrow> u64 \<Rightarrow> bytes" where
  "store_u64 b p v = (\<lambda>a. if p \<le> a \<and> a < p + 8 then byte_of v (a - p) else b a)"

definition copy_bytes :: "bytes \<Rightarrow> nat \<Rightarrow> bytes \<Rightarrow> nat \<Rightarrow> nat \<Rightarrow> bytes" where
  "copy_bytes dst d src s n = (\<lambda>a. if d \<le> a \<and> a < d + n then src (s + (a - d)) else dst a)"

lemma bit_foldr_or:
  "bit (foldr (\<lambda>i acc. f i OR acc) xs (0 :: 'a::len word)) n \<longleftrightarrow> (\<exists>i \<in> set xs. bit (f i) n)"
  by (induction xs) (auto simp: bit_or_iff)

lemma bit_load_u64: "bit (load_u64 b p) n \<longleftrightarrow> n < 64 \<and> bit (b (p + n div 8)) (n mod 8)"
proof -
  have byte: "bit (push_bit (8 * i) (ucast x :: u64)) n \<longleftrightarrow>
      n < 64 \<and> n div 8 = i \<and> bit x (n mod 8)" for i and x :: u8
  proof (cases "8 * i \<le> n")
    case True
    then obtain j where j: "n = 8 * i + j" using le_Suc_ex by blast
    show ?thesis
    proof (cases "j < 8")
      case True
      with j show ?thesis by (auto simp: bit_simps)
    next
      case False
      with j have "n div 8 \<noteq> i" by (simp add: div_add1_eq)
      moreover have "\<not> bit x j" using False bit_imp_le_length [of x j] by auto
      ultimately show ?thesis using j by (simp add: bit_simps)
    qed
  next
    case False
    then have "n div 8 \<noteq> i" by auto
    with False show ?thesis by (simp add: bit_simps)
  qed
  have "n < 64 \<Longrightarrow> n div 8 < 8" by auto
  then show ?thesis by (auto simp: load_u64_def bit_foldr_or byte)
qed

lemma bit_byte_of [bit_simps]: "bit (byte_of v i) n \<longleftrightarrow> n < 8 \<and> bit v (8 * i + n)"
  by (auto simp: byte_of_def bit_simps)

lemma load_store_u64 [simp]: "load_u64 (store_u64 b p v) p = v"
proof (rule bit_word_eqI)
  fix n
  assume "n < LENGTH(64)"
  then have "n div 8 < 8" by auto
  with \<open>n < LENGTH(64)\<close> show "bit (load_u64 (store_u64 b p v) p) n \<longleftrightarrow> bit v n"
    by (simp add: bit_load_u64 store_u64_def bit_byte_of)
qed

lemma bit_load_u64_eq: "load_u64 b p = v" if "\<And>i. i < 8 \<Longrightarrow> b (p + i) = byte_of v i"
  using that by (intro bit_word_eqI) (auto simp: bit_load_u64 bit_byte_of)

lemma load_u64_cong: "(\<And>i. i < 8 \<Longrightarrow> b (p + i) = c (q + i)) \<Longrightarrow> load_u64 b p = load_u64 c q"
  by (rule bit_word_eqI) (auto simp: bit_load_u64)

lemma store_load_u64 [simp]: "store_u64 b p (load_u64 b p) = b"
proof -
  have "byte_of (load_u64 b p) i = b (p + i)" if "i < 8" for i
    using that by (intro bit_word_eqI) (auto simp: bit_byte_of bit_load_u64)
  then show ?thesis by (auto simp: store_u64_def fun_eq_iff)
qed

lemma load_store_u64_other [simp]:
  "p + 8 \<le> q \<or> q + 8 \<le> p \<Longrightarrow> load_u64 (store_u64 b p v) q = load_u64 b q"
  by (rule load_u64_cong) (auto simp: store_u64_def)

lemma load_copy_bytes [simp]:
  "d \<le> p \<Longrightarrow> p + 8 \<le> d + n \<Longrightarrow> load_u64 (copy_bytes dst d src s n) p = load_u64 src (s + (p - d))"
  by (rule load_u64_cong) (simp add: copy_bytes_def add.assoc)

lemma store_u64_outside [simp]: "a < p \<or> p + 8 \<le> a \<Longrightarrow> store_u64 b p v a = b a"
  by (auto simp: store_u64_def)

lemma copy_bytes_outside [simp]: "a < d \<or> d + n \<le> a \<Longrightarrow> copy_bytes dst d src s n a = dst a"
  by (auto simp: copy_bytes_def)

end
