(* ===== verification/Layouts.thy ===== *)
theory Layouts
  imports Prelude
begin

text \<open>
  The bit-field structures of the headers, each as its list of fields with their widths in the
  order of declaration. Positions are computed from that order (\<open>bf_lo\<close>), so a layout whose
  source declares a wrong width puts the later fields where the compiler puts them.
\<close>

definition amd64_npt_pml4e :: bf_layout where
  "amd64_npt_pml4e =
    [(''present'', 1), (''write'', 1), (''user'', 1), (''pwt'', 1), (''pcd'', 1),
     (''accessed'', 1), (''reserved1'', 6), (''pdpte_base'', 40), (''reserved2'', 11),
     (''no_execute'', 1)]"

definition amd64_npt_huge_pdpte :: bf_layout where
  "amd64_npt_huge_pdpte =
    [(''present'', 1), (''write'', 1), (''user'', 1), (''pwt'', 1), (''pcd'', 1),
     (''accessed'', 1), (''dirty'', 1), (''huge_pdpte'', 1), (''global'', 1),
     (''reserved1'', 3), (''pat'', 1), (''reserved2'', 17), (''page_base'', 22),
     (''reserved3'', 11), (''no_execute'', 1)]"

definition amd64_npt_pdpte :: bf_layout where
  "amd64_npt_pdpte =
    [(''present'', 1), (''write'', 1), (''user'', 1), (''pwt'', 1), (''pcd'', 1),
     (''accessed'', 1), (''reserved1'', 6), (''pde_base'', 40), (''reserved2'', 11),
     (''no_execute'', 1)]"

definition amd64_npt_large_pde :: bf_layout where
  "amd64_npt_large_pde =
    [(''present'', 1), (''write'', 1), (''user'', 1), (''pwt'', 1), (''pcd'', 1),
     (''accessed'', 1), (''dirty'', 1), (''large_pde'', 1), (''global'', 1),
     (''reserved1'', 3), (''pat'', 1), (''reserved2'', 8), (''page_base'', 31),
     (''reserved3'', 11), (''no_execute'', 1)]"

definition amd64_npt_pde :: bf_layout where
  "amd64_npt_pde =
    [(''present'', 1), (''write'', 1), (''user'', 1), (''pwt'', 1), (''pcd'', 1),
     (''accessed'', 1), (''reserved1'', 6), (''pte_base'', 40), (''reserved2'', 11),
     (''no_execute'', 1)]"

definition amd64_npt_pte :: bf_layout where
  "amd64_npt_pte =
    [(''present'', 1), (''write'', 1), (''user'', 1), (''pwt'', 1), (''pcd'', 1),
     (''accessed'', 1), (''dirty'', 1), (''pat'', 1), (''global'', 1), (''reserved1'', 3),
     (''page_base'', 40), (''reserved2'', 11), (''no_execute'', 1)]"

definition amd64_npt_general_entry :: bf_layout where
  "amd64_npt_general_entry =
    [(''present'', 1), (''write'', 1), (''user'', 1), (''pwt'', 1), (''pcd'', 1),
     (''accessed'', 1), (''dirty'', 1), (''psize'', 1), (''global'', 1), (''reserved1'', 3),
     (''base'', 40), (''reserved2'', 11), (''no_execute'', 1)]"

definition amd64_npt_fault_code :: bf_layout where
  "amd64_npt_fault_code =
    [(''present'', 1), (''write'', 1), (''user'', 1), (''rsv_b'', 1), (''execute'', 1),
     (''reserved1'', 1), (''shadow_stk'', 1), (''reserved2'', 24), (''rmp_check'', 1),
     (''npf_addr'', 1), (''npf_table'', 1), (''encrypted'', 1), (''size_mismatch'', 1),
     (''vmpl_failed'', 1), (''sss'', 1), (''reserved4'', 26)]"

definition amd64_addr_translator :: bf_layout where
  "amd64_addr_translator =
    [(''page_offset'', 12), (''pte_offset'', 9), (''pde_offset'', 9), (''pdpte_offset'', 9),
     (''pml4e_offset'', 9), (''pml5e_offset'', 9), (''canonical'', 7)]"

definition noir_segment_attributes :: bf_layout where
  "noir_segment_attributes =
    [(''type'', 4), (''system'', 1), (''dpl'', 2), (''present'', 1), (''limit_hi'', 4),
     (''avl'', 1), (''long_mode'', 1), (''default_big'', 1), (''granularity'', 1)]"

definition noir_npiep_operand_flags :: bf_layout where
  "noir_npiep_operand_flags =
    [(''reg'', 4), (''reserved'', 59), (''use_register'', 1)]"

definition noir_addr32_translator :: bf_layout where
  "noir_addr32_translator =
    [(''offset'', 12), (''pte'', 10), (''pde'', 10)]"

definition noir_addr64_translator :: bf_layout where
  "noir_addr64_translator =
    [(''offset'', 12), (''pte'', 9), (''pde'', 9), (''pdpte'', 9), (''pml4e'', 9),
     (''pml5e'', 9), (''sign_extend'', 7)]"

definition noir_page_fault_error_code :: bf_layout where
  "noir_page_fault_error_code =
    [(''present'', 1), (''write'', 1), (''user'', 1), (''reserved_bits'', 1), (''execute'', 1),
     (''protection_key'', 1), (''shadow_stack'', 1), (''reserved'', 25)]"

definition noir_paging64_general_entry :: bf_layout where
  "noir_paging64_general_entry =
    [(''present'', 1), (''write'', 1), (''user'', 1), (''pwt'', 1), (''pcd'', 1),
     (''accessed'', 1), (''dirty'', 1), (''psize'', 1), (''global'', 1), (''available1'', 3),
     (''base'', 40), (''available2'', 7), (''page_key'', 4), (''no_execute'', 1)]"

definition noir_paging32_pte :: bf_layout where
  "noir_paging32_pte =
    [(''present'', 1), (''write'', 1), (''user'', 1), (''pwt'', 1), (''pcd'', 1),
     (''accessed'', 1), (''dirty'', 1), (''pat'', 1), (''global'', 1), (''available'', 1),
     (''base'', 20)]"

definition noir_paging32_pde :: bf_layout where
  "noir_paging32_pde =
    [(''present'', 1), (''write'', 1), (''user'', 1), (''pwt'', 1), (''pcd'', 1),
     (''accessed'', 1), (''ignored0'', 1), (''psize'', 1), (''ignored1'', 1), (''avl'', 3),
     (''pte_base'', 20)]"

definition noir_paging32_large_pde :: bf_layout where
  "noir_paging32_large_pde =
    [(''present'', 1), (''write'', 1), (''user'', 1), (''pwt'', 1), (''pcd'', 1),
     (''accessed'', 1), (''dirty'', 1), (''psize'', 1), (''global'', 1), (''avl'', 3),
     (''pat'', 1), (''base_hi'', 8), (''reserved'', 1), (''base_lo'', 10)]"

definition noir_rmt_entry_low :: bf_layout where
  "noir_rmt_entry_low =
    [(''asid'', 32), (''reserved'', 21), (''shared'', 1), (''ownership'', 8)]"

definition noir_rmt_entry_high :: bf_layout where
  "noir_rmt_entry_high =
    [(''reserved'', 12), (''guest_pfn'', 52)]"

definition noir_hypervisor_options :: bf_layout where
  "noir_hypervisor_options =
    [(''stealth_msr_hook'', 1), (''stealth_inline_hook'', 1), (''cpuid_hv_presence'', 1),
     (''disable_patchguard'', 1), (''nested_virtualization'', 1), (''kva_shadow_presence'', 1),
     (''tlfs_passthrough'', 1), (''hide_from_pt'', 1), (''enable_nsv'', 1),
     (''enable_iommu'', 1), (''reserved'', 53), (''software_decoder'', 1)]"

definition noir_hypervisor_cvm_cap :: bf_layout where
  "noir_hypervisor_cvm_cap =
    [(''msr_quick_path'', 1), (''cpuid_quick_path'', 1), (''hidden_tf'', 1),
     (''multi_memmap'', 1), (''builtin_apic'', 1), (''builtin_x2apic'', 1),
     (''large_page'', 1), (''huge_page'', 1), (''reserved'', 56)]"

definition noir_cvm_cpuid_quickpath_options :: bf_layout where
  "noir_cvm_cpuid_quickpath_options =
    [(''active'', 1), (''has_subleaf'', 1), (''vm_wide'', 1), (''reserved'', 61)]"

definition noir_cvm_invalid_state_context :: bf_layout where
  "noir_cvm_invalid_state_context =
    [(''reason'', 30), (''id'', 2)]"

definition noir_cvm_cr_access_context :: bf_layout where
  "noir_cvm_cr_access_context =
    [(''cr_number'', 4), (''gpr_number'', 4), (''mov_instruction'', 1), (''write'', 1),
     (''reserved0'', 22)]"

definition noir_cvm_dr_access_context :: bf_layout where
  "noir_cvm_dr_access_context =
    [(''dr_number'', 4), (''gpr_number'', 4), (''write'', 1), (''reserved'', 23)]"

definition noir_cvm_exception_flags :: bf_layout where
  "noir_cvm_exception_flags =
    [(''vector'', 5), (''ev_valid'', 1), (''reserved'', 26)]"

definition noir_cvm_io_access :: bf_layout where
  "noir_cvm_io_access =
    [(''io_type'', 1), (''string'', 1), (''repeat'', 1), (''operand_size'', 3),
     (''address_width'', 4), (''reserved'', 6)]"

definition noir_cvm_memory_access :: bf_layout where
  "noir_cvm_memory_access =
    [(''present'', 1), (''write'', 1), (''execute'', 1), (''user'', 1), (''fetched_bytes'', 4)]"

definition noir_cvm_memory_access_flags :: bf_layout where
  "noir_cvm_memory_access_flags =
    [(''operand_size'', 16), (''instruction_code'', 16), (''operand_class'', 5),
     (''operand_code'', 7), (''reserved'', 19), (''decoded'', 1)]"

definition noir_cvm_interrupt_window_context :: bf_layout where
  "noir_cvm_interrupt_window_context =
    [(''nmi'', 1), (''iret_passed'', 1), (''reserved'', 30)]"

definition noir_cvm_exit_vcpu_state :: bf_layout where
  "noir_cvm_exit_vcpu_state =
    [(''cpl'', 2), (''pe'', 1), (''lm'', 1), (''int_shadow'', 1), (''instruction_length'', 4),
     (''int_pending'', 1), (''pg'', 1), (''pae'', 1), (''reserved'', 51), (''loaded'', 1)]"

definition noir_cvm_vcpu_options_bits :: bf_layout where
  "noir_cvm_vcpu_options_bits =
    [(''intercept_cpuid'', 1), (''intercept_msr'', 1), (''intercept_interrupt_window'', 1),
     (''intercept_exceptions'', 1), (''intercept_cr3'', 1), (''intercept_drx'', 1),
     (''intercept_pause'', 1), (''npiep'', 1), (''intercept_nmi_window'', 1),
     (''intercept_rsm'', 1), (''blocking_by_nmi'', 1), (''hidden_tf'', 1),
     (''interrupt_shadow'', 1), (''decode_memory_access_instruction'', 1), (''use_tunnel'', 1),
     (''tunnel_format'', 3), (''reserved'', 14)]"

definition noir_cvm_vcpu_msr_interceptions :: bf_layout where
  "noir_cvm_vcpu_msr_interceptions =
    [(''intercept_syscall'', 1), (''intercept_sysenter'', 1), (''intercept_smm'', 1),
     (''intercept_apic'', 1), (''intercept_mtrr'', 1), (''intercept_mca'', 1),
     (''intercept_cet'', 1), (''reserved'', 24), (''valid'', 1)]"

definition noir_cvm_vcpu_state_cache :: bf_layout where
  "noir_cvm_vcpu_state_cache =
    [(''gprvalid'', 1), (''cr_valid'', 1), (''cr2valid'', 1), (''dr_valid'', 1),
     (''sr_valid'', 1), (''fg_valid'', 1), (''dt_valid'', 1), (''lt_valid'', 1),
     (''sc_valid'', 1), (''se_valid'', 1), (''tp_valid'', 1), (''ef_valid'', 1),
     (''pa_valid'', 1), (''lb_valid'', 1), (''ap_valid'', 1), (''ss_valid'', 1),
     (''ts_valid'', 1), (''reserved'', 15), (''tl_valid'', 1), (''synchronized'', 1)]"

definition noir_cvm_event_injection_attributes :: bf_layout where
  "noir_cvm_event_injection_attributes =
    [(''vector'', 8), (''type'', 3), (''ec_valid'', 1), (''reserved'', 15), (''priority'', 4),
     (''valid'', 1)]"

definition noir_cvm_vpcb_flags :: bf_layout where
  "noir_cvm_vpcb_flags =
    [(''req_intr_window'', 1), (''rescind_vcpu'', 1), (''reserved'', 62)]"

definition noir_cvm_mapping_attributes :: bf_layout where
  "noir_cvm_mapping_attributes =
    [(''present'', 1), (''write'', 1), (''execute'', 1), (''user'', 1), (''caching'', 3),
     (''psize'', 2), (''avl'', 3), (''nsv_secure'', 1), (''reserved'', 19)]"

definition noir_cvm_vm_properties :: bf_layout where
  "noir_cvm_vm_properties =
    [(''sev_guest'', 1), (''use_seves'', 1), (''use_sevsnp'', 1), (''apic_enable'', 1),
     (''x2apic_enable'', 1), (''mtrr_enable'', 1), (''mshv_guest'', 1), (''nsv_guest'', 1),
     (''reserved'', 24)]"

definition noir_cvm_gmem_op_flags :: bf_layout where
  "noir_cvm_gmem_op_flags =
    [(''size'', 32), (''write_op'', 1), (''use_va'', 1), (''reserved'', 30)]"

definition noir_nsv_activation_context :: bf_layout where
  "noir_nsv_activation_context =
    [(''activation'', 1), (''reserved'', 63)]"

definition noir_nsv_claim_pages_context :: bf_layout where
  "noir_nsv_claim_pages_context =
    [(''claim'', 1), (''reserved'', 63)]"

section \<open>Positions of the fields that the components use\<close>

lemma amd64_npt_pml4e_pos [layout]:
  "bf_lo amd64_npt_pml4e ''present'' = 0" "bf_width amd64_npt_pml4e ''present'' = 1"
  "bf_lo amd64_npt_pml4e ''write'' = 1" "bf_width amd64_npt_pml4e ''write'' = 1"
  "bf_lo amd64_npt_pml4e ''user'' = 2" "bf_width amd64_npt_pml4e ''user'' = 1"
  "bf_lo amd64_npt_pml4e ''pwt'' = 3" "bf_width amd64_npt_pml4e ''pwt'' = 1"
  "bf_lo amd64_npt_pml4e ''pcd'' = 4" "bf_width amd64_npt_pml4e ''pcd'' = 1"
  "bf_lo amd64_npt_pml4e ''accessed'' = 5" "bf_width amd64_npt_pml4e ''accessed'' = 1"
  "bf_lo amd64_npt_pml4e ''reserved1'' = 6" "bf_width amd64_npt_pml4e ''reserved1'' = 6"
  "bf_lo amd64_npt_pml4e ''pdpte_base'' = 12" "bf_width amd64_npt_pml4e ''pdpte_base'' = 40"
  "bf_lo amd64_npt_pml4e ''reserved2'' = 52" "bf_width amd64_npt_pml4e ''reserved2'' = 11"
  "bf_lo amd64_npt_pml4e ''no_execute'' = 63" "bf_width amd64_npt_pml4e ''no_execute'' = 1"
  by (simp_all add: amd64_npt_pml4e_def)

lemma amd64_npt_huge_pdpte_pos [layout]:
  "bf_lo amd64_npt_huge_pdpte ''present'' = 0" "bf_width amd64_npt_huge_pdpte ''present'' = 1"
  "bf_lo amd64_npt_huge_pdpte ''write'' = 1" "bf_width amd64_npt_huge_pdpte ''write'' = 1"
  "bf_lo amd64_npt_huge_pdpte ''user'' = 2" "bf_width amd64_npt_huge_pdpte ''user'' = 1"
  "bf_lo amd64_npt_huge_pdpte ''pwt'' = 3" "bf_width amd64_npt_huge_pdpte ''pwt'' = 1"
  "bf_lo amd64_npt_huge_pdpte ''pcd'' = 4" "bf_width amd64_npt_huge_pdpte ''pcd'' = 1"
  "bf_lo amd64_npt_huge_pdpte ''accessed'' = 5" "bf_width amd64_npt_huge_pdpte ''accessed'' = 1"
  "bf_lo amd64_npt_huge_pdpte ''dirty'' = 6" "bf_width amd64_npt_huge_pdpte ''dirty'' = 1"
  "bf_lo amd64_npt_huge_pdpte ''huge_pdpte'' = 7" "bf_width amd64_npt_huge_pdpte ''huge_pdpte'' = 1"
  "bf_lo amd64_npt_huge_pdpte ''global'' = 8" "bf_width amd64_npt_huge_pdpte ''global'' = 1"
  "bf_lo amd64_npt_huge_pdpte ''reserved1'' = 9" "bf_width amd64_npt_huge_pdpte ''reserved1'' = 3"
  "bf_lo amd64_npt_huge_pdpte ''pat'' = 12" "bf_width amd64_npt_huge_pdpte ''pat'' = 1"
  "bf_lo amd64_npt_huge_pdpte ''reserved2'' = 13" "bf_width amd64_npt_huge_pdpte ''reserved2'' = 17"
  "bf_lo amd64_npt_huge_pdpte ''page_base'' = 30" "bf_width amd64_npt_huge_pdpte ''page_base'' = 22"
  "bf_lo amd64_npt_huge_pdpte ''reserved3'' = 52" "bf_width amd64_npt_huge_pdpte ''reserved3'' = 11"
  "bf_lo amd64_npt_huge_pdpte ''no_execute'' = 63" "bf_width amd64_npt_huge_pdpte ''no_execute'' = 1"
  by (simp_all add: amd64_npt_huge_pdpte_def)

lemma amd64_npt_pdpte_pos [layout]:
  "bf_lo amd64_npt_pdpte ''present'' = 0" "bf_width amd64_npt_pdpte ''present'' = 1"
  "bf_lo amd64_npt_pdpte ''write'' = 1" "bf_width amd64_npt_pdpte ''write'' = 1"
  "bf_lo amd64_npt_pdpte ''user'' = 2" "bf_width amd64_npt_pdpte ''user'' = 1"
  "bf_lo amd64_npt_pdpte ''pwt'' = 3" "bf_width amd64_npt_pdpte ''pwt'' = 1"
  "bf_lo amd64_npt_pdpte ''pcd'' = 4" "bf_width amd64_npt_pdpte ''pcd'' = 1"
  "bf_lo amd64_npt_pdpte ''accessed'' = 5" "bf_width amd64_npt_pdpte ''accessed'' = 1"
  "bf_lo amd64_npt_pdpte ''reserved1'' = 6" "bf_width amd64_npt_pdpte ''reserved1'' = 6"
  "bf_lo amd64_npt_pdpte ''pde_base'' = 12" "bf_width amd64_npt_pdpte ''pde_base'' = 40"
  "bf_lo amd64_npt_pdpte ''reserved2'' = 52" "bf_width amd64_npt_pdpte ''reserved2'' = 11"
  "bf_lo amd64_npt_pdpte ''no_execute'' = 63" "bf_width amd64_npt_pdpte ''no_execute'' = 1"
  by (simp_all add: amd64_npt_pdpte_def)

lemma amd64_npt_large_pde_pos [layout]:
  "bf_lo amd64_npt_large_pde ''present'' = 0" "bf_width amd64_npt_large_pde ''present'' = 1"
  "bf_lo amd64_npt_large_pde ''write'' = 1" "bf_width amd64_npt_large_pde ''write'' = 1"
  "bf_lo amd64_npt_large_pde ''user'' = 2" "bf_width amd64_npt_large_pde ''user'' = 1"
  "bf_lo amd64_npt_large_pde ''pwt'' = 3" "bf_width amd64_npt_large_pde ''pwt'' = 1"
  "bf_lo amd64_npt_large_pde ''pcd'' = 4" "bf_width amd64_npt_large_pde ''pcd'' = 1"
  "bf_lo amd64_npt_large_pde ''accessed'' = 5" "bf_width amd64_npt_large_pde ''accessed'' = 1"
  "bf_lo amd64_npt_large_pde ''dirty'' = 6" "bf_width amd64_npt_large_pde ''dirty'' = 1"
  "bf_lo amd64_npt_large_pde ''large_pde'' = 7" "bf_width amd64_npt_large_pde ''large_pde'' = 1"
  "bf_lo amd64_npt_large_pde ''global'' = 8" "bf_width amd64_npt_large_pde ''global'' = 1"
  "bf_lo amd64_npt_large_pde ''reserved1'' = 9" "bf_width amd64_npt_large_pde ''reserved1'' = 3"
  "bf_lo amd64_npt_large_pde ''pat'' = 12" "bf_width amd64_npt_large_pde ''pat'' = 1"
  "bf_lo amd64_npt_large_pde ''reserved2'' = 13" "bf_width amd64_npt_large_pde ''reserved2'' = 8"
  "bf_lo amd64_npt_large_pde ''page_base'' = 21" "bf_width amd64_npt_large_pde ''page_base'' = 31"
  "bf_lo amd64_npt_large_pde ''reserved3'' = 52" "bf_width amd64_npt_large_pde ''reserved3'' = 11"
  "bf_lo amd64_npt_large_pde ''no_execute'' = 63" "bf_width amd64_npt_large_pde ''no_execute'' = 1"
  by (simp_all add: amd64_npt_large_pde_def)

lemma amd64_npt_pde_pos [layout]:
  "bf_lo amd64_npt_pde ''present'' = 0" "bf_width amd64_npt_pde ''present'' = 1"
  "bf_lo amd64_npt_pde ''write'' = 1" "bf_width amd64_npt_pde ''write'' = 1"
  "bf_lo amd64_npt_pde ''user'' = 2" "bf_width amd64_npt_pde ''user'' = 1"
  "bf_lo amd64_npt_pde ''pwt'' = 3" "bf_width amd64_npt_pde ''pwt'' = 1"
  "bf_lo amd64_npt_pde ''pcd'' = 4" "bf_width amd64_npt_pde ''pcd'' = 1"
  "bf_lo amd64_npt_pde ''accessed'' = 5" "bf_width amd64_npt_pde ''accessed'' = 1"
  "bf_lo amd64_npt_pde ''reserved1'' = 6" "bf_width amd64_npt_pde ''reserved1'' = 6"
  "bf_lo amd64_npt_pde ''pte_base'' = 12" "bf_width amd64_npt_pde ''pte_base'' = 40"
  "bf_lo amd64_npt_pde ''reserved2'' = 52" "bf_width amd64_npt_pde ''reserved2'' = 11"
  "bf_lo amd64_npt_pde ''no_execute'' = 63" "bf_width amd64_npt_pde ''no_execute'' = 1"
  by (simp_all add: amd64_npt_pde_def)

lemma amd64_npt_pte_pos [layout]:
  "bf_lo amd64_npt_pte ''present'' = 0" "bf_width amd64_npt_pte ''present'' = 1"
  "bf_lo amd64_npt_pte ''write'' = 1" "bf_width amd64_npt_pte ''write'' = 1"
  "bf_lo amd64_npt_pte ''user'' = 2" "bf_width amd64_npt_pte ''user'' = 1"
  "bf_lo amd64_npt_pte ''pwt'' = 3" "bf_width amd64_npt_pte ''pwt'' = 1"
  "bf_lo amd64_npt_pte ''pcd'' = 4" "bf_width amd64_npt_pte ''pcd'' = 1"
  "bf_lo amd64_npt_pte ''accessed'' = 5" "bf_width amd64_npt_pte ''accessed'' = 1"
  "bf_lo amd64_npt_pte ''dirty'' = 6" "bf_width amd64_npt_pte ''dirty'' = 1"
  "bf_lo amd64_npt_pte ''pat'' = 7" "bf_width amd64_npt_pte ''pat'' = 1"
  "bf_lo amd64_npt_pte ''global'' = 8" "bf_width amd64_npt_pte ''global'' = 1"
  "bf_lo amd64_npt_pte ''reserved1'' = 9" "bf_width amd64_npt_pte ''reserved1'' = 3"
  "bf_lo amd64_npt_pte ''page_base'' = 12" "bf_width amd64_npt_pte ''page_base'' = 40"
  "bf_lo amd64_npt_pte ''reserved2'' = 52" "bf_width amd64_npt_pte ''reserved2'' = 11"
  "bf_lo amd64_npt_pte ''no_execute'' = 63" "bf_width amd64_npt_pte ''no_execute'' = 1"
  by (simp_all add: amd64_npt_pte_def)

lemma amd64_npt_general_entry_pos [layout]:
  "bf_lo amd64_npt_general_entry ''present'' = 0" "bf_width amd64_npt_general_entry ''present'' = 1"
  "bf_lo amd64_npt_general_entry ''write'' = 1" "bf_width amd64_npt_general_entry ''write'' = 1"
  "bf_lo amd64_npt_general_entry ''user'' = 2" "bf_width amd64_npt_general_entry ''user'' = 1"
  "bf_lo amd64_npt_general_entry ''pwt'' = 3" "bf_width amd64_npt_general_entry ''pwt'' = 1"
  "bf_lo amd64_npt_general_entry ''pcd'' = 4" "bf_width amd64_npt_general_entry ''pcd'' = 1"
  "bf_lo amd64_npt_general_entry ''accessed'' = 5" "bf_width amd64_npt_general_entry ''accessed'' = 1"
  "bf_lo amd64_npt_general_entry ''dirty'' = 6" "bf_width amd64_npt_general_entry ''dirty'' = 1"
  "bf_lo amd64_npt_general_entry ''psize'' = 7" "bf_width amd64_npt_general_entry ''psize'' = 1"
  "bf_lo amd64_npt_general_entry ''global'' = 8" "bf_width amd64_npt_general_entry ''global'' = 1"
  "bf_lo amd64_npt_general_entry ''reserved1'' = 9" "bf_width amd64_npt_general_entry ''reserved1'' = 3"
  "bf_lo amd64_npt_general_entry ''base'' = 12" "bf_width amd64_npt_general_entry ''base'' = 40"
  "bf_lo amd64_npt_general_entry ''reserved2'' = 52" "bf_width amd64_npt_general_entry ''reserved2'' = 11"
  "bf_lo amd64_npt_general_entry ''no_execute'' = 63" "bf_width amd64_npt_general_entry ''no_execute'' = 1"
  by (simp_all add: amd64_npt_general_entry_def)

lemma amd64_addr_translator_pos [layout]:
  "bf_lo amd64_addr_translator ''page_offset'' = 0" "bf_width amd64_addr_translator ''page_offset'' = 12"
  "bf_lo amd64_addr_translator ''pte_offset'' = 12" "bf_width amd64_addr_translator ''pte_offset'' = 9"
  "bf_lo amd64_addr_translator ''pde_offset'' = 21" "bf_width amd64_addr_translator ''pde_offset'' = 9"
  "bf_lo amd64_addr_translator ''pdpte_offset'' = 30" "bf_width amd64_addr_translator ''pdpte_offset'' = 9"
  "bf_lo amd64_addr_translator ''pml4e_offset'' = 39" "bf_width amd64_addr_translator ''pml4e_offset'' = 9"
  "bf_lo amd64_addr_translator ''pml5e_offset'' = 48" "bf_width amd64_addr_translator ''pml5e_offset'' = 9"
  "bf_lo amd64_addr_translator ''canonical'' = 57" "bf_width amd64_addr_translator ''canonical'' = 7"
  by (simp_all add: amd64_addr_translator_def)

lemma noir_addr32_translator_pos [layout]:
  "bf_lo noir_addr32_translator ''offset'' = 0" "bf_width noir_addr32_translator ''offset'' = 12"
  "bf_lo noir_addr32_translator ''pte'' = 12" "bf_width noir_addr32_translator ''pte'' = 10"
  "bf_lo noir_addr32_translator ''pde'' = 22" "bf_width noir_addr32_translator ''pde'' = 10"
  by (simp_all add: noir_addr32_translator_def)

lemma noir_page_fault_error_code_pos [layout]:
  "bf_lo noir_page_fault_error_code ''present'' = 0" "bf_width noir_page_fault_error_code ''present'' = 1"
  "bf_lo noir_page_fault_error_code ''write'' = 1" "bf_width noir_page_fault_error_code ''write'' = 1"
  "bf_lo noir_page_fault_error_code ''user'' = 2" "bf_width noir_page_fault_error_code ''user'' = 1"
  "bf_lo noir_page_fault_error_code ''reserved_bits'' = 3" "bf_width noir_page_fault_error_code ''reserved_bits'' = 1"
  "bf_lo noir_page_fault_error_code ''execute'' = 4" "bf_width noir_page_fault_error_code ''execute'' = 1"
  "bf_lo noir_page_fault_error_code ''protection_key'' = 5" "bf_width noir_page_fault_error_code ''protection_key'' = 1"
  "bf_lo noir_page_fault_error_code ''shadow_stack'' = 6" "bf_width noir_page_fault_error_code ''shadow_stack'' = 1"
  "bf_lo noir_page_fault_error_code ''reserved'' = 7" "bf_width noir_page_fault_error_code ''reserved'' = 25"
  by (simp_all add: noir_page_fault_error_code_def)

lemma noir_paging64_general_entry_pos [layout]:
  "bf_lo noir_paging64_general_entry ''present'' = 0" "bf_width noir_paging64_general_entry ''present'' = 1"
  "bf_lo noir_paging64_general_entry ''write'' = 1" "bf_width noir_paging64_general_entry ''write'' = 1"
  "bf_lo noir_paging64_general_entry ''user'' = 2" "bf_width noir_paging64_general_entry ''user'' = 1"
  "bf_lo noir_paging64_general_entry ''pwt'' = 3" "bf_width noir_paging64_general_entry ''pwt'' = 1"
  "bf_lo noir_paging64_general_entry ''pcd'' = 4" "bf_width noir_paging64_general_entry ''pcd'' = 1"
  "bf_lo noir_paging64_general_entry ''accessed'' = 5" "bf_width noir_paging64_general_entry ''accessed'' = 1"
  "bf_lo noir_paging64_general_entry ''dirty'' = 6" "bf_width noir_paging64_general_entry ''dirty'' = 1"
  "bf_lo noir_paging64_general_entry ''psize'' = 7" "bf_width noir_paging64_general_entry ''psize'' = 1"
  "bf_lo noir_paging64_general_entry ''global'' = 8" "bf_width noir_paging64_general_entry ''global'' = 1"
  "bf_lo noir_paging64_general_entry ''available1'' = 9" "bf_width noir_paging64_general_entry ''available1'' = 3"
  "bf_lo noir_paging64_general_entry ''base'' = 12" "bf_width noir_paging64_general_entry ''base'' = 40"
  "bf_lo noir_paging64_general_entry ''available2'' = 52" "bf_width noir_paging64_general_entry ''available2'' = 7"
  "bf_lo noir_paging64_general_entry ''page_key'' = 59" "bf_width noir_paging64_general_entry ''page_key'' = 4"
  "bf_lo noir_paging64_general_entry ''no_execute'' = 63" "bf_width noir_paging64_general_entry ''no_execute'' = 1"
  by (simp_all add: noir_paging64_general_entry_def)

lemma noir_paging32_pte_pos [layout]:
  "bf_lo noir_paging32_pte ''present'' = 0" "bf_width noir_paging32_pte ''present'' = 1"
  "bf_lo noir_paging32_pte ''write'' = 1" "bf_width noir_paging32_pte ''write'' = 1"
  "bf_lo noir_paging32_pte ''user'' = 2" "bf_width noir_paging32_pte ''user'' = 1"
  "bf_lo noir_paging32_pte ''pwt'' = 3" "bf_width noir_paging32_pte ''pwt'' = 1"
  "bf_lo noir_paging32_pte ''pcd'' = 4" "bf_width noir_paging32_pte ''pcd'' = 1"
  "bf_lo noir_paging32_pte ''accessed'' = 5" "bf_width noir_paging32_pte ''accessed'' = 1"
  "bf_lo noir_paging32_pte ''dirty'' = 6" "bf_width noir_paging32_pte ''dirty'' = 1"
  "bf_lo noir_paging32_pte ''pat'' = 7" "bf_width noir_paging32_pte ''pat'' = 1"
  "bf_lo noir_paging32_pte ''global'' = 8" "bf_width noir_paging32_pte ''global'' = 1"
  "bf_lo noir_paging32_pte ''available'' = 9" "bf_width noir_paging32_pte ''available'' = 1"
  "bf_lo noir_paging32_pte ''base'' = 10" "bf_width noir_paging32_pte ''base'' = 20"
  by (simp_all add: noir_paging32_pte_def)

lemma noir_paging32_pde_pos [layout]:
  "bf_lo noir_paging32_pde ''present'' = 0" "bf_width noir_paging32_pde ''present'' = 1"
  "bf_lo noir_paging32_pde ''write'' = 1" "bf_width noir_paging32_pde ''write'' = 1"
  "bf_lo noir_paging32_pde ''user'' = 2" "bf_width noir_paging32_pde ''user'' = 1"
  "bf_lo noir_paging32_pde ''pwt'' = 3" "bf_width noir_paging32_pde ''pwt'' = 1"
  "bf_lo noir_paging32_pde ''pcd'' = 4" "bf_width noir_paging32_pde ''pcd'' = 1"
  "bf_lo noir_paging32_pde ''accessed'' = 5" "bf_width noir_paging32_pde ''accessed'' = 1"
  "bf_lo noir_paging32_pde ''ignored0'' = 6" "bf_width noir_paging32_pde ''ignored0'' = 1"
  "bf_lo noir_paging32_pde ''psize'' = 7" "bf_width noir_paging32_pde ''psize'' = 1"
  "bf_lo noir_paging32_pde ''ignored1'' = 8" "bf_width noir_paging32_pde ''ignored1'' = 1"
  "bf_lo noir_paging32_pde ''avl'' = 9" "bf_width noir_paging32_pde ''avl'' = 3"
  "bf_lo noir_paging32_pde ''pte_base'' = 12" "bf_width noir_paging32_pde ''pte_base'' = 20"
  by (simp_all add: noir_paging32_pde_def)

lemma noir_paging32_large_pde_pos [layout]:
  "bf_lo noir_paging32_large_pde ''present'' = 0" "bf_width noir_paging32_large_pde ''present'' = 1"
  "bf_lo noir_paging32_large_pde ''write'' = 1" "bf_width noir_paging32_large_pde ''write'' = 1"
  "bf_lo noir_paging32_large_pde ''user'' = 2" "bf_width noir_paging32_large_pde ''user'' = 1"
  "bf_lo noir_paging32_large_pde ''pwt'' = 3" "bf_width noir_paging32_large_pde ''pwt'' = 1"
  "bf_lo noir_paging32_large_pde ''pcd'' = 4" "bf_width noir_paging32_large_pde ''pcd'' = 1"
  "bf_lo noir_paging32_large_pde ''accessed'' = 5" "bf_width noir_paging32_large_pde ''accessed'' = 1"
  "bf_lo noir_paging32_large_pde ''dirty'' = 6" "bf_width noir_paging32_large_pde ''dirty'' = 1"
  "bf_lo noir_paging32_large_pde ''psize'' = 7" "bf_width noir_paging32_large_pde ''psize'' = 1"
  "bf_lo noir_paging32_large_pde ''global'' = 8" "bf_width noir_paging32_large_pde ''global'' = 1"
  "bf_lo noir_paging32_large_pde ''avl'' = 9" "bf_width noir_paging32_large_pde ''avl'' = 3"
  "bf_lo noir_paging32_large_pde ''pat'' = 12" "bf_width noir_paging32_large_pde ''pat'' = 1"
  "bf_lo noir_paging32_large_pde ''base_hi'' = 13" "bf_width noir_paging32_large_pde ''base_hi'' = 8"
  "bf_lo noir_paging32_large_pde ''reserved'' = 21" "bf_width noir_paging32_large_pde ''reserved'' = 1"
  "bf_lo noir_paging32_large_pde ''base_lo'' = 22" "bf_width noir_paging32_large_pde ''base_lo'' = 10"
  by (simp_all add: noir_paging32_large_pde_def)

lemma noir_rmt_entry_low_pos [layout]:
  "bf_lo noir_rmt_entry_low ''asid'' = 0" "bf_width noir_rmt_entry_low ''asid'' = 32"
  "bf_lo noir_rmt_entry_low ''reserved'' = 32" "bf_width noir_rmt_entry_low ''reserved'' = 21"
  "bf_lo noir_rmt_entry_low ''shared'' = 53" "bf_width noir_rmt_entry_low ''shared'' = 1"
  "bf_lo noir_rmt_entry_low ''ownership'' = 54" "bf_width noir_rmt_entry_low ''ownership'' = 8"
  by (simp_all add: noir_rmt_entry_low_def)

lemma noir_rmt_entry_high_pos [layout]:
  "bf_lo noir_rmt_entry_high ''reserved'' = 0" "bf_width noir_rmt_entry_high ''reserved'' = 12"
  "bf_lo noir_rmt_entry_high ''guest_pfn'' = 12" "bf_width noir_rmt_entry_high ''guest_pfn'' = 52"
  by (simp_all add: noir_rmt_entry_high_def)

lemma noir_cvm_mapping_attributes_pos [layout]:
  "bf_lo noir_cvm_mapping_attributes ''present'' = 0" "bf_width noir_cvm_mapping_attributes ''present'' = 1"
  "bf_lo noir_cvm_mapping_attributes ''write'' = 1" "bf_width noir_cvm_mapping_attributes ''write'' = 1"
  "bf_lo noir_cvm_mapping_attributes ''execute'' = 2" "bf_width noir_cvm_mapping_attributes ''execute'' = 1"
  "bf_lo noir_cvm_mapping_attributes ''user'' = 3" "bf_width noir_cvm_mapping_attributes ''user'' = 1"
  "bf_lo noir_cvm_mapping_attributes ''caching'' = 4" "bf_width noir_cvm_mapping_attributes ''caching'' = 3"
  "bf_lo noir_cvm_mapping_attributes ''psize'' = 7" "bf_width noir_cvm_mapping_attributes ''psize'' = 2"
  "bf_lo noir_cvm_mapping_attributes ''avl'' = 9" "bf_width noir_cvm_mapping_attributes ''avl'' = 3"
  "bf_lo noir_cvm_mapping_attributes ''nsv_secure'' = 12" "bf_width noir_cvm_mapping_attributes ''nsv_secure'' = 1"
  "bf_lo noir_cvm_mapping_attributes ''reserved'' = 13" "bf_width noir_cvm_mapping_attributes ''reserved'' = 19"
  by (simp_all add: noir_cvm_mapping_attributes_def)

lemmas layout_defs = amd64_npt_pml4e_def amd64_npt_huge_pdpte_def amd64_npt_pdpte_def amd64_npt_large_pde_def amd64_npt_pde_def amd64_npt_pte_def amd64_npt_general_entry_def amd64_npt_fault_code_def amd64_addr_translator_def noir_segment_attributes_def noir_npiep_operand_flags_def noir_addr32_translator_def noir_addr64_translator_def noir_page_fault_error_code_def noir_paging64_general_entry_def noir_paging32_pte_def noir_paging32_pde_def noir_paging32_large_pde_def noir_rmt_entry_low_def noir_rmt_entry_high_def noir_hypervisor_options_def noir_hypervisor_cvm_cap_def noir_cvm_cpuid_quickpath_options_def noir_cvm_invalid_state_context_def noir_cvm_cr_access_context_def noir_cvm_dr_access_context_def noir_cvm_exception_flags_def noir_cvm_io_access_def noir_cvm_memory_access_def noir_cvm_memory_access_flags_def noir_cvm_interrupt_window_context_def noir_cvm_exit_vcpu_state_def noir_cvm_vcpu_options_bits_def noir_cvm_vcpu_msr_interceptions_def noir_cvm_vcpu_state_cache_def noir_cvm_event_injection_attributes_def noir_cvm_vpcb_flags_def noir_cvm_mapping_attributes_def noir_cvm_vm_properties_def noir_cvm_gmem_op_flags_def noir_nsv_activation_context_def noir_nsv_claim_pages_context_def

end
