(* ===== verification/Layout_Sizes.thy ===== *)
theory Layout_Sizes
  imports Layouts
begin

text \<open>
  The bit-field structures against the storage unit that the headers give each of them: the
  integer beside it in the \<open>union\<close>, or the integer type of its fields.
\<close>

definition c_layouts :: "(string \<times> bf_layout \<times> nat) list" where
  "c_layouts =
    [(''amd64_npt_pml4e'', amd64_npt_pml4e, 64),
     (''amd64_npt_huge_pdpte'', amd64_npt_huge_pdpte, 64),
     (''amd64_npt_pdpte'', amd64_npt_pdpte, 64),
     (''amd64_npt_large_pde'', amd64_npt_large_pde, 64),
     (''amd64_npt_pde'', amd64_npt_pde, 64),
     (''amd64_npt_pte'', amd64_npt_pte, 64),
     (''amd64_npt_general_entry'', amd64_npt_general_entry, 64),
     (''amd64_npt_fault_code'', amd64_npt_fault_code, 64),
     (''amd64_addr_translator'', amd64_addr_translator, 64),
     (''noir_segment_attributes'', noir_segment_attributes, 16),
     (''noir_npiep_operand_flags'', noir_npiep_operand_flags, 64),
     (''noir_addr32_translator'', noir_addr32_translator, 32),
     (''noir_addr64_translator'', noir_addr64_translator, 64),
     (''noir_page_fault_error_code'', noir_page_fault_error_code, 32),
     (''noir_paging64_general_entry'', noir_paging64_general_entry, 64),
     (''noir_paging32_pte'', noir_paging32_pte, 32),
     (''noir_paging32_pde'', noir_paging32_pde, 32),
     (''noir_paging32_large_pde'', noir_paging32_large_pde, 32),
     (''noir_rmt_entry_low'', noir_rmt_entry_low, 64),
     (''noir_rmt_entry_high'', noir_rmt_entry_high, 64),
     (''noir_hypervisor_options'', noir_hypervisor_options, 64),
     (''noir_hypervisor_cvm_cap'', noir_hypervisor_cvm_cap, 64),
     (''noir_cvm_cpuid_quickpath_options'', noir_cvm_cpuid_quickpath_options, 64),
     (''noir_cvm_invalid_state_context'', noir_cvm_invalid_state_context, 32),
     (''noir_cvm_cr_access_context'', noir_cvm_cr_access_context, 32),
     (''noir_cvm_dr_access_context'', noir_cvm_dr_access_context, 32),
     (''noir_cvm_exception_flags'', noir_cvm_exception_flags, 32),
     (''noir_cvm_io_access'', noir_cvm_io_access, 16),
     (''noir_cvm_memory_access'', noir_cvm_memory_access, 8),
     (''noir_cvm_memory_access_flags'', noir_cvm_memory_access_flags, 64),
     (''noir_cvm_interrupt_window_context'', noir_cvm_interrupt_window_context, 32),
     (''noir_cvm_exit_vcpu_state'', noir_cvm_exit_vcpu_state, 64),
     (''noir_cvm_vcpu_options_bits'', noir_cvm_vcpu_options_bits, 32),
     (''noir_cvm_vcpu_msr_interceptions'', noir_cvm_vcpu_msr_interceptions, 32),
     (''noir_cvm_vcpu_state_cache'', noir_cvm_vcpu_state_cache, 32),
     (''noir_cvm_event_injection_attributes'', noir_cvm_event_injection_attributes, 32),
     (''noir_cvm_vpcb_flags'', noir_cvm_vpcb_flags, 64),
     (''noir_cvm_mapping_attributes'', noir_cvm_mapping_attributes, 32),
     (''noir_cvm_vm_properties'', noir_cvm_vm_properties, 32),
     (''noir_cvm_gmem_op_flags'', noir_cvm_gmem_op_flags, 64),
     (''noir_nsv_activation_context'', noir_nsv_activation_context, 64),
     (''noir_nsv_claim_pages_context'', noir_nsv_claim_pages_context, 64)]"

text \<open>Of the bit-field structures of the headers all but three fill their storage unit exactly.
  The 32-bit page-table entry and the low quadword of a reverse-mapping entry lose two bits, so that
  the fields behind them sit two bits lower than their comments and the processor say, and the state
  cache of a vCPU has 34 bits: its last flags do not belong to the integer that is reset with it.\<close>

theorem layouts_fill_storage:
  "map fst (filter (\<lambda>(name, L, unit). bf_size L \<noteq> unit) c_layouts) =
     [''noir_paging32_pte'', ''noir_rmt_entry_low'', ''noir_cvm_vcpu_state_cache'']"
  by (simp add: c_layouts_def bf_size_def layout_defs)

end
