(* ===== verification/Search.thy ===== *)
theory Search
  imports Prelude
begin

text \<open>
  The binary search that \<open>nvc_confirm_cpu_manufacturer\<close>, \<open>nvc_configure_reverse_mapping\<close>,
  \<open>nvc_validate_single_rmt_reassignment\<close> and \<open>nvc_get_rmt_entry\<close> share, on unsigned bounds:
  \<open>while(hi>=lo) { mid=(hi+lo)>>1; ... hi=mid-1 ... lo=mid+1 ... }\<close>. The bounds are machine words,
  so \<open>mid-1\<close> wraps when \<open>mid\<close> is 0, and a probe may name a slot that the array does not have.
\<close>

datatype probe = Before | After | Found

datatype 'i outcome = Hit 'i | Miss | Wild 'i | Out_of_fuel

text \<open>
  \<open>probe i\<close> compares the key with slot \<open>i\<close>: \<open>Before\<close> when the key is lower, \<open>After\<close> when it is
  higher, \<open>None\<close> when slot \<open>i\<close> is not part of the array, so that reading it is undefined
  (\<open>Wild\<close>).
\<close>

definition midpoint :: "'w::len word \<Rightarrow> 'w word \<Rightarrow> 'w word" where
  "midpoint hi lo = drop_bit 1 (hi + lo)"

fun bsearch :: "nat \<Rightarrow> ('w::len word \<Rightarrow> probe option) \<Rightarrow> 'w word \<Rightarrow> 'w word \<Rightarrow> 'w word outcome" where
  "bsearch 0 probe lo hi = Out_of_fuel"
| "bsearch (Suc fuel) probe lo hi =
     (if lo \<le> hi then
        (let mid = midpoint hi lo in
         case probe mid of
           None \<Rightarrow> Wild mid
         | Some Before \<Rightarrow> bsearch fuel probe lo (mid - 1)
         | Some After \<Rightarrow> bsearch fuel probe (mid + 1) hi
         | Some Found \<Rightarrow> Hit mid)
      else Miss)"

declare bsearch.simps [simp del]

lemma unat_midpoint:
  fixes lo hi :: "'w::len word"
  assumes "unat lo + unat hi < 2 ^ LENGTH('w)"
  shows "unat (midpoint hi lo) = (unat lo + unat hi) div 2"
proof -
  have "unat (hi + lo) = unat lo + unat hi"
    using assms by (simp add: unat_word_ariths add.commute)
  then show ?thesis
    unfolding midpoint_def unsigned_drop_bit_eq
    using assms by (simp add: drop_bit_Suc take_bit_nat_eq_self)
qed

lemma midpoint_wrapped: "midpoint (- 1) 0 = (mask (LENGTH('w) - 1) :: 'w::len word)"
  by (simp add: midpoint_def)

text \<open>
  The four ways such a search can end when \<open>n\<close> slots hold entries: the key is found; no slot holds
  it; it is above every slot and slot \<open>n\<close> is read; it is below every slot, the upper bound wraps
  and a slot in the middle of the address range is read.
\<close>

definition settled :: "('w::len word \<Rightarrow> probe option) \<Rightarrow> nat \<Rightarrow> 'w word outcome \<Rightarrow> bool" where
  "settled probe n r \<longleftrightarrow>
     (\<exists>m<n. r = Hit (of_nat m) \<and> probe (of_nat m) = Some Found) \<or>
     (r = Miss \<and> (\<forall>i<n. probe (of_nat i) \<noteq> Some Found) \<and> probe 0 \<noteq> Some Before
        \<and> (0 < n \<longrightarrow> probe (of_nat (n - 1)) = Some After \<longrightarrow> probe (of_nat n) \<noteq> None)) \<or>
     (r = Wild (of_nat n) \<and> probe (of_nat n) = None \<and> (\<forall>i<n. probe (of_nat i) = Some After)) \<or>
     (r = Wild (mask (LENGTH('w) - 1)) \<and> 0 < n \<and> probe 0 = Some Before)"

text \<open>
  What an array promises to the search: the slots below \<open>n\<close> can be read and are ordered, the slot
  \<open>n\<close> that the initial upper bound names is either outside the array or compares as \<open>After\<close>, and
  the slot that a wrapped upper bound leads to is outside the array.
\<close>

locale sorted_slots =
  fixes probe :: "'w::len word \<Rightarrow> probe option" and n :: nat
  assumes size: "2 * n + 1 < 2 ^ LENGTH('w)"
    and readable: "i < n \<Longrightarrow> probe (of_nat i) \<noteq> None"
    and before_up: "i < j \<Longrightarrow> j < n \<Longrightarrow> probe (of_nat i) = Some Before \<Longrightarrow> probe (of_nat j) = Some Before"
    and after_down: "i < j \<Longrightarrow> j < n \<Longrightarrow> probe (of_nat j) = Some After \<Longrightarrow> probe (of_nat i) = Some After"
    and sentinel: "probe (of_nat n) \<in> {None, Some After}"
    and far: "probe (mask (LENGTH('w) - 1)) = None"
begin

lemma of_nat_unat_small: "of_nat (unat (x :: 'w word)) = x"
  by simp

lemma wrapped: "bsearch (Suc f) probe 0 (- 1) = Wild (mask (LENGTH('w) - 1))"
  using far by (simp add: bsearch.simps midpoint_wrapped)

lemma loop_settled:
  assumes "unat hi \<le> n" "unat lo \<le> unat hi + 1" "unat hi + 2 < fuel + unat lo"
    and below: "\<And>i. i < unat lo \<Longrightarrow> probe (of_nat i) = Some After"
    and above: "\<And>i. unat hi < i \<Longrightarrow> i < n \<Longrightarrow> probe (of_nat i) = Some Before"
    and top: "unat hi = n \<or> unat hi + 1 < n"
  shows "settled probe n (bsearch fuel probe lo hi)"
  using assms
proof (induction fuel arbitrary: lo hi)
  case 0
  then show ?case by simp
next
  case (Suc fuel)
  show ?case
  proof (cases "lo \<le> hi")
    case False
    then have eq: "unat lo = unat hi + 1"
      using Suc.prems(2) by (simp add: word_le_nat_alt)
    have none: "probe (of_nat i) \<noteq> Some Found" if "i < n" for i
      using Suc.prems(4) [of i] Suc.prems(5) [of i] that eq by (cases "i < unat lo") auto
    moreover have "probe 0 \<noteq> Some Before"
      using Suc.prems(4) [of 0] eq by simp
    moreover have "probe (of_nat n) \<noteq> None" if "0 < n" "probe (of_nat (n - 1)) = Some After"
    proof (cases "unat hi = n")
      case True
      then show ?thesis using Suc.prems(4) [of n] eq by simp
    next
      case False
      then show ?thesis using Suc.prems(5) [of "n - 1"] Suc.prems(6) that by auto
    qed
    ultimately show ?thesis
      using False by (auto simp: bsearch.simps settled_def)
  next
    case True
    then have le: "unat lo \<le> unat hi" by (simp add: word_le_nat_alt)
    define mid where "mid = midpoint hi lo"
    have um: "unat mid = (unat lo + unat hi) div 2"
      using Suc.prems(1) le size unfolding mid_def by (intro unat_midpoint) linarith
    have mid: "unat lo \<le> unat mid" "unat mid \<le> unat hi" "unat mid \<le> n"
      using le um Suc.prems(1) by linarith+
    have step: "bsearch (Suc fuel) probe lo hi =
        (case probe mid of None \<Rightarrow> Wild mid | Some Before \<Rightarrow> bsearch fuel probe lo (mid - 1)
         | Some After \<Rightarrow> bsearch fuel probe (mid + 1) hi | Some Found \<Rightarrow> Hit mid)"
      unfolding mid_def using True by (simp add: bsearch.simps Let_def)
    have top_mid: "unat mid = n \<Longrightarrow> unat lo = n"
      using um Suc.prems(1) le by linarith
    show ?thesis
    proof (cases "probe mid")
      case None
      then have "unat mid = n"
        using readable [of "unat mid"] mid(3) by (cases "unat mid = n") auto
      moreover from this have "mid = of_nat n" by (metis of_nat_unat_small)
      ultimately show ?thesis
        using None step top_mid Suc.prems(4) by (auto simp: settled_def)
    next
      case (Some p)
      show ?thesis
      proof (cases p)
        case Found
        then have "unat mid < n"
          using sentinel Some mid(3) by (cases "unat mid = n") (auto simp: of_nat_unat_small dest: sym)
        then show ?thesis
          using Some Found step by (auto simp: settled_def intro!: exI [of _ "unat mid"])
      next
        case Before
        have lt: "unat mid < n"
          using sentinel Some Before mid(3) by (cases "unat mid = n") (auto dest: sym)
        show ?thesis
        proof (cases "unat mid = 0")
          case True
          then have "lo = 0" "mid = 0" using mid(1) by (auto simp: unat_eq_zero)
          moreover have "0 < fuel" using Suc.prems(3) mid(2) by (cases fuel) (use le in auto)
          ultimately show ?thesis
            using step Some Before lt wrapped [of "fuel - 1"] by (auto simp: settled_def)
        next
          case False
          then have um1: "unat (mid - 1) = unat mid - 1"
            by (metis unat_eq_zero unat_minus_one unat_0)
          have "settled probe n (bsearch fuel probe lo (mid - 1))"
          proof (rule Suc.IH)
            show "\<And>i. unat (mid - 1) < i \<Longrightarrow> i < n \<Longrightarrow> probe (of_nat i) = Some Before"
              using before_up [of "unat mid"] Some Before um1 False
              by (metis One_nat_def Suc_lessI Suc_pred neq0_conv of_nat_unat_small)
            show "unat (mid - 1) = n \<or> unat (mid - 1) + 1 < n"
              using um1 False lt by auto
          qed (use um1 False mid Suc.prems in auto)
          then show ?thesis using step Some Before by simp
        qed
      next
        case After
        have "unat mid + 1 < 2 ^ LENGTH('w)" using mid(3) size by linarith
        then have um1: "unat (mid + 1) = unat mid + 1"
          by (simp add: unat_word_ariths)
        have "settled probe n (bsearch fuel probe (mid + 1) hi)"
        proof (rule Suc.IH)
          fix i
          assume i: "i < unat (mid + 1)"
          show "probe (of_nat i) = Some After"
          proof (cases "i < unat lo")
            case True
            then show ?thesis using Suc.prems(4) by simp
          next
            case False
            show ?thesis
            proof (cases "i = unat mid")
              case True
              then show ?thesis using Some After by simp
            next
              case neq: False
              have "unat mid < n"
                using neq False i um1 top_mid mid by (cases "unat mid = n") auto
              then show ?thesis
                using neq i um1 after_down [of i "unat mid"] Some After by simp
            qed
          qed
        qed (use um1 mid Suc.prems in auto)
        then show ?thesis using step Some After by simp
      qed
    qed
  qed
qed

lemma search_settled: "n + 2 < fuel \<Longrightarrow> settled probe n (bsearch fuel probe 0 (of_nat n))"
proof (rule loop_settled)
  have "n < 2 ^ LENGTH('w)" using size by linarith
  then have "unat (of_nat n :: 'w word) = n" by (simp add: unat_of_nat)
  then show "unat (of_nat n :: 'w word) \<le> n" "\<And>i. unat (of_nat n :: 'w word) < i \<Longrightarrow> i < n \<Longrightarrow> probe (of_nat i) = Some Before"
    "unat (of_nat n :: 'w word) = n \<or> unat (of_nat n :: 'w word) + 1 < n"
    "n + 2 < fuel \<Longrightarrow> unat (of_nat n :: 'w word) + 2 < fuel + unat (0 :: 'w word)"
    by auto
qed auto

lemma found:
  assumes "n + 2 < fuel" "k < n" "probe (of_nat k) = Some Found"
  shows "\<exists>m<n. bsearch fuel probe 0 (of_nat n) = Hit (of_nat m) \<and> probe (of_nat m) = Some Found"
proof -
  have "probe 0 \<noteq> Some Before"
    using before_up [of 0 k] assms(2,3) by (cases "k = 0") auto
  then show ?thesis
    using search_settled [OF assms(1)] assms(2,3) unfolding settled_def by auto
qed

lemma missing:
  assumes "n + 2 < fuel" "0 < n" "\<And>i. i < n \<Longrightarrow> probe (of_nat i) \<noteq> Some Found"
  shows "bsearch fuel probe 0 (of_nat n) =
    (if probe 0 = Some Before then Wild (mask (LENGTH('w) - 1))
     else if probe (of_nat (n - 1)) = Some After \<and> probe (of_nat n) = None then Wild (of_nat n)
     else Miss)"
proof -
  have top: "probe (of_nat i) = Some After" if "probe (of_nat (n - 1)) = Some After" "i < n" for i
    using that after_down [of i "n - 1"] by (cases "i = n - 1") auto
  have last: "probe (of_nat (n - 1)) = Some After" if "\<forall>i<n. probe (of_nat i) = Some After"
    using assms(2) spec [OF that, of "n - 1"] by simp
  show ?thesis
    using search_settled [OF assms(1)] assms(2) assms(3) top [of 0] last unfolding settled_def
    by auto
qed

end

end
