(* ===== verification/Status.thy ===== *)
theory Status
  imports Prelude
begin

text \<open>
  The status values of \<open>nvstatus.h\<close>: a severity in bits 30 and 31, a facility in bits 24 to 29 and
  a detailed code below.
\<close>

type_synonym noir_status = u32

definition noir_success :: noir_status where "noir_success = 0x0"
definition noir_already_rescinded :: noir_status where "noir_already_rescinded = 0x40000001"
definition noir_dereference_destroying :: noir_status where "noir_dereference_destroying = 0x40000002"
definition noir_emu_dual_memory_operands :: noir_status where "noir_emu_dual_memory_operands = 0x43000000"
definition noir_unsuccessful :: noir_status where "noir_unsuccessful = 0xC0000000"
definition noir_insufficient_resources :: noir_status where "noir_insufficient_resources = 0xC0000001"
definition noir_not_implemented :: noir_status where "noir_not_implemented = 0xC0000002"
definition noir_unknown_processor :: noir_status where "noir_unknown_processor = 0xC0000003"
definition noir_invalid_parameter :: noir_status where "noir_invalid_parameter = 0xC0000004"
definition noir_hypervision_absent :: noir_status where "noir_hypervision_absent = 0xC0000005"
definition noir_vcpu_already_created :: noir_status where "noir_vcpu_already_created = 0xC0000006"
definition noir_buffer_too_small :: noir_status where "noir_buffer_too_small = 0xC0000007"
definition noir_guest_page_absent :: noir_status where "noir_guest_page_absent = 0xC000000A"
definition noir_nsv_violation :: noir_status where "noir_nsv_violation = 0xC000000E"
definition noir_vmx_not_supported :: noir_status where "noir_vmx_not_supported = 0xC1000001"
definition noir_svm_not_supported :: noir_status where "noir_svm_not_supported = 0xC2000001"

lemmas status_defs = noir_success_def noir_already_rescinded_def noir_dereference_destroying_def
  noir_emu_dual_memory_operands_def noir_unsuccessful_def noir_insufficient_resources_def
  noir_not_implemented_def noir_unknown_processor_def noir_invalid_parameter_def
  noir_hypervision_absent_def noir_vcpu_already_created_def noir_buffer_too_small_def
  noir_guest_page_absent_def noir_nsv_violation_def noir_vmx_not_supported_def
  noir_svm_not_supported_def

definition noir_status_severity :: "noir_status \<Rightarrow> u32" where
  "noir_status_severity st = drop_bit 30 st"

definition noir_status_facility :: "noir_status \<Rightarrow> u32" where
  "noir_status_facility st = drop_bit 24 st AND 0x3f"

definition noir_status_code :: "noir_status \<Rightarrow> u32" where
  "noir_status_code st = st AND 0xffffff"

lemma status_parts:
  "push_bit 30 (noir_status_severity st) OR push_bit 24 (noir_status_facility st) OR noir_status_code st = st"
proof (rule bit_word_eqI)
  fix n
  assume n: "n < LENGTH(32)"
  have c: "(0xffffff :: u32) = mask 24" "(0x3f :: u32) = mask 6"
    by (simp_all add: mask_eq_exp_minus_1)
  show "bit (push_bit 30 (noir_status_severity st) OR push_bit 24 (noir_status_facility st) OR noir_status_code st) n = bit st n"
    using n unfolding noir_status_severity_def noir_status_facility_def noir_status_code_def c
    by (cases "n < 24"; cases "n < 30") (auto simp: bit_simps)
qed

lemma success_distinct [simp]:
  "noir_insufficient_resources \<noteq> noir_success" "noir_not_implemented \<noteq> noir_success"
  "noir_unknown_processor \<noteq> noir_success" "noir_invalid_parameter \<noteq> noir_success"
  "noir_hypervision_absent \<noteq> noir_success" "noir_buffer_too_small \<noteq> noir_success"
  "noir_nsv_violation \<noteq> noir_success" "noir_unsuccessful \<noteq> noir_success"
  "noir_guest_page_absent \<noteq> noir_success" "noir_vcpu_already_created \<noteq> noir_success"
  by (simp_all add: status_defs)

lemmas success_distinct' [simp] = success_distinct [symmetric]

end
