(* ===== verification/Vendor.thy ===== *)
theory Vendor
  imports Search Status "HOL-Library.Char_ord"
begin

text \<open>
  Recognition of the processor manufacturer and the choice of the hypervisor core
  (\<open>nvc_confirm_cpu_manufacturer\<close> and its callers in \<open>xpf_core/noirhvm.c\<close>, with the tables of
  \<open>include/noirhvm.h\<close>).
\<close>

section \<open>The vendor table\<close>

definition intel_processor :: u8 where "intel_processor = 0"
definition amd_processor :: u8 where "amd_processor = 1"
definition via_processor :: u8 where "via_processor = 2"
definition zhaoxin_processor :: u8 where "zhaoxin_processor = 3"
definition hygon_processor :: u8 where "hygon_processor = 4"
definition centaur_processor :: u8 where "centaur_processor = 5"
definition cyrix_processor :: u8 where "cyrix_processor = 6"
definition trmeta_processor :: u8 where "trmeta_processor = 7"
definition nexgen_processor :: u8 where "nexgen_processor = 8"
definition sis_processor :: u8 where "sis_processor = 9"
definition nsc_processor :: u8 where "nsc_processor = 10"
definition rise_processor :: u8 where "rise_processor = 11"
definition umc_processor :: u8 where "umc_processor = 12"
definition vortex_processor :: u8 where "vortex_processor = 13"
definition unknown_processor :: u8 where "unknown_processor = 0xff"

lemmas processor_defs = intel_processor_def amd_processor_def via_processor_def
  zhaoxin_processor_def hygon_processor_def centaur_processor_def cyrix_processor_def
  trmeta_processor_def nexgen_processor_def sis_processor_def nsc_processor_def
  rise_processor_def umc_processor_def vortex_processor_def unknown_processor_def

definition known_vendor_strings :: u32 where "known_vendor_strings = 16"

definition vendor_string_list :: "string list" where
  "vendor_string_list =
    ['' Shanghai '', ''AMDisbetter!'', ''AuthenticAMD'', ''CentaurHauls'', ''CyrixInstead'',
     ''GenuineIntel'', ''GenuineTMx86'', ''Geode by NSC'', ''HygonGenuine'', ''NexGenDriven'',
     ''RiseRiseRise'', ''SiS SiS SiS '', ''TransmetaCPU'', ''UMC UMC UMC '', ''VIA VIA VIA '',
     ''Vortex86 SoC'']"

definition cpu_manuf_list :: "u8 list" where
  "cpu_manuf_list =
    [zhaoxin_processor, amd_processor, amd_processor, centaur_processor, cyrix_processor,
     intel_processor, trmeta_processor, nsc_processor, hygon_processor, nexgen_processor,
     rise_processor, sis_processor, trmeta_processor, umc_processor, via_processor,
     vortex_processor]"

text \<open>The C library's comparison of strings, characters taken as unsigned bytes.\<close>

fun strcmp :: "string \<Rightarrow> string \<Rightarrow> int" where
  "strcmp [] [] = 0"
| "strcmp [] (y # ys) = - 1"
| "strcmp (x # xs) [] = 1"
| "strcmp (x # xs) (y # ys) = (if x < y then - 1 else if y < x then 1 else strcmp xs ys)"

lemma strcmp_trans_less: "strcmp a b < 0 \<Longrightarrow> strcmp b c < 0 \<Longrightarrow> strcmp a c < 0"
proof (induction a b arbitrary: c rule: strcmp.induct)
  case (2 y ys)
  then show ?case by (cases c) auto
next
  case (4 x xs y ys)
  then show ?case by (cases c) (auto split: if_splits)
qed auto

lemma strcmp_flip: "strcmp a b = - strcmp b a"
  by (induction a b rule: strcmp.induct) auto

lemma strcmp_eq_0: "strcmp a b = 0 \<longleftrightarrow> a = b"
  by (induction a b rule: strcmp.induct) auto

lemma strcmp_refl [simp]: "strcmp a a = 0"
  by (simp add: strcmp_eq_0)

section \<open>Recognition\<close>

definition vendor_probe :: "string \<Rightarrow> u32 \<Rightarrow> probe option" where
  "vendor_probe vendor_string mid =
     (case nth_opt vendor_string_list (unat mid) of
        None \<Rightarrow> None
      | Some vsn \<Rightarrow>
          let cmp = strcmp vendor_string vsn in
          Some (if cmp > 0 then After else if cmp < 0 then Before else Found))"

text \<open>
  \<open>None\<close> is the behaviour C leaves undefined: the loop reads \<open>vendor_string_list\<close> outside its
  sixteen entries. Twenty rounds are enough for sixteen entries (\<open>vendor.search_settled\<close>).
\<close>

definition nvc_confirm_cpu_manufacturer :: "string \<Rightarrow> u8 option" where
  "nvc_confirm_cpu_manufacturer vendor_string =
     (case bsearch 20 (vendor_probe vendor_string) 0 known_vendor_strings of
        Hit mid \<Rightarrow> nth_opt cpu_manuf_list (unat mid)
      | Miss \<Rightarrow> Some unknown_processor
      | Wild mid \<Rightarrow> None
      | Out_of_fuel \<Rightarrow> None)"

lemma length_vendor_string_list [simp]: "length vendor_string_list = 16"
  by (simp add: vendor_string_list_def)

lemma vendor_list_step: "i < 15 \<Longrightarrow> strcmp (vendor_string_list ! i) (vendor_string_list ! Suc i) < 0"
proof -
  have "\<forall>i\<in>set [0..<15]. strcmp (vendor_string_list ! i) (vendor_string_list ! Suc i) < 0"
    by code_simp
  then show "i < 15 \<Longrightarrow> ?thesis" by auto
qed

lemma vendor_list_sorted:
  "i < j \<Longrightarrow> j < 16 \<Longrightarrow> strcmp (vendor_string_list ! i) (vendor_string_list ! j) < 0"
proof (induction j)
  case (Suc j)
  then show ?case
    using vendor_list_step [of j] by (cases "i = j") (auto intro: strcmp_trans_less)
qed simp

lemma vendor_probe_iff:
  "i < 16 \<Longrightarrow> vendor_probe v (of_nat i) = Some Before \<longleftrightarrow> strcmp v (vendor_string_list ! i) < 0"
  "i < 16 \<Longrightarrow> vendor_probe v (of_nat i) = Some After \<longleftrightarrow> 0 < strcmp v (vendor_string_list ! i)"
  "i < 16 \<Longrightarrow> vendor_probe v (of_nat i) = Some Found \<longleftrightarrow> v = vendor_string_list ! i"
  by (auto simp: vendor_probe_def nth_opt_def unat_of_nat Let_def strcmp_eq_0 not_less antisym)

interpretation vendor: sorted_slots "vendor_probe v" 16
proof
  show "2 * 16 + 1 < (2::nat) ^ LENGTH(32)" by simp
next
  fix i :: nat
  assume "i < 16"
  then show "vendor_probe v (of_nat i) \<noteq> None"
    by (simp add: vendor_probe_def nth_opt_def unat_of_nat Let_def)
next
  fix i j :: nat
  assume ij: "i < j" "j < 16"
  show "vendor_probe v (of_nat i) = Some Before \<Longrightarrow> vendor_probe v (of_nat j) = Some Before"
    using ij strcmp_trans_less [OF _ vendor_list_sorted [OF ij]] by (simp add: vendor_probe_iff)
  show "vendor_probe v (of_nat j) = Some After \<Longrightarrow> vendor_probe v (of_nat i) = Some After"
    using ij strcmp_trans_less [OF vendor_list_sorted [OF ij], of v]
    by (simp add: vendor_probe_iff strcmp_flip [of v])
next
  show "vendor_probe v (of_nat 16) \<in> {None, Some After}"
    "vendor_probe v (mask (LENGTH(32) - 1)) = None"
    by (simp_all add: vendor_probe_def nth_opt_def mask_eq_exp_minus_1)
qed

lemma vendor_list_distinct: "i < 16 \<Longrightarrow> j < 16 \<Longrightarrow> vendor_string_list ! i = vendor_string_list ! j \<Longrightarrow> i = j"
  using vendor_list_sorted [of i j] vendor_list_sorted [of j i] by (cases i j rule: linorder_cases) auto

lemma confirm_listed:
  assumes i: "i < 16"
  shows "nvc_confirm_cpu_manufacturer (vendor_string_list ! i) = Some (cpu_manuf_list ! i)"
proof -
  let ?v = "vendor_string_list ! i"
  obtain m where m: "m < 16" "bsearch 20 (vendor_probe ?v) 0 known_vendor_strings = Hit (of_nat m)"
    "vendor_probe ?v (of_nat m) = Some Found"
    using vendor.found [of 20 i ?v] i by (auto simp: known_vendor_strings_def vendor_probe_iff)
  then have "m = i" using vendor_list_distinct i by (simp add: vendor_probe_iff)
  then show ?thesis
    using m i by (simp add: nvc_confirm_cpu_manufacturer_def nth_opt_def unat_of_nat cpu_manuf_list_def)
qed

lemma confirm_unlisted:
  assumes "v \<notin> set vendor_string_list"
  shows "nvc_confirm_cpu_manufacturer v =
    (if strcmp v '' Shanghai '' < 0 \<or> 0 < strcmp v ''Vortex86 SoC'' then None else Some unknown_processor)"
proof -
  have out: "vendor_probe v (of_nat i) \<noteq> Some Found" if "i < 16" for i
    using that assms vendor_probe_iff(3) [OF that, of v] by (auto simp: in_set_conv_nth)
  have ends: "vendor_string_list ! 0 = '' Shanghai ''" "vendor_string_list ! 15 = ''Vortex86 SoC''"
    by (simp_all add: vendor_string_list_def)
  have below: "vendor_probe v 0 = Some Before \<longleftrightarrow> strcmp v '' Shanghai '' < 0"
    using vendor_probe_iff(1) [of 0 v] ends by simp
  have above: "vendor_probe v 15 = Some After \<longleftrightarrow> 0 < strcmp v ''Vortex86 SoC''"
    using vendor_probe_iff(2) [of 15 v] ends by simp
  have past: "vendor_probe v 16 = None"
    by (simp add: vendor_probe_def nth_opt_def)
  show ?thesis
    using vendor.missing [of 20 v, OF _ _ out] below above past
    by (simp add: nvc_confirm_cpu_manufacturer_def known_vendor_strings_def)
qed

section \<open>The CPUID vendor and brand strings\<close>

text \<open>The processor is a parameter: \<open>cpuid leaf subleaf\<close> is what the instruction returns.\<close>

record cpuid_regs =
  cpuid_eax :: u32
  cpuid_ebx :: u32
  cpuid_ecx :: u32
  cpuid_edx :: u32

type_synonym cpuid = "u32 \<Rightarrow> u32 \<Rightarrow> cpuid_regs"

definition bytes_of_u32 :: "u32 \<Rightarrow> u8 list" where
  "bytes_of_u32 v = map (\<lambda>i. ucast (drop_bit (8 * i) v)) [0..<4]"

text \<open>The C string that a character buffer holds: the bytes before the first zero.\<close>

definition c_string :: "u8 list \<Rightarrow> string" where
  "c_string bs = map (\<lambda>b. char_of (unat b)) (takeWhile (\<lambda>b. b \<noteq> 0) bs)"

definition noir_get_vendor_string :: "cpuid \<Rightarrow> u8 list" where
  "noir_get_vendor_string cpuid =
     (let r = cpuid 0 0 in
      bytes_of_u32 (cpuid_ebx r) @ bytes_of_u32 (cpuid_edx r) @ bytes_of_u32 (cpuid_ecx r) @ [0])"

definition noir_get_processor_name :: "cpuid \<Rightarrow> u8 list" where
  "noir_get_processor_name cpuid =
     concat (map (\<lambda>leaf. let r = cpuid leaf 0 in
        bytes_of_u32 (cpuid_eax r) @ bytes_of_u32 (cpuid_ebx r) @
        bytes_of_u32 (cpuid_ecx r) @ bytes_of_u32 (cpuid_edx r)) [0x80000002, 0x80000003, 0x80000004]) @ [0]"

definition noir_is_under_hvm :: "cpuid \<Rightarrow> bool" where
  "noir_is_under_hvm cpuid \<longleftrightarrow> noir_bt (cpuid_ecx (cpuid 1 0)) 31"

definition noir_visor_version :: u32 where
  "noir_visor_version = (let major = (1 :: u16); minor = (0 :: u16) in push_bit 16 (ucast major) OR ucast minor)"

section \<open>The choice of the core\<close>

definition use_nothing :: u8 where "use_nothing = 0"
definition use_vt_core :: u8 where "use_vt_core = 1"
definition use_svm_core :: u8 where "use_svm_core = 2"
definition use_unknown_core :: u8 where "use_unknown_core = 0xff"

lemmas core_defs = use_nothing_def use_vt_core_def use_svm_core_def use_unknown_core_def

text \<open>
  The fields of the central hypervisor structure that the components here read or write; the
  reverse-mapping directory and the I/O hook trees have states of their own.
\<close>

record noir_hypervisor =
  hv_options :: u64
  hv_cvm_cap :: u64
  hv_xfeat_support_mask :: u64
  hv_xfeat_supported_size_max :: u32
  hv_host_pat :: "u8 list"
  hv_vendor_string :: "u8 list"
  hv_cpu_manuf :: u8
  hv_selected_core :: u8

text \<open>What the two cores and the platform answer: a parameter of this component.\<close>

record core_services =
  nvc_is_vt_supported :: bool
  nvc_is_ept_supported :: bool
  nvc_is_vmcs_shadowing_supported :: bool
  nvc_is_vt_enabled :: bool
  nvc_vt_get_avail_vpid :: u32
  nvc_vt_subvert_system :: "noir_hypervisor \<Rightarrow> noir_status \<times> noir_hypervisor"
  nvc_is_svm_supported :: bool
  nvc_is_npt_supported :: bool
  nvc_is_acnested_svm_supported :: bool
  nvc_is_svm_disabled :: bool
  nvc_svm_get_avail_asid :: u32
  nvc_svm_subvert_system :: "noir_hypervisor \<Rightarrow> noir_status \<times> noir_hypervisor"
  noir_query_enabled_features_in_system :: u64

definition vt_vendor :: "u8 \<Rightarrow> bool" where
  "vt_vendor manuf \<longleftrightarrow> manuf = intel_processor \<or> manuf = via_processor \<or> manuf = zhaoxin_processor"

definition svm_vendor :: "u8 \<Rightarrow> bool" where
  "svm_vendor manuf \<longleftrightarrow> manuf = amd_processor \<or> manuf = hygon_processor"

definition nvc_query_physical_asid_limit :: "core_services \<Rightarrow> string \<Rightarrow> u32 option" where
  "nvc_query_physical_asid_limit cs vendor_string =
     map_option (\<lambda>manuf. if vt_vendor manuf then nvc_vt_get_avail_vpid cs
                        else if svm_vendor manuf then nvc_svm_get_avail_asid cs
                        else 0) (nvc_confirm_cpu_manufacturer vendor_string)"

definition noir_is_virtualization_enabled :: "core_services \<Rightarrow> cpuid \<Rightarrow> bool option" where
  "noir_is_virtualization_enabled cs cpuid =
     map_option (\<lambda>manuf. if vt_vendor manuf then nvc_is_vt_enabled cs
                        else if svm_vendor manuf then \<not> nvc_is_svm_disabled cs
                        else False)
       (nvc_confirm_cpu_manufacturer (c_string (noir_get_vendor_string cpuid)))"

definition noir_get_virtualization_supportability :: "core_services \<Rightarrow> cpuid \<Rightarrow> u32 option" where
  "noir_get_virtualization_supportability cs cpuid =
     map_option (\<lambda>manuf.
       let (basic, slat, acnest) =
         (if vt_vendor manuf then
            (nvc_is_vt_supported cs, nvc_is_ept_supported cs, nvc_is_vmcs_shadowing_supported cs)
          else if svm_vendor manuf then
            (nvc_is_svm_supported cs, nvc_is_npt_supported cs, nvc_is_acnested_svm_supported cs)
          else (False, False, False))
       in push_bit 0 (of_flag basic) OR push_bit 1 (of_flag slat) OR push_bit 2 (of_flag acnest))
       (nvc_confirm_cpu_manufacturer (c_string (noir_get_vendor_string cpuid)))"

text \<open>
  \<open>nvc_build_hypervisor\<close>: the \<open>switch\<close> on the manufacturer with its jumps to one of the two
  subversion labels; the core is selected before the support test.
\<close>

definition nvc_build_hypervisor :: "core_services \<Rightarrow> cpuid \<Rightarrow> noir_hypervisor \<Rightarrow> (noir_status \<times> noir_hypervisor) option" where
  "nvc_build_hypervisor cs cpuid hv =
     (let vs = noir_get_vendor_string cpuid in
      case nvc_confirm_cpu_manufacturer (c_string vs) of
        None \<Rightarrow> None
      | Some manuf \<Rightarrow>
          let hv = hv\<lparr>hv_vendor_string := vs, hv_cpu_manuf := manuf,
                      hv_options := noir_query_enabled_features_in_system cs\<rparr> in
          Some
            (if manuf = intel_processor \<or> manuf = via_processor \<or> manuf = zhaoxin_processor
                \<or> manuf = centaur_processor then
               (let hv = hv\<lparr>hv_selected_core := use_vt_core\<rparr> in
                if nvc_is_vt_supported cs then nvc_vt_subvert_system cs hv
                else (noir_vmx_not_supported, hv))
             else if manuf = amd_processor \<or> manuf = hygon_processor then
               (let hv = hv\<lparr>hv_selected_core := use_svm_core\<rparr> in
                if nvc_is_svm_supported cs then nvc_svm_subvert_system cs hv
                else (noir_svm_not_supported, hv))
             else (noir_unknown_processor, hv)))"

text \<open>\<open>nvc_teardown_hypervisor\<close> restores through the core that \<open>nvc_build_hypervisor\<close> chose.\<close>

datatype restoration = Vmx_restoration | Svm_restoration | No_restoration

definition nvc_teardown_hypervisor :: "noir_hypervisor \<Rightarrow> restoration" where
  "nvc_teardown_hypervisor hv =
     (let manuf = hv_cpu_manuf hv in
      if manuf = intel_processor then Vmx_restoration
      else if manuf = amd_processor then Svm_restoration
      else if manuf = via_processor then Vmx_restoration
      else if manuf = zhaoxin_processor then Vmx_restoration
      else if manuf = hygon_processor then Svm_restoration
      else if manuf = centaur_processor then Vmx_restoration
      else No_restoration)"

section \<open>Properties\<close>

text \<open>The binary search of \<open>nvc_confirm_cpu_manufacturer\<close> computes the table: a listed vendor
  string gives the manufacturer beside it, an unlisted one between the first and the last entry
  gives \<open>unknown_processor\<close>, and an unlisted one below the first or above the last entry makes the
  loop read the table out of its bounds (the upper bound starts one past the last entry, and
  \<open>mid-1\<close> wraps at 0).\<close>

theorem confirm_eq_table:
  "nvc_confirm_cpu_manufacturer v =
     (if v \<in> set vendor_string_list then map_of (zip vendor_string_list cpu_manuf_list) v
      else if strcmp v '' Shanghai '' < 0 \<or> 0 < strcmp v ''Vortex86 SoC'' then None
      else Some unknown_processor)"
proof (cases "v \<in> set vendor_string_list")
  case True
  then obtain i where "i < 16" "v = vendor_string_list ! i"
    by (auto simp: in_set_conv_nth)
  moreover have "distinct vendor_string_list" "length cpu_manuf_list = 16"
    by (simp_all add: vendor_string_list_def cpu_manuf_list_def)
  ultimately show ?thesis
    using True confirm_listed by (simp add: map_of_zip_nth)
qed (simp add: confirm_unlisted)

text \<open>The three recognisers do not agree on a Centaur processor: \<open>nvc_build_hypervisor\<close> selects
  the VT core and subverts the system when VT-x is there, while the queries of the same processor
  report that virtualization is disabled and that nothing is supported.\<close>

theorem centaur_disagreement:
  assumes "c_string (noir_get_vendor_string cpuid) = ''CentaurHauls''" and "nvc_is_vt_supported cs"
  shows "noir_is_virtualization_enabled cs cpuid = Some False \<and>
    noir_get_virtualization_supportability cs cpuid = Some 0 \<and>
    nvc_build_hypervisor cs cpuid hv = Some (nvc_vt_subvert_system cs
      (hv\<lparr>hv_vendor_string := noir_get_vendor_string cpuid, hv_cpu_manuf := centaur_processor,
          hv_options := noir_query_enabled_features_in_system cs, hv_selected_core := use_vt_core\<rparr>))"
proof -
  have "nvc_confirm_cpu_manufacturer ''CentaurHauls'' = Some centaur_processor"
    using confirm_listed [of 3] by (simp add: vendor_string_list_def cpu_manuf_list_def)
  with assms show ?thesis
    by (simp add: noir_is_virtualization_enabled_def noir_get_virtualization_supportability_def
        nvc_build_hypervisor_def vt_vendor_def svm_vendor_def processor_defs Let_def)
qed

definition centaur_cpuid :: cpuid where
  "centaur_cpuid leaf sub = \<lparr>cpuid_eax = 1, cpuid_ebx = 0x746e6543, cpuid_ecx = 0x736c7561, cpuid_edx = 0x48727561\<rparr>"

definition example_hypervisor :: noir_hypervisor where
  "example_hypervisor =
     \<lparr>hv_options = 0, hv_cvm_cap = 0, hv_xfeat_support_mask = 7, hv_xfeat_supported_size_max = 832,
      hv_host_pat = [6, 4, 7, 0, 6, 4, 7, 0], hv_vendor_string = [], hv_cpu_manuf = 0,
      hv_selected_core = use_nothing\<rparr>"

definition example_services :: core_services where
  "example_services =
     \<lparr>nvc_is_vt_supported = True, nvc_is_ept_supported = True, nvc_is_vmcs_shadowing_supported = True,
      nvc_is_vt_enabled = True, nvc_vt_get_avail_vpid = 0x10000,
      nvc_vt_subvert_system = (\<lambda>hv. (noir_success, hv)),
      nvc_is_svm_supported = True, nvc_is_npt_supported = True, nvc_is_acnested_svm_supported = True,
      nvc_is_svm_disabled = False, nvc_svm_get_avail_asid = 0x8000,
      nvc_svm_subvert_system = (\<lambda>hv. (noir_success, hv)), noir_query_enabled_features_in_system = 0\<rparr>"

lemma centaur_cpuid_string: "c_string (noir_get_vendor_string centaur_cpuid) = ''CentaurHauls''"
  by code_simp

theorem centaur_disagreement_witness:
  "noir_is_virtualization_enabled example_services centaur_cpuid = Some False \<and>
   noir_get_virtualization_supportability example_services centaur_cpuid = Some 0"
  using centaur_disagreement [OF centaur_cpuid_string, of example_services]
  by (simp add: example_services_def)

text \<open>A hypervisor is torn down through the core that built it: whenever \<open>nvc_build_hypervisor\<close>
  succeeds, the restoration that \<open>nvc_teardown_hypervisor\<close> picks from the recorded manufacturer is
  the one of the selected core. The two subversion routines are assumed to keep the two fields that
  record the choice.\<close>

theorem teardown_matches_build:
  assumes "\<And>h. hv_cpu_manuf (snd (nvc_vt_subvert_system cs h)) = hv_cpu_manuf h \<and>
                hv_selected_core (snd (nvc_vt_subvert_system cs h)) = hv_selected_core h"
    and "\<And>h. hv_cpu_manuf (snd (nvc_svm_subvert_system cs h)) = hv_cpu_manuf h \<and>
                hv_selected_core (snd (nvc_svm_subvert_system cs h)) = hv_selected_core h"
    and "nvc_build_hypervisor cs cpuid hv = Some (noir_success, hv')"
  shows "(nvc_teardown_hypervisor hv' = Vmx_restoration \<and> hv_selected_core hv' = use_vt_core) \<or>
         (nvc_teardown_hypervisor hv' = Svm_restoration \<and> hv_selected_core hv' = use_svm_core)"
proof -
  have keep: "nvc_vt_subvert_system cs h = (st, h') \<Longrightarrow> hv_cpu_manuf h' = hv_cpu_manuf h \<and> hv_selected_core h' = hv_selected_core h"
    "nvc_svm_subvert_system cs h = (st, h') \<Longrightarrow> hv_cpu_manuf h' = hv_cpu_manuf h \<and> hv_selected_core h' = hv_selected_core h"
    for h st h' using assms(1,2) [of h] by auto
  show ?thesis
    using assms(3)
    by (auto simp: nvc_build_hypervisor_def nvc_teardown_hypervisor_def Let_def processor_defs
        noir_vmx_not_supported_def noir_svm_not_supported_def noir_unknown_processor_def
        noir_success_def split: option.splits if_splits dest!: keep)
qed

theorem teardown_matches_build_witness:
  "\<exists>hv'. nvc_build_hypervisor example_services centaur_cpuid example_hypervisor = Some (noir_success, hv') \<and>
     ((nvc_teardown_hypervisor hv' = Vmx_restoration \<and> hv_selected_core hv' = use_vt_core) \<or>
      (nvc_teardown_hypervisor hv' = Svm_restoration \<and> hv_selected_core hv' = use_svm_core))"
proof -
  have "\<exists>hv'. nvc_build_hypervisor example_services centaur_cpuid example_hypervisor = Some (noir_success, hv')"
  proof -
    have "nvc_confirm_cpu_manufacturer ''CentaurHauls'' = Some centaur_processor"
      using confirm_listed [of 3] by (simp add: vendor_string_list_def cpu_manuf_list_def)
    then show ?thesis
      using centaur_cpuid_string by (simp add: nvc_build_hypervisor_def example_services_def Let_def)
  qed
  then obtain hv' where b: "nvc_build_hypervisor example_services centaur_cpuid example_hypervisor = Some (noir_success, hv')"
    by blast
  from teardown_matches_build [OF _ _ b] show ?thesis
    using b by (simp add: example_services_def)
qed

end
