(* ===== verification/Paging_Units.thy ===== *)
theory Paging_Units
  imports Layouts
begin

text \<open>
  The page arithmetic of \<open>nvbdk.h\<close> on 64-bit addresses, and when an address lies in the region that
  a paging-structure descriptor covers.
\<close>

definition page_4kb_size :: u64 where "page_4kb_size = 0x1000"
definition page_2mb_size :: u64 where "page_2mb_size = 0x200000"
definition page_1gb_size :: u64 where "page_1gb_size = 0x40000000"
definition page_512gb_size :: u64 where "page_512gb_size = 0x8000000000"

definition page_4kb_offset :: "u64 \<Rightarrow> u64" where "page_4kb_offset x = x AND 0xfff"
definition page_2mb_offset :: "u64 \<Rightarrow> u64" where "page_2mb_offset x = x AND 0x1fffff"
definition page_4mb_offset :: "u64 \<Rightarrow> u64" where "page_4mb_offset x = x AND 0x3fffff"
definition page_1gb_offset :: "u64 \<Rightarrow> u64" where "page_1gb_offset x = x AND 0x3fffffff"

definition page_4kb_count :: "u64 \<Rightarrow> u64" where "page_4kb_count x = drop_bit 12 x"
definition page_2mb_count :: "u64 \<Rightarrow> u64" where "page_2mb_count x = drop_bit 21 x"
definition page_1gb_count :: "u64 \<Rightarrow> u64" where "page_1gb_count x = drop_bit 30 x"

definition page_4kb_mult :: "'a::len word \<Rightarrow> 'a word" where "page_4kb_mult x = push_bit 12 x"
definition page_2mb_mult :: "'a::len word \<Rightarrow> 'a word" where "page_2mb_mult x = push_bit 21 x"
definition page_4mb_mult :: "'a::len word \<Rightarrow> 'a word" where "page_4mb_mult x = push_bit 22 x"
definition page_1gb_mult :: "'a::len word \<Rightarrow> 'a word" where "page_1gb_mult x = push_bit 30 x"

definition page_4kb_base :: "u64 \<Rightarrow> u64" where "page_4kb_base x = x AND 0xfffffffffffff000"
definition page_2mb_base :: "u64 \<Rightarrow> u64" where "page_2mb_base x = x AND 0xffffffffffe00000"
definition page_1gb_base :: "u64 \<Rightarrow> u64" where "page_1gb_base x = x AND 0xffffffffc0000000"
definition page_512gb_base :: "u64 \<Rightarrow> u64" where "page_512gb_base x = x AND 0xffffff8000000000"
definition page_pae_base :: "u64 \<Rightarrow> u64" where "page_pae_base x = x AND 0xffffffffffffffe0"

definition page_entry_index64 :: "u64 \<Rightarrow> 9 word" where "page_entry_index64 x = ucast (x AND 511)"

section \<open>The macros as bit operations\<close>

lemma page_offset_mask:
  "page_4kb_offset x = take_bit 12 x" "page_2mb_offset x = take_bit 21 x"
  "page_4mb_offset x = take_bit 22 x" "page_1gb_offset x = take_bit 30 x"
  by (simp_all add: page_4kb_offset_def page_2mb_offset_def page_4mb_offset_def page_1gb_offset_def
      take_bit_eq_mask mask_eq_exp_minus_1)

lemma base_masks:
  "(0xfffffffffffff000 :: u64) = NOT (mask 12)" "(0xffffffffffe00000 :: u64) = NOT (mask 21)"
  "(0xffffffffc0000000 :: u64) = NOT (mask 30)" "(0xffffff8000000000 :: u64) = NOT (mask 39)"
  "(511 :: u64) = mask 9"
  by (simp_all add: mask_eq_exp_minus_1)

lemma page_base_mask:
  "page_4kb_base x = x AND NOT (mask 12)" "page_2mb_base x = x AND NOT (mask 21)"
  "page_1gb_base x = x AND NOT (mask 30)" "page_512gb_base x = x AND NOT (mask 39)"
  unfolding page_4kb_base_def page_2mb_base_def page_1gb_base_def page_512gb_base_def base_masks
  by (rule refl)+

lemma page_size_exp:
  "page_4kb_size = 2 ^ 12" "page_2mb_size = 2 ^ 21" "page_1gb_size = 2 ^ 30" "page_512gb_size = 2 ^ 39"
  by (simp_all add: page_4kb_size_def page_2mb_size_def page_1gb_size_def page_512gb_size_def)

lemma page_entry_index64_ucast: "page_entry_index64 x = ucast x"
  unfolding page_entry_index64_def base_masks by (intro bit_word_eqI) (auto simp: bit_simps)

text \<open>The two views of an index into a paging structure: a bit field and a shift.\<close>

lemma ucast_slice9: "ucast (slice_get lo 9 (x :: u64)) = (ucast (drop_bit lo x) :: 9 word)"
  by (intro bit_word_eqI) (auto simp: bit_simps)

section \<open>Regions\<close>

definition region_start :: "nat \<Rightarrow> u64 \<Rightarrow> u64" where
  "region_start k x = x AND NOT (mask k)"

definition in_region :: "u64 \<Rightarrow> u64 \<Rightarrow> u64 \<Rightarrow> bool" where
  "in_region sz gpa start \<longleftrightarrow> start \<le> gpa \<and> gpa < start + sz"

definition low_half :: "u64 \<Rightarrow> bool" where
  "low_half x \<longleftrightarrow> drop_bit 48 x = 0"

lemma drop_region_start [simp]: "drop_bit k (region_start k x) = drop_bit k x"
  by (rule bit_word_eqI) (auto simp: region_start_def bit_simps dest: bit_imp_le_length)

lemma region_start_idem [simp]: "region_start k (region_start k x) = region_start k x"
  by (rule bit_word_eqI) (auto simp: region_start_def bit_simps)

lemma bit_low_half: "low_half x \<longleftrightarrow> (\<forall>n. bit x n \<longrightarrow> n < 48)"
proof
  assume "low_half x"
  then have "\<not> bit (drop_bit 48 x) (n - 48)" for n
    by (simp add: low_half_def)
  then have "\<not> bit x n" if "48 \<le> n" for n
    using that le_add_diff_inverse [OF that] by (metis bit_drop_bit_eq comp_apply)
  then show "\<forall>n. bit x n \<longrightarrow> n < 48"
    by (auto simp: not_le [symmetric])
next
  assume *: "\<forall>n. bit x n \<longrightarrow> n < 48"
  show "low_half x"
    unfolding low_half_def by (rule bit_word_eqI) (use * in \<open>fastforce simp: bit_simps\<close>)
qed

lemma low_half_region_start [simp]: "low_half x \<Longrightarrow> low_half (region_start k x)"
  by (auto simp: bit_low_half region_start_def bit_simps)

lemma unat_drop_bit64: "unat (drop_bit k (x :: u64)) = unat x div 2 ^ k"
  using unsigned_less [of x, where 'a = nat] unfolding unsigned_drop_bit_eq
  by (simp add: drop_bit_eq_div take_bit_nat_eq_self)

lemma low_half_less: "low_half x \<longleftrightarrow> unat x < 2 ^ 48"
  using unat_drop_bit64 [of 48 x] unsigned_eq_0_iff [of "drop_bit 48 x", where 'a = nat]
  by (simp add: low_half_def div_eq_0_iff)

lemma region_start_dvd:
  assumes "region_start k x = x"
  shows "2 ^ k dvd unat x"
proof -
  have "take_bit k x = 0"
  proof (rule bit_word_eqI)
    fix n
    have "bit x n = bit (region_start k x) n" using assms by simp
    then show "bit (take_bit k x) n = bit 0 n" by (auto simp: region_start_def bit_simps)
  qed
  then have "take_bit k (unat x) = 0"
    by (metis unsigned_take_bit_eq unsigned_0)
  then show ?thesis by (simp add: take_bit_eq_0_iff)
qed

lemma unat_exp64: "k < 64 \<Longrightarrow> unat ((2 :: u64) ^ k) = 2 ^ k"
proof -
  assume "k < 64"
  then have "(2 :: nat) ^ k < 2 ^ 64" by (rule power_strict_increasing) simp
  then have "unat (of_nat (2 ^ k) :: u64) = 2 ^ k" by (simp add: unat_of_nat del: of_nat_power)
  then show ?thesis by simp
qed

lemma div_region:
  fixes g q d :: nat
  assumes "0 < d"
  shows "d * q \<le> g \<and> g < d * q + d \<longleftrightarrow> g div d = q"
proof
  assume "d * q \<le> g \<and> g < d * q + d"
  then show "g div d = q" by (intro div_nat_eqI) (simp_all add: mult.commute)
next
  assume "g div d = q"
  then show "d * q \<le> g \<and> g < d * q + d"
    using mult_div_mod_eq [of d g] mod_less_divisor [OF assms, of g] by auto
qed

text \<open>An address is in the region of an aligned start exactly when the bits above agree.\<close>

lemma in_region_iff:
  assumes "region_start k s = s" "low_half s" "k \<le> 39"
  shows "in_region (2 ^ k) gpa s \<longleftrightarrow> drop_bit k gpa = drop_bit k s"
proof -
  have k2: "(2::nat) ^ k \<le> 2 ^ 39" using assms(3) by (rule power_increasing) simp
  have s48: "unat s < 2 ^ 48" using assms(2) by (simp add: low_half_less)
  have p: "unat ((2 :: u64) ^ k) = 2 ^ k"
    using assms(3) by (intro unat_exp64) simp
  have sum: "unat (s + 2 ^ k) = unat s + 2 ^ k"
    using s48 k2 by (simp add: unat_word_ariths p)
  obtain q where q: "unat s = 2 ^ k * q"
    using region_start_dvd [OF assms(1)] by (elim dvdE)
  have "in_region (2 ^ k) gpa s \<longleftrightarrow> unat s \<le> unat gpa \<and> unat gpa < unat s + 2 ^ k"
    by (simp add: in_region_def word_le_nat_alt word_less_nat_alt sum)
  also have "\<dots> \<longleftrightarrow> unat gpa div 2 ^ k = q"
    unfolding q by (rule div_region) simp
  also have "\<dots> \<longleftrightarrow> unat (drop_bit k gpa) = unat (drop_bit k s)"
    by (simp add: unat_drop_bit64 q)
  finally show ?thesis by (metis unsigned_word_eqI)
qed

end
