(* ===== verification/Npt_Custom.thy ===== *)
theory Npt_Custom
  imports Paging_Units Status
begin

text \<open>
  The nested paging of a customizable VM on AMD-V (\<open>svm_core/svm_custom.c\<close>): the manager keeps one
  list of descriptors per level, each descriptor owning a page of 512 entries, and the mapping
  routines allocate a level on demand and link it to the level above.
\<close>

section \<open>State\<close>

type_synonym entries = "9 word \<Rightarrow> u64"

text \<open>
  A paging-structure descriptor: the table it owns (\<open>virt\<close>), the physical address of that table
  and the start of the guest-physical region it describes.
\<close>

record npt_descriptor =
  virt :: entries
  phys :: u64
  gpa_start :: u64

text \<open>
  The linked lists with \<open>head\<close> and \<open>tail\<close> pointers are lists: they are only ever walked from the
  head and appended to at the tail.
\<close>

record svm_npt_manager =
  ncr3_virt :: entries
  ncr3_phys :: u64
  pdpte_list :: "npt_descriptor list"
  pde_list :: "npt_descriptor list"
  pte_list :: "npt_descriptor list"

text \<open>
  The allocators are the platform's. \<open>pool\<close> gives the outcomes of the coming descriptor
  allocations, \<open>pages\<close> those of the coming page allocations: \<open>None\<close> is a failure, \<open>Some p\<close> a
  zeroed page at physical address \<open>p\<close>. An exhausted list fails.
\<close>

record allocs =
  pool :: "bool list"
  pages :: "u64 option list"

definition next_pool :: "allocs \<Rightarrow> bool \<times> allocs" where
  "next_pool al = (case pool al of [] \<Rightarrow> (False, al) | b # bs \<Rightarrow> (b, al\<lparr>pool := bs\<rparr>))"

definition next_page :: "allocs \<Rightarrow> u64 option \<times> allocs" where
  "next_page al = (case pages al of [] \<Rightarrow> (None, al) | p # ps \<Rightarrow> (p, al\<lparr>pages := ps\<rparr>))"

section \<open>Entries\<close>

text \<open>The first index of the host's PAT with the given memory type, \<open>0xff\<close> if there is none.\<close>

definition nvc_npt_get_host_pat_index :: "u8 list \<Rightarrow> u8 \<Rightarrow> u8" where
  "nvc_npt_get_host_pat_index host_pat ty =
     (case List.find (\<lambda>i. host_pat ! i = ty) [0..<8] of Some i \<Rightarrow> of_nat i | None \<Rightarrow> 0xff)"

definition map_bit :: "u32 \<Rightarrow> string \<Rightarrow> u64" where
  "map_bit map_attrib f = ucast (bf_get noir_cvm_mapping_attributes f map_attrib)"

definition map_caching :: "u32 \<Rightarrow> u8" where
  "map_caching map_attrib = ucast (bf_get noir_cvm_mapping_attributes ''caching'' map_attrib)"

definition map_psize :: "u32 \<Rightarrow> nat" where
  "map_psize map_attrib = unat (bf_get noir_cvm_mapping_attributes ''psize'' map_attrib)"

text \<open>
  The assignments that the three leaf formats share; \<open>L\<close> is the layout of the entry. The C code
  assigns \<open>!execute\<close> to \<open>no_execute\<close> and three bits of the PAT index to \<open>pwt\<close>, \<open>pcd\<close> and \<open>pat\<close>.
\<close>

definition put_attributes :: "u8 list \<Rightarrow> bf_layout \<Rightarrow> u32 \<Rightarrow> u64 \<Rightarrow> u64" where
  "put_attributes host_pat L map_attrib e0 =
     (let pat_index = nvc_npt_get_host_pat_index host_pat (map_caching map_attrib);
          e1 = bf_put L ''present'' (map_bit map_attrib ''present'') e0;
          e2 = bf_put L ''write'' (map_bit map_attrib ''write'') e1;
          e3 = bf_put L ''user'' (map_bit map_attrib ''user'') e2;
          e4 = bf_put L ''no_execute'' (of_flag (map_bit map_attrib ''execute'' = 0)) e3;
          e5 = bf_put L ''pwt'' (of_flag (noir_bt pat_index 0)) e4;
          e6 = bf_put L ''pcd'' (of_flag (noir_bt pat_index 1)) e5
      in bf_put L ''pat'' (of_flag (noir_bt pat_index 2)) e6)"

definition put_table :: "bf_layout \<Rightarrow> u64" where
  "put_table L = bf_put L ''user'' 1 (bf_put L ''write'' 1 (bf_put L ''present'' 1 0))"

definition nvc_svmc_set_pte_entry :: "u8 list \<Rightarrow> u64 \<Rightarrow> u32 \<Rightarrow> u64" where
  "nvc_svmc_set_pte_entry host_pat hpa map_attrib =
     bf_put amd64_npt_pte ''page_base'' (page_4kb_count hpa)
       (put_attributes host_pat amd64_npt_pte map_attrib 0)"

definition nvc_svmc_set_pde_entry :: "u8 list \<Rightarrow> u64 \<Rightarrow> u32 \<Rightarrow> u64" where
  "nvc_svmc_set_pde_entry host_pat hpa map_attrib =
     (if map_psize map_attrib \<noteq> 1 then
        bf_put amd64_npt_pde ''pte_base'' (page_4kb_count hpa) (put_table amd64_npt_pde)
      else
        bf_put amd64_npt_large_pde ''large_pde'' 1
          (bf_put amd64_npt_large_pde ''page_base'' (page_2mb_count hpa)
            (put_attributes host_pat amd64_npt_large_pde map_attrib 0)))"

definition nvc_svmc_set_pdpte_entry :: "u8 list \<Rightarrow> u64 \<Rightarrow> u32 \<Rightarrow> u64" where
  "nvc_svmc_set_pdpte_entry host_pat hpa map_attrib =
     (if map_psize map_attrib \<noteq> 2 then
        bf_put amd64_npt_pdpte ''pde_base'' (page_4kb_count hpa) (put_table amd64_npt_pdpte)
      else
        bf_put amd64_npt_huge_pdpte ''huge_pdpte'' 1
          (bf_put amd64_npt_huge_pdpte ''page_base'' (page_1gb_count hpa)
            (put_attributes host_pat amd64_npt_huge_pdpte map_attrib 0)))"

definition nvc_svmc_set_pml4e_entry :: "u64 \<Rightarrow> u64" where
  "nvc_svmc_set_pml4e_entry hpa =
     bf_put amd64_npt_pml4e ''pdpte_base'' (page_4kb_count hpa) (put_table amd64_npt_pml4e)"

section \<open>Descriptors\<close>

text \<open>\<open>amd64_addr_translator\<close>: the index of a guest-physical address at one level.\<close>

definition gpa_index :: "string \<Rightarrow> u64 \<Rightarrow> 9 word" where
  "gpa_index f gpa = ucast (bf_get amd64_addr_translator f gpa)"

text \<open>The \<open>while(cur)\<close> search for the descriptor whose region holds the address.\<close>

fun find_desc :: "u64 \<Rightarrow> u64 \<Rightarrow> npt_descriptor list \<Rightarrow> nat option" where
  "find_desc sz gpa [] = None"
| "find_desc sz gpa (d # ds) =
     (if in_region sz gpa (gpa_start d) then Some 0 else map_option Suc (find_desc sz gpa ds))"

definition new_desc :: "u64 \<Rightarrow> u64 \<Rightarrow> 9 word \<Rightarrow> u64 \<Rightarrow> npt_descriptor" where
  "new_desc p start i e = \<lparr>virt = (\<lambda>_. 0)(i := e), phys = p, gpa_start = start\<rparr>"

definition set_entry :: "npt_descriptor list \<Rightarrow> nat \<Rightarrow> 9 word \<Rightarrow> u64 \<Rightarrow> npt_descriptor list" where
  "set_entry ds k i e = ds[k := (ds ! k)\<lparr>virt := (virt (ds ! k))(i := e)\<rparr>]"

section \<open>Creation of a level\<close>

text \<open>\<open>null_map={0}\<close>\<close>

definition null_map :: u32 where "null_map = 0"

definition nvc_svmc_create_1gb_page_map ::
  "u8 list \<Rightarrow> svm_npt_manager \<Rightarrow> u64 \<Rightarrow> u64 \<Rightarrow> u32 \<Rightarrow> allocs \<Rightarrow> noir_status \<times> svm_npt_manager \<times> allocs" where
  "nvc_svmc_create_1gb_page_map host_pat m gpa hpa map_attrib al0 =
     (case next_pool al0 of
        (False, al1) \<Rightarrow> (noir_insufficient_resources, m, al1)
      | (True, al1) \<Rightarrow>
          (case next_page al1 of
             (None, al2) \<Rightarrow> (noir_insufficient_resources, m, al2)
           | (Some p, al2) \<Rightarrow>
               let d = new_desc p (page_512gb_base gpa) (gpa_index ''pdpte_offset'' gpa)
                         (nvc_svmc_set_pdpte_entry host_pat hpa map_attrib)
               in (noir_success,
                   m\<lparr>ncr3_virt := (ncr3_virt m)(gpa_index ''pml4e_offset'' gpa := nvc_svmc_set_pml4e_entry p),
                     pdpte_list := pdpte_list m @ [d]\<rparr>, al2)))"

text \<open>
  \<open>cur\<close> is searched in the list of the level above; when there is no such descriptor one is
  created, and \<open>cur\<close> becomes the tail if that succeeded. The new descriptor is already in its
  own list by then, also when the creation of the level above fails.
\<close>

definition nvc_svmc_create_2mb_page_map ::
  "u8 list \<Rightarrow> svm_npt_manager \<Rightarrow> u64 \<Rightarrow> u64 \<Rightarrow> u32 \<Rightarrow> allocs \<Rightarrow> noir_status \<times> svm_npt_manager \<times> allocs" where
  "nvc_svmc_create_2mb_page_map host_pat m gpa hpa map_attrib al0 =
     (case next_pool al0 of
        (False, al1) \<Rightarrow> (noir_insufficient_resources, m, al1)
      | (True, al1) \<Rightarrow>
          (case next_page al1 of
             (None, al2) \<Rightarrow> (noir_insufficient_resources, m, al2)
           | (Some p, al2) \<Rightarrow>
               let d = new_desc p (page_1gb_base gpa) (gpa_index ''pde_offset'' gpa)
                         (nvc_svmc_set_pde_entry host_pat hpa map_attrib);
                   m1 = m\<lparr>pde_list := pde_list m @ [d]\<rparr>;
                   link = (\<lambda>m' k. m'\<lparr>pdpte_list := set_entry (pdpte_list m') k
                             (gpa_index ''pdpte_offset'' gpa)
                             (nvc_svmc_set_pdpte_entry host_pat p map_attrib)\<rparr>)
               in (case find_desc page_512gb_size gpa (pdpte_list m) of
                     Some k \<Rightarrow> (noir_success, link m1 k, al2)
                   | None \<Rightarrow>
                       (case nvc_svmc_create_1gb_page_map host_pat m1 gpa 0 null_map al2 of
                          (st, m2, al3) \<Rightarrow>
                            if st = noir_success
                            then (noir_success, link m2 (length (pdpte_list m2) - 1), al3)
                            else (st, m2, al3)))))"

definition nvc_svmc_create_4kb_page_map ::
  "u8 list \<Rightarrow> svm_npt_manager \<Rightarrow> u64 \<Rightarrow> u64 \<Rightarrow> u32 \<Rightarrow> allocs \<Rightarrow> noir_status \<times> svm_npt_manager \<times> allocs" where
  "nvc_svmc_create_4kb_page_map host_pat m gpa hpa map_attrib al0 =
     (case next_pool al0 of
        (False, al1) \<Rightarrow> (noir_insufficient_resources, m, al1)
      | (True, al1) \<Rightarrow>
          (case next_page al1 of
             (None, al2) \<Rightarrow> (noir_insufficient_resources, m, al2)
           | (Some p, al2) \<Rightarrow>
               let d = new_desc p (page_2mb_base gpa) (gpa_index ''pte_offset'' gpa)
                         (nvc_svmc_set_pte_entry host_pat 0 map_attrib);
                   m1 = m\<lparr>pte_list := pte_list m @ [d]\<rparr>;
                   link = (\<lambda>m' k. m'\<lparr>pde_list := set_entry (pde_list m') k
                             (gpa_index ''pde_offset'' gpa)
                             (nvc_svmc_set_pde_entry host_pat p map_attrib)\<rparr>)
               in (case find_desc page_1gb_size gpa (pde_list m) of
                     Some k \<Rightarrow> (noir_success, link m1 k, al2)
                   | None \<Rightarrow>
                       (case nvc_svmc_create_2mb_page_map host_pat m1 gpa 0 null_map al2 of
                          (st, m2, al3) \<Rightarrow>
                            if st = noir_success
                            then (noir_success, link m2 (length (pde_list m2) - 1), al3)
                            else (st, m2, al3)))))"

section \<open>Mapping and reading a page\<close>

definition nvc_svmc_set_page_map ::
  "u8 list \<Rightarrow> svm_npt_manager \<Rightarrow> u64 \<Rightarrow> u64 \<Rightarrow> u32 \<Rightarrow> allocs \<Rightarrow> noir_status \<times> svm_npt_manager \<times> allocs" where
  "nvc_svmc_set_page_map host_pat m gpa hpa map_attrib al0 =
     (if map_psize map_attrib = 0 then
        (let store = (\<lambda>m' k. m'\<lparr>pte_list := set_entry (pte_list m') k (gpa_index ''pte_offset'' gpa)
                         (nvc_svmc_set_pte_entry host_pat hpa map_attrib)\<rparr>)
         in (case find_desc page_2mb_size gpa (pte_list m) of
               Some k \<Rightarrow> (noir_success, store m k, al0)
             | None \<Rightarrow>
                 (case nvc_svmc_create_4kb_page_map host_pat m gpa 0 null_map al0 of
                    (st, m1, al1) \<Rightarrow>
                      if st = noir_success
                      then (noir_success, store m1 (length (pte_list m1) - 1), al1)
                      else (st, m1, al1))))
      else (noir_not_implemented, m, al0))"

text \<open>
  \<open>present>=r && write>=w && no_execute<=x\<close> on one-bit values: the third comparison lets an entry
  with \<open>no_execute\<close> pass exactly when execution is requested.
\<close>

definition perm_ok :: "bf_layout \<Rightarrow> u64 \<Rightarrow> bool \<Rightarrow> bool \<Rightarrow> bool \<Rightarrow> bool" where
  "perm_ok L e r w x \<longleftrightarrow>
     (r \<longrightarrow> bf_flag L ''present'' e) \<and> (w \<longrightarrow> bf_flag L ''write'' e) \<and> (bf_flag L ''no_execute'' e \<longrightarrow> x)"

text \<open>The \<open>for\<close> loops look a table up by its physical address and stop at the first match.\<close>

definition table_at :: "npt_descriptor list \<Rightarrow> u64 \<Rightarrow> entries option" where
  "table_at ds p = map_option virt (List.find (\<lambda>d. phys d = p) ds)"

definition nvc_svmc_get_physical_mapping ::
  "svm_npt_manager \<Rightarrow> u64 \<Rightarrow> bool \<Rightarrow> bool \<Rightarrow> bool \<Rightarrow> bool \<times> u64" where
  "nvc_svmc_get_physical_mapping m gpa r w x =
     (let pml4e = ncr3_virt m (gpa_index ''pml4e_offset'' gpa) in
      if \<not> perm_ok amd64_npt_pml4e pml4e r w x then (False, 0)
      else (case table_at (pdpte_list m) (page_4kb_mult (bf_get amd64_npt_pml4e ''pdpte_base'' pml4e)) of
        None \<Rightarrow> (False, 0)
      | Some t3 \<Rightarrow>
        let pdpte = t3 (gpa_index ''pdpte_offset'' gpa) in
        if \<not> perm_ok amd64_npt_huge_pdpte pdpte r w x then (False, 0)
        else if bf_flag amd64_npt_huge_pdpte ''huge_pdpte'' pdpte then
          (True, page_1gb_mult (bf_get amd64_npt_huge_pdpte ''page_base'' pdpte) OR page_1gb_offset gpa)
        else (case table_at (pde_list m) (page_4kb_mult (bf_get amd64_npt_pdpte ''pde_base'' pdpte)) of
          None \<Rightarrow> (False, 0)
        | Some t2 \<Rightarrow>
          let pde = t2 (gpa_index ''pde_offset'' gpa) in
          if \<not> perm_ok amd64_npt_large_pde pde r w x then (False, 0)
          else if bf_flag amd64_npt_large_pde ''large_pde'' pde then
            (True, page_2mb_mult (bf_get amd64_npt_large_pde ''page_base'' pde) OR page_2mb_offset gpa)
          else (case table_at (pte_list m) (page_4kb_mult (bf_get amd64_npt_pde ''pte_base'' pde)) of
            None \<Rightarrow> (False, 0)
          | Some t1 \<Rightarrow>
            let pte = t1 (gpa_index ''pte_offset'' gpa) in
            if perm_ok amd64_npt_pte pte r w x then
              (True, page_4kb_mult (bf_get amd64_npt_pte ''page_base'' pte)
                     OR bf_get amd64_addr_translator ''page_offset'' gpa)
            else (False, 0)))))"

end
