(* ===== verification/Npt_Level.thy ===== *)
theory Npt_Level
  imports Npt_Custom
begin

text \<open>
  One level of the nested paging in isolation: a list of tables (\<open>parents\<close>), a list of tables of
  the level below (\<open>children\<close>) and the promise that links them. The locale \<open>paging_level\<close> proves
  once what the three levels need; it is interpreted on the entries that the code writes into the
  page-map level 4 table, the page-directory-pointer tables and the page directories.
\<close>

section \<open>Tables by region\<close>

definition table_of :: "nat \<Rightarrow> npt_descriptor list \<Rightarrow> u64 \<Rightarrow> npt_descriptor option" where
  "table_of k ds gpa = List.find (\<lambda>d. drop_bit k (gpa_start d) = drop_bit k gpa) ds"

definition page_frame :: "u64 \<Rightarrow> bool" where
  "page_frame p \<longleftrightarrow> p \<noteq> 0 \<and> page_4kb_mult (take_bit 40 (page_4kb_count p)) = p"

text \<open>The descriptors of one level: aligned, in the lower 48 bits, one per region and per page.\<close>

definition wf_tables :: "nat \<Rightarrow> npt_descriptor list \<Rightarrow> bool" where
  "wf_tables k ds \<longleftrightarrow>
     (\<forall>d \<in> set ds. region_start k (gpa_start d) = gpa_start d \<and> low_half (gpa_start d) \<and> page_frame (phys d)) \<and>
     distinct (map (\<lambda>d. drop_bit k (gpa_start d)) ds) \<and> distinct (map phys ds)"

lemma wf_tables_Nil [simp]: "wf_tables k []"
  by (simp add: wf_tables_def)

lemma find_Some_iff_distinct:
  assumes "distinct (map f xs)"
  shows "List.find (\<lambda>x. f x = a) xs = Some y \<longleftrightarrow> y \<in> set xs \<and> f y = a"
  using assms by (induction xs) (auto simp: image_iff)

lemma table_of_iff:
  "wf_tables k ds \<Longrightarrow> table_of k ds gpa = Some d \<longleftrightarrow> d \<in> set ds \<and> drop_bit k (gpa_start d) = drop_bit k gpa"
  unfolding table_of_def wf_tables_def by (rule find_Some_iff_distinct) simp

lemma table_of_None:
  "table_of k ds gpa = None \<longleftrightarrow> (\<forall>d \<in> set ds. drop_bit k (gpa_start d) \<noteq> drop_bit k gpa)"
  unfolding table_of_def by (auto simp: find_None_iff)

lemma table_of_Nil [simp]: "table_of k [] gpa = None"
  by (simp add: table_of_def)

lemma table_of_append:
  "table_of k (ds @ [d]) gpa =
     (case table_of k ds gpa of Some c \<Rightarrow> Some c
      | None \<Rightarrow> if drop_bit k (gpa_start d) = drop_bit k gpa then Some d else None)"
  by (induction ds) (auto simp: table_of_def)

lemma table_of_cong: "drop_bit k g = drop_bit k g' \<Longrightarrow> table_of k ds g = table_of k ds g'"
  by (simp add: table_of_def)

lemma table_at_member: "wf_tables k ds \<Longrightarrow> d \<in> set ds \<Longrightarrow> table_at ds (phys d) = Some (virt d)"
  using find_Some_iff_distinct [of phys ds "phys d" d] by (simp add: table_at_def wf_tables_def)

lemma table_at_zero: "wf_tables k ds \<Longrightarrow> table_at ds 0 = None"
  by (auto simp: table_at_def wf_tables_def find_None_iff page_frame_def)

lemma wf_tables_append:
  "wf_tables k (ds @ [d]) \<longleftrightarrow>
     wf_tables k ds \<and> region_start k (gpa_start d) = gpa_start d \<and> low_half (gpa_start d) \<and>
     page_frame (phys d) \<and> phys d \<notin> phys ` set ds \<and> table_of k ds (gpa_start d) = None"
  unfolding wf_tables_def table_of_None by (auto simp: image_iff)

lemma set_entry_fields [simp]:
  "map phys (set_entry ds k i e) = map phys ds"
  "map gpa_start (set_entry ds k i e) = map gpa_start ds"
  "length (set_entry ds k i e) = length ds"
proof -
  have *: "ds[k := (ds ! k)\<lparr>virt := v\<rparr>] = ds" if "\<not> k < length ds" for v using that by (simp add: list_update_beyond)
  show "map phys (set_entry ds k i e) = map phys ds" "map gpa_start (set_entry ds k i e) = map gpa_start ds"
    by (cases "k < length ds"; simp add: set_entry_def map_update *; metis list_update_id nth_map)+
qed (simp add: set_entry_def)

lemma set_entry_map:
  assumes "distinct (map gpa_start ds)" "j < length ds"
  shows "set_entry ds j i e =
    map (\<lambda>d. if gpa_start d = gpa_start (ds ! j) then d\<lparr>virt := (virt d)(i := e)\<rparr> else d) ds"
proof (rule nth_equalityI)
  fix n
  assume n: "n < length (set_entry ds j i e)"
  then have "gpa_start (ds ! n) = gpa_start (ds ! j) \<longleftrightarrow> n = j"
    using assms by (auto simp: distinct_conv_nth)
  with n show "set_entry ds j i e ! n =
      map (\<lambda>d. if gpa_start d = gpa_start (ds ! j) then d\<lparr>virt := (virt d)(i := e)\<rparr> else d) ds ! n"
    by (auto simp: set_entry_def nth_list_update)
qed simp

lemma wf_tables_distinct_start: "wf_tables k ds \<Longrightarrow> distinct (map gpa_start ds)"
  by (auto simp: wf_tables_def distinct_map inj_on_def)

lemma wf_tables_set_entry [simp]: "wf_tables k (set_entry ds j i e) \<longleftrightarrow> wf_tables k ds"
proof -
  have all: "(\<forall>d \<in> set ds. P (gpa_start d) (phys d)) \<longleftrightarrow> (\<forall>(g, p) \<in> set (zip (map gpa_start ds) (map phys ds)). P g p)"
    for P and ds :: "npt_descriptor list" by (induction ds) auto
  have keys: "map (\<lambda>d. drop_bit k (gpa_start d)) ds = map (drop_bit k) (map gpa_start ds)"
    for ds :: "npt_descriptor list" by simp
  show ?thesis
    unfolding wf_tables_def
      all [of _ "\<lambda>g p. region_start k g = g \<and> low_half g \<and> page_frame p"] keys set_entry_fields ..
qed

lemma table_of_set_entry:
  assumes "wf_tables k ds" "j < length ds"
  shows "table_of k (set_entry ds j i e) gpa =
    map_option (\<lambda>d. if gpa_start d = gpa_start (ds ! j) then d\<lparr>virt := (virt d)(i := e)\<rparr> else d)
      (table_of k ds gpa)"
proof -
  have "List.find P (map f ds) = map_option f (List.find P ds)"
    if "\<And>d. P (f d) = P d" for P and f :: "npt_descriptor \<Rightarrow> npt_descriptor"
    by (induction ds) (auto simp: that)
  then show ?thesis
    by (simp add: table_of_def set_entry_map [OF wf_tables_distinct_start [OF assms(1)] assms(2)])
qed

text \<open>The C search agrees with the lookup by region.\<close>

lemma find_desc_table:
  assumes "wf_tables k ds" "k \<le> 39"
  shows "(case find_desc (2 ^ k) gpa ds of
            None \<Rightarrow> table_of k ds gpa = None
          | Some j \<Rightarrow> j < length ds \<and> table_of k ds gpa = Some (ds ! j))"
proof -
  have "\<forall>d \<in> set ds. in_region (2 ^ k) gpa (gpa_start d) \<longleftrightarrow> drop_bit k (gpa_start d) = drop_bit k gpa"
    using assms by (auto simp: wf_tables_def in_region_iff)
  then show ?thesis
    by (induction ds) (auto simp: table_of_def split: option.splits)
qed

section \<open>Linked levels\<close>

text \<open>
  The promise between two levels: where a region of the upper level has a table, its entry is zero
  or the link to the table of the lower level; where it has none, neither has the lower level.
\<close>

fun linked :: "(u64 \<Rightarrow> u64) \<Rightarrow> 9 word \<Rightarrow> npt_descriptor option \<Rightarrow> u64 option \<Rightarrow> bool" where
  "linked mk i None c \<longleftrightarrow> c = None"
| "linked mk i (Some p) c \<longleftrightarrow> virt p i = (case c of None \<Rightarrow> 0 | Some child \<Rightarrow> mk child)"

definition link :: "nat \<Rightarrow> (u64 \<Rightarrow> u64) \<Rightarrow> npt_descriptor list \<Rightarrow> npt_descriptor list \<Rightarrow> bool" where
  "link k mk ps cs \<longleftrightarrow> (\<forall>gpa. low_half gpa \<longrightarrow>
     linked mk (ucast (drop_bit k gpa)) (table_of (k + 9) ps gpa) (map_option phys (table_of k cs gpa)))"

lemma drop_bit_split:
  fixes a b :: u64
  assumes "drop_bit (k + 9) a = drop_bit (k + 9) b"
    and "(ucast (drop_bit k a) :: 9 word) = ucast (drop_bit k b)"
  shows "drop_bit k a = drop_bit k b"
proof (rule bit_word_eqI)
  fix n
  assume "n < LENGTH(64)"
  show "bit (drop_bit k a) n = bit (drop_bit k b) n"
  proof (cases "n < 9")
    case True
    have "bit (ucast (drop_bit k a) :: 9 word) n = bit (ucast (drop_bit k b) :: 9 word) n"
      by (simp only: assms(2))
    with True show ?thesis by (simp add: bit_simps)
  next
    case False
    have "bit (drop_bit (k + 9) a) (n - 9) = bit (drop_bit (k + 9) b) (n - 9)"
      by (simp only: assms(1))
    with False show ?thesis by (simp add: bit_simps)
  qed
qed

lemma drop_bit_coarser:
  assumes "drop_bit k a = drop_bit k (b :: u64)"
  shows "drop_bit (k + 9) a = drop_bit (k + 9) b"
proof -
  have "drop_bit (k + 9) x = drop_bit 9 (drop_bit k x)" for x :: u64
    by (simp add: drop_bit_drop_bit add.commute)
  then show ?thesis by (simp only: assms)
qed

lemma link_set_entry:
  assumes "wf_tables k cs" "j < length cs"
  shows "link k mk ps (set_entry cs j i e) \<longleftrightarrow> link k mk ps cs"
proof -
  have "map_option phys (table_of k (set_entry cs j i e) gpa) = map_option phys (table_of k cs gpa)" for gpa
    by (cases "table_of k cs gpa") (simp_all add: table_of_set_entry [OF assms])
  then show ?thesis by (simp only: link_def)
qed

lemma link_add:
  assumes wf: "wf_tables (k + 9) ps" and j: "j < length ps"
    and l: "link k mk ps cs" and p: "table_of (k + 9) ps gpa = Some (ps ! j)"
    and c: "table_of k cs gpa = None" and d: "drop_bit k (gpa_start d) = drop_bit k gpa"
  shows "link k mk (set_entry ps j (ucast (drop_bit k gpa)) (mk (phys d))) (cs @ [d])"
  unfolding link_def
proof (intro allI impI)
  fix g
  assume "low_half g"
  then have l: "linked mk (ucast (drop_bit k g)) (table_of (k + 9) ps g) (map_option phys (table_of k cs g))"
    using l by (simp add: link_def)
  have key: "drop_bit (k + 9) (gpa_start (ps ! j)) = drop_bit (k + 9) gpa"
    using p by (simp add: table_of_iff [OF wf])
  show "linked mk (ucast (drop_bit k g))
      (table_of (k + 9) (set_entry ps j (ucast (drop_bit k gpa)) (mk (phys d))) g)
      (map_option phys (table_of k (cs @ [d]) g))"
  proof (cases "drop_bit k g = drop_bit k gpa")
    case True
    then have "table_of k cs g = None" "table_of (k + 9) ps g = Some (ps ! j)"
      using c p table_of_cong [OF True] table_of_cong [OF drop_bit_coarser [OF True]] by simp_all
    with True d show ?thesis by (simp add: table_of_set_entry [OF wf j] table_of_append)
  next
    case False
    have same: "table_of k (cs @ [d]) g = table_of k cs g"
      using False d by (simp add: table_of_append split: option.split)
    show ?thesis
    proof (cases "table_of (k + 9) ps g")
      case None
      with l same show ?thesis by (simp add: table_of_set_entry [OF wf j])
    next
      case (Some q)
      have "ucast (drop_bit k g) \<noteq> (ucast (drop_bit k gpa) :: 9 word)" if "gpa_start q = gpa_start (ps ! j)"
      proof
        assume eq: "ucast (drop_bit k g) = (ucast (drop_bit k gpa) :: 9 word)"
        have "drop_bit (k + 9) g = drop_bit (k + 9) gpa"
          using Some that key by (simp add: table_of_iff [OF wf])
        with eq show False using False drop_bit_split by blast
      qed
      with Some l same show ?thesis by (simp add: table_of_set_entry [OF wf j])
    qed
  qed
qed

lemma link_new_parent:
  assumes wf: "wf_tables (k + 9) ps" and l: "link k mk ps cs" and p: "table_of (k + 9) ps gpa = None"
    and d: "drop_bit k (gpa_start d) = drop_bit k gpa"
    and q: "drop_bit (k + 9) (gpa_start q) = drop_bit (k + 9) gpa"
      "virt q = (\<lambda>_. 0)(ucast (drop_bit k gpa) := mk (phys d))"
  shows "link k mk (ps @ [q]) (cs @ [d])"
  unfolding link_def
proof (intro allI impI)
  fix g
  assume "low_half g"
  then have l: "linked mk (ucast (drop_bit k g)) (table_of (k + 9) ps g) (map_option phys (table_of k cs g))"
    using l by (simp add: link_def)
  show "linked mk (ucast (drop_bit k g)) (table_of (k + 9) (ps @ [q]) g)
      (map_option phys (table_of k (cs @ [d]) g))"
  proof (cases "drop_bit (k + 9) g = drop_bit (k + 9) gpa")
    case True
    then have "table_of (k + 9) ps g = None" using p table_of_cong [OF True] by simp
    with l q(1) True have "table_of k cs g = None" "table_of (k + 9) (ps @ [q]) g = Some q"
      by (simp_all add: table_of_append)
    moreover have "ucast (drop_bit k g) = (ucast (drop_bit k gpa) :: 9 word) \<longleftrightarrow> drop_bit k g = drop_bit k gpa"
      using drop_bit_split [OF True] by auto
    ultimately show ?thesis using d q(2) by (simp add: table_of_append eq_commute)
  next
    case False
    then have "drop_bit k g \<noteq> drop_bit k gpa" using drop_bit_coarser by blast
    then have "table_of k (cs @ [d]) g = table_of k cs g" "table_of (k + 9) (ps @ [q]) g = table_of (k + 9) ps g"
      using False d q(1) by (simp_all add: table_of_append split: option.split)
    with l show ?thesis by simp
  qed
qed

end
