(* ===== verification/Npt_Map.thy ===== *)
theory Npt_Map
  imports Npt_Level
begin

text \<open>
  Correctness of the nested paging of a customizable VM: the structure invariant that the mapping
  routines keep, the abstract map from guest pages to leaf entries that they update, and the
  reader \<open>nvc_svmc_get_physical_mapping\<close> in terms of that map.
\<close>

section \<open>Entries that link two levels\<close>

lemma page_frame_bits:
  assumes "page_frame p" and that: "n < 12 \<or> 52 \<le> n"
  shows "\<not> bit p n"
proof -
  have "bit p n = bit (page_4kb_mult (take_bit 40 (page_4kb_count p))) n"
    using assms(1) unfolding page_frame_def by metis
  moreover have "\<not> bit (page_4kb_mult (take_bit 40 (page_4kb_count p))) n"
    using that by (auto simp: page_4kb_mult_def bit_simps)
  ultimately show ?thesis by simp
qed

text \<open>
  What a walk relies on at a linked entry: the physical address comes back out of it, it is not a
  large page, and it grants every access.
\<close>

locale paging_level =
  fixes k :: nat and mk :: "u64 \<Rightarrow> u64" and base :: "u64 \<Rightarrow> u64" and large :: "u64 \<Rightarrow> bool"
    and granted :: "u64 \<Rightarrow> bool \<Rightarrow> bool \<Rightarrow> bool \<Rightarrow> bool"
  assumes base_mk: "page_frame p \<Longrightarrow> base (mk p) = p"
    and base_zero: "base 0 = 0"
    and not_large: "page_frame p \<Longrightarrow> \<not> large (mk p)"
    and large_zero: "\<not> large 0"
    and grants: "page_frame p \<Longrightarrow> granted (mk p) r w x"
begin

lemma step_Some:
  assumes "wf_tables k cs" "link k mk ps cs" "low_half gpa"
    and "table_of (k + 9) ps gpa = Some p" "table_of k cs gpa = Some c"
  shows "virt p (ucast (drop_bit k gpa)) = mk (phys c)" "granted (mk (phys c)) r w x" "\<not> large (mk (phys c))"
    "table_at cs (base (mk (phys c))) = Some (virt c)"
proof -
  have c: "c \<in> set cs" "page_frame (phys c)"
    using assms(1,5) table_of_iff [OF assms(1)] by (auto simp: wf_tables_def)
  show "virt p (ucast (drop_bit k gpa)) = mk (phys c)"
    using assms(2-5) unfolding link_def by (metis linked.simps(2) option.map(2) option.simps(5))
  show "granted (mk (phys c)) r w x" "\<not> large (mk (phys c))"
    using grants not_large c(2) by auto
  show "table_at cs (base (mk (phys c))) = Some (virt c)"
    using table_at_member [OF assms(1) c(1)] c(2) by (simp add: base_mk)
qed

lemma step_None:
  assumes "wf_tables k cs" "link k mk ps cs" "low_half gpa"
    and "table_of (k + 9) ps gpa = Some p" "table_of k cs gpa = None"
  shows "virt p (ucast (drop_bit k gpa)) = 0" "\<not> large 0" "table_at cs (base 0) = None"
proof -
  show "virt p (ucast (drop_bit k gpa)) = 0"
    using assms(2-5) unfolding link_def by (metis linked.simps(2) option.map(1) option.simps(4))
  show "\<not> large 0" "table_at cs (base 0) = None"
    using large_zero table_at_zero [OF assms(1)] by (auto simp: base_zero)
qed

end

definition link_pdpte :: "u64 \<Rightarrow> u64" where "link_pdpte p = nvc_svmc_set_pdpte_entry [] p null_map"
definition link_pde :: "u64 \<Rightarrow> u64" where "link_pde p = nvc_svmc_set_pde_entry [] p null_map"

lemma map_psize_null [simp]: "map_psize null_map = 0"
  by (simp add: map_psize_def null_map_def bf_get_def)

lemma link_entries:
  "nvc_svmc_set_pdpte_entry host_pat p null_map = link_pdpte p"
  "nvc_svmc_set_pde_entry host_pat p null_map = link_pde p"
  by (simp_all add: link_pdpte_def link_pde_def nvc_svmc_set_pdpte_entry_def nvc_svmc_set_pde_entry_def)

lemmas link_entry_defs = nvc_svmc_set_pml4e_entry_def link_pdpte_def link_pde_def
  nvc_svmc_set_pdpte_entry_def nvc_svmc_set_pde_entry_def put_table_def

lemma put_table_bits:
  "page_frame p \<Longrightarrow> bit (nvc_svmc_set_pml4e_entry p) n \<longleftrightarrow> n < 3 \<or> bit p n"
  "page_frame p \<Longrightarrow> bit (link_pdpte p) n \<longleftrightarrow> n < 3 \<or> bit p n"
  "page_frame p \<Longrightarrow> bit (link_pde p) n \<longleftrightarrow> n < 3 \<or> bit p n"
  using page_frame_bits [of p n] bit_imp_le_length [of p n]
  by (auto simp: link_entry_defs bf_put_def layout bit_simps page_4kb_count_def)

lemma base_of_link:
  assumes "\<And>n. bit e n \<longleftrightarrow> n < 3 \<or> bit p n" and "page_frame p"
  shows "page_4kb_mult (slice_get 12 40 e) = p"
proof (rule bit_word_eqI)
  fix n assume n: "n < LENGTH(64)"
  show "bit (page_4kb_mult (slice_get 12 40 e)) n \<longleftrightarrow> bit p n"
  proof (cases "n < 12 \<or> 52 \<le> n")
    case True
    then show ?thesis using page_frame_bits [OF assms(2)] by (auto simp: page_4kb_mult_def bit_simps)
  next
    case False
    then show ?thesis using n by (auto simp: page_4kb_mult_def bit_simps assms(1))
  qed
qed

lemmas perm_bits = perm_ok_def bf_flag_bit layout

interpretation pml4: paging_level 39 nvc_svmc_set_pml4e_entry
  "\<lambda>e. page_4kb_mult (bf_get amd64_npt_pml4e ''pdpte_base'' e)" "\<lambda>_. False" "perm_ok amd64_npt_pml4e"
proof
  fix p r w x assume p: "page_frame p"
  show "page_4kb_mult (bf_get amd64_npt_pml4e ''pdpte_base'' (nvc_svmc_set_pml4e_entry p)) = p"
    using base_of_link [OF put_table_bits(1) [OF p] p] by (simp add: bf_get_def layout)
  show "perm_ok amd64_npt_pml4e (nvc_svmc_set_pml4e_entry p) r w x"
    using page_frame_bits [OF p, of 63] by (simp add: perm_bits put_table_bits [OF p])
qed (simp_all add: bf_get_def page_4kb_mult_def)

interpretation pdpt: paging_level 30 link_pdpte
  "\<lambda>e. page_4kb_mult (bf_get amd64_npt_pdpte ''pde_base'' e)"
  "bf_flag amd64_npt_huge_pdpte ''huge_pdpte''" "perm_ok amd64_npt_huge_pdpte"
proof
  fix p r w x assume p: "page_frame p"
  show "page_4kb_mult (bf_get amd64_npt_pdpte ''pde_base'' (link_pdpte p)) = p"
    using base_of_link [OF put_table_bits(2) [OF p] p] by (simp add: bf_get_def layout)
  show "perm_ok amd64_npt_huge_pdpte (link_pdpte p) r w x"
    using page_frame_bits [OF p, of 63] by (simp add: perm_bits put_table_bits [OF p])
  show "\<not> bf_flag amd64_npt_huge_pdpte ''huge_pdpte'' (link_pdpte p)"
    using page_frame_bits [OF p, of 7] by (simp add: perm_bits put_table_bits [OF p])
qed (simp_all add: bf_get_def bf_flag_def page_4kb_mult_def)

interpretation pd: paging_level 21 link_pde
  "\<lambda>e. page_4kb_mult (bf_get amd64_npt_pde ''pte_base'' e)"
  "bf_flag amd64_npt_large_pde ''large_pde''" "perm_ok amd64_npt_large_pde"
proof
  fix p r w x assume p: "page_frame p"
  show "page_4kb_mult (bf_get amd64_npt_pde ''pte_base'' (link_pde p)) = p"
    using base_of_link [OF put_table_bits(3) [OF p] p] by (simp add: bf_get_def layout)
  show "perm_ok amd64_npt_large_pde (link_pde p) r w x"
    using page_frame_bits [OF p, of 63] by (simp add: perm_bits put_table_bits [OF p])
  show "\<not> bf_flag amd64_npt_large_pde ''large_pde'' (link_pde p)"
    using page_frame_bits [OF p, of 7] by (simp add: perm_bits put_table_bits [OF p])
qed (simp_all add: bf_get_def bf_flag_def page_4kb_mult_def)

section \<open>The invariant\<close>

definition npt_root :: "svm_npt_manager \<Rightarrow> npt_descriptor list" where
  "npt_root m = [\<lparr>virt = ncr3_virt m, phys = ncr3_phys m, gpa_start = 0\<rparr>]"

definition npt_phys :: "svm_npt_manager \<Rightarrow> u64 list" where
  "npt_phys m = ncr3_phys m # map phys (pdpte_list m) @ map phys (pde_list m) @ map phys (pte_list m)"

definition upper3 :: "svm_npt_manager \<Rightarrow> bool" where
  "upper3 m \<longleftrightarrow> page_frame (ncr3_phys m) \<and> wf_tables 39 (pdpte_list m) \<and>
     link 39 nvc_svmc_set_pml4e_entry (npt_root m) (pdpte_list m)"

definition upper2 :: "svm_npt_manager \<Rightarrow> bool" where
  "upper2 m \<longleftrightarrow> upper3 m \<and> wf_tables 30 (pde_list m) \<and> link 30 link_pdpte (pdpte_list m) (pde_list m)"

definition wf_npt :: "svm_npt_manager \<Rightarrow> bool" where
  "wf_npt m \<longleftrightarrow> upper2 m \<and> wf_tables 21 (pte_list m) \<and> link 21 link_pde (pde_list m) (pte_list m) \<and>
     distinct (npt_phys m)"

text \<open>The allocator hands out page frames, each one once and none that the manager owns.\<close>

definition granted_pages :: "allocs \<Rightarrow> u64 list" where
  "granted_pages al = List.map_filter id (pages al)"

definition fresh :: "svm_npt_manager \<Rightarrow> allocs \<Rightarrow> bool" where
  "fresh m al \<longleftrightarrow> distinct (npt_phys m @ granted_pages al) \<and> (\<forall>p \<in> set (granted_pages al). page_frame p)"

text \<open>The abstract state: the leaf entry of every guest page, zero where no table exists.\<close>

definition npt_leaf :: "svm_npt_manager \<Rightarrow> u64 \<Rightarrow> u64" where
  "npt_leaf m gpa = (case table_of 21 (pte_list m) gpa of
     None \<Rightarrow> 0 | Some t \<Rightarrow> virt t (ucast (page_4kb_count gpa)))"

lemma gpa_index_drop [simp]:
  "gpa_index ''pml4e_offset'' gpa = ucast (drop_bit 39 gpa)"
  "gpa_index ''pdpte_offset'' gpa = ucast (drop_bit 30 gpa)"
  "gpa_index ''pde_offset'' gpa = ucast (drop_bit 21 gpa)"
  "gpa_index ''pte_offset'' gpa = ucast (drop_bit 12 gpa)"
  by (simp_all add: gpa_index_def bf_get_def layout ucast_slice9)

lemma page_base_region [simp]:
  "page_512gb_base gpa = region_start 39 gpa" "page_1gb_base gpa = region_start 30 gpa"
  "page_2mb_base gpa = region_start 21 gpa"
  by (simp_all add: page_base_mask region_start_def)

lemma status_distinct [simp]:
  "noir_insufficient_resources \<noteq> noir_success" "noir_not_implemented \<noteq> noir_success"
  "noir_success \<noteq> noir_insufficient_resources" "noir_success \<noteq> noir_not_implemented"
  by (simp_all add: noir_insufficient_resources_def noir_success_def noir_not_implemented_def)

lemma next_page_granted:
  "next_page al = (Some p, al') \<Longrightarrow> granted_pages al = p # granted_pages al'"
  by (auto simp: next_page_def granted_pages_def List.map_filter_simps split: list.splits)

lemma next_pool_granted [simp]: "next_pool al = (b, al') \<Longrightarrow> granted_pages al' = granted_pages al"
  by (auto simp: next_pool_def granted_pages_def split: list.splits)

lemma new_desc_sel [simp]:
  "virt (new_desc p s i e) = (\<lambda>_. 0)(i := e)" "phys (new_desc p s i e) = p" "gpa_start (new_desc p s i e) = s"
  by (simp_all add: new_desc_def)

lemma set_entry_last: "set_entry (ds @ [d]) (length ds) i e = ds @ [d\<lparr>virt := (virt d)(i := e)\<rparr>]"
  by (simp add: set_entry_def)

lemma wf_root: "page_frame (ncr3_phys m) \<Longrightarrow> wf_tables 48 (npt_root m)"
  by (simp add: wf_tables_def npt_root_def region_start_def low_half_def)

lemma root_table:
  "low_half gpa \<Longrightarrow> table_of 48 (npt_root m) gpa = Some \<lparr>virt = ncr3_virt m, phys = ncr3_phys m, gpa_start = 0\<rparr>"
  by (simp add: table_of_def npt_root_def low_half_def)

lemma find_desc_cases:
  assumes "wf_tables k ds" "k \<le> 39"
  obtains (none) "find_desc (2 ^ k) gpa ds = None" "table_of k ds gpa = None"
    | (some) j where "find_desc (2 ^ k) gpa ds = Some j" "j < length ds" "table_of k ds gpa = Some (ds ! j)"
  using find_desc_table [OF assms, of gpa] by (auto split: option.splits)

section \<open>Creation of a level\<close>

lemma wf_tables_new:
  assumes "wf_tables k ds" "low_half gpa" "table_of k ds gpa = None" "page_frame p" "p \<notin> phys ` set ds"
  shows "wf_tables k (ds @ [new_desc p (region_start k gpa) i e])"
  using assms table_of_cong [of k "region_start k gpa" gpa] by (simp add: wf_tables_append)

lemma create_1gb_success:
  assumes "upper3 m" "low_half gpa" "table_of 39 (pdpte_list m) gpa = None" "fresh m al"
    and "nvc_svmc_create_1gb_page_map host_pat m gpa hpa null_map al = (noir_success, m', al')"
  shows "\<exists>p. m' = m\<lparr>ncr3_virt := (ncr3_virt m)(ucast (drop_bit 39 gpa) := nvc_svmc_set_pml4e_entry p),
            pdpte_list := pdpte_list m @ [new_desc p (region_start 39 gpa) (ucast (drop_bit 30 gpa))
              (nvc_svmc_set_pdpte_entry host_pat hpa null_map)]\<rparr> \<and> upper3 m' \<and> fresh m' al'"
proof -
  obtain p al1 where p: "next_pool al = (True, al1)" "next_page al1 = (Some p, al')"
    and m': "m' = m\<lparr>ncr3_virt := (ncr3_virt m)(ucast (drop_bit 39 gpa) := nvc_svmc_set_pml4e_entry p),
            pdpte_list := pdpte_list m @ [new_desc p (region_start 39 gpa) (ucast (drop_bit 30 gpa))
              (nvc_svmc_set_pdpte_entry host_pat hpa null_map)]\<rparr>"
    using assms(5) by (auto simp: nvc_svmc_create_1gb_page_map_def Let_def split: prod.splits bool.splits option.splits)
  have g: "granted_pages al = p # granted_pages al'"
    using p next_page_granted by (metis next_pool_granted)
  then have pf: "page_frame p" "p \<notin> phys ` set (pdpte_list m)"
    using assms(4) by (auto simp: fresh_def npt_phys_def)
  have root: "npt_root m' = set_entry (npt_root m) 0 (ucast (drop_bit 39 gpa)) (nvc_svmc_set_pml4e_entry p)"
    by (simp add: npt_root_def m' set_entry_def)
  let ?d = "new_desc p (region_start 39 gpa) (ucast (drop_bit 30 gpa)) (nvc_svmc_set_pdpte_entry host_pat hpa null_map)"
  have "link 39 nvc_svmc_set_pml4e_entry
      (set_entry (npt_root m) 0 (ucast (drop_bit 39 gpa)) (nvc_svmc_set_pml4e_entry (phys ?d))) (pdpte_list m @ [?d])"
    using assms(1-3) wf_root [of m] root_table [of gpa m]
    by (intro link_add) (simp_all add: upper3_def npt_root_def)
  then have "link 39 nvc_svmc_set_pml4e_entry (npt_root m') (pdpte_list m')"
    unfolding root by (simp add: m')
  then have "upper3 m'"
    using assms(1-3) pf wf_tables_new by (auto simp: upper3_def m')
  moreover have "fresh m' al'"
    using assms(4) g by (auto simp: fresh_def npt_phys_def m')
  ultimately show ?thesis using m' by blast
qed

lemma create_2mb_success:
  assumes "upper2 m" "low_half gpa" "table_of 30 (pde_list m) gpa = None" "fresh m al"
    and "nvc_svmc_create_2mb_page_map host_pat m gpa hpa null_map al = (noir_success, m', al')"
  shows "\<exists>p. pde_list m' = pde_list m @ [new_desc p (region_start 30 gpa) (ucast (drop_bit 21 gpa))
              (nvc_svmc_set_pde_entry host_pat hpa null_map)] \<and>
            pte_list m' = pte_list m \<and> upper2 m' \<and> fresh m' al'"
proof -
  obtain p al1 al2 where p: "next_pool al = (True, al1)" "next_page al1 = (Some p, al2)"
    using assms(5)
    by (auto simp: nvc_svmc_create_2mb_page_map_def split: prod.splits bool.splits option.splits)
  have g: "granted_pages al = p # granted_pages al2"
    using p next_page_granted by (metis next_pool_granted)
  then have pf: "page_frame p" "p \<notin> phys ` set (pde_list m)"
    using assms(4) by (auto simp: fresh_def npt_phys_def)
  define d where "d = new_desc p (region_start 30 gpa) (ucast (drop_bit 21 gpa)) (nvc_svmc_set_pde_entry host_pat hpa null_map)"
  define m1 where "m1 = m\<lparr>pde_list := pde_list m @ [d]\<rparr>"
  have wf3: "wf_tables 39 (pdpte_list m)" and wf2: "wf_tables 30 (pde_list m)" and u3: "upper3 m"
    and l2: "link 30 link_pdpte (pdpte_list m) (pde_list m)"
    using assms(1) by (auto simp: upper2_def upper3_def)
  have wfd: "wf_tables 30 (pde_list m @ [d])"
    unfolding d_def by (rule wf_tables_new [OF wf2 assms(2,3) pf])
  have fresh1: "fresh m1 al2"
    using assms(4) g by (auto simp: fresh_def npt_phys_def m1_def d_def)
  note run = assms(5) [unfolded nvc_svmc_create_2mb_page_map_def p prod.case bool.case option.case Let_def
      page_base_region gpa_index_drop, folded d_def, folded m1_def, unfolded page_size_exp link_entries]
  show ?thesis
  proof (rule find_desc_cases [OF wf3 order_refl, of gpa])
    fix j
    assume some: "find_desc (2 ^ 39) gpa (pdpte_list m) = Some j" "j < length (pdpte_list m)"
      "table_of 39 (pdpte_list m) gpa = Some (pdpte_list m ! j)"
    have m': "m' = m1\<lparr>pdpte_list := set_entry (pdpte_list m) j (ucast (drop_bit 30 gpa)) (link_pdpte p)\<rparr>" "al' = al2"
      using run some(1) by (auto simp: m1_def)
    have "link 30 link_pdpte (set_entry (pdpte_list m) j (ucast (drop_bit 30 gpa)) (link_pdpte (phys d))) (pde_list m @ [d])"
      using some wf3 l2 assms(3) by (intro link_add) (simp_all add: d_def)
    then have "upper2 m'"
      using u3 wfd wf3 some(2) by (simp add: upper2_def upper3_def m' m1_def d_def npt_root_def link_set_entry)
    moreover have "fresh m' al'"
      using fresh1 by (simp add: fresh_def npt_phys_def m' m1_def)
    ultimately show ?thesis by (auto simp: m' m1_def d_def)
  next
    assume none: "find_desc (2 ^ 39) gpa (pdpte_list m) = None" "table_of 39 (pdpte_list m) gpa = None"
    obtain m2 where c: "nvc_svmc_create_1gb_page_map host_pat m1 gpa 0 null_map al2 = (noir_success, m2, al')"
      and m': "m' = m2\<lparr>pdpte_list := set_entry (pdpte_list m2) (length (pdpte_list m2) - 1) (ucast (drop_bit 30 gpa)) (link_pdpte p)\<rparr>"
      using run none(1) by (auto simp: m1_def split: prod.splits if_splits)
    have "upper3 m1" "table_of 39 (pdpte_list m1) gpa = None"
      using u3 none(2) by (auto simp: upper3_def m1_def npt_root_def)
    then obtain q e where q: "m2 = m1\<lparr>ncr3_virt := (ncr3_virt m1)(ucast (drop_bit 39 gpa) := nvc_svmc_set_pml4e_entry q),
            pdpte_list := pdpte_list m1 @ [new_desc q (region_start 39 gpa) (ucast (drop_bit 30 gpa)) e]\<rparr>"
        and u: "upper3 m2" and fr: "fresh m2 al'"
      using create_1gb_success [OF _ assms(2) _ fresh1 c] by blast
    have pd: "pdpte_list m2 = pdpte_list m @ [new_desc q (region_start 39 gpa) (ucast (drop_bit 30 gpa)) e]"
      by (simp add: q m1_def)
    define q' where "q' = new_desc q (region_start 39 gpa) (ucast (drop_bit 30 gpa)) (link_pdpte p)"
    have pd': "pdpte_list m' = pdpte_list m @ [q']"
      by (simp add: m' pd set_entry_last q'_def new_desc_def)
    have "link 30 link_pdpte (pdpte_list m @ [q']) (pde_list m @ [d])"
      using wf3 l2 none(2) by (intro link_new_parent) (simp_all add: q'_def d_def)
    moreover have "upper3 m'"
      using u by (simp add: upper3_def m' npt_root_def link_set_entry pd)
    ultimately have "upper2 m'"
      using wfd by (simp add: upper2_def pd') (simp add: m' q m1_def)
    moreover have "fresh m' al'"
      using fr by (simp add: fresh_def npt_phys_def m')
    ultimately show ?thesis by (auto simp: m' q m1_def d_def)
  qed
qed

lemma create_4kb_success:
  assumes wf: "wf_npt m" and low: "low_half gpa" and none1: "table_of 21 (pte_list m) gpa = None" and "fresh m al"
    and "nvc_svmc_create_4kb_page_map host_pat m gpa hpa null_map al = (noir_success, m', al')"
  shows "\<exists>p. pte_list m' = pte_list m @ [new_desc p (region_start 21 gpa) (ucast (drop_bit 12 gpa))
              (nvc_svmc_set_pte_entry host_pat 0 null_map)] \<and> wf_npt m' \<and> fresh m' al'"
proof -
  obtain p al1 al2 where p: "next_pool al = (True, al1)" "next_page al1 = (Some p, al2)"
    using assms(5)
    by (auto simp: nvc_svmc_create_4kb_page_map_def split: prod.splits bool.splits option.splits)
  have g: "granted_pages al = p # granted_pages al2"
    using p next_page_granted by (metis next_pool_granted)
  then have pf: "page_frame p" "p \<notin> phys ` set (pte_list m)"
    using assms(4) by (auto simp: fresh_def npt_phys_def)
  define d where "d = new_desc p (region_start 21 gpa) (ucast (drop_bit 12 gpa)) (nvc_svmc_set_pte_entry host_pat 0 null_map)"
  define m1 where "m1 = m\<lparr>pte_list := pte_list m @ [d]\<rparr>"
  have wf2: "wf_tables 30 (pde_list m)" and wf1: "wf_tables 21 (pte_list m)" and u2: "upper2 m"
    and l1: "link 21 link_pde (pde_list m) (pte_list m)"
    using wf by (auto simp: wf_npt_def upper2_def)
  have wfd: "wf_tables 21 (pte_list m @ [d])"
    unfolding d_def by (rule wf_tables_new [OF wf1 low none1 pf])
  have fresh1: "fresh m1 al2"
    using assms(4) g by (auto simp: fresh_def npt_phys_def m1_def d_def)
  have u21: "upper2 m1"
    using u2 by (simp add: upper2_def upper3_def m1_def npt_root_def)
  note run = assms(5) [unfolded nvc_svmc_create_4kb_page_map_def p prod.case bool.case option.case Let_def
      page_base_region gpa_index_drop, folded d_def, folded m1_def, unfolded page_size_exp link_entries]
  have finish: "wf_npt m'" if "upper2 m'" "pte_list m' = pte_list m @ [d]"
    "link 21 link_pde (pde_list m') (pte_list m @ [d])" "fresh m' al'"
    using that wfd by (auto simp: wf_npt_def fresh_def)
  have lt: "30 \<le> (39 :: nat)" by simp
  show ?thesis
  proof (rule find_desc_cases [OF wf2 lt, of gpa])
    fix j
    assume some: "find_desc (2 ^ 30) gpa (pde_list m) = Some j" "j < length (pde_list m)"
      "table_of 30 (pde_list m) gpa = Some (pde_list m ! j)"
    have m': "m' = m1\<lparr>pde_list := set_entry (pde_list m) j (ucast (drop_bit 21 gpa)) (link_pde p)\<rparr>" "al' = al2"
      using run some(1) by (auto simp: m1_def)
    have "link 21 link_pde (set_entry (pde_list m) j (ucast (drop_bit 21 gpa)) (link_pde (phys d))) (pte_list m @ [d])"
      using some wf2 l1 none1 by (intro link_add) (simp_all add: d_def)
    moreover have "upper2 m'"
      using u21 wf2 some(2) by (simp add: upper2_def upper3_def m' m1_def npt_root_def link_set_entry)
    moreover have "fresh m' al'"
      using fresh1 by (simp add: fresh_def npt_phys_def m' m1_def)
    ultimately have "wf_npt m'"
      by (intro finish) (simp_all add: m' m1_def d_def)
    then show ?thesis using \<open>fresh m' al'\<close> by (auto simp: m' m1_def d_def)
  next
    assume none: "find_desc (2 ^ 30) gpa (pde_list m) = None" "table_of 30 (pde_list m) gpa = None"
    obtain m2 where c: "nvc_svmc_create_2mb_page_map host_pat m1 gpa 0 null_map al2 = (noir_success, m2, al')"
      and m': "m' = m2\<lparr>pde_list := set_entry (pde_list m2) (length (pde_list m2) - 1) (ucast (drop_bit 21 gpa)) (link_pde p)\<rparr>"
      using run none(1) by (auto simp: m1_def split: prod.splits if_splits)
    have "table_of 30 (pde_list m1) gpa = None"
      using none(2) by (simp add: m1_def)
    then obtain q e where q: "pde_list m2 = pde_list m1 @ [new_desc q (region_start 30 gpa) (ucast (drop_bit 21 gpa)) e]"
        "pte_list m2 = pte_list m1" and u: "upper2 m2" and fr: "fresh m2 al'"
      using create_2mb_success [OF u21 low _ fresh1 c] by blast
    define q' where "q' = new_desc q (region_start 30 gpa) (ucast (drop_bit 21 gpa)) (link_pde p)"
    have pd: "pde_list m2 = pde_list m @ [new_desc q (region_start 30 gpa) (ucast (drop_bit 21 gpa)) e]"
      by (simp add: q m1_def)
    have pd': "pde_list m' = pde_list m @ [q']"
      by (simp add: m' pd set_entry_last q'_def new_desc_def)
    have "link 21 link_pde (pde_list m @ [q']) (pte_list m @ [d])"
      using wf2 l1 none(2) by (intro link_new_parent) (simp_all add: q'_def d_def)
    moreover have "upper2 m'"
      using u by (simp add: upper2_def upper3_def m' npt_root_def link_set_entry pd)
    moreover have "fresh m' al'"
      using fr by (simp add: fresh_def npt_phys_def m')
    moreover have "pte_list m' = pte_list m @ [d]"
      by (simp add: m' q m1_def)
    ultimately show ?thesis using finish by (auto simp: pd' d_def)
  qed
qed

section \<open>Mapping one page\<close>

lemma set_page_map_step:
  assumes wf: "wf_npt m" and low: "low_half gpa" and "fresh m al" "map_psize map_attrib = 0"
    and "nvc_svmc_set_page_map host_pat m gpa hpa map_attrib al = (noir_success, m', al')"
  shows "wf_npt m' \<and> fresh m' al' \<and> (\<forall>g. npt_leaf m' g =
    (if page_4kb_count g = page_4kb_count gpa then nvc_svmc_set_pte_entry host_pat hpa map_attrib
     else npt_leaf m g))"
proof -
  have wf1: "wf_tables 21 (pte_list m)" using wf by (simp add: wf_npt_def)
  have lt: "21 \<le> (39 :: nat)" by simp
  have coarse: "drop_bit 21 a = drop_bit 21 b" if "drop_bit 12 a = drop_bit 12 b" for a b :: u64
    using drop_bit_coarser [OF that] by simp
  have fine: "drop_bit 12 a = drop_bit 12 b"
    if "drop_bit 21 a = drop_bit 21 b" "ucast (drop_bit 12 a) = (ucast (drop_bit 12 b) :: 9 word)" for a b :: u64
    using drop_bit_split [of 12 a b] that by simp
  let ?e = "nvc_svmc_set_pte_entry host_pat hpa map_attrib"
  let ?i = "ucast (drop_bit 12 gpa) :: 9 word"
  show ?thesis
  proof (rule find_desc_cases [OF wf1 lt, of gpa])
    fix j
    assume some: "find_desc (2 ^ 21) gpa (pte_list m) = Some j" "j < length (pte_list m)"
      "table_of 21 (pte_list m) gpa = Some (pte_list m ! j)"
    have m': "m' = m\<lparr>pte_list := set_entry (pte_list m) j ?i ?e\<rparr>" "al' = al"
      using assms(4,5) some(1) by (auto simp: nvc_svmc_set_page_map_def page_size_exp)
    have "wf_npt m'"
      using wf some(2) by (simp add: m' wf_npt_def upper2_def upper3_def npt_root_def npt_phys_def link_set_entry)
    moreover have "fresh m' al'"
      using assms(3) by (simp add: m' fresh_def npt_phys_def)
    moreover have "npt_leaf m' g = (if drop_bit 12 g = drop_bit 12 gpa then ?e else npt_leaf m g)" for g
    proof -
      have key: "drop_bit 21 (gpa_start (pte_list m ! j)) = drop_bit 21 gpa"
        using some(3) by (simp add: table_of_iff [OF wf1])
      show ?thesis
      proof (cases "drop_bit 21 g = drop_bit 21 gpa")
        case True
        then have "table_of 21 (pte_list m) g = Some (pte_list m ! j)"
          using some(3) table_of_cong [OF True] by simp
        then show ?thesis
          using fine [OF True] by (auto simp: npt_leaf_def m' table_of_set_entry [OF wf1 some(2)] page_4kb_count_def)
      next
        case False
        then have ne: "drop_bit 12 g \<noteq> drop_bit 12 gpa" using coarse by blast
        have "gpa_start t \<noteq> gpa_start (pte_list m ! j)" if "table_of 21 (pte_list m) g = Some t" for t
          using that key False unfolding table_of_iff [OF wf1] by auto
        with ne show ?thesis
          by (cases "table_of 21 (pte_list m) g") (simp_all add: npt_leaf_def m' table_of_set_entry [OF wf1 some(2)])
      qed
    qed
    ultimately show ?thesis by (simp add: page_4kb_count_def)
  next
    assume none: "find_desc (2 ^ 21) gpa (pte_list m) = None" "table_of 21 (pte_list m) gpa = None"
    obtain m1 where c: "nvc_svmc_create_4kb_page_map host_pat m gpa 0 null_map al = (noir_success, m1, al')"
      and m': "m' = m1\<lparr>pte_list := set_entry (pte_list m1) (length (pte_list m1) - 1) ?i ?e\<rparr>"
      using assms(4,5) none(1)
      by (auto simp: nvc_svmc_set_page_map_def page_size_exp split: prod.splits if_splits)
    obtain p e where p: "pte_list m1 = pte_list m @ [new_desc p (region_start 21 gpa) ?i e]" and "wf_npt m1" "fresh m1 al'"
      using create_4kb_success [OF wf low none(2) assms(3) c] by blast
    then have pt: "pte_list m' = pte_list m @ [new_desc p (region_start 21 gpa) ?i ?e]"
      by (simp add: m' set_entry_last new_desc_def)
    have "wf_npt m'"
      using \<open>wf_npt m1\<close> by (simp add: m' wf_npt_def upper2_def upper3_def npt_root_def npt_phys_def link_set_entry p)
    moreover have "fresh m' al'"
      using \<open>fresh m1 al'\<close> by (simp add: m' fresh_def npt_phys_def)
    moreover have "npt_leaf m' g = (if drop_bit 12 g = drop_bit 12 gpa then ?e else npt_leaf m g)" for g
    proof (cases "drop_bit 21 g = drop_bit 21 gpa")
      case True
      then have "table_of 21 (pte_list m) g = None"
        using none(2) table_of_cong [OF True] by simp
      then show ?thesis
        using True fine [OF True] by (auto simp: npt_leaf_def pt table_of_append page_4kb_count_def)
    next
      case False
      then have "drop_bit 12 g \<noteq> drop_bit 12 gpa" using coarse by blast
      then show ?thesis
        using False False [symmetric]
        by (cases "table_of 21 (pte_list m) g") (simp_all add: npt_leaf_def pt table_of_append)
    qed
    ultimately show ?thesis by (simp add: page_4kb_count_def)
  qed
qed

section \<open>Reading a mapping\<close>

lemma link_parent:
  "link k mk ps cs \<Longrightarrow> low_half gpa \<Longrightarrow> table_of (k + 9) ps gpa = None \<Longrightarrow> table_of k cs gpa = None"
  unfolding link_def by fastforce

definition leaf_mapping :: "u64 \<Rightarrow> u64 \<Rightarrow> bool \<Rightarrow> bool \<Rightarrow> bool \<Rightarrow> bool \<times> u64" where
  "leaf_mapping pte gpa r w x =
     (if perm_ok amd64_npt_pte pte r w x then
        (True, page_4kb_mult (bf_get amd64_npt_pte ''page_base'' pte)
               OR bf_get amd64_addr_translator ''page_offset'' gpa)
      else (False, 0))"

lemma get_mapping_eq:
  assumes "wf_npt m" "low_half gpa"
  shows "nvc_svmc_get_physical_mapping m gpa r w x =
    (if table_of 21 (pte_list m) gpa = None then (False, 0) else leaf_mapping (npt_leaf m gpa) gpa r w x)"
proof -
  have wf: "wf_tables 39 (pdpte_list m)" "wf_tables 30 (pde_list m)" "wf_tables 21 (pte_list m)"
    and l: "link 39 nvc_svmc_set_pml4e_entry (npt_root m) (pdpte_list m)"
      "link 30 link_pdpte (pdpte_list m) (pde_list m)" "link 21 link_pde (pde_list m) (pte_list m)"
    using assms(1) by (auto simp: wf_npt_def upper2_def upper3_def)
  have p48: "table_of (39 + 9) (npt_root m) gpa = Some \<lparr>virt = ncr3_virt m, phys = ncr3_phys m, gpa_start = 0\<rparr>"
    using root_table [OF assms(2), of m] by simp
  have perm0: "perm_ok L 0 r w x \<longleftrightarrow> \<not> r \<and> \<not> w" for L
    by (auto simp: perm_ok_def bf_flag_def bf_get_def)
  note defs = nvc_svmc_get_physical_mapping_def Let_def gpa_index_drop
  show ?thesis
  proof (cases "table_of 39 (pdpte_list m) gpa")
    case None
    then have "table_of 21 (pte_list m) gpa = None"
      using link_parent [OF l(2) assms(2)] link_parent [OF l(3) assms(2)] by simp
    with pml4.step_None [OF wf(1) l(1) assms(2) p48 None] show ?thesis
      by (simp add: defs)
  next
    case (Some t3)
    note s3 = pml4.step_Some [OF wf(1) l(1) assms(2) p48 Some]
    have p39: "table_of (30 + 9) (pdpte_list m) gpa = Some t3" using Some by simp
    show ?thesis
    proof (cases "table_of 30 (pde_list m) gpa")
      case None
      then have "table_of 21 (pte_list m) gpa = None"
        using link_parent [OF l(3) assms(2)] by simp
      with s3 pdpt.step_None [OF wf(2) l(2) assms(2) p39 None] show ?thesis
        by (simp add: defs)
    next
      case (Some t2)
      note s2 = pdpt.step_Some [OF wf(2) l(2) assms(2) p39 Some]
      have p30: "table_of (21 + 9) (pde_list m) gpa = Some t2" using Some by simp
      show ?thesis
      proof (cases "table_of 21 (pte_list m) gpa")
        case None
        with s3 s2 pd.step_None [OF wf(3) l(3) assms(2) p30 None] show ?thesis
          by (simp add: defs)
      next
        case (Some t1)
        with s3 s2 pd.step_Some [OF wf(3) l(3) assms(2) p30 Some] show ?thesis
          by (simp add: defs leaf_mapping_def npt_leaf_def page_4kb_count_def)
      qed
    qed
  qed
qed

lemma get_mapping_present:
  assumes "wf_npt m" "low_half gpa"
  shows "nvc_svmc_get_physical_mapping m gpa True w x = leaf_mapping (npt_leaf m gpa) gpa True w x"
  unfolding get_mapping_eq [OF assms]
  by (auto simp: leaf_mapping_def npt_leaf_def perm_ok_def bf_flag_def bf_get_def)

section \<open>The leaf entry\<close>

lemma put_attributes_get:
  fixes e0 :: u64
  assumes "bf_size L \<le> 64"
    and "bf_width L ''present'' = 1" "bf_width L ''write'' = 1" "bf_width L ''no_execute'' = 1"
  shows "bf_flag L ''present'' (put_attributes pat L a e0) \<longleftrightarrow> bit (map_bit a ''present'') 0"
    "bf_flag L ''write'' (put_attributes pat L a e0) \<longleftrightarrow> bit (map_bit a ''write'') 0"
    "bf_flag L ''no_execute'' (put_attributes pat L a e0) \<longleftrightarrow> map_bit a ''execute'' = 0"
proof -
  show "bf_flag L ''present'' (put_attributes pat L a e0) \<longleftrightarrow> bit (map_bit a ''present'') 0"
    "bf_flag L ''write'' (put_attributes pat L a e0) \<longleftrightarrow> bit (map_bit a ''write'') 0"
    "bf_flag L ''no_execute'' (put_attributes pat L a e0) \<longleftrightarrow> map_bit a ''execute'' = 0"
    using assms by (simp_all add: put_attributes_def Let_def bf_flag_def bf_get_put_same bf_get_put_other
        bit_0 odd_iff_mod_2_eq_one of_flag_def)
qed

lemma ucast_up_eq_0: "(ucast (x :: u32) :: u64) = 0 \<longleftrightarrow> x = 0"
proof
  assume eq: "(ucast x :: u64) = 0"
  show "x = 0"
  proof (rule bit_word_eqI)
    fix n assume "n < LENGTH(32)"
    then have "bit x n = bit (ucast x :: u64) n" by (simp add: bit_simps)
    then show "bit x n = bit 0 n" by (simp add: eq)
  qed
qed simp

lemma map_bit_flag:
  assumes "bf_width noir_cvm_mapping_attributes f = Suc 0"
  shows "bit (map_bit a f) 0 \<longleftrightarrow> bf_flag noir_cvm_mapping_attributes f a"
  unfolding bf_flag_bit [OF assms] map_bit_def bf_get_def assms
  by (simp add: bit_simps)

lemma map_bit_zero: "map_bit a f = 0 \<longleftrightarrow> \<not> bf_flag noir_cvm_mapping_attributes f a"
  by (simp add: map_bit_def bf_flag_def ucast_up_eq_0)

lemma pte_size: "bf_size amd64_npt_pte = 64"
  by (simp add: bf_size_def amd64_npt_pte_def)

lemma set_pte_entry_get:
  "bf_flag amd64_npt_pte ''present'' (nvc_svmc_set_pte_entry pat hpa a) \<longleftrightarrow> bf_flag noir_cvm_mapping_attributes ''present'' a"
  "bf_flag amd64_npt_pte ''write'' (nvc_svmc_set_pte_entry pat hpa a) \<longleftrightarrow> bf_flag noir_cvm_mapping_attributes ''write'' a"
  "bf_flag amd64_npt_pte ''no_execute'' (nvc_svmc_set_pte_entry pat hpa a) \<longleftrightarrow> \<not> bf_flag noir_cvm_mapping_attributes ''execute'' a"
  "bf_get amd64_npt_pte ''page_base'' (nvc_svmc_set_pte_entry pat hpa a) = take_bit 40 (page_4kb_count hpa)"
proof -
  have other: "bf_flag amd64_npt_pte f (nvc_svmc_set_pte_entry pat hpa a) = bf_flag amd64_npt_pte f (put_attributes pat amd64_npt_pte a 0)"
    if "f \<noteq> ''page_base''" for f
    using that by (simp add: nvc_svmc_set_pte_entry_def bf_flag_def bf_get_put_other)
  note at = put_attributes_get [of amd64_npt_pte, unfolded pte_size]
  show "bf_flag amd64_npt_pte ''present'' (nvc_svmc_set_pte_entry pat hpa a) \<longleftrightarrow> bf_flag noir_cvm_mapping_attributes ''present'' a"
    "bf_flag amd64_npt_pte ''write'' (nvc_svmc_set_pte_entry pat hpa a) \<longleftrightarrow> bf_flag noir_cvm_mapping_attributes ''write'' a"
    "bf_flag amd64_npt_pte ''no_execute'' (nvc_svmc_set_pte_entry pat hpa a) \<longleftrightarrow> \<not> bf_flag noir_cvm_mapping_attributes ''execute'' a"
    by (simp_all add: other at layout map_bit_flag map_bit_zero)
  show "bf_get amd64_npt_pte ''page_base'' (nvc_svmc_set_pte_entry pat hpa a) = take_bit 40 (page_4kb_count hpa)"
    by (simp add: nvc_svmc_set_pte_entry_def bf_get_put_same pte_size layout)
qed

text \<open>What a reader sees of a page that was mapped with the given attributes.\<close>

definition mapped_page :: "u64 \<Rightarrow> u32 \<Rightarrow> u64 \<Rightarrow> bool \<Rightarrow> bool \<Rightarrow> bool \<times> u64" where
  "mapped_page hpa map_attrib gpa w x =
     (if bf_flag noir_cvm_mapping_attributes ''present'' map_attrib
         \<and> (w \<longrightarrow> bf_flag noir_cvm_mapping_attributes ''write'' map_attrib)
         \<and> (bf_flag noir_cvm_mapping_attributes ''execute'' map_attrib \<or> x)
      then (True, page_4kb_base (take_bit 52 hpa) OR page_4kb_offset gpa) else (False, 0))"

lemma leaf_mapping_set_pte:
  "leaf_mapping (nvc_svmc_set_pte_entry pat hpa a) gpa True w x = mapped_page hpa a gpa w x"
proof -
  have "page_4kb_mult (take_bit 40 (page_4kb_count hpa)) = page_4kb_base (take_bit 52 hpa)"
    unfolding page_base_mask
    by (rule bit_word_eqI) (auto simp: page_4kb_mult_def page_4kb_count_def bit_simps)
  moreover have "bf_get amd64_addr_translator ''page_offset'' gpa = page_4kb_offset gpa"
    by (simp add: bf_get_def layout page_offset_mask slice_get_def)
  ultimately show ?thesis
    by (auto simp: leaf_mapping_def mapped_page_def perm_ok_def set_pte_entry_get)
qed

end
