(* ===== verification/Npt_Mapping.thy ===== *)
theory Npt_Mapping
  imports Npt_Map
begin

text \<open>
  The properties of mapping one guest page: \<open>nvc_svmc_set_page_map\<close> against
  \<open>nvc_svmc_get_physical_mapping\<close>, its resources, and what an allocation failure leaves behind.
\<close>

text \<open>The manager as \<open>nvc_svmc_create_vm\<close> leaves it: a zeroed top table and no descriptors.\<close>

definition empty_manager :: "u64 \<Rightarrow> svm_npt_manager" where
  "empty_manager p = \<lparr>ncr3_virt = \<lambda>_. 0, ncr3_phys = p, pdpte_list = [], pde_list = [], pte_list = []\<rparr>"

lemma wf_empty_manager: "page_frame p \<Longrightarrow> wf_npt (empty_manager p)"
  by (simp add: wf_npt_def upper2_def upper3_def empty_manager_def npt_phys_def link_def
      table_of_def npt_root_def low_half_def)

definition plenty :: allocs where
  "plenty = \<lparr>pool = [True, True, True], pages = [Some 0x5000, Some 0x6000, Some 0x7000]\<rparr>"

definition wb_pat :: "u8 list" where "wb_pat = [6, 4, 7, 0, 6, 4, 7, 0]"

lemma create_1gb_enough:
  assumes "pool al = True # bs" "pages al = Some p # ps"
  shows "fst (nvc_svmc_create_1gb_page_map pat m gpa h null_map al) = noir_success"
  by (simp add: nvc_svmc_create_1gb_page_map_def next_pool_def next_page_def assms Let_def)

lemma create_2mb_enough:
  assumes "pool al = True # True # bs" "pages al = Some p # Some q # ps"
  shows "fst (nvc_svmc_create_2mb_page_map pat m gpa h null_map al) = noir_success"
proof -
  let ?al = "al\<lparr>pool := True # bs, pages := Some q # ps\<rparr>"
  have "fst (nvc_svmc_create_1gb_page_map pat m' gpa 0 null_map ?al) = noir_success" for m'
    by (rule create_1gb_enough) simp_all
  then have "\<exists>m2 al2. nvc_svmc_create_1gb_page_map pat m' gpa 0 null_map ?al = (noir_success, m2, al2)" for m'
    by (metis prod.collapse)
  then obtain m2 al2 where "nvc_svmc_create_1gb_page_map pat m' gpa 0 null_map ?al = (noir_success, m2 m', al2 m')" for m'
    by metis
  then show ?thesis
    by (simp add: nvc_svmc_create_2mb_page_map_def next_pool_def next_page_def assms Let_def split: option.split)
qed

lemma create_4kb_enough:
  assumes "pool al = True # True # True # bs" "pages al = Some p # Some q # Some r # ps"
  shows "fst (nvc_svmc_create_4kb_page_map pat m gpa h null_map al) = noir_success"
proof -
  let ?al = "al\<lparr>pool := True # True # bs, pages := Some q # Some r # ps\<rparr>"
  have "fst (nvc_svmc_create_2mb_page_map pat m' gpa 0 null_map ?al) = noir_success" for m'
    by (rule create_2mb_enough) simp_all
  then have "\<exists>m2 al2. nvc_svmc_create_2mb_page_map pat m' gpa 0 null_map ?al = (noir_success, m2, al2)" for m'
    by (metis prod.collapse)
  then obtain m2 al2 where "nvc_svmc_create_2mb_page_map pat m' gpa 0 null_map ?al = (noir_success, m2 m', al2 m')" for m'
    by metis
  then show ?thesis
    by (simp add: nvc_svmc_create_4kb_page_map_def next_pool_def next_page_def assms Let_def split: option.split)
qed

lemma set_page_map_enough:
  assumes "map_psize a = 0" "take 3 (pool al) = [True, True, True]" "take 3 (pages al) = [Some p, Some q, Some r]"
  shows "fst (nvc_svmc_set_page_map pat m gpa hpa a al) = noir_success"
proof -
  obtain bs where b: "pool al = True # True # True # bs"
    using assms(2) by (cases "pool al"; cases "tl (pool al)"; cases "tl (tl (pool al))") auto
  obtain ps where ps: "pages al = Some p # Some q # Some r # ps"
    using assms(3) by (cases "pages al"; cases "tl (pages al)"; cases "tl (tl (pages al))") auto
  have "fst (nvc_svmc_create_4kb_page_map pat m gpa 0 null_map al) = noir_success"
    by (rule create_4kb_enough [OF b ps])
  then obtain m1 al1 where "nvc_svmc_create_4kb_page_map pat m gpa 0 null_map al = (noir_success, m1, al1)"
    by (metis prod.collapse)
  then show ?thesis
    using assms(1) by (simp add: nvc_svmc_set_page_map_def Let_def split: option.split)
qed

text \<open>C26: Mapping one 4-KiB page of a customizable VM is a functional update of its guest-physical
  memory: on success the nested-paging invariant holds again (levels linked, one table per region,
  every table in a page of its own), a reader of that page gets the host page with the access rights
  of the mapping attributes, and what a reader gets of every other page is unchanged, whichever
  levels had to be created on the way.\<close>

theorem set_page_map_maps:
  assumes "wf_npt m" "low_half gpa" "fresh m al" "map_psize map_attrib = 0"
    and "nvc_svmc_set_page_map host_pat m gpa hpa map_attrib al = (noir_success, m', al')"
  shows "wf_npt m' \<and> fresh m' al' \<and>
    (\<forall>g w x. low_half g \<longrightarrow> nvc_svmc_get_physical_mapping m' g True w x =
       (if page_4kb_count g = page_4kb_count gpa then mapped_page hpa map_attrib g w x
        else nvc_svmc_get_physical_mapping m g True w x))"
proof -
  note st = set_page_map_step [OF assms]
  then show ?thesis
    using get_mapping_present [of m'] get_mapping_present [OF assms(1)] leaf_mapping_set_pte by auto
qed

text \<open>Mapping one 4-KiB page needs at most three descriptors and three pages: when the next three
  allocations of each kind succeed, \<open>nvc_svmc_set_page_map\<close> succeeds from every state of the
  manager, whatever levels are missing.\<close>

theorem set_page_map_succeeds:
  assumes "map_psize map_attrib = 0" "take 3 (pool al) = [True, True, True]"
    "take 3 (pages al) = [Some p, Some q, Some r]"
  shows "\<exists>m' al'. nvc_svmc_set_page_map host_pat m gpa hpa map_attrib al = (noir_success, m', al')"
  using set_page_map_enough [OF assms, of host_pat m gpa hpa] by (metis prod.collapse)

lemma example_ready:
  "wf_npt (empty_manager 0x4000)" "low_half 0x12345678" "fresh (empty_manager 0x4000) plenty" "map_psize 7 = 0"
proof -
  show "wf_npt (empty_manager 0x4000)"
    by (rule wf_empty_manager) (simp add: page_frame_def page_4kb_mult_def page_4kb_count_def)
  show "low_half 0x12345678" by (simp add: low_half_def)
  show "fresh (empty_manager 0x4000) plenty"
    by (simp add: fresh_def plenty_def granted_pages_def empty_manager_def npt_phys_def
        List.map_filter_simps page_frame_def page_4kb_mult_def page_4kb_count_def)
  show "map_psize 7 = 0" by (simp add: map_psize_def bf_get_def layout slice_get_def)
qed

lemma plenty_takes:
  "take 3 (pool plenty) = [True, True, True]" "take 3 (pages plenty) = [Some 0x5000, Some 0x6000, Some 0x7000]"
  by (simp_all add: plenty_def)

theorem set_page_map_succeeds_witness:
  "\<exists>m' al'. nvc_svmc_set_page_map wb_pat (empty_manager 0x4000) 0x12345678 0xabc000 7 plenty = (noir_success, m', al')"
  by (rule set_page_map_succeeds [OF example_ready(4) plenty_takes])

theorem set_page_map_maps_witness:
  "case nvc_svmc_set_page_map wb_pat (empty_manager 0x4000) 0x12345678 0xabc000 7 plenty of
     (st, m', al') \<Rightarrow> st = noir_success \<and>
       nvc_svmc_get_physical_mapping m' 0x12345678 True True True = (True, 0xabc678) \<and>
       nvc_svmc_get_physical_mapping m' 0x12346678 True True True = (False, 0)"
proof -
  obtain m' al' where r: "nvc_svmc_set_page_map wb_pat (empty_manager 0x4000) 0x12345678 0xabc000 7 plenty
      = (noir_success, m', al')"
    using set_page_map_enough [OF example_ready(4) plenty_takes] by (metis prod.collapse)
  have l: "low_half 0x12346678" by (simp add: low_half_def)
  have e: "nvc_svmc_get_physical_mapping (empty_manager 0x4000) 0x12346678 True True True = (False, 0)"
    by (simp add: nvc_svmc_get_physical_mapping_def empty_manager_def perm_ok_def bf_flag_def bf_get_def)
  have m: "mapped_page 0xabc000 7 0x12345678 True True = (True, 0xabc678)"
    by (simp add: mapped_page_def bf_flag_bit layout page_4kb_base_def page_4kb_offset_def)
  show ?thesis
    using set_page_map_maps [OF example_ready r] example_ready(2) l
    by (simp add: r e m page_4kb_count_def)
qed

text \<open>A failed allocation of an upper level poisons the region. When the page directory of a new
  region cannot be allocated, \<open>nvc_svmc_set_page_map\<close> reports \<open>noir_insufficient_resources\<close> but the
  page table stays in its list, linked to nothing: every later mapping of the same page reports
  success without allocating anything, and the page is still unreachable.\<close>

theorem failed_level_hides_mapping:
  assumes "low_half gpa" "map_psize map_attrib = 0"
  shows "\<exists>m1 al1. nvc_svmc_set_page_map host_pat (empty_manager root) gpa hpa map_attrib
           \<lparr>pool = [True, False], pages = [Some p]\<rparr> = (noir_insufficient_resources, m1, al1) \<and>
         (\<forall>al. \<exists>m2. nvc_svmc_set_page_map host_pat m1 gpa hpa map_attrib al = (noir_success, m2, al) \<and>
           (\<forall>w x. nvc_svmc_get_physical_mapping m2 gpa True w x = (False, 0)))"
proof -
  let ?d = "new_desc p (page_2mb_base gpa) (gpa_index ''pte_offset'' gpa) (nvc_svmc_set_pte_entry host_pat 0 null_map)"
  let ?m1 = "(empty_manager root)\<lparr>pte_list := [?d]\<rparr>"
  have "nvc_svmc_set_page_map host_pat (empty_manager root) gpa hpa map_attrib \<lparr>pool = [True, False], pages = [Some p]\<rparr>
      = (noir_insufficient_resources, ?m1, \<lparr>pool = [], pages = []\<rparr>)"
    using assms(2)
    by (simp add: nvc_svmc_set_page_map_def nvc_svmc_create_4kb_page_map_def nvc_svmc_create_2mb_page_map_def
        empty_manager_def next_pool_def next_page_def Let_def)
  moreover have "in_region (2 ^ 21) gpa (region_start 21 gpa)"
    using assms(1) in_region_iff [of 21 "region_start 21 gpa" gpa] by simp
  then have found: "find_desc page_2mb_size gpa [?d] = Some 0"
    by (simp add: page_size_exp)
  have "\<exists>m2. nvc_svmc_set_page_map host_pat ?m1 gpa hpa map_attrib al = (noir_success, m2, al) \<and>
           (\<forall>w x. nvc_svmc_get_physical_mapping m2 gpa True w x = (False, 0))" for al
    using assms(2) found
    by (simp add: nvc_svmc_set_page_map_def Let_def nvc_svmc_get_physical_mapping_def empty_manager_def
        perm_ok_def bf_flag_def bf_get_def)
  ultimately show ?thesis by blast
qed

theorem failed_level_hides_mapping_witness:
  "\<exists>m1 al1. nvc_svmc_set_page_map wb_pat (empty_manager 0x4000) 0x12345678 0xabc000 7
           \<lparr>pool = [True, False], pages = [Some 0x5000]\<rparr> = (noir_insufficient_resources, m1, al1) \<and>
         (\<forall>al. \<exists>m2. nvc_svmc_set_page_map wb_pat m1 0x12345678 0xabc000 7 al = (noir_success, m2, al) \<and>
           (\<forall>w x. nvc_svmc_get_physical_mapping m2 0x12345678 True w x = (False, 0)))"
  using failed_level_hides_mapping [OF example_ready(2,4)] by blast

end
