(* ===== verification/Vmcb.thy ===== *)
theory Vmcb
  imports Layouts
begin

text \<open>
  The virtual machine control block as the code accesses it: a page of bytes with the offsets of
  \<open>svm_vmcb.h\<close>, read and written at a width of 8, 16, 32 or 64 bits.
\<close>

section \<open>Access\<close>

definition wr :: "nat \<Rightarrow> bytes \<Rightarrow> nat \<Rightarrow> u64 \<Rightarrow> bytes" where
  "wr n b p v = (\<lambda>a. if p \<le> a \<and> a < p + n then byte_of v (a - p) else b a)"

definition vmread8 :: "bytes \<Rightarrow> nat \<Rightarrow> u8" where "vmread8 b p = b p"
definition vmread16 :: "bytes \<Rightarrow> nat \<Rightarrow> u16" where
  "vmread16 b p = push_bit 8 (ucast (b (p + 1))) OR ucast (b p)"
definition vmread32 :: "bytes \<Rightarrow> nat \<Rightarrow> u32" where
  "vmread32 b p = push_bit 16 (ucast (vmread16 b (p + 2))) OR ucast (vmread16 b p)"
definition vmread64 :: "bytes \<Rightarrow> nat \<Rightarrow> u64" where "vmread64 b p = load_u64 b p"

definition vmwrite8 :: "bytes \<Rightarrow> nat \<Rightarrow> u8 \<Rightarrow> bytes" where "vmwrite8 b p v = wr 1 b p (ucast v)"
definition vmwrite16 :: "bytes \<Rightarrow> nat \<Rightarrow> u16 \<Rightarrow> bytes" where "vmwrite16 b p v = wr 2 b p (ucast v)"
definition vmwrite32 :: "bytes \<Rightarrow> nat \<Rightarrow> u32 \<Rightarrow> bytes" where "vmwrite32 b p v = wr 4 b p (ucast v)"
definition vmwrite64 :: "bytes \<Rightarrow> nat \<Rightarrow> u64 \<Rightarrow> bytes" where "vmwrite64 b p v = wr 8 b p v"

definition vmcb_bt32 :: "bytes \<Rightarrow> nat \<Rightarrow> nat \<Rightarrow> bool" where
  "vmcb_bt32 b p n \<longleftrightarrow> bit (vmread32 b p) n"
definition vmcb_bts32 :: "bytes \<Rightarrow> nat \<Rightarrow> nat \<Rightarrow> bytes" where
  "vmcb_bts32 b p n = vmwrite32 b p (set_bit n (vmread32 b p))"
definition vmcb_btr32 :: "bytes \<Rightarrow> nat \<Rightarrow> nat \<Rightarrow> bytes" where
  "vmcb_btr32 b p n = vmwrite32 b p (unset_bit n (vmread32 b p))"

section \<open>Reads after writes\<close>

lemma bit_vmread64: "bit (vmread64 b p) n \<longleftrightarrow> n < 64 \<and> bit (b (p + n div 8)) (n mod 8)"
  by (simp add: vmread64_def bit_load_u64)

lemma vmread16_load: "vmread16 b p = ucast (load_u64 b p)"
proof (rule bit_word_eqI)
  fix n assume n: "n < LENGTH(16)"
  show "bit (vmread16 b p) n \<longleftrightarrow> bit (ucast (load_u64 b p) :: u16) n"
  proof (cases "n < 8")
    case True
    with n show ?thesis by (simp add: vmread16_def bit_simps bit_load_u64)
  next
    case False
    with n have "n div 8 = 1" "n mod 8 = n - 8" by (simp_all add: div_nat_eqI mod_if)
    moreover have "\<not> bit (b p) n" using False bit_imp_le_length [of "b p" n] by auto
    moreover have "n - 8 < 16" using n by simp
    ultimately show ?thesis using n False by (simp add: vmread16_def bit_simps bit_load_u64)
  qed
qed

lemma vmread32_load: "vmread32 b p = ucast (load_u64 b p)"
proof (rule bit_word_eqI)
  fix n assume n: "n < LENGTH(32)"
  show "bit (vmread32 b p) n \<longleftrightarrow> bit (ucast (load_u64 b p) :: u32) n"
  proof (cases "n < 16")
    case True
    with n show ?thesis by (simp add: vmread32_def vmread16_load bit_simps)
  next
    case False
    then obtain k where k: "n = 16 + k" using le_Suc_ex by (metis not_less)
    moreover have "k < 16" using n k by simp
    moreover have "(16 + k) div 8 = Suc (Suc (k div 8))" "(16 + k) mod 8 = k mod 8" by presburger+
    ultimately show ?thesis
      by (simp add: vmread32_def vmread16_load bit_simps bit_load_u64)
  qed
qed

lemma take_bit_64 [simp]: "take_bit 64 (x :: u64) = x"
  by (rule bit_word_eqI) (simp add: bit_simps)

lemmas vmread_load = vmread8_def vmread16_load vmread32_load vmread64_def

lemma load_wr_same: "n \<le> 8 \<Longrightarrow> take_bit (8 * n) (load_u64 (wr n b p v) p) = take_bit (8 * n) v"
proof (rule bit_word_eqI)
  fix i assume "n \<le> 8" "i < LENGTH(64)"
  then show "bit (take_bit (8 * n) (load_u64 (wr n b p v) p)) i \<longleftrightarrow> bit (take_bit (8 * n) v) i"
    by (auto simp: bit_simps bit_load_u64 wr_def)
qed

lemma wr_other: "p + m \<le> q \<or> q + n \<le> p \<Longrightarrow> i < m \<Longrightarrow> wr n b q v (p + i) = b (p + i)"
  by (auto simp: wr_def)

lemma load_wr_other:
  assumes "m \<le> 8" "p + m \<le> q \<or> q + n \<le> p"
  shows "take_bit (8 * m) (load_u64 (wr n b q v) p) = take_bit (8 * m) (load_u64 b p)"
proof (rule bit_word_eqI)
  fix i assume "i < LENGTH(64)"
  then show "bit (take_bit (8 * m) (load_u64 (wr n b q v) p)) i \<longleftrightarrow> bit (take_bit (8 * m) (load_u64 b p)) i"
    using assms wr_other [OF assms(2), of "i div 8" b v] by (auto simp: bit_simps bit_load_u64)
qed

lemma ucast_take_bit_eq:
  assumes "take_bit (LENGTH('a)) (x :: u64) = take_bit (LENGTH('a)) y"
  shows "(ucast x :: 'a::len word) = ucast y"
proof (rule bit_word_eqI)
  fix n assume n: "n < LENGTH('a)"
  have "bit (take_bit (LENGTH('a)) x) n = bit (take_bit (LENGTH('a)) y) n" by (simp only: assms)
  with n show "bit (ucast x :: 'a word) n \<longleftrightarrow> bit (ucast y :: 'a word) n" by (simp add: bit_simps)
qed

named_theorems vmcb

lemma vmread8_wr [vmcb]:
  "p + 1 \<le> q \<or> q + n \<le> p \<Longrightarrow> vmread8 (wr n b q v) p = vmread8 b p"
  by (auto simp: vmread8_def wr_def)
lemma vmread16_wr [vmcb]:
  "p + 2 \<le> q \<or> q + n \<le> p \<Longrightarrow> vmread16 (wr n b q v) p = vmread16 b p"
  unfolding vmread16_load using load_wr_other [of 2 p q n b v] by (intro ucast_take_bit_eq) simp
lemma vmread32_wr [vmcb]:
  "p + 4 \<le> q \<or> q + n \<le> p \<Longrightarrow> vmread32 (wr n b q v) p = vmread32 b p"
  unfolding vmread32_load using load_wr_other [of 4 p q n b v] by (intro ucast_take_bit_eq) simp
lemma vmread64_wr [vmcb]:
  "p + 8 \<le> q \<or> q + n \<le> p \<Longrightarrow> vmread64 (wr n b q v) p = vmread64 b p"
  unfolding vmread64_def using load_wr_other [of 8 p q n b v] by simp

lemma vmread8_wr_same [vmcb]: "0 < n \<Longrightarrow> vmread8 (wr n b p v) p = ucast v"
  by (auto simp: vmread8_def wr_def byte_of_def)
lemma vmread16_wr_same [vmcb]: "vmread16 (wr 2 b p v) p = ucast v"
  unfolding vmread16_load using load_wr_same [of 2 b p v] by (intro ucast_take_bit_eq) simp
lemma vmread32_wr_same [vmcb]: "vmread32 (wr 4 b p v) p = ucast v"
  unfolding vmread32_load using load_wr_same [of 4 b p v] by (intro ucast_take_bit_eq) simp
lemma vmread64_wr_same [vmcb]: "vmread64 (wr 8 b p v) p = v"
  unfolding vmread64_def using load_wr_same [of 8 b p v] by simp

lemma ucast_down_up [simp]:
  "(ucast (ucast (x :: u8) :: u64) :: u8) = x" "(ucast (ucast (y :: u16) :: u64) :: u16) = y"
  "(ucast (ucast (z :: u32) :: u64) :: u32) = z"
  by (intro bit_word_eqI; simp add: bit_simps)+

lemma vmread_if [simp]:
  "vmread8 (if c then a else b) p = (if c then vmread8 a p else vmread8 b p)"
  "vmread16 (if c then a else b) p = (if c then vmread16 a p else vmread16 b p)"
  "vmread32 (if c then a else b) p = (if c then vmread32 a p else vmread32 b p)"
  "vmread64 (if c then a else b) p = (if c then vmread64 a p else vmread64 b p)"
  by simp_all

lemmas vmwrite_wr = vmwrite8_def vmwrite16_def vmwrite32_def vmwrite64_def vmcb_bts32_def vmcb_btr32_def

section \<open>Offsets\<close>

text \<open>\<open>svm_vmcb_offset\<close>\<close>

definition intercept_read_cr :: nat where "intercept_read_cr = 0x0"
definition intercept_write_cr :: nat where "intercept_write_cr = 0x2"
definition intercept_access_cr :: nat where "intercept_access_cr = 0x0"
definition intercept_read_dr :: nat where "intercept_read_dr = 0x4"
definition intercept_write_dr :: nat where "intercept_write_dr = 0x6"
definition intercept_access_dr :: nat where "intercept_access_dr = 0x4"
definition intercept_exceptions :: nat where "intercept_exceptions = 0x8"
definition intercept_instruction1 :: nat where "intercept_instruction1 = 0xc"
definition intercept_instruction2 :: nat where "intercept_instruction2 = 0x10"
definition intercept_write_cr_post :: nat where "intercept_write_cr_post = 0x12"
definition intercept_instruction3 :: nat where "intercept_instruction3 = 0x14"
definition pause_filter_threshold :: nat where "pause_filter_threshold = 0x3c"
definition pause_filter_count :: nat where "pause_filter_count = 0x3e"
definition iopm_physical_address :: nat where "iopm_physical_address = 0x40"
definition msrpm_physical_address :: nat where "msrpm_physical_address = 0x48"
definition tsc_offset :: nat where "tsc_offset = 0x50"
definition guest_asid :: nat where "guest_asid = 0x58"
definition tlb_control :: nat where "tlb_control = 0x5c"
definition avic_control :: nat where "avic_control = 0x60"
definition avic_virq_vector :: nat where "avic_virq_vector = 0x64"
definition guest_interrupt :: nat where "guest_interrupt = 0x68"
definition exit_code :: nat where "exit_code = 0x70"
definition exit_info1 :: nat where "exit_info1 = 0x78"
definition exit_info2 :: nat where "exit_info2 = 0x80"
definition exit_interrupt_info :: nat where "exit_interrupt_info = 0x88"
definition npt_control :: nat where "npt_control = 0x90"
definition avic_apic_bar :: nat where "avic_apic_bar = 0x98"
definition ghcb_physical_address :: nat where "ghcb_physical_address = 0xa0"
definition event_injection :: nat where "event_injection = 0xa8"
definition event_error_code :: nat where "event_error_code = 0xac"
definition npt_cr3 :: nat where "npt_cr3 = 0xb0"
definition lbr_virtualization_control :: nat where "lbr_virtualization_control = 0xb8"
definition vmcb_clean_bits :: nat where "vmcb_clean_bits = 0xc0"
definition next_rip :: nat where "next_rip = 0xc8"
definition number_of_bytes_fetched :: nat where "number_of_bytes_fetched = 0xd0"
definition guest_instruction_bytes :: nat where "guest_instruction_bytes = 0xd1"
definition avic_backing_page_pointer :: nat where "avic_backing_page_pointer = 0xe0"
definition avic_logical_table_pointer :: nat where "avic_logical_table_pointer = 0xf0"
definition avic_physical_table_pointer :: nat where "avic_physical_table_pointer = 0xf8"
definition vmsa_pointer :: nat where "vmsa_pointer = 0x108"
definition vmgexit_rax :: nat where "vmgexit_rax = 0x110"
definition vmgexit_cpl :: nat where "vmgexit_cpl = 0x118"
definition enlightenments_control :: nat where "enlightenments_control = 0x3e0"
definition vp_id :: nat where "vp_id = 0x3e4"
definition vm_id :: nat where "vm_id = 0x3e8"
definition partition_assist_page :: nat where "partition_assist_page = 0x3f0"
definition guest_es_selector :: nat where "guest_es_selector = 0x400"
definition guest_es_attrib :: nat where "guest_es_attrib = 0x402"
definition guest_es_limit :: nat where "guest_es_limit = 0x404"
definition guest_es_base :: nat where "guest_es_base = 0x408"
definition guest_cs_selector :: nat where "guest_cs_selector = 0x410"
definition guest_cs_attrib :: nat where "guest_cs_attrib = 0x412"
definition guest_cs_limit :: nat where "guest_cs_limit = 0x414"
definition guest_cs_base :: nat where "guest_cs_base = 0x418"
definition guest_ss_selector :: nat where "guest_ss_selector = 0x420"
definition guest_ss_attrib :: nat where "guest_ss_attrib = 0x422"
definition guest_ss_limit :: nat where "guest_ss_limit = 0x424"
definition guest_ss_base :: nat where "guest_ss_base = 0x428"
definition guest_ds_selector :: nat where "guest_ds_selector = 0x430"
definition guest_ds_attrib :: nat where "guest_ds_attrib = 0x432"
definition guest_ds_limit :: nat where "guest_ds_limit = 0x434"
definition guest_ds_base :: nat where "guest_ds_base = 0x438"
definition guest_fs_selector :: nat where "guest_fs_selector = 0x440"
definition guest_fs_attrib :: nat where "guest_fs_attrib = 0x442"
definition guest_fs_limit :: nat where "guest_fs_limit = 0x444"
definition guest_fs_base :: nat where "guest_fs_base = 0x448"
definition guest_gs_selector :: nat where "guest_gs_selector = 0x450"
definition guest_gs_attrib :: nat where "guest_gs_attrib = 0x452"
definition guest_gs_limit :: nat where "guest_gs_limit = 0x454"
definition guest_gs_base :: nat where "guest_gs_base = 0x458"
definition guest_gdtr_selector :: nat where "guest_gdtr_selector = 0x460"
definition guest_gdtr_attrib :: nat where "guest_gdtr_attrib = 0x462"
definition guest_gdtr_limit :: nat where "guest_gdtr_limit = 0x464"
definition guest_gdtr_base :: nat where "guest_gdtr_base = 0x468"
definition guest_ldtr_selector :: nat where "guest_ldtr_selector = 0x470"
definition guest_ldtr_attrib :: nat where "guest_ldtr_attrib = 0x472"
definition guest_ldtr_limit :: nat where "guest_ldtr_limit = 0x474"
definition guest_ldtr_base :: nat where "guest_ldtr_base = 0x478"
definition guest_idtr_selector :: nat where "guest_idtr_selector = 0x480"
definition guest_idtr_attrib :: nat where "guest_idtr_attrib = 0x482"
definition guest_idtr_limit :: nat where "guest_idtr_limit = 0x484"
definition guest_idtr_base :: nat where "guest_idtr_base = 0x488"
definition guest_tr_selector :: nat where "guest_tr_selector = 0x490"
definition guest_tr_attrib :: nat where "guest_tr_attrib = 0x492"
definition guest_tr_limit :: nat where "guest_tr_limit = 0x494"
definition guest_tr_base :: nat where "guest_tr_base = 0x498"
definition guest_cpl :: nat where "guest_cpl = 0x4cb"
definition guest_efer :: nat where "guest_efer = 0x4d0"
definition guest_cr4 :: nat where "guest_cr4 = 0x548"
definition guest_cr3 :: nat where "guest_cr3 = 0x550"
definition guest_cr0 :: nat where "guest_cr0 = 0x558"
definition guest_dr7 :: nat where "guest_dr7 = 0x560"
definition guest_dr6 :: nat where "guest_dr6 = 0x568"
definition guest_rflags :: nat where "guest_rflags = 0x570"
definition guest_rip :: nat where "guest_rip = 0x578"
definition guest_rsp :: nat where "guest_rsp = 0x5d8"
definition guest_s_cet :: nat where "guest_s_cet = 0x5e0"
definition guest_ssp :: nat where "guest_ssp = 0x5e8"
definition guest_isst :: nat where "guest_isst = 0x5f0"
definition guest_rax :: nat where "guest_rax = 0x5f8"
definition guest_star :: nat where "guest_star = 0x600"
definition guest_lstar :: nat where "guest_lstar = 0x608"
definition guest_cstar :: nat where "guest_cstar = 0x610"
definition guest_sfmask :: nat where "guest_sfmask = 0x618"
definition guest_kernel_gs_base :: nat where "guest_kernel_gs_base = 0x620"
definition guest_sysenter_cs :: nat where "guest_sysenter_cs = 0x628"
definition guest_sysenter_esp :: nat where "guest_sysenter_esp = 0x630"
definition guest_sysenter_eip :: nat where "guest_sysenter_eip = 0x638"
definition guest_cr2 :: nat where "guest_cr2 = 0x640"
definition guest_pat :: nat where "guest_pat = 0x668"
definition guest_debug_ctrl :: nat where "guest_debug_ctrl = 0x670"
definition guest_last_branch_from :: nat where "guest_last_branch_from = 0x678"
definition guest_last_branch_to :: nat where "guest_last_branch_to = 0x680"
definition guest_last_exception_from :: nat where "guest_last_exception_from = 0x688"
definition guest_last_exception_to :: nat where "guest_last_exception_to = 0x690"
definition guest_debug_extened_config :: nat where "guest_debug_extened_config = 0x698"
definition guest_spec_ctrl :: nat where "guest_spec_ctrl = 0x6e0"
definition guest_lbr_stack_from :: nat where "guest_lbr_stack_from = 0xa70"
definition guest_lbr_stack_to :: nat where "guest_lbr_stack_to = 0xaf0"
definition guest_lbr_select :: nat where "guest_lbr_select = 0xb70"
definition guest_ibs_fetch_ctrl :: nat where "guest_ibs_fetch_ctrl = 0xb78"
definition guest_ibs_fetch_linear_address :: nat where "guest_ibs_fetch_linear_address = 0xb80"
definition guest_ibs_op_ctrl :: nat where "guest_ibs_op_ctrl = 0xb88"
definition guest_ibs_op_rip :: nat where "guest_ibs_op_rip = 0xb90"
definition guest_ibs_op_data1 :: nat where "guest_ibs_op_data1 = 0xb98"
definition guest_ibs_op_data2 :: nat where "guest_ibs_op_data2 = 0xba0"
definition guest_ibs_op_data3 :: nat where "guest_ibs_op_data3 = 0xba8"
definition guest_ibs_dc_linear_address :: nat where "guest_ibs_dc_linear_address = 0xbb0"
definition guest_bp_ibstgt_rip :: nat where "guest_bp_ibstgt_rip = 0xbb8"
definition guest_ic_ibs_extd_ctrl :: nat where "guest_ic_ibs_extd_ctrl = 0xbc0"

lemmas vmcb_offsets = intercept_read_cr_def intercept_write_cr_def intercept_access_cr_def intercept_read_dr_def
  intercept_write_dr_def intercept_access_dr_def intercept_exceptions_def
  intercept_instruction1_def intercept_instruction2_def intercept_write_cr_post_def
  intercept_instruction3_def pause_filter_threshold_def pause_filter_count_def
  iopm_physical_address_def msrpm_physical_address_def tsc_offset_def guest_asid_def
  tlb_control_def avic_control_def avic_virq_vector_def guest_interrupt_def exit_code_def
  exit_info1_def exit_info2_def exit_interrupt_info_def npt_control_def avic_apic_bar_def
  ghcb_physical_address_def event_injection_def event_error_code_def npt_cr3_def
  lbr_virtualization_control_def vmcb_clean_bits_def next_rip_def number_of_bytes_fetched_def
  guest_instruction_bytes_def avic_backing_page_pointer_def avic_logical_table_pointer_def
  avic_physical_table_pointer_def vmsa_pointer_def vmgexit_rax_def vmgexit_cpl_def
  enlightenments_control_def vp_id_def vm_id_def partition_assist_page_def guest_es_selector_def
  guest_es_attrib_def guest_es_limit_def guest_es_base_def guest_cs_selector_def
  guest_cs_attrib_def guest_cs_limit_def guest_cs_base_def guest_ss_selector_def
  guest_ss_attrib_def guest_ss_limit_def guest_ss_base_def guest_ds_selector_def
  guest_ds_attrib_def guest_ds_limit_def guest_ds_base_def guest_fs_selector_def
  guest_fs_attrib_def guest_fs_limit_def guest_fs_base_def guest_gs_selector_def
  guest_gs_attrib_def guest_gs_limit_def guest_gs_base_def guest_gdtr_selector_def
  guest_gdtr_attrib_def guest_gdtr_limit_def guest_gdtr_base_def guest_ldtr_selector_def
  guest_ldtr_attrib_def guest_ldtr_limit_def guest_ldtr_base_def guest_idtr_selector_def
  guest_idtr_attrib_def guest_idtr_limit_def guest_idtr_base_def guest_tr_selector_def
  guest_tr_attrib_def guest_tr_limit_def guest_tr_base_def guest_cpl_def guest_efer_def
  guest_cr4_def guest_cr3_def guest_cr0_def guest_dr7_def guest_dr6_def guest_rflags_def
  guest_rip_def guest_rsp_def guest_s_cet_def guest_ssp_def guest_isst_def guest_rax_def
  guest_star_def guest_lstar_def guest_cstar_def guest_sfmask_def guest_kernel_gs_base_def
  guest_sysenter_cs_def guest_sysenter_esp_def guest_sysenter_eip_def guest_cr2_def guest_pat_def
  guest_debug_ctrl_def guest_last_branch_from_def guest_last_branch_to_def
  guest_last_exception_from_def guest_last_exception_to_def guest_debug_extened_config_def
  guest_spec_ctrl_def guest_lbr_stack_from_def guest_lbr_stack_to_def guest_lbr_select_def
  guest_ibs_fetch_ctrl_def guest_ibs_fetch_linear_address_def guest_ibs_op_ctrl_def
  guest_ibs_op_rip_def guest_ibs_op_data1_def guest_ibs_op_data2_def guest_ibs_op_data3_def
  guest_ibs_dc_linear_address_def guest_bp_ibstgt_rip_def guest_ic_ibs_extd_ctrl_def

end
