(* ===== verification/Vcpu.thy ===== *)
theory Vcpu
  imports Vmcb Status
begin

text \<open>
  The processor state of a customizable virtual processor (\<open>noir_cvm_virtual_cpu\<close> in
  \<open>cvm_hvm.h\<close>) and the two interfaces through which a user hypervisor edits and views it: by
  register type and by register name (\<open>noirhvm.c\<close>). A buffer is memory seen through a byte
  pointer.
\<close>

section \<open>State\<close>

record segment_register =
  selector :: u16
  attrib :: u16
  limit :: u32
  base_addr :: u64

text \<open>The registers of \<open>noir_seg_state\<close> in the order of declaration, which the code also indexes.\<close>

datatype seg_reg = Es | Cs | Ss | Ds | Fs | Gs | Tr | Gdtr | Idtr | Ldtr

definition seg_list :: "seg_reg list" where
  "seg_list = [Es, Cs, Ss, Ds, Fs, Gs, Tr, Gdtr, Idtr, Ldtr]"

text \<open>
  Members that the code reaches through the address of the first one are functions from the index:
  \<open>gpr\<close> (\<open>rax\<close> to \<open>r15\<close>), \<open>drs\<close> (\<open>dr0\<close> to \<open>dr3\<close>, \<open>dr6\<close>, \<open>dr7\<close>), \<open>sysenter\<close> (\<open>cs\<close>, \<open>esp\<close>,
  \<open>eip\<close>), \<open>star\<close> (\<open>star\<close>, \<open>lstar\<close>, \<open>cstar\<close>, \<open>sfmask\<close>, \<open>ststar\<close>) and \<open>lbr\<close> (\<open>debug_ctrl\<close> and
  the four last-branch and last-exception registers). The state cache has 34 bits of bit fields in
  32-bit units, so it occupies two units: 64 bits.
\<close>

record noir_cvm_virtual_cpu =
  gpr :: "nat \<Rightarrow> u64"
  seg :: "seg_reg \<Rightarrow> segment_register"
  cr0 :: u64
  cr2 :: u64
  cr3 :: u64
  cr4 :: u64
  cr8 :: u64
  drs :: "nat \<Rightarrow> u64"
  sysenter :: "nat \<Rightarrow> u64"
  pat :: u64
  efer :: u64
  star :: "nat \<Rightarrow> u64"
  gsswap :: u64
  apic_bar :: u64
  mtrr_def_type :: u64
  lbr :: "nat \<Rightarrow> u64"
  xcr0 :: u64
  ghcb :: u64
  xsave_area :: bytes
  rflags :: u64
  rip :: u64
  tsc_off :: u64
  tunnel :: u64
  ref_count :: u32
  injected_event :: u32
  injected_error_code :: u32
  exit_intercept_code :: u32
  vcpu_options :: u32
  msr_interceptions :: u32
  state_cache :: u64
  exception_bitmap :: u32
  scheduling_priority :: u32
  statistics :: bytes

definition cached :: "string \<Rightarrow> noir_cvm_virtual_cpu \<Rightarrow> bool" where
  "cached f v \<longleftrightarrow> bf_flag noir_cvm_vcpu_state_cache f (state_cache v)"

definition set_cache :: "string \<Rightarrow> u64 \<Rightarrow> noir_cvm_virtual_cpu \<Rightarrow> noir_cvm_virtual_cpu" where
  "set_cache f b v = v\<lparr>state_cache := bf_put noir_cvm_vcpu_state_cache f b (state_cache v)\<rparr>"

abbreviation invalidate :: "string \<Rightarrow> noir_cvm_virtual_cpu \<Rightarrow> noir_cvm_virtual_cpu" where
  "invalidate f \<equiv> set_cache f 0"

lemma state_cache_size: "bf_size noir_cvm_vcpu_state_cache \<le> 64"
  by (simp add: bf_size_def noir_cvm_vcpu_state_cache_def)

lemma cached_set_other [simp]: "f \<noteq> g \<Longrightarrow> cached f (set_cache g x h) = cached f h"
  by (simp add: cached_def set_cache_def bf_flag_def bf_get_put_other)

lemma cached_set_same:
  "bf_width noir_cvm_vcpu_state_cache f = Suc 0 \<Longrightarrow> cached f (set_cache f x h) \<longleftrightarrow> bit x 0"
  using state_cache_size
  by (simp add: cached_def set_cache_def bf_flag_def bf_get_put_same bit_0 odd_iff_mod_2_eq_one)

section \<open>Buffers\<close>

definition load_seg :: "bytes \<Rightarrow> nat \<Rightarrow> segment_register" where
  "load_seg b p = \<lparr>selector = vmread16 b p, attrib = vmread16 b (p + 2), limit = vmread32 b (p + 4),
                   base_addr = vmread64 b (p + 8)\<rparr>"

definition store_seg :: "bytes \<Rightarrow> nat \<Rightarrow> segment_register \<Rightarrow> bytes" where
  "store_seg b p s =
     vmwrite64 (vmwrite32 (vmwrite16 (vmwrite16 b p (selector s)) (p + 2) (attrib s)) (p + 4) (limit s))
       (p + 8) (base_addr s)"

definition load_array :: "bytes \<Rightarrow> nat \<Rightarrow> nat \<Rightarrow> (nat \<Rightarrow> u64) \<Rightarrow> nat \<Rightarrow> u64" where
  "load_array b p n xs = (\<lambda>i. if i < n then load_u64 b (p + 8 * i) else xs i)"

fun store_array :: "bytes \<Rightarrow> nat \<Rightarrow> nat \<Rightarrow> (nat \<Rightarrow> u64) \<Rightarrow> bytes" where
  "store_array b p 0 xs = b"
| "store_array b p (Suc n) xs = store_u64 (store_array b p n xs) (p + 8 * n) (xs n)"

section \<open>Registers by type\<close>

datatype noir_cvm_register_type =
  General_purpose_register | Flags_register | Instruction_pointer | Control_register | Cr2_register
  | Debug_register | Dr67_register | Segment_register | Fgseg_register | Descriptor_table
  | Ldtr_task_register | Syscall_msr_register | Sysenter_msr_register | Cr8_register | Fxstate
  | Xsave_area | Xcr0_register | Efer_register | Pat_register | Last_branch_record_register
  | Time_stamp_counter | Ghcb_register | Apic_bar_register | Maximum_register_type

text \<open>
  \<open>sizeof(noir_fx_state)\<close>: the 16 XMM registers are declared with the type \<open>r128\<close>, which is a
  pointer, so they take 128 bytes.
\<close>

definition sizeof_noir_fx_state :: nat where
  "sizeof_noir_fx_state = (2 + 2 + 1 + 1 + 2 + 4 + 2 + 2 + 8 + 4 + 4) + 16 * 8 + 16 * 8 + 6 * 8 + 6 * 8"

fun noir_cvm_register_buffer_limit :: "noir_cvm_register_type \<Rightarrow> nat option" where
  "noir_cvm_register_buffer_limit General_purpose_register = Some (16 * 8)"
| "noir_cvm_register_buffer_limit Flags_register = Some 8"
| "noir_cvm_register_buffer_limit Instruction_pointer = Some 8"
| "noir_cvm_register_buffer_limit Control_register = Some (8 * 3)"
| "noir_cvm_register_buffer_limit Cr2_register = Some 8"
| "noir_cvm_register_buffer_limit Debug_register = Some (8 * 4)"
| "noir_cvm_register_buffer_limit Dr67_register = Some (8 * 2)"
| "noir_cvm_register_buffer_limit Segment_register = Some (16 * 4)"
| "noir_cvm_register_buffer_limit Fgseg_register = Some (16 * 2)"
| "noir_cvm_register_buffer_limit Descriptor_table = Some (16 * 2)"
| "noir_cvm_register_buffer_limit Ldtr_task_register = Some (16 * 2)"
| "noir_cvm_register_buffer_limit Syscall_msr_register = Some (8 * 4)"
| "noir_cvm_register_buffer_limit Sysenter_msr_register = Some (8 * 3)"
| "noir_cvm_register_buffer_limit Cr8_register = Some 8"
| "noir_cvm_register_buffer_limit Fxstate = Some sizeof_noir_fx_state"
| "noir_cvm_register_buffer_limit Xsave_area = Some 0"
| "noir_cvm_register_buffer_limit Xcr0_register = Some 8"
| "noir_cvm_register_buffer_limit Efer_register = Some 8"
| "noir_cvm_register_buffer_limit Pat_register = Some 8"
| "noir_cvm_register_buffer_limit Last_branch_record_register = Some (8 * 5)"
| "noir_cvm_register_buffer_limit Time_stamp_counter = Some 8"
| "noir_cvm_register_buffer_limit Ghcb_register = Some 8"
| "noir_cvm_register_buffer_limit Apic_bar_register = Some 8"
| "noir_cvm_register_buffer_limit Maximum_register_type = None"

text \<open>
  The \<open>switch\<close> of \<open>nvc_edit_vcpu_registers\<close>; \<open>tsc\<close> is what \<open>noir_rdtsc\<close> returns and \<open>xsize\<close> the
  supported size of the extended state.
\<close>

fun edit_registers ::
  "nat \<Rightarrow> u64 \<Rightarrow> noir_cvm_register_type \<Rightarrow> bytes \<Rightarrow> nat \<Rightarrow> noir_cvm_virtual_cpu \<Rightarrow> noir_status \<times> noir_cvm_virtual_cpu" where
  "edit_registers xsize tsc General_purpose_register buf sz v =
     (noir_success, invalidate ''gprvalid'' (v\<lparr>gpr := load_array buf 0 16 (gpr v)\<rparr>))"
| "edit_registers xsize tsc Flags_register buf sz v =
     (noir_success, invalidate ''gprvalid'' (v\<lparr>rflags := load_u64 buf 0\<rparr>))"
| "edit_registers xsize tsc Instruction_pointer buf sz v =
     (noir_success, invalidate ''gprvalid'' (v\<lparr>rip := load_u64 buf 0\<rparr>))"
| "edit_registers xsize tsc Control_register buf sz v =
     (noir_success, invalidate ''cr_valid''
        (v\<lparr>cr0 := load_u64 buf 0, cr3 := load_u64 buf 8, cr4 := load_u64 buf 16\<rparr>))"
| "edit_registers xsize tsc Cr2_register buf sz v =
     (noir_success, invalidate ''cr2valid'' (v\<lparr>cr2 := load_u64 buf 0\<rparr>))"
| "edit_registers xsize tsc Debug_register buf sz v =
     (noir_success, v\<lparr>drs := load_array buf 0 4 (drs v)\<rparr>)"
| "edit_registers xsize tsc Dr67_register buf sz v =
     (noir_success, invalidate ''dr_valid'' (v\<lparr>drs := (drs v)(4 := load_u64 buf 0, 5 := load_u64 buf 8)\<rparr>))"
| "edit_registers xsize tsc Segment_register buf sz v =
     (noir_success, invalidate ''sr_valid''
        (v\<lparr>seg := (seg v)(Es := load_seg buf 0, Cs := load_seg buf 16, Ss := load_seg buf 32,
                          Ds := load_seg buf 48)\<rparr>))"
| "edit_registers xsize tsc Fgseg_register buf sz v =
     (let v1 = v\<lparr>seg := (seg v)(Fs := load_seg buf 0, Gs := load_seg buf 16)\<rparr>;
          v2 = (if sz - 32 \<ge> 8 then v1\<lparr>gsswap := load_u64 buf 32\<rparr> else v1)
      in (noir_success, invalidate ''fg_valid'' v2))"
| "edit_registers xsize tsc Descriptor_table buf sz v =
     (noir_success, invalidate ''dt_valid''
        (v\<lparr>seg := (seg v)(
            Gdtr := (seg v Gdtr)\<lparr>limit := limit (load_seg buf 0), base_addr := base_addr (load_seg buf 0)\<rparr>,
            Idtr := (seg v Idtr)\<lparr>limit := limit (load_seg buf 16), base_addr := base_addr (load_seg buf 16)\<rparr>)\<rparr>))"
| "edit_registers xsize tsc Ldtr_task_register buf sz v =
     (noir_success, invalidate ''lt_valid''
        (v\<lparr>seg := (seg v)(Tr := load_seg buf 0, Ldtr := load_seg buf 16)\<rparr>))"
| "edit_registers xsize tsc Syscall_msr_register buf sz v =
     (noir_success, invalidate ''sc_valid'' (v\<lparr>star := load_array buf 0 4 (star v)\<rparr>))"
| "edit_registers xsize tsc Sysenter_msr_register buf sz v =
     (noir_success, invalidate ''se_valid'' (v\<lparr>sysenter := load_array buf 0 3 (sysenter v)\<rparr>))"
| "edit_registers xsize tsc Cr8_register buf sz v =
     (noir_success, invalidate ''tp_valid'' (v\<lparr>cr8 := load_u64 buf 0\<rparr>))"
| "edit_registers xsize tsc Fxstate buf sz v =
     (noir_success, v\<lparr>xsave_area := copy_bytes (xsave_area v) 0 buf 0 sizeof_noir_fx_state\<rparr>)"
| "edit_registers xsize tsc Xsave_area buf sz v =
     (if xsize \<le> sz then (noir_success, v\<lparr>xsave_area := copy_bytes (xsave_area v) 0 buf 0 xsize\<rparr>)
      else (noir_buffer_too_small, v))"
| "edit_registers xsize tsc Xcr0_register buf sz v =
     (noir_success, v\<lparr>xcr0 := load_u64 buf 0\<rparr>)"
| "edit_registers xsize tsc Efer_register buf sz v =
     (noir_success, invalidate ''ef_valid'' (v\<lparr>efer := load_u64 buf 0\<rparr>))"
| "edit_registers xsize tsc Pat_register buf sz v =
     (noir_success, invalidate ''pa_valid'' (v\<lparr>pat := load_u64 buf 0\<rparr>))"
| "edit_registers xsize tsc Last_branch_record_register buf sz v =
     (noir_success, invalidate ''lb_valid'' (v\<lparr>lbr := load_array buf 0 5 (lbr v)\<rparr>))"
| "edit_registers xsize tsc Time_stamp_counter buf sz v =
     (noir_success, invalidate ''ts_valid'' (v\<lparr>tsc_off := load_u64 buf 0 - tsc\<rparr>))"
| "edit_registers xsize tsc Ghcb_register buf sz v =
     (noir_success, v\<lparr>ghcb := load_u64 buf 0\<rparr>)"
| "edit_registers xsize tsc Apic_bar_register buf sz v =
     (noir_success, invalidate ''ap_valid'' (v\<lparr>apic_bar := load_u64 buf 0\<rparr>))"
| "edit_registers xsize tsc Maximum_register_type buf sz v = (noir_invalid_parameter, v)"

definition nvc_edit_vcpu_registers ::
  "nat \<Rightarrow> u64 \<Rightarrow> noir_cvm_register_type \<Rightarrow> bytes \<Rightarrow> nat \<Rightarrow> noir_cvm_virtual_cpu \<Rightarrow>
     (noir_status \<times> noir_cvm_virtual_cpu) option" where
  "nvc_edit_vcpu_registers xsize tsc ty buf sz v =
     (case noir_cvm_register_buffer_limit ty of
        None \<Rightarrow> None
      | Some lim \<Rightarrow> Some (if lim \<le> sz then edit_registers xsize tsc ty buf sz v
                       else (noir_buffer_too_small, v)))"

text \<open>
  Viewing a state that is both valid in the control block and not synchronized first dumps it:
  \<open>sync\<close> is \<open>nvc_synchronize_vcpu_state\<close>, which depends on the core.
\<close>

definition refresh :: "(noir_cvm_virtual_cpu \<Rightarrow> noir_cvm_virtual_cpu) \<Rightarrow> string \<Rightarrow> noir_cvm_virtual_cpu \<Rightarrow> noir_cvm_virtual_cpu" where
  "refresh sync f v = (if cached f v \<and> \<not> cached ''synchronized'' v then sync v else v)"

fun view_class :: "noir_cvm_register_type \<Rightarrow> string option" where
  "view_class Control_register = Some ''cr_valid''"
| "view_class Cr2_register = Some ''cr2valid''"
| "view_class Dr67_register = Some ''dr_valid''"
| "view_class Segment_register = Some ''sr_valid''"
| "view_class Fgseg_register = Some ''fg_valid''"
| "view_class Descriptor_table = Some ''dt_valid''"
| "view_class Ldtr_task_register = Some ''lt_valid''"
| "view_class Syscall_msr_register = Some ''sc_valid''"
| "view_class Sysenter_msr_register = Some ''se_valid''"
| "view_class Cr8_register = Some ''tp_valid''"
| "view_class _ = None"

fun view_registers ::
  "nat \<Rightarrow> u64 \<Rightarrow> noir_cvm_register_type \<Rightarrow> bytes \<Rightarrow> nat \<Rightarrow> noir_cvm_virtual_cpu \<Rightarrow> noir_status \<times> bytes" where
  "view_registers xsize tsc General_purpose_register buf sz v = (noir_success, store_array buf 0 16 (gpr v))"
| "view_registers xsize tsc Flags_register buf sz v = (noir_success, store_u64 buf 0 (rflags v))"
| "view_registers xsize tsc Instruction_pointer buf sz v = (noir_success, store_u64 buf 0 (rip v))"
| "view_registers xsize tsc Control_register buf sz v =
     (noir_success, store_u64 (store_u64 (store_u64 buf 0 (cr0 v)) 8 (cr3 v)) 16 (cr4 v))"
| "view_registers xsize tsc Cr2_register buf sz v = (noir_success, store_u64 buf 0 (cr2 v))"
| "view_registers xsize tsc Debug_register buf sz v = (noir_success, store_array buf 0 4 (drs v))"
| "view_registers xsize tsc Dr67_register buf sz v =
     (noir_success, store_array buf 0 2 (\<lambda>i. drs v (4 + i)))"
| "view_registers xsize tsc Segment_register buf sz v =
     (noir_success, store_seg (store_seg (store_seg (store_seg buf 0 (seg v Es)) 16 (seg v Cs)) 32 (seg v Ss))
        48 (seg v Ds))"
| "view_registers xsize tsc Fgseg_register buf sz v =
     (noir_success, store_u64 (store_seg (store_seg buf 0 (seg v Fs)) 16 (seg v Gs)) 32 (gsswap v))"
| "view_registers xsize tsc Descriptor_table buf sz v =
     (noir_success,
      vmwrite64 (vmwrite32 (vmwrite64 (vmwrite32 buf 4 (limit (seg v Gdtr))) 8 (base_addr (seg v Gdtr)))
        20 (limit (seg v Idtr))) 24 (base_addr (seg v Idtr)))"
| "view_registers xsize tsc Ldtr_task_register buf sz v =
     (noir_success, store_seg (store_seg buf 0 (seg v Tr)) 16 (seg v Ldtr))"
| "view_registers xsize tsc Syscall_msr_register buf sz v = (noir_success, store_array buf 0 4 (star v))"
| "view_registers xsize tsc Sysenter_msr_register buf sz v = (noir_success, store_array buf 0 3 (sysenter v))"
| "view_registers xsize tsc Cr8_register buf sz v = (noir_success, store_u64 buf 0 (cr8 v))"
| "view_registers xsize tsc Fxstate buf sz v =
     (noir_success, copy_bytes buf 0 (xsave_area v) 0 sizeof_noir_fx_state)"
| "view_registers xsize tsc Xsave_area buf sz v =
     (if xsize \<le> sz then (noir_success, copy_bytes buf 0 (xsave_area v) 0 xsize)
      else (noir_buffer_too_small, buf))"
| "view_registers xsize tsc Xcr0_register buf sz v = (noir_success, store_u64 buf 0 (xcr0 v))"
| "view_registers xsize tsc Efer_register buf sz v = (noir_success, store_u64 buf 0 (efer v))"
| "view_registers xsize tsc Pat_register buf sz v = (noir_success, store_u64 buf 0 (pat v))"
| "view_registers xsize tsc Last_branch_record_register buf sz v = (noir_success, store_array buf 0 5 (lbr v))"
| "view_registers xsize tsc Time_stamp_counter buf sz v = (noir_success, store_u64 buf 0 (tsc + tsc_off v))"
| "view_registers xsize tsc Ghcb_register buf sz v = (noir_success, store_u64 buf 0 (ghcb v))"
| "view_registers xsize tsc Apic_bar_register buf sz v = (noir_success, store_u64 buf 0 (apic_bar v))"
| "view_registers xsize tsc Maximum_register_type buf sz v = (noir_invalid_parameter, buf)"

definition nvc_view_vcpu_registers ::
  "nat \<Rightarrow> u64 \<Rightarrow> (noir_cvm_virtual_cpu \<Rightarrow> noir_cvm_virtual_cpu) \<Rightarrow> noir_cvm_register_type \<Rightarrow> bytes \<Rightarrow> nat \<Rightarrow>
     noir_cvm_virtual_cpu \<Rightarrow> (noir_status \<times> bytes \<times> noir_cvm_virtual_cpu) option" where
  "nvc_view_vcpu_registers xsize tsc sync ty buf sz v =
     (case noir_cvm_register_buffer_limit ty of
        None \<Rightarrow> None
      | Some lim \<Rightarrow>
          if lim \<le> sz then
            (let v1 = (case view_class ty of None \<Rightarrow> v | Some f \<Rightarrow> refresh sync f v)
             in case view_registers xsize tsc ty buf sz v1 of (st, buf') \<Rightarrow> Some (st, buf', v1))
          else Some (noir_invalid_parameter, buf, v))"

end
