(* ===== verification/Svm_World.thy ===== *)
theory Svm_World
  imports Vcpu
begin

text \<open>
  The world switch of AMD-V between the subverted host and a customizable virtual processor
  (\<open>svm_core/svm_custom.c\<close>, \<open>svm_core/svm_cvnsv.c\<close>): the state cache decides which registers
  are written into the control block, and dumping reads them back.
\<close>

section \<open>Constants and conversions\<close>

definition noir_svm_clean_interception :: nat where "noir_svm_clean_interception = 0"
definition noir_svm_clean_iomsrpm :: nat where "noir_svm_clean_iomsrpm = 1"
definition noir_svm_clean_tpr :: nat where "noir_svm_clean_tpr = 3"
definition noir_svm_clean_npt :: nat where "noir_svm_clean_npt = 4"
definition noir_svm_clean_control_reg :: nat where "noir_svm_clean_control_reg = 5"
definition noir_svm_clean_debug_reg :: nat where "noir_svm_clean_debug_reg = 6"
definition noir_svm_clean_idt_gdt :: nat where "noir_svm_clean_idt_gdt = 7"
definition noir_svm_clean_segment_reg :: nat where "noir_svm_clean_segment_reg = 8"
definition noir_svm_clean_cr2 :: nat where "noir_svm_clean_cr2 = 9"
definition nvc_svm_tlb_control_flush_guest :: u8 where "nvc_svm_tlb_control_flush_guest = 3"
definition nvc_svm_intercept_vector1_iret :: nat where "nvc_svm_intercept_vector1_iret = 20"
definition amd64_nmi_interrupt :: u32 where "amd64_nmi_interrupt = 2"
definition amd64_efer_lme :: u64 where "amd64_efer_lme = 8"
definition amd64_efer_lma :: u64 where "amd64_efer_lma = 10"
definition amd64_efer_nxe :: u64 where "amd64_efer_nxe = 11"
definition amd64_efer_svme :: nat where "amd64_efer_svme = 12"
definition amd64_efer_svme_bit :: u64 where "amd64_efer_svme_bit = 0x1000"

definition svm_attrib :: "u16 \<Rightarrow> u16" where
  "svm_attrib a = ((a AND 0xff) OR drop_bit 4 (a AND 0xf000)) AND 0xfff"

definition svm_attrib_inverse :: "u16 \<Rightarrow> u16" where
  "svm_attrib_inverse a = push_bit 4 (a AND 0xf00) OR (a AND 0xff)"

definition nvc_svm_avic_control :: bf_layout where
  "nvc_svm_avic_control =
    [(''virtual_tpr'', 8), (''virtual_irq'', 1), (''virtual_gif'', 1), (''reserved1'', 1),
     (''virtual_nmi'', 1), (''virtual_nmi_mask'', 1), (''reserved2'', 3),
     (''virtual_interrupt_priority'', 4), (''ignore_virtual_tpr'', 1), (''reserved3'', 3),
     (''virtual_interrupt_masking'', 1), (''enable_virtual_gif'', 1), (''enable_virtual_nmi'', 1),
     (''reserved4'', 3), (''enable_x2avic'', 1), (''enable_avic'', 1),
     (''virtual_interrupt_vector'', 8), (''reserved5'', 24)]"

section \<open>State\<close>

text \<open>The registers that are not in the control block: the physical processor holds them.\<close>

record processor =
  pr_dr :: "nat \<Rightarrow> u64"
  pr_xcr0 :: u64
  pr_fpu :: bytes

text \<open>The saved state of the subverted host and the stack that tells the loader what runs next.\<close>

record host_vcpu =
  h_gpr :: "nat \<Rightarrow> u64"
  h_xcr0 :: u64
  h_xsave_area :: bytes
  h_drs :: "nat \<Rightarrow> u64"
  h_vmcb_phys :: u64

record noir_svm_initial_stack =
  ls_custom_vcpu :: u64
  ls_guest_vmcb_pa :: u64
  ls_proc_id :: u32

text \<open>The protected page of a secure guest. Pointers are compared only, so they are addresses.\<close>

record noir_nsv_virtual_cpu =
  parent_vcpu :: u64
  parent_vmcb_virt :: u64
  parent_vmcb_phys :: u64
  nsv_gpr :: "nat \<Rightarrow> u64"
  nsv_dr :: "nat \<Rightarrow> u64"
  nsv_xcr0 :: u64

record noir_svm_custom_vcpu =
  header :: noir_cvm_virtual_cpu
  cv_addr :: u64
  vmcb :: bytes
  vmcb_virt :: u64
  vmcb_phys :: u64
  shadow_svme :: bool
  vmsa :: noir_nsv_virtual_cpu
  prev_virq :: bool
  prev_nmi :: bool
  switch_success :: bool
  cv_proc_id :: u32
  cv_vcpu_id :: nat

record apic_entry =
  is_running :: bool
  host_physical_apic_id :: u32

text \<open>What the switch reads and writes: the register frame on the stack, the processor, the saved
  host, the loader stack, the virtual processor and its VM's table of physical APIC ids.\<close>

record world =
  frame :: "nat \<Rightarrow> u64"
  cpu :: processor
  host :: host_vcpu
  loader :: noir_svm_initial_stack
  cvcpu :: noir_svm_custom_vcpu
  nsv_guest :: bool
  avic_physical :: "nat \<Rightarrow> apic_entry"

section \<open>Loading the control block\<close>

text \<open>Each block of \<open>nvc_svm_switch_to_guest_vcpu\<close> on the pair of the software state and the
  control block.\<close>

type_synonym sync_pair = "noir_cvm_virtual_cpu \<times> bytes"

definition when_stale :: "string \<Rightarrow> (noir_cvm_virtual_cpu \<Rightarrow> bytes \<Rightarrow> bytes) \<Rightarrow> sync_pair \<Rightarrow> sync_pair" where
  "when_stale f write hb = (case hb of (h, b) \<Rightarrow> if cached f h then (h, b) else (set_cache f 1 h, write h b))"

definition clean :: "nat \<Rightarrow> bytes \<Rightarrow> bytes" where
  "clean n b = vmcb_btr32 b vmcb_clean_bits n"

definition flush_guest :: "bytes \<Rightarrow> bytes" where
  "flush_guest b = vmwrite8 b tlb_control nvc_svm_tlb_control_flush_guest"

definition write_gpr :: "noir_cvm_virtual_cpu \<Rightarrow> bytes \<Rightarrow> bytes" where
  "write_gpr h b =
     vmwrite64 (vmwrite64 (vmwrite64 (vmwrite64 b guest_rax (gpr h 0)) guest_rsp (gpr h 4))
       guest_rip (rip h)) guest_rflags (rflags h)"

definition write_dr :: "noir_cvm_virtual_cpu \<Rightarrow> bytes \<Rightarrow> bytes" where
  "write_dr h b = clean noir_svm_clean_debug_reg
     (vmwrite64 (vmwrite64 b guest_dr6 (drs h 4)) guest_dr7 (drs h 5))"

definition write_cr :: "noir_cvm_virtual_cpu \<Rightarrow> bytes \<Rightarrow> bytes" where
  "write_cr h b = flush_guest (clean noir_svm_clean_control_reg
     (vmwrite64 (vmwrite64 (vmwrite64 b guest_cr0 (cr0 h)) guest_cr3 (cr3 h)) guest_cr4 (cr4 h)))"

definition write_cr2 :: "noir_cvm_virtual_cpu \<Rightarrow> bytes \<Rightarrow> bytes" where
  "write_cr2 h b = clean noir_svm_clean_cr2 (vmwrite64 b guest_cr2 (cr2 h))"

definition write_tpr :: "noir_cvm_virtual_cpu \<Rightarrow> bytes \<Rightarrow> bytes" where
  "write_tpr h b = clean noir_svm_clean_tpr (vmwrite8 b avic_control (ucast (cr8 h) AND 0xf))"

text \<open>A segment register at its offset: selector, attributes, limit, base.\<close>

definition vmwrite_seg :: "bytes \<Rightarrow> nat \<Rightarrow> segment_register \<Rightarrow> bytes" where
  "vmwrite_seg b p s =
     vmwrite64 (vmwrite32 (vmwrite16 (vmwrite16 b p (selector s)) (p + 2) (svm_attrib (attrib s)))
       (p + 4) (limit s)) (p + 8) (base_addr s)"

definition vmwrite_table :: "bytes \<Rightarrow> nat \<Rightarrow> segment_register \<Rightarrow> bytes" where
  "vmwrite_table b p s = vmwrite64 (vmwrite32 b (p + 4) (limit s)) (p + 8) (base_addr s)"

definition write_sr :: "noir_cvm_virtual_cpu \<Rightarrow> bytes \<Rightarrow> bytes" where
  "write_sr h b = clean noir_svm_clean_segment_reg
     (vmwrite_seg (vmwrite_seg (vmwrite_seg (vmwrite_seg b guest_cs_selector (seg h Cs))
        guest_ds_selector (seg h Ds)) guest_es_selector (seg h Es)) guest_ss_selector (seg h Ss))"

definition write_fg :: "noir_cvm_virtual_cpu \<Rightarrow> bytes \<Rightarrow> bytes" where
  "write_fg h b =
     vmwrite64 (vmwrite_seg (vmwrite_seg b guest_fs_selector (seg h Fs)) guest_gs_selector (seg h Gs))
       guest_kernel_gs_base (gsswap h)"

definition write_lt :: "noir_cvm_virtual_cpu \<Rightarrow> bytes \<Rightarrow> bytes" where
  "write_lt h b = vmwrite_seg (vmwrite_seg b guest_tr_selector (seg h Tr)) guest_ldtr_selector (seg h Ldtr)"

definition write_dt :: "noir_cvm_virtual_cpu \<Rightarrow> bytes \<Rightarrow> bytes" where
  "write_dt h b = clean noir_svm_clean_idt_gdt
     (vmwrite_table (vmwrite_table b guest_gdtr_selector (seg h Gdtr)) guest_idtr_selector (seg h Idtr))"

text \<open>The mask is built from the bit numbers of \<open>amd64.h\<close>, as in the source.\<close>

definition efer_tlb_mask :: u64 where
  "efer_tlb_mask = amd64_efer_lme OR amd64_efer_lma OR amd64_efer_nxe"

definition write_efer :: "noir_cvm_virtual_cpu \<Rightarrow> bytes \<Rightarrow> bytes" where
  "write_efer h b =
     (let b1 = (if vmread64 b guest_efer AND efer_tlb_mask \<noteq> efer h AND efer_tlb_mask
                then flush_guest b else b)
      in clean noir_svm_clean_control_reg (vmwrite64 b1 guest_efer (efer h OR amd64_efer_svme_bit)))"

definition write_pat :: "noir_cvm_virtual_cpu \<Rightarrow> bytes \<Rightarrow> bytes" where
  "write_pat h b = clean noir_svm_clean_npt (vmwrite64 b guest_pat (pat h))"

definition write_sysenter :: "noir_cvm_virtual_cpu \<Rightarrow> bytes \<Rightarrow> bytes" where
  "write_sysenter h b =
     vmwrite64 (vmwrite64 (vmwrite64 b guest_sysenter_cs (sysenter h 0)) guest_sysenter_esp (sysenter h 1))
       guest_sysenter_eip (sysenter h 2)"

definition write_syscall :: "noir_cvm_virtual_cpu \<Rightarrow> bytes \<Rightarrow> bytes" where
  "write_syscall h b =
     vmwrite64 (vmwrite64 (vmwrite64 (vmwrite64 b guest_star (star h 0)) guest_lstar (star h 1))
       guest_cstar (star h 2)) guest_sfmask (star h 3)"

definition write_tsc :: "noir_cvm_virtual_cpu \<Rightarrow> bytes \<Rightarrow> bytes" where
  "write_tsc h b = clean noir_svm_clean_interception (vmwrite64 b tsc_offset (tsc_off h))"

definition load_vmcb :: "sync_pair \<Rightarrow> sync_pair" where
  "load_vmcb hb0 =
     (let hb1 = when_stale ''gprvalid'' write_gpr hb0;
          hb2 = when_stale ''dr_valid'' write_dr hb1;
          hb3 = when_stale ''cr_valid'' write_cr hb2;
          hb4 = when_stale ''cr2valid'' write_cr2 hb3;
          hb5 = when_stale ''tp_valid'' write_tpr hb4;
          hb6 = when_stale ''sr_valid'' write_sr hb5;
          hb7 = when_stale ''fg_valid'' write_fg hb6;
          hb8 = when_stale ''lt_valid'' write_lt hb7;
          hb9 = when_stale ''dt_valid'' write_dt hb8;
          hb10 = when_stale ''ef_valid'' write_efer hb9;
          hb11 = when_stale ''pa_valid'' write_pat hb10;
          hb12 = when_stale ''se_valid'' write_sysenter hb11;
          hb13 = when_stale ''sc_valid'' write_syscall hb12
      in when_stale ''ts_valid'' write_tsc hb13)"

section \<open>Secure guests\<close>

definition nsv_intact :: "noir_svm_custom_vcpu \<Rightarrow> bool" where
  "nsv_intact cv \<longleftrightarrow> parent_vcpu (vmsa cv) = cv_addr cv \<and> parent_vmcb_virt (vmsa cv) = vmcb_virt cv \<and>
     parent_vmcb_phys (vmsa cv) = vmcb_phys cv"

definition nvc_svm_nsv_load_guest_vcpu :: "world \<Rightarrow> bool \<times> world" where
  "nvc_svm_nsv_load_guest_vcpu w =
     (let n = vmsa (cvcpu w) in
      if \<not> nsv_intact (cvcpu w) then (False, w)
      else (True, w\<lparr>frame := (\<lambda>i. if i < 16 then nsv_gpr n i else frame w i),
              cpu := (cpu w)\<lparr>pr_dr := (\<lambda>i. if i < 4 then nsv_dr n i else pr_dr (cpu w) i), pr_xcr0 := nsv_xcr0 n\<rparr>\<rparr>))"

definition nvc_svm_nsv_save_guest_vcpu :: "world \<Rightarrow> bool \<times> world" where
  "nvc_svm_nsv_save_guest_vcpu w =
     (let cv = cvcpu w in
      if \<not> nsv_intact cv then (False, w)
      else (True, w\<lparr>cvcpu := cv\<lparr>vmsa := (vmsa cv)\<lparr>
              nsv_gpr := (\<lambda>i. if i < 16 then frame w i else nsv_gpr (vmsa cv) i),
              nsv_dr := (\<lambda>i. if i < 4 then pr_dr (cpu w) i else nsv_dr (vmsa cv) i),
              nsv_xcr0 := pr_xcr0 (cpu w)\<rparr>\<rparr>\<rparr>))"

section \<open>Entering the guest\<close>

definition event_field :: "string \<Rightarrow> noir_cvm_virtual_cpu \<Rightarrow> u32" where
  "event_field f h = bf_get noir_cvm_event_injection_attributes f (injected_event h)"

definition inject_event :: "noir_svm_custom_vcpu \<Rightarrow> noir_svm_custom_vcpu" where
  "inject_event cv =
     (let h = header cv; b = vmcb cv in
      if event_field ''type'' h \<noteq> 0 then
        (if event_field ''vector'' h = amd64_nmi_interrupt then
           cv\<lparr>vmcb := clean noir_svm_clean_interception (vmcb_bts32 b intercept_instruction1 nvc_svm_intercept_vector1_iret),
              prev_nmi := True,
              header := h\<lparr>vcpu_options := bf_put noir_cvm_vcpu_options_bits ''blocking_by_nmi'' 1 (vcpu_options h)\<rparr>\<rparr>
         else
           cv\<lparr>vmcb := vmwrite32 (vmwrite32 b event_injection (injected_event h)) event_error_code (injected_error_code h)\<rparr>)
      else if prev_virq cv then
        (let a0 = vmread64 b avic_control;
             a1 = bf_put nvc_svm_avic_control ''virtual_irq'' (ucast (event_field ''valid'' h)) a0;
             a2 = bf_put nvc_svm_avic_control ''virtual_interrupt_vector'' (ucast (event_field ''vector'' h)) a1;
             a3 = bf_put nvc_svm_avic_control ''virtual_interrupt_priority'' (ucast (event_field ''priority'' h)) a2;
             a4 = bf_put nvc_svm_avic_control ''ignore_virtual_tpr'' 0 a3
         in cv\<lparr>vmcb := clean noir_svm_clean_tpr (vmwrite64 b avic_control a4)\<rparr>)
      else cv)"

definition flush_npt :: "noir_svm_custom_vcpu \<Rightarrow> noir_svm_custom_vcpu" where
  "flush_npt cv =
     (if cached ''tl_valid'' (header cv) then cv
      else cv\<lparr>vmcb := flush_guest (vmcb cv), header := set_cache ''tl_valid'' 1 (header cv)\<rparr>)"

text \<open>A virtual processor that moved to another physical processor loses the cached control block.\<close>

definition migrate :: "world \<Rightarrow> world" where
  "migrate w =
     (if cv_proc_id (cvcpu w) \<noteq> ls_proc_id (loader w)
      then w\<lparr>cvcpu := (cvcpu w)\<lparr>cv_proc_id := ls_proc_id (loader w), vmcb := vmwrite32 (vmcb (cvcpu w)) vmcb_clean_bits 0\<rparr>\<rparr>
      else w)"

definition save_host :: "world \<Rightarrow> world" where
  "save_host w =
     w\<lparr>host := (host w)\<lparr>h_gpr := frame w, h_xcr0 := pr_xcr0 (cpu w), h_xsave_area := pr_fpu (cpu w),
                         h_drs := (\<lambda>i. if i < 4 then pr_dr (cpu w) i else h_drs (host w) i)\<rparr>\<rparr>"

definition load_guest :: "world \<Rightarrow> world" where
  "load_guest w =
     (if nsv_guest w then
        (case nvc_svm_nsv_load_guest_vcpu w of (ok, w1) \<Rightarrow> w1\<lparr>cvcpu := (cvcpu w1)\<lparr>switch_success := ok\<rparr>\<rparr>)
      else
        (let cv = cvcpu w; h = header cv in
         case load_vmcb (h, vmcb cv) of (h1, b1) \<Rightarrow>
           w\<lparr>frame := gpr h,
             cpu := (cpu w)\<lparr>pr_fpu := xsave_area h, pr_xcr0 := xcr0 h,
                            pr_dr := (\<lambda>i. if i < 4 then drs h i else pr_dr (cpu w) i)\<rparr>,
             cvcpu := cv\<lparr>header := h1, vmcb := b1, switch_success := True,
                         shadow_svme := (if cached ''ef_valid'' h then shadow_svme cv
                                         else noir_bt (efer h) amd64_efer_svme)\<rparr>\<rparr>))"

definition nvc_svm_switch_to_guest_vcpu :: "bool \<Rightarrow> world \<Rightarrow> world" where
  "nvc_svm_switch_to_guest_vcpu avic w0 =
     (let w1 = load_guest (save_host (migrate w0));
          w2 = w1\<lparr>cvcpu := flush_npt (inject_event (cvcpu w1))\<rparr>;
          cv = cvcpu w2;
          w3 = (if avic then w2\<lparr>avic_physical := (avic_physical w2)(cv_vcpu_id cv :=
                     \<lparr>is_running = True, host_physical_apic_id = cv_proc_id cv\<rparr>)\<rparr>
                else w2)
      in w3\<lparr>loader := (loader w3)\<lparr>ls_custom_vcpu := cv_addr cv, ls_guest_vmcb_pa := vmcb_phys cv\<rparr>\<rparr>)"

section \<open>Leaving the guest\<close>

definition save_guest :: "world \<Rightarrow> world" where
  "save_guest w =
     (if nsv_guest w then
        (case nvc_svm_nsv_save_guest_vcpu w of (ok, w1) \<Rightarrow> w1\<lparr>cvcpu := (cvcpu w1)\<lparr>switch_success := ok\<rparr>\<rparr>)
      else
        (let cv = cvcpu w; h = header cv; b = vmcb cv;
             frame1 = (frame w)(0 := vmread64 b guest_rax, 4 := vmread64 b guest_rsp)
         in w\<lparr>frame := frame1,
              cvcpu := cv\<lparr>header := h\<lparr>gpr := frame1, rip := vmread64 b guest_rip, rflags := vmread64 b guest_rflags,
                                        xcr0 := pr_xcr0 (cpu w),
                                        drs := (\<lambda>i. if i < 4 then pr_dr (cpu w) i else drs h i)\<rparr>,
                          switch_success := True\<rparr>\<rparr>))"

definition save_event :: "noir_svm_custom_vcpu \<Rightarrow> noir_svm_custom_vcpu" where
  "save_event cv =
     (let b = vmcb cv;
          h = (header cv)\<lparr>injected_event := vmread32 b event_injection,
                          injected_error_code := vmread32 b event_error_code\<rparr>
      in if event_field ''valid'' h = 0 \<and> prev_virq cv then
           (let a = vmread64 b avic_control;
                put = bf_put noir_cvm_event_injection_attributes;
                e = put ''valid'' (ucast (bf_get nvc_svm_avic_control ''virtual_irq'' a))
                      (put ''priority'' (ucast (bf_get nvc_svm_avic_control ''virtual_interrupt_priority'' a))
                        (put ''vector'' (ucast (bf_get nvc_svm_avic_control ''virtual_interrupt_vector'' a)) 0))
            in cv\<lparr>header := h\<lparr>injected_event := e\<rparr>, vmcb := vmwrite64 b avic_control a\<rparr>)
         else cv\<lparr>header := h\<rparr>)"

text \<open>\<open>idle\<close> and the host's control block are what the loader runs next.\<close>

definition nvc_svm_switch_to_host_vcpu :: "bool \<Rightarrow> u64 \<Rightarrow> world \<Rightarrow> world" where
  "nvc_svm_switch_to_host_vcpu avic idle w0 =
     (let w1 = save_guest w0;
          w2 = w1\<lparr>cvcpu := save_event (cvcpu w1)\<rparr>;
          cv = cvcpu w2;
          w3 = (if avic then w2\<lparr>avic_physical := (avic_physical w2)(cv_vcpu_id cv :=
                     (avic_physical w2 (cv_vcpu_id cv))\<lparr>is_running := False\<rparr>)\<rparr>
                else w2);
          h = host w3
      in w3\<lparr>frame := h_gpr h,
            cvcpu := cv\<lparr>header := (header cv)\<lparr>xsave_area := pr_fpu (cpu w3)\<rparr>\<rparr>,
            cpu := (cpu w3)\<lparr>pr_xcr0 := h_xcr0 h, pr_fpu := h_xsave_area h,
                           pr_dr := (\<lambda>i. if i < 4 then h_drs h i else pr_dr (cpu w3) i)\<rparr>,
            loader := (loader w3)\<lparr>ls_custom_vcpu := idle, ls_guest_vmcb_pa := h_vmcb_phys h\<rparr>\<rparr>)"

section \<open>Dumping the control block\<close>

definition vmread_seg :: "bytes \<Rightarrow> nat \<Rightarrow> segment_register" where
  "vmread_seg b p =
     \<lparr>selector = vmread16 b p, attrib = svm_attrib_inverse (vmread16 b (p + 2)), limit = vmread32 b (p + 4),
      base_addr = vmread64 b (p + 8)\<rparr>"

definition vmread_table :: "bytes \<Rightarrow> nat \<Rightarrow> segment_register \<Rightarrow> segment_register" where
  "vmread_table b p s = s\<lparr>limit := vmread32 b (p + 4), base_addr := vmread64 b (p + 8)\<rparr>"

definition nvc_svm_dump_guest_segments :: "noir_cvm_virtual_cpu \<Rightarrow> bytes \<Rightarrow> noir_cvm_virtual_cpu" where
  "nvc_svm_dump_guest_segments h b =
     h\<lparr>seg := (seg h)(Cs := vmread_seg b guest_cs_selector, Ds := vmread_seg b guest_ds_selector,
                     Es := vmread_seg b guest_es_selector, Ss := vmread_seg b guest_ss_selector)\<rparr>"

definition nvc_svm_dump_guest_fs_gs :: "noir_cvm_virtual_cpu \<Rightarrow> bytes \<Rightarrow> noir_cvm_virtual_cpu" where
  "nvc_svm_dump_guest_fs_gs h b =
     h\<lparr>seg := (seg h)(Fs := vmread_seg b guest_fs_selector, Gs := vmread_seg b guest_gs_selector)\<rparr>"

definition when_valid :: "string \<Rightarrow> (noir_cvm_virtual_cpu \<Rightarrow> noir_cvm_virtual_cpu) \<Rightarrow> noir_cvm_virtual_cpu \<Rightarrow> noir_cvm_virtual_cpu" where
  "when_valid f read h = (if cached f h then read h else h)"

definition dump_vmcb :: "bool \<Rightarrow> bytes \<Rightarrow> noir_cvm_virtual_cpu \<Rightarrow> noir_cvm_virtual_cpu" where
  "dump_vmcb svme b h0 =
     (let h1 = when_valid ''cr_valid'' (\<lambda>h. h\<lparr>cr0 := vmread64 b guest_cr0, cr3 := vmread64 b guest_cr3,
                 cr4 := vmread64 b guest_cr4\<rparr>) h0;
          h2 = when_valid ''cr2valid'' (\<lambda>h. h\<lparr>cr2 := vmread64 b guest_cr2\<rparr>) h1;
          h3 = when_valid ''dr_valid'' (\<lambda>h. h\<lparr>drs := (drs h)(4 := vmread64 b guest_dr6, 5 := vmread64 b guest_dr7)\<rparr>) h2;
          h4 = when_valid ''sr_valid'' (\<lambda>h. nvc_svm_dump_guest_segments h b) h3;
          h5 = when_valid ''fg_valid'' (\<lambda>h. nvc_svm_dump_guest_fs_gs h b) h4;
          h6 = when_valid ''dt_valid'' (\<lambda>h. h\<lparr>seg := (seg h)(Gdtr := vmread_table b guest_gdtr_selector (seg h Gdtr),
                 Idtr := vmread_table b guest_idtr_selector (seg h Idtr))\<rparr>) h5;
          h7 = when_valid ''lt_valid'' (\<lambda>h. h\<lparr>seg := (seg h)(Ldtr := vmread_seg b guest_ldtr_selector,
                 Tr := vmread_seg b guest_tr_selector)\<rparr>) h6;
          h8 = when_valid ''sc_valid'' (\<lambda>h. h\<lparr>star := (star h)(0 := vmread64 b guest_star, 1 := vmread64 b guest_lstar,
                 2 := vmread64 b guest_cstar, 3 := vmread64 b guest_sfmask)\<rparr>) h7;
          h9 = when_valid ''se_valid'' (\<lambda>h. h\<lparr>sysenter := (sysenter h)(0 := vmread64 b guest_sysenter_cs,
                 1 := vmread64 b guest_sysenter_esp, 2 := vmread64 b guest_sysenter_eip)\<rparr>) h8;
          h10 = when_valid ''tp_valid'' (\<lambda>h. h\<lparr>cr8 := ucast (vmread8 b avic_control AND 0xf)\<rparr>) h9;
          h11 = when_valid ''ef_valid'' (\<lambda>h. h\<lparr>efer := (if svme then vmread64 b guest_efer
                 else unset_bit amd64_efer_svme (vmread64 b guest_efer))\<rparr>) h10;
          h12 = when_valid ''pa_valid'' (\<lambda>h. h\<lparr>pat := vmread64 b guest_pat\<rparr>) h11
      in set_cache ''synchronized'' 1 h12)"

definition nvc_svm_dump_guest_vcpu_state :: "noir_svm_custom_vcpu \<Rightarrow> noir_svm_custom_vcpu" where
  "nvc_svm_dump_guest_vcpu_state cv = cv\<lparr>header := dump_vmcb (shadow_svme cv) (vmcb cv) (header cv)\<rparr>"

end
