(* ===== verification/Svm_Coherence.thy ===== *)
theory Svm_Coherence
  imports Svm_World
begin

text \<open>
  What the state cache promises: at every moment each register of the guest has one architectural
  value, held by the control block when its class is valid and by the software state otherwise.
  Loading and dumping the control block do not change it.
\<close>

section \<open>The architectural state\<close>

datatype guest_reg =
  Gpr nat | Rip | Rflags | Cr0 | Cr2 | Cr3 | Cr4 | Tpr | Dr nat
  | Sel seg_reg | Attr seg_reg | Lim seg_reg | Base seg_reg
  | Kernel_gs_base | Efer | Pat | Star nat | Sysenter nat | Tsc_offset | Xcr0

fun seg_cache :: "seg_reg \<Rightarrow> string" where
  "seg_cache Es = ''sr_valid''" | "seg_cache Cs = ''sr_valid''" | "seg_cache Ss = ''sr_valid''"
| "seg_cache Ds = ''sr_valid''" | "seg_cache Fs = ''fg_valid''" | "seg_cache Gs = ''fg_valid''"
| "seg_cache Tr = ''lt_valid''" | "seg_cache Ldtr = ''lt_valid''"
| "seg_cache Gdtr = ''dt_valid''" | "seg_cache Idtr = ''dt_valid''"

fun seg_offset :: "seg_reg \<Rightarrow> nat" where
  "seg_offset Es = guest_es_selector" | "seg_offset Cs = guest_cs_selector"
| "seg_offset Ss = guest_ss_selector" | "seg_offset Ds = guest_ds_selector"
| "seg_offset Fs = guest_fs_selector" | "seg_offset Gs = guest_gs_selector"
| "seg_offset Tr = guest_tr_selector" | "seg_offset Ldtr = guest_ldtr_selector"
| "seg_offset Gdtr = guest_gdtr_selector" | "seg_offset Idtr = guest_idtr_selector"

definition is_table :: "seg_reg \<Rightarrow> bool" where
  "is_table s \<longleftrightarrow> s = Gdtr \<or> s = Idtr"

text \<open>The value of a register: where its class is valid, that of the control block. Attributes are
  compared in the packed form of the control block, the task priority has four bits, and
  \<open>EFER.SVME\<close> is the shadowed bit.\<close>

fun arch :: "bool \<Rightarrow> noir_cvm_virtual_cpu \<Rightarrow> bytes \<Rightarrow> guest_reg \<Rightarrow> u64" where
  "arch svme h b (Gpr i) =
     (if cached ''gprvalid'' h \<and> i = 0 then vmread64 b guest_rax
      else if cached ''gprvalid'' h \<and> i = 4 then vmread64 b guest_rsp else gpr h i)"
| "arch svme h b Rip = (if cached ''gprvalid'' h then vmread64 b guest_rip else rip h)"
| "arch svme h b Rflags = (if cached ''gprvalid'' h then vmread64 b guest_rflags else rflags h)"
| "arch svme h b Cr0 = (if cached ''cr_valid'' h then vmread64 b guest_cr0 else cr0 h)"
| "arch svme h b Cr2 = (if cached ''cr2valid'' h then vmread64 b guest_cr2 else cr2 h)"
| "arch svme h b Cr3 = (if cached ''cr_valid'' h then vmread64 b guest_cr3 else cr3 h)"
| "arch svme h b Cr4 = (if cached ''cr_valid'' h then vmread64 b guest_cr4 else cr4 h)"
| "arch svme h b Tpr =
     (if cached ''tp_valid'' h then ucast (vmread8 b avic_control AND 0xf) else ucast (ucast (cr8 h) AND (0xf :: u8)))"
| "arch svme h b (Dr i) =
     (if cached ''dr_valid'' h \<and> i = 4 then vmread64 b guest_dr6
      else if cached ''dr_valid'' h \<and> i = 5 then vmread64 b guest_dr7 else drs h i)"
| "arch svme h b (Sel s) =
     (if cached (seg_cache s) h \<and> \<not> is_table s then ucast (vmread16 b (seg_offset s)) else ucast (selector (seg h s)))"
| "arch svme h b (Attr s) =
     (if cached (seg_cache s) h \<and> \<not> is_table s then ucast (svm_attrib (svm_attrib_inverse (vmread16 b (seg_offset s + 2))))
      else ucast (svm_attrib (attrib (seg h s))))"
| "arch svme h b (Lim s) =
     (if cached (seg_cache s) h then ucast (vmread32 b (seg_offset s + 4)) else ucast (limit (seg h s)))"
| "arch svme h b (Base s) =
     (if cached (seg_cache s) h then vmread64 b (seg_offset s + 8) else base_addr (seg h s))"
| "arch svme h b Kernel_gs_base = (if cached ''fg_valid'' h then vmread64 b guest_kernel_gs_base else gsswap h)"
| "arch svme h b Efer =
     (if cached ''ef_valid'' h
      then (if svme then vmread64 b guest_efer else unset_bit amd64_efer_svme (vmread64 b guest_efer)) else efer h)"
| "arch svme h b Pat = (if cached ''pa_valid'' h then vmread64 b guest_pat else pat h)"
| "arch svme h b (Star i) =
     (if cached ''sc_valid'' h \<and> i < 4 then vmread64 b (guest_star + 8 * i) else star h i)"
| "arch svme h b (Sysenter i) =
     (if cached ''se_valid'' h \<and> i < 3 then vmread64 b (guest_sysenter_cs + 8 * i) else sysenter h i)"
| "arch svme h b Tsc_offset = (if cached ''ts_valid'' h then vmread64 b tsc_offset else tsc_off h)"
| "arch svme h b Xcr0 = xcr0 h"

section \<open>The state cache\<close>

lemma cache_widths [simp]:
  "cached ''gprvalid'' (set_cache ''gprvalid'' x h) \<longleftrightarrow> bit x 0"
  "cached ''cr_valid'' (set_cache ''cr_valid'' x h) \<longleftrightarrow> bit x 0"
  "cached ''cr2valid'' (set_cache ''cr2valid'' x h) \<longleftrightarrow> bit x 0"
  "cached ''dr_valid'' (set_cache ''dr_valid'' x h) \<longleftrightarrow> bit x 0"
  "cached ''sr_valid'' (set_cache ''sr_valid'' x h) \<longleftrightarrow> bit x 0"
  "cached ''fg_valid'' (set_cache ''fg_valid'' x h) \<longleftrightarrow> bit x 0"
  "cached ''dt_valid'' (set_cache ''dt_valid'' x h) \<longleftrightarrow> bit x 0"
  "cached ''lt_valid'' (set_cache ''lt_valid'' x h) \<longleftrightarrow> bit x 0"
  "cached ''sc_valid'' (set_cache ''sc_valid'' x h) \<longleftrightarrow> bit x 0"
  "cached ''se_valid'' (set_cache ''se_valid'' x h) \<longleftrightarrow> bit x 0"
  "cached ''tp_valid'' (set_cache ''tp_valid'' x h) \<longleftrightarrow> bit x 0"
  "cached ''ef_valid'' (set_cache ''ef_valid'' x h) \<longleftrightarrow> bit x 0"
  "cached ''pa_valid'' (set_cache ''pa_valid'' x h) \<longleftrightarrow> bit x 0"
  "cached ''lb_valid'' (set_cache ''lb_valid'' x h) \<longleftrightarrow> bit x 0"
  "cached ''ap_valid'' (set_cache ''ap_valid'' x h) \<longleftrightarrow> bit x 0"
  "cached ''ts_valid'' (set_cache ''ts_valid'' x h) \<longleftrightarrow> bit x 0"
  "cached ''tl_valid'' (set_cache ''tl_valid'' x h) \<longleftrightarrow> bit x 0"
  "cached ''synchronized'' (set_cache ''synchronized'' x h) \<longleftrightarrow> bit x 0"
  by (simp_all add: cached_set_same noir_cvm_vcpu_state_cache_def)

lemma set_cache_sel [simp]:
  "gpr (set_cache f x h) = gpr h" "seg (set_cache f x h) = seg h" "cr0 (set_cache f x h) = cr0 h"
  "cr2 (set_cache f x h) = cr2 h" "cr3 (set_cache f x h) = cr3 h" "cr4 (set_cache f x h) = cr4 h"
  "cr8 (set_cache f x h) = cr8 h" "drs (set_cache f x h) = drs h" "sysenter (set_cache f x h) = sysenter h"
  "pat (set_cache f x h) = pat h" "efer (set_cache f x h) = efer h" "star (set_cache f x h) = star h"
  "gsswap (set_cache f x h) = gsswap h" "rflags (set_cache f x h) = rflags h" "rip (set_cache f x h) = rip h"
  "tsc_off (set_cache f x h) = tsc_off h" "xcr0 (set_cache f x h) = xcr0 h" "lbr (set_cache f x h) = lbr h"
  "xsave_area (set_cache f x h) = xsave_area h" "apic_bar (set_cache f x h) = apic_bar h"
  "ghcb (set_cache f x h) = ghcb h"
  by (simp_all add: set_cache_def)

lemma svm_attrib_round: "svm_attrib (svm_attrib_inverse (svm_attrib a)) = svm_attrib a"
proof -
  have m: "(0xff :: u16) = mask 8" "(0xf000 :: u16) = push_bit 12 (mask 4)" "(0xfff :: u16) = mask 12"
    "(0xf00 :: u16) = push_bit 8 (mask 4)"
    by (simp_all add: mask_eq_exp_minus_1 push_bit_eq_mult)
  show ?thesis
    unfolding svm_attrib_def svm_attrib_inverse_def m
    by (rule bit_word_eqI) (auto simp: bit_simps)
qed

section \<open>Loading one class\<close>

lemmas write_defs = write_gpr_def write_dr_def write_cr_def write_cr2_def write_tpr_def write_sr_def write_fg_def
  write_lt_def write_dt_def write_pat_def write_sysenter_def write_syscall_def write_tsc_def
  vmwrite_seg_def vmwrite_table_def clean_def flush_guest_def vmwrite_wr

lemmas read_write = vmcb vmcb_offsets write_defs

text \<open>The registers one by one.\<close>

lemma guest_reg_exhaust:
  obtains i where "r = Gpr i"
    | "r = Rip"
    | "r = Rflags"
    | "r = Cr0"
    | "r = Cr2"
    | "r = Cr3"
    | "r = Cr4"
    | "r = Tpr"
    | "r = Kernel_gs_base"
    | "r = Efer"
    | "r = Pat"
    | "r = Tsc_offset"
    | "r = Xcr0"
    | i where "r = Dr i"
    | "r = Sel Es"
    | "r = Sel Cs"
    | "r = Sel Ss"
    | "r = Sel Ds"
    | "r = Sel Fs"
    | "r = Sel Gs"
    | "r = Sel Tr"
    | "r = Sel Gdtr"
    | "r = Sel Idtr"
    | "r = Sel Ldtr"
    | "r = Attr Es"
    | "r = Attr Cs"
    | "r = Attr Ss"
    | "r = Attr Ds"
    | "r = Attr Fs"
    | "r = Attr Gs"
    | "r = Attr Tr"
    | "r = Attr Gdtr"
    | "r = Attr Idtr"
    | "r = Attr Ldtr"
    | "r = Lim Es"
    | "r = Lim Cs"
    | "r = Lim Ss"
    | "r = Lim Ds"
    | "r = Lim Fs"
    | "r = Lim Gs"
    | "r = Lim Tr"
    | "r = Lim Gdtr"
    | "r = Lim Idtr"
    | "r = Lim Ldtr"
    | "r = Base Es"
    | "r = Base Cs"
    | "r = Base Ss"
    | "r = Base Ds"
    | "r = Base Fs"
    | "r = Base Gs"
    | "r = Base Tr"
    | "r = Base Gdtr"
    | "r = Base Idtr"
    | "r = Base Ldtr"
    | "r = Star 0"
    | "r = Star (Suc 0)"
    | "r = Star 2"
    | "r = Star 3"
    | i where "r = Star i" "\<not> i < 4"
    | "r = Sysenter 0"
    | "r = Sysenter (Suc 0)"
    | "r = Sysenter 2"
    | i where "r = Sysenter i" "\<not> i < 3"
proof (cases r)
  case (Star i)
  then have "\<not> i < 4 \<or> i = 0 \<or> i = Suc 0 \<or> i = 2 \<or> i = 3" by auto
  then show ?thesis using Star that by blast
next
  case (Sysenter i)
  then have "\<not> i < 3 \<or> i = 0 \<or> i = Suc 0 \<or> i = 2" by auto
  then show ?thesis using Sysenter that by blast
next
  case (Sel s)
  then show ?thesis using that by (cases s) blast+
next
  case (Attr s)
  then show ?thesis using that by (cases s) blast+
next
  case (Lim s)
  then show ?thesis using that by (cases s) blast+
next
  case (Base s)
  then show ?thesis using that by (cases s) blast+
qed (use that in blast)+

lemma arch_write_gpr: "\<not> cached ''gprvalid'' h \<Longrightarrow>
  arch s (set_cache ''gprvalid'' 1 h) (write_gpr h b) r = arch s h b r"
  by (rule guest_reg_exhaust [of r]; simp add: read_write is_table_def svm_attrib_round)

lemma arch_write_dr: "\<not> cached ''dr_valid'' h \<Longrightarrow>
  arch s (set_cache ''dr_valid'' 1 h) (write_dr h b) r = arch s h b r"
  by (rule guest_reg_exhaust [of r]; simp add: read_write is_table_def svm_attrib_round)

lemma arch_write_cr: "\<not> cached ''cr_valid'' h \<Longrightarrow>
  arch s (set_cache ''cr_valid'' 1 h) (write_cr h b) r = arch s h b r"
  by (rule guest_reg_exhaust [of r]; simp add: read_write is_table_def svm_attrib_round)

lemma arch_write_cr2: "\<not> cached ''cr2valid'' h \<Longrightarrow>
  arch s (set_cache ''cr2valid'' 1 h) (write_cr2 h b) r = arch s h b r"
  by (rule guest_reg_exhaust [of r]; simp add: read_write is_table_def svm_attrib_round)

lemma arch_write_tpr: "\<not> cached ''tp_valid'' h \<Longrightarrow>
  arch s (set_cache ''tp_valid'' 1 h) (write_tpr h b) r = arch s h b r"
  by (rule guest_reg_exhaust [of r]; simp add: read_write is_table_def svm_attrib_round)

lemma arch_write_sr: "\<not> cached ''sr_valid'' h \<Longrightarrow>
  arch s (set_cache ''sr_valid'' 1 h) (write_sr h b) r = arch s h b r"
  by (rule guest_reg_exhaust [of r]; simp add: read_write is_table_def svm_attrib_round)

lemma arch_write_fg: "\<not> cached ''fg_valid'' h \<Longrightarrow>
  arch s (set_cache ''fg_valid'' 1 h) (write_fg h b) r = arch s h b r"
  by (rule guest_reg_exhaust [of r]; simp add: read_write is_table_def svm_attrib_round)

lemma arch_write_lt: "\<not> cached ''lt_valid'' h \<Longrightarrow>
  arch s (set_cache ''lt_valid'' 1 h) (write_lt h b) r = arch s h b r"
  by (rule guest_reg_exhaust [of r]; simp add: read_write is_table_def svm_attrib_round)

lemma arch_write_dt: "\<not> cached ''dt_valid'' h \<Longrightarrow>
  arch s (set_cache ''dt_valid'' 1 h) (write_dt h b) r = arch s h b r"
  by (rule guest_reg_exhaust [of r]; simp add: read_write is_table_def svm_attrib_round)

lemma arch_write_pat: "\<not> cached ''pa_valid'' h \<Longrightarrow>
  arch s (set_cache ''pa_valid'' 1 h) (write_pat h b) r = arch s h b r"
  by (rule guest_reg_exhaust [of r]; simp add: read_write is_table_def svm_attrib_round)

lemma arch_write_sysenter: "\<not> cached ''se_valid'' h \<Longrightarrow>
  arch s (set_cache ''se_valid'' 1 h) (write_sysenter h b) r = arch s h b r"
  by (rule guest_reg_exhaust [of r]; simp add: read_write is_table_def svm_attrib_round)

lemma arch_write_syscall: "\<not> cached ''sc_valid'' h \<Longrightarrow>
  arch s (set_cache ''sc_valid'' 1 h) (write_syscall h b) r = arch s h b r"
  by (rule guest_reg_exhaust [of r]; simp add: read_write is_table_def svm_attrib_round)

lemma arch_write_tsc: "\<not> cached ''ts_valid'' h \<Longrightarrow>
  arch s (set_cache ''ts_valid'' 1 h) (write_tsc h b) r = arch s h b r"
  by (rule guest_reg_exhaust [of r]; simp add: read_write is_table_def svm_attrib_round)

lemma bit_svme: "bit (0x1000 :: u64) n \<longleftrightarrow> n = 12"
proof -
  have m: "(0x1000 :: u64) = push_bit 12 1" by simp
  show ?thesis by (simp only: m bit_push_bit_iff bit_1_iff) auto
qed

lemma efer_shadow:
  "bit e 12 \<Longrightarrow> e OR 0x1000 = (e :: u64)" "\<not> bit e 12 \<Longrightarrow> unset_bit 12 (e OR 0x1000) = e"
  by (rule bit_word_eqI; simp only: bit_or_iff bit_unset_bit_iff bit_svme; auto)+

lemma arch_write_efer: "\<not> cached ''ef_valid'' h \<Longrightarrow>
  arch (noir_bt (efer h) amd64_efer_svme) (set_cache ''ef_valid'' 1 h) (write_efer h b) r = arch s h b r"
  by (rule guest_reg_exhaust [of r];
      simp add: read_write write_efer_def Let_def is_table_def noir_bt_def amd64_efer_svme_def
        amd64_efer_svme_bit_def efer_shadow)

text \<open>While the class of \<open>EFER\<close> is stale the shadowed bit does not matter.\<close>

lemma arch_shadow: "\<not> cached ''ef_valid'' h \<Longrightarrow> arch s h b r = arch s' h b r"
  by (cases r) simp_all

section \<open>Loading everything\<close>

definition cache_classes :: "string list" where
  "cache_classes = [''gprvalid'', ''dr_valid'', ''cr_valid'', ''cr2valid'', ''tp_valid'', ''sr_valid'', ''fg_valid'',
     ''lt_valid'', ''dt_valid'', ''ef_valid'', ''pa_valid'', ''se_valid'', ''sc_valid'', ''ts_valid'']"

lemma when_stale_arch:
  assumes "\<And>h b. \<not> cached f h \<Longrightarrow> arch s (set_cache f 1 h) (write h b) r = arch s h b r"
  shows "case_prod (\<lambda>h b. arch s h b r) (when_stale f write hb) = case_prod (\<lambda>h b. arch s h b r) hb"
  using assms by (cases hb) (simp add: when_stale_def)

lemma when_stale_efer:
  "fst (when_stale f write hb) = (if cached f (fst hb) then fst hb else set_cache f 1 (fst hb))"
  by (cases hb) (simp add: when_stale_def)

definition load_before_efer :: "sync_pair \<Rightarrow> sync_pair" where
  "load_before_efer hb = when_stale ''dt_valid'' write_dt (when_stale ''lt_valid'' write_lt
     (when_stale ''fg_valid'' write_fg (when_stale ''sr_valid'' write_sr (when_stale ''tp_valid'' write_tpr
     (when_stale ''cr2valid'' write_cr2 (when_stale ''cr_valid'' write_cr (when_stale ''dr_valid'' write_dr
     (when_stale ''gprvalid'' write_gpr hb))))))))"

definition load_after_efer :: "sync_pair \<Rightarrow> sync_pair" where
  "load_after_efer hb = when_stale ''ts_valid'' write_tsc (when_stale ''sc_valid'' write_syscall
     (when_stale ''se_valid'' write_sysenter (when_stale ''pa_valid'' write_pat hb)))"

lemma load_vmcb_split:
  "load_vmcb hb = load_after_efer (when_stale ''ef_valid'' write_efer (load_before_efer hb))"
  by (simp add: load_vmcb_def load_after_efer_def load_before_efer_def)

lemma load_before_arch:
  "case_prod (\<lambda>h b. arch s h b r) (load_before_efer hb) = case_prod (\<lambda>h b. arch s h b r) hb"
  unfolding load_before_efer_def
  by (simp add: when_stale_arch arch_write_gpr arch_write_dr arch_write_cr arch_write_cr2 arch_write_tpr
      arch_write_sr arch_write_fg arch_write_lt arch_write_dt)

lemma load_after_arch:
  "case_prod (\<lambda>h b. arch s h b r) (load_after_efer hb) = case_prod (\<lambda>h b. arch s h b r) hb"
  unfolding load_after_efer_def
  by (simp add: when_stale_arch arch_write_pat arch_write_sysenter arch_write_syscall arch_write_tsc)

lemma before_efer_fst:
  "cached ''ef_valid'' (fst (load_before_efer hb)) \<longleftrightarrow> cached ''ef_valid'' (fst hb)"
  "efer (fst (load_before_efer hb)) = efer (fst hb)"
  unfolding load_before_efer_def by (simp_all add: when_stale_efer)

theorem load_vmcb_arch:
  assumes "load_vmcb (h, b) = (h', b')"
  shows "arch (if cached ''ef_valid'' h then s else noir_bt (efer h) amd64_efer_svme) h' b' r = arch s h b r"
proof -
  obtain h1 b1 where 1: "load_before_efer (h, b) = (h1, b1)" by fastforce
  obtain h2 b2 where 2: "when_stale ''ef_valid'' write_efer (h1, b1) = (h2, b2)" by fastforce
  have 3: "load_after_efer (h2, b2) = (h', b')"
    using assms by (simp add: load_vmcb_split 1 2)
  have ef: "cached ''ef_valid'' h1 = cached ''ef_valid'' h" "efer h1 = efer h"
    using before_efer_fst [of "(h, b)"] by (simp_all add: 1)
  have step1: "arch s h1 b1 r = arch s h b r"
    using load_before_arch [where s = s and r = r and hb = "(h, b)"] by (simp add: 1)
  have step3: "arch t h' b' r = arch t h2 b2 r" for t
    using load_after_arch [where s = t and r = r and hb = "(h2, b2)"] by (simp add: 3)
  show ?thesis
  proof (cases "cached ''ef_valid'' h")
    case True
    then show ?thesis using 2 ef step1 step3 by (simp add: when_stale_def)
  next
    case False
    then have "h2 = set_cache ''ef_valid'' 1 h1" "b2 = write_efer h1 b1"
      using 2 ef by (auto simp: when_stale_def)
    with False show ?thesis
      using arch_write_efer [where h = h1 and b = b1 and s = s and r = r] ef step1 step3 by simp
  qed
qed

lemma load_vmcb_valid:
  "list_all (\<lambda>f. cached f (fst (load_vmcb hb))) cache_classes"
  unfolding load_vmcb_def Let_def cache_classes_def
  by (simp add: when_stale_efer)

end
