(* ===== verification/Vcpu_Names.thy ===== *)
theory Vcpu_Names
  imports Vcpu
begin

text \<open>
  Editing and viewing registers by name (\<open>nvc_edit_vcpu_registers2\<close> and
  \<open>nvc_view_vcpu_registers2\<close>): a list of names, each with a slot of the buffer.
\<close>

section \<open>Names\<close>

definition noir_cvm_register_rax :: u32 where "noir_cvm_register_rax = 0x0"
definition noir_cvm_register_rcx :: u32 where "noir_cvm_register_rcx = 0x1"
definition noir_cvm_register_rdx :: u32 where "noir_cvm_register_rdx = 0x2"
definition noir_cvm_register_rbx :: u32 where "noir_cvm_register_rbx = 0x3"
definition noir_cvm_register_rsp :: u32 where "noir_cvm_register_rsp = 0x4"
definition noir_cvm_register_rbp :: u32 where "noir_cvm_register_rbp = 0x5"
definition noir_cvm_register_rsi :: u32 where "noir_cvm_register_rsi = 0x6"
definition noir_cvm_register_rdi :: u32 where "noir_cvm_register_rdi = 0x7"
definition noir_cvm_register_r8 :: u32 where "noir_cvm_register_r8 = 0x8"
definition noir_cvm_register_r9 :: u32 where "noir_cvm_register_r9 = 0x9"
definition noir_cvm_register_r10 :: u32 where "noir_cvm_register_r10 = 0xa"
definition noir_cvm_register_r11 :: u32 where "noir_cvm_register_r11 = 0xb"
definition noir_cvm_register_r12 :: u32 where "noir_cvm_register_r12 = 0xc"
definition noir_cvm_register_r13 :: u32 where "noir_cvm_register_r13 = 0xd"
definition noir_cvm_register_r14 :: u32 where "noir_cvm_register_r14 = 0xe"
definition noir_cvm_register_r15 :: u32 where "noir_cvm_register_r15 = 0xf"
definition noir_cvm_register_rflags :: u32 where "noir_cvm_register_rflags = 0x20"
definition noir_cvm_register_rip :: u32 where "noir_cvm_register_rip = 0x21"
definition noir_cvm_register_es :: u32 where "noir_cvm_register_es = 0x22"
definition noir_cvm_register_cs :: u32 where "noir_cvm_register_cs = 0x23"
definition noir_cvm_register_ss :: u32 where "noir_cvm_register_ss = 0x24"
definition noir_cvm_register_ds :: u32 where "noir_cvm_register_ds = 0x25"
definition noir_cvm_register_fs :: u32 where "noir_cvm_register_fs = 0x26"
definition noir_cvm_register_gs :: u32 where "noir_cvm_register_gs = 0x27"
definition noir_cvm_register_tr :: u32 where "noir_cvm_register_tr = 0x28"
definition noir_cvm_register_gdtr :: u32 where "noir_cvm_register_gdtr = 0x29"
definition noir_cvm_register_idtr :: u32 where "noir_cvm_register_idtr = 0x2a"
definition noir_cvm_register_ldtr :: u32 where "noir_cvm_register_ldtr = 0x2b"
definition noir_cvm_register_cr0 :: u32 where "noir_cvm_register_cr0 = 0x30"
definition noir_cvm_register_cr2 :: u32 where "noir_cvm_register_cr2 = 0x32"
definition noir_cvm_register_cr3 :: u32 where "noir_cvm_register_cr3 = 0x33"
definition noir_cvm_register_cr4 :: u32 where "noir_cvm_register_cr4 = 0x34"
definition noir_cvm_register_cr8 :: u32 where "noir_cvm_register_cr8 = 0x38"
definition noir_cvm_register_dr0 :: u32 where "noir_cvm_register_dr0 = 0x40"
definition noir_cvm_register_dr1 :: u32 where "noir_cvm_register_dr1 = 0x41"
definition noir_cvm_register_dr2 :: u32 where "noir_cvm_register_dr2 = 0x42"
definition noir_cvm_register_dr3 :: u32 where "noir_cvm_register_dr3 = 0x43"
definition noir_cvm_register_dr6 :: u32 where "noir_cvm_register_dr6 = 0x46"
definition noir_cvm_register_dr7 :: u32 where "noir_cvm_register_dr7 = 0x47"
definition noir_cvm_register_xcr0 :: u32 where "noir_cvm_register_xcr0 = 0x50"
definition noir_cvm_register_tsc :: u32 where "noir_cvm_register_tsc = 0x1000"
definition noir_cvm_register_efer :: u32 where "noir_cvm_register_efer = 0x1001"
definition noir_cvm_register_kgs_base :: u32 where "noir_cvm_register_kgs_base = 0x1002"
definition noir_cvm_register_apic_base :: u32 where "noir_cvm_register_apic_base = 0x1003"
definition noir_cvm_register_sysenter_cs :: u32 where "noir_cvm_register_sysenter_cs = 0x1004"
definition noir_cvm_register_sysenter_esp :: u32 where "noir_cvm_register_sysenter_esp = 0x1005"
definition noir_cvm_register_sysenter_eip :: u32 where "noir_cvm_register_sysenter_eip = 0x1006"
definition noir_cvm_register_pat :: u32 where "noir_cvm_register_pat = 0x1007"
definition noir_cvm_register_star :: u32 where "noir_cvm_register_star = 0x1008"
definition noir_cvm_register_lstar :: u32 where "noir_cvm_register_lstar = 0x1009"
definition noir_cvm_register_cstar :: u32 where "noir_cvm_register_cstar = 0x100a"
definition noir_cvm_register_sfmask :: u32 where "noir_cvm_register_sfmask = 0x100b"
definition noir_cvm_register_ststar :: u32 where "noir_cvm_register_ststar = 0x100c"
definition noir_cvm_register_msr_max :: u32 where "noir_cvm_register_msr_max = 0x100d"

lemmas register_names = noir_cvm_register_rax_def noir_cvm_register_rcx_def noir_cvm_register_rdx_def
  noir_cvm_register_rbx_def noir_cvm_register_rsp_def noir_cvm_register_rbp_def
  noir_cvm_register_rsi_def noir_cvm_register_rdi_def noir_cvm_register_r8_def
  noir_cvm_register_r9_def noir_cvm_register_r10_def noir_cvm_register_r11_def
  noir_cvm_register_r12_def noir_cvm_register_r13_def noir_cvm_register_r14_def
  noir_cvm_register_r15_def noir_cvm_register_rflags_def noir_cvm_register_rip_def
  noir_cvm_register_es_def noir_cvm_register_cs_def noir_cvm_register_ss_def
  noir_cvm_register_ds_def noir_cvm_register_fs_def noir_cvm_register_gs_def
  noir_cvm_register_tr_def noir_cvm_register_gdtr_def noir_cvm_register_idtr_def
  noir_cvm_register_ldtr_def noir_cvm_register_cr0_def noir_cvm_register_cr2_def
  noir_cvm_register_cr3_def noir_cvm_register_cr4_def noir_cvm_register_cr8_def
  noir_cvm_register_dr0_def noir_cvm_register_dr1_def noir_cvm_register_dr2_def
  noir_cvm_register_dr3_def noir_cvm_register_dr6_def noir_cvm_register_dr7_def
  noir_cvm_register_xcr0_def noir_cvm_register_tsc_def noir_cvm_register_efer_def
  noir_cvm_register_kgs_base_def noir_cvm_register_apic_base_def noir_cvm_register_sysenter_cs_def
  noir_cvm_register_sysenter_esp_def noir_cvm_register_sysenter_eip_def noir_cvm_register_pat_def
  noir_cvm_register_star_def noir_cvm_register_lstar_def noir_cvm_register_cstar_def
  noir_cvm_register_sfmask_def noir_cvm_register_ststar_def noir_cvm_register_msr_max_def

text \<open>\<open>array[name - first]\<close>\<close>

definition index_from :: "u32 \<Rightarrow> u32 \<Rightarrow> nat" where
  "index_from first name = unat (name - first)"

definition seg_at :: "u32 \<Rightarrow> seg_reg" where
  "seg_at name = seg_list ! index_from noir_cvm_register_es name"

text \<open>The cache class that the inner \<open>switch\<close> of the segment registers clears.\<close>

definition seg_class :: "u32 \<Rightarrow> string" where
  "seg_class name =
     (if name = noir_cvm_register_es \<or> name = noir_cvm_register_cs \<or> name = noir_cvm_register_ds \<or> name = noir_cvm_register_ss then ''sr_valid''
      else if name = noir_cvm_register_fs \<or> name = noir_cvm_register_gs then ''fg_valid''
      else if name = noir_cvm_register_gdtr \<or> name = noir_cvm_register_idtr then ''dt_valid''
      else ''lt_valid'')"

section \<open>Editing\<close>

definition edit_cr2 :: "u32 \<Rightarrow> u64 \<Rightarrow> noir_cvm_virtual_cpu \<Rightarrow> noir_cvm_virtual_cpu option" where
  "edit_cr2 name x v =
     (if name = noir_cvm_register_cr0 then Some (invalidate ''cr_valid'' (v\<lparr>cr0 := x\<rparr>))
      else if name = noir_cvm_register_cr2 then Some (invalidate ''cr2valid'' (v\<lparr>cr2 := x\<rparr>))
      else if name = noir_cvm_register_cr3 then Some (invalidate ''cr_valid'' (v\<lparr>cr3 := x\<rparr>))
      else if name = noir_cvm_register_cr4 then Some (invalidate ''cr_valid'' (v\<lparr>cr4 := x\<rparr>))
      else if name = noir_cvm_register_cr8 then Some (invalidate ''tp_valid'' (v\<lparr>cr8 := x\<rparr>))
      else None)"

definition edit_msr2 :: "u64 \<Rightarrow> u32 \<Rightarrow> u64 \<Rightarrow> noir_cvm_virtual_cpu \<Rightarrow> noir_cvm_virtual_cpu" where
  "edit_msr2 tsc name x v =
     (if name = noir_cvm_register_tsc then invalidate ''ts_valid'' (v\<lparr>tsc_off := x - tsc\<rparr>)
      else if name = noir_cvm_register_efer then invalidate ''ef_valid'' (v\<lparr>efer := x\<rparr>)
      else if name = noir_cvm_register_kgs_base then invalidate ''fg_valid'' (v\<lparr>gsswap := x\<rparr>)
      else if name = noir_cvm_register_apic_base then invalidate ''ap_valid'' (v\<lparr>apic_bar := x\<rparr>)
      else if noir_cvm_register_sysenter_cs \<le> name \<and> name \<le> noir_cvm_register_sysenter_eip then
        invalidate ''se_valid''
          (v\<lparr>sysenter := (sysenter v)(index_from noir_cvm_register_sysenter_cs name := x)\<rparr>)
      else if name = noir_cvm_register_pat then invalidate ''pa_valid'' (v\<lparr>pat := x\<rparr>)
      else if noir_cvm_register_star \<le> name \<and> name \<le> noir_cvm_register_ststar then
        invalidate ''sc_valid'' (v\<lparr>star := (star v)(index_from noir_cvm_register_star name := x)\<rparr>)
      else v)"

text \<open>One pass of the loop; \<open>None\<close> is the early \<open>return st\<close>. A segment register takes
  \<open>min(register_size, 16)\<close> bytes of its slot.\<close>

definition edit_register2 ::
  "u64 \<Rightarrow> u32 \<Rightarrow> u32 \<Rightarrow> bytes \<Rightarrow> nat \<Rightarrow> noir_cvm_virtual_cpu \<Rightarrow> noir_cvm_virtual_cpu option" where
  "edit_register2 tsc register_size name buf p v =
     (let x = load_u64 buf p in
      if noir_cvm_register_rax \<le> name \<and> name \<le> noir_cvm_register_r15 then
        (let v1 = v\<lparr>gpr := (gpr v)(index_from noir_cvm_register_rax name := x)\<rparr>
         in Some (if name = noir_cvm_register_rax then invalidate ''gprvalid'' v1 else v1))
      else if name = noir_cvm_register_rflags then Some (invalidate ''gprvalid'' (v\<lparr>rflags := x\<rparr>))
      else if name = noir_cvm_register_rip then Some (invalidate ''gprvalid'' (v\<lparr>rip := x\<rparr>))
      else if noir_cvm_register_es \<le> name \<and> name \<le> noir_cvm_register_ldtr then
        (let n = (if register_size < 16 then unat register_size else 16);
             s = seg_at name;
             image = copy_bytes (store_seg (\<lambda>_. 0) 0 (seg v s)) 0 buf p n
         in Some (invalidate (seg_class name) (v\<lparr>seg := (seg v)(s := load_seg image 0)\<rparr>)))
      else if noir_cvm_register_cr0 \<le> name \<and> name \<le> noir_cvm_register_cr8 then edit_cr2 name x v
      else if noir_cvm_register_dr0 \<le> name \<and> name \<le> noir_cvm_register_dr3 then
        Some (v\<lparr>drs := (drs v)(index_from noir_cvm_register_dr0 name := x)\<rparr>)
      else if name = noir_cvm_register_dr6 \<or> name = noir_cvm_register_dr7 then
        Some (invalidate ''dr_valid'' (v\<lparr>drs := (drs v)(4 + index_from noir_cvm_register_dr6 name := x)\<rparr>))
      else if name = noir_cvm_register_xcr0 then Some (v\<lparr>xcr0 := x\<rparr>)
      else if noir_cvm_register_tsc \<le> name \<and> name \<le> noir_cvm_register_msr_max then
        Some (edit_msr2 tsc name x v)
      else None)"

text \<open>The slot of the \<open>i\<close>-th register: \<open>i*register_size\<close> is a product of 32-bit integers.\<close>

definition slot :: "u32 \<Rightarrow> u32 \<Rightarrow> nat" where
  "slot register_size i = unat (i * register_size)"

fun edit_loop2 ::
  "u64 \<Rightarrow> u32 \<Rightarrow> u32 list \<Rightarrow> u32 \<Rightarrow> bytes \<Rightarrow> noir_cvm_virtual_cpu \<Rightarrow> noir_status \<times> noir_cvm_virtual_cpu" where
  "edit_loop2 tsc register_size [] i buf v = (noir_success, v)"
| "edit_loop2 tsc register_size (name # names) i buf v =
     (case edit_register2 tsc register_size name buf (slot register_size i) v of
        None \<Rightarrow> (noir_invalid_parameter, v)
      | Some v1 \<Rightarrow> edit_loop2 tsc register_size names (i + 1) buf v1)"

definition nvc_edit_vcpu_registers2 ::
  "u64 \<Rightarrow> u32 list \<Rightarrow> u32 \<Rightarrow> bytes \<Rightarrow> noir_cvm_virtual_cpu \<Rightarrow> noir_status \<times> noir_cvm_virtual_cpu" where
  "nvc_edit_vcpu_registers2 tsc register_names register_size buf v =
     (if register_size < 8 then (noir_invalid_parameter, v)
      else edit_loop2 tsc register_size register_names 0 buf v)"

section \<open>Viewing\<close>

definition view_cr2 :: "u32 \<Rightarrow> noir_cvm_virtual_cpu \<Rightarrow> u64 option" where
  "view_cr2 name v =
     (if name = noir_cvm_register_cr0 then Some (cr0 v)
      else if name = noir_cvm_register_cr2 then Some (cr2 v)
      else if name = noir_cvm_register_cr3 then Some (cr3 v)
      else if name = noir_cvm_register_cr4 then Some (cr4 v)
      else if name = noir_cvm_register_cr8 then Some (cr8 v)
      else None)"

definition view_msr2 :: "u64 \<Rightarrow> u32 \<Rightarrow> noir_cvm_virtual_cpu \<Rightarrow> u64 option" where
  "view_msr2 tsc name v =
     (if name = noir_cvm_register_tsc then Some (tsc_off v + tsc)
      else if name = noir_cvm_register_efer then Some (efer v)
      else if name = noir_cvm_register_kgs_base then Some (gsswap v)
      else if name = noir_cvm_register_apic_base then Some (apic_bar v)
      else if noir_cvm_register_sysenter_cs \<le> name \<and> name \<le> noir_cvm_register_sysenter_eip then
        Some (sysenter v (index_from noir_cvm_register_sysenter_cs name))
      else if name = noir_cvm_register_pat then Some (pat v)
      else if noir_cvm_register_star \<le> name \<and> name \<le> noir_cvm_register_ststar then
        Some (star v (index_from noir_cvm_register_star name))
      else None)"

text \<open>An unknown name in the range of the MSRs leaves its slot alone; every other unknown name stops
  the loop (\<open>None\<close>).\<close>

definition view_register2 ::
  "u64 \<Rightarrow> u32 \<Rightarrow> u32 \<Rightarrow> nat \<Rightarrow> noir_cvm_virtual_cpu \<Rightarrow> bytes \<Rightarrow> bytes option" where
  "view_register2 tsc register_size name p v buf =
     (if noir_cvm_register_rax \<le> name \<and> name \<le> noir_cvm_register_r15 then
        Some (store_u64 buf p (gpr v (index_from noir_cvm_register_rax name)))
      else if name = noir_cvm_register_rflags then Some (store_u64 buf p (rflags v))
      else if name = noir_cvm_register_rip then Some (store_u64 buf p (rip v))
      else if noir_cvm_register_es \<le> name \<and> name \<le> noir_cvm_register_ldtr then
        (let n = (if register_size < 16 then unat register_size else 16)
         in Some (copy_bytes buf p (store_seg (\<lambda>_. 0) 0 (seg v (seg_at name))) 0 n))
      else if noir_cvm_register_cr0 \<le> name \<and> name \<le> noir_cvm_register_cr8 then
        map_option (store_u64 buf p) (view_cr2 name v)
      else if noir_cvm_register_dr0 \<le> name \<and> name \<le> noir_cvm_register_dr3 then
        Some (store_u64 buf p (drs v (index_from noir_cvm_register_dr0 name)))
      else if name = noir_cvm_register_dr6 \<or> name = noir_cvm_register_dr7 then
        Some (store_u64 buf p (drs v (4 + index_from noir_cvm_register_dr6 name)))
      else if name = noir_cvm_register_xcr0 then Some (store_u64 buf p (xcr0 v))
      else if noir_cvm_register_tsc \<le> name \<and> name \<le> noir_cvm_register_msr_max then
        Some (case view_msr2 tsc name v of None \<Rightarrow> buf | Some x \<Rightarrow> store_u64 buf p x)
      else None)"

fun view_loop2 :: "u64 \<Rightarrow> u32 \<Rightarrow> u32 list \<Rightarrow> u32 \<Rightarrow> noir_cvm_virtual_cpu \<Rightarrow> bytes \<Rightarrow> noir_status \<times> bytes" where
  "view_loop2 tsc register_size [] i v buf = (noir_success, buf)"
| "view_loop2 tsc register_size (name # names) i v buf =
     (case view_register2 tsc register_size name (slot register_size i) v buf of
        None \<Rightarrow> (noir_invalid_parameter, buf)
      | Some buf1 \<Rightarrow> view_loop2 tsc register_size names (i + 1) v buf1)"

definition nvc_view_vcpu_registers2 ::
  "u64 \<Rightarrow> u32 list \<Rightarrow> u32 \<Rightarrow> noir_cvm_virtual_cpu \<Rightarrow> bytes \<Rightarrow> noir_status \<times> bytes" where
  "nvc_view_vcpu_registers2 tsc register_names register_size v buf =
     (if register_size < 8 then (noir_invalid_parameter, buf)
      else view_loop2 tsc register_size register_names 0 v buf)"

end
