(* ===== verification/Svm_Edit.thy ===== *)
theory Svm_Edit
  imports Svm_Coherence Vcpu_Names
begin

text \<open>
  Editing and viewing registers against the architectural state of \<open>Svm_Coherence\<close>.
\<close>

section \<open>What an edit says\<close>

definition seg_slot :: "noir_cvm_register_type \<Rightarrow> seg_reg \<Rightarrow> nat option" where
  "seg_slot ty s =
     (if ty = Segment_register then
        (if s = Es then Some 0 else if s = Cs then Some 16 else if s = Ss then Some 32 else if s = Ds then Some 48 else None)
      else if ty = Fgseg_register then (if s = Fs then Some 0 else if s = Gs then Some 16 else None)
      else if ty = Descriptor_table then (if s = Gdtr then Some 0 else if s = Idtr then Some 16 else None)
      else if ty = Ldtr_task_register then (if s = Tr then Some 0 else if s = Ldtr then Some 16 else None)
      else None)"

text \<open>The value that a buffer of the given type holds for a register, if it holds one.\<close>

fun edited :: "u64 \<Rightarrow> noir_cvm_register_type \<Rightarrow> bytes \<Rightarrow> guest_reg \<Rightarrow> u64 option" where
  "edited tsc ty buf (Gpr i) =
     (if ty = General_purpose_register \<and> i < 16 then Some (load_u64 buf (8 * i)) else None)"
| "edited tsc ty buf Rip = (if ty = Instruction_pointer then Some (load_u64 buf 0) else None)"
| "edited tsc ty buf Rflags = (if ty = Flags_register then Some (load_u64 buf 0) else None)"
| "edited tsc ty buf Cr0 = (if ty = Control_register then Some (load_u64 buf 0) else None)"
| "edited tsc ty buf Cr2 = (if ty = Cr2_register then Some (load_u64 buf 0) else None)"
| "edited tsc ty buf Cr3 = (if ty = Control_register then Some (load_u64 buf 8) else None)"
| "edited tsc ty buf Cr4 = (if ty = Control_register then Some (load_u64 buf 16) else None)"
| "edited tsc ty buf Tpr =
     (if ty = Cr8_register then Some (ucast (ucast (load_u64 buf 0) AND (0xf :: u8))) else None)"
| "edited tsc ty buf (Dr i) =
     (if ty = Debug_register \<and> i < 4 then Some (load_u64 buf (8 * i))
      else if ty = Dr67_register \<and> i = 4 then Some (load_u64 buf 0)
      else if ty = Dr67_register \<and> i = 5 then Some (load_u64 buf 8) else None)"
| "edited tsc ty buf (Sel s) =
     (if is_table s then None else map_option (\<lambda>p. ucast (selector (load_seg buf p))) (seg_slot ty s))"
| "edited tsc ty buf (Attr s) =
     (if is_table s then None else map_option (\<lambda>p. ucast (svm_attrib (attrib (load_seg buf p)))) (seg_slot ty s))"
| "edited tsc ty buf (Lim s) = map_option (\<lambda>p. ucast (limit (load_seg buf p))) (seg_slot ty s)"
| "edited tsc ty buf (Base s) = map_option (\<lambda>p. base_addr (load_seg buf p)) (seg_slot ty s)"
| "edited tsc ty buf Kernel_gs_base = (if ty = Fgseg_register then Some (load_u64 buf 32) else None)"
| "edited tsc ty buf Efer = (if ty = Efer_register then Some (load_u64 buf 0) else None)"
| "edited tsc ty buf Pat = (if ty = Pat_register then Some (load_u64 buf 0) else None)"
| "edited tsc ty buf (Star i) =
     (if ty = Syscall_msr_register \<and> i < 4 then Some (load_u64 buf (8 * i)) else None)"
| "edited tsc ty buf (Sysenter i) =
     (if ty = Sysenter_msr_register \<and> i < 3 then Some (load_u64 buf (8 * i)) else None)"
| "edited tsc ty buf Tsc_offset = (if ty = Time_stamp_counter then Some (load_u64 buf 0 - tsc) else None)"
| "edited tsc ty buf Xcr0 = (if ty = Xcr0_register then Some (load_u64 buf 0) else None)"

text \<open>The software copy of a register: its value when nothing is valid in the control block.\<close>

definition software :: "noir_cvm_virtual_cpu \<Rightarrow> guest_reg \<Rightarrow> u64" where
  "software h r = arch False (h\<lparr>state_cache := 0\<rparr>) (\<lambda>_. 0) r"

text \<open>\<open>rax\<close>, \<open>rsp\<close>, \<open>rip\<close> and \<open>rflags\<close> of the software state agree with the control block, as
  leaving the guest establishes.\<close>

definition gprs_saved :: "noir_cvm_virtual_cpu \<Rightarrow> bytes \<Rightarrow> bool" where
  "gprs_saved h b \<longleftrightarrow> cached ''gprvalid'' h \<longrightarrow>
     gpr h 0 = vmread64 b guest_rax \<and> gpr h 4 = vmread64 b guest_rsp \<and> rip h = vmread64 b guest_rip \<and>
     rflags h = vmread64 b guest_rflags"

lemma cached_cong [simp]:
  "cached f (h\<lparr>gpr := a\<rparr>) = cached f h" "cached f (h\<lparr>seg := c\<rparr>) = cached f h" "cached f (h\<lparr>cr0 := d\<rparr>) = cached f h"
  "cached f (h\<lparr>cr2 := d\<rparr>) = cached f h" "cached f (h\<lparr>cr3 := d\<rparr>) = cached f h" "cached f (h\<lparr>cr4 := d\<rparr>) = cached f h"
  "cached f (h\<lparr>cr8 := d\<rparr>) = cached f h" "cached f (h\<lparr>drs := a\<rparr>) = cached f h" "cached f (h\<lparr>sysenter := a\<rparr>) = cached f h"
  "cached f (h\<lparr>pat := d\<rparr>) = cached f h" "cached f (h\<lparr>efer := d\<rparr>) = cached f h" "cached f (h\<lparr>star := a\<rparr>) = cached f h"
  "cached f (h\<lparr>gsswap := d\<rparr>) = cached f h" "cached f (h\<lparr>apic_bar := d\<rparr>) = cached f h" "cached f (h\<lparr>lbr := a\<rparr>) = cached f h"
  "cached f (h\<lparr>xcr0 := d\<rparr>) = cached f h" "cached f (h\<lparr>ghcb := d\<rparr>) = cached f h" "cached f (h\<lparr>xsave_area := e\<rparr>) = cached f h"
  "cached f (h\<lparr>rflags := d\<rparr>) = cached f h" "cached f (h\<lparr>rip := d\<rparr>) = cached f h" "cached f (h\<lparr>tsc_off := d\<rparr>) = cached f h"
  "\<not> cached f (h\<lparr>state_cache := 0\<rparr>)"
  by (simp_all add: cached_def bf_flag_def bf_get_def)

lemma seg_ne [simp]: "x \<noteq> y \<Longrightarrow> (if x = y then a else c) = c" by simp

lemmas edit_simps = gprs_saved_def is_table_def seg_slot_def load_array_def Let_def

lemma edit_arch_gpr:
  "gprs_saved h b \<Longrightarrow> ty = General_purpose_register \<or> ty = Flags_register \<or> ty = Instruction_pointer \<Longrightarrow>
   arch s (snd (edit_registers xsize tsc ty buf sz h)) b r =
     (case edited tsc ty buf r of Some x \<Rightarrow> x | None \<Rightarrow> arch s h b r)"
  by (elim disjE; rule guest_reg_exhaust [of r]; simp add: edit_simps; auto)

lemma edit_arch_cr:
  "ty = Control_register \<or> ty = Cr2_register \<or> ty = Cr8_register \<or> ty = Xcr0_register \<Longrightarrow>
   arch s (snd (edit_registers xsize tsc ty buf sz h)) b r =
     (case edited tsc ty buf r of Some x \<Rightarrow> x | None \<Rightarrow> arch s h b r)"
  by (elim disjE; rule guest_reg_exhaust [of r]; simp add: edit_simps; auto)

lemma edit_arch_dr:
  "ty = Debug_register \<or> ty = Dr67_register \<or> ty = Efer_register \<or> ty = Pat_register \<or> ty = Time_stamp_counter \<Longrightarrow>
   arch s (snd (edit_registers xsize tsc ty buf sz h)) b r =
     (case edited tsc ty buf r of Some x \<Rightarrow> x | None \<Rightarrow> arch s h b r)"
  by (elim disjE; rule guest_reg_exhaust [of r]; simp add: edit_simps; auto)

lemma edit_arch_seg:
  "ty = Segment_register \<or> ty = Ldtr_task_register \<or> ty = Descriptor_table \<Longrightarrow>
   arch s (snd (edit_registers xsize tsc ty buf sz h)) b r =
     (case edited tsc ty buf r of Some x \<Rightarrow> x | None \<Rightarrow> arch s h b r)"
  by (elim disjE; rule guest_reg_exhaust [of r]; simp add: edit_simps; auto)

lemma edit_arch_msr:
  "ty = Syscall_msr_register \<or> ty = Sysenter_msr_register \<Longrightarrow>
   arch s (snd (edit_registers xsize tsc ty buf sz h)) b r =
     (case edited tsc ty buf r of Some x \<Rightarrow> x | None \<Rightarrow> arch s h b r)"
  by (elim disjE; rule guest_reg_exhaust [of r]; simp add: edit_simps; auto)

lemma edit_arch_other:
  "ty = Fxstate \<or> ty = Xsave_area \<or> ty = Last_branch_record_register \<or> ty = Ghcb_register \<or> ty = Apic_bar_register \<or> ty = Maximum_register_type \<Longrightarrow>
   arch s (snd (edit_registers xsize tsc ty buf sz h)) b r =
     (case edited tsc ty buf r of Some x \<Rightarrow> x | None \<Rightarrow> arch s h b r)"
  by (elim disjE; rule guest_reg_exhaust [of r]; simp add: edit_simps; auto)

lemma edit_arch_fg: "8 \<le> sz - 32 \<Longrightarrow>
  arch s (snd (edit_registers xsize tsc Fgseg_register buf sz h)) b r =
    (case edited tsc Fgseg_register buf r of Some x \<Rightarrow> x | None \<Rightarrow> arch s h b r)"
  by (rule guest_reg_exhaust [of r]; simp add: edit_simps)

lemma edit_arch:
  assumes "gprs_saved h b" "ty = Fgseg_register \<longrightarrow> 40 \<le> sz"
  shows "arch s (snd (edit_registers xsize tsc ty buf sz h)) b r =
    (case edited tsc ty buf r of Some x \<Rightarrow> x | None \<Rightarrow> arch s h b r)"
proof (cases "ty = Fgseg_register")
  case True
  with assms(2) have "8 \<le> sz - 32" by simp
  from edit_arch_fg [OF this] True show ?thesis by blast
next
  case False
  then show ?thesis
    by (cases ty; simp del: edit_registers.simps edited.simps arch.simps
        add: edit_arch_gpr [OF assms(1)] edit_arch_cr edit_arch_dr edit_arch_seg edit_arch_msr edit_arch_other)
qed

section \<open>Dumping\<close>

text \<open>The registers that a dump copies.\<close>

fun dumped :: "guest_reg \<Rightarrow> bool" where
  "dumped (Gpr i) = False" | "dumped Rip = False" | "dumped Rflags = False"
| "dumped Kernel_gs_base = False" | "dumped Tsc_offset = False" | "dumped _ = True"

fun reg_class :: "guest_reg \<Rightarrow> string" where
  "reg_class Cr0 = ''cr_valid''" | "reg_class Cr3 = ''cr_valid''" | "reg_class Cr4 = ''cr_valid''"
| "reg_class Cr2 = ''cr2valid''" | "reg_class Tpr = ''tp_valid''"
| "reg_class (Dr i) = (if i = 4 \<or> i = 5 then ''dr_valid'' else [])"
| "reg_class (Sel s) = (if is_table s then [] else seg_cache s)"
| "reg_class (Attr s) = (if is_table s then [] else seg_cache s)"
| "reg_class (Lim s) = seg_cache s" | "reg_class (Base s) = seg_cache s"
| "reg_class Efer = ''ef_valid''" | "reg_class Pat = ''pa_valid''"
| "reg_class (Star i) = (if i < 4 then ''sc_valid'' else [])"
| "reg_class (Sysenter i) = (if i < 3 then ''se_valid'' else [])"
| "reg_class _ = []"

lemma arch_stale: "\<not> cached (reg_class r) h \<Longrightarrow> dumped r \<Longrightarrow> arch s h b r = software h r"
  unfolding software_def by (rule guest_reg_exhaust [of r]; simp add: is_table_def; auto)

text \<open>A step of the dump is faithful when it copies its own class and nothing else.\<close>

definition faithful :: "bool \<Rightarrow> bytes \<Rightarrow> string \<Rightarrow> (noir_cvm_virtual_cpu \<Rightarrow> noir_cvm_virtual_cpu) \<Rightarrow> bool" where
  "faithful s b f rd \<longleftrightarrow> (\<forall>h. state_cache (rd h) = state_cache h \<and> (cached f h \<longrightarrow> (\<forall>r.
     arch s (rd h) b r = arch s h b r \<and>
     software (rd h) r = (if reg_class r = f then arch s h b r else software h r))))"

lemma cached_same: "state_cache h = state_cache h' \<Longrightarrow> cached f h = cached f h'"
  by (simp add: cached_def)

lemma dump_steps:
  assumes "list_all (\<lambda>(f, rd). faithful s b f rd) steps"
  shows "arch s (fold (\<lambda>(f, rd). when_valid f rd) steps h) b r = arch s h b r \<and>
    cached g (fold (\<lambda>(f, rd). when_valid f rd) steps h) = cached g h \<and>
    software (fold (\<lambda>(f, rd). when_valid f rd) steps h) r =
      (if reg_class r \<in> set (map fst steps) \<and> cached (reg_class r) h then arch s h b r else software h r)"
  using assms
proof (induction steps arbitrary: h)
  case (Cons step steps)
  obtain f rd where step: "step = (f, rd)" by fastforce
  let ?h = "when_valid f rd h"
  have ok: "faithful s b f rd" using Cons.prems step by simp
  have same: "cached g ?h = cached g h" for g
    using ok cached_same [of "rd h" h g] by (simp add: faithful_def when_valid_def)
  have a: "arch s ?h b r = arch s h b r"
    using ok by (simp add: faithful_def when_valid_def)
  have w: "software ?h r = (if reg_class r = f \<and> cached f h then arch s h b r else software h r)"
    using ok by (simp add: faithful_def when_valid_def)
  show ?case
    using Cons.IH [of ?h] Cons.prems a w same by (auto simp: step)
qed simp

lemma nibble: "ucast (ucast (ucast (x AND 0xf :: u8) :: u64) AND (0xf :: u8)) = (ucast (x AND 0xf) :: u64)"
  by (rule bit_word_eqI) (auto simp: bit_simps)

lemmas dump_read_defs = nvc_svm_dump_guest_segments_def nvc_svm_dump_guest_fs_gs_def vmread_seg_def vmread_table_def
  is_table_def

lemma faithfulI:
  assumes "\<And>h. state_cache (rd h) = state_cache h"
    and "\<And>h r. cached f h \<Longrightarrow> arch s (rd h) b r = arch s h b r"
    and "\<And>h r. cached f h \<Longrightarrow> software (rd h) r = (if reg_class r = f then arch s h b r else software h r)"
  shows "faithful s b f rd"
  using assms by (simp add: faithful_def)

lemma faithful_cr_valid: "faithful s b ''cr_valid''
    (\<lambda>h. h\<lparr>cr0 := vmread64 b guest_cr0, cr3 := vmread64 b guest_cr3, cr4 := vmread64 b guest_cr4\<rparr>)"
proof (rule faithfulI)
  fix h r
  assume c: "cached ''cr_valid'' h"
  show "arch s ((\<lambda>h. h\<lparr>cr0 := vmread64 b guest_cr0, cr3 := vmread64 b guest_cr3, cr4 := vmread64 b guest_cr4\<rparr>) h) b r = arch s h b r"
    using c by - (rule guest_reg_exhaust [of r]; simp add: dump_read_defs)
  show "software ((\<lambda>h. h\<lparr>cr0 := vmread64 b guest_cr0, cr3 := vmread64 b guest_cr3, cr4 := vmread64 b guest_cr4\<rparr>) h) r = (if reg_class r = ''cr_valid'' then arch s h b r else software h r)"
    unfolding software_def using c by - (rule guest_reg_exhaust [of r]; simp add: dump_read_defs nibble)
qed (simp add: dump_read_defs)

lemma faithful_cr2valid: "faithful s b ''cr2valid''
    (\<lambda>h. h\<lparr>cr2 := vmread64 b guest_cr2\<rparr>)"
proof (rule faithfulI)
  fix h r
  assume c: "cached ''cr2valid'' h"
  show "arch s ((\<lambda>h. h\<lparr>cr2 := vmread64 b guest_cr2\<rparr>) h) b r = arch s h b r"
    using c by - (rule guest_reg_exhaust [of r]; simp add: dump_read_defs)
  show "software ((\<lambda>h. h\<lparr>cr2 := vmread64 b guest_cr2\<rparr>) h) r = (if reg_class r = ''cr2valid'' then arch s h b r else software h r)"
    unfolding software_def using c by - (rule guest_reg_exhaust [of r]; simp add: dump_read_defs nibble)
qed (simp add: dump_read_defs)

lemma faithful_dr_valid: "faithful s b ''dr_valid''
    (\<lambda>h. h\<lparr>drs := (drs h)(4 := vmread64 b guest_dr6, 5 := vmread64 b guest_dr7)\<rparr>)"
proof (rule faithfulI)
  fix h r
  assume c: "cached ''dr_valid'' h"
  show "arch s ((\<lambda>h. h\<lparr>drs := (drs h)(4 := vmread64 b guest_dr6, 5 := vmread64 b guest_dr7)\<rparr>) h) b r = arch s h b r"
    using c by - (rule guest_reg_exhaust [of r]; simp add: dump_read_defs)
  show "software ((\<lambda>h. h\<lparr>drs := (drs h)(4 := vmread64 b guest_dr6, 5 := vmread64 b guest_dr7)\<rparr>) h) r = (if reg_class r = ''dr_valid'' then arch s h b r else software h r)"
    unfolding software_def using c by - (rule guest_reg_exhaust [of r]; simp add: dump_read_defs nibble)
qed (simp add: dump_read_defs)

lemma faithful_sr_valid: "faithful s b ''sr_valid''
    (\<lambda>h. nvc_svm_dump_guest_segments h b)"
proof (rule faithfulI)
  fix h r
  assume c: "cached ''sr_valid'' h"
  show "arch s ((\<lambda>h. nvc_svm_dump_guest_segments h b) h) b r = arch s h b r"
    using c by - (rule guest_reg_exhaust [of r]; simp add: dump_read_defs)
  show "software ((\<lambda>h. nvc_svm_dump_guest_segments h b) h) r = (if reg_class r = ''sr_valid'' then arch s h b r else software h r)"
    unfolding software_def using c by - (rule guest_reg_exhaust [of r]; simp add: dump_read_defs nibble)
qed (simp add: dump_read_defs)

lemma faithful_fg_valid: "faithful s b ''fg_valid''
    (\<lambda>h. nvc_svm_dump_guest_fs_gs h b)"
proof (rule faithfulI)
  fix h r
  assume c: "cached ''fg_valid'' h"
  show "arch s ((\<lambda>h. nvc_svm_dump_guest_fs_gs h b) h) b r = arch s h b r"
    using c by - (rule guest_reg_exhaust [of r]; simp add: dump_read_defs)
  show "software ((\<lambda>h. nvc_svm_dump_guest_fs_gs h b) h) r = (if reg_class r = ''fg_valid'' then arch s h b r else software h r)"
    unfolding software_def using c by - (rule guest_reg_exhaust [of r]; simp add: dump_read_defs nibble)
qed (simp add: dump_read_defs)

lemma faithful_dt_valid: "faithful s b ''dt_valid''
    (\<lambda>h. h\<lparr>seg := (seg h)(Gdtr := vmread_table b guest_gdtr_selector (seg h Gdtr),
        Idtr := vmread_table b guest_idtr_selector (seg h Idtr))\<rparr>)"
proof (rule faithfulI)
  fix h r
  assume c: "cached ''dt_valid'' h"
  show "arch s ((\<lambda>h. h\<lparr>seg := (seg h)(Gdtr := vmread_table b guest_gdtr_selector (seg h Gdtr),
        Idtr := vmread_table b guest_idtr_selector (seg h Idtr))\<rparr>) h) b r = arch s h b r"
    using c by - (rule guest_reg_exhaust [of r]; simp add: dump_read_defs)
  show "software ((\<lambda>h. h\<lparr>seg := (seg h)(Gdtr := vmread_table b guest_gdtr_selector (seg h Gdtr),
        Idtr := vmread_table b guest_idtr_selector (seg h Idtr))\<rparr>) h) r = (if reg_class r = ''dt_valid'' then arch s h b r else software h r)"
    unfolding software_def using c by - (rule guest_reg_exhaust [of r]; simp add: dump_read_defs nibble)
qed (simp add: dump_read_defs)

lemma faithful_lt_valid: "faithful s b ''lt_valid''
    (\<lambda>h. h\<lparr>seg := (seg h)(Ldtr := vmread_seg b guest_ldtr_selector, Tr := vmread_seg b guest_tr_selector)\<rparr>)"
proof (rule faithfulI)
  fix h r
  assume c: "cached ''lt_valid'' h"
  show "arch s ((\<lambda>h. h\<lparr>seg := (seg h)(Ldtr := vmread_seg b guest_ldtr_selector, Tr := vmread_seg b guest_tr_selector)\<rparr>) h) b r = arch s h b r"
    using c by - (rule guest_reg_exhaust [of r]; simp add: dump_read_defs)
  show "software ((\<lambda>h. h\<lparr>seg := (seg h)(Ldtr := vmread_seg b guest_ldtr_selector, Tr := vmread_seg b guest_tr_selector)\<rparr>) h) r = (if reg_class r = ''lt_valid'' then arch s h b r else software h r)"
    unfolding software_def using c by - (rule guest_reg_exhaust [of r]; simp add: dump_read_defs nibble)
qed (simp add: dump_read_defs)

lemma faithful_sc_valid: "faithful s b ''sc_valid''
    (\<lambda>h. h\<lparr>star := (star h)(0 := vmread64 b guest_star, 1 := vmread64 b guest_lstar,
        2 := vmread64 b guest_cstar, 3 := vmread64 b guest_sfmask)\<rparr>)"
proof (rule faithfulI)
  fix h r
  assume c: "cached ''sc_valid'' h"
  show "arch s ((\<lambda>h. h\<lparr>star := (star h)(0 := vmread64 b guest_star, 1 := vmread64 b guest_lstar,
        2 := vmread64 b guest_cstar, 3 := vmread64 b guest_sfmask)\<rparr>) h) b r = arch s h b r"
    using c by - (rule guest_reg_exhaust [of r]; simp add: dump_read_defs)
  show "software ((\<lambda>h. h\<lparr>star := (star h)(0 := vmread64 b guest_star, 1 := vmread64 b guest_lstar,
        2 := vmread64 b guest_cstar, 3 := vmread64 b guest_sfmask)\<rparr>) h) r = (if reg_class r = ''sc_valid'' then arch s h b r else software h r)"
    unfolding software_def using c by - (rule guest_reg_exhaust [of r]; simp add: dump_read_defs nibble vmcb_offsets)
qed (simp add: dump_read_defs)

lemma faithful_se_valid: "faithful s b ''se_valid''
    (\<lambda>h. h\<lparr>sysenter := (sysenter h)(0 := vmread64 b guest_sysenter_cs,
        1 := vmread64 b guest_sysenter_esp, 2 := vmread64 b guest_sysenter_eip)\<rparr>)"
proof (rule faithfulI)
  fix h r
  assume c: "cached ''se_valid'' h"
  show "arch s ((\<lambda>h. h\<lparr>sysenter := (sysenter h)(0 := vmread64 b guest_sysenter_cs,
        1 := vmread64 b guest_sysenter_esp, 2 := vmread64 b guest_sysenter_eip)\<rparr>) h) b r = arch s h b r"
    using c by - (rule guest_reg_exhaust [of r]; simp add: dump_read_defs)
  show "software ((\<lambda>h. h\<lparr>sysenter := (sysenter h)(0 := vmread64 b guest_sysenter_cs,
        1 := vmread64 b guest_sysenter_esp, 2 := vmread64 b guest_sysenter_eip)\<rparr>) h) r = (if reg_class r = ''se_valid'' then arch s h b r else software h r)"
    unfolding software_def using c by - (rule guest_reg_exhaust [of r]; simp add: dump_read_defs nibble vmcb_offsets)
qed (simp add: dump_read_defs)

lemma faithful_tp_valid: "faithful s b ''tp_valid''
    (\<lambda>h. h\<lparr>cr8 := ucast (vmread8 b avic_control AND 0xf)\<rparr>)"
proof (rule faithfulI)
  fix h r
  assume c: "cached ''tp_valid'' h"
  show "arch s ((\<lambda>h. h\<lparr>cr8 := ucast (vmread8 b avic_control AND 0xf)\<rparr>) h) b r = arch s h b r"
    using c by - (rule guest_reg_exhaust [of r]; simp add: dump_read_defs)
  show "software ((\<lambda>h. h\<lparr>cr8 := ucast (vmread8 b avic_control AND 0xf)\<rparr>) h) r = (if reg_class r = ''tp_valid'' then arch s h b r else software h r)"
    unfolding software_def using c by - (rule guest_reg_exhaust [of r]; simp add: dump_read_defs nibble)
qed (simp add: dump_read_defs)

lemma faithful_ef_valid: "faithful s b ''ef_valid''
    (\<lambda>h. h\<lparr>efer := (if s then vmread64 b guest_efer else unset_bit amd64_efer_svme (vmread64 b guest_efer))\<rparr>)"
proof (rule faithfulI)
  fix h r
  assume c: "cached ''ef_valid'' h"
  show "arch s ((\<lambda>h. h\<lparr>efer := (if s then vmread64 b guest_efer else unset_bit amd64_efer_svme (vmread64 b guest_efer))\<rparr>) h) b r = arch s h b r"
    using c by - (rule guest_reg_exhaust [of r]; simp add: dump_read_defs)
  show "software ((\<lambda>h. h\<lparr>efer := (if s then vmread64 b guest_efer else unset_bit amd64_efer_svme (vmread64 b guest_efer))\<rparr>) h) r = (if reg_class r = ''ef_valid'' then arch s h b r else software h r)"
    unfolding software_def using c by - (rule guest_reg_exhaust [of r]; simp add: dump_read_defs nibble)
qed (simp add: dump_read_defs)

lemma faithful_pa_valid: "faithful s b ''pa_valid''
    (\<lambda>h. h\<lparr>pat := vmread64 b guest_pat\<rparr>)"
proof (rule faithfulI)
  fix h r
  assume c: "cached ''pa_valid'' h"
  show "arch s ((\<lambda>h. h\<lparr>pat := vmread64 b guest_pat\<rparr>) h) b r = arch s h b r"
    using c by - (rule guest_reg_exhaust [of r]; simp add: dump_read_defs)
  show "software ((\<lambda>h. h\<lparr>pat := vmread64 b guest_pat\<rparr>) h) r = (if reg_class r = ''pa_valid'' then arch s h b r else software h r)"
    unfolding software_def using c by - (rule guest_reg_exhaust [of r]; simp add: dump_read_defs nibble)
qed (simp add: dump_read_defs)

definition dump_list :: "bool \<Rightarrow> bytes \<Rightarrow> (string \<times> (noir_cvm_virtual_cpu \<Rightarrow> noir_cvm_virtual_cpu)) list" where
  "dump_list s b =
    [(''cr_valid'', \<lambda>h. h\<lparr>cr0 := vmread64 b guest_cr0, cr3 := vmread64 b guest_cr3, cr4 := vmread64 b guest_cr4\<rparr>),
     (''cr2valid'', \<lambda>h. h\<lparr>cr2 := vmread64 b guest_cr2\<rparr>),
     (''dr_valid'', \<lambda>h. h\<lparr>drs := (drs h)(4 := vmread64 b guest_dr6, 5 := vmread64 b guest_dr7)\<rparr>),
     (''sr_valid'', \<lambda>h. nvc_svm_dump_guest_segments h b),
     (''fg_valid'', \<lambda>h. nvc_svm_dump_guest_fs_gs h b),
     (''dt_valid'', \<lambda>h. h\<lparr>seg := (seg h)(Gdtr := vmread_table b guest_gdtr_selector (seg h Gdtr),
        Idtr := vmread_table b guest_idtr_selector (seg h Idtr))\<rparr>),
     (''lt_valid'', \<lambda>h. h\<lparr>seg := (seg h)(Ldtr := vmread_seg b guest_ldtr_selector, Tr := vmread_seg b guest_tr_selector)\<rparr>),
     (''sc_valid'', \<lambda>h. h\<lparr>star := (star h)(0 := vmread64 b guest_star, 1 := vmread64 b guest_lstar,
        2 := vmread64 b guest_cstar, 3 := vmread64 b guest_sfmask)\<rparr>),
     (''se_valid'', \<lambda>h. h\<lparr>sysenter := (sysenter h)(0 := vmread64 b guest_sysenter_cs,
        1 := vmread64 b guest_sysenter_esp, 2 := vmread64 b guest_sysenter_eip)\<rparr>),
     (''tp_valid'', \<lambda>h. h\<lparr>cr8 := ucast (vmread8 b avic_control AND 0xf)\<rparr>),
     (''ef_valid'', \<lambda>h. h\<lparr>efer := (if s then vmread64 b guest_efer else unset_bit amd64_efer_svme (vmread64 b guest_efer))\<rparr>),
     (''pa_valid'', \<lambda>h. h\<lparr>pat := vmread64 b guest_pat\<rparr>)]"

lemma dump_as_steps:
  "dump_vmcb s b h = set_cache ''synchronized'' 1 (fold (\<lambda>(f, rd). when_valid f rd) (dump_list s b) h)"
  by (simp only: dump_vmcb_def dump_list_def Let_def fold_simps prod.case)

lemma dump_list_faithful: "list_all (\<lambda>(f, rd). faithful s b f rd) (dump_list s b)"
  unfolding dump_list_def list.pred_inject prod.case
  by (intro conjI list.pred_inject(1) faithful_cr_valid faithful_cr2valid faithful_dr_valid faithful_sr_valid faithful_fg_valid
    faithful_dt_valid faithful_lt_valid faithful_sc_valid faithful_se_valid faithful_tp_valid
    faithful_ef_valid faithful_pa_valid)

lemma synchronized_step [simp]:
  "arch s (set_cache ''synchronized'' x h) b r = arch s h b r"
  "software (set_cache ''synchronized'' x h) r = software h r"
  "g \<noteq> ''synchronized'' \<Longrightarrow> cached g (set_cache ''synchronized'' x h) = cached g h"
proof -
  show "arch s (set_cache ''synchronized'' x h) b r = arch s h b r"
    by (rule guest_reg_exhaust [of r]; simp)
  have "(set_cache ''synchronized'' x h)\<lparr>state_cache := 0\<rparr> = h\<lparr>state_cache := 0\<rparr>"
    by (simp add: set_cache_def)
  then show "software (set_cache ''synchronized'' x h) r = software h r"
    by (simp add: software_def)
qed simp

text \<open>The laws of the dump: the architectural state stays, no class changes its validity, and the
  software copy of every dumped register is its architectural value.\<close>

lemma dump_laws:
  "arch s (dump_vmcb s b h) b r = arch s h b r"
  "g \<noteq> ''synchronized'' \<Longrightarrow> cached g (dump_vmcb s b h) = cached g h"
  "dumped r \<Longrightarrow> software (dump_vmcb s b h) r = arch s h b r"
proof -
  note steps = dump_steps [OF dump_list_faithful]
  show "arch s (dump_vmcb s b h) b r = arch s h b r"
    unfolding dump_as_steps synchronized_step using steps by blast
  show "cached g (dump_vmcb s b h) = cached g h" if "g \<noteq> ''synchronized''"
    unfolding dump_as_steps synchronized_step(3) [OF that] using steps by blast
  assume d: "dumped r"
  have "set (map fst (dump_list s b)) = {''cr_valid'', ''cr2valid'', ''dr_valid'', ''sr_valid'', ''fg_valid'', ''dt_valid'',
      ''lt_valid'', ''sc_valid'', ''se_valid'', ''tp_valid'', ''ef_valid'', ''pa_valid''}"
    by (simp add: dump_list_def)
  moreover have "reg_class r \<noteq> [] \<Longrightarrow> reg_class r \<in> {''cr_valid'', ''cr2valid'', ''dr_valid'', ''sr_valid'', ''fg_valid'',
      ''dt_valid'', ''lt_valid'', ''sc_valid'', ''se_valid'', ''tp_valid'', ''ef_valid'', ''pa_valid''}"
    by (rule guest_reg_exhaust [of r]; simp add: is_table_def split: if_splits)
  moreover have "\<not> cached [] h"
    by (simp add: cached_def bf_flag_def bf_get_def noir_cvm_vcpu_state_cache_def slice_get_def)
  ultimately have "reg_class r \<in> set (map fst (dump_list s b)) \<or> \<not> cached (reg_class r) h"
    by (cases "reg_class r = []") auto
  moreover have "software (dump_vmcb s b h) r =
      (if reg_class r \<in> set (map fst (dump_list s b)) \<and> cached (reg_class r) h then arch s h b r else software h r)"
    unfolding dump_as_steps synchronized_step using steps by blast
  ultimately show "software (dump_vmcb s b h) r = arch s h b r"
    using arch_stale [OF _ d, of h s b] by auto
qed

end
