(* ===== verification/Svm_Registers.thy ===== *)
theory Svm_Registers
  imports Svm_Edit
begin

text \<open>
  The properties of register access and of the world switch.
\<close>

section \<open>The rest of the switch\<close>

definition cv_arch :: "noir_svm_custom_vcpu \<Rightarrow> guest_reg \<Rightarrow> u64" where
  "cv_arch cv r = arch (shadow_svme cv) (header cv) (vmcb cv) r"

lemma avic_size: "bf_size nvc_svm_avic_control \<le> 64"
  by (simp add: bf_size_def nvc_svm_avic_control_def)

lemma tpr_kept:
  assumes "f \<noteq> ''virtual_tpr''"
  shows "(ucast (bf_put nvc_svm_avic_control f v (a :: u64)) :: u8) = ucast a"
proof (rule bit_word_eqI)
  fix n assume n: "n < LENGTH(8)"
  have "bf_get nvc_svm_avic_control ''virtual_tpr'' (bf_put nvc_svm_avic_control f v a) =
      bf_get nvc_svm_avic_control ''virtual_tpr'' a"
    using assms by (intro bf_get_put_other) auto
  then have "bit (bf_get nvc_svm_avic_control ''virtual_tpr'' (bf_put nvc_svm_avic_control f v a)) n =
      bit (bf_get nvc_svm_avic_control ''virtual_tpr'' a) n" by simp
  with n show "bit (ucast (bf_put nvc_svm_avic_control f v a) :: u8) n = bit (ucast a :: u8) n"
    by (simp add: bf_get_def nvc_svm_avic_control_def bit_simps)
qed

lemma ucast_vmread64: "(ucast (vmread64 b p) :: u8) = vmread8 b p"
  by (rule bit_word_eqI) (simp add: vmread64_def bit_load_u64 vmread8_def bit_simps)

lemma arch_other_writes:
  "arch s h (clean n (vmcb_bts32 b intercept_instruction1 m)) r = arch s h b r"
  "arch s h (vmwrite32 (vmwrite32 b event_injection x) event_error_code y) r = arch s h b r"
  "arch s h (flush_guest b) r = arch s h b r"
  "arch s h (vmwrite32 b vmcb_clean_bits z) r = arch s h b r"
  by (rule guest_reg_exhaust [of r]; simp add: vmcb vmcb_offsets clean_def flush_guest_def vmwrite_wr is_table_def)+

lemma arch_avic_write:
  assumes "(ucast a :: u8) = vmread8 b avic_control"
  shows "arch s h (clean n (vmwrite64 b avic_control a)) r = arch s h b r"
  by (rule guest_reg_exhaust [of r];
      simp add: vmcb vmcb_offsets clean_def vmwrite_wr is_table_def assms [unfolded vmcb_offsets])

lemma inject_event_arch: "cv_arch (inject_event cv) r = cv_arch cv r"
proof -
  have opts: "arch s (h\<lparr>vcpu_options := x\<rparr>) b r = arch s h b r" for s h x b
    by (rule guest_reg_exhaust [of r]; simp add: cached_def)
  show ?thesis
    by (simp add: inject_event_def cv_arch_def Let_def arch_other_writes opts arch_avic_write tpr_kept ucast_vmread64)
qed

lemma flush_npt_arch: "cv_arch (flush_npt cv) r = cv_arch cv r"
proof -
  have tl: "arch s (set_cache ''tl_valid'' x h) b r = arch s h b r" for s x h b
    by (rule guest_reg_exhaust [of r]; simp)
  show ?thesis
    by (simp add: flush_npt_def cv_arch_def arch_other_writes tl)
qed

lemma inject_event_sel [simp]:
  "cached f (header (inject_event cv)) = cached f (header cv)"
  "cv_addr (inject_event cv) = cv_addr cv" "vmcb_phys (inject_event cv) = vmcb_phys cv"
  "cv_addr (flush_npt cv) = cv_addr cv" "vmcb_phys (flush_npt cv) = vmcb_phys cv"
  by (simp_all add: inject_event_def flush_npt_def Let_def cached_def)

lemma flush_npt_cached [simp]:
  "f \<noteq> ''tl_valid'' \<Longrightarrow> cached f (header (flush_npt cv)) = cached f (header cv)"
  "cached ''tl_valid'' (header (flush_npt cv))"
  by (simp_all add: flush_npt_def)

lemma load_guest_cv:
  assumes "\<not> nsv_guest w"
  shows "cv_arch (cvcpu (load_guest w)) r = cv_arch (cvcpu w) r"
    "list_all (\<lambda>f. cached f (header (cvcpu (load_guest w)))) cache_classes"
proof -
  obtain h b where l: "load_vmcb (header (cvcpu w), vmcb (cvcpu w)) = (h, b)" by fastforce
  from load_vmcb_arch [OF l, of "shadow_svme (cvcpu w)" r]
  show "cv_arch (cvcpu (load_guest w)) r = cv_arch (cvcpu w) r"
    using assms by (simp add: load_guest_def Let_def l cv_arch_def)
  show "list_all (\<lambda>f. cached f (header (cvcpu (load_guest w)))) cache_classes"
    using assms load_vmcb_valid [of "(header (cvcpu w), vmcb (cvcpu w))"]
    by (simp add: load_guest_def Let_def l)
qed

lemma before_load [simp]:
  "nsv_guest (save_host (migrate w)) = nsv_guest w"
  "cv_arch (cvcpu (save_host (migrate w))) r = cv_arch (cvcpu w) r"
  "header (cvcpu (save_host (migrate w))) = header (cvcpu w)"
  by (simp_all add: save_host_def migrate_def cv_arch_def arch_other_writes)

lemma switch_to_guest_cv:
  "cvcpu (nvc_svm_switch_to_guest_vcpu avic w) = flush_npt (inject_event (cvcpu (load_guest (save_host (migrate w)))))"
  "frame (nvc_svm_switch_to_guest_vcpu avic w) = frame (load_guest (save_host (migrate w)))"
  "cpu (nvc_svm_switch_to_guest_vcpu avic w) = cpu (load_guest (save_host (migrate w)))"
  by (simp_all add: nvc_svm_switch_to_guest_vcpu_def Let_def)

lemma dump_other:
  assumes "\<not> dumped r"
  shows "software (dump_vmcb s b h) r = software h r"
proof -
  have "reg_class r = []" using assms by (cases r) simp_all
  then show ?thesis
    using dump_steps [OF dump_list_faithful, where r = r and s = s and b = b and h = h]
    by (simp add: dump_as_steps dump_list_def)
qed

section \<open>Properties\<close>




section \<open>Viewing\<close>

lemma load_store_array [simp]:
  "i < n \<Longrightarrow> load_u64 (store_array b p n xs) (p + 8 * i) = xs i"
proof (induction n)
  case (Suc n)
  then show ?case by (cases "i = n") auto
qed simp

lemma load_store_array0 [simp]:
  "i < n \<Longrightarrow> load_u64 (store_array b 0 n xs) (8 * i) = xs i"
  using load_store_array [of i n b 0 xs] by simp

lemma load_array_small [simp]:
  "load_u64 (store_array b 0 4 xs) 0 = xs 0" "load_u64 (store_array b 0 4 xs) 8 = xs (Suc 0)"
  "load_u64 (store_array b 0 4 xs) 16 = xs 2" "load_u64 (store_array b 0 4 xs) 24 = xs 3"
  "load_u64 (store_array b 0 3 xs) 0 = xs 0" "load_u64 (store_array b 0 3 xs) 8 = xs (Suc 0)"
  "load_u64 (store_array b 0 3 xs) 16 = xs 2"
  "load_u64 (store_array b 0 2 xs) 0 = xs 0" "load_u64 (store_array b 0 2 xs) 8 = xs (Suc 0)"
  using load_store_array0 [of 0 4 b xs] load_store_array0 [of 1 4 b xs] load_store_array0 [of 2 4 b xs]
    load_store_array0 [of 3 4 b xs] load_store_array0 [of 0 3 b xs] load_store_array0 [of 1 3 b xs]
    load_store_array0 [of 2 3 b xs] load_store_array0 [of 0 2 b xs] load_store_array0 [of 1 2 b xs]
  by (simp_all del: load_store_array0 store_array.simps)

lemma store_u64_wr: "store_u64 b p v = wr 8 b p v"
  by (simp add: store_u64_def wr_def)

lemma store_seg_wr: "store_seg b p s =
  wr 8 (wr 4 (wr 2 (wr 2 b p (ucast (selector s))) (p + 2) (ucast (attrib s))) (p + 4) (ucast (limit s))) (p + 8) (base_addr s)"
  by (simp add: store_seg_def vmwrite_wr)

lemma load_seg_sel:
  "selector (load_seg b p) = vmread16 b p" "attrib (load_seg b p) = vmread16 b (p + 2)"
  "limit (load_seg b p) = vmread32 b (p + 4)" "base_addr (load_seg b p) = vmread64 b (p + 8)"
  by (simp_all add: load_seg_def)

lemma load_u64_vmread: "load_u64 b p = vmread64 b p"
  by (simp add: vmread64_def)

lemma store_array_wr: "store_array b p n xs = (case n of 0 \<Rightarrow> b | Suc m \<Rightarrow> wr 8 (store_array b p m xs) (p + 8 * m) (xs m))"
  by (cases n) (simp_all add: store_u64_wr)

lemmas buffer_simps = store_u64_wr store_seg_wr load_seg_sel vmcb vmwrite_wr seg_slot_def is_table_def software_def

lemma view_gpr: "ty = General_purpose_register \<or> ty = Flags_register \<or> ty = Instruction_pointer \<or> ty = Debug_register
    \<or> ty = Syscall_msr_register \<or> ty = Sysenter_msr_register \<Longrightarrow>
  edited tsc ty (snd (view_registers xsize tsc ty buf sz h)) r \<in> {None, Some (software h r)}"
  by (elim disjE; rule guest_reg_exhaust [of r]; simp add: software_def seg_slot_def is_table_def del: store_array.simps)

lemma view_dr67: "edited tsc Dr67_register (snd (view_registers xsize tsc Dr67_register buf sz h)) r \<in> {None, Some (software h r)}"
  by (rule guest_reg_exhaust [of r]; simp add: software_def seg_slot_def is_table_def del: store_array.simps)

lemma view_cr: "ty = Control_register \<or> ty = Cr2_register \<or> ty = Cr8_register \<or> ty = Xcr0_register \<or> ty = Efer_register
    \<or> ty = Pat_register \<or> ty = Time_stamp_counter \<Longrightarrow>
  edited tsc ty (snd (view_registers xsize tsc ty buf sz h)) r \<in> {None, Some (software h r)}"
  by (elim disjE; rule guest_reg_exhaust [of r]; simp add: software_def seg_slot_def is_table_def)

lemma view_seg: "ty = Segment_register \<or> ty = Fgseg_register \<or> ty = Descriptor_table \<or> ty = Ldtr_task_register \<Longrightarrow>
  edited tsc ty (snd (view_registers xsize tsc ty buf sz h)) r \<in> {None, Some (software h r)}"
  by (elim disjE; rule guest_reg_exhaust [of r]; simp add: buffer_simps load_u64_vmread)

lemma view_other: "ty = Fxstate \<or> ty = Xsave_area \<or> ty = Last_branch_record_register \<or> ty = Ghcb_register
    \<or> ty = Apic_bar_register \<or> ty = Maximum_register_type \<Longrightarrow> edited tsc ty buf r = None"
  by (elim disjE; rule guest_reg_exhaust [of r]; simp add: seg_slot_def is_table_def)

lemma view_software:
  "edited tsc ty (snd (view_registers xsize tsc ty buf sz h)) r \<in> {None, Some (software h r)}"
  by (cases ty; simp only: view_gpr view_dr67 view_cr view_seg view_other insertI1 simp_thms)

lemma viewed_class:
  assumes "edited tsc ty buf r = Some x" "view_class ty = Some f" "dumped r"
  shows "reg_class r = f"
  using assms
  by - (rule guest_reg_exhaust [of r]; cases ty; simp add: seg_slot_def is_table_def split: if_splits)

lemma refresh_arch: "arch s (refresh (dump_vmcb s b) f h) b r = arch s h b r"
  by (simp add: refresh_def dump_laws(1))

text \<open>Viewing by register type returns the architectural state: for every type that goes through
  the state cache, \<open>nvc_view_vcpu_registers\<close> puts into the buffer the value that the guest would
  run with, whether the control block or the software state holds it, provided that a vCPU marked as
  synchronized is; and viewing changes no register.\<close>

theorem view_returns_arch:
  assumes "view_class ty = Some f"
    and "cached ''synchronized'' h \<longrightarrow> (\<forall>q. dumped q \<longrightarrow> software h q = arch s h b q)"
    and "nvc_view_vcpu_registers xsize tsc (dump_vmcb s b) ty buf sz h = Some (noir_success, buf', h')"
    and "dumped r" "edited tsc ty buf' r = Some x"
  shows "x = arch s h b r \<and> arch s h' b q = arch s h b q"
proof -
  let ?h = "refresh (dump_vmcb s b) f h"
  obtain lim where lim: "noir_cvm_register_buffer_limit ty = Some lim"
    using assms(3) by (auto simp: nvc_view_vcpu_registers_def split: option.splits)
  have bad: "noir_invalid_parameter \<noteq> noir_success"
    by (simp add: noir_invalid_parameter_def noir_success_def)
  have v: "buf' = snd (view_registers xsize tsc ty buf sz ?h)" "h' = ?h"
    using assms(3) bad
    by (auto simp: nvc_view_vcpu_registers_def lim assms(1) Let_def split: if_splits prod.splits)
  have cls: "reg_class r = f" by (rule viewed_class [OF assms(5,1,4)])
  have "x = software ?h r"
    using view_software [of tsc ty xsize buf sz ?h r] assms(5) by (auto simp: v)
  also have "\<dots> = arch s h b r"
  proof (cases "cached f h")
    case True
    then show ?thesis
      using assms(2,4) dump_laws(3) [OF assms(4)] by (auto simp: refresh_def)
  next
    case False
    then show ?thesis
      using arch_stale [of r h s b] assms(4) cls by (simp add: refresh_def)
  qed
  finally show ?thesis by (simp add: v refresh_arch)
qed

lemma software_edit_fg: "8 \<le> sz - 32 \<Longrightarrow> edited tsc Fgseg_register buf r = Some x \<Longrightarrow>
  software (snd (edit_registers xsize tsc Fgseg_register buf sz h)) r = x"
  unfolding software_def
  by (rule guest_reg_exhaust [of r]; simp add: edit_simps; auto)

lemma software_edit: "ty \<noteq> Fgseg_register \<Longrightarrow> edited tsc ty buf r = Some x \<Longrightarrow>
  software (snd (edit_registers xsize tsc ty buf sz h)) r = x"
  unfolding software_def
  by (rule guest_reg_exhaust [of r]; cases ty; simp add: edit_simps split: if_splits; auto)

lemma edited_None: "edited tsc ty buf r = None \<longleftrightarrow> edited tsc ty buf' r = None"
  by (cases r) auto

lemma edit_invalidates: "view_class ty = Some f \<Longrightarrow> \<not> cached f (snd (edit_registers xsize tsc ty buf sz h))"
  by (cases ty) (auto simp: Let_def)

text \<open>C25: Viewing what was just edited gives it back: after a successful
  \<open>nvc_edit_vcpu_registers\<close>, \<open>nvc_view_vcpu_registers\<close> of the same type at the same time stamp fills
  its buffer with the same register values, and never synchronizes over them.\<close>

theorem edit_view_round_trip:
  assumes "ty = Fgseg_register \<longrightarrow> 40 \<le> sz"
    and "nvc_edit_vcpu_registers xsize tsc ty buf sz h = Some (noir_success, h1)"
    and "nvc_view_vcpu_registers xsize tsc sync ty buf0 sz h1 = Some (noir_success, buf1, h2)"
  shows "h2 = h1 \<and> edited tsc ty buf1 r = edited tsc ty buf r"
proof -
  obtain lim where lim: "noir_cvm_register_buffer_limit ty = Some lim"
    using assms(2) by (auto simp: nvc_edit_vcpu_registers_def split: option.splits)
  have bad: "noir_buffer_too_small \<noteq> noir_success" "noir_invalid_parameter \<noteq> noir_success"
    by (simp_all add: noir_buffer_too_small_def noir_success_def noir_invalid_parameter_def)
  have h1: "h1 = snd (edit_registers xsize tsc ty buf sz h)"
    using assms(2) bad by (auto simp: nvc_edit_vcpu_registers_def lim split: if_splits)
  have "\<not> cached f h1" if "view_class ty = Some f" for f
    using edit_invalidates [OF that] by (simp add: h1)
  then have v: "buf1 = snd (view_registers xsize tsc ty buf0 sz h1)" "h2 = h1"
    using assms(3) bad
    by (auto simp: nvc_view_vcpu_registers_def lim refresh_def split: if_splits prod.splits option.splits)
  have "edited tsc ty buf1 r = edited tsc ty buf r"
  proof (cases "edited tsc ty buf r")
    case None
    then show ?thesis using edited_None [of tsc ty buf r buf1] by simp
  next
    case (Some x)
    have "software h1 r = x"
    proof (cases "ty = Fgseg_register")
      case True
      with assms(1) have "8 \<le> sz - 32" by simp
      from software_edit_fg [OF this] Some True show ?thesis by (simp add: h1)
    next
      case False
      from software_edit [OF this Some] show ?thesis by (simp add: h1)
    qed
    moreover have "edited tsc ty buf1 r \<noteq> None"
      using Some edited_None [of tsc ty buf r buf1] by simp
    ultimately show ?thesis
      using Some view_software [of tsc ty xsize buf0 sz h1 r] by (auto simp: v)
  qed
  with v show ?thesis by simp
qed

section \<open>Where the interface and the cache disagree\<close>

text \<open>Editing a register by name clears the class of that register only through its own new value:
  after a successful edit of \<open>cr0\<close> by name the next run of the guest also takes \<open>cr3\<close> and \<open>cr4\<close> from
  the software state, whatever the guest last had in the control block, because nothing synchronized
  them first.\<close>

theorem edit_cr0_by_name_reverts:
  assumes "nvc_edit_vcpu_registers2 tsc [noir_cvm_register_cr0] 8 buf h = (noir_success, h')"
  shows "arch s h' b Cr0 = load_u64 buf 0 \<and> arch s h' b Cr3 = cr3 h \<and> arch s h' b Cr4 = cr4 h"
proof -
  have "h' = invalidate ''cr_valid'' (h\<lparr>cr0 := load_u64 buf 0\<rparr>)"
    using assms
    by (simp add: nvc_edit_vcpu_registers2_def edit_register2_def edit_cr2_def slot_def register_names Let_def)
  then show ?thesis by simp
qed

text \<open>Editing \<open>rsp\<close> by name has no effect once the vCPU has run: the edit reports success, but only
  \<open>rax\<close> clears the general-purpose class, so the guest resumes with the stack pointer of the control
  block and leaving the guest overwrites the edited value.\<close>

theorem edit_rsp_by_name_lost:
  assumes "cached ''gprvalid'' h"
  shows "\<exists>h'. nvc_edit_vcpu_registers2 tsc [noir_cvm_register_rsp] 8 buf h = (noir_success, h') \<and>
    gpr h' 4 = load_u64 buf 0 \<and> arch s h' b (Gpr 4) = vmread64 b guest_rsp"
  using assms
  by (simp add: nvc_edit_vcpu_registers2_def edit_register2_def slot_def register_names index_from_def Let_def)

text \<open>Editing \<open>fs\<close> and \<open>gs\<close> with a buffer of the documented minimum reverts the kernel base: the
  dump never copies it out of the control block, so even right after a dump the next run takes the
  last value that the user hypervisor wrote, not the one the guest has set since.\<close>

theorem edit_fgseg_reverts_kernel_base:
  assumes "nvc_edit_vcpu_registers xsize tsc Fgseg_register buf 32 (dump_vmcb s b h) = Some (noir_success, h')"
  shows "arch s h' b Kernel_gs_base = gsswap h"
proof -
  have "gsswap (dump_vmcb s b h) = gsswap h"
    using dump_other [of Kernel_gs_base s b h] by (simp add: software_def)
  then show ?thesis
    using assms by (auto simp: nvc_edit_vcpu_registers_def Let_def)
qed

text \<open>Changing \<open>EFER.NXE\<close> or \<open>EFER.LMA\<close> alone does not flush the translations of the guest,
  although the code means to: the mask that \<open>nvc_svm_switch_to_guest_vcpu\<close> compares under is built
  from the bit numbers 8, 10 and 11 instead of the bits, so it is \<open>0xb\<close>.\<close>

theorem efer_change_not_flushed:
  "efer_tlb_mask = 0xb \<and>
   vmread8 (write_efer (h\<lparr>efer := vmread64 b guest_efer XOR 0xc00\<rparr>) b) tlb_control = vmread8 b tlb_control"
proof -
  have m: "efer_tlb_mask = 0xb"
    by (simp add: efer_tlb_mask_def amd64_efer_lme_def amd64_efer_lma_def amd64_efer_nxe_def)
  have k: "(0xb :: u64) = mask 4 AND NOT (push_bit 2 1)" "(0xc00 :: u64) = push_bit 10 (mask 2)"
    by (simp_all add: mask_eq_exp_minus_1)
  have "(e XOR 0xc00) AND 0xb = e AND 0xb" for e :: u64
    unfolding k by (rule bit_word_eqI) (auto simp: bit_simps)
  then have "write_efer (h\<lparr>efer := vmread64 b guest_efer XOR 0xc00\<rparr>) b =
      clean noir_svm_clean_control_reg (vmwrite64 b guest_efer ((vmread64 b guest_efer XOR 0xc00) OR amd64_efer_svme_bit))"
    by (simp add: write_efer_def m)
  then show ?thesis
    by (simp add: m clean_def vmwrite_wr vmcb vmcb_offsets)
qed

text \<open>A secure guest whose protected page does not name its own vCPU and control block is run all
  the same: \<open>nvc_svm_switch_to_guest_vcpu\<close> records the failure, but the loader enters the guest's
  control block with the register frame of the subverted host.\<close>

theorem nsv_violation_still_enters:
  assumes "nsv_guest w" "\<not> nsv_intact (cvcpu w)" "w' = nvc_svm_switch_to_guest_vcpu avic w"
  shows "\<not> switch_success (cvcpu w') \<and> frame w' = frame w \<and>
    ls_guest_vmcb_pa (loader w') = vmcb_phys (cvcpu w) \<and> ls_custom_vcpu (loader w') = cv_addr (cvcpu w)"
proof -
  have i: "\<not> nsv_intact (cvcpu (save_host (migrate w)))"
    using assms(2) by (simp add: save_host_def migrate_def nsv_intact_def)
  have sw: "switch_success (inject_event cv) = switch_success cv" "switch_success (flush_npt cv) = switch_success cv" for cv
    by (simp_all add: inject_event_def flush_npt_def Let_def)
  have s: "frame (save_host (migrate w)) = frame w" "vmcb_phys (cvcpu (save_host (migrate w))) = vmcb_phys (cvcpu w)"
    "cv_addr (cvcpu (save_host (migrate w))) = cv_addr (cvcpu w)"
    by (simp_all add: save_host_def migrate_def)
  show ?thesis
    using assms(1) i
    by (simp add: assms(3) nvc_svm_switch_to_guest_vcpu_def Let_def load_guest_def nvc_svm_nsv_load_guest_vcpu_def sw s)
qed

section \<open>Witnesses\<close>

definition example_header :: noir_cvm_virtual_cpu where
  "example_header =
     \<lparr>gpr = (\<lambda>_. 0), seg = (\<lambda>_. \<lparr>selector = 0, attrib = 0, limit = 0, base_addr = 0\<rparr>),
      cr0 = 0x10, cr2 = 0, cr3 = 0x5000, cr4 = 0, cr8 = 0, drs = (\<lambda>_. 0), sysenter = (\<lambda>_. 0), pat = 0, efer = 0,
      star = (\<lambda>_. 0), gsswap = 0, apic_bar = 0, mtrr_def_type = 6, lbr = (\<lambda>_. 0), xcr0 = 1, ghcb = 0,
      xsave_area = (\<lambda>_. 0), rflags = 2, rip = 0xfff0, tsc_off = 0, tunnel = 0, ref_count = 1, injected_event = 0,
      injected_error_code = 0, exit_intercept_code = 0, vcpu_options = 0, msr_interceptions = 0, state_cache = 0,
      exception_bitmap = 0, scheduling_priority = 0, statistics = (\<lambda>_. 0)\<rparr>"

definition example_vcpu :: noir_svm_custom_vcpu where
  "example_vcpu =
     \<lparr>header = example_header, cv_addr = 0x1000, vmcb = (\<lambda>_. 0), vmcb_virt = 0x2000, vmcb_phys = 0x3000,
      shadow_svme = False,
      vmsa = \<lparr>parent_vcpu = 0x1000, parent_vmcb_virt = 0x2000, parent_vmcb_phys = 0, nsv_gpr = (\<lambda>_. 0),
              nsv_dr = (\<lambda>_. 0), nsv_xcr0 = 1\<rparr>,
      prev_virq = False, prev_nmi = False, switch_success = False, cv_proc_id = 0, cv_vcpu_id = 0\<rparr>"

definition example_world :: "bool \<Rightarrow> world" where
  "example_world nsv =
     \<lparr>frame = (\<lambda>i. of_nat i), cpu = \<lparr>pr_dr = (\<lambda>_. 0), pr_xcr0 = 7, pr_fpu = (\<lambda>_. 0)\<rparr>,
      host = \<lparr>h_gpr = (\<lambda>_. 0), h_xcr0 = 0, h_xsave_area = (\<lambda>_. 0), h_drs = (\<lambda>_. 0), h_vmcb_phys = 0x9000\<rparr>,
      loader = \<lparr>ls_custom_vcpu = 0, ls_guest_vmcb_pa = 0x9000, ls_proc_id = 3\<rparr>,
      cvcpu = example_vcpu, nsv_guest = nsv,
      avic_physical = (\<lambda>_. \<lparr>is_running = False, host_physical_apic_id = 0\<rparr>)\<rparr>"

lemma fresh_stale [simp]: "\<not> cached f example_header"
  by (simp add: example_header_def cached_def bf_flag_def bf_get_def)


definition cr3_buffer :: bytes where
  "cr3_buffer = (\<lambda>i. if i = 9 then 0x70 else 0)"

lemma cr3_buffer_load: "load_u64 cr3_buffer 0 = 0" "load_u64 cr3_buffer 8 = 0x7000" "load_u64 cr3_buffer 16 = 0"
  by (simp_all add: load_u64_def upt_rec cr3_buffer_def)

lemma example_gprs_saved: "gprs_saved example_header (\<lambda>_. 0)"
  by (simp add: gprs_saved_def)

definition edited_example :: noir_cvm_virtual_cpu where
  "edited_example = snd (edit_registers 832 0 Control_register cr3_buffer 24 example_header)"

lemma edited_example_run:
  "nvc_edit_vcpu_registers 832 0 Control_register cr3_buffer 24 example_header = Some (noir_success, edited_example)"
  by (simp add: nvc_edit_vcpu_registers_def edited_example_def)


theorem view_returns_arch_witness:
  "\<exists>buf' h'. nvc_view_vcpu_registers 832 0 (dump_vmcb False (\<lambda>_. 0)) Control_register (\<lambda>_. 0) 24 example_header =
       Some (noir_success, buf', h') \<and> load_u64 buf' 8 = arch False example_header (\<lambda>_. 0) Cr3"
proof -
  have cls: "view_class Control_register = Some ''cr_valid''" by simp
  have sync: "cached ''synchronized'' example_header \<longrightarrow>
      (\<forall>q. dumped q \<longrightarrow> software example_header q = arch False example_header (\<lambda>_. 0) q)" by simp
  obtain buf' h' where v: "nvc_view_vcpu_registers 832 0 (dump_vmcb False (\<lambda>_. 0)) Control_register (\<lambda>_. 0) 24 example_header =
       Some (noir_success, buf', h')"
    by (simp add: nvc_view_vcpu_registers_def Let_def)
  have d: "dumped Cr3" by simp
  have e: "edited 0 Control_register buf' Cr3 = Some (load_u64 buf' 8)" by simp
  from view_returns_arch [OF cls sync v d e] v show ?thesis by blast
qed

theorem edit_view_round_trip_witness:
  "\<exists>buf' h'. nvc_view_vcpu_registers 832 0 id Control_register (\<lambda>_. 0) 24 edited_example = Some (noir_success, buf', h') \<and>
     edited 0 Control_register buf' Cr3 = Some 0x7000"
proof -
  obtain buf' h' where v: "nvc_view_vcpu_registers 832 0 id Control_register (\<lambda>_. 0) 24 edited_example =
       Some (noir_success, buf', h')"
    by (simp add: nvc_view_vcpu_registers_def Let_def)
  have "Control_register = Fgseg_register \<longrightarrow> 40 \<le> (24 :: nat)" by simp
  from edit_view_round_trip [OF this edited_example_run v, of Cr3] v show ?thesis
    by (simp add: cr3_buffer_load)
qed

theorem edit_cr0_by_name_reverts_witness:
  "\<exists>h'. nvc_edit_vcpu_registers2 0 [noir_cvm_register_cr0] 8 (\<lambda>_. 0) example_header = (noir_success, h') \<and>
     arch False h' (\<lambda>_. 0) Cr3 = 0x5000"
proof -
  obtain h' where e: "nvc_edit_vcpu_registers2 0 [noir_cvm_register_cr0] 8 (\<lambda>_. 0) example_header = (noir_success, h')"
    by (simp add: nvc_edit_vcpu_registers2_def edit_register2_def edit_cr2_def slot_def register_names Let_def)
  from edit_cr0_by_name_reverts [OF e, of False "\<lambda>_. 0"] e show ?thesis
    by (simp add: example_header_def)
qed

definition running_header :: noir_cvm_virtual_cpu where
  "running_header = set_cache ''gprvalid'' 1 example_header"

theorem edit_rsp_by_name_lost_witness:
  "\<exists>h'. nvc_edit_vcpu_registers2 0 [noir_cvm_register_rsp] 8 (\<lambda>_. 0xff) running_header = (noir_success, h') \<and>
     gpr h' 4 = load_u64 (\<lambda>_. 0xff) 0 \<and> arch False h' (\<lambda>_. 0) (Gpr 4) = vmread64 (\<lambda>_. 0) guest_rsp"
  by (rule edit_rsp_by_name_lost) (simp add: running_header_def)

theorem edit_fgseg_reverts_kernel_base_witness:
  "\<exists>h'. nvc_edit_vcpu_registers 832 0 Fgseg_register (\<lambda>_. 0) 32 (dump_vmcb False (\<lambda>_. 0xff) example_header) = Some (noir_success, h')
     \<and> arch False h' (\<lambda>_. 0xff) Kernel_gs_base = 0"
proof -
  obtain h' where e: "nvc_edit_vcpu_registers 832 0 Fgseg_register (\<lambda>_. 0) 32 (dump_vmcb False (\<lambda>_. 0xff) example_header)
      = Some (noir_success, h')"
    by (simp add: nvc_edit_vcpu_registers_def Let_def)
  from edit_fgseg_reverts_kernel_base [OF e] e show ?thesis
    by (simp add: example_header_def)
qed

theorem nsv_violation_still_enters_witness:
  "\<not> switch_success (cvcpu (nvc_svm_switch_to_guest_vcpu False (example_world True))) \<and>
   frame (nvc_svm_switch_to_guest_vcpu False (example_world True)) 3 = 3 \<and>
   ls_guest_vmcb_pa (loader (nvc_svm_switch_to_guest_vcpu False (example_world True))) = 0x3000"
proof -
  have "nsv_guest (example_world True)" "\<not> nsv_intact (cvcpu (example_world True))"
    by (simp_all add: example_world_def example_vcpu_def nsv_intact_def)
  from nsv_violation_still_enters [OF this refl, of False]
  have "\<not> switch_success (cvcpu (nvc_svm_switch_to_guest_vcpu False (example_world True)))"
    "frame (nvc_svm_switch_to_guest_vcpu False (example_world True)) = frame (example_world True)"
    "ls_guest_vmcb_pa (loader (nvc_svm_switch_to_guest_vcpu False (example_world True))) = vmcb_phys (cvcpu (example_world True))"
    by blast+
  moreover have "frame (example_world True) 3 = 3" "vmcb_phys (cvcpu (example_world True)) = 0x3000"
    by (simp_all add: example_world_def example_vcpu_def)
  ultimately show ?thesis by simp
qed

end
