(* ===== verification/Rmt.thy ===== *)
theory Rmt
  imports Search Paging_Units Status
begin

text \<open>
  The reverse-mapping table of secure virtualization (\<open>noirhvm.c\<close>, \<open>svm_exit.c\<close>): for every page of
  physical memory its owner. The directory is a page of slots, one per range of physical memory; each
  slot has a table with an entry per page.
\<close>

section \<open>State\<close>

definition noir_nsv_rmt_subverted_host :: u8 where "noir_nsv_rmt_subverted_host = 0"
definition noir_nsv_rmt_noirvisor :: u8 where "noir_nsv_rmt_noirvisor = 1"
definition noir_nsv_rmt_insecure_guest :: u8 where "noir_nsv_rmt_insecure_guest = 2"
definition noir_nsv_rmt_secure_guest :: u8 where "noir_nsv_rmt_secure_guest = 3"

lemmas rmt_owner_defs = noir_nsv_rmt_subverted_host_def noir_nsv_rmt_noirvisor_def
  noir_nsv_rmt_insecure_guest_def noir_nsv_rmt_secure_guest_def

record noir_rmt_entry =
  low :: u64
  high :: u64

text \<open>A table that could not be allocated is a null pointer.\<close>

record noir_rmt_directory_entry =
  rm_table :: "noir_rmt_entry list option"
  hpa_start :: u64
  hpa_end :: u64

text \<open>\<open>directory\<close> is the whole page: \<open>page_size\<close> over the 32 bytes of an entry.\<close>

record reverse_mapping =
  directory :: "noir_rmt_directory_entry list"
  dir_count :: u64

definition rmt_slots :: nat where "rmt_slots = 4096 div 32"

section \<open>Lookup\<close>

text \<open>
  The loop compares the address with slot \<open>mid\<close>; a slot beyond the page is an undefined read. Zero
  slots behind \<open>dir_count\<close> compare as \<open>After\<close>.
\<close>

definition rmt_probe :: "noir_rmt_directory_entry list \<Rightarrow> u64 \<Rightarrow> u64 \<Rightarrow> probe option" where
  "rmt_probe dir hpa i =
     map_option (\<lambda>e. if hpa < hpa_start e then Before else if hpa_end e \<le> hpa then After else Found)
       (nth_opt dir (unat i))"

definition rmt_search :: "reverse_mapping \<Rightarrow> u64 \<Rightarrow> u64 outcome" where
  "rmt_search m hpa = bsearch (unat (dir_count m) + 3) (rmt_probe (directory m) hpa) 0 (dir_count m)"

text \<open>A pointer to an entry is the slot of its table and its index there.\<close>

definition rmt_slot_index :: "reverse_mapping \<Rightarrow> u64 \<Rightarrow> nat \<Rightarrow> nat" where
  "rmt_slot_index m hpa mid = unat (page_4kb_count (hpa - hpa_start (directory m ! mid)))"

definition rmt_deref :: "reverse_mapping \<Rightarrow> nat \<times> nat \<Rightarrow> noir_rmt_entry option" where
  "rmt_deref m p = (case rm_table (directory m ! fst p) of None \<Rightarrow> None | Some t \<Rightarrow> nth_opt t (snd p))"

text \<open>The outer \<open>None\<close> is undefined behaviour, the inner one the null pointer.\<close>

definition nvc_get_rmt_entry :: "reverse_mapping \<Rightarrow> u64 \<Rightarrow> (nat \<times> nat) option option" where
  "nvc_get_rmt_entry m hpa =
     (case rmt_search m hpa of
        Hit mid \<Rightarrow> Some (Some (unat mid, rmt_slot_index m hpa (unat mid)))
      | Miss \<Rightarrow> Some None
      | Wild _ \<Rightarrow> None
      | Out_of_fuel \<Rightarrow> None)"

section \<open>Assignment\<close>

definition rmt_owner :: "noir_rmt_entry \<Rightarrow> u8" where
  "rmt_owner e = ucast (bf_get noir_rmt_entry_low ''ownership'' (low e))"

definition rmt_write :: "u64 \<Rightarrow> u32 \<Rightarrow> bool \<Rightarrow> u8 \<Rightarrow> noir_rmt_entry \<Rightarrow> noir_rmt_entry" where
  "rmt_write gpa asid shared ownership e =
     (let l1 = bf_put noir_rmt_entry_low ''asid'' (ucast asid) (low e);
          l2 = bf_put noir_rmt_entry_low ''shared'' (of_flag shared) l1;
          l3 = bf_put noir_rmt_entry_low ''ownership'' (ucast ownership) l2;
          l4 = bf_put noir_rmt_entry_low ''reserved'' 0 l3
      in \<lparr>low = l4, high = bf_put noir_rmt_entry_high ''reserved'' 0 gpa\<rparr>)"

definition rmt_store :: "reverse_mapping \<Rightarrow> nat \<times> nat \<Rightarrow> noir_rmt_entry \<Rightarrow> reverse_mapping" where
  "rmt_store m p e =
     m\<lparr>directory := (directory m)[fst p := (directory m ! fst p)\<lparr>
         rm_table := map_option (\<lambda>t. t[snd p := e]) (rm_table (directory m ! fst p))\<rparr>]\<rparr>"

definition nvc_configure_reverse_mapping ::
  "reverse_mapping \<Rightarrow> u64 \<Rightarrow> u64 \<Rightarrow> u32 \<Rightarrow> bool \<Rightarrow> u8 \<Rightarrow> reverse_mapping option" where
  "nvc_configure_reverse_mapping m hpa gpa asid shared ownership =
     (case rmt_search m hpa of
        Hit mid \<Rightarrow>
          (let p = (unat mid, rmt_slot_index m hpa (unat mid)) in
           map_option (\<lambda>e. rmt_store m p (rmt_write gpa asid shared ownership e)) (rmt_deref m p))
      | Miss \<Rightarrow> Some m
      | Wild _ \<Rightarrow> None
      | Out_of_fuel \<Rightarrow> None)"

section \<open>Validation\<close>

definition nvc_validate_single_rmt_reassignment ::
  "reverse_mapping \<Rightarrow> u64 \<Rightarrow> u64 \<Rightarrow> u32 \<Rightarrow> bool \<Rightarrow> u8 \<Rightarrow> bool option" where
  "nvc_validate_single_rmt_reassignment m hpa gpa asid shared ownership =
     (case rmt_search m hpa of
        Hit mid \<Rightarrow>
          map_option (\<lambda>e.
            if rmt_owner e = noir_nsv_rmt_noirvisor then False
            else if rmt_owner e = noir_nsv_rmt_secure_guest \<and> ownership = noir_nsv_rmt_secure_guest then False
            else if ownership = noir_nsv_rmt_secure_guest \<and> shared then False
            else True)
            (rmt_deref m (unat mid, rmt_slot_index m hpa (unat mid)))
      | Miss \<Rightarrow> Some False
      | Wild _ \<Rightarrow> None
      | Out_of_fuel \<Rightarrow> None)"

text \<open>The lists of pages are arrays of \<open>pages\<close> elements, so they are a list of pairs.\<close>

fun nvc_validate_rmt_reassignment ::
  "reverse_mapping \<Rightarrow> (u64 \<times> u64) list \<Rightarrow> u32 \<Rightarrow> bool \<Rightarrow> u8 \<Rightarrow> bool option" where
  "nvc_validate_rmt_reassignment m [] asid shared ownership = Some True"
| "nvc_validate_rmt_reassignment m ((hpa, gpa) # ps) asid shared ownership =
     (case nvc_validate_single_rmt_reassignment m hpa gpa asid shared ownership of
        None \<Rightarrow> None
      | Some False \<Rightarrow> Some False
      | Some True \<Rightarrow> nvc_validate_rmt_reassignment m ps asid shared ownership)"

fun configure_all ::
  "reverse_mapping \<Rightarrow> (u64 \<times> u64) list \<Rightarrow> u32 \<Rightarrow> bool \<Rightarrow> u8 \<Rightarrow> reverse_mapping option" where
  "configure_all m [] asid shared ownership = Some m"
| "configure_all m ((hpa, gpa) # ps) asid shared ownership =
     (case nvc_configure_reverse_mapping m hpa gpa asid shared ownership of
        None \<Rightarrow> None
      | Some m1 \<Rightarrow> configure_all m1 ps asid shared ownership)"

text \<open>The hypercall \<open>noir_svm_nsv_reassign_rmt\<close>, as issued by NoirVisor's own image.\<close>

definition nsv_reassign_rmt ::
  "reverse_mapping \<Rightarrow> (u64 \<times> u64) list \<Rightarrow> u32 \<Rightarrow> bool \<Rightarrow> u8 \<Rightarrow> (bool \<times> reverse_mapping) option" where
  "nsv_reassign_rmt m ps asid shared ownership =
     (case nvc_validate_rmt_reassignment m ps asid shared ownership of
        None \<Rightarrow> None
      | Some False \<Rightarrow> Some (False, m)
      | Some True \<Rightarrow> map_option (\<lambda>m1. (True, m1)) (configure_all m ps asid shared ownership))"

section \<open>Construction\<close>

definition rmt_initial_entry :: "u64 \<Rightarrow> u64 \<Rightarrow> noir_rmt_entry" where
  "rmt_initial_entry start i =
     \<lparr>low = bf_put noir_rmt_entry_low ''ownership'' (ucast noir_nsv_rmt_subverted_host)
             (bf_put noir_rmt_entry_low ''shared'' 0 (bf_put noir_rmt_entry_low ''asid'' 1 0)),
      high = page_4kb_mult i + start\<rparr>"

text \<open>\<open>ok\<close> is the outcome of the allocation of the table; \<open>dir_count\<close> grows in any case.\<close>

definition nvc_enum_physical_range_callback ::
  "bool \<Rightarrow> u64 \<times> u64 \<Rightarrow> reverse_mapping \<times> u32 \<Rightarrow> (reverse_mapping \<times> u32) option" where
  "nvc_enum_physical_range_callback ok r s =
     (case r of (start, len) \<Rightarrow> case s of (m, alloc_count) \<Rightarrow>
        let index = unat (dir_count m);
            t = (if ok then Some (map (\<lambda>i. rmt_initial_entry start (of_nat i)) [0..<unat (page_4kb_count len)]) else None);
            e = \<lparr>rm_table = t, hpa_start = start, hpa_end = start + len\<rparr>
        in if index < length (directory m)
           then Some (m\<lparr>directory := (directory m)[index := e], dir_count := dir_count m + 1\<rparr>,
                      if ok then alloc_count + 1 else alloc_count)
           else None)"

fun enum_physical_memory_ranges ::
  "(bool \<times> u64 \<times> u64) list \<Rightarrow> reverse_mapping \<times> u32 \<Rightarrow> (reverse_mapping \<times> u32) option" where
  "enum_physical_memory_ranges [] s = Some s"
| "enum_physical_memory_ranges ((ok, r) # rs) s =
     (case nvc_enum_physical_range_callback ok r s of
        None \<Rightarrow> None
      | Some s1 \<Rightarrow> enum_physical_memory_ranges rs s1)"

definition empty_slot :: noir_rmt_directory_entry where
  "empty_slot = \<lparr>rm_table = None, hpa_start = 0, hpa_end = 0\<rparr>"

text \<open>
  \<open>ranges\<close> is what the platform's enumeration reports, each with the outcome of the allocation of its
  table. Allocated memory is zeroed, and \<open>dir_count\<close> starts at zero.
\<close>

definition nvc_build_reverse_mapping_table ::
  "bool \<Rightarrow> (bool \<times> u64 \<times> u64) list \<Rightarrow> (bool \<times> reverse_mapping) option" where
  "nvc_build_reverse_mapping_table directory_ok ranges =
     (if \<not> directory_ok then Some (False, \<lparr>directory = [], dir_count = 0\<rparr>)
      else (case enum_physical_memory_ranges ranges
                   (\<lparr>directory = replicate rmt_slots empty_slot, dir_count = 0\<rparr>, 0) of
              None \<Rightarrow> None
            | Some (m, alloc_count) \<Rightarrow> Some (ucast alloc_count = dir_count m, m)))"

end
