(* ===== verification/Rmt_Table.thy ===== *)
theory Rmt_Table
  imports Rmt
begin

text \<open>
  What the reverse-mapping table means: the owner of every page of physical memory, the invariant of
  the directory, and the searches and updates of \<open>noirhvm.c\<close> against a linear lookup.
\<close>

section \<open>Invariant\<close>

definition pfn :: "u64 \<Rightarrow> nat" where "pfn x = unat x div 4096"

lemma pfn_count: "pfn x = unat (page_4kb_count x)"
  by (simp add: pfn_def page_4kb_count_def drop_bit_eq_div unat_div)

lemma pfn_eq: "pfn x = pfn y \<longleftrightarrow> page_4kb_count x = page_4kb_count y"
  by (simp add: pfn_count word_unat_eq_iff)

definition page_aligned :: "u64 \<Rightarrow> bool" where "page_aligned x \<longleftrightarrow> 4096 dvd unat x"

text \<open>A slot in use: an aligned, non-empty range and a table with one entry per page of it.\<close>

definition slot_ok :: "noir_rmt_directory_entry \<Rightarrow> bool" where
  "slot_ok e \<longleftrightarrow> hpa_start e < hpa_end e \<and> page_aligned (hpa_start e) \<and> page_aligned (hpa_end e) \<and>
     (\<exists>t. rm_table e = Some t \<and> length t = pfn (hpa_end e) - pfn (hpa_start e))"

definition rmt_used :: "reverse_mapping \<Rightarrow> nat" where "rmt_used m = unat (dir_count m)"

definition wf_rmt :: "reverse_mapping \<Rightarrow> bool" where
  "wf_rmt m \<longleftrightarrow> length (directory m) = rmt_slots \<and> rmt_used m \<le> rmt_slots \<and>
     (\<forall>i<rmt_used m. slot_ok (directory m ! i)) \<and>
     (\<forall>i j. i < j \<longrightarrow> j < rmt_used m \<longrightarrow> hpa_end (directory m ! i) \<le> hpa_start (directory m ! j)) \<and>
     (\<forall>i. rmt_used m \<le> i \<longrightarrow> i < rmt_slots \<longrightarrow> directory m ! i = empty_slot)"

text \<open>The linear lookup: the entry of the page that holds an address.\<close>

definition in_slot :: "u64 \<Rightarrow> noir_rmt_directory_entry \<Rightarrow> bool" where
  "in_slot hpa e \<longleftrightarrow> hpa_start e \<le> hpa \<and> hpa < hpa_end e"

definition rmt_lookup :: "reverse_mapping \<Rightarrow> u64 \<Rightarrow> noir_rmt_entry option" where
  "rmt_lookup m hpa =
     (case List.find (\<lambda>i. in_slot hpa (directory m ! i)) [0..<rmt_used m] of
        None \<Rightarrow> None
      | Some i \<Rightarrow> rmt_deref m (i, pfn hpa - pfn (hpa_start (directory m ! i))))"

text \<open>The addresses for which the search leaves the directory: below the first range, or above the
  last one when the directory is full.\<close>

definition rmt_strays :: "reverse_mapping \<Rightarrow> u64 \<Rightarrow> bool" where
  "rmt_strays m hpa \<longleftrightarrow> hpa < hpa_start (directory m ! 0) \<or>
     (rmt_used m = rmt_slots \<and> hpa_end (directory m ! (rmt_slots - 1)) \<le> hpa)"

section \<open>Pages and slots\<close>

lemma in_slot_pfn:
  assumes "slot_ok e"
  shows "in_slot hpa e \<longleftrightarrow> pfn (hpa_start e) \<le> pfn hpa \<and> pfn hpa < pfn (hpa_end e)"
proof -
  from assms obtain a b where "unat (hpa_start e) = 4096 * a" "unat (hpa_end e) = 4096 * b"
    by (auto simp: slot_ok_def page_aligned_def elim!: dvdE)
  then show ?thesis
    by (auto simp: in_slot_def pfn_def word_le_nat_alt word_less_nat_alt less_eq_div_iff_mult_less_eq
        div_less_iff_less_mult mult.commute)
qed

lemma slot_index:
  assumes "slot_ok (directory m ! i)" "in_slot hpa (directory m ! i)"
  shows "rmt_slot_index m hpa i = pfn hpa - pfn (hpa_start (directory m ! i))"
proof -
  let ?s = "hpa_start (directory m ! i)"
  from assms(1) obtain a where a: "unat ?s = 4096 * a"
    by (auto simp: slot_ok_def page_aligned_def elim!: dvdE)
  have "unat (hpa - ?s) = unat hpa - unat ?s"
    using assms(2) by (simp add: in_slot_def unat_sub)
  then show ?thesis
    by (simp add: rmt_slot_index_def a flip: pfn_count) (simp add: pfn_def a)
qed

lemma deref_in_slot:
  assumes "slot_ok (directory m ! i)" "in_slot hpa (directory m ! i)"
  shows "\<exists>e. rmt_deref m (i, pfn hpa - pfn (hpa_start (directory m ! i))) = Some e"
  using assms in_slot_pfn [OF assms(1)] by (auto simp: slot_ok_def rmt_deref_def)

lemma slots_disjoint:
  assumes "wf_rmt m" "i < rmt_used m" "j < rmt_used m" "in_slot hpa (directory m ! i)" "in_slot hpa (directory m ! j)"
  shows "i = j"
proof -
  have "\<not> i' < j'" if "i' < rmt_used m" "j' < rmt_used m" "in_slot hpa (directory m ! i')" "in_slot hpa (directory m ! j')" for i' j'
    using assms(1) that unfolding wf_rmt_def in_slot_def by fastforce
  from this [of i j] this [of j i] show ?thesis using assms by auto
qed

lemma find_slot:
  assumes "wf_rmt m" "i < rmt_used m" "in_slot hpa (directory m ! i)"
  shows "List.find (\<lambda>i. in_slot hpa (directory m ! i)) [0..<rmt_used m] = Some i"
proof -
  have "\<exists>k. List.find (\<lambda>i. in_slot hpa (directory m ! i)) [0..<rmt_used m] = Some k"
    using assms(2,3) by (auto simp: find_None_iff simp flip: not_None_eq)
  then show ?thesis
    using slots_disjoint [OF assms(1)] assms(2,3) by (auto simp: find_Some_iff)
qed

lemma lookup_slot:
  assumes "wf_rmt m" "i < rmt_used m" "in_slot hpa (directory m ! i)"
  shows "rmt_lookup m hpa = rmt_deref m (i, rmt_slot_index m hpa i)"
    "\<exists>e. rmt_lookup m hpa = Some e"
proof -
  have ok: "slot_ok (directory m ! i)" using assms by (simp add: wf_rmt_def)
  show 1: "rmt_lookup m hpa = rmt_deref m (i, rmt_slot_index m hpa i)"
    by (simp add: rmt_lookup_def find_slot [OF assms] slot_index [OF ok assms(3)])
  show "\<exists>e. rmt_lookup m hpa = Some e"
    using deref_in_slot [OF ok assms(3)] by (simp add: 1 slot_index [OF ok assms(3)])
qed

lemma lookup_None:
  assumes "wf_rmt m"
  shows "rmt_lookup m hpa = None \<longleftrightarrow> (\<forall>i<rmt_used m. \<not> in_slot hpa (directory m ! i))"
proof
  show "rmt_lookup m hpa = None \<Longrightarrow> \<forall>i<rmt_used m. \<not> in_slot hpa (directory m ! i)"
    using lookup_slot(2) [OF assms, of _ hpa] by auto
  assume "\<forall>i<rmt_used m. \<not> in_slot hpa (directory m ! i)"
  then have "List.find (\<lambda>i. in_slot hpa (directory m ! i)) [0..<rmt_used m] = None"
    by (auto simp: find_None_iff)
  then show "rmt_lookup m hpa = None" by (simp add: rmt_lookup_def)
qed

section \<open>The binary search\<close>

lemma rmt_slots_eq: "rmt_slots = 128"
  by (simp add: rmt_slots_def)

lemma rmt_probe_slot:
  "wf_rmt m \<Longrightarrow> i < rmt_slots \<Longrightarrow> rmt_probe (directory m) hpa (of_nat i) =
     Some (if hpa < hpa_start (directory m ! i) then Before
           else if hpa_end (directory m ! i) \<le> hpa then After else Found)"
  by (simp add: rmt_probe_def wf_rmt_def nth_opt_def rmt_slots_eq unat_of_nat)

lemma rmt_probe_beyond:
  "wf_rmt m \<Longrightarrow> rmt_slots \<le> unat i \<Longrightarrow> rmt_probe (directory m) hpa i = None"
  by (simp add: rmt_probe_def wf_rmt_def)

lemma rmt_probe_unused:
  "wf_rmt m \<Longrightarrow> rmt_used m \<le> i \<Longrightarrow> i < rmt_slots \<Longrightarrow> rmt_probe (directory m) hpa (of_nat i) = Some After"
  by (simp add: rmt_probe_slot) (simp add: wf_rmt_def empty_slot_def)

lemma slot_less: "wf_rmt m \<Longrightarrow> i < rmt_used m \<Longrightarrow> hpa_start (directory m ! i) < hpa_end (directory m ! i)"
  by (simp add: wf_rmt_def slot_ok_def)

lemma slots_ordered:
  "wf_rmt m \<Longrightarrow> i < j \<Longrightarrow> j < rmt_used m \<Longrightarrow> hpa_end (directory m ! i) \<le> hpa_start (directory m ! j)"
  by (simp add: wf_rmt_def)

lemma rmt_used_slots: "wf_rmt m \<Longrightarrow> i < rmt_used m \<Longrightarrow> i < rmt_slots"
  by (simp add: wf_rmt_def)

lemma rmt_probe_end:
  assumes "wf_rmt m"
  shows "rmt_probe (directory m) hpa (of_nat (rmt_used m)) = (if rmt_used m = rmt_slots then None else Some After)"
proof (cases "rmt_used m < rmt_slots")
  case True
  then show ?thesis using rmt_probe_unused [OF assms order_refl, of hpa] by simp
next
  case False
  then have "rmt_used m = rmt_slots" using assms by (simp add: wf_rmt_def)
  then show ?thesis using rmt_probe_beyond [OF assms, of "of_nat (rmt_used m)"] by (simp add: rmt_slots_eq)
qed

lemma rmt_search_used:
  "rmt_search m hpa = bsearch (rmt_used m + 3) (rmt_probe (directory m) hpa) 0 (of_nat (rmt_used m))"
  by (simp add: rmt_search_def rmt_used_def)

theorem rmt_sorted:
  assumes wf: "wf_rmt m"
  shows "sorted_slots (rmt_probe (directory m) hpa) (rmt_used m)"
proof
  show "2 * rmt_used m + 1 < 2 ^ LENGTH(64)"
    using wf by (simp add: wf_rmt_def rmt_slots_eq)
  show "rmt_probe (directory m) hpa (of_nat i) \<noteq> None" if "i < rmt_used m" for i
    using that wf by (simp add: rmt_probe_slot rmt_used_slots)
  show "rmt_probe (directory m) hpa (of_nat j) = Some Before"
    if "i < j" "j < rmt_used m" "rmt_probe (directory m) hpa (of_nat i) = Some Before" for i j
    using that slot_less [OF wf, of i] slots_ordered [OF wf, of i j] wf
    by (simp add: rmt_probe_slot rmt_used_slots split: if_splits)
  show "rmt_probe (directory m) hpa (of_nat i) = Some After"
    if "i < j" "j < rmt_used m" "rmt_probe (directory m) hpa (of_nat j) = Some After" for i j
    using that slot_less [OF wf, of i] slot_less [OF wf, of j] slots_ordered [OF wf, of i j] wf
    by (auto simp: rmt_probe_slot rmt_used_slots not_less split: if_splits; order)
  show "rmt_probe (directory m) hpa (of_nat (rmt_used m)) \<in> {None, Some After}"
    by (simp add: rmt_probe_end [OF wf])
  show "rmt_probe (directory m) hpa (mask (LENGTH(64) - 1)) = None"
    using wf by (intro rmt_probe_beyond) (simp_all add: rmt_slots_eq mask_eq_exp_minus_1)
qed

lemma search_hit:
  assumes wf: "wf_rmt m" and i: "i < rmt_used m" "in_slot hpa (directory m ! i)"
  shows "rmt_search m hpa = Hit (of_nat i)"
proof -
  have "rmt_probe (directory m) hpa (of_nat i) = Some Found"
    using wf i by (simp add: rmt_probe_slot rmt_used_slots in_slot_def not_less not_le)
  then obtain k where k: "k < rmt_used m" "rmt_search m hpa = Hit (of_nat k)"
      "rmt_probe (directory m) hpa (of_nat k) = Some Found"
    using sorted_slots.found [OF rmt_sorted [OF wf], of "rmt_used m + 3" i hpa] i(1)
    by (auto simp: rmt_search_def rmt_used_def)
  then have "in_slot hpa (directory m ! k)"
    using wf by (auto simp: rmt_probe_slot rmt_used_slots in_slot_def split: if_splits)
  then show ?thesis
    using slots_disjoint [OF wf _ _ i(2)] k i by blast
qed

lemma search_miss:
  assumes wf: "wf_rmt m" and n: "0 < rmt_used m" and none: "rmt_lookup m hpa = None"
  shows "rmt_search m hpa = (if hpa < hpa_start (directory m ! 0) then Wild (mask 63)
     else if rmt_strays m hpa then Wild (of_nat (rmt_used m)) else Miss)"
proof -
  let ?p = "rmt_probe (directory m) hpa" and ?n = "rmt_used m"
  have z: "0 < rmt_slots" by (simp add: rmt_slots_eq)
  have nf: "?p (of_nat i) \<noteq> Some Found" if "i < ?n" for i
    using none that wf by (auto simp: lookup_None rmt_probe_slot rmt_used_slots in_slot_def split: if_splits)
  have b: "?p 0 = Some Before \<longleftrightarrow> hpa < hpa_start (directory m ! 0)"
    using rmt_probe_slot [OF wf z, of hpa] by simp
  have a: "?p (of_nat (?n - 1)) = Some After \<longleftrightarrow> hpa_end (directory m ! (?n - 1)) \<le> hpa"
    using rmt_probe_slot [OF wf rmt_used_slots [OF wf], of "?n - 1" hpa] n slot_less [OF wf, of "?n - 1"] by auto
  have "bsearch (?n + 3) ?p 0 (of_nat ?n) =
      (if ?p 0 = Some Before then Wild (mask (LENGTH(64) - 1))
       else if ?p (of_nat (?n - 1)) = Some After \<and> ?p (of_nat ?n) = None then Wild (of_nat ?n) else Miss)"
    by (rule sorted_slots.missing [OF rmt_sorted [OF wf]]) (use n nf in auto)
  then show ?thesis
    unfolding rmt_search_used a b rmt_probe_end [OF wf]
    by (auto simp: rmt_strays_def)
qed

lemma search_cases:
  assumes "wf_rmt m" "0 < rmt_used m"
  obtains (hit) i e where "i < rmt_used m" "in_slot hpa (directory m ! i)" "rmt_search m hpa = Hit (of_nat i)"
      "unat (of_nat i :: u64) = i" "rmt_lookup m hpa = Some e" "rmt_deref m (i, rmt_slot_index m hpa i) = Some e"
    | (miss) "rmt_search m hpa = Miss" "rmt_lookup m hpa = None" "\<not> rmt_strays m hpa"
    | (stray) i where "rmt_search m hpa = Wild i" "rmt_lookup m hpa = None" "rmt_strays m hpa"
proof (cases "rmt_lookup m hpa")
  case None
  show ?thesis
    using search_miss [OF assms None] miss [OF _ None] stray [OF _ None]
    by (cases "rmt_strays m hpa") (auto simp: rmt_strays_def split: if_splits)
next
  case (Some e)
  then obtain i where i: "i < rmt_used m" "in_slot hpa (directory m ! i)"
    using lookup_None [OF assms(1), of hpa] by auto
  have "i < 128" using rmt_used_slots [OF assms(1) i(1)] by (simp add: rmt_slots_eq)
  then have u: "unat (of_nat i :: u64) = i" by (simp add: unat_of_nat)
  show ?thesis
    using hit [OF i search_hit [OF assms(1) i] u Some] lookup_slot(1) [OF assms(1) i] Some by simp
qed

end
