(* ===== verification/Rmt_Laws.thy ===== *)
theory Rmt_Laws
  imports Rmt_Table
begin

text \<open>
  The laws of the operations on the reverse-mapping table over the linear lookup: assignment is an
  update of one page, validation is a decision on the owner, and the sequences of validated
  reassignments that the hypervisor performs.
\<close>

section \<open>Assignment\<close>

lemma lookup_page: "wf_rmt m \<Longrightarrow> pfn x = pfn y \<Longrightarrow> rmt_lookup m x = rmt_lookup m y"
proof -
  assume wf: "wf_rmt m" and eq: "pfn x = pfn y"
  have "in_slot x (directory m ! i) = in_slot y (directory m ! i)" if "i < rmt_used m" for i
    using wf that eq in_slot_pfn [of "directory m ! i"] by (simp add: wf_rmt_def)
  then have "List.find (\<lambda>i. in_slot x (directory m ! i)) [0..<rmt_used m] =
      List.find (\<lambda>i. in_slot y (directory m ! i)) [0..<rmt_used m]"
    by (intro find_cong) auto
  then show ?thesis by (simp add: rmt_lookup_def eq split: option.split)
qed

lemma rmt_store_simps [simp]:
  "dir_count (rmt_store m p e) = dir_count m" "rmt_used (rmt_store m p e) = rmt_used m"
  "length (directory (rmt_store m p e)) = length (directory m)"
  by (simp_all add: rmt_store_def rmt_used_def)

lemma rmt_store_nth:
  "fst p < length (directory m) \<Longrightarrow> directory (rmt_store m p e) ! j =
     (if j = fst p then (directory m ! j)\<lparr>rm_table := map_option (\<lambda>t. t[snd p := e]) (rm_table (directory m ! j))\<rparr>
      else directory m ! j)"
  by (auto simp: rmt_store_def)

lemma rmt_store_range [simp]:
  "hpa_start (directory (rmt_store m p e) ! j) = hpa_start (directory m ! j)"
  "hpa_end (directory (rmt_store m p e) ! j) = hpa_end (directory m ! j)"
proof -
  have "directory (rmt_store m p e) = directory m" if "\<not> fst p < length (directory m)"
    using that by (simp add: rmt_store_def list_update_beyond)
  then show "hpa_start (directory (rmt_store m p e) ! j) = hpa_start (directory m ! j)"
    "hpa_end (directory (rmt_store m p e) ! j) = hpa_end (directory m ! j)"
    by (cases "fst p < length (directory m)"; simp add: rmt_store_nth)+
qed

lemma rmt_store_slot [simp]: "in_slot x (directory (rmt_store m p e) ! j) = in_slot x (directory m ! j)"
  by (simp add: in_slot_def)

lemma rmt_store_table:
  "fst p < length (directory m) \<Longrightarrow> rm_table (directory (rmt_store m p e) ! j) =
     (if j = fst p then map_option (\<lambda>t. t[snd p := e]) (rm_table (directory m ! j)) else rm_table (directory m ! j))"
  by (simp add: rmt_store_nth)

lemma deref_store:
  assumes "fst p < length (directory m)" "rmt_deref m p = Some e0"
  shows "rmt_deref (rmt_store m p e) q = (if q = p then Some e else rmt_deref m q)"
  using assms by (cases p; cases q) (auto simp: rmt_deref_def rmt_store_table nth_opt_def split: option.splits if_splits)

lemma wf_store:
  assumes "wf_rmt m" "fst p < rmt_used m"
  shows "wf_rmt (rmt_store m p e)"
proof -
  have l: "fst p < length (directory m)" using assms by (simp add: wf_rmt_def)
  have "slot_ok (directory (rmt_store m p e) ! i) \<longleftrightarrow> slot_ok (directory m ! i)" for i
    by (auto simp: slot_ok_def rmt_store_table [OF l])
  moreover have "directory (rmt_store m p e) ! i = directory m ! i" if "rmt_used m \<le> i" for i
    using assms(2) that by (simp add: rmt_store_def)
  ultimately show ?thesis using assms(1) by (simp add: wf_rmt_def)
qed

lemma lookup_store:
  assumes wf: "wf_rmt m" and i: "i < rmt_used m" "in_slot hpa (directory m ! i)"
  shows "rmt_lookup (rmt_store m (i, rmt_slot_index m hpa i) e) x =
    (if pfn x = pfn hpa then Some e else rmt_lookup m x)"
proof -
  let ?p = "(i, rmt_slot_index m hpa i)"
  let ?m = "rmt_store m ?p e"
  have ok: "slot_ok (directory m ! j)" if "j < rmt_used m" for j using wf that by (simp add: wf_rmt_def)
  have wf': "wf_rmt ?m" using wf_store [OF wf] i(1) by simp
  have len: "fst ?p < length (directory m)" using wf i(1) by (simp add: wf_rmt_def)
  obtain e0 where e0: "rmt_deref m ?p = Some e0"
    using deref_in_slot [OF ok i(2)] i(1) slot_index [OF ok i(2)] by auto
  show ?thesis
  proof (cases "rmt_lookup m x")
    case None
    then have "rmt_lookup ?m x = None"
      using lookup_None [OF wf, of x] lookup_None [OF wf', of x] by simp
    moreover have "pfn x \<noteq> pfn hpa"
      using None lookup_page [OF wf, of x hpa] lookup_slot(2) [OF wf i] by auto
    ultimately show ?thesis using None by simp
  next
    case (Some e1)
    then obtain j where j: "j < rmt_used m" "in_slot x (directory m ! j)"
      using lookup_None [OF wf, of x] by auto
    have idx: "rmt_slot_index ?m x j = rmt_slot_index m x j" by (simp add: rmt_slot_index_def)
    have l: "rmt_lookup ?m x = (if (j, rmt_slot_index m x j) = ?p then Some e else rmt_deref m (j, rmt_slot_index m x j))"
      using lookup_slot(1) [OF wf', of j x] j deref_store [OF len e0] by (simp add: idx)
    have same: "(j, rmt_slot_index m x j) = ?p \<longleftrightarrow> pfn x = pfn hpa"
    proof
      assume "(j, rmt_slot_index m x j) = ?p"
      then show "pfn x = pfn hpa"
        using slot_index [OF ok j(2)] slot_index [OF ok i(2)] in_slot_pfn [OF ok, of j x] in_slot_pfn [OF ok, of i hpa] i j
        by auto
    next
      assume eq: "pfn x = pfn hpa"
      then have "in_slot x (directory m ! i)" using in_slot_pfn [OF ok, of i] i by auto
      then have "j = i" using slots_disjoint [OF wf j(1) i(1) j(2)] by simp
      then show "(j, rmt_slot_index m x j) = ?p"
        using slot_index [OF ok j(2)] slot_index [OF ok i(2)] i j eq by simp
    qed
    show ?thesis using l same lookup_slot(1) [OF wf j] by auto
  qed
qed

lemma configure_cases:
  assumes "wf_rmt m" "0 < rmt_used m"
  shows "case rmt_lookup m hpa of
      Some e \<Rightarrow> \<exists>m'. nvc_configure_reverse_mapping m hpa gpa asid shared ow = Some m' \<and> wf_rmt m' \<and>
        rmt_used m' = rmt_used m \<and> rmt_strays m' = rmt_strays m \<and>
        (\<forall>x. rmt_lookup m' x = (if pfn x = pfn hpa then Some (rmt_write gpa asid shared ow e) else rmt_lookup m x))
    | None \<Rightarrow> nvc_configure_reverse_mapping m hpa gpa asid shared ow = (if rmt_strays m hpa then None else Some m)"
  using assms
proof (cases rule: search_cases [where hpa = hpa])
  case (hit i e)
  let ?m = "rmt_store m (i, rmt_slot_index m hpa i) (rmt_write gpa asid shared ow e)"
  have "nvc_configure_reverse_mapping m hpa gpa asid shared ow = Some ?m"
    using hit by (simp add: nvc_configure_reverse_mapping_def)
  moreover have "rmt_strays ?m = rmt_strays m" by (simp add: rmt_strays_def fun_eq_iff)
  ultimately show ?thesis
    using hit wf_store [OF assms(1), of "(i, rmt_slot_index m hpa i)"]
      lookup_store [OF assms(1) hit(1,2)] by auto
qed (auto simp: nvc_configure_reverse_mapping_def)

lemma validate_cases:
  assumes "wf_rmt m" "0 < rmt_used m"
  shows "nvc_validate_single_rmt_reassignment m hpa gpa asid shared ow =
    (case rmt_lookup m hpa of
       None \<Rightarrow> if rmt_strays m hpa then None else Some False
     | Some e \<Rightarrow> Some (rmt_owner e \<noteq> noir_nsv_rmt_noirvisor \<and>
         (ow = noir_nsv_rmt_secure_guest \<longrightarrow> rmt_owner e \<noteq> noir_nsv_rmt_secure_guest \<and> \<not> shared)))"
  using assms
proof (cases rule: search_cases [where hpa = hpa])
  case (hit i e)
  then show ?thesis by (auto simp: nvc_validate_single_rmt_reassignment_def)
qed (auto simp: nvc_validate_single_rmt_reassignment_def)

lemma get_entry_cases:
  assumes "wf_rmt m" "0 < rmt_used m"
  shows "case rmt_lookup m hpa of
      Some e \<Rightarrow> \<exists>p. nvc_get_rmt_entry m hpa = Some (Some p) \<and> rmt_deref m p = Some e
    | None \<Rightarrow> nvc_get_rmt_entry m hpa = (if rmt_strays m hpa then None else Some None)"
  using assms
proof (cases rule: search_cases [where hpa = hpa])
  case (hit i e)
  then show ?thesis by (auto simp: nvc_get_rmt_entry_def)
qed (auto simp: nvc_get_rmt_entry_def)

section \<open>The fields of an entry\<close>

lemma rmt_low_size: "bf_size noir_rmt_entry_low \<le> 64" "bf_size noir_rmt_entry_high \<le> 64"
  by (simp_all add: noir_rmt_entry_low_def noir_rmt_entry_high_def bf_size_def)

lemma rmt_write_fields [simp]:
  "rmt_owner (rmt_write gpa asid shared ow e) = ow"
  "bf_get noir_rmt_entry_low ''asid'' (low (rmt_write gpa asid shared ow e)) = ucast asid"
  "bf_get noir_rmt_entry_low ''shared'' (low (rmt_write gpa asid shared ow e)) = of_flag shared"
  "bf_get noir_rmt_entry_high ''guest_pfn'' (high (rmt_write gpa asid shared ow e)) = page_4kb_count gpa"
proof -
  show "rmt_owner (rmt_write gpa asid shared ow e) = ow"
    by (rule bit_word_eqI)
      (auto simp: rmt_owner_def rmt_write_def Let_def bf_get_put_same bf_get_put_other rmt_low_size layout bit_simps
        dest: bit_imp_le_length)
  show "bf_get noir_rmt_entry_low ''asid'' (low (rmt_write gpa asid shared ow e)) = ucast asid"
    by (rule bit_word_eqI)
      (auto simp: rmt_write_def Let_def bf_get_put_same bf_get_put_other rmt_low_size layout bit_simps
        dest: bit_imp_le_length)
  show "bf_get noir_rmt_entry_low ''shared'' (low (rmt_write gpa asid shared ow e)) = of_flag shared"
    by (cases shared) (simp_all add: rmt_write_def Let_def bf_get_put_same bf_get_put_other rmt_low_size layout of_flag_def)
  have "bf_get noir_rmt_entry_high ''guest_pfn'' gpa = page_4kb_count gpa"
    by (rule bit_word_eqI)
      (auto simp: bf_get_def layout slice_get_def page_4kb_count_def bit_simps dest: bit_imp_le_length)
  then show "bf_get noir_rmt_entry_high ''guest_pfn'' (high (rmt_write gpa asid shared ow e)) = page_4kb_count gpa"
    by (simp add: rmt_write_def Let_def bf_get_put_other)
qed

section \<open>Sequences of reassignments\<close>

text \<open>What a validated batch may do to the page of an address.\<close>

definition may_reassign :: "u8 \<Rightarrow> bool \<Rightarrow> noir_rmt_entry \<Rightarrow> bool" where
  "may_reassign ow shared e \<longleftrightarrow> rmt_owner e \<noteq> noir_nsv_rmt_noirvisor \<and>
     (ow = noir_nsv_rmt_secure_guest \<longrightarrow> rmt_owner e \<noteq> noir_nsv_rmt_secure_guest \<and> \<not> shared)"

lemma validate_all:
  assumes "wf_rmt m" "0 < rmt_used m" "nvc_validate_rmt_reassignment m ps asid shared ow = Some True"
  shows "\<forall>(hpa, gpa) \<in> set ps. \<exists>e. rmt_lookup m hpa = Some e \<and> may_reassign ow shared e"
  using assms(3)
proof (induction ps)
  case (Cons p ps)
  obtain hpa gpa where p: "p = (hpa, gpa)" by (cases p)
  have "nvc_validate_single_rmt_reassignment m hpa gpa asid shared ow = Some True"
    using Cons.prems by (simp add: p split: option.splits bool.splits)
  then show ?case
    using Cons validate_cases [OF assms(1,2), of hpa gpa asid shared ow]
    by (auto simp: p may_reassign_def split: option.splits if_splits)
qed simp

text \<open>What an assignment leaves in the entry of a page.\<close>

definition assigned :: "u64 \<Rightarrow> u32 \<Rightarrow> bool \<Rightarrow> u8 \<Rightarrow> noir_rmt_entry \<Rightarrow> bool" where
  "assigned gpa asid shared ow e \<longleftrightarrow> rmt_owner e = ow \<and>
     bf_get noir_rmt_entry_low ''asid'' (low e) = ucast asid \<and>
     bf_get noir_rmt_entry_low ''shared'' (low e) = of_flag shared \<and>
     bf_get noir_rmt_entry_high ''guest_pfn'' (high e) = page_4kb_count gpa"

lemma assigned_write [simp]: "assigned gpa asid shared ow (rmt_write gpa asid shared ow e)"
  by (simp add: assigned_def)

definition in_batch :: "(u64 \<times> u64) list \<Rightarrow> u64 \<Rightarrow> bool" where
  "in_batch ps x \<longleftrightarrow> (\<exists>(hpa, gpa) \<in> set ps. pfn hpa = pfn x)"

text \<open>The effect of a batch on the page of \<open>x\<close>, whose entry was \<open>l\<close> and becomes \<open>l'\<close>.\<close>

definition batch_effect ::
  "(u64 \<times> u64) list \<Rightarrow> u32 \<Rightarrow> bool \<Rightarrow> u8 \<Rightarrow> u64 \<Rightarrow> noir_rmt_entry option \<Rightarrow> noir_rmt_entry option \<Rightarrow> bool" where
  "batch_effect ps asid shared ow x l l' \<longleftrightarrow>
     (if in_batch ps x
      then \<exists>gpa e. gpa \<in> snd ` {p \<in> set ps. pfn (fst p) = pfn x} \<and> l' = Some e \<and> assigned gpa asid shared ow e
      else l' = l)"

lemma in_batch_Cons: "in_batch ((hpa, gpa) # ps) x \<longleftrightarrow> pfn hpa = pfn x \<or> in_batch ps x"
  by (simp add: in_batch_def)

lemma configure_all_cases:
  assumes "wf_rmt m" "0 < rmt_used m" "\<forall>(hpa, gpa) \<in> set ps. rmt_lookup m hpa \<noteq> None"
  shows "\<exists>m'. configure_all m ps asid shared ow = Some m' \<and> wf_rmt m' \<and> rmt_used m' = rmt_used m \<and>
    rmt_strays m' = rmt_strays m \<and> (\<forall>x. batch_effect ps asid shared ow x (rmt_lookup m x) (rmt_lookup m' x))"
  using assms
proof (induction ps arbitrary: m)
  case (Cons p ps)
  obtain hpa gpa where p: "p = (hpa, gpa)" by (cases p)
  obtain e where e: "rmt_lookup m hpa = Some e"
    using Cons.prems(3) by (auto simp: p)
  obtain m1 where m1: "nvc_configure_reverse_mapping m hpa gpa asid shared ow = Some m1" "wf_rmt m1"
      "rmt_used m1 = rmt_used m" "rmt_strays m1 = rmt_strays m"
      "\<And>x. rmt_lookup m1 x = (if pfn x = pfn hpa then Some (rmt_write gpa asid shared ow e) else rmt_lookup m x)"
    using configure_cases [OF Cons.prems(1,2), of hpa gpa asid shared ow] e by auto
  have "\<forall>(hpa, gpa) \<in> set ps. rmt_lookup m1 hpa \<noteq> None"
    using Cons.prems(3) by (auto simp: m1(5))
  then obtain m' where m': "configure_all m1 ps asid shared ow = Some m'" "wf_rmt m'" "rmt_used m' = rmt_used m"
      "rmt_strays m' = rmt_strays m"
      and l: "\<And>x. batch_effect ps asid shared ow x (rmt_lookup m1 x) (rmt_lookup m' x)"
    using Cons.IH [OF m1(2)] Cons.prems(2) m1(3,4) by auto
  have "batch_effect (p # ps) asid shared ow x (rmt_lookup m x) (rmt_lookup m' x)" for x
  proof (cases "in_batch ps x")
    case True
    then show ?thesis
      using l [of x] unfolding batch_effect_def p in_batch_Cons by (auto simp: image_iff)
  next
    case False
    then have "rmt_lookup m' x = rmt_lookup m1 x" using l [of x] by (simp add: batch_effect_def)
    then show ?thesis
      using False m1(5) [of x] unfolding batch_effect_def p in_batch_Cons by (auto simp: image_iff)
  qed
  then show ?case
    using m1(1) m' unfolding p by simp
qed (simp add: batch_effect_def in_batch_def)

lemma reassign_cases:
  assumes wf: "wf_rmt m" "0 < rmt_used m" and r: "nsv_reassign_rmt m ps asid shared ow = Some (ok, m')"
  shows "wf_rmt m' \<and> rmt_used m' = rmt_used m \<and> rmt_strays m' = rmt_strays m \<and>
    (if ok then batch_effect ps asid shared ow x (rmt_lookup m x) (rmt_lookup m' x) \<and>
            (in_batch ps x \<longrightarrow> (\<exists>e. rmt_lookup m x = Some e \<and> may_reassign ow shared e))
     else m' = m)"
proof (cases ok)
  case False
  then show ?thesis
    using r wf by (auto simp: nsv_reassign_rmt_def split: option.splits bool.splits)
next
  case True
  have v: "nvc_validate_rmt_reassignment m ps asid shared ow = Some True"
    and c: "configure_all m ps asid shared ow = Some m'"
    using r True by (auto simp: nsv_reassign_rmt_def split: option.splits bool.splits)
  have e: "\<forall>(hpa, gpa) \<in> set ps. \<exists>e. rmt_lookup m hpa = Some e \<and> may_reassign ow shared e"
    by (rule validate_all [OF wf v])
  then have n: "\<forall>(hpa, gpa) \<in> set ps. rmt_lookup m hpa \<noteq> None" by auto
  have "in_batch ps x \<longrightarrow> (\<exists>e. rmt_lookup m x = Some e \<and> may_reassign ow shared e)"
  proof
    assume "in_batch ps x"
    then obtain hpa gpa where "(hpa, gpa) \<in> set ps" "pfn hpa = pfn x" by (auto simp: in_batch_def)
    then show "\<exists>e. rmt_lookup m x = Some e \<and> may_reassign ow shared e"
      using bspec [OF e, of "(hpa, gpa)"] lookup_page [OF wf(1), of hpa x] by simp
  qed
  moreover have "wf_rmt m' \<and> rmt_used m' = rmt_used m \<and> rmt_strays m' = rmt_strays m \<and>
      (\<forall>x. batch_effect ps asid shared ow x (rmt_lookup m x) (rmt_lookup m' x))"
    using configure_all_cases [OF wf n, of asid shared ow] unfolding c by simp
  ultimately show ?thesis using True by simp
qed

text \<open>The hypercalls that reach the table, in any order and number.\<close>

inductive rmt_run :: "reverse_mapping \<Rightarrow> reverse_mapping \<Rightarrow> bool" for m where
  start: "rmt_run m m"
| reassign: "rmt_run m m1 \<Longrightarrow> nsv_reassign_rmt m1 ps asid shared ow = Some (ok, m2) \<Longrightarrow> rmt_run m m2"

lemma rmt_run_wf: "rmt_run m m' \<Longrightarrow> wf_rmt m \<Longrightarrow> 0 < rmt_used m \<Longrightarrow> wf_rmt m' \<and> rmt_used m' = rmt_used m"
proof (induction rule: rmt_run.induct)
  case (reassign m1 ps asid shared ow ok m2)
  then show ?case using reassign_cases [of m1 ps asid shared ow ok m2] by auto
qed simp

end
