(* ===== verification/Rmt_Build.thy ===== *)
theory Rmt_Build
  imports Rmt_Laws
begin

text \<open>
  The construction of the reverse-mapping table from the ranges of physical memory that the platform
  reports, and the properties of the table.
\<close>

section \<open>Construction\<close>

text \<open>What the platform's enumeration promises: aligned, non-empty ranges in ascending order.\<close>

fun ranges_from :: "u64 \<Rightarrow> (bool \<times> u64 \<times> u64) list \<Rightarrow> bool" where
  "ranges_from lo [] = True"
| "ranges_from lo ((ok, start, len) # rs) =
     (lo \<le> start \<and> page_aligned start \<and> page_aligned len \<and> 0 < len \<and>
      unat start + unat len < 2 ^ 64 \<and> ranges_from (start + len) rs)"

definition in_ranges :: "(bool \<times> u64 \<times> u64) list \<Rightarrow> u64 \<Rightarrow> bool" where
  "in_ranges rs x \<longleftrightarrow> (\<exists>(ok, start, len) \<in> set rs. start \<le> x \<and> x < start + len)"

text \<open>The entry of a page of the subverted host, identity mapped.\<close>

abbreviation host_page :: "u64 \<Rightarrow> noir_rmt_entry \<Rightarrow> bool" where
  "host_page x \<equiv> assigned x 1 False noir_nsv_rmt_subverted_host"

lemma unat_range:
  assumes "unat start + unat len < 2 ^ 64"
  shows "unat (start + len :: u64) = unat start + unat len"
  using assms by (simp add: unat_word_ariths)

lemma host_page_initial:
  assumes "page_4kb_count start + i = page_4kb_count x" "page_aligned start"
  shows "host_page x (rmt_initial_entry start i)"
proof -
  have "page_4kb_mult i + start = page_4kb_mult (page_4kb_count x)"
  proof -
    have "start = page_4kb_mult (page_4kb_count start)"
    proof -
      obtain a where "unat start = 4096 * a" using assms(2) by (auto simp: page_aligned_def elim!: dvdE)
      then show ?thesis
        using unsigned_less [of start, where ?'a = nat]
        by (simp add: page_4kb_mult_def page_4kb_count_def push_bit_eq_mult drop_bit_eq_div word_unat_eq_iff
            unat_word_ariths unat_div)
    qed
    then show ?thesis
      unfolding assms(1) [symmetric] by (simp add: page_4kb_mult_def push_bit_eq_mult algebra_simps)
  qed
  then have "bf_get noir_rmt_entry_high ''guest_pfn'' (page_4kb_mult i + start) = page_4kb_count x"
    by (simp add: bf_get_def layout)
      (rule bit_word_eqI, auto simp: slice_get_def page_4kb_count_def page_4kb_mult_def bit_simps dest: bit_imp_le_length)
  then show ?thesis
    by (simp add: assigned_def rmt_initial_entry_def rmt_owner_def bf_get_put_same bf_get_put_other rmt_low_size layout
        rmt_owner_defs of_flag_def)
qed


lemma used_Suc: "rmt_used m < rmt_slots \<Longrightarrow> unat (dir_count m + 1) = Suc (rmt_used m)"
  by (simp add: rmt_used_def rmt_slots_eq unat_word_ariths)

lemma aligned_sum:
  "unat start + unat len < 2 ^ 64 \<Longrightarrow> page_aligned start \<Longrightarrow> page_aligned len \<Longrightarrow>
     page_aligned (start + len) \<and> pfn (start + len) = pfn start + pfn len"
  by (auto simp: page_aligned_def pfn_def unat_range elim!: dvdE)

definition new_slot :: "u64 \<Rightarrow> u64 \<Rightarrow> noir_rmt_directory_entry" where
  "new_slot start len =
     \<lparr>rm_table = Some (map (\<lambda>i. rmt_initial_entry start (of_nat i)) [0..<unat (page_4kb_count len)]),
      hpa_start = start, hpa_end = start + len\<rparr>"

lemma new_slot_ok:
  assumes "unat start + unat len < 2 ^ 64" "page_aligned start" "page_aligned len" "0 < len"
  shows "slot_ok (new_slot start len)"
  using assms aligned_sum [OF assms(1-3)]
  by (auto simp: slot_ok_def new_slot_def word_less_nat_alt unat_range pfn_count [symmetric] unat_gt_0)

definition add_slot :: "reverse_mapping \<Rightarrow> noir_rmt_directory_entry \<Rightarrow> reverse_mapping" where
  "add_slot m e = m\<lparr>directory := (directory m)[rmt_used m := e], dir_count := dir_count m + 1\<rparr>"

lemma add_slot_used: "rmt_used m < rmt_slots \<Longrightarrow> rmt_used (add_slot m e) = Suc (rmt_used m)"
  using used_Suc [of m] by (simp add: add_slot_def rmt_used_def)

lemma add_slot_nth:
  "wf_rmt m \<Longrightarrow> rmt_used m < rmt_slots \<Longrightarrow>
     directory (add_slot m e) ! i = (if i = rmt_used m then e else directory m ! i)"
  by (simp add: add_slot_def wf_rmt_def)

lemma wf_add_slot:
  assumes wf: "wf_rmt m" and u: "rmt_used m < rmt_slots" and "slot_ok e"
    and ends: "\<forall>i<rmt_used m. hpa_end (directory m ! i) \<le> hpa_start e"
  shows "wf_rmt (add_slot m e)"
proof -
  have "length (directory (add_slot m e)) = rmt_slots" using wf by (simp add: add_slot_def wf_rmt_def)
  then show ?thesis
    using assms unfolding wf_rmt_def [of "add_slot m e"] add_slot_used [OF u] add_slot_nth [OF wf u]
    by (auto simp: less_Suc_eq wf_rmt_def)
qed

lemma lookup_add_slot:
  assumes wf: "wf_rmt m" and u: "rmt_used m < rmt_slots" and ok: "slot_ok e"
    and ends: "\<forall>i<rmt_used m. hpa_end (directory m ! i) \<le> hpa_start e"
  shows "rmt_lookup (add_slot m e) x =
    (if in_slot x e then nth_opt (the (rm_table e)) (pfn x - pfn (hpa_start e)) else rmt_lookup m x)"
proof -
  let ?m = "add_slot m e"
  have wf': "wf_rmt ?m" by (rule wf_add_slot [OF assms])
  note nth = add_slot_nth [OF wf u] and used = add_slot_used [OF u]
  show ?thesis
  proof (cases "in_slot x e")
    case True
    then have "rmt_lookup ?m x = rmt_deref ?m (rmt_used m, rmt_slot_index ?m x (rmt_used m))"
      by (intro lookup_slot(1) [OF wf']) (simp_all add: used nth)
    moreover have "rmt_slot_index ?m x (rmt_used m) = pfn x - pfn (hpa_start e)"
      using slot_index [of ?m "rmt_used m" x] ok True by (simp add: nth)
    ultimately show ?thesis
      using True ok by (auto simp: rmt_deref_def nth slot_ok_def)
  next
    case False
    show ?thesis
    proof (cases "rmt_lookup m x")
      case None
      then have "rmt_lookup ?m x = None"
        using False lookup_None [OF wf, of x] lookup_None [OF wf', of x] by (auto simp: used nth less_Suc_eq)
      then show ?thesis using None False by simp
    next
      case (Some y)
      then obtain i where i: "i < rmt_used m" "in_slot x (directory m ! i)"
        using lookup_None [OF wf, of x] by auto
      have "rmt_lookup ?m x = rmt_deref ?m (i, rmt_slot_index ?m x i)"
        using i by (intro lookup_slot(1) [OF wf']) (simp_all add: used nth)
      also have "\<dots> = rmt_lookup m x"
        using lookup_slot(1) [OF wf i] i(1) by (simp add: rmt_deref_def rmt_slot_index_def nth)
      finally show ?thesis using False by simp
    qed
  qed
qed

lemma callback_add_slot:
  assumes "wf_rmt m" "rmt_used m < rmt_slots"
  shows "nvc_enum_physical_range_callback True (start, len) (m, ac) = Some (add_slot m (new_slot start len), ac + 1)"
  using assms by (simp add: nvc_enum_physical_range_callback_def Let_def add_slot_def new_slot_def rmt_used_def wf_rmt_def)

lemma new_slot_lookup:
  assumes "unat start + unat len < 2 ^ 64" "page_aligned start" "page_aligned len" "0 < len" "in_slot x (new_slot start len)"
  shows "\<exists>e. nth_opt (the (rm_table (new_slot start len))) (pfn x - pfn start) = Some e \<and> host_page x e"
proof -
  have ok: "slot_ok (new_slot start len)" by (rule new_slot_ok [OF assms(1-4)])
  have p: "pfn start \<le> pfn x" "pfn x < pfn start + pfn len"
    using in_slot_pfn [OF ok, of x] assms(5) aligned_sum [OF assms(1-3)] by (auto simp: new_slot_def)
  have "page_4kb_count start + of_nat (pfn x - pfn start) = page_4kb_count x"
    using p(1) by (simp add: of_nat_diff pfn_count)
  then have "host_page x (rmt_initial_entry start (of_nat (pfn x - pfn start)))"
    by (rule host_page_initial) (rule assms)
  then show ?thesis
    using p by (auto simp: new_slot_def pfn_count)
qed


lemma in_ranges_Cons: "in_ranges ((ok, start, len) # rs) x \<longleftrightarrow> in_slot x (new_slot start len) \<or> in_ranges rs x"
  by (simp add: in_ranges_def in_slot_def new_slot_def)

lemma ranges_from_above: "ranges_from lo rs \<Longrightarrow> in_ranges rs x \<Longrightarrow> lo \<le> x"
proof (induction lo rs rule: ranges_from.induct)
  case (2 lo ok start len rs)
  have "start \<le> start + len"
    using 2(2) by (simp add: word_le_nat_alt unat_range)
  then show ?case
    using 2 by (auto simp: in_ranges_Cons in_slot_def new_slot_def)
qed (simp add: in_ranges_def)

lemma enum_identity:
  assumes "wf_rmt m" "rmt_used m + length rs \<le> rmt_slots" "\<forall>i<rmt_used m. hpa_end (directory m ! i) \<le> lo"
    "ranges_from lo rs" "list_all fst rs"
  shows "\<exists>m'. enum_physical_memory_ranges rs (m, ac) = Some (m', ac + of_nat (length rs)) \<and> wf_rmt m' \<and>
    rmt_used m' = rmt_used m + length rs \<and>
    (\<forall>x. if in_ranges rs x then \<exists>e. rmt_lookup m' x = Some e \<and> host_page x e else rmt_lookup m' x = rmt_lookup m x)"
  using assms
proof (induction rs arbitrary: m ac lo)
  case (Cons r rs)
  obtain start len where r: "r = (True, start, len)"
    using Cons.prems(5) by (cases r) auto
  let ?e = "new_slot start len"
  let ?m = "add_slot m ?e"
  have u: "rmt_used m < rmt_slots" using Cons.prems(2) by simp
  have rng: "lo \<le> start" "page_aligned start" "page_aligned len" "0 < len" "unat start + unat len < 2 ^ 64"
      "ranges_from (start + len) rs"
    using Cons.prems(4) by (simp_all add: r)
  have ok: "slot_ok ?e" by (rule new_slot_ok [OF rng(5,2,3,4)])
  have f: "hpa_start ?e = start" "hpa_end ?e = start + len" by (simp_all add: new_slot_def)
  have ends: "\<forall>i<rmt_used m. hpa_end (directory m ! i) \<le> hpa_start ?e"
    unfolding f using Cons.prems(3) rng(1) by (auto intro: order_trans)
  have le: "start \<le> start + len" using rng(5) by (simp add: word_le_nat_alt unat_range)
  have ends': "\<forall>i<rmt_used ?m. hpa_end (directory ?m ! i) \<le> start + len"
    using ends le by (auto simp: add_slot_used [OF u] add_slot_nth [OF Cons.prems(1) u] less_Suc_eq f intro: order_trans)
  have wf: "wf_rmt ?m" by (rule wf_add_slot [OF Cons.prems(1) u ok ends])
  have len: "rmt_used ?m + length rs \<le> rmt_slots" using Cons.prems(2) by (simp add: add_slot_used [OF u])
  have all: "list_all fst rs" using Cons.prems(5) by simp
  obtain m' where m': "enum_physical_memory_ranges rs (?m, ac + 1) = Some (m', ac + 1 + of_nat (length rs))" "wf_rmt m'"
      "rmt_used m' = rmt_used ?m + length rs"
      "\<And>x. if in_ranges rs x then \<exists>e. rmt_lookup m' x = Some e \<and> host_page x e else rmt_lookup m' x = rmt_lookup ?m x"
    using Cons.IH [OF wf len ends' rng(6) all] by blast
  have "if in_ranges (r # rs) x then \<exists>e. rmt_lookup m' x = Some e \<and> host_page x e
      else rmt_lookup m' x = rmt_lookup m x" for x
    using m'(4) [of x] lookup_add_slot [OF Cons.prems(1) u ok ends, of x]
      new_slot_lookup [OF rng(5,2,3,4), of x]
    by (auto simp: r in_ranges_Cons f split: if_splits)
  moreover have "enum_physical_memory_ranges (r # rs) (m, ac) = Some (m', ac + of_nat (length (r # rs)))"
    using m'(1) by (simp add: r callback_add_slot [OF Cons.prems(1) u])
  ultimately show ?case
    using m'(2,3) by (auto simp: add_slot_used [OF u])
qed (simp add: in_ranges_def)

lemma enum_counts:
  assumes "unat (dir_count m) + length rs < 2 ^ 64"
  shows "case enum_physical_memory_ranges rs (m, ac) of
      None \<Rightarrow> length (directory m) < unat (dir_count m) + length rs
    | Some (m', ac') \<Rightarrow> length (directory m') = length (directory m) \<and>
        unat (dir_count m') = unat (dir_count m) + length rs \<and> unat (dir_count m') \<le> max (unat (dir_count m)) (length (directory m)) \<and>
        ac' = ac + of_nat (length (filter fst rs))"
  using assms
proof (induction rs arbitrary: m ac)
  case (Cons r rs)
  obtain ok start len where r: "r = (ok, start, len)" by (cases r)
  show ?case
  proof (cases "unat (dir_count m) < length (directory m)")
    case False
    then show ?thesis by (simp add: r nvc_enum_physical_range_callback_def)
  next
    case True
    define m1 ac1 where "m1 = fst (the (nvc_enum_physical_range_callback ok (start, len) (m, ac)))"
      and "ac1 = snd (the (nvc_enum_physical_range_callback ok (start, len) (m, ac)))"
    have cb: "nvc_enum_physical_range_callback ok (start, len) (m, ac) = Some (m1, ac1)"
      using True by (simp add: m1_def ac1_def nvc_enum_physical_range_callback_def Let_def)
    have f: "directory m1 = (directory m)[unat (dir_count m) := directory m1 ! unat (dir_count m)]"
        "dir_count m1 = dir_count m + 1" "ac1 = (if ok then ac + 1 else ac)"
      using cb True by (auto simp: nvc_enum_physical_range_callback_def Let_def split: if_splits)
    have d: "length (directory m1) = length (directory m)" by (metis f(1) length_list_update)
    have n: "unat (dir_count m1) = Suc (unat (dir_count m))"
      using Cons.prems by (simp add: f(2) unat_word_ariths)
    have e: "enum_physical_memory_ranges (r # rs) (m, ac) = enum_physical_memory_ranges rs (m1, ac1)"
      by (simp add: r cb)
    have c: "ac1 + of_nat (length (filter fst rs)) = ac + of_nat (length (filter fst (r # rs)))"
      by (simp add: r f(3))
    show ?thesis
      using Cons.IH [of m1 ac1] Cons.prems True unfolding e c
      by (cases "enum_physical_memory_ranges rs (m1, ac1)") (auto simp: d n)
  qed
qed simp

lemma wf_empty: "wf_rmt \<lparr>directory = replicate rmt_slots empty_slot, dir_count = 0\<rparr>"
  by (simp add: wf_rmt_def rmt_used_def)

lemma build_counts:
  assumes "length rs < 2 ^ 64"
  shows "if length rs \<le> rmt_slots
    then \<exists>m. nvc_build_reverse_mapping_table True rs = Some (list_all fst rs, m)
    else nvc_build_reverse_mapping_table True rs = None"
proof -
  let ?m = "\<lparr>directory = replicate rmt_slots empty_slot, dir_count = 0\<rparr>"
  have e: "case enum_physical_memory_ranges rs (?m, 0) of
      None \<Rightarrow> rmt_slots < length rs
    | Some (m', ac') \<Rightarrow> unat (dir_count m') = length rs \<and> length rs \<le> rmt_slots \<and> ac' = of_nat (length (filter fst rs))"
    using enum_counts [of ?m rs 0] assms by (auto split: option.splits)
  show ?thesis
  proof (cases "enum_physical_memory_ranges rs (?m, 0)")
    case None
    then show ?thesis using e by (simp add: nvc_build_reverse_mapping_table_def)
  next
    case (Some r)
    obtain m' ac' where r: "r = (m', ac')" by (cases r)
    have c: "unat (dir_count m') = length rs" "length rs \<le> rmt_slots" "ac' = of_nat (length (filter fst rs))"
      using e Some by (simp_all add: r)
    have l: "length (filter fst rs) \<le> 128"
      using length_filter_le [of fst rs] c(2) unfolding rmt_slots_eq by (rule order_trans)
    have "(ucast ac' = dir_count m') = (length (filter fst rs) = length rs)"
      using l c by (simp add: word_unat_eq_iff rmt_slots_eq unat_of_nat unsigned_ucast_eq take_bit_nat_eq_self)
    also have "\<dots> = list_all fst rs"
      by (metis filter_True length_filter_less list_all_iff nat_neq_iff)
    finally show ?thesis
      using Some c(2) by (simp add: nvc_build_reverse_mapping_table_def r)
  qed
qed

end
