(* ===== verification/Rmt_Properties.thy ===== *)
theory Rmt_Properties
  imports Rmt_Build
begin

text \<open>The properties of the reverse-mapping table, each with a closed instance.\<close>

section \<open>Example\<close>

text \<open>Two ranges of physical memory: three pages from \<open>0x1000\<close> and one page at \<open>0x100000\<close>.\<close>

definition example_ranges :: "(bool \<times> u64 \<times> u64) list" where
  "example_ranges = [(True, 0x1000, 0x3000), (True, 0x100000, 0x1000)]"

definition example_rmt :: reverse_mapping where
  "example_rmt = snd (the (nvc_build_reverse_mapping_table True example_ranges))"

lemma example_ranges_ok: "ranges_from 0 example_ranges" "list_all fst example_ranges" "length example_ranges = 2"
  by (simp_all add: example_ranges_def page_aligned_def word_le_nat_alt word_less_nat_alt)

lemma build_ok:
  assumes "ranges_from 0 rs" "length rs \<le> rmt_slots" "list_all fst rs"
  shows "\<exists>m. nvc_build_reverse_mapping_table True rs = Some (True, m) \<and> wf_rmt m \<and> rmt_used m = length rs \<and>
    (\<forall>x. if in_ranges rs x then \<exists>e. rmt_lookup m x = Some e \<and> host_page x e else rmt_lookup m x = None)"
proof -
  let ?m = "\<lparr>directory = replicate rmt_slots empty_slot, dir_count = 0\<rparr>"
  have u: "rmt_used ?m = 0" by (simp add: rmt_used_def)
  have l: "rmt_lookup ?m x = None" for x by (simp add: lookup_None [OF wf_empty] u)
  obtain m where m: "enum_physical_memory_ranges rs (?m, 0) = Some (m, of_nat (length rs))" "wf_rmt m"
      "rmt_used m = length rs"
      "\<forall>x. if in_ranges rs x then \<exists>e. rmt_lookup m x = Some e \<and> host_page x e else rmt_lookup m x = None"
    using enum_identity [OF wf_empty, of rs 0 0] assms by (auto simp: u l)
  have "length rs < 2 ^ 64" using assms(2) by (simp add: rmt_slots_eq)
  then show ?thesis
    using build_counts [of rs] assms m by (auto simp: nvc_build_reverse_mapping_table_def)
qed

lemma example_rmt_ok:
  "wf_rmt example_rmt" "rmt_used example_rmt = 2"
  "\<exists>e. rmt_lookup example_rmt 0x2345 = Some e \<and> host_page 0x2345 e" "rmt_lookup example_rmt 0x5000 = None"
proof -
  have n: "length example_ranges \<le> rmt_slots" by (simp add: example_ranges_ok rmt_slots_eq)
  have r: "in_ranges example_ranges 0x2345" "\<not> in_ranges example_ranges 0x5000"
    by (simp_all add: in_ranges_def example_ranges_def)
  obtain m where m: "nvc_build_reverse_mapping_table True example_ranges = Some (True, m)" "wf_rmt m"
      "rmt_used m = length example_ranges"
      "\<forall>x. if in_ranges example_ranges x then \<exists>e. rmt_lookup m x = Some e \<and> host_page x e else rmt_lookup m x = None"
    using build_ok [OF example_ranges_ok(1) n example_ranges_ok(2)] by blast
  have e: "example_rmt = m" by (simp add: example_rmt_def m(1))
  show "wf_rmt example_rmt" "rmt_used example_rmt = 2"
    using m(2,3) by (simp_all add: e example_ranges_ok)
  show "\<exists>e. rmt_lookup example_rmt 0x2345 = Some e \<and> host_page 0x2345 e" "rmt_lookup example_rmt 0x5000 = None"
    using m(4) r unfolding e by metis+
qed

lemma lookup_not_stray:
  assumes wf: "wf_rmt m" and "rmt_lookup m hpa = Some e"
  shows "\<not> rmt_strays m hpa"
proof -
  obtain i where i: "i < rmt_used m" "in_slot hpa (directory m ! i)"
    using assms lookup_None [OF wf, of hpa] by auto
  have "hpa_start (directory m ! 0) \<le> hpa_start (directory m ! i)"
    using slots_ordered [OF wf, of 0 i] slot_less [OF wf, of 0] i(1) by (cases "i = 0"; simp; order)
  moreover have "hpa_end (directory m ! i) \<le> hpa_end (directory m ! (rmt_slots - 1))" if "rmt_used m = rmt_slots"
  proof (cases "i = rmt_slots - 1")
    case False
    then show ?thesis
      using slots_ordered [OF wf, of i "rmt_slots - 1"] slot_less [OF wf, of "rmt_slots - 1"] i(1) that
      by (simp add: rmt_slots_eq; order)
  qed simp
  ultimately show ?thesis
    using i(2) unfolding rmt_strays_def in_slot_def by (auto; order)
qed

section \<open>Properties\<close>

text \<open>\<open>nvc_build_reverse_mapping_table\<close> gives every page of every reported range to the subverted
  host: for up to 128 ranges it succeeds exactly when every table could be allocated, and then the
  directory satisfies its invariant, an address has an entry exactly when it is physical memory, and
  the entry has ASID 1, is not shared and names the page itself as the guest page.\<close>

theorem build_assigns_host:
  assumes "ranges_from 0 rs" "length rs \<le> rmt_slots"
  shows "\<exists>m. nvc_build_reverse_mapping_table True rs = Some (list_all fst rs, m) \<and>
    (list_all fst rs \<longrightarrow> wf_rmt m \<and>
       (\<forall>x. if in_ranges rs x then \<exists>e. rmt_lookup m x = Some e \<and> host_page x e else rmt_lookup m x = None))"
proof (cases "list_all fst rs")
  case True
  then show ?thesis using build_ok [OF assms True] by auto
next
  case False
  have "length rs < 2 ^ 64" using assms(2) by (simp add: rmt_slots_eq)
  then show ?thesis using build_counts [of rs] assms(2) False by auto
qed

theorem build_assigns_host_witness:
  "\<exists>m. nvc_build_reverse_mapping_table True example_ranges = Some (True, m) \<and> wf_rmt m \<and>
     (\<exists>e. rmt_lookup m 0x2345 = Some e \<and> host_page 0x2345 e)"
proof -
  have n: "length example_ranges \<le> rmt_slots" by (simp add: example_ranges_ok rmt_slots_eq)
  have r: "in_ranges example_ranges 0x2345" by (simp add: in_ranges_def example_ranges_def)
  obtain m where m: "nvc_build_reverse_mapping_table True example_ranges = Some (True, m)" "wf_rmt m"
      "\<forall>x. if in_ranges example_ranges x then \<exists>e. rmt_lookup m x = Some e \<and> host_page x e else rmt_lookup m x = None"
    using build_assigns_host [OF example_ranges_ok(1) n] example_ranges_ok(2) by auto
  have "\<exists>e. rmt_lookup m 0x2345 = Some e \<and> host_page 0x2345 e"
    using spec [OF m(3), of "0x2345"] by (simp only: r if_True)
  then show ?thesis using m(1,2) by blast
qed

text \<open>With more than 128 ranges of physical memory, \<open>nvc_enum_physical_range_callback\<close> writes past
  the page that holds the directory.\<close>

theorem build_overflows_directory:
  assumes "rmt_slots < length rs" "length rs < 2 ^ 64"
  shows "nvc_build_reverse_mapping_table True rs = None"
  using build_counts [OF assms(2)] assms(1) by simp

theorem build_overflows_directory_witness:
  "nvc_build_reverse_mapping_table True (replicate 129 (True, 0, 0x1000)) = None"
  by (rule build_overflows_directory) (simp_all add: rmt_slots_eq)

text \<open>The binary search of \<open>nvc_get_rmt_entry\<close> finds the entry that a linear search of the ranges
  finds; it returns the null pointer for an address that is not physical memory, but reads outside
  the directory when that address lies below the first range, or above the last one of a full
  directory (the upper bound starts one past the last slot and \<open>mid-1\<close> wraps at slot zero).\<close>

theorem get_rmt_entry_refines:
  assumes "wf_rmt m" "0 < rmt_used m"
  shows "case rmt_lookup m hpa of
      Some e \<Rightarrow> \<exists>p. nvc_get_rmt_entry m hpa = Some (Some p) \<and> rmt_deref m p = Some e
    | None \<Rightarrow> nvc_get_rmt_entry m hpa =
        (if hpa < hpa_start (directory m ! 0) \<or>
            rmt_used m = rmt_slots \<and> hpa_end (directory m ! (rmt_slots - 1)) \<le> hpa
         then None else Some None)"
  using get_entry_cases [OF assms, of hpa] by (simp add: rmt_strays_def split: option.splits)

theorem get_rmt_entry_refines_witness:
  "\<exists>p e. nvc_get_rmt_entry example_rmt 0x2345 = Some (Some p) \<and> rmt_deref example_rmt p = Some e \<and> host_page 0x2345 e"
  using get_rmt_entry_refines [of example_rmt "0x2345"] example_rmt_ok by auto

text \<open>\<open>nvc_configure_reverse_mapping\<close> assigns exactly one page: the entry of the page of \<open>hpa\<close> has the
  new ASID, sharing, owner and guest page, every other page keeps its entry, and the directory keeps
  its invariant.\<close>

theorem configure_assigns_page:
  assumes "wf_rmt m" "0 < rmt_used m" "rmt_lookup m hpa = Some e"
  shows "\<exists>m' e'. nvc_configure_reverse_mapping m hpa gpa asid shared ow = Some m' \<and> wf_rmt m' \<and>
    assigned gpa asid shared ow e' \<and>
    (\<forall>x. rmt_lookup m' x = (if page_4kb_count x = page_4kb_count hpa then Some e' else rmt_lookup m x))"
  using configure_cases [OF assms(1,2), of hpa gpa asid shared ow] assms(3)
  by (auto simp: pfn_eq intro!: exI [of _ "rmt_write gpa asid shared ow e"])

theorem configure_assigns_page_witness:
  "\<exists>m' e'. nvc_configure_reverse_mapping example_rmt 0x2345 0x7000 5 False noir_nsv_rmt_secure_guest = Some m' \<and>
     rmt_lookup m' 0x2fff = Some e' \<and> assigned 0x7000 5 False noir_nsv_rmt_secure_guest e'"
proof -
  obtain e where "rmt_lookup example_rmt 0x2345 = Some e" using example_rmt_ok by blast
  from configure_assigns_page [OF example_rmt_ok(1) _ this, of "0x7000" 5 False noir_nsv_rmt_secure_guest]
  show ?thesis
    by (auto simp: example_rmt_ok(2) page_4kb_count_def)
qed

text \<open>\<open>nvc_validate_single_rmt_reassignment\<close> decides by the current owner of the page: it refuses
  memory that is not physical, pages of NoirVisor, secure pages that would become secure pages of
  another guest in one step, and secure pages that would be shared.\<close>

theorem validate_decides:
  assumes "wf_rmt m" "0 < rmt_used m" "\<not> rmt_strays m hpa"
  shows "nvc_validate_single_rmt_reassignment m hpa gpa asid shared ow =
    Some (\<exists>e. rmt_lookup m hpa = Some e \<and> may_reassign ow shared e)"
  using validate_cases [OF assms(1,2), of hpa gpa asid shared ow] assms(3)
  by (simp add: may_reassign_def split: option.splits)

theorem validate_decides_witness:
  "nvc_validate_single_rmt_reassignment example_rmt 0x2345 0 0 True noir_nsv_rmt_secure_guest = Some False"
proof -
  have z: "0 < rmt_used example_rmt" by (simp add: example_rmt_ok)
  obtain e where e: "rmt_lookup example_rmt 0x2345 = Some e" using example_rmt_ok by blast
  have s: "\<not> rmt_strays example_rmt 0x2345"
    by (rule lookup_not_stray [OF example_rmt_ok(1) e])
  show ?thesis
    using validate_decides [OF example_rmt_ok(1) z s, of 0 0 True noir_nsv_rmt_secure_guest]
    by (simp add: may_reassign_def)
qed

text \<open>C21: No sequence of reassignment hypercalls takes a page from NoirVisor: whatever batches the
  hypervisor accepts or refuses, the entry of a page that NoirVisor owns never changes, and the
  directory keeps its invariant.\<close>

theorem noirvisor_pages_stay:
  assumes "rmt_run m m'" "wf_rmt m" "0 < rmt_used m" "rmt_lookup m x = Some e" "rmt_owner e = noir_nsv_rmt_noirvisor"
  shows "wf_rmt m' \<and> rmt_lookup m' x = Some e"
  using assms
proof (induction rule: rmt_run.induct)
  case (reassign m1 ps asid shared ow ok m2)
  have wf: "wf_rmt m1" "0 < rmt_used m1" using rmt_run_wf [OF reassign.hyps(1)] reassign.prems by simp_all
  have l: "rmt_lookup m1 x = Some e" using reassign by simp
  have r: "wf_rmt m2 \<and> rmt_used m2 = rmt_used m1 \<and> rmt_strays m2 = rmt_strays m1 \<and>
     (if ok then batch_effect ps asid shared ow x (rmt_lookup m1 x) (rmt_lookup m2 x) \<and>
             (in_batch ps x \<longrightarrow> (\<exists>e. rmt_lookup m1 x = Some e \<and> may_reassign ow shared e))
      else m2 = m1)"
    by (rule reassign_cases [OF wf reassign.hyps(2)])
  show ?case
    using r l reassign.prems(4)
    by (cases ok; cases "in_batch ps x") (auto simp: batch_effect_def may_reassign_def)
qed simp

theorem noirvisor_pages_stay_witness:
  "\<exists>m e. nvc_configure_reverse_mapping example_rmt 0x2345 0x2345 0 True noir_nsv_rmt_noirvisor = Some m \<and>
     (\<forall>m'. rmt_run m m' \<longrightarrow> rmt_lookup m' 0x2345 = Some e)"
proof -
  obtain e0 where e0: "rmt_lookup example_rmt 0x2345 = Some e0" using example_rmt_ok by blast
  obtain m where m: "nvc_configure_reverse_mapping example_rmt 0x2345 0x2345 0 True noir_nsv_rmt_noirvisor = Some m"
      "wf_rmt m" "rmt_used m = rmt_used example_rmt"
      "rmt_lookup m 0x2345 = Some (rmt_write 0x2345 0 True noir_nsv_rmt_noirvisor e0)"
    using configure_cases [OF example_rmt_ok(1), of "0x2345" "0x2345" 0 True noir_nsv_rmt_noirvisor] e0 example_rmt_ok(2)
    by auto
  have z: "0 < rmt_used m" by (simp add: m(3) example_rmt_ok)
  show ?thesis
    using m(1) noirvisor_pages_stay [OF _ m(2) z m(4)] by auto
qed

text \<open>A page of a secure guest cannot pass to another secure guest in one batch: a successful
  reassignment to a secure guest leaves every page that was secure already with its old entry.\<close>

theorem secure_pages_not_stolen:
  assumes "wf_rmt m" "0 < rmt_used m" "nsv_reassign_rmt m ps asid shared noir_nsv_rmt_secure_guest = Some (ok, m')"
    and "rmt_lookup m x = Some e" "rmt_owner e = noir_nsv_rmt_secure_guest"
  shows "rmt_lookup m' x = Some e"
  using reassign_cases [OF assms(1-3), of x] assms(4,5)
  by (cases ok; cases "in_batch ps x") (auto simp: batch_effect_def may_reassign_def)

theorem secure_pages_not_stolen_witness:
  "\<exists>m e. nvc_configure_reverse_mapping example_rmt 0x2345 0x7000 5 False noir_nsv_rmt_secure_guest = Some m \<and>
     (\<forall>ok m'. nsv_reassign_rmt m [(0x2000, 0x9000)] 6 False noir_nsv_rmt_secure_guest = Some (ok, m') \<longrightarrow>
        rmt_lookup m' 0x2345 = Some e)"
proof -
  obtain e0 where e0: "rmt_lookup example_rmt 0x2345 = Some e0" using example_rmt_ok by blast
  obtain m where m: "nvc_configure_reverse_mapping example_rmt 0x2345 0x7000 5 False noir_nsv_rmt_secure_guest = Some m"
      "wf_rmt m" "rmt_used m = rmt_used example_rmt"
      "rmt_lookup m 0x2345 = Some (rmt_write 0x7000 5 False noir_nsv_rmt_secure_guest e0)"
    using configure_cases [OF example_rmt_ok(1), of "0x2345" "0x7000" 5 False noir_nsv_rmt_secure_guest] e0 example_rmt_ok(2)
    by auto
  have z: "0 < rmt_used m" by (simp add: m(3) example_rmt_ok)
  show ?thesis
    using m(1) secure_pages_not_stolen [OF m(2) z _ m(4)] by auto
qed

end
