(* ===== verification/Npt_Host.thy ===== *)
theory Npt_Host
  imports Npt_Map
begin

text \<open>
  The nested paging of the subverted host on AMD-V (\<open>svm_core/svm_npt.c\<close>): an identity map of huge
  pages whose regions are split on demand, and the protection of the hypervisor's own pages.
  \<open>None\<close> is undefined behaviour of the C code: reading through a null or freed pointer, or indexing
  the table of huge pages beyond its 2 MiB.
\<close>

section \<open>State\<close>

text \<open>\<open>pdpt\<close> is the contiguous block of 512 page-directory-pointer tables.\<close>

record npt_manager =
  ncr3 :: entries
  ncr3_pa :: u64
  pdpt :: "u64 \<Rightarrow> u64"
  pdpt_pa :: u64
  pdes :: "npt_descriptor list"
  ptes :: "npt_descriptor list"

text \<open>
  The pointer to a descriptor that a split returns: null, a descriptor of the list, or memory that
  the function has already freed (it frees the descriptor when the page of the table cannot be
  allocated, and returns the pointer all the same).
\<close>

datatype desc_ref = Null | Freed | Desc nat

definition set_pdpt :: "npt_manager \<Rightarrow> u64 \<Rightarrow> u64 \<Rightarrow> npt_manager option" where
  "set_pdpt m index e = (if index < 0x40000 then Some (m\<lparr>pdpt := (pdpt m)(index := e)\<rparr>) else None)"

section \<open>Splitting\<close>

definition fresh_pde :: "u64 \<Rightarrow> u64" where
  "fresh_pde frame =
     bf_put amd64_npt_large_pde ''page_base'' frame
       (bf_put amd64_npt_large_pde ''no_execute'' 0 (bf_put amd64_npt_large_pde ''large_pde'' 1
         (bf_put amd64_npt_large_pde ''user'' 1 (bf_put amd64_npt_large_pde ''write'' 1
           (bf_put amd64_npt_large_pde ''present'' 1 0)))))"

definition fresh_pte :: "u64 \<Rightarrow> u64" where
  "fresh_pte frame =
     bf_put amd64_npt_pte ''page_base'' frame
       (bf_put amd64_npt_pte ''no_execute'' 0 (bf_put amd64_npt_pte ''user'' 1
         (bf_put amd64_npt_pte ''write'' 1 (bf_put amd64_npt_pte ''present'' 1 0))))"

definition split_desc :: "nat \<Rightarrow> (u64 \<Rightarrow> u64) \<Rightarrow> u64 \<Rightarrow> u64 \<Rightarrow> npt_descriptor" where
  "split_desc shift leaf p index =
     \<lparr>virt = (\<lambda>i. leaf (push_bit 9 index + ucast i)), phys = p, gpa_start = push_bit shift (push_bit 9 index)\<rparr>"

definition link_table :: "bf_layout \<Rightarrow> string \<Rightarrow> u64 \<Rightarrow> u64 \<Rightarrow> u64" where
  "link_table L base p e = bf_put L base (page_4kb_count p) (bf_put L ''reserved1'' 0 e)"

definition find_or_make_pde :: "npt_manager \<Rightarrow> u64 \<Rightarrow> bool \<Rightarrow> allocs \<Rightarrow> desc_ref \<times> npt_manager \<times> allocs" where
  "find_or_make_pde m gpa alloc al =
     (case find_desc page_1gb_size gpa (pdes m) of
        Some k \<Rightarrow> (Desc k, m, al)
      | None \<Rightarrow>
          if \<not> alloc then (Null, m, al)
          else (case next_pool al of
            (False, al1) \<Rightarrow> (Null, m, al1)
          | (True, al1) \<Rightarrow>
              (case next_page al1 of
                 (None, al2) \<Rightarrow> (Freed, m, al2)
               | (Some p, al2) \<Rightarrow>
                   (Desc (length (pdes m)), m\<lparr>pdes := pdes m @ [split_desc 21 fresh_pde p (page_1gb_count gpa)]\<rparr>, al2))))"

definition nvc_npt_split_pdpte :: "npt_manager \<Rightarrow> u64 \<Rightarrow> bool \<Rightarrow> bool \<Rightarrow> allocs \<Rightarrow> (desc_ref \<times> npt_manager \<times> allocs) option" where
  "nvc_npt_split_pdpte m gpa host alloc al =
     (case find_or_make_pde m gpa alloc al of (d, m1, al1) \<Rightarrow>
        if \<not> host then Some (d, m1, al1)
        else (case d of
          Desc k \<Rightarrow>
            map_option (\<lambda>m2. (d, m2, al1))
              (set_pdpt m1 (page_1gb_count gpa)
                (link_table amd64_npt_pdpte ''pde_base'' (phys (pdes m1 ! k)) (pdpt m1 (page_1gb_count gpa))))
        | _ \<Rightarrow> None))"

definition set_pde :: "npt_manager \<Rightarrow> nat \<Rightarrow> 9 word \<Rightarrow> u64 \<Rightarrow> npt_manager" where
  "set_pde m k i e = m\<lparr>pdes := set_entry (pdes m) k i e\<rparr>"

definition set_pte :: "npt_manager \<Rightarrow> nat \<Rightarrow> 9 word \<Rightarrow> u64 \<Rightarrow> npt_manager" where
  "set_pte m k i e = m\<lparr>ptes := set_entry (ptes m) k i e\<rparr>"

text \<open>The page of the table is allocated before the directory is split.\<close>

definition find_or_make_pte ::
  "npt_manager \<Rightarrow> u64 \<Rightarrow> bool \<Rightarrow> bool \<Rightarrow> allocs \<Rightarrow> (desc_ref \<times> npt_manager \<times> allocs) option" where
  "find_or_make_pte m gpa host alloc al =
     (case find_desc page_2mb_size gpa (ptes m) of
        Some k \<Rightarrow> Some (Desc k, m, al)
      | None \<Rightarrow>
          if \<not> alloc then Some (Null, m, al)
          else (case next_pool al of
            (False, al1) \<Rightarrow> Some (Null, m, al1)
          | (True, al1) \<Rightarrow>
              (case next_page al1 of
                 (None, al2) \<Rightarrow> Some (Freed, m, al2)
               | (Some p, al2) \<Rightarrow>
                   (case nvc_npt_split_pdpte m gpa host True al2 of
                      None \<Rightarrow> None
                    | Some (Null, m1, al3) \<Rightarrow> Some (Freed, m1, al3)
                    | Some (_, m1, al3) \<Rightarrow>
                        Some (Desc (length (ptes m1)),
                              m1\<lparr>ptes := ptes m1 @ [split_desc 12 fresh_pte p (page_2mb_count gpa)]\<rparr>, al3)))))"

definition nvc_npt_split_pde :: "npt_manager \<Rightarrow> u64 \<Rightarrow> bool \<Rightarrow> bool \<Rightarrow> allocs \<Rightarrow> (desc_ref \<times> npt_manager \<times> allocs) option" where
  "nvc_npt_split_pde m gpa host alloc al =
     (case find_or_make_pte m gpa host alloc al of
        None \<Rightarrow> None
      | Some (t, m1, al1) \<Rightarrow>
          if \<not> host then Some (t, m1, al1)
          else (case nvc_npt_split_pdpte m1 gpa host alloc al1 of
            None \<Rightarrow> None
          | Some (Desc k, m2, al2) \<Rightarrow>
              (let i = page_entry_index64 (page_2mb_count gpa) in
               case t of
                 Desc j \<Rightarrow> Some (t, set_pde m2 k i
                     (link_table amd64_npt_pde ''pte_base'' (phys (ptes m2 ! j)) (virt (pdes m2 ! k) i)), al2)
               | _ \<Rightarrow> None)
          | Some (Freed, m2, al2) \<Rightarrow> None
          | Some (Null, m2, al2) \<Rightarrow> Some (t, m2, al2)))"

section \<open>Updating the rights of a page\<close>

definition put_rights :: "bf_layout \<Rightarrow> bool \<Rightarrow> bool \<Rightarrow> bool \<Rightarrow> u64 \<Rightarrow> u64" where
  "put_rights L r w x e =
     bf_put L ''no_execute'' (of_flag (\<not> x)) (bf_put L ''write'' (of_flag w) (bf_put L ''present'' (of_flag r) e))"

definition nvc_npt_update_pdpte ::
  "npt_manager \<Rightarrow> u64 \<Rightarrow> u64 \<Rightarrow> bool \<Rightarrow> bool \<Rightarrow> bool \<Rightarrow> bool \<Rightarrow> bool \<Rightarrow> allocs \<Rightarrow> (bool \<times> npt_manager \<times> allocs) option" where
  "nvc_npt_update_pdpte m hpa gpa r w x h alloc al =
     (let index = page_1gb_count gpa in
      if h then
        map_option (\<lambda>m1. (True, m1, al))
          (set_pdpt m index (put_rights amd64_npt_pdpte r w x
            (bf_put amd64_npt_huge_pdpte ''page_base'' (page_1gb_count hpa)
              (bf_put amd64_npt_huge_pdpte ''huge_pdpte'' 1 (pdpt m index)))))
      else
        (case nvc_npt_split_pdpte m gpa True alloc al of
           None \<Rightarrow> None
         | Some (Null, m1, al1) \<Rightarrow> Some (False, m1, al1)
         | Some (Freed, m1, al1) \<Rightarrow> None
         | Some (Desc k, m1, al1) \<Rightarrow>
             map_option (\<lambda>m2. (True, m2, al1))
               (set_pdpt m1 index (put_rights amd64_npt_pdpte r w x
                 (link_table amd64_npt_pdpte ''pde_base'' (phys (pdes m1 ! k)) (pdpt m1 index))))))"

definition nvc_npt_update_pde ::
  "npt_manager \<Rightarrow> u64 \<Rightarrow> u64 \<Rightarrow> bool \<Rightarrow> bool \<Rightarrow> bool \<Rightarrow> bool \<Rightarrow> bool \<Rightarrow> allocs \<Rightarrow> (bool \<times> npt_manager \<times> allocs) option" where
  "nvc_npt_update_pde m hpa gpa r w x l alloc al =
     (let i = gpa_index ''pde_offset'' gpa in
      case nvc_npt_split_pdpte m gpa True alloc al of
        None \<Rightarrow> None
      | Some (Null, m1, al1) \<Rightarrow> Some (False, m1, al1)
      | Some (Freed, m1, al1) \<Rightarrow> None
      | Some (Desc k, m1, al1) \<Rightarrow>
          if l then
            Some (True, set_pde m1 k i (put_rights amd64_npt_pde r w x
              (bf_put amd64_npt_large_pde ''page_base'' (page_2mb_count hpa)
                (bf_put amd64_npt_large_pde ''large_pde'' 1 (virt (pdes m1 ! k) i)))), al1)
          else
            (case nvc_npt_split_pde m1 gpa True alloc al1 of
               None \<Rightarrow> None
             | Some (Null, m2, al2) \<Rightarrow> Some (False, m2, al2)
             | Some (Freed, m2, al2) \<Rightarrow> None
             | Some (Desc j, m2, al2) \<Rightarrow>
                 Some (True, set_pde m2 k i (put_rights amd64_npt_pde r w x
                   (link_table amd64_npt_pde ''pte_base'' (phys (ptes m2 ! j)) (virt (pdes m2 ! k) i))), al2)))"

definition nvc_npt_update_pte ::
  "npt_manager \<Rightarrow> u64 \<Rightarrow> u64 \<Rightarrow> bool \<Rightarrow> bool \<Rightarrow> bool \<Rightarrow> bool \<Rightarrow> allocs \<Rightarrow> (bool \<times> npt_manager \<times> allocs) option" where
  "nvc_npt_update_pte m hpa gpa r w x alloc al =
     (let i = gpa_index ''pte_offset'' gpa in
      case nvc_npt_split_pde m gpa True alloc al of
        None \<Rightarrow> None
      | Some (Null, m1, al1) \<Rightarrow> Some (False, m1, al1)
      | Some (Freed, m1, al1) \<Rightarrow> None
      | Some (Desc j, m1, al1) \<Rightarrow>
          Some (True, set_pte m1 j i (bf_put amd64_npt_pte ''page_base'' (page_4kb_count hpa)
            (put_rights amd64_npt_pte r w x (virt (ptes m1 ! j) i))), al1))"

section \<open>The identity map\<close>

definition identity_pdpte :: "u64 \<Rightarrow> u64" where
  "identity_pdpte k =
     bf_put amd64_npt_huge_pdpte ''page_base'' k
       (bf_put amd64_npt_huge_pdpte ''huge_pdpte'' 1 (bf_put amd64_npt_huge_pdpte ''user'' 1
         (bf_put amd64_npt_huge_pdpte ''write'' 1 (bf_put amd64_npt_huge_pdpte ''present'' 1 0))))"

definition identity_pml4e :: "u64 \<Rightarrow> u64 \<Rightarrow> u64" where
  "identity_pml4e pa i =
     bf_put amd64_npt_pml4e ''pdpte_base'' (drop_bit 12 pa + i)
       (bf_put amd64_npt_pml4e ''user'' 1 (bf_put amd64_npt_pml4e ''write'' 1 (bf_put amd64_npt_pml4e ''present'' 1 0)))"

text \<open>\<open>block\<close> is the outcome of the allocation of the 2-MiB block. A failure frees what was allocated and
  returns the null pointer.\<close>

definition nvc_npt_build_identity_map :: "u64 option \<Rightarrow> allocs \<Rightarrow> npt_manager option \<times> allocs" where
  "nvc_npt_build_identity_map block al =
     (case next_pool al of
        (False, al1) \<Rightarrow> (None, al1)
      | (True, al1) \<Rightarrow>
          (case next_page al1 of
             (None, al2) \<Rightarrow> (None, al2)
           | (Some p, al2) \<Rightarrow>
               (case block of
                  None \<Rightarrow> (None, al2)
                | Some q \<Rightarrow>
                    (Some \<lparr>ncr3 = (\<lambda>i. identity_pml4e q (ucast i)), ncr3_pa = p, pdpt = identity_pdpte, pdpt_pa = q,
                           pdes = [], ptes = []\<rparr>, al2))))"

section \<open>Protection of the hypervisor\<close>

record svm_vcpu_pages =
  hsave_pa :: u64
  vmcb_pa :: u64
  hvmcb_pa :: u64

text \<open>The reverse-mapping directory matters here by the addresses of its tables and their ranges.\<close>

record svm_hvm_pages =
  virtual_cpus :: "svm_vcpu_pages list"
  msrpm_pa :: u64
  iopm_pa :: u64
  rmd_directory_pa :: u64
  rmd_tables :: "(u64 \<times> u64 \<times> u64) list"

type_synonym npt_step = "bool \<times> npt_manager \<times> allocs"

text \<open>\<open>result&=nvc_npt_update_pte(nptm,hpa,gpa,...)\<close>\<close>

definition and_update_pte :: "u64 \<Rightarrow> u64 \<Rightarrow> bool \<Rightarrow> bool \<Rightarrow> bool \<Rightarrow> npt_step \<Rightarrow> npt_step option" where
  "and_update_pte hpa gpa r w x s =
     (case s of (res, m, al) \<Rightarrow>
        map_option (\<lambda>(b, m1, al1). (res \<and> b, m1, al1)) (nvc_npt_update_pte m hpa gpa r w x True al))"

fun seq_steps :: "(npt_step \<Rightarrow> npt_step option) list \<Rightarrow> npt_step \<Rightarrow> npt_step option" where
  "seq_steps [] s = Some s"
| "seq_steps (f # fs) s = (case f s of None \<Rightarrow> None | Some s1 \<Rightarrow> seq_steps fs s1)"

text \<open>The loops over the lists of tables run while the lists may grow: \<open>j\<close> is the position of \<open>cur\<close>.\<close>

fun protect_pdes :: "nat \<Rightarrow> u64 \<Rightarrow> nat \<Rightarrow> npt_step \<Rightarrow> npt_step option" where
  "protect_pdes 0 blank j s = None"
| "protect_pdes (Suc fuel) blank j s =
     (case s of (res, m, al) \<Rightarrow>
        if j < length (pdes m)
        then (case and_update_pte (phys (pdes m ! j)) blank True True True s of
                None \<Rightarrow> None | Some s1 \<Rightarrow> protect_pdes fuel blank (Suc j) s1)
        else Some s)"

fun protect_ptes :: "nat \<Rightarrow> u64 \<Rightarrow> nat \<Rightarrow> npt_step \<Rightarrow> npt_step option" where
  "protect_ptes 0 blank j s = None"
| "protect_ptes (Suc fuel) blank j s =
     (case s of (res, m, al) \<Rightarrow>
        if j < length (ptes m)
        then (case and_update_pte (phys (ptes m ! j)) blank True True True s of
                None \<Rightarrow> None | Some s1 \<Rightarrow> protect_ptes fuel blank (Suc j) s1)
        else Some s)"

text \<open>\<open>phys\<close> runs over the pages of a table of \<open>n\<close> 16-byte entries: one page per 256 entries.\<close>

definition table_pages :: "u64 \<times> u64 \<times> u64 \<Rightarrow> u64 list" where
  "table_pages t =
     (case t of (pa, start, end_) \<Rightarrow>
        map (\<lambda>i. pa + page_4kb_mult (of_nat i)) [0..<(unat (page_4kb_count (end_ - start)) * 16 + 4095) div 4096])"

definition vcpu_steps :: "svm_hvm_pages \<Rightarrow> u64 \<Rightarrow> (npt_step \<Rightarrow> npt_step option) list" where
  "vcpu_steps hv blank =
     concat (map (\<lambda>v. [and_update_pte (msrpm_pa hv) blank True True True,
                       and_update_pte (hsave_pa v) blank True True True,
                       and_update_pte (vmcb_pa v) blank True True True]) (virtual_cpus hv))"

definition rmt_steps :: "svm_hvm_pages \<Rightarrow> (npt_step \<Rightarrow> npt_step option) list" where
  "rmt_steps hv =
     and_update_pte (rmd_directory_pa hv) (rmd_directory_pa hv) True False True #
     map (\<lambda>pa. and_update_pte pa pa True False True) (concat (map table_pages (rmd_tables hv)))"

definition and_update_pde :: "u64 \<Rightarrow> bool \<Rightarrow> bool \<Rightarrow> bool \<Rightarrow> npt_step \<Rightarrow> npt_step option" where
  "and_update_pde pa r w x s =
     (case s of (res, m, al) \<Rightarrow>
        map_option (\<lambda>(b, m1, al1). (res \<and> b, m1, al1)) (nvc_npt_update_pde m pa pa r w x True True al))"

text \<open>\<open>blank_page\<close> is the first page the function allocates; \<open>fuel\<close> bounds the loops over the tables.\<close>

definition nvc_npt_protect_critical_hypervisor :: "nat \<Rightarrow> svm_hvm_pages \<Rightarrow> npt_manager \<Rightarrow> allocs \<Rightarrow> npt_step option" where
  "nvc_npt_protect_critical_hypervisor fuel hv m al =
     (case next_page al of
        (None, al1) \<Rightarrow> Some (False, m, al1)
      | (Some blank, al1) \<Rightarrow>
          seq_steps
            (vcpu_steps hv blank @
             [and_update_pte (ncr3_pa m) blank True True True,
              and_update_pde (pdpt_pa m) True False True,
              protect_pdes fuel blank 0, protect_ptes fuel blank 0] @
             rmt_steps hv)
            (True, m, al1))"

end
