(* ===== verification/Npt_Host_Walk.thy ===== *)
theory Npt_Host_Walk
  imports Npt_Host
begin

text \<open>
  The translation that the processor performs with the nested paging of the host (a walk of four
  levels), the invariant that ties the levels together, and the walk in terms of the descriptors
  alone: a table that is not linked yet holds what the huge or large page above it says.
\<close>

section \<open>The walk\<close>

type_synonym rights = "bool \<times> bool \<times> bool"

definition rights :: "u64 \<Rightarrow> rights" where
  "rights e = (bf_flag amd64_npt_general_entry ''present'' e, bf_flag amd64_npt_general_entry ''write'' e,
     \<not> bf_flag amd64_npt_general_entry ''no_execute'' e)"

fun meet :: "rights \<Rightarrow> rights \<times> u64 \<Rightarrow> rights \<times> u64" where
  "meet (r, w, x) ((r', w', x'), a) = ((r \<and> r', w \<and> w', x \<and> x'), a)"

abbreviation full_access :: rights where "full_access \<equiv> (True, True, True)"
abbreviation fault :: "rights \<times> u64" where "fault \<equiv> ((False, False, False), 0)"

abbreviation huge :: "u64 \<Rightarrow> bool" where "huge \<equiv> bf_flag amd64_npt_huge_pdpte ''huge_pdpte''"
abbreviation large :: "u64 \<Rightarrow> bool" where "large \<equiv> bf_flag amd64_npt_large_pde ''large_pde''"

definition pte_walk :: "entries \<Rightarrow> u64 \<Rightarrow> rights \<times> u64" where
  "pte_walk t gpa = (let e = t (gpa_index ''pte_offset'' gpa) in
     (rights e, page_4kb_mult (bf_get amd64_npt_pte ''page_base'' e) OR page_4kb_offset gpa))"

definition pde_walk :: "npt_manager \<Rightarrow> entries \<Rightarrow> u64 \<Rightarrow> rights \<times> u64" where
  "pde_walk m t gpa = (let e = t (gpa_index ''pde_offset'' gpa) in
     if large e then (rights e, page_2mb_mult (bf_get amd64_npt_large_pde ''page_base'' e) OR page_2mb_offset gpa)
     else (case table_at (ptes m) (page_4kb_mult (bf_get amd64_npt_pde ''pte_base'' e)) of
             None \<Rightarrow> fault
           | Some t1 \<Rightarrow> meet (rights e) (pte_walk t1 gpa)))"

definition pdpte_walk :: "npt_manager \<Rightarrow> u64 \<Rightarrow> u64 \<Rightarrow> rights \<times> u64" where
  "pdpte_walk m e gpa =
     (if huge e then (rights e, page_1gb_mult (bf_get amd64_npt_huge_pdpte ''page_base'' e) OR page_1gb_offset gpa)
      else (case table_at (pdes m) (page_4kb_mult (bf_get amd64_npt_pdpte ''pde_base'' e)) of
              None \<Rightarrow> fault
            | Some t2 \<Rightarrow> meet (rights e) (pde_walk m t2 gpa)))"

text \<open>An entry of the page-map level 4 table names one of the 512 tables of the block.\<close>

definition host_walk :: "npt_manager \<Rightarrow> u64 \<Rightarrow> rights \<times> u64" where
  "host_walk m gpa =
     (let e = ncr3 m (gpa_index ''pml4e_offset'' gpa);
          n = bf_get amd64_npt_pml4e ''pdpte_base'' e - page_4kb_count (pdpt_pa m)
      in if n < 512
         then meet (rights e) (pdpte_walk m (pdpt m (push_bit 9 n + ucast (gpa_index ''pdpte_offset'' gpa))) gpa)
         else fault)"

section \<open>Invariant\<close>

definition pdpt_ok :: "npt_manager \<Rightarrow> u64 \<Rightarrow> bool" where
  "pdpt_ok m gpa \<longleftrightarrow>
     (let e = pdpt m (drop_bit 30 gpa);
          identity = huge e \<and> bf_get amd64_npt_huge_pdpte ''page_base'' e = drop_bit 30 gpa
      in case table_of 30 (pdes m) gpa of
           None \<Rightarrow> identity
         | Some d \<Rightarrow> identity \<and> virt d (ucast (drop_bit 21 gpa)) = fresh_pde (drop_bit 21 gpa) \<or>
             \<not> huge e \<and> page_4kb_mult (bf_get amd64_npt_pdpte ''pde_base'' e) = phys d)"

definition pd_ok :: "npt_manager \<Rightarrow> u64 \<Rightarrow> bool" where
  "pd_ok m gpa \<longleftrightarrow>
     (case table_of 30 (pdes m) gpa of
        None \<Rightarrow>
          (case table_of 21 (ptes m) gpa of
             None \<Rightarrow> True
           | Some t \<Rightarrow> virt t (ucast (drop_bit 12 gpa)) = fresh_pte (drop_bit 12 gpa))
      | Some d \<Rightarrow>
          (let e = virt d (ucast (drop_bit 21 gpa));
               identity = large e \<and> bf_get amd64_npt_large_pde ''page_base'' e = drop_bit 21 gpa
           in case table_of 21 (ptes m) gpa of
                None \<Rightarrow> identity
              | Some t \<Rightarrow> identity \<and> virt t (ucast (drop_bit 12 gpa)) = fresh_pte (drop_bit 12 gpa) \<or>
                  \<not> large e \<and> page_4kb_mult (bf_get amd64_npt_pde ''pte_base'' e) = phys t))"

definition pml4_ok :: "npt_manager \<Rightarrow> bool" where
  "pml4_ok m \<longleftrightarrow> (\<forall>i. rights (ncr3 m i) = full_access \<and>
     bf_get amd64_npt_pml4e ''pdpte_base'' (ncr3 m i) = page_4kb_count (pdpt_pa m) + ucast i)"

definition wf_host :: "npt_manager \<Rightarrow> bool" where
  "wf_host m \<longleftrightarrow> pml4_ok m \<and> wf_tables 30 (pdes m) \<and> wf_tables 21 (ptes m) \<and>
     (\<forall>gpa. low_half gpa \<longrightarrow> pdpt_ok m gpa \<and> pd_ok m gpa)"

section \<open>The walk by regions\<close>

definition host_map :: "npt_manager \<Rightarrow> u64 \<Rightarrow> rights \<times> u64" where
  "host_map m gpa = meet (rights (pdpt m (drop_bit 30 gpa)))
     (case table_of 30 (pdes m) gpa of
        None \<Rightarrow> (full_access, gpa)
      | Some d \<Rightarrow> meet (rights (virt d (ucast (drop_bit 21 gpa))))
          (case table_of 21 (ptes m) gpa of
             None \<Rightarrow> (full_access, gpa)
           | Some t \<Rightarrow> pte_walk (virt t) gpa))"

lemma meet_full [simp]: "meet full_access c = c" "meet a (full_access, b) = (a, b)"
proof -
  obtain r w x b' where "c = ((r, w, x), b')" by (metis prod_cases3 surj_pair)
  then show "meet full_access c = c" by simp
  obtain r w x where "a = (r, w, x)" by (rule prod_cases3)
  then show "meet a (full_access, b) = (a, b)" by simp
qed

lemma rights_bits: "rights e = (bit e 0, bit e 1, \<not> bit e 63)"
  by (simp add: rights_def bf_flag_bit amd64_npt_general_entry_def)

lemma large_bits: "huge e \<longleftrightarrow> bit e 7" "large e \<longleftrightarrow> bit e 7"
  by (simp_all add: bf_flag_bit layout)

lemma join_index:
  fixes g :: u64
  shows "push_bit 9 (drop_bit (k + 9) g) + ucast (ucast (drop_bit k g) :: 9 word) = drop_bit k g"
proof -
  have "push_bit 9 (drop_bit (k + 9) g) + ucast (ucast (drop_bit k g) :: 9 word) =
      push_bit 9 (drop_bit (k + 9) g) OR ucast (ucast (drop_bit k g) :: 9 word)"
    by (rule disjunctive_add) (auto simp: bit_simps)
  also have "\<dots> = drop_bit k g"
    by (rule bit_word_eqI) (auto simp: bit_simps dest: bit_imp_le_length)
  finally show ?thesis .
qed

lemma region_identity:
  assumes "low_half g"
  shows "page_1gb_mult (drop_bit 30 g) OR page_1gb_offset g = g"
    "page_2mb_mult (drop_bit 21 g) OR page_2mb_offset g = g"
    "page_4kb_mult (drop_bit 12 g) OR page_4kb_offset g = g"
  by (rule bit_word_eqI; auto simp: page_1gb_mult_def page_2mb_mult_def page_4kb_mult_def page_offset_mask bit_simps
      dest: bit_imp_le_length)+

lemma low_take:
  assumes "low_half g"
  shows "take_bit 22 (drop_bit 30 g) = drop_bit 30 g" "take_bit 31 (drop_bit 21 g) = drop_bit 21 g"
    "take_bit 40 (drop_bit 12 g) = drop_bit 12 g"
  using assms by (intro bit_word_eqI; auto simp: bit_low_half bit_simps; fastforce)+

lemma fresh_pde_fields:
  assumes "low_half g"
  shows "large (fresh_pde (drop_bit 21 g))" "rights (fresh_pde (drop_bit 21 g)) = full_access"
    "bf_get amd64_npt_large_pde ''page_base'' (fresh_pde (drop_bit 21 g)) = drop_bit 21 g"
proof -
  have b: "bit (fresh_pde f) n \<longleftrightarrow> n \<in> {0, 1, 2, 7} \<or> 21 \<le> n \<and> n < 52 \<and> bit f (n - 21)" for f n
    by (auto simp: fresh_pde_def bf_put_def layout bit_simps)
  show "large (fresh_pde (drop_bit 21 g))" "rights (fresh_pde (drop_bit 21 g)) = full_access"
    by (simp_all add: large_bits rights_bits b)
  have "bf_get amd64_npt_large_pde ''page_base'' (fresh_pde f) = take_bit 31 f" for f
    by (rule bit_word_eqI) (auto simp: bf_get_def layout bit_simps b)
  then show "bf_get amd64_npt_large_pde ''page_base'' (fresh_pde (drop_bit 21 g)) = drop_bit 21 g"
    by (simp add: low_take [OF assms])
qed

lemma fresh_pte_fields:
  assumes "low_half g"
  shows "rights (fresh_pte (drop_bit 12 g)) = full_access"
    "bf_get amd64_npt_pte ''page_base'' (fresh_pte (drop_bit 12 g)) = drop_bit 12 g"
proof -
  have b: "bit (fresh_pte f) n \<longleftrightarrow> n \<in> {0, 1, 2} \<or> 12 \<le> n \<and> n < 52 \<and> bit f (n - 12)" for f n
    by (auto simp: fresh_pte_def bf_put_def layout bit_simps)
  show "rights (fresh_pte (drop_bit 12 g)) = full_access"
    by (simp add: rights_bits b)
  have "bf_get amd64_npt_pte ''page_base'' (fresh_pte f) = take_bit 40 f" for f
    by (rule bit_word_eqI) (auto simp: bf_get_def layout bit_simps b)
  then show "bf_get amd64_npt_pte ''page_base'' (fresh_pte (drop_bit 12 g)) = drop_bit 12 g"
    by (simp add: low_take [OF assms])
qed

lemma pte_walk_fresh:
  "low_half g \<Longrightarrow> t (ucast (drop_bit 12 g)) = fresh_pte (drop_bit 12 g) \<Longrightarrow> pte_walk t g = (full_access, g)"
  by (simp add: pte_walk_def fresh_pte_fields region_identity)

lemma ucast9_less: "(ucast (i :: 9 word) :: u64) < 512"
  using unsigned_less [of i, where ?'a = nat]
  by (simp add: word_less_nat_alt unsigned_ucast_eq take_bit_nat_eq_self)

lemma pdpt_index:
  assumes "pml4_ok m" "low_half gpa"
  shows "host_walk m gpa = pdpte_walk m (pdpt m (drop_bit 30 gpa)) gpa"
proof -
  let ?i = "ucast (drop_bit 39 gpa) :: 9 word"
  have "ucast ?i = drop_bit 39 gpa"
    using assms(2) by (intro bit_word_eqI; auto simp: bit_low_half bit_simps; fastforce)
  moreover have "(ucast ?i :: u64) < 512"
    by (rule ucast9_less)
  ultimately show ?thesis
    using assms(1) join_index [of 30 gpa] by (simp add: host_walk_def pml4_ok_def Let_def)
qed

theorem host_walk_map:
  assumes wf: "wf_host m" and low: "low_half gpa"
  shows "host_walk m gpa = host_map m gpa"
proof -
  let ?e = "pdpt m (drop_bit 30 gpa)"
  have ok: "pdpt_ok m gpa" "pd_ok m gpa" and pml4: "pml4_ok m"
    and wf2: "wf_tables 30 (pdes m)" and wf1: "wf_tables 21 (ptes m)"
    using wf low by (simp_all add: wf_host_def)
  have pde: "pde_walk m (virt d) gpa = meet (rights (virt d (ucast (drop_bit 21 gpa))))
      (case table_of 21 (ptes m) gpa of None \<Rightarrow> (full_access, gpa) | Some t \<Rightarrow> pte_walk (virt t) gpa)"
    if "table_of 30 (pdes m) gpa = Some d" for d
  proof (cases "table_of 21 (ptes m) gpa")
    case None
    then show ?thesis
      using ok(2) that by (simp add: pd_ok_def pde_walk_def Let_def region_identity [OF low])
  next
    case (Some t)
    then have "t \<in> set (ptes m)" using table_of_iff [OF wf1] by blast
    then have "table_at (ptes m) (phys t) = Some (virt t)" by (rule table_at_member [OF wf1])
    then show ?thesis
      using ok(2) that Some
      by (auto simp: pd_ok_def pde_walk_def Let_def region_identity [OF low] pte_walk_fresh [OF low])
  qed
  show ?thesis
  proof (cases "table_of 30 (pdes m) gpa")
    case None
    then show ?thesis
      using ok(1) by (simp add: pdpt_index [OF pml4 low] host_map_def pdpt_ok_def pdpte_walk_def Let_def region_identity [OF low])
  next
    case (Some d)
    then have "d \<in> set (pdes m)" using table_of_iff [OF wf2] by blast
    then have at: "table_at (pdes m) (phys d) = Some (virt d)" by (rule table_at_member [OF wf2])
    consider (id) "huge ?e" "bf_get amd64_npt_huge_pdpte ''page_base'' ?e = drop_bit 30 gpa"
        "virt d (ucast (drop_bit 21 gpa)) = fresh_pde (drop_bit 21 gpa)"
      | (linked) "\<not> huge ?e" "page_4kb_mult (bf_get amd64_npt_pdpte ''pde_base'' ?e) = phys d"
      using ok(1) Some by (auto simp: pdpt_ok_def Let_def)
    then show ?thesis
    proof cases
      case id
      have "(case table_of 21 (ptes m) gpa of None \<Rightarrow> (full_access, gpa) | Some t \<Rightarrow> pte_walk (virt t) gpa) = (full_access, gpa)"
        using ok(2) Some id(3) fresh_pde_fields [OF low] pte_walk_fresh [OF low]
        by (auto simp: pd_ok_def Let_def split: option.splits)
      then show ?thesis
        using id Some fresh_pde_fields(2) [OF low]
        by (simp add: pdpt_index [OF pml4 low] host_map_def pdpte_walk_def region_identity [OF low])
    next
      case linked
      then show ?thesis
        using Some at pde [OF Some] by (simp add: pdpt_index [OF pml4 low] host_map_def pdpte_walk_def)
    qed
  qed
qed

end
