(* ===== verification/Npt_Host_Laws.thy ===== *)
theory Npt_Host_Laws
  imports Npt_Host_Walk
begin

text \<open>
  The primitive steps of splitting and updating on the nested paging of the host: each keeps the
  invariant, and adding or linking a table changes no translation.
\<close>

section \<open>Linking an entry\<close>

lemma rights_link [simp]:
  "rights (link_table amd64_npt_pdpte ''pde_base'' p e) = rights e"
  "rights (link_table amd64_npt_pde ''pte_base'' p e) = rights e"
  by (auto simp: rights_bits link_table_def bf_put_def layout bit_simps)

lemma not_large_link [simp]:
  "\<not> huge (link_table amd64_npt_pdpte ''pde_base'' p e)"
  "\<not> large (link_table amd64_npt_pde ''pte_base'' p e)"
  by (auto simp: large_bits link_table_def bf_put_def layout bit_simps)

lemma base_link [simp]:
  "page_frame p \<Longrightarrow> page_4kb_mult (bf_get amd64_npt_pdpte ''pde_base'' (link_table amd64_npt_pdpte ''pde_base'' p e)) = p"
  "page_frame p \<Longrightarrow> page_4kb_mult (bf_get amd64_npt_pde ''pte_base'' (link_table amd64_npt_pde ''pte_base'' p e)) = p"
  by (simp_all add: link_table_def bf_get_put_same amd64_npt_pdpte_def amd64_npt_pde_def bf_size_def page_frame_def)

section \<open>Regions and indices\<close>

lemma same_region_index:
  "drop_bit (k + 9) g = drop_bit (k + 9) (g' :: u64) \<Longrightarrow>
     (ucast (drop_bit k g) = (ucast (drop_bit k g') :: 9 word)) \<longleftrightarrow> drop_bit k g = drop_bit k g'"
  using drop_bit_split [of k g g'] by auto

lemma split_region: "push_bit 21 (push_bit 9 (drop_bit 30 g)) = region_start 30 (g :: u64)"
  "push_bit 12 (push_bit 9 (drop_bit 21 g)) = region_start 21 (g :: u64)"
proof -
  show "push_bit 21 (push_bit 9 (drop_bit 30 g)) = region_start 30 g"
    by (rule bit_word_eqI) (auto simp: region_start_def bit_simps)
  show "push_bit 12 (push_bit 9 (drop_bit 21 g)) = region_start 21 g"
    by (rule bit_word_eqI) (auto simp: region_start_def bit_simps)
qed

lemma region_bits:
  "push_bit 30 (drop_bit 30 g) = region_start 30 (g :: u64)" "push_bit 21 (drop_bit 21 g) = region_start 21 (g :: u64)"
  using split_region [of g] by (simp_all add: push_bit_push_bit)

lemma split_desc_sel [simp]:
  "phys (split_desc s leaf p i) = p"
  "gpa_start (split_desc 21 leaf p (drop_bit 30 g)) = region_start 30 g"
  "gpa_start (split_desc 12 leaf p (drop_bit 21 g)) = region_start 21 g"
  by (simp_all add: split_desc_def region_bits)

lemma split_desc_entry:
  "drop_bit 30 g = drop_bit 30 gpa \<Longrightarrow>
     virt (split_desc 21 leaf p (drop_bit 30 gpa)) (ucast (drop_bit 21 g)) = leaf (drop_bit 21 g)"
  "drop_bit 21 g = drop_bit 21 gpa \<Longrightarrow>
     virt (split_desc 12 leaf p (drop_bit 21 gpa)) (ucast (drop_bit 12 g)) = leaf (drop_bit 12 g)"
  using join_index [of 21 g] join_index [of 12 g] by (simp_all add: split_desc_def)

lemma wf_tables_split:
  assumes "wf_tables k ds" "low_half gpa" "table_of k ds gpa = None" "page_frame p" "p \<notin> phys ` set ds"
    and "gpa_start d = region_start k gpa" "phys d = p"
  shows "wf_tables k (ds @ [d])"
  using assms table_of_cong [of k "region_start k gpa" gpa] by (simp add: wf_tables_append)

lemma table_of_split:
  assumes "gpa_start d = region_start k gpa"
  shows "table_of k (ds @ [d]) g =
    (case table_of k ds g of Some c \<Rightarrow> Some c | None \<Rightarrow> if drop_bit k g = drop_bit k gpa then Some d else None)"
  using assms by (auto simp: table_of_append split: option.splits)

section \<open>Adding a table\<close>

lemma add_pde:
  assumes d_def: "d = split_desc 21 fresh_pde p (drop_bit 30 gpa)"
    and wf: "wf_host m" and low: "low_half gpa" and none: "table_of 30 (pdes m) gpa = None"
    and p: "page_frame p" "p \<notin> phys ` set (pdes m)"
  shows "wf_host (m\<lparr>pdes := pdes m @ [d]\<rparr>) \<and> (\<forall>g. low_half g \<longrightarrow> host_map (m\<lparr>pdes := pdes m @ [d]\<rparr>) g = host_map m g)"
proof -
  have t: "table_of 30 (pdes m @ [d]) g = (case table_of 30 (pdes m) g of Some c \<Rightarrow> Some c
      | None \<Rightarrow> if drop_bit 30 g = drop_bit 30 gpa then Some d else None)" for g
    by (rule table_of_split) (simp add: d_def)
  have wft: "wf_tables 30 (pdes m @ [d])"
    using wf by (intro wf_tables_split [OF _ low none p]) (simp_all add: d_def wf_host_def)
  have e: "virt d (ucast (drop_bit 21 g)) = fresh_pde (drop_bit 21 g)" if "drop_bit 30 g = drop_bit 30 gpa" for g
    using split_desc_entry(1) [OF that] by (simp add: d_def)
  have "pdpt_ok (m\<lparr>pdes := pdes m @ [d]\<rparr>) g \<and> pd_ok (m\<lparr>pdes := pdes m @ [d]\<rparr>) g \<and>
      host_map (m\<lparr>pdes := pdes m @ [d]\<rparr>) g = host_map m g" if "low_half g" for g
  proof (cases "table_of 30 (pdes m) g")
    case (Some c)
    then have eq: "table_of 30 (pdes m @ [d]) g = table_of 30 (pdes m) g" by (simp add: t)
    have ok: "pdpt_ok m g" "pd_ok m g" using wf that by (simp_all add: wf_host_def)
    then show ?thesis
      using Some eq by (simp add: pdpt_ok_def pd_ok_def host_map_def Let_def)
  next
    case None
    have ok: "pdpt_ok m g" "pd_ok m g" using wf that by (simp_all add: wf_host_def)
    show ?thesis
    proof (cases "drop_bit 30 g = drop_bit 30 gpa")
      case True
      then show ?thesis
        using ok None e [OF True] fresh_pde_fields [OF that] pte_walk_fresh [OF that]
        by (auto simp: t pdpt_ok_def pd_ok_def host_map_def Let_def split: option.splits)
    next
      case False
      then show ?thesis
        using ok None by (simp add: t pdpt_ok_def pd_ok_def host_map_def)
    qed
  qed
  then show ?thesis
    using wf wft by (simp add: wf_host_def pml4_ok_def)
qed

lemma add_pte:
  assumes t_def: "t = split_desc 12 fresh_pte p (drop_bit 21 gpa)"
    and wf: "wf_host m" and low: "low_half gpa" and none: "table_of 21 (ptes m) gpa = None"
    and p: "page_frame p" "p \<notin> phys ` set (ptes m)"
  shows "wf_host (m\<lparr>ptes := ptes m @ [t]\<rparr>) \<and> (\<forall>g. low_half g \<longrightarrow> host_map (m\<lparr>ptes := ptes m @ [t]\<rparr>) g = host_map m g)"
proof -
  have tt: "table_of 21 (ptes m @ [t]) g = (case table_of 21 (ptes m) g of Some c \<Rightarrow> Some c
      | None \<Rightarrow> if drop_bit 21 g = drop_bit 21 gpa then Some t else None)" for g
    by (rule table_of_split) (simp add: t_def)
  have wft: "wf_tables 21 (ptes m @ [t])"
    using wf by (intro wf_tables_split [OF _ low none p]) (simp_all add: t_def wf_host_def)
  have e: "virt t (ucast (drop_bit 12 g)) = fresh_pte (drop_bit 12 g)" if "drop_bit 21 g = drop_bit 21 gpa" for g
    using split_desc_entry(2) [OF that] by (simp add: t_def)
  have "pdpt_ok (m\<lparr>ptes := ptes m @ [t]\<rparr>) g \<and> pd_ok (m\<lparr>ptes := ptes m @ [t]\<rparr>) g \<and>
      host_map (m\<lparr>ptes := ptes m @ [t]\<rparr>) g = host_map m g" if "low_half g" for g
  proof (cases "table_of 21 (ptes m) g")
    case (Some c)
    then have eq: "table_of 21 (ptes m @ [t]) g = table_of 21 (ptes m) g" by (simp add: tt)
    have ok: "pdpt_ok m g" "pd_ok m g" using wf that by (simp_all add: wf_host_def)
    then show ?thesis
      using eq
      by (cases "table_of 30 (pdes m) g") (simp_all add: pdpt_ok_def pd_ok_def host_map_def Let_def)
  next
    case None
    have ok: "pdpt_ok m g" "pd_ok m g" using wf that by (simp_all add: wf_host_def)
    show ?thesis
    proof (cases "drop_bit 21 g = drop_bit 21 gpa")
      case True
      then show ?thesis
        using ok None e [OF True] pte_walk_fresh [OF that, of "virt t"]
        by (auto simp: tt pdpt_ok_def pd_ok_def host_map_def Let_def split: option.splits)
    next
      case False
      then show ?thesis
        using ok None
        by (cases "table_of 30 (pdes m) g") (simp_all add: tt pdpt_ok_def pd_ok_def host_map_def Let_def)
    qed
  qed
  then show ?thesis
    using wf wft by (simp add: wf_host_def pml4_ok_def)
qed

section \<open>Linking a table\<close>

lemma link_pdpt:
  assumes wf: "wf_host m" and low: "low_half gpa" and d: "table_of 30 (pdes m) gpa = Some d"
    and e: "rights e = rights (pdpt m (drop_bit 30 gpa))" "\<not> huge e"
      "page_4kb_mult (bf_get amd64_npt_pdpte ''pde_base'' e) = phys d"
  shows "wf_host (m\<lparr>pdpt := (pdpt m)(drop_bit 30 gpa := e)\<rparr>) \<and>
    (\<forall>g. host_map (m\<lparr>pdpt := (pdpt m)(drop_bit 30 gpa := e)\<rparr>) g = host_map m g)"
proof -
  have "pdpt_ok (m\<lparr>pdpt := (pdpt m)(drop_bit 30 gpa := e)\<rparr>) g \<and> pd_ok (m\<lparr>pdpt := (pdpt m)(drop_bit 30 gpa := e)\<rparr>) g"
    if "low_half g" for g
  proof -
    have ok: "pdpt_ok m g" "pd_ok m g" using wf that by (simp_all add: wf_host_def)
    have "table_of 30 (pdes m) g = Some d" if "drop_bit 30 g = drop_bit 30 gpa"
      using d table_of_cong [OF that] by simp
    then have "pdpt_ok (m\<lparr>pdpt := (pdpt m)(drop_bit 30 gpa := e)\<rparr>) g"
      using ok(1) e(2,3) by (cases "drop_bit 30 g = drop_bit 30 gpa") (simp_all add: pdpt_ok_def)
    moreover have "pd_ok (m\<lparr>pdpt := (pdpt m)(drop_bit 30 gpa := e)\<rparr>) g = pd_ok m g"
      by (cases "table_of 30 (pdes m) g") (simp_all add: pd_ok_def)
    ultimately show ?thesis using ok(2) by simp
  qed
  moreover have "host_map (m\<lparr>pdpt := (pdpt m)(drop_bit 30 gpa := e)\<rparr>) g = host_map m g" for g
    by (cases "table_of 30 (pdes m) g") (simp_all add: host_map_def e(1))
  ultimately show ?thesis using wf by (simp add: wf_host_def pml4_ok_def)
qed

text \<open>Replacing an entry of a linked page directory.\<close>

lemma set_pde_simps [simp]:
  "ncr3 (set_pde m k i e) = ncr3 m" "pdpt (set_pde m k i e) = pdpt m" "pdpt_pa (set_pde m k i e) = pdpt_pa m"
  "ptes (set_pde m k i e) = ptes m" "pdes (set_pde m k i e) = set_entry (pdes m) k i e" "ncr3_pa (set_pde m k i e) = ncr3_pa m"
  by (simp_all add: set_pde_def)

lemma set_pte_simps [simp]:
  "ncr3 (set_pte m k i e) = ncr3 m" "pdpt (set_pte m k i e) = pdpt m" "pdpt_pa (set_pte m k i e) = pdpt_pa m"
  "pdes (set_pte m k i e) = pdes m" "ptes (set_pte m k i e) = set_entry (ptes m) k i e" "ncr3_pa (set_pte m k i e) = ncr3_pa m"
  by (simp_all add: set_pte_def)

lemma entry_of_region:
  assumes "wf_tables (k + 9) ds" "j < length ds" "table_of (k + 9) ds gpa = Some (ds ! j)"
  shows "map_option (\<lambda>d. virt d (ucast (drop_bit k g))) (table_of (k + 9) (set_entry ds j (ucast (drop_bit k gpa)) e) g) =
    (if drop_bit k g = drop_bit k gpa then Some e else map_option (\<lambda>d. virt d (ucast (drop_bit k g))) (table_of (k + 9) ds g))"
proof -
  have key: "drop_bit (k + 9) (gpa_start (ds ! j)) = drop_bit (k + 9) gpa"
    using assms(3) by (simp add: table_of_iff [OF assms(1)])
  show ?thesis
  proof (cases "drop_bit k g = drop_bit k gpa")
    case True
    then have "table_of (k + 9) ds g = Some (ds ! j)"
      using assms(3) table_of_cong [OF drop_bit_coarser [OF True]] by simp
    then show ?thesis using True by (simp add: table_of_set_entry [OF assms(1,2)])
  next
    case False
    have "ucast (drop_bit k g) \<noteq> (ucast (drop_bit k gpa) :: 9 word)"
      if "table_of (k + 9) ds g = Some q" "gpa_start q = gpa_start (ds ! j)" for q
    proof -
      have "drop_bit (k + 9) g = drop_bit (k + 9) gpa"
        using that key by (simp add: table_of_iff [OF assms(1)])
      from same_region_index [OF this] False show ?thesis by simp
    qed
    then show ?thesis
      using False by (cases "table_of (k + 9) ds g") (auto simp: table_of_set_entry [OF assms(1,2)])
  qed
qed

lemma phys_of_region:
  assumes "wf_tables k ds" "j < length ds"
  shows "map_option phys (table_of k (set_entry ds j i e) g) = map_option phys (table_of k ds g)"
  by (cases "table_of k ds g") (simp_all add: table_of_set_entry [OF assms])

end
