(* ===== verification/Npt_Host_Split.thy ===== *)
theory Npt_Host_Split
  imports Npt_Host_Laws
begin

text \<open>
  Splitting and updating on the nested paging of the host: the entry that each level holds for an
  address, the effect of writing one, and the laws of \<open>nvc_npt_split_pdpte\<close>, \<open>nvc_npt_split_pde\<close>
  and \<open>nvc_npt_update_pte\<close>.
\<close>

section \<open>The entries of an address\<close>

definition pde_of :: "npt_manager \<Rightarrow> u64 \<Rightarrow> u64 option" where
  "pde_of m g = map_option (\<lambda>d. virt d (ucast (drop_bit 21 g))) (table_of 30 (pdes m) g)"

definition pte_of :: "npt_manager \<Rightarrow> u64 \<Rightarrow> u64 option" where
  "pte_of m g = map_option (\<lambda>t. virt t (ucast (drop_bit 12 g))) (table_of 21 (ptes m) g)"

definition pd_page :: "npt_manager \<Rightarrow> u64 \<Rightarrow> u64 option" where
  "pd_page m g = map_option phys (table_of 30 (pdes m) g)"

definition pt_page :: "npt_manager \<Rightarrow> u64 \<Rightarrow> u64 option" where
  "pt_page m g = map_option phys (table_of 21 (ptes m) g)"

lemmas region_defs = pde_of_def pte_of_def pd_page_def pt_page_def

definition pte_target :: "u64 \<Rightarrow> u64 \<Rightarrow> rights \<times> u64" where
  "pte_target e g = (rights e, page_4kb_mult (bf_get amd64_npt_pte ''page_base'' e) OR page_4kb_offset g)"

lemma pdpt_ok_entries:
  "pdpt_ok m g \<longleftrightarrow>
     (let e = pdpt m (drop_bit 30 g);
          identity = huge e \<and> bf_get amd64_npt_huge_pdpte ''page_base'' e = drop_bit 30 g
      in case pde_of m g of
           None \<Rightarrow> identity
         | Some q \<Rightarrow> identity \<and> q = fresh_pde (drop_bit 21 g) \<or>
             \<not> huge e \<and> pd_page m g = Some (page_4kb_mult (bf_get amd64_npt_pdpte ''pde_base'' e)))"
  by (cases "table_of 30 (pdes m) g") (auto simp: pdpt_ok_def region_defs Let_def)

lemma pd_ok_entries:
  "pd_ok m g \<longleftrightarrow>
     (case pde_of m g of
        None \<Rightarrow> (case pte_of m g of None \<Rightarrow> True | Some q \<Rightarrow> q = fresh_pte (drop_bit 12 g))
      | Some e \<Rightarrow>
          (let identity = large e \<and> bf_get amd64_npt_large_pde ''page_base'' e = drop_bit 21 g
           in case pte_of m g of
                None \<Rightarrow> identity
              | Some q \<Rightarrow> identity \<and> q = fresh_pte (drop_bit 12 g) \<or>
                  \<not> large e \<and> pt_page m g = Some (page_4kb_mult (bf_get amd64_npt_pde ''pte_base'' e))))"
  by (cases "table_of 30 (pdes m) g"; cases "table_of 21 (ptes m) g") (auto simp: pd_ok_def region_defs Let_def)

lemma host_map_entries:
  "host_map m g = meet (rights (pdpt m (drop_bit 30 g)))
     (case pde_of m g of
        None \<Rightarrow> (full_access, g)
      | Some e \<Rightarrow> meet (rights e) (case pte_of m g of None \<Rightarrow> (full_access, g) | Some q \<Rightarrow> pte_target q g))"
  by (cases "table_of 30 (pdes m) g"; cases "table_of 21 (ptes m) g")
    (simp_all add: host_map_def region_defs pte_walk_def pte_target_def Let_def)

lemma entries_cong:
  assumes "pdpt m' (drop_bit 30 g) = pdpt m (drop_bit 30 g)" "pde_of m' g = pde_of m g" "pd_page m' g = pd_page m g"
    "pte_of m' g = pte_of m g" "pt_page m' g = pt_page m g"
  shows "pdpt_ok m' g = pdpt_ok m g" "pd_ok m' g = pd_ok m g" "host_map m' g = host_map m g"
  unfolding pdpt_ok_entries pd_ok_entries host_map_entries assms by (rule refl)+

lemma entries_set_pde:
  assumes wf: "wf_tables 30 (pdes m)" and k: "k < length (pdes m)" "table_of 30 (pdes m) gpa = Some (pdes m ! k)"
  shows "pde_of (set_pde m k (ucast (drop_bit 21 gpa)) e) g = (if drop_bit 21 g = drop_bit 21 gpa then Some e else pde_of m g)"
    "pd_page (set_pde m k i e) g = pd_page m g"
    "pte_of (set_pde m k i e) g = pte_of m g" "pt_page (set_pde m k i e) g = pt_page m g"
proof -
  show "pde_of (set_pde m k (ucast (drop_bit 21 gpa)) e) g = (if drop_bit 21 g = drop_bit 21 gpa then Some e else pde_of m g)"
    using entry_of_region [where k = 21 and ds = "pdes m" and j = k and gpa = gpa and e = e and g = g] assms
    unfolding pde_of_def set_pde_simps by (simp del: map_option_eq_Some)
  show "pd_page (set_pde m k i e) g = pd_page m g"
    unfolding pd_page_def set_pde_simps by (rule phys_of_region [OF wf k(1)])
qed (simp_all add: region_defs)

lemma entries_set_pte:
  assumes wf: "wf_tables 21 (ptes m)" and j: "j < length (ptes m)" "table_of 21 (ptes m) gpa = Some (ptes m ! j)"
  shows "pte_of (set_pte m j (ucast (drop_bit 12 gpa)) e) g = (if drop_bit 12 g = drop_bit 12 gpa then Some e else pte_of m g)"
    "pt_page (set_pte m j i e) g = pt_page m g"
    "pde_of (set_pte m j i e) g = pde_of m g" "pd_page (set_pte m j i e) g = pd_page m g"
proof -
  show "pte_of (set_pte m j (ucast (drop_bit 12 gpa)) e) g = (if drop_bit 12 g = drop_bit 12 gpa then Some e else pte_of m g)"
    using entry_of_region [where k = 12 and ds = "ptes m" and j = j and gpa = gpa and e = e and g = g] assms
    unfolding pte_of_def set_pte_simps by (simp del: map_option_eq_Some)
  show "pt_page (set_pte m j i e) g = pt_page m g"
    unfolding pt_page_def set_pte_simps by (rule phys_of_region [OF wf j(1)])
qed (simp_all add: region_defs)

text \<open>A region is linked when the processor reaches the table of its pages.\<close>

definition linked1 :: "npt_manager \<Rightarrow> u64 \<Rightarrow> bool" where
  "linked1 m g \<longleftrightarrow> \<not> huge (pdpt m (drop_bit 30 g)) \<and> pde_of m g \<noteq> None"

definition linked2 :: "npt_manager \<Rightarrow> u64 \<Rightarrow> bool" where
  "linked2 m g \<longleftrightarrow> linked1 m g \<and> (case pde_of m g of None \<Rightarrow> False | Some e \<Rightarrow> \<not> large e) \<and> pte_of m g \<noteq> None"

lemma pd_page_cong: "drop_bit 30 g = drop_bit 30 g' \<Longrightarrow> pd_page m g = pd_page m g'"
  unfolding pd_page_def by (drule table_of_cong [where ds = "pdes m"]) simp

lemma pt_page_cong: "drop_bit 21 g = drop_bit 21 g' \<Longrightarrow> pt_page m g = pt_page m g'"
  unfolding pt_page_def by (drule table_of_cong [where ds = "ptes m"]) simp

lemma wf_hostD:
  "wf_host m \<Longrightarrow> low_half g \<Longrightarrow> pdpt_ok m g" "wf_host m \<Longrightarrow> low_half g \<Longrightarrow> pd_ok m g"
  "wf_host m \<Longrightarrow> wf_tables 30 (pdes m)" "wf_host m \<Longrightarrow> wf_tables 21 (ptes m)" "wf_host m \<Longrightarrow> pml4_ok m"
  by (simp_all add: wf_host_def)

section \<open>Linking a page table\<close>

lemma link_pde_entry:
  assumes wf: "wf_host m" and k: "k < length (pdes m)" "table_of 30 (pdes m) gpa = Some (pdes m ! k)"
    and l: "linked1 m gpa" and t: "pt_page m gpa = Some p"
    and e: "rights e = rights (virt (pdes m ! k) (ucast (drop_bit 21 gpa)))" "\<not> large e"
      "page_4kb_mult (bf_get amd64_npt_pde ''pte_base'' e) = p"
  shows "wf_host (set_pde m k (ucast (drop_bit 21 gpa)) e) \<and> 
    (\<forall>g. host_map (set_pde m k (ucast (drop_bit 21 gpa)) e) g = host_map m g)"
proof -
  let ?m = "set_pde m k (ucast (drop_bit 21 gpa)) e"
  note ent = entries_set_pde [OF wf_hostD(3) [OF wf] k]
  have same: "pde_of m g = Some (virt (pdes m ! k) (ucast (drop_bit 21 gpa)))" "pt_page m g = Some p"
      "\<not> huge (pdpt m (drop_bit 30 g))" "pte_of m g \<noteq> None"
    if "drop_bit 21 g = drop_bit 21 gpa" for g
    using that k(2) l t table_of_cong [OF drop_bit_coarser [OF that], of "pdes m"] drop_bit_coarser [OF that]
      pt_page_cong [OF that, of m]
    by (auto simp: linked1_def region_defs)
  have "pdpt_ok ?m g \<and> pd_ok ?m g" if "low_half g" for g
  proof (cases "drop_bit 21 g = drop_bit 21 gpa")
    case True
    then show ?thesis
      using same [OF True] wf_hostD(1) [OF wf that] e(2,3)
      by (auto simp: pdpt_ok_entries pd_ok_entries ent Let_def split: option.splits)
  next
    case False
    then show ?thesis
      using wf_hostD(1,2) [OF wf that] entries_cong [of ?m g m] by (simp add: ent)
  qed
  moreover have "host_map ?m g = host_map m g" for g
  proof (cases "drop_bit 21 g = drop_bit 21 gpa")
    case True
    then show ?thesis using same [OF True] e(1) by (cases "pte_of m g") (simp_all add: host_map_entries ent)
  next
    case False
    then show ?thesis by (intro entries_cong(3)) (simp_all add: ent)
  qed
  ultimately show ?thesis using wf by (simp add: wf_host_def pml4_ok_def set_pde_def)
qed

section \<open>Writing a page-table entry of a linked region\<close>

lemma write_pte_entry:
  assumes wf: "wf_host m" and j: "j < length (ptes m)" "table_of 21 (ptes m) gpa = Some (ptes m ! j)"
    and l: "linked2 m gpa"
  shows "wf_host (set_pte m j (ucast (drop_bit 12 gpa)) e) \<and>
    (\<forall>g. linked2 (set_pte m j (ucast (drop_bit 12 gpa)) e) g = linked2 m g) \<and>
    (\<forall>g. host_map (set_pte m j (ucast (drop_bit 12 gpa)) e) g =
      (if drop_bit 12 g = drop_bit 12 gpa
       then meet (rights (pdpt m (drop_bit 30 gpa))) (meet (rights (the (pde_of m gpa))) (pte_target e g))
       else host_map m g))"
proof -
  let ?m = "set_pte m j (ucast (drop_bit 12 gpa)) e"
  note ent = entries_set_pte [OF wf_hostD(4) [OF wf] j]
  have same: "pde_of m g = pde_of m gpa" "pte_of m g \<noteq> None" "drop_bit 30 g = drop_bit 30 gpa"
    if "drop_bit 12 g = drop_bit 12 gpa" for g
  proof -
    have r21: "drop_bit 21 g = drop_bit 21 gpa" using drop_bit_coarser [OF that] by simp
    then show r30: "drop_bit 30 g = drop_bit 30 gpa" using drop_bit_coarser [OF r21] by simp
    show "pde_of m g = pde_of m gpa" using r21 table_of_cong [OF r30, of "pdes m"] by (simp add: pde_of_def)
    show "pte_of m g \<noteq> None" using j(2) table_of_cong [OF r21, of "ptes m"] by (simp add: pte_of_def)
  qed
  obtain q where q: "pde_of m gpa = Some q" "\<not> large q" "\<not> huge (pdpt m (drop_bit 30 gpa))"
    using l by (auto simp: linked2_def linked1_def split: option.splits)
  have "pdpt_ok ?m g \<and> pd_ok ?m g" if "low_half g" for g
  proof (cases "drop_bit 12 g = drop_bit 12 gpa")
    case True
    then show ?thesis
      using same [OF True] wf_hostD(1,2) [OF wf that] q
      by (auto simp: pdpt_ok_entries pd_ok_entries ent Let_def split: option.splits)
  next
    case False
    then show ?thesis
      using wf_hostD(1,2) [OF wf that] entries_cong [of ?m g m] by (simp add: ent)
  qed
  moreover have "host_map ?m g = (if drop_bit 12 g = drop_bit 12 gpa
       then meet (rights (pdpt m (drop_bit 30 gpa))) (meet (rights (the (pde_of m gpa))) (pte_target e g))
       else host_map m g)" for g
  proof (cases "drop_bit 12 g = drop_bit 12 gpa")
    case True
    then show ?thesis using same [OF True] q by (simp add: host_map_entries ent)
  next
    case False
    then show ?thesis using entries_cong(3) [of ?m g m] by (simp add: ent)
  qed
  moreover have "linked2 ?m g = linked2 m g" for g
    using same(2) [of g] by (simp add: linked2_def linked1_def ent)
  ultimately show ?thesis using wf by (simp add: wf_host_def pml4_ok_def set_pte_def)
qed

section \<open>The rights of the upper levels\<close>

definition upper :: "npt_manager \<Rightarrow> u64 \<Rightarrow> rights" where
  "upper m g = fst (meet (rights (pdpt m (drop_bit 30 g)))
     (case pde_of m g of None \<Rightarrow> (full_access, 0) | Some e \<Rightarrow> (rights e, 0)))"

lemma meet_meet: "meet a (meet b c) = meet (fst (meet a (b, 0))) c"
proof -
  obtain r w x r' w' x' where "a = (r, w, x)" "b = (r', w', x')" by (metis prod_cases3)
  moreover obtain r2 w2 x2 z where "c = ((r2, w2, x2), z)" by (metis prod_cases3 surj_pair)
  ultimately show ?thesis by simp
qed

text \<open>What splitting a region leaves alone.\<close>

definition same_view :: "npt_manager \<Rightarrow> npt_manager \<Rightarrow> bool" where
  "same_view m m' \<longleftrightarrow> (\<forall>g. low_half g \<longrightarrow> host_map m' g = host_map m g \<and> upper m' g = upper m g \<and>
     (linked1 m g \<longrightarrow> linked1 m' g) \<and> (linked2 m g \<longrightarrow> linked2 m' g))"

lemma same_view_refl [simp]: "same_view m m"
  by (simp add: same_view_def)

lemma same_view_trans [trans]: "same_view m m1 \<Longrightarrow> same_view m1 m2 \<Longrightarrow> same_view m m2"
  by (simp add: same_view_def)

lemma pde_of_add:
  assumes "d = split_desc 21 fresh_pde p (drop_bit 30 gpa)"
  shows "pde_of (m\<lparr>pdes := pdes m @ [d]\<rparr>) g =
    (case pde_of m g of Some e \<Rightarrow> Some e
     | None \<Rightarrow> if drop_bit 30 g = drop_bit 30 gpa then Some (fresh_pde (drop_bit 21 g)) else None)"
  using assms split_desc_entry(1) [of g gpa fresh_pde p] table_of_split [of d 30 gpa "pdes m" g]
  by (auto simp: pde_of_def split: option.splits)

lemma pte_of_add:
  assumes "t = split_desc 12 fresh_pte p (drop_bit 21 gpa)"
  shows "pte_of (m\<lparr>ptes := ptes m @ [t]\<rparr>) g =
    (case pte_of m g of Some e \<Rightarrow> Some e
     | None \<Rightarrow> if drop_bit 21 g = drop_bit 21 gpa then Some (fresh_pte (drop_bit 12 g)) else None)"
  using assms split_desc_entry(2) [of g gpa fresh_pte p] table_of_split [of t 21 gpa "ptes m" g]
  by (auto simp: pte_of_def split: option.splits)

lemma entries_other [simp]:
  "pte_of (m\<lparr>pdes := ds\<rparr>) g = pte_of m g" "pde_of (m\<lparr>ptes := ts\<rparr>) g = pde_of m g"
  "pte_of (m\<lparr>pdpt := f\<rparr>) g = pte_of m g" "pde_of (m\<lparr>pdpt := f\<rparr>) g = pde_of m g"
  "pt_page (m\<lparr>pdpt := f\<rparr>) g = pt_page m g" "pd_page (m\<lparr>pdpt := f\<rparr>) g = pd_page m g"
  by (simp_all add: region_defs)

lemma view_add_pde:
  assumes "d = split_desc 21 fresh_pde p (drop_bit 30 gpa)" "wf_host m" "low_half gpa"
    and "table_of 30 (pdes m) gpa = None" "page_frame p" "p \<notin> phys ` set (pdes m)"
  shows "wf_host (m\<lparr>pdes := pdes m @ [d]\<rparr>) \<and> same_view m (m\<lparr>pdes := pdes m @ [d]\<rparr>)"
  using add_pde [OF assms] fresh_pde_fields(2)
  by (auto simp: same_view_def upper_def linked1_def linked2_def pde_of_add [OF assms(1)] split: option.splits)

lemma view_add_pte:
  assumes "t = split_desc 12 fresh_pte p (drop_bit 21 gpa)" "wf_host m" "low_half gpa"
    and "table_of 21 (ptes m) gpa = None" "page_frame p" "p \<notin> phys ` set (ptes m)"
  shows "wf_host (m\<lparr>ptes := ptes m @ [t]\<rparr>) \<and> same_view m (m\<lparr>ptes := ptes m @ [t]\<rparr>)"
  using add_pte [OF assms]
  by (auto simp: same_view_def upper_def linked1_def linked2_def pte_of_add [OF assms(1)] split: option.splits)

lemma view_link_pdpt:
  assumes "wf_host m" "low_half gpa" "table_of 30 (pdes m) gpa = Some d"
    and e: "rights e = rights (pdpt m (drop_bit 30 gpa))" "\<not> huge e"
      "page_4kb_mult (bf_get amd64_npt_pdpte ''pde_base'' e) = phys d"
  shows "wf_host (m\<lparr>pdpt := (pdpt m)(drop_bit 30 gpa := e)\<rparr>) \<and>
    same_view m (m\<lparr>pdpt := (pdpt m)(drop_bit 30 gpa := e)\<rparr>) \<and> linked1 (m\<lparr>pdpt := (pdpt m)(drop_bit 30 gpa := e)\<rparr>) gpa"
  using link_pdpt [OF assms] e(1,2) assms(3)
  by (auto simp: same_view_def upper_def linked1_def linked2_def pde_of_def)

lemma view_link_pde:
  assumes wf: "wf_host m" and k: "k < length (pdes m)" "table_of 30 (pdes m) gpa = Some (pdes m ! k)"
    and l: "linked1 m gpa" and t: "pt_page m gpa = Some p"
    and e: "rights e = rights (virt (pdes m ! k) (ucast (drop_bit 21 gpa)))" "\<not> large e"
      "page_4kb_mult (bf_get amd64_npt_pde ''pte_base'' e) = p"
    and m': "m' = set_pde m k (ucast (drop_bit 21 gpa)) e"
  shows "wf_host m' \<and> same_view m m' \<and> linked2 m' gpa"
proof -
  note ent = entries_set_pde [OF wf_hostD(3) [OF wf] k]
  have old: "pde_of m g = Some (virt (pdes m ! k) (ucast (drop_bit 21 gpa)))" if "drop_bit 21 g = drop_bit 21 gpa" for g
    using that k(2) table_of_cong [OF drop_bit_coarser [OF that], of "pdes m"] by (simp add: pde_of_def)
  have up: "upper m' g = upper m g" for g
    using old [of g] e(1) by (cases "drop_bit 21 g = drop_bit 21 gpa") (simp_all add: upper_def m' ent)
  have l1: "linked1 m g \<longrightarrow> linked1 m' g" "linked2 m g \<longrightarrow> linked2 m' g" for g
    using e(2) by (auto simp: linked1_def linked2_def m' ent)
  have "pte_of m' gpa \<noteq> None"
    using t by (auto simp: m' ent pte_of_def pt_page_def)
  then have "linked2 m' gpa"
    using l1(1) [of gpa] l e(2) by (simp add: linked2_def m' ent)
  then show ?thesis
    using link_pde_entry [OF wf k l t e] up l1 by (simp add: same_view_def m')
qed

end
