(* ===== verification/Npt_Host_Update.thy ===== *)
theory Npt_Host_Update
  imports Npt_Host_Split
begin

text \<open>
  The operations of the host's nested paging that split a region and write the rights of a page:
  what they return, the invariant, and their effect on the translation.
\<close>

section \<open>Fresh pages\<close>

text \<open>\<open>held\<close> are the pages that the rest of the hypervisor owns.\<close>

definition host_fresh :: "u64 list \<Rightarrow> npt_manager \<Rightarrow> allocs \<Rightarrow> bool" where
  "host_fresh held m al \<longleftrightarrow> distinct (held @ map phys (pdes m) @ map phys (ptes m) @ granted_pages al) \<and>
     (\<forall>p \<in> set (granted_pages al). page_frame p)"

lemma host_fresh_next:
  assumes "host_fresh held m al" "next_pool al = (True, al1)" "next_page al1 = (Some p, al2)"
  shows "page_frame p" "host_fresh (p # held) m al2"
proof -
  have "granted_pages al = p # granted_pages al2"
    using assms(2,3) next_page_granted by (metis next_pool_granted)
  with assms(1) show "page_frame p" "host_fresh (p # held) m al2"
    by (auto simp: host_fresh_def)
qed

lemma host_fresh_add:
  assumes "host_fresh (p # held) m al"
  shows "p \<notin> phys ` set (pdes m)" "p \<notin> phys ` set (ptes m)"
    "phys d = p \<Longrightarrow> host_fresh held (m\<lparr>pdes := pdes m @ [d]\<rparr>) al"
    "phys d = p \<Longrightarrow> host_fresh held (m\<lparr>ptes := ptes m @ [d]\<rparr>) al"
  using assms by (auto simp: host_fresh_def)

lemma host_fresh_frame [simp]:
  "host_fresh held (m\<lparr>pdpt := f\<rparr>) al = host_fresh held m al"
  "host_fresh held (set_pde m k i e) al = host_fresh held m al"
  "host_fresh held (set_pte m k i e) al = host_fresh held m al"
  by (simp_all add: host_fresh_def set_pde_def set_pte_def)

section \<open>Splitting a 1-GiB region\<close>

lemma find_or_make_pde_law:
  assumes wf: "wf_host m" and low: "low_half gpa" and fr: "host_fresh held m al"
    and r: "find_or_make_pde m gpa alloc al = (Desc k, m', al')"
  shows "wf_host m' \<and> same_view m m' \<and> host_fresh held m' al' \<and> ptes m' = ptes m \<and> pdpt m' = pdpt m \<and>
    k < length (pdes m') \<and> table_of 30 (pdes m') gpa = Some (pdes m' ! k)"
proof -
  have size: "find_desc page_1gb_size gpa (pdes m) = find_desc (2 ^ 30) gpa (pdes m)"
    by (simp add: page_1gb_size_def)
  from wf_hostD(3) [OF wf] have "30 \<le> (39 :: nat) \<Longrightarrow> ?thesis"
  proof (rule find_desc_cases [where gpa = gpa])
    assume none: "find_desc (2 ^ 30) gpa (pdes m) = None" "table_of 30 (pdes m) gpa = None"
    let ?d = "\<lambda>p. split_desc 21 fresh_pde p (drop_bit 30 gpa)"
    obtain p al1 where p: "next_pool al = (True, al1)" "next_page al1 = (Some p, al')"
      and k: "k = length (pdes m)" and m': "m' = m\<lparr>pdes := pdes m @ [?d p]\<rparr>"
      using r unfolding find_or_make_pde_def size none(1) page_1gb_count_def
      by (simp split: if_splits prod.splits bool.splits option.splits)
    note fresh = host_fresh_next [OF fr p]
    show ?thesis
      using view_add_pde [OF refl wf low none(2) fresh(1) host_fresh_add(1) [OF fresh(2)]]
        host_fresh_add(3) [OF fresh(2), of "?d p"]
        table_of_split [of "?d p" 30 gpa "pdes m" gpa] none(2)
      by (simp add: m' k)
  next
    fix j
    assume j: "find_desc (2 ^ 30) gpa (pdes m) = Some j" "j < length (pdes m)" "table_of 30 (pdes m) gpa = Some (pdes m ! j)"
    then show ?thesis
      using r wf fr unfolding find_or_make_pde_def size j(1) by simp
  qed simp
  then show ?thesis by simp
qed

lemma index_low_half: "page_1gb_count gpa < 0x40000 \<longleftrightarrow> low_half gpa"
proof -
  have "page_1gb_count gpa < 0x40000 \<longleftrightarrow> unat gpa div 2 ^ 30 < 2 ^ 18"
    by (simp add: page_1gb_count_def word_less_nat_alt unat_drop_bit_eq drop_bit_eq_div unat_div)
  also have "\<dots> \<longleftrightarrow> unat gpa < 2 ^ 48"
    by (simp add: div_less_iff_less_mult)
  finally show ?thesis by (simp add: low_half_less)
qed

lemma set_pdpt_Some:
  "set_pdpt m (page_1gb_count gpa) e = (if low_half gpa then Some (m\<lparr>pdpt := (pdpt m)(drop_bit 30 gpa := e)\<rparr>) else None)"
  by (simp add: set_pdpt_def index_low_half) (simp add: page_1gb_count_def)

lemma split_pdpte_law:
  assumes wf: "wf_host m" and fr: "host_fresh held m al"
    and r: "nvc_npt_split_pdpte m gpa True alloc al = Some (d, m', al')"
  shows "\<exists>k. d = Desc k \<and> low_half gpa \<and> wf_host m' \<and> same_view m m' \<and> host_fresh held m' al' \<and> ptes m' = ptes m \<and>
    k < length (pdes m') \<and> table_of 30 (pdes m') gpa = Some (pdes m' ! k) \<and> linked1 m' gpa"
proof -
  obtain k m1 where k: "find_or_make_pde m gpa alloc al = (Desc k, m1, al')" "d = Desc k"
    and low: "low_half gpa"
    and m': "m' = m1\<lparr>pdpt := (pdpt m1)(drop_bit 30 gpa := link_table amd64_npt_pdpte ''pde_base'' (phys (pdes m1 ! k))
               (pdpt m1 (drop_bit 30 gpa)))\<rparr>"
    using r unfolding nvc_npt_split_pdpte_def set_pdpt_Some
    by (auto simp: page_1gb_count_def split: prod.splits desc_ref.splits if_splits)
  note law = find_or_make_pde_law [OF wf low fr k(1)]
  then have pf: "page_frame (phys (pdes m1 ! k))"
    by (auto simp: wf_host_def wf_tables_def)
  have "wf_host m' \<and> same_view m1 m' \<and> linked1 m' gpa"
    unfolding m' using law low pf by (intro view_link_pdpt [where d = "pdes m1 ! k"]) simp_all
  then show ?thesis
    using law low k(2) same_view_trans [of m m1 m'] by (simp add: m')
qed

section \<open>Splitting a 2-MiB region\<close>

lemma find_or_make_pte_law:
  assumes wf: "wf_host m" and fr: "host_fresh held m al" and low: "low_half gpa"
    and r: "find_or_make_pte m gpa True alloc al = Some (Desc j, m', al')"
  shows "wf_host m' \<and> same_view m m' \<and> host_fresh held m' al' \<and>
    j < length (ptes m') \<and> table_of 21 (ptes m') gpa = Some (ptes m' ! j) \<and>
    (\<forall>g. pte_of m' g = None \<longleftrightarrow> pte_of m g = None \<and> drop_bit 21 g \<noteq> drop_bit 21 gpa)"
proof -
  have size: "find_desc page_2mb_size gpa (ptes m) = find_desc (2 ^ 21) gpa (ptes m)"
    by (simp add: page_2mb_size_def)
  from wf_hostD(4) [OF wf] have "21 \<le> (39 :: nat) \<Longrightarrow> ?thesis"
  proof (rule find_desc_cases [where gpa = gpa])
    assume none: "find_desc (2 ^ 21) gpa (ptes m) = None" "table_of 21 (ptes m) gpa = None"
    let ?t = "\<lambda>p. split_desc 12 fresh_pte p (drop_bit 21 gpa)"
    obtain p al1 al2 d m1 where p: "next_pool al = (True, al1)" "next_page al1 = (Some p, al2)"
      and d: "nvc_npt_split_pdpte m gpa True True al2 = Some (d, m1, al')"
      and j: "j = length (ptes m1)" and m': "m' = m1\<lparr>ptes := ptes m1 @ [?t p]\<rparr>"
      using r unfolding find_or_make_pte_def size none(1) page_2mb_count_def
      by (simp split: if_splits prod.splits bool.splits option.splits desc_ref.splits)
    note fresh = host_fresh_next [OF fr p]
    from split_pdpte_law [OF wf fresh(2) d]
    have m1: "wf_host m1" "same_view m m1" "host_fresh (p # held) m1 al'" "ptes m1 = ptes m" by auto
    have "pte_of m' g = None \<longleftrightarrow> pte_of m g = None \<and> drop_bit 21 g \<noteq> drop_bit 21 gpa" for g
    proof -
      have "pte_of m1 g = pte_of m g" using m1(4) by (simp add: pte_of_def)
      then show ?thesis unfolding m' pte_of_add [OF refl] by (simp split: option.split)
    qed
    then show ?thesis
      using view_add_pte [OF refl m1(1) low _ fresh(1) host_fresh_add(2) [OF m1(3)]] m1(2,4) none(2)
        same_view_trans [of m m1] host_fresh_add(4) [OF m1(3), of "?t p"]
        table_of_split [of "?t p" 21 gpa "ptes m1" gpa]
      by (simp add: m' j)
  next
    fix i
    assume i: "find_desc (2 ^ 21) gpa (ptes m) = Some i" "i < length (ptes m)" "table_of 21 (ptes m) gpa = Some (ptes m ! i)"
    have e: "pte_of m g = None \<longleftrightarrow> pte_of m g = None \<and> drop_bit 21 g \<noteq> drop_bit 21 gpa" for g
      using i(3) table_of_cong [of 21 g gpa "ptes m"] by (auto simp: pte_of_def)
    have "j = i" "m' = m" "al' = al"
      using r unfolding find_or_make_pte_def size i(1) by simp_all
    then show ?thesis using e wf fr i by simp
  qed simp
  then show ?thesis by simp
qed

lemma entry_index [simp]: "page_entry_index64 (page_2mb_count gpa) = ucast (drop_bit 21 gpa)"
  by (simp add: page_entry_index64_ucast page_2mb_count_def)

lemma split_pdpte_low: "nvc_npt_split_pdpte m gpa True alloc al = Some x \<Longrightarrow> low_half gpa"
  unfolding nvc_npt_split_pdpte_def set_pdpt_Some by (auto split: prod.splits desc_ref.splits if_splits)

lemma split_pde_law:
  assumes wf: "wf_host m" and fr: "host_fresh held m al"
    and r: "nvc_npt_split_pde m gpa True alloc al = Some (d, m', al')"
  shows "\<exists>j. d = Desc j \<and> low_half gpa \<and> wf_host m' \<and> same_view m m' \<and> host_fresh held m' al' \<and>
    j < length (ptes m') \<and> table_of 21 (ptes m') gpa = Some (ptes m' ! j) \<and> linked2 m' gpa \<and>
    (\<forall>g. pte_of m' g = None \<longleftrightarrow> pte_of m g = None \<and> drop_bit 21 g \<noteq> drop_bit 21 gpa)"
proof -
  obtain t m1 al1 q m2 where f: "find_or_make_pte m gpa True alloc al = Some (t, m1, al1)"
    and s: "nvc_npt_split_pdpte m1 gpa True alloc al1 = Some (q, m2, al')"
    using r by (auto simp: nvc_npt_split_pde_def Let_def split: option.splits desc_ref.splits)
  have low: "low_half gpa" by (rule split_pdpte_low [OF s])
  have no_null: "q \<noteq> Null"
    using s by (auto simp: nvc_npt_split_pdpte_def split: prod.splits desc_ref.splits)
  then obtain k j where q: "q = Desc k" and t: "t = Desc j" and d: "d = Desc j"
    and m': "m' = set_pde m2 k (ucast (drop_bit 21 gpa))
        (link_table amd64_npt_pde ''pte_base'' (phys (ptes m2 ! j)) (virt (pdes m2 ! k) (ucast (drop_bit 21 gpa))))"
    using r f s by (auto simp: nvc_npt_split_pde_def Let_def split: desc_ref.splits)
  note law1 = find_or_make_pte_law [OF wf fr low f [unfolded t]]
  from split_pdpte_law [OF _ _ s [unfolded q]] law1
  have law2: "wf_host m2" "same_view m1 m2" "host_fresh held m2 al'" "ptes m2 = ptes m1" "linked1 m2 gpa"
      "k < length (pdes m2)" "table_of 30 (pdes m2) gpa = Some (pdes m2 ! k)"
    by blast+
  have pf: "page_frame (phys (ptes m2 ! j))"
    using law1 law2(4) by (auto simp: wf_host_def wf_tables_def)
  have pt: "pt_page m2 gpa = Some (phys (ptes m2 ! j))"
    using law1 law2(4) by (simp add: pt_page_def)
  have "wf_host m' \<and> same_view m2 m' \<and> linked2 m' gpa"
    by (rule view_link_pde [OF law2(1,6,7,5) pt rights_link(2) not_large_link(2) base_link(2) [OF pf] m'])
  moreover have "same_view m m2" using law1 law2(2) by (blast intro: same_view_trans)
  moreover have "pte_of m' g = pte_of m1 g" for g
    using law2(4) by (simp add: m' pte_of_def)
  ultimately show ?thesis
    using law1 law2(3,4) low d by (auto simp: m' intro: same_view_trans)
qed

section \<open>Writing the rights of a page\<close>

lemma rights_put:
  "rights (bf_put amd64_npt_pte ''page_base'' p (put_rights amd64_npt_pte rd wr ex e)) = (rd, wr, ex)"
  "rights (put_rights amd64_npt_pde rd wr ex e) = (rd, wr, ex)"
  by (auto simp: rights_bits put_rights_def of_flag_def bf_put_def layout bit_simps)

lemma base_put: "bf_get amd64_npt_pte ''page_base'' (bf_put amd64_npt_pte ''page_base'' p e) = take_bit 40 (p :: u64)"
  by (rule bit_word_eqI) (auto simp: bf_get_def bf_put_def layout bit_simps)

lemma update_pte_law:
  assumes wf: "wf_host m" and fr: "host_fresh held m al"
    and r: "nvc_npt_update_pte m hpa gpa rd wr ex alloc al = Some (b, m', al')"
  shows "b \<and> low_half gpa \<and> wf_host m' \<and> host_fresh held m' al' \<and> linked2 m' gpa \<and>
    (\<forall>g. pte_of m' g = None \<longleftrightarrow> pte_of m g = None \<and> drop_bit 21 g \<noteq> drop_bit 21 gpa) \<and>
    (\<forall>g. low_half g \<longrightarrow> upper m' g = upper m g \<and> (linked2 m g \<longrightarrow> linked2 m' g) \<and>
      host_map m' g =
        (if drop_bit 12 g = drop_bit 12 gpa
         then meet (upper m gpa) ((rd, wr, ex), page_4kb_mult (take_bit 40 (page_4kb_count hpa)) OR page_4kb_offset g)
         else host_map m g))"
proof -
  obtain d m1 where s: "nvc_npt_split_pde m gpa True alloc al = Some (d, m1, al')"
    using r by (auto simp: nvc_npt_update_pte_def Let_def split: option.splits desc_ref.splits)
  from split_pde_law [OF wf fr s] obtain j where d: "d = Desc j" and low: "low_half gpa" 
    and m1: "wf_host m1" "same_view m m1" "host_fresh held m1 al'" 
      "j < length (ptes m1)" "table_of 21 (ptes m1) gpa = Some (ptes m1 ! j)" "linked2 m1 gpa"
    and dom: "\<forall>g. pte_of m1 g = None \<longleftrightarrow> pte_of m g = None \<and> drop_bit 21 g \<noteq> drop_bit 21 gpa"
    by blast
  define e where "e = bf_put amd64_npt_pte ''page_base'' (page_4kb_count hpa)
            (put_rights amd64_npt_pte rd wr ex (virt (ptes m1 ! j) (ucast (drop_bit 12 gpa))))"
  have b: b and m': "m' = set_pte m1 j (ucast (drop_bit 12 gpa)) e"
    using r s d by (simp_all add: nvc_npt_update_pte_def Let_def e_def)
  have target: "pte_target e g = ((rd, wr, ex), page_4kb_mult (take_bit 40 (page_4kb_count hpa)) OR page_4kb_offset g)" for g
    by (simp add: pte_target_def e_def rights_put base_put)
  note law = write_pte_entry [OF m1(1,4,5,6), of e, folded m']
  have up: "upper m' g = upper m1 g" for g
    by (simp add: upper_def m' entries_set_pte [OF wf_hostD(4) [OF m1(1)] m1(4,5)])
  have top: "meet (rights (pdpt m1 (drop_bit 30 gpa))) (meet (rights (the (pde_of m1 gpa))) c) = meet (upper m1 gpa) c" for c
    using m1(6) by (auto simp: upper_def meet_meet [of _ _ c] linked2_def linked1_def)
  have "pte_of m' g = None \<longleftrightarrow> pte_of m1 g = None" for g
    using m1(6) entries_set_pte(1) [OF wf_hostD(4) [OF m1(1)] m1(4,5), of e g]
      table_of_cong [OF drop_bit_coarser, of 12 g gpa "ptes m1"] m1(5)
    by (auto simp: m' pte_of_def [of m1])
  moreover have "host_fresh held m' al'" using m1(3) by (simp add: m')
  ultimately show ?thesis
    using b low law m1(2,6) up dom by (simp add: top target same_view_def)
qed

end
