(* ===== verification/Npt_Host_Protect.thy ===== *)
theory Npt_Host_Protect
  imports Npt_Host_Update
begin

text \<open>
  The sequence of updates by which the hypervisor protects its own pages: the part of the address
  space that each step can change, and the lists of tables that the loops run over.
\<close>

section \<open>Writing the rights of a 2-MiB region\<close>

lemma large_put:
  fixes e :: u64
  shows "large (put_rights amd64_npt_pde rd wr ex (bf_put amd64_npt_large_pde ''page_base'' p
      (bf_put amd64_npt_large_pde ''large_pde'' 1 e)))"
    "bf_get amd64_npt_large_pde ''page_base'' (put_rights amd64_npt_pde rd wr ex (bf_put amd64_npt_large_pde ''page_base'' p
      (bf_put amd64_npt_large_pde ''large_pde'' 1 e))) = take_bit 31 p"
proof -
  have b: "bit (put_rights amd64_npt_pde rd wr ex (bf_put amd64_npt_large_pde ''page_base'' p
      (bf_put amd64_npt_large_pde ''large_pde'' 1 e))) n \<longleftrightarrow>
      (if n = 0 then rd else if n = 1 then wr else if n = 63 then \<not> ex else if n = 7 then True
       else if 21 \<le> n \<and> n < 52 then bit p (n - 21) else bit e n)" for n
    by (auto simp: put_rights_def of_flag_def bf_put_def layout bit_simps)
  show "large (put_rights amd64_npt_pde rd wr ex (bf_put amd64_npt_large_pde ''page_base'' p
      (bf_put amd64_npt_large_pde ''large_pde'' 1 e)))"
    by (simp add: large_bits b)
  show "bf_get amd64_npt_large_pde ''page_base'' (put_rights amd64_npt_pde rd wr ex (bf_put amd64_npt_large_pde ''page_base'' p
      (bf_put amd64_npt_large_pde ''large_pde'' 1 e))) = take_bit 31 p"
    by (rule bit_word_eqI) (auto simp: bf_get_def layout bit_simps b)
qed

lemma update_pde_law:
  assumes wf: "wf_host m" and fr: "host_fresh held m al" and no_pt: "pte_of m gpa = None"
    and r: "nvc_npt_update_pde m gpa gpa rd wr ex True alloc al = Some (b, m', al')"
  shows "b \<and> low_half gpa \<and> wf_host m' \<and> host_fresh held m' al' \<and>
    (\<forall>g. low_half g \<longrightarrow> host_map m' g =
        (if drop_bit 21 g = drop_bit 21 gpa then meet (rights (pdpt m' (drop_bit 30 g))) ((rd, wr, ex), g) else host_map m g)) \<and>
    (\<forall>g. low_half g \<and> drop_bit 21 g \<noteq> drop_bit 21 gpa \<and> linked2 m g \<longrightarrow> linked2 m' g)"
proof -
  obtain d m1 where s: "nvc_npt_split_pdpte m gpa True alloc al = Some (d, m1, al')"
    using r by (auto simp: nvc_npt_update_pde_def Let_def split: option.splits desc_ref.splits)
  from split_pdpte_law [OF wf fr s] obtain k where d: "d = Desc k" and low: "low_half gpa"
    and m1: "wf_host m1" "same_view m m1" "host_fresh held m1 al'" "ptes m1 = ptes m" "k < length (pdes m1)"
      "table_of 30 (pdes m1) gpa = Some (pdes m1 ! k)" "linked1 m1 gpa"
    by blast
  define e where "e = put_rights amd64_npt_pde rd wr ex (bf_put amd64_npt_large_pde ''page_base'' (page_2mb_count gpa)
      (bf_put amd64_npt_large_pde ''large_pde'' 1 (virt (pdes m1 ! k) (ucast (drop_bit 21 gpa)))))"
  have b: b and m': "m' = set_pde m1 k (ucast (drop_bit 21 gpa)) e"
    using r s d by (simp_all add: nvc_npt_update_pde_def Let_def e_def)
  have e: "large e" "bf_get amd64_npt_large_pde ''page_base'' e = drop_bit 21 gpa" "rights e = (rd, wr, ex)"
    using low_take [OF low] by (simp_all add: e_def large_put rights_put page_2mb_count_def)
  note ent = entries_set_pde [OF wf_hostD(3) [OF m1(1)] m1(5,6)]
  have same: "pde_of m1 g \<noteq> None" "pte_of m1 g = None" "\<not> huge (pdpt m1 (drop_bit 30 g))"
    if "drop_bit 21 g = drop_bit 21 gpa" for g
    using that m1(4,6,7) no_pt table_of_cong [OF drop_bit_coarser [OF that], of "pdes m1"]
      table_of_cong [OF that, of "ptes m"] drop_bit_coarser [OF that]
    by (auto simp: pde_of_def pte_of_def linked1_def)
  have ok: "pdpt_ok m' g \<and> pd_ok m' g" if "low_half g" for g
  proof (cases "drop_bit 21 g = drop_bit 21 gpa")
    case True
    then show ?thesis
      using same [OF True] wf_hostD(1) [OF m1(1) that] e
      by (auto simp: pdpt_ok_entries pd_ok_entries m' ent Let_def split: option.splits)
  next
    case False
    then show ?thesis
      using wf_hostD(1,2) [OF m1(1) that] entries_cong [of m' g m1] by (simp add: m' ent)
  qed
  have map: "host_map m' g =
      (if drop_bit 21 g = drop_bit 21 gpa then meet (rights (pdpt m' (drop_bit 30 g))) ((rd, wr, ex), g) else host_map m1 g)" for g
  proof (cases "drop_bit 21 g = drop_bit 21 gpa")
    case True
    then show ?thesis using same [OF True] e(3) by (simp add: host_map_entries m' ent)
  next
    case False
    then show ?thesis using entries_cong(3) [of m' g m1] by (simp add: m' ent)
  qed
  have link: "linked2 m' g" if "drop_bit 21 g \<noteq> drop_bit 21 gpa" "linked2 m1 g" for g
    using that by (simp add: linked2_def linked1_def m' ent)
  have "wf_host m'" "host_fresh held m' al'"
    using ok m1(1,3) by (simp_all add: m' wf_host_def pml4_ok_def)
  then show ?thesis
    using b low map m1(2) link by (auto simp: same_view_def)
qed

section \<open>Frames\<close>

text \<open>
  \<open>keeps I P f\<close>: the step \<open>f\<close> keeps the invariant \<open>I\<close> and changes the translation of no address
  outside \<open>P\<close>.
\<close>

definition good :: "u64 list \<Rightarrow> npt_step \<Rightarrow> bool" where
  "good held s \<longleftrightarrow> (case s of (res, m, al) \<Rightarrow> res \<and> wf_host m \<and> host_fresh held m al)"

definition untabled :: "u64 \<Rightarrow> npt_step \<Rightarrow> bool" where
  "untabled r s \<longleftrightarrow> pte_of (fst (snd s)) r = None"

definition same_outside :: "(u64 \<Rightarrow> bool) \<Rightarrow> npt_step \<Rightarrow> npt_step \<Rightarrow> bool" where
  "same_outside P s s' \<longleftrightarrow>
     (\<forall>g. low_half g \<and> \<not> P g \<longrightarrow> host_map (fst (snd s')) g = host_map (fst (snd s)) g)"

definition keeps :: "(npt_step \<Rightarrow> bool) \<Rightarrow> (u64 \<Rightarrow> bool) \<Rightarrow> (npt_step \<Rightarrow> npt_step option) \<Rightarrow> bool" where
  "keeps I P f \<longleftrightarrow> (\<forall>s s'. I s \<and> f s = Some s' \<longrightarrow> I s' \<and> same_outside P s s')"

lemma keepsD: "keeps I P f \<Longrightarrow> I s \<Longrightarrow> f s = Some s' \<Longrightarrow> I s' \<and> same_outside P s s'"
  unfolding keeps_def by blast

lemma same_outside_trans: "same_outside P s s1 \<Longrightarrow> same_outside P s1 s2 \<Longrightarrow> same_outside P s s2"
  by (auto simp: same_outside_def)

lemma same_outside_mono: "same_outside P s s' \<Longrightarrow> (\<And>g. P g \<Longrightarrow> Q g) \<Longrightarrow> same_outside Q s s'"
  by (auto simp: same_outside_def)

lemma keeps_mono: "keeps I P f \<Longrightarrow> (\<And>g. P g \<Longrightarrow> Q g) \<Longrightarrow> keeps I Q f"
  unfolding keeps_def using same_outside_mono by blast

lemma keeps_seq:
  assumes "\<forall>f \<in> set fs. keeps I P f"
  shows "keeps I P (seq_steps fs)"
proof -
  have "I s \<Longrightarrow> seq_steps fs s = Some s' \<Longrightarrow> I s' \<and> same_outside P s s'" for s s'
    using assms
  proof (induction fs arbitrary: s)
    case (Cons f fs)
    from Cons.prems(2) obtain s1 where s1: "f s = Some s1" "seq_steps fs s1 = Some s'"
      by (auto split: option.splits)
    have 1: "I s1 \<and> same_outside P s s1"
      using Cons.prems s1(1) keepsD [of I P f s s1] by simp
    with Cons.IH [of s1] Cons.prems(3) s1(2) show ?case
      by (auto intro: same_outside_trans)
  qed (simp add: same_outside_def)
  then show ?thesis unfolding keeps_def by blast
qed

lemma seq_steps_append: "seq_steps (fs @ gs) s = (case seq_steps fs s of None \<Rightarrow> None | Some s1 \<Rightarrow> seq_steps gs s1)"
  by (induction fs arbitrary: s) (auto split: option.split)

abbreviation in_page :: "u64 \<Rightarrow> u64 \<Rightarrow> bool" where
  "in_page p g \<equiv> drop_bit 12 g = drop_bit 12 p"

lemma and_update_pte_keeps: "keeps (good held) (in_page gpa) (and_update_pte hpa gpa rd wr ex)"
proof -
  have "good held s' \<and> same_outside (in_page gpa) s s'" if st: "good held s" "and_update_pte hpa gpa rd wr ex s = Some s'" for s s' :: npt_step
  proof -
    obtain res m al where s: "s = (res, m, al)" by (rule prod_cases3)
    obtain b m' al' where u: "nvc_npt_update_pte m hpa gpa rd wr ex True al = Some (b, m', al')" "s' = (res \<and> b, m', al')"
      using st by (auto simp: and_update_pte_def s)
    have "wf_host m" "host_fresh held m al" res using st by (simp_all add: good_def s)
    with update_pte_law [OF _ _ u(1)] show ?thesis
      by (simp add: good_def same_outside_def s u(2))
  qed
  then show ?thesis unfolding keeps_def by blast
qed

lemma and_update_pte_untabled:
  assumes "drop_bit 21 gpa \<noteq> drop_bit 21 r"
  shows "keeps (\<lambda>s. good held s \<and> untabled r s) (in_page gpa) (and_update_pte hpa gpa rd wr ex)"
proof -
  have "untabled r s'" if st: "good held s" "untabled r s" "and_update_pte hpa gpa rd wr ex s = Some s'" for s s' :: npt_step
  proof -
    obtain res m al where s: "s = (res, m, al)" by (rule prod_cases3)
    obtain b m' al' where u: "nvc_npt_update_pte m hpa gpa rd wr ex True al = Some (b, m', al')" "s' = (res \<and> b, m', al')"
      using st by (auto simp: and_update_pte_def s)
    have "wf_host m" "host_fresh held m al" using st by (simp_all add: good_def s)
    with update_pte_law [OF _ _ u(1)] st(2) assms show ?thesis
      by (simp add: untabled_def s u(2))
  qed
  with keepsD [OF and_update_pte_keeps] show ?thesis unfolding keeps_def by blast
qed

lemma and_update_pde_step:
  assumes "good held s" "untabled pa s" "and_update_pde pa rd wr ex s = Some s'"
  shows "good held s' \<and> same_outside (\<lambda>g. drop_bit 21 g = drop_bit 21 pa) s s'"
proof -
  obtain res m al where s: "s = (res, m, al)" by (rule prod_cases3)
  obtain b m' al' where u: "nvc_npt_update_pde m pa pa rd wr ex True True al = Some (b, m', al')" "s' = (res \<and> b, m', al')"
    using assms(3) by (auto simp: and_update_pde_def s)
  have "wf_host m" "host_fresh held m al" "pte_of m pa = None" res
    using assms by (simp_all add: good_def untabled_def s)
  with update_pde_law [OF _ _ _ u(1)] show ?thesis
    by (simp add: good_def same_outside_def s u(2))
qed

lemma protect_pdes_keeps: "keeps (good held) (in_page blank) (protect_pdes fuel blank j)"
proof -
  have "good held s \<Longrightarrow> protect_pdes fuel blank j s = Some s' \<Longrightarrow> good held s' \<and> same_outside (in_page blank) s s'" for s s'
  proof (induction fuel arbitrary: j s)
    case (Suc fuel)
    obtain res m al where s: "s = (res, m, al)" by (rule prod_cases3)
    show ?case
    proof (cases "j < length (pdes m)")
      case True
      then obtain s1 where s1: "and_update_pte (phys (pdes m ! j)) blank True True True s = Some s1"
          "protect_pdes fuel blank (Suc j) s1 = Some s'"
        using Suc.prems(2) by (auto simp: s split: option.splits)
      have g1: "good held s1 \<and> same_outside (in_page blank) s s1"
        by (rule keepsD [OF and_update_pte_keeps Suc.prems(1) s1(1)])
      with Suc.IH [OF _ s1(2)] show ?thesis
        by (blast intro: same_outside_trans)
    next
      case False
      then show ?thesis using Suc.prems by (simp add: s same_outside_def)
    qed
  qed simp
  then show ?thesis unfolding keeps_def by blast
qed

lemma protect_ptes_keeps: "keeps (good held) (in_page blank) (protect_ptes fuel blank j)"
proof -
  have "good held s \<Longrightarrow> protect_ptes fuel blank j s = Some s' \<Longrightarrow> good held s' \<and> same_outside (in_page blank) s s'" for s s'
  proof (induction fuel arbitrary: j s)
    case (Suc fuel)
    obtain res m al where s: "s = (res, m, al)" by (rule prod_cases3)
    show ?case
    proof (cases "j < length (ptes m)")
      case True
      then obtain s1 where s1: "and_update_pte (phys (ptes m ! j)) blank True True True s = Some s1"
          "protect_ptes fuel blank (Suc j) s1 = Some s'"
        using Suc.prems(2) by (auto simp: s split: option.splits)
      have g1: "good held s1 \<and> same_outside (in_page blank) s s1"
        by (rule keepsD [OF and_update_pte_keeps Suc.prems(1) s1(1)])
      with Suc.IH [OF _ s1(2)] show ?thesis
        by (blast intro: same_outside_trans)
    next
      case False
      then show ?thesis using Suc.prems by (simp add: s same_outside_def)
    qed
  qed simp
  then show ?thesis unfolding keeps_def by blast
qed

section \<open>The whole sequence\<close>

definition rmt_pages :: "svm_hvm_pages \<Rightarrow> u64 list" where
  "rmt_pages hv = rmd_directory_pa hv # concat (map table_pages (rmd_tables hv))"

lemma rmt_steps_pages: "rmt_steps hv = map (\<lambda>pa. and_update_pte pa pa True False True) (rmt_pages hv)"
  by (simp add: rmt_steps_def rmt_pages_def)

lemma host_fresh_take: "host_fresh held m al \<Longrightarrow> next_page al = (Some p, al1) \<Longrightarrow> host_fresh held m al1"
  using next_page_granted [of al p al1] by (auto simp: host_fresh_def)

definition touched :: "svm_hvm_pages \<Rightarrow> u64 \<Rightarrow> u64 \<Rightarrow> u64 \<Rightarrow> bool" where
  "touched hv blank block g \<longleftrightarrow> in_page blank g \<or> drop_bit 21 g = drop_bit 21 block \<or>
     (\<exists>p \<in> set (rmt_pages hv). in_page p g)"

lemma protect_frame:
  assumes wf: "wf_host m" and fr: "host_fresh held m al" and free: "pte_of m (pdpt_pa m) = None"
    and blank: "next_page al = (Some blank, al1)" "drop_bit 21 blank \<noteq> drop_bit 21 (pdpt_pa m)"
    and r: "nvc_npt_protect_critical_hypervisor fuel hv m al = Some (res, m', al')"
  shows "res \<and> wf_host m' \<and> (\<forall>g. low_half g \<and> \<not> touched hv blank (pdpt_pa m) g \<longrightarrow> host_map m' g = host_map m g)"
proof -
  let ?P = "touched hv blank (pdpt_pa m)" and ?s0 = "(True, m, al1)"
  let ?pre = "vcpu_steps hv blank @ [and_update_pte (ncr3_pa m) blank True True True]"
  let ?post = "[protect_pdes fuel blank 0, protect_ptes fuel blank 0] @ rmt_steps hv"
  have P: "in_page blank g \<Longrightarrow> ?P g" "drop_bit 21 g = drop_bit 21 (pdpt_pa m) \<Longrightarrow> ?P g"
    "p \<in> set (rmt_pages hv) \<Longrightarrow> in_page p g \<Longrightarrow> ?P g" for g p
    by (auto simp: touched_def)
  have "seq_steps (?pre @ and_update_pde (pdpt_pa m) True False True # ?post) ?s0 = Some (res, m', al')"
    using r blank(1) by (simp add: nvc_npt_protect_critical_hypervisor_def)
  then obtain s1 s2 where s1: "seq_steps ?pre ?s0 = Some s1" and s2: "and_update_pde (pdpt_pa m) True False True s1 = Some s2"
    and s3: "seq_steps ?post s2 = Some (res, m', al')"
    by (auto simp only: seq_steps_append seq_steps.simps split: option.splits)
  have pre: "keeps (\<lambda>s. good held s \<and> untabled (pdpt_pa m) s) ?P f" if mem: "f \<in> set ?pre" for f
  proof -
    obtain hpa where f: "f = and_update_pte hpa blank True True True"
      using mem by (auto simp: vcpu_steps_def split: if_splits)
    show ?thesis
      unfolding f by (rule keeps_mono [OF and_update_pte_untabled [OF blank(2)] P(1)])
  qed
  have post: "keeps (good held) ?P f" if mem: "f \<in> set ?post" for f
  proof -
    consider "f = protect_pdes fuel blank 0" | "f = protect_ptes fuel blank 0"
      | p where "p \<in> set (rmt_pages hv)" "f = and_update_pte p p True False True"
      using mem by (auto simp: rmt_steps_pages)
    then show ?thesis
    proof cases
      case 3
      show ?thesis unfolding 3(2) by (rule keeps_mono [OF and_update_pte_keeps P(3) [OF 3(1)]])
    qed (use keeps_mono [OF protect_pdes_keeps P(1)] keeps_mono [OF protect_ptes_keeps P(1)] in simp_all)
  qed
  have g0: "good held ?s0 \<and> untabled (pdpt_pa m) ?s0"
    using wf free host_fresh_take [OF fr blank(1)] by (simp add: good_def untabled_def)
  have g1: "(good held s1 \<and> untabled (pdpt_pa m) s1) \<and> same_outside ?P ?s0 s1"
    by (rule keepsD [where I = "\<lambda>s. good held s \<and> untabled (pdpt_pa m) s", OF keeps_seq g0 s1]) (use pre in blast)
  have g2: "good held s2 \<and> same_outside (\<lambda>g. drop_bit 21 g = drop_bit 21 (pdpt_pa m)) s1 s2"
    by (rule and_update_pde_step [OF _ _ s2]) (use g1 in simp_all)
  have o2: "same_outside ?P s1 s2"
    by (rule same_outside_mono [OF conjunct2 [OF g2] P(2)])
  have g3: "good held (res, m', al') \<and> same_outside ?P s2 (res, m', al')"
    by (rule keepsD [where I = "good held", OF keeps_seq _ s3]) (use post g2 in blast)+
  have "same_outside ?P ?s0 (res, m', al')"
    by (rule same_outside_trans [OF same_outside_trans [OF conjunct2 [OF g1] o2] conjunct2 [OF g3]])
  then show ?thesis using g3 by (simp add: good_def same_outside_def)
qed

section \<open>The loops over the tables\<close>

text \<open>Once the region of the blank page has its tables, redirecting to it allocates nothing.\<close>

definition ready :: "npt_manager \<Rightarrow> u64 \<Rightarrow> bool" where
  "ready m g \<longleftrightarrow> low_half g \<and> wf_tables 30 (pdes m) \<and> wf_tables 21 (ptes m) \<and>
     table_of 30 (pdes m) g \<noteq> None \<and> table_of 21 (ptes m) g \<noteq> None"

lemma table_of_set_None [simp]:
  assumes "wf_tables k ds" "j < length ds"
  shows "table_of k (set_entry ds j i e) g = None \<longleftrightarrow> table_of k ds g = None"
  by (simp add: table_of_set_entry [OF assms])

lemma ready_update_pte:
  assumes "ready m gpa"
  shows "\<exists>m'. nvc_npt_update_pte m hpa gpa rd wr ex alloc al = Some (True, m', al) \<and> ready m' gpa \<and>
    length (pdes m') = length (pdes m) \<and> length (ptes m') = length (ptes m)"
proof -
  have low: "low_half gpa" and wf: "wf_tables 30 (pdes m)" "wf_tables 21 (ptes m)"
    and tab: "table_of 30 (pdes m) gpa \<noteq> None" "table_of 21 (ptes m) gpa \<noteq> None"
    using assms by (simp_all add: ready_def)
  obtain k where k: "find_desc (2 ^ 30) gpa (pdes m) = Some k" "k < length (pdes m)"
    using find_desc_table [OF wf(1), of gpa] tab(1) by (auto split: option.splits)
  obtain j where j: "find_desc (2 ^ 21) gpa (ptes m) = Some j" "j < length (ptes m)"
    using find_desc_table [OF wf(2), of gpa] tab(2) by (auto split: option.splits)
  have k2: "find_desc page_1gb_size gpa (pdes m) = Some k" and j2: "find_desc page_2mb_size gpa (ptes m) = Some j"
    using k(1) j(1) by (simp_all add: page_1gb_size_def page_2mb_size_def)
  define f where "f = (pdpt m)(drop_bit 30 gpa :=
      link_table amd64_npt_pdpte ''pde_base'' (phys (pdes m ! k)) (pdpt m (drop_bit 30 gpa)))"
  have s1: "nvc_npt_split_pdpte m gpa True alloc al = Some (Desc k, m\<lparr>pdpt := f\<rparr>, al)"
    by (simp add: nvc_npt_split_pdpte_def find_or_make_pde_def k2 set_pdpt_Some low f_def)
      (simp add: page_1gb_count_def)
  obtain e where s2: "nvc_npt_split_pde m gpa True alloc al =
      Some (Desc j, set_pde (m\<lparr>pdpt := f\<rparr>) k (ucast (drop_bit 21 gpa)) e, al)"
    by (simp add: nvc_npt_split_pde_def find_or_make_pte_def j2 s1 Let_def)
  obtain e' where "nvc_npt_update_pte m hpa gpa rd wr ex alloc al =
      Some (True, set_pte (set_pde (m\<lparr>pdpt := f\<rparr>) k (ucast (drop_bit 21 gpa)) e) j (ucast (drop_bit 12 gpa)) e', al)"
    by (simp add: nvc_npt_update_pte_def s2 Let_def)
  moreover have "ready (set_pte (set_pde (m\<lparr>pdpt := f\<rparr>) k (ucast (drop_bit 21 gpa)) e) j (ucast (drop_bit 12 gpa)) e') gpa"
    using low wf tab k(2) j(2) by (simp add: ready_def)
  moreover have "length (set_entry ds i a b) = length ds" for ds i a b
    by (simp add: set_entry_def)
  ultimately show ?thesis by auto
qed

definition same_lengths :: "npt_manager \<Rightarrow> npt_manager \<Rightarrow> bool" where
  "same_lengths m m' \<longleftrightarrow> length (pdes m') = length (pdes m) \<and> length (ptes m') = length (ptes m)"

lemma protect_loop_ends:
  assumes "ready m blank"
  shows "length (pdes m) - j < fuel \<Longrightarrow> \<exists>m'. protect_pdes fuel blank j (res, m, al) = Some (res, m', al) \<and> ready m' blank \<and> same_lengths m m'"
    "length (ptes m) - j < fuel \<Longrightarrow> \<exists>m'. protect_ptes fuel blank j (res, m, al) = Some (res, m', al) \<and> ready m' blank \<and> same_lengths m m'"
proof -
  have step: "\<exists>m'. and_update_pte hpa blank True True True (res, m, al) = Some (res, m', al) \<and> ready m' blank \<and> same_lengths m m'" if "ready m blank" for m hpa
    using ready_update_pte [OF that, of hpa True True True True al] by (auto simp: and_update_pte_def same_lengths_def)
  show "length (pdes m) - j < fuel \<Longrightarrow> \<exists>m'. protect_pdes fuel blank j (res, m, al) = Some (res, m', al) \<and> ready m' blank \<and> same_lengths m m'"
    using assms
  proof (induction fuel arbitrary: j m)
    case (Suc fuel)
    show ?case
    proof (cases "j < length (pdes m)")
      case True
      obtain m1 where m1: "and_update_pte (phys (pdes m ! j)) blank True True True (res, m, al) = Some (res, m1, al)"
          "ready m1 blank" "same_lengths m m1"
        using step [OF Suc.prems(2)] by blast
      then show ?thesis using Suc.IH [of m1 "Suc j"] Suc.prems True by (auto simp: same_lengths_def)
    qed (use Suc.prems in \<open>simp add: same_lengths_def\<close>)
  qed simp
  show "length (ptes m) - j < fuel \<Longrightarrow> \<exists>m'. protect_ptes fuel blank j (res, m, al) = Some (res, m', al) \<and> ready m' blank \<and> same_lengths m m'"
    using assms
  proof (induction fuel arbitrary: j m)
    case (Suc fuel)
    show ?case
    proof (cases "j < length (ptes m)")
      case True
      obtain m1 where m1: "and_update_pte (phys (ptes m ! j)) blank True True True (res, m, al) = Some (res, m1, al)"
          "ready m1 blank" "same_lengths m m1"
        using step [OF Suc.prems(2)] by blast
      then show ?thesis using Suc.IH [of m1 "Suc j"] Suc.prems True by (auto simp: same_lengths_def)
    qed (use Suc.prems in \<open>simp add: same_lengths_def\<close>)
  qed simp
qed


end
