(* ===== verification/Npt_Host_Progress.thy ===== *)
theory Npt_Host_Progress
  imports Npt_Host_Protect
begin

text \<open>
  Progress of the updates of the host's nested paging: how many allocations an update consumes, and
  that the protection of the hypervisor's pages finishes when memory suffices.
\<close>

section \<open>Allocations that an operation consumes\<close>

lemma ex_le_drop [simp]: "\<exists>i \<le> Suc n. xs = drop i (x # xs)" "\<exists>i \<le> n. xs = drop i xs"
  by (rule exI [of _ 1], simp) (rule exI [of _ 0], simp)

definition uses :: "nat \<Rightarrow> allocs \<Rightarrow> allocs \<Rightarrow> bool" where
  "uses n al al' \<longleftrightarrow> (\<exists>i \<le> n. \<exists>j \<le> n. pool al' = drop i (pool al) \<and> pages al' = drop j (pages al))"

lemma uses_refl [simp]: "uses n al al"
  unfolding uses_def by (intro exI [of _ 0] conjI) simp_all

lemma uses_trans:
  assumes "uses a al al1" "uses b al1 al2"
  shows "uses (a + b) al al2"
proof -
  obtain i j i' j' where "i \<le> a" "j \<le> a" "i' \<le> b" "j' \<le> b"
    "pool al2 = drop i' (drop i (pool al))" "pages al2 = drop j' (drop j (pages al))"
    using assms by (auto simp: uses_def)
  then show ?thesis
    unfolding uses_def by (intro exI [of _ "i' + i"] exI [of _ "j' + j"] conjI) (simp_all add: add.commute)
qed

lemma uses_mono: "uses a al al' \<Longrightarrow> a \<le> b \<Longrightarrow> uses b al al'"
  unfolding uses_def by (meson order_trans)

lemma uses_pool: "next_pool al = (b, al') \<Longrightarrow> uses 1 al al'"
  by (cases "pool al") (auto simp: next_pool_def uses_def)

lemma uses_page: "next_page al = (q, al') \<Longrightarrow> uses 1 al al'"
  by (cases "pages al") (auto simp: next_page_def uses_def)

text \<open>Enough memory: no allocation fails and \<open>n\<close> of each kind remain.\<close>

definition plenty :: "nat \<Rightarrow> allocs \<Rightarrow> bool" where
  "plenty n al \<longleftrightarrow> False \<notin> set (pool al) \<and> None \<notin> set (pages al) \<and> n \<le> length (pool al) \<and> n \<le> length (pages al)"

lemma plenty_uses: "uses a al al' \<Longrightarrow> plenty (a + n) al \<Longrightarrow> plenty n al'"
  unfolding uses_def plenty_def by (auto dest: in_set_dropD)

lemma plenty_le: "plenty n al \<Longrightarrow> k \<le> n \<Longrightarrow> plenty k al"
  by (auto simp: plenty_def)

lemma plenty_take:
  assumes "plenty (Suc n) al"
  obtains bs p ps where "pool al = True # bs" "pages al = Some p # ps"
  using assms by (cases "pool al"; cases "pages al"; cases "hd (pages al)") (auto simp: plenty_def)

lemma find_or_make_pde_uses: "find_or_make_pde m gpa alloc al = (d, m', al') \<Longrightarrow> uses 2 al al'"
proof (cases "find_desc page_1gb_size gpa (pdes m) = None \<and> alloc")
  case True
  obtain b al1 where p: "next_pool al = (b, al1)" by fastforce
  obtain q al2 where g: "next_page al1 = (q, al2)" by fastforce
  have u: "uses 2 al al2" using uses_trans [OF uses_pool [OF p] uses_page [OF g]] by (simp add: numeral_2_eq_2)
  assume "find_or_make_pde m gpa alloc al = (d, m', al')"
  then have "al' = al1 \<or> al' = al2"
    using True p g by (auto simp: find_or_make_pde_def split: bool.splits option.splits)
  then show ?thesis using u uses_mono [OF uses_pool [OF p], of 2] by auto
qed (auto simp: find_or_make_pde_def split: option.splits)

lemma split_pdpte_uses: "nvc_npt_split_pdpte m gpa host alloc al = Some (d, m', al') \<Longrightarrow> uses 2 al al'"
  by (auto simp: nvc_npt_split_pdpte_def split: prod.splits if_splits desc_ref.splits dest: find_or_make_pde_uses)

lemma find_or_make_pte_uses:
  assumes "find_or_make_pte m gpa host alloc al = Some (t, m', al')"
  shows "uses 4 al al'"
proof (cases "find_desc page_2mb_size gpa (ptes m) = None \<and> alloc")
  case True
  obtain b al1 where p: "next_pool al = (b, al1)" by fastforce
  obtain q al2 where g: "next_page al1 = (q, al2)" by fastforce
  have u: "uses 2 al al2" using uses_trans [OF uses_pool [OF p] uses_page [OF g]] by (simp add: numeral_2_eq_2)
  consider "al' = al1" | "al' = al2"
    | d m1 where "nvc_npt_split_pdpte m gpa host True al2 = Some (d, m1, al')"
    using assms True p g
    by (auto simp: find_or_make_pte_def split: if_splits bool.splits option.splits prod.splits desc_ref.splits)
  then show ?thesis
  proof cases
    case 1
    then show ?thesis using uses_mono [OF uses_pool [OF p], of 4] by simp
  next
    case 2
    then show ?thesis using uses_mono [OF u, of 4] by simp
  next
    case 3
    show ?thesis using uses_trans [OF u split_pdpte_uses [OF 3]] by simp
  qed
next
  case False
  then show ?thesis using assms by (auto simp: find_or_make_pte_def split: option.splits)
qed

lemma split_pde_uses:
  assumes "nvc_npt_split_pde m gpa True alloc al = Some (d, m', al')"
  shows "uses 6 al al'"
proof -
  obtain t m1 al1 q m2 where f: "find_or_make_pte m gpa True alloc al = Some (t, m1, al1)"
    and s: "nvc_npt_split_pdpte m1 gpa True alloc al1 = Some (q, m2, al')"
    using assms by (auto simp: nvc_npt_split_pde_def Let_def split: option.splits desc_ref.splits)
  show ?thesis using uses_trans [OF find_or_make_pte_uses [OF f] split_pdpte_uses [OF s]] by simp
qed

section \<open>Progress of a step\<close>

lemma split_pdpte_progress:
  assumes "low_half gpa" "table_of 30 (pdes m) gpa \<noteq> None \<or> plenty 1 al" "wf_tables 30 (pdes m)"
  shows "\<exists>k m' al'. nvc_npt_split_pdpte m gpa True True al = Some (Desc k, m', al')"
proof (cases "find_desc page_1gb_size gpa (pdes m)")
  case None
  have "table_of 30 (pdes m) gpa = None"
    using find_desc_table [OF assms(3), of gpa] None by (simp add: page_1gb_size_def)
  then have "plenty (Suc 0) al" using assms(2) by simp
  then obtain bs p ps where "pool al = True # bs" "pages al = Some p # ps" by (rule plenty_take)
  then show ?thesis
    using assms(1) None
    by (auto simp: nvc_npt_split_pdpte_def find_or_make_pde_def next_pool_def next_page_def set_pdpt_Some)
next
  case (Some k)
  then show ?thesis
    using assms(1) by (simp add: nvc_npt_split_pdpte_def find_or_make_pde_def set_pdpt_Some)
qed

lemma split_pde_progress:
  assumes wf: "wf_host m" and fr: "host_fresh held m al" and low: "low_half gpa" and al: "plenty 2 al"
  shows "\<exists>j m' al'. nvc_npt_split_pde m gpa True True al = Some (Desc j, m', al')"
proof -
  obtain bs p ps where ap: "pool al = True # bs" "pages al = Some p # ps"
    using plenty_take [of 1 al] al by (metis numeral_2_eq_2 One_nat_def)
  have f: "\<exists>j m1 al1. find_or_make_pte m gpa True True al = Some (Desc j, m1, al1) \<and>
      (table_of 30 (pdes m1) gpa \<noteq> None \<or> al1 = al) \<and> wf_tables 30 (pdes m1)"
  proof (cases "find_desc page_2mb_size gpa (ptes m)")
    case None
    define al2 where "al2 = \<lparr>pool = bs, pages = ps\<rparr>"
    have take: "next_pool al = (True, al\<lparr>pool := bs\<rparr>)" "next_page (al\<lparr>pool := bs\<rparr>) = (Some p, al2)"
      using ap by (simp_all add: next_pool_def next_page_def al2_def)
    have "plenty 1 al2" using al by (auto simp: plenty_def al2_def ap)
    then obtain k m1 al3 where s: "nvc_npt_split_pdpte m gpa True True al2 = Some (Desc k, m1, al3)"
      using split_pdpte_progress [OF low _ wf_hostD(3) [OF wf]] by blast
    have "table_of 30 (pdes m1) gpa \<noteq> None" "wf_tables 30 (pdes m1)"
      using split_pdpte_law [OF wf host_fresh_next(2) [OF fr take] s] by (auto simp: wf_host_def)
    then show ?thesis by (simp add: find_or_make_pte_def None take s)
  next
    case (Some j)
    then show ?thesis using wf_hostD(3) [OF wf] by (simp add: find_or_make_pte_def)
  qed
  then obtain j m1 al1 where 1: "find_or_make_pte m gpa True True al = Some (Desc j, m1, al1)"
      "table_of 30 (pdes m1) gpa \<noteq> None \<or> al1 = al" "wf_tables 30 (pdes m1)" by blast
  obtain k m2 al2 where "nvc_npt_split_pdpte m1 gpa True True al1 = Some (Desc k, m2, al2)"
    using split_pdpte_progress [OF low _ 1(3), of al1] 1(2) plenty_le [OF al, of 1] by auto
  then show ?thesis by (simp add: nvc_npt_split_pde_def 1(1) Let_def)
qed

lemma update_pte_progress:
  assumes "wf_host m" "host_fresh held m al" "low_half gpa" "plenty (6 + n) al"
  shows "\<exists>m' al'. nvc_npt_update_pte m hpa gpa rd wr ex True al = Some (True, m', al') \<and> plenty n al'"
proof -
  obtain j m' al' where s: "nvc_npt_split_pde m gpa True True al = Some (Desc j, m', al')"
    using split_pde_progress [OF assms(1-3)] plenty_le [OF assms(4), of 2] by auto
  then show ?thesis
    using plenty_uses [OF split_pde_uses [OF s] assms(4)] by (simp add: nvc_npt_update_pte_def Let_def)
qed

section \<open>Progress of the protection\<close>

abbreviation mem_of :: "npt_step \<Rightarrow> allocs" where "mem_of s \<equiv> snd (snd s)"
abbreviation npt_of :: "npt_step \<Rightarrow> npt_manager" where "npt_of s \<equiv> fst (snd s)"

lemma and_update_pte_progress:
  assumes "good held s" "low_half gpa" "plenty (6 + n) (mem_of s)"
  shows "\<exists>s'. and_update_pte hpa gpa rd wr ex s = Some s' \<and> plenty n (mem_of s')"
proof -
  obtain res m al where s: "s = (res, m, al)" by (rule prod_cases3)
  obtain m' al' where "nvc_npt_update_pte m hpa gpa rd wr ex True al = Some (True, m', al')" "plenty n al'"
    using update_pte_progress [of m held al gpa n hpa rd wr ex] assms by (auto simp: good_def s)
  then show ?thesis by (simp add: and_update_pte_def s)
qed

lemma seq_progress:
  assumes "\<forall>f \<in> set fs. \<exists>hpa gpa rd wr ex. f = and_update_pte hpa gpa rd wr ex \<and> low_half gpa"
    and "good held s" "plenty (6 * length fs + n) (mem_of s)"
  shows "\<exists>s'. seq_steps fs s = Some s' \<and> plenty n (mem_of s')"
  using assms
proof (induction fs arbitrary: s)
  case (Cons f fs)
  obtain hpa gpa rd wr ex where f: "f = and_update_pte hpa gpa rd wr ex" "low_half gpa"
    using Cons.prems(1) by auto
  have "plenty (6 + (6 * length fs + n)) (mem_of s)" using Cons.prems(3) by (simp add: algebra_simps)
  then obtain s1 where s1: "f s = Some s1" "plenty (6 * length fs + n) (mem_of s1)"
    using and_update_pte_progress [OF Cons.prems(2) f(2)] f(1) by blast
  have "good held s1" using keepsD [OF and_update_pte_keeps Cons.prems(2)] s1(1) f(1) by blast
  then show ?case using Cons.IH [of s1] Cons.prems(1) s1 by simp
qed simp

lemma and_update_pte_links:
  assumes "good held s" "and_update_pte hpa gpa rd wr ex s = Some s'"
  shows "linked2 (npt_of s') gpa"
proof -
  obtain res m al where s: "s = (res, m, al)" by (rule prod_cases3)
  obtain b m' al' where u: "nvc_npt_update_pte m hpa gpa rd wr ex True al = Some (b, m', al')" "s' = (res \<and> b, m', al')"
    using assms(2) by (auto simp: and_update_pte_def s)
  have "wf_host m" "host_fresh held m al" using assms(1) by (simp_all add: good_def s)
  then show ?thesis using update_pte_law [OF _ _ u(1)] by (simp add: u(2))
qed

lemma and_update_pde_progress:
  assumes "good held s" "untabled pa s" "low_half pa" "plenty (2 + n) (mem_of s)"
    and "drop_bit 21 g \<noteq> drop_bit 21 pa" "low_half g" "linked2 (npt_of s) g"
  shows "\<exists>s'. and_update_pde pa rd wr ex s = Some s' \<and> plenty n (mem_of s') \<and> linked2 (npt_of s') g"
proof -
  obtain res m al where s: "s = (res, m, al)" by (rule prod_cases3)
  have wf: "wf_host m" "host_fresh held m al" "pte_of m pa = None"
    using assms(1,2) by (simp_all add: good_def untabled_def s)
  obtain k m1 al' where sp: "nvc_npt_split_pdpte m pa True True al = Some (Desc k, m1, al')"
    using split_pdpte_progress [OF assms(3) _ wf_hostD(3) [OF wf(1)], of al] plenty_le [OF assms(4), of 1] by (auto simp: s)
  then obtain m' where u: "nvc_npt_update_pde m pa pa rd wr ex True True al = Some (True, m', al')"
    by (simp add: nvc_npt_update_pde_def Let_def)
  show ?thesis
    using update_pde_law [OF wf u] plenty_uses [OF split_pdpte_uses [OF sp]] assms(4-7) u
    by (auto simp: and_update_pde_def s)
qed

lemma linked_ready: "wf_host m \<Longrightarrow> low_half g \<Longrightarrow> linked2 m g \<Longrightarrow> ready m g"
  by (auto simp: ready_def linked2_def linked1_def pde_of_def pte_of_def wf_host_def)

lemma protect_progress:
  assumes wf: "wf_host m" and fr: "host_fresh held m al" and free: "pte_of m (pdpt_pa m) = None"
    and blank: "next_page al = (Some blank, al1)" "low_half blank" "drop_bit 21 blank \<noteq> drop_bit 21 (pdpt_pa m)"
    and low: "low_half (pdpt_pa m)" "\<forall>p \<in> set (rmt_pages hv). low_half p"
    and mem: "plenty (6 * (3 * length (virtual_cpus hv) + 1) + 2 + 6 * length (rmt_pages hv)) al1"
  shows "\<exists>n. \<forall>fuel \<ge> n. \<exists>m' al'. nvc_npt_protect_critical_hypervisor fuel hv m al = Some (True, m', al')"
proof -
  let ?s0 = "(True, m, al1)" and ?r = "6 * length (rmt_pages hv)"
  let ?ncr3 = "and_update_pte (ncr3_pa m) blank True True True"
  let ?pre = "vcpu_steps hv blank"
  let ?I = "\<lambda>s. good held s \<and> untabled (pdpt_pa m) s"
  have len: "length ?pre = 3 * length (virtual_cpus hv)"
    by (simp add: vcpu_steps_def length_concat sum_list_triv comp_def)
  have form: "\<exists>hpa. f = and_update_pte hpa blank True True True" if mem_f: "f \<in> set ?pre" for f
    using mem_f by (auto simp: vcpu_steps_def split: if_splits)
  have g0: "?I ?s0"
    using wf free host_fresh_take [OF fr blank(1)] by (simp add: good_def untabled_def)
  have all: "\<forall>f \<in> set ?pre. \<exists>hpa gpa rd wr ex. f = and_update_pte hpa gpa rd wr ex \<and> low_half gpa"
    using form blank(2) by blast
  have mem0: "plenty (6 * length ?pre + (6 + (2 + ?r))) (mem_of ?s0)"
    using mem by (simp add: len algebra_simps)
  obtain s1 where s1: "seq_steps ?pre ?s0 = Some s1" "plenty (6 + (2 + ?r)) (mem_of s1)"
    using seq_progress [OF all conjunct1 [OF g0] mem0] by blast
  have kp: "\<forall>f \<in> set ?pre. keeps ?I (in_page blank) f"
    using form and_update_pte_untabled [OF blank(3)] by blast
  have g1: "?I s1"
    by (rule conjunct1 [OF keepsD [where I = ?I, OF keeps_seq [OF kp] g0 s1(1)]])
  obtain s2 where s2: "?ncr3 s1 = Some s2" "plenty (2 + ?r) (mem_of s2)"
    using and_update_pte_progress [OF _ blank(2) s1(2)] g1 by blast
  have g2: "?I s2"
    by (rule conjunct1 [OF keepsD [where I = ?I, OF and_update_pte_untabled [OF blank(3)] g1 s2(1)]])
  have l2: "linked2 (npt_of s2) blank"
    using and_update_pte_links [OF _ s2(1)] g1 by blast
  obtain s3 where s3: "and_update_pde (pdpt_pa m) True False True s2 = Some s3" "plenty ?r (mem_of s3)" "linked2 (npt_of s3) blank"
    using and_update_pde_progress [OF _ _ low(1) s2(2) blank(3,2) l2] g2 by blast
  have g3: "good held s3"
    using and_update_pde_step [OF _ _ s3(1)] g2 by blast
  obtain m3 al3 where m3: "s3 = (True, m3, al3)"
    using g3 by (cases s3) (simp add: good_def)
  have r3: "ready m3 blank"
    using linked_ready [OF _ blank(2)] g3 s3(3) by (simp add: m3 good_def)
  show ?thesis
  proof (rule exI [of _ "length (pdes m3) + length (ptes m3) + 1"], intro allI impI)
    fix fuel assume fuel: "length (pdes m3) + length (ptes m3) + 1 \<le> fuel"
    obtain m4 where m4: "protect_pdes fuel blank 0 s3 = Some (True, m4, al3)" "ready m4 blank" "same_lengths m3 m4"
      using protect_loop_ends(1) [OF r3, of 0 fuel] fuel by (auto simp: m3)
    obtain m5 where m5: "protect_ptes fuel blank 0 (True, m4, al3) = Some (True, m5, al3)"
      using protect_loop_ends(2) [OF m4(2), of 0 fuel] fuel m4(3) by (auto simp: same_lengths_def)
    have g5: "good held (True, m5, al3)"
      using keepsD [OF protect_ptes_keeps _ m5] keepsD [OF protect_pdes_keeps g3 m4(1)] by blast
    have all6: "\<forall>f \<in> set (rmt_steps hv). \<exists>hpa gpa rd wr ex. f = and_update_pte hpa gpa rd wr ex \<and> low_half gpa"
      using low(2) unfolding rmt_steps_pages by fastforce
    have mem6: "plenty (6 * length (rmt_steps hv) + 0) (mem_of (True, m5, al3))"
      using s3(2) by (simp add: rmt_steps_pages m3)
    obtain s6 where s6: "seq_steps (rmt_steps hv) (True, m5, al3) = Some s6"
      using seq_progress [OF all6 g5 mem6] by blast
    have post: "keeps (good held) (\<lambda>_. True) f" if "f \<in> set (rmt_steps hv)" for f
      using that keeps_mono [OF and_update_pte_keeps, where Q = "\<lambda>_. True"] by (auto simp: rmt_steps_pages)
    have kp6: "\<forall>f \<in> set (rmt_steps hv). keeps (good held) (\<lambda>_. True) f"
      using post by blast
    have "good held s6"
      by (rule conjunct1 [OF keepsD [where I = "good held", OF keeps_seq [OF kp6] g5 s6]])
    then obtain m6 al6 where "s6 = (True, m6, al6)" by (cases s6) (simp add: good_def)
    then show "\<exists>m' al'. nvc_npt_protect_critical_hypervisor fuel hv m al = Some (True, m', al')"
      using s1(1) s2(1) s3(1) m4(1) m5 s6 blank(1)
      by (simp add: nvc_npt_protect_critical_hypervisor_def seq_steps_append)
  qed
qed

end
