(* ===== verification/Npt_Host_Properties.thy ===== *)
theory Npt_Host_Properties
  imports Npt_Host_Progress
begin

text \<open>
  The properties of the host's nested paging: the identity map, splitting, the update of a page, the
  behaviour when memory is exhausted, and what the protection of the hypervisor's pages achieves.
\<close>

section \<open>The identity map\<close>

lemma identity_pdpte_fields:
  assumes "low_half g"
  shows "huge (identity_pdpte (drop_bit 30 g))" "rights (identity_pdpte (drop_bit 30 g)) = full_access"
    "bf_get amd64_npt_huge_pdpte ''page_base'' (identity_pdpte (drop_bit 30 g)) = drop_bit 30 g"
proof -
  have b: "bit (identity_pdpte k) n \<longleftrightarrow> n \<in> {0, 1, 2, 7} \<or> 30 \<le> n \<and> n < 52 \<and> bit k (n - 30)" for k n
    by (auto simp: identity_pdpte_def bf_put_def layout bit_simps)
  show "huge (identity_pdpte (drop_bit 30 g))" "rights (identity_pdpte (drop_bit 30 g)) = full_access"
    by (simp_all add: large_bits rights_bits b)
  have "bf_get amd64_npt_huge_pdpte ''page_base'' (identity_pdpte k) = take_bit 22 k" for k
    by (rule bit_word_eqI) (auto simp: bf_get_def layout bit_simps b)
  then show "bf_get amd64_npt_huge_pdpte ''page_base'' (identity_pdpte (drop_bit 30 g)) = drop_bit 30 g"
    by (simp add: low_take [OF assms])
qed

lemma identity_pml4e_fields:
  assumes "take_bit 21 q = 0" "drop_bit 52 q = 0"
  shows "rights (identity_pml4e q (ucast (i :: 9 word))) = full_access"
    "bf_get amd64_npt_pml4e ''pdpte_base'' (identity_pml4e q (ucast i)) = page_4kb_count q + ucast i"
proof -
  let ?k = "drop_bit 12 q + ucast i"
  have low: "\<not> bit q n" if "n < 21" for n
    using that arg_cong [OF assms(1), of "\<lambda>x. bit x n"] by (simp add: bit_take_bit_iff)
  have high: "\<not> bit q n" if "52 \<le> n" for n
    using that arg_cong [OF assms(2), of "\<lambda>x. bit x (n - 52)"] by (simp add: bit_drop_bit_eq)
  then have high: "n < 52" if "bit q n" for n
    using that not_le by blast
  have k: "?k = drop_bit 12 q OR ucast i"
    by (rule disjunctive_add) (auto simp: bit_simps low dest: bit_imp_le_length)
  have b: "bit (identity_pml4e q (ucast i)) n \<longleftrightarrow> n \<in> {0, 1, 2} \<or> 12 \<le> n \<and> n < 52 \<and> bit ?k (n - 12)" for n
    by (auto simp: identity_pml4e_def bf_put_def layout bit_simps)
  show "rights (identity_pml4e q (ucast i)) = full_access"
    by (simp add: rights_bits b)
  have "take_bit 40 ?k = ?k"
    unfolding k by (rule bit_word_eqI) (auto simp: bit_simps dest: bit_imp_le_length high)
  moreover have "bf_get amd64_npt_pml4e ''pdpte_base'' (identity_pml4e q (ucast i)) = take_bit 40 ?k"
    by (rule bit_word_eqI) (auto simp: bf_get_def layout bit_simps b)
  ultimately show "bf_get amd64_npt_pml4e ''pdpte_base'' (identity_pml4e q (ucast i)) = page_4kb_count q + ucast i"
    by (simp add: page_4kb_count_def)
qed

lemma build_identity_fields:
  assumes "nvc_npt_build_identity_map block al = (Some m, al')"
  obtains q where "block = Some q" "ncr3 m = (\<lambda>i. identity_pml4e q (ucast i))" "pdpt m = identity_pdpte" "pdpt_pa m = q"
    "pdes m = []" "ptes m = []"
  using assms by (auto simp: nvc_npt_build_identity_map_def split: prod.splits bool.splits option.splits)

lemma identity_wf:
  assumes "nvc_npt_build_identity_map (Some q) al = (Some m, al')" "take_bit 21 q = 0" "drop_bit 52 q = 0"
  shows "wf_host m" "low_half g \<Longrightarrow> host_map m g = (full_access, g)" "pdes m = []" "ptes m = []"
proof -
  have m: "ncr3 m = (\<lambda>i. identity_pml4e q (ucast i))" "pdpt m = identity_pdpte" "pdpt_pa m = q"
    and empty: "pdes m = []" "ptes m = []"
    using assms(1) by (auto elim: build_identity_fields)
  show "wf_host m"
    using identity_pml4e_fields [OF assms(2,3)] identity_pdpte_fields
    by (simp add: wf_host_def pml4_ok_def pdpt_ok_def pd_ok_def m empty)
  show "low_half g \<Longrightarrow> host_map m g = (full_access, g)"
    by (simp add: host_map_def m empty identity_pdpte_fields)
  show "pdes m = []" "ptes m = []" by (rule empty)+
qed

text \<open>The map that \<open>nvc_npt_build_identity_map\<close> builds in a 2-MiB-aligned block translates every
  48-bit address to itself with all rights.\<close>
theorem identity_map_identity:
  assumes "nvc_npt_build_identity_map (Some q) al = (Some m, al')" "take_bit 21 q = 0" "drop_bit 52 q = 0"
    and "low_half gpa"
  shows "host_walk m gpa = (full_access, gpa)"
  using identity_wf [OF assms(1-3)] assms(4) host_walk_map by simp

definition sample_host :: npt_manager where
  "sample_host = \<lparr>ncr3 = (\<lambda>i. identity_pml4e 0x200000 (ucast i)), ncr3_pa = 0x1000, pdpt = identity_pdpte,
     pdpt_pa = 0x200000, pdes = [], ptes = []\<rparr>"

lemma sample_host_built:
  "nvc_npt_build_identity_map (Some 0x200000) \<lparr>pool = [True], pages = [Some 0x1000]\<rparr> =
     (Some sample_host, \<lparr>pool = [], pages = []\<rparr>)"
  by (simp add: nvc_npt_build_identity_map_def sample_host_def next_pool_def next_page_def)

lemma sample_block: "take_bit 21 (0x200000 :: u64) = 0" "drop_bit 52 (0x200000 :: u64) = 0"
  by simp_all

theorem identity_map_identity_witness: "host_walk sample_host 0x12345678 = (full_access, 0x12345678)"
  by (rule identity_map_identity [OF sample_host_built sample_block]) (simp add: low_half_def)

section \<open>Splitting\<close>

lemma sample_wf: "wf_host sample_host" "low_half g \<Longrightarrow> host_map sample_host g = (full_access, g)"
  "pdes sample_host = []" "ptes sample_host = []" "pdpt_pa sample_host = 0x200000"
  using identity_wf [OF sample_host_built sample_block] by simp_all (simp add: sample_host_def)

definition sample_allocs :: allocs where
  "sample_allocs = \<lparr>pool = [True, True], pages = [Some 0x3000, Some 0x4000]\<rparr>"

lemma sample_fresh: "host_fresh [] sample_host sample_allocs"
  by (simp add: host_fresh_def sample_wf granted_pages_def sample_allocs_def List.map_filter_simps page_frame_def
      page_4kb_mult_def page_4kb_count_def)

text \<open>C12: Splitting a region of the host down to 4-KiB pages changes no translation: the processor
  reads the same physical address with the same rights at every address, the tables stay well formed
  and the result is a descriptor of the list.\<close>
theorem host_split_transparent:
  assumes "wf_host m" "host_fresh held m al"
    and "nvc_npt_split_pde m gpa True alloc al = Some (d, m', al')"
  shows "wf_host m' \<and> host_fresh held m' al' \<and> (\<exists>j < length (ptes m'). d = Desc j) \<and>
    (\<forall>g. low_half g \<longrightarrow> host_walk m' g = host_walk m g)"
  using split_pde_law [OF assms] assms(1) by (auto simp: host_walk_map same_view_def)

text \<open>When no allocation fails and two descriptors and two pages are left, \<open>nvc_npt_update_pte\<close> succeeds at every 48-bit address.\<close>
theorem host_update_pte_succeeds:
  assumes "wf_host m" "host_fresh held m al" "low_half gpa" "plenty 2 al"
  shows "\<exists>m' al'. nvc_npt_update_pte m hpa gpa r w x True al = Some (True, m', al')"
  using split_pde_progress [OF assms] by (auto simp: nvc_npt_update_pte_def Let_def)

lemma sample_pools: "plenty 2 sample_allocs"
  by (simp add: sample_allocs_def plenty_def)

lemma sample_low: "low_half 0x345678" by (simp add: low_half_def)

theorem host_update_pte_succeeds_witness:
  "\<exists>m' al'. nvc_npt_update_pte sample_host 0x5000 0x345678 True False True True sample_allocs = Some (True, m', al')"
  by (rule host_update_pte_succeeds [OF sample_wf(1) sample_fresh sample_low sample_pools])

theorem host_split_transparent_witness:
  "\<exists>d m' al'. nvc_npt_split_pde sample_host 0x345678 True True sample_allocs = Some (d, m', al') \<and>
     (\<forall>g. low_half g \<longrightarrow> host_walk m' g = host_walk sample_host g)"
proof -
  obtain j m' al' where s: "nvc_npt_split_pde sample_host 0x345678 True True sample_allocs = Some (Desc j, m', al')"
    using split_pde_progress [OF sample_wf(1) sample_fresh sample_low sample_pools] by blast
  with host_split_transparent [OF sample_wf(1) sample_fresh s] show ?thesis by blast
qed

section \<open>Updating a page\<close>

text \<open>C11: \<open>nvc_npt_update_pte\<close> redirects exactly one page: the addresses of the page of \<open>gpa\<close> are
  translated to the page of \<open>hpa\<close> with the given rights, limited by the rights of the levels above,
  and every other address is translated as before.\<close>
theorem host_update_pte_effect:
  assumes "wf_host m" "host_fresh held m al"
    and "nvc_npt_update_pte m hpa gpa r w x alloc al = Some (b, m', al')"
  shows "wf_host m' \<and> host_fresh held m' al' \<and>
    (\<forall>g. low_half g \<longrightarrow> host_walk m' g =
      (if page_4kb_count g = page_4kb_count gpa
       then meet (upper m gpa) ((r, w, x), page_4kb_mult (take_bit 40 (page_4kb_count hpa)) OR page_4kb_offset g)
       else host_walk m g))"
  using update_pte_law [OF assms] assms(1) by (auto simp: host_walk_map page_4kb_count_def)

theorem host_update_pte_effect_witness:
  "\<exists>m' al'. nvc_npt_update_pte sample_host 0x5000 0x345678 True False True True sample_allocs = Some (True, m', al') \<and>
     host_walk m' 0x345ABC = ((True, False, True), 0x5ABC) \<and> host_walk m' 0x346ABC = (full_access, 0x346ABC)"
proof -
  have up: "upper sample_host 0x345678 = full_access"
    by (simp add: upper_def pde_of_def sample_wf) (simp add: sample_host_def rights_bits identity_pdpte_def bf_put_def layout bit_simps)
  obtain m' al' where s: "nvc_npt_update_pte sample_host 0x5000 0x345678 True False True True sample_allocs = Some (True, m', al')"
    using split_pde_progress [OF sample_wf(1) sample_fresh sample_low sample_pools]
    by (auto simp: nvc_npt_update_pte_def Let_def)
  have low: "low_half 0x345ABC" "low_half 0x346ABC" by (simp_all add: low_half_def)
  note eff = host_update_pte_effect [OF sample_wf(1) sample_fresh s]
  have "host_walk m' 0x345ABC = ((True, False, True), 0x5ABC)"
    using eff low(1) up by (simp add: page_4kb_count_def page_4kb_mult_def page_offset_mask take_bit_eq_mask mask_eq_exp_minus_1)
  moreover have "host_walk m' 0x346ABC = (full_access, 0x346ABC)"
    using eff low(2) host_walk_map [OF sample_wf(1) low(2)] sample_wf(2) [OF low(2)] by (simp add: page_4kb_count_def)
  ultimately show ?thesis using s by blast
qed

section \<open>Exhausted memory\<close>

text \<open>In host mode the failure result of \<open>nvc_npt_update_pte\<close> is dead code: the function either
  succeeds or, when the descriptor of an undescribed region cannot be allocated, reads through a null
  pointer instead of returning \<open>false\<close>.\<close>
theorem host_update_pte_never_fails:
  "nvc_npt_update_pte m hpa gpa r w x alloc al \<noteq> Some (False, m', al') \<and>
   (find_desc page_2mb_size gpa (ptes m) = None \<and> \<not> fst (next_pool al) \<longrightarrow>
     nvc_npt_update_pte m hpa gpa r w x alloc al = None)"
proof (intro conjI impI, goal_cases)
  case 1
  show "nvc_npt_update_pte m hpa gpa r w x alloc al \<noteq> Some (False, m', al')"
    by (auto simp: nvc_npt_update_pte_def nvc_npt_split_pde_def nvc_npt_split_pdpte_def Let_def
        split: option.splits desc_ref.splits prod.splits)
next
  case 2
  then show "nvc_npt_update_pte m hpa gpa r w x alloc al = None"
    by (cases "next_pool al")
      (auto simp: nvc_npt_update_pte_def nvc_npt_split_pde_def nvc_npt_split_pdpte_def find_or_make_pte_def Let_def
        split: option.splits desc_ref.splits prod.splits)
qed

theorem host_update_pte_never_fails_witness:
  "nvc_npt_update_pte sample_host 0x5000 0x345678 True False True True \<lparr>pool = [], pages = []\<rparr> = None"
  by (rule mp [OF conjunct2 [OF host_update_pte_never_fails]]) (simp add: sample_wf next_pool_def)

section \<open>Protection of the hypervisor's pages\<close>

text \<open>C20: \<open>nvc_npt_protect_critical_hypervisor\<close> reports success but leaves the pages it names reachable:
  it passes the physical address of the page and the blank page in the order of target and source, so
  the blank page is redirected and the control block or save area of a processor, which lies outside
  the blank page, the block of page-directory-pointer tables and the reverse-mapping tables, is
  translated to itself with all rights.\<close>
theorem protection_misses_control_blocks:
  assumes "nvc_npt_build_identity_map (Some q) al0 = (Some m, al00)" "take_bit 21 q = 0" "drop_bit 52 q = 0"
    and "host_fresh held m al" "next_page al = (Some blank, al1)" "page_2mb_count blank \<noteq> page_2mb_count q"
    and "nvc_npt_protect_critical_hypervisor fuel hv m al = Some (res, m', al')"
    and "v \<in> set (virtual_cpus hv)" "p = vmcb_pa v \<or> p = hsave_pa v" "low_half p" "\<not> touched hv blank q p"
  shows "res \<and> host_walk m' p = (full_access, p)"
proof -
  note id = identity_wf [OF assms(1-3)]
  have q: "pdpt_pa m = q" using assms(1) by (auto elim: build_identity_fields)
  have "pte_of m q = None" by (simp add: pte_of_def id)
  with protect_frame [OF id(1) assms(4) _ assms(5) _ assms(7)] assms(6,10,11) id(2) [OF assms(10)]
  show ?thesis by (simp add: q page_2mb_count_def host_walk_map)
qed

definition sample_hvm :: svm_hvm_pages where
  "sample_hvm = \<lparr>virtual_cpus = [\<lparr>hsave_pa = 0x7000, vmcb_pa = 0x8000, hvmcb_pa = 0x9000\<rparr>], msrpm_pa = 0xA000,
     iopm_pa = 0xC000, rmd_directory_pa = 0, rmd_tables = []\<rparr>"

definition sample_pages :: "u64 list" where
  "sample_pages = map (\<lambda>i. 0x400000 + 0x1000 * of_nat i) [0..<33]"

definition sample_memory :: allocs where
  "sample_memory = \<lparr>pool = replicate 32 True, pages = map Some sample_pages\<rparr>"

lemma sample_pages_cons: "sample_pages = 0x400000 # map (\<lambda>i. 0x400000 + 0x1000 * of_nat i) [1..<33]"
  by (simp add: sample_pages_def upt_conv_Cons)

lemma sample_memory_fresh: "host_fresh [] sample_host sample_memory"
proof -
  have "granted_pages sample_memory = sample_pages"
    by (simp add: granted_pages_def sample_memory_def List.map_filter_def comp_def)
  moreover have "distinct sample_pages" "\<forall>p \<in> set sample_pages. page_frame p"
    by (simp_all add: sample_pages_def upt_rec page_frame_def page_4kb_mult_def page_4kb_count_def)
  ultimately show ?thesis by (simp add: host_fresh_def sample_wf)
qed

lemma sample_blank:
  "next_page sample_memory = (Some 0x400000, sample_memory\<lparr>pages := tl (pages sample_memory)\<rparr>)"
  by (simp add: next_page_def sample_memory_def sample_pages_cons)

lemma sample_plenty: "plenty 32 (sample_memory\<lparr>pages := tl (pages sample_memory)\<rparr>)"
  by (auto simp: plenty_def sample_memory_def sample_pages_cons)

text \<open>C27: When no allocation fails and six descriptors and pages are left for each page to protect, the
  protection of the identity map finishes and returns success; the loops over the lists of tables,
  which earlier steps extend, end after finitely many rounds.\<close>
theorem protection_finishes:
  assumes "nvc_npt_build_identity_map (Some q) al0 = (Some m, al00)" "take_bit 21 q = 0" "drop_bit 52 q = 0"
    and "host_fresh held m al" "next_page al = (Some blank, al1)" "page_2mb_count blank \<noteq> page_2mb_count q"
    and "low_half blank" "low_half q" "\<forall>p \<in> set (rmt_pages hv). low_half p"
    and "plenty (6 * (3 * length (virtual_cpus hv) + 1) + 2 + 6 * length (rmt_pages hv)) al1"
  shows "\<exists>n. \<forall>fuel \<ge> n. \<exists>m' al'. nvc_npt_protect_critical_hypervisor fuel hv m al = Some (True, m', al')"
proof -
  note id = identity_wf [OF assms(1-3)]
  have "pdpt_pa m = q" using assms(1) by (auto elim: build_identity_fields)
  then show ?thesis
    using assms(5-10) by (intro protect_progress [OF id(1) assms(4)]) (simp_all add: pte_of_def id page_2mb_count_def)
qed

lemma sample_rmt: "rmt_pages sample_hvm = [0]" "length (virtual_cpus sample_hvm) = 1"
  by (simp_all add: rmt_pages_def sample_hvm_def)

theorem protection_finishes_witness:
  "\<exists>n. \<forall>fuel \<ge> n. \<exists>m' al'. nvc_npt_protect_critical_hypervisor fuel sample_hvm sample_host sample_memory = Some (True, m', al')"
  by (rule protection_finishes [OF sample_host_built sample_block sample_memory_fresh sample_blank])
    (use sample_plenty in \<open>simp_all add: page_2mb_count_def low_half_def sample_rmt\<close>)

theorem protection_misses_control_blocks_witness:
  "\<exists>fuel m' al'. nvc_npt_protect_critical_hypervisor fuel sample_hvm sample_host sample_memory = Some (True, m', al') \<and>
     host_walk m' 0x8000 = (full_access, 0x8000)"
proof -
  have "\<exists>n. \<forall>fuel \<ge> n. \<exists>m' al'. nvc_npt_protect_critical_hypervisor fuel sample_hvm sample_host sample_memory = Some (True, m', al')"
    by (rule protect_progress [OF sample_wf(1) sample_memory_fresh _ sample_blank])
      (use sample_plenty in \<open>simp_all add: low_half_def sample_rmt sample_wf pte_of_def\<close>)
  then obtain fuel m' al' where
    r: "nvc_npt_protect_critical_hypervisor fuel sample_hvm sample_host sample_memory = Some (True, m', al')"
    by blast
  have "True \<and> host_walk m' 0x8000 = (full_access, 0x8000)"
    by (rule protection_misses_control_blocks [where v = "hd (virtual_cpus sample_hvm)", OF sample_host_built sample_block sample_memory_fresh sample_blank _ r])
      (simp_all add: page_2mb_count_def sample_hvm_def low_half_def touched_def rmt_pages_def)
  with r show ?thesis by blast
qed

end
