(* ===== verification/Avl.thy ===== *)
theory Avl
  imports Prelude "HOL-Library.Multiset"
begin

text \<open>
  The AVL trees of the development kit (\<open>xpf_core/devkits.c\<close>) that hold the hooked I/O regions.
  \<open>None\<close> is undefined behaviour: a rotation that reads through a null child.
\<close>

section \<open>Trees\<close>

text \<open>A node carries a region; nodes are never shared, so a tree is a value. Heights are signed 64-bit
  numbers that count nodes on a path, so they do not wrap.\<close>

datatype 'r avl_node = Null | Node (left: "'r avl_node") (region: 'r) (height: int) (right: "'r avl_node")

fun i64_max_from :: "int \<Rightarrow> int list \<Rightarrow> int" where
  "i64_max_from m [] = m"
| "i64_max_from m (a # as) = i64_max_from (if m < a then a else m) as"

definition i64_max :: "int list \<Rightarrow> int" where
  "i64_max as = i64_max_from (- (2 ^ 63)) as"

fun noir_get_avl_height :: "'r avl_node \<Rightarrow> int" where
  "noir_get_avl_height Null = 0"
| "noir_get_avl_height (Node l x h r) = h"

fun noir_get_avl_balance_factor :: "'r avl_node \<Rightarrow> int" where
  "noir_get_avl_balance_factor Null = 0"
| "noir_get_avl_balance_factor (Node l x h r) = noir_get_avl_height r - noir_get_avl_height l"

fun noir_reset_avl_height :: "'r avl_node \<Rightarrow> 'r avl_node" where
  "noir_reset_avl_height Null = Null"
| "noir_reset_avl_height (Node l x h r) = Node l x (i64_max [noir_get_avl_height r, noir_get_avl_height l] + 1) r"

section \<open>Rotation and insertion\<close>

fun noir_rotl_avl_node :: "'r avl_node \<Rightarrow> 'r avl_node option" where
  "noir_rotl_avl_node (Node l x h (Node t2 y k r)) =
     Some (noir_reset_avl_height (Node (noir_reset_avl_height (Node l x h t2)) y k r))"
| "noir_rotl_avl_node _ = None"

text \<open>The new root is reset before the node below it, whose height is still the one it had as the root.\<close>

fun noir_rotr_avl_node :: "'r avl_node \<Rightarrow> 'r avl_node option" where
  "noir_rotr_avl_node (Node (Node l x h t2) y k r) =
     Some (Node l x (noir_get_avl_height (noir_reset_avl_height (Node l x h (Node t2 y k r))))
       (noir_reset_avl_height (Node t2 y k r)))"
| "noir_rotr_avl_node _ = None"

definition rotl_left :: "'r avl_node \<Rightarrow> 'r avl_node option" where
  "rotl_left t = (case t of Null \<Rightarrow> None
     | Node l x h r \<Rightarrow> map_option (\<lambda>l'. Node l' x h r) (noir_rotl_avl_node l))"

definition rotr_right :: "'r avl_node \<Rightarrow> 'r avl_node option" where
  "rotr_right t = (case t of Null \<Rightarrow> None
     | Node l x h r \<Rightarrow> map_option (\<lambda>r'. Node l x h r') (noir_rotr_avl_node r))"

text \<open>The choice of the rotations after an insertion whose comparison was \<open>c\<close>.\<close>

definition rebalance :: "int \<Rightarrow> 'r avl_node \<Rightarrow> 'r avl_node option" where
  "rebalance c t =
     (let bf = noir_get_avl_balance_factor t in
      if 1 < bf \<and> c < 0 then noir_rotl_avl_node t
      else if bf < -1 \<and> 0 < c then noir_rotr_avl_node t
      else if 1 < bf \<and> 0 < c then Option.bind (rotl_left t) noir_rotr_avl_node
      else if bf < -1 \<and> c < 0 then Option.bind (rotr_right t) noir_rotl_avl_node
      else Some t)"

fun noir_insert_avl_node :: "('r \<Rightarrow> 'r \<Rightarrow> int) \<Rightarrow> 'r avl_node \<Rightarrow> 'r avl_node \<Rightarrow> 'r avl_node option" where
  "noir_insert_avl_node compare_fn Null node = Some node"
| "noir_insert_avl_node compare_fn (Node l p h r) node =
     (let c = compare_fn (region node) p in
      Option.bind
        (if c < 0 then map_option (\<lambda>l'. Node l' p h r) (noir_insert_avl_node compare_fn l node)
         else map_option (\<lambda>r'. Node l p h r') (noir_insert_avl_node compare_fn r node))
        (\<lambda>t. rebalance c (noir_reset_avl_height t)))"

section \<open>Search\<close>

fun noir_search_avl_node :: "('r \<Rightarrow> 'i \<Rightarrow> int) \<Rightarrow> 'r avl_node \<Rightarrow> 'i \<Rightarrow> 'r option" where
  "noir_search_avl_node compare_fn Null item = None"
| "noir_search_avl_node compare_fn (Node l x h r) item =
     (let result = compare_fn x item in
      if result = 0 then Some x
      else if result < 0 then noir_search_avl_node compare_fn l item
      else noir_search_avl_node compare_fn r item)"

section \<open>Laws\<close>

fun inorder :: "'r avl_node \<Rightarrow> 'r list" where
  "inorder Null = []"
| "inorder (Node l x h r) = inorder l @ x # inorder r"

lemma reset_inorder [simp]: "inorder (noir_reset_avl_height t) = inorder t"
  by (cases t) simp_all

lemma rotl_inorder: "noir_rotl_avl_node t = Some t' \<Longrightarrow> inorder t' = inorder t"
  by (auto elim!: noir_rotl_avl_node.elims simp del: noir_reset_avl_height.simps)

lemma rotr_inorder: "noir_rotr_avl_node t = Some t' \<Longrightarrow> inorder t' = inorder t"
  by (auto elim!: noir_rotr_avl_node.elims)

lemma rotl_left_inorder: "rotl_left t = Some t' \<Longrightarrow> inorder t' = inorder t"
  by (cases t) (auto simp: rotl_left_def rotl_inorder)

lemma rotr_right_inorder: "rotr_right t = Some t' \<Longrightarrow> inorder t' = inorder t"
  by (cases t) (auto simp: rotr_right_def rotr_inorder)

lemma rebalance_inorder:
  assumes "rebalance c t = Some t'"
  shows "inorder t' = inorder t"
  using assms unfolding rebalance_def Let_def
  by (auto simp: bind_eq_Some_conv split: if_splits) (metis rotl_inorder rotr_inorder rotl_left_inorder rotr_right_inorder)+

text \<open>A comparison that orders regions by a key.\<close>

definition by_key :: "('r \<Rightarrow> 'k::linorder) \<Rightarrow> ('r \<Rightarrow> 'r \<Rightarrow> int) \<Rightarrow> bool" where
  "by_key key cmp \<longleftrightarrow> (\<forall>a b. (cmp a b < 0 \<longleftrightarrow> key a < key b) \<and> (0 < cmp a b \<longleftrightarrow> key b < key a))"

fun insert_after :: "('r \<Rightarrow> 'k::linorder) \<Rightarrow> 'r \<Rightarrow> 'r list \<Rightarrow> 'r list" where
  "insert_after key x [] = [x]"
| "insert_after key x (y # ys) = (if key x < key y then x # y # ys else y # insert_after key x ys)"

lemma insert_after_append:
  "sorted (map key (xs @ y # ys)) \<Longrightarrow>
     insert_after key x (xs @ y # ys) =
       (if key x < key y then insert_after key x xs @ y # ys else xs @ y # insert_after key x ys)"
  by (induction xs) (fastforce simp: sorted_append)+

lemma insert_inorder:
  assumes "by_key key cmp" "noir_insert_avl_node cmp t (Node Null x 1 Null) = Some t'"
    and "sorted (map key (inorder t))"
  shows "inorder t' = insert_after key x (inorder t)"
  using assms(2-)
proof (induction t arbitrary: t')
  case Null
  then show ?case by auto
next
  case (Node l p h r)
  have cmp: "cmp x p < 0 \<longleftrightarrow> key x < key p"
    using assms(1) by (simp add: by_key_def)
  have srt: "sorted (map key (inorder l))" "sorted (map key (inorder r))"
    using Node.prems(2) by (simp_all add: sorted_append)
  show ?case
  proof (cases "key x < key p")
    case True
    then obtain l' where l': "noir_insert_avl_node cmp l (Node Null x 1 Null) = Some l'"
      and t': "rebalance (cmp x p) (noir_reset_avl_height (Node l' p h r)) = Some t'"
      using Node.prems(1) cmp by (auto simp: Let_def bind_eq_Some_conv)
    have "inorder l' = insert_after key x (inorder l)" by (rule Node.IH(1) [OF l' srt(1)])
    then show ?thesis
      using rebalance_inorder [OF t'] Node.prems(2) True insert_after_append [of key "inorder l" p "inorder r" x]
      by simp
  next
    case False
    then obtain r' where r': "noir_insert_avl_node cmp r (Node Null x 1 Null) = Some r'"
      and t': "rebalance (cmp x p) (noir_reset_avl_height (Node l p h r')) = Some t'"
      using Node.prems(1) cmp by (auto simp: Let_def bind_eq_Some_conv)
    have "inorder r' = insert_after key x (inorder r)" by (rule Node.IH(2) [OF r' srt(2)])
    then show ?thesis
      using rebalance_inorder [OF t'] Node.prems(2) False insert_after_append [of key "inorder l" p "inorder r" x]
      by simp
  qed
qed

section \<open>Search in an ordered tree\<close>

text \<open>A comparison of regions with an item is monotone along the order of the tree when it never
  turns from ``before'' to ``after''.\<close>

lemma search_inorder:
  assumes "sorted_wrt (\<lambda>a b. (f a i < 0 \<longrightarrow> f b i < 0) \<and> (0 < f b i \<longrightarrow> 0 < f a i) \<and> \<not> (f a i = 0 \<and> f b i = 0)) (inorder t)"
  shows "noir_search_avl_node f t i = List.find (\<lambda>r. f r i = 0) (inorder t)"
  using assms
proof (induction t)
  case (Node l x h r)
  have find_append: "List.find P (xs @ ys) = (case List.find P xs of None \<Rightarrow> List.find P ys | Some a \<Rightarrow> Some a)"
    for P :: "'a \<Rightarrow> bool" and xs ys by (induction xs) auto
  have none: "List.find P xs = None \<longleftrightarrow> (\<forall>a \<in> set xs. \<not> P a)" for P :: "'a \<Rightarrow> bool" and xs
    by (auto simp: find_None_iff)
  have IH: "noir_search_avl_node f l i = List.find (\<lambda>r. f r i = 0) (inorder l)"
      "noir_search_avl_node f r i = List.find (\<lambda>r. f r i = 0) (inorder r)"
    using Node by (simp_all add: sorted_wrt_append)
  have l: "f a i < 0 \<Longrightarrow> f x i < 0" "0 < f x i \<Longrightarrow> 0 < f a i" "\<not> (f a i = 0 \<and> f x i = 0)" if "a \<in> set (inorder l)" for a
    using Node.prems that by (auto simp: sorted_wrt_append)
  have r: "f x i < 0 \<Longrightarrow> f b i < 0" if "b \<in> set (inorder r)" for b
    using Node.prems that by (auto simp: sorted_wrt_append)
  consider "f x i = 0" | "f x i < 0" | "0 < f x i" by linarith
  then show ?case
  proof cases
    case 1
    then have "List.find (\<lambda>r. f r i = 0) (inorder l) = None" using l(3) by (auto simp: none)
    then show ?thesis using 1 by (simp add: find_append)
  next
    case 2
    then have "List.find (\<lambda>r. f r i = 0) (inorder r) = None" using r by (fastforce simp: none)
    then show ?thesis using 2 IH by (simp add: find_append split: option.split)
  next
    case 3
    then have "List.find (\<lambda>r. f r i = 0) (inorder l) = None" using l(2) by (fastforce simp: none)
    then show ?thesis using 3 IH by (simp add: find_append)
  qed
qed simp

section \<open>Chains\<close>

text \<open>Three nodes in a chain need a rotation, and the one chosen reads through the missing child.\<close>

lemma insert_single:
  "noir_insert_avl_node cmp (Node Null a 1 Null) (Node Null b 1 Null) =
     Some (if cmp b a < 0 then Node (Node Null b 1 Null) a 2 Null else Node Null a 2 (Node Null b 1 Null))"
  by (simp add: rebalance_def Let_def i64_max_def)

lemma insert_chain:
  assumes "by_key key cmp" "key a \<noteq> key b" "key b \<noteq> key c" "key a \<noteq> key c"
  shows "Option.bind (noir_insert_avl_node cmp (Node Null a 1 Null) (Node Null b 1 Null))
      (\<lambda>t. noir_insert_avl_node cmp t (Node Null c 1 Null)) = None \<longleftrightarrow>
    \<not> (key b < key a \<and> key a < key c \<or> key c < key a \<and> key a < key b)"
proof -
  have c: "cmp x y < 0 \<longleftrightarrow> key x < key y" "0 < cmp x y \<longleftrightarrow> key y < key x" for x y
    using assms(1) by (simp_all add: by_key_def)
  show ?thesis
    using assms(2-4)
    by (cases "key b < key a"; cases "key c < key a"; cases "key c < key b")
      (auto simp: insert_single c rebalance_def Let_def i64_max_def rotl_left_def rotr_right_def not_less order.order_iff_strict)
qed

end
