(* ===== verification/Io_Hooks.thy ===== *)
theory Io_Hooks
  imports Avl Status
begin

text \<open>
  The hooked I/O ports and memory-mapped regions (\<open>xpf_core/noirhvm.c\<close>): registration in the two
  trees of the hypervisor, the search for the region of an access, and the splitting of unaligned
  accesses. \<open>None\<close> is undefined behaviour. Handlers are pointers to code outside the model: \<open>call\<close>
  gives the value an access leaves and the new state of the device.
\<close>

section \<open>Regions\<close>

record noir_mmio_region =
  mr_handler :: u64
  mr_context :: u64
  phys :: u64
  msize :: u64

record noir_pio_region =
  pr_handler :: u64
  pr_context :: u64
  port :: u16
  psize :: u16

definition nvc_compare_mmio_region_avl_nodes :: "noir_mmio_region \<Rightarrow> noir_mmio_region \<Rightarrow> int" where
  "nvc_compare_mmio_region_avl_nodes a b = (if phys a < phys b then -1 else if phys b < phys a then 1 else 0)"

definition nvc_compare_pio_region_avl_nodes :: "noir_pio_region \<Rightarrow> noir_pio_region \<Rightarrow> int" where
  "nvc_compare_pio_region_avl_nodes a b = (if port a < port b then -1 else if port b < port a then 1 else 0)"

text \<open>The sum of two 16-bit operands is an \<open>int\<close> and does not wrap, the sum of 64-bit operands does.\<close>

definition nvc_bst_search_pio_region :: "noir_pio_region \<Rightarrow> u16 \<Rightarrow> int" where
  "nvc_bst_search_pio_region pr p =
     (if p < port pr then -1 else if unat (port pr) + unat (psize pr) < unat p then 1 else 0)"

definition nvc_bst_search_mmio_region :: "noir_mmio_region \<Rightarrow> u64 \<Rightarrow> int" where
  "nvc_bst_search_mmio_region mr a =
     (if a < phys mr then -1 else if phys mr + msize mr < a then 1 else 0)"

section \<open>Registration\<close>

text \<open>\<open>alloc\<close> says whether the node can be allocated; the memory of a new node is zero.\<close>

definition nvc_register_pio_region ::
  "bool \<Rightarrow> noir_pio_region \<Rightarrow> noir_pio_region avl_node \<Rightarrow> (noir_status \<times> noir_pio_region avl_node) option" where
  "nvc_register_pio_region alloc pr root =
     (if alloc
      then map_option (Pair noir_success)
        (noir_insert_avl_node nvc_compare_pio_region_avl_nodes root
          (Node Null \<lparr>pr_handler = pr_handler pr, pr_context = pr_context pr, port = port pr, psize = port pr\<rparr> 1 Null))
      else Some (noir_insufficient_resources, root))"

definition nvc_register_mmio_region ::
  "bool \<Rightarrow> noir_mmio_region \<Rightarrow> noir_mmio_region avl_node \<Rightarrow> (noir_status \<times> noir_mmio_region avl_node) option" where
  "nvc_register_mmio_region alloc mr root =
     (if alloc
      then map_option (Pair noir_success)
        (noir_insert_avl_node nvc_compare_mmio_region_avl_nodes root
          (Node Null \<lparr>mr_handler = mr_handler mr, mr_context = mr_context mr, phys = phys mr, msize = msize mr\<rparr> 1 Null))
      else Some (noir_insufficient_resources, root))"

text \<open>The order in which \<open>nvc_cleanup_io_hooks\<close> frees the nodes of a tree; it reads the root without a
  check, only the recursive calls have one.\<close>

fun nvc_cleanup_io_hooks :: "'r avl_node \<Rightarrow> 'r list option" where
  "nvc_cleanup_io_hooks Null = None"
| "nvc_cleanup_io_hooks (Node l x h r) =
     Option.bind (if l = Null then Some [] else nvc_cleanup_io_hooks l) (\<lambda>xs.
       map_option (\<lambda>ys. xs @ ys @ [x]) (if r = Null then Some [] else nvc_cleanup_io_hooks r))"

lemma cleanup_frees_all:
  "t \<noteq> Null \<Longrightarrow> \<exists>xs. nvc_cleanup_io_hooks t = Some xs \<and> mset xs = mset (inorder t)"
proof (induction t)
  case (Node l x h r)
  then show ?case
    by (cases "l = Null"; cases "r = Null") auto
qed simp

section \<open>Accesses\<close>

type_synonym 's pio_call = "u64 \<Rightarrow> bool \<Rightarrow> u16 \<Rightarrow> u16 \<Rightarrow> u32 \<Rightarrow> u64 \<Rightarrow> 's \<Rightarrow> u32 \<times> 's"
type_synonym 's mmio_call = "u64 \<Rightarrow> bool \<Rightarrow> u64 \<Rightarrow> u64 \<Rightarrow> u64 \<Rightarrow> u64 \<Rightarrow> 's \<Rightarrow> u64 \<times> 's"

definition nvc_call_rw_pio_region ::
  "'s pio_call \<Rightarrow> noir_pio_region avl_node \<Rightarrow> bool \<Rightarrow> u16 \<Rightarrow> u16 \<Rightarrow> u32 \<Rightarrow> 's \<Rightarrow> u32 \<times> 's" where
  "nvc_call_rw_pio_region call root direction p sz v s =
     (case noir_search_avl_node nvc_bst_search_pio_region root p of
        None \<Rightarrow> (v, s)
      | Some pr \<Rightarrow> call (pr_handler pr) direction p sz v (pr_context pr) s)"

definition nvc_call_rw_mmio_region_aligned ::
  "'s mmio_call \<Rightarrow> noir_mmio_region avl_node \<Rightarrow> bool \<Rightarrow> u64 \<Rightarrow> u64 \<Rightarrow> u64 \<Rightarrow> 's \<Rightarrow> u64 \<times> 's" where
  "nvc_call_rw_mmio_region_aligned call root direction a sz v s =
     (case noir_search_avl_node nvc_bst_search_mmio_region root a of
        None \<Rightarrow> (v, s)
      | Some mr \<Rightarrow> call (mr_handler mr) direction a sz v (mr_context mr) s)"

text \<open>A handler reads and writes the eight bytes at the pointer it is given; the buffer has sixteen.\<close>

definition nvc_call_rw_mmio_region ::
  "'s mmio_call \<Rightarrow> noir_mmio_region avl_node \<Rightarrow> bool \<Rightarrow> u64 \<Rightarrow> u64 \<Rightarrow> u64 \<Rightarrow> 's \<Rightarrow> (u64 \<times> 's) option" where
  "nvc_call_rw_mmio_region call root direction a sz v s =
     (let offset = a AND (sz - 1) in
      if offset = 0 then Some (nvc_call_rw_mmio_region_aligned call root direction a sz v s)
      else if 8 < unat offset \<or> 8 < unat sz then None
      else
        let buff0 = (\<lambda>_. 0);
            buff1 = (if direction then store_u64 buff0 (unat offset) v else buff0);
            (v0, s1) = nvc_call_rw_mmio_region_aligned call root direction (a - offset) sz (load_u64 buff1 0) s;
            buff2 = store_u64 buff1 0 v0;
            (v1, s2) = nvc_call_rw_mmio_region_aligned call root direction (a - offset + sz) sz (load_u64 buff2 (unat sz)) s1;
            buff3 = store_u64 buff2 (unat sz) v1
        in Some (if direction then v else load_u64 buff3 (unat offset), s2))"

section \<open>Laws\<close>

lemma compare_by_key:
  "by_key phys nvc_compare_mmio_region_avl_nodes" "by_key port nvc_compare_pio_region_avl_nodes"
  by (auto simp: by_key_def nvc_compare_mmio_region_avl_nodes_def nvc_compare_pio_region_avl_nodes_def)

lemma register_mmio:
  "nvc_register_mmio_region True mr root = map_option (Pair noir_success)
     (noir_insert_avl_node nvc_compare_mmio_region_avl_nodes root (Node Null mr 1 Null))"
proof -
  have "\<lparr>mr_handler = mr_handler mr, mr_context = mr_context mr, phys = phys mr, msize = msize mr\<rparr> = mr" by simp
  then show ?thesis unfolding nvc_register_mmio_region_def by (simp only: if_True)
qed

text \<open>Regions in ascending order, with a gap of a byte between two of them.\<close>

definition apart :: "noir_mmio_region \<Rightarrow> noir_mmio_region \<Rightarrow> bool" where
  "apart a b \<longleftrightarrow> unat (phys a) + unat (msize a) < unat (phys b)"

definition hooks_ok :: "noir_mmio_region avl_node \<Rightarrow> bool" where
  "hooks_ok root \<longleftrightarrow> sorted_wrt apart (inorder root) \<and> (\<forall>r \<in> set (inorder root). unat (phys r) + unat (msize r) < 2 ^ 64)"

lemma region_end:
  fixes r :: noir_mmio_region
  assumes "unat (phys r) + unat (msize r) < 2 ^ 64"
  shows "unat (phys r + msize r) = unat (phys r) + unat (msize r)"
  using assms by (simp add: unat_word_ariths(1))

lemma search_order:
  assumes "apart a b" "unat (phys a) + unat (msize a) < 2 ^ 64" "unat (phys b) + unat (msize b) < 2 ^ 64"
  shows "(nvc_bst_search_mmio_region a i < 0 \<longrightarrow> nvc_bst_search_mmio_region b i < 0) \<and>
    (0 < nvc_bst_search_mmio_region b i \<longrightarrow> 0 < nvc_bst_search_mmio_region a i) \<and>
    \<not> (nvc_bst_search_mmio_region a i = 0 \<and> nvc_bst_search_mmio_region b i = 0)"
  using assms
  by (auto simp: nvc_bst_search_mmio_region_def apart_def word_less_nat_alt region_end not_less)

end
