(* ===== verification/Io_Properties.thy ===== *)
theory Io_Properties
  imports Io_Hooks
begin

text \<open>
  The properties of the hooked I/O regions: routing of an access to its region, registration, and the
  splitting of unaligned accesses.
\<close>

section \<open>Routing\<close>

abbreviation covers :: "u64 \<Rightarrow> noir_mmio_region \<Rightarrow> bool" where
  "covers a r \<equiv> unat (phys r) \<le> unat a \<and> unat a \<le> unat (phys r) + unat (msize r)"

lemma search_zero:
  "unat (phys r) + unat (msize r) < 2 ^ 64 \<Longrightarrow> nvc_bst_search_mmio_region r a = 0 \<longleftrightarrow> covers a r"
  by (auto simp: nvc_bst_search_mmio_region_def word_less_nat_alt region_end)

lemma find_cong: "(\<And>x. x \<in> set xs \<Longrightarrow> P x \<longleftrightarrow> Q x) \<Longrightarrow> List.find P xs = List.find Q xs"
  by (induction xs) auto

lemma routed_search:
  assumes "hooks_ok root"
  shows "noir_search_avl_node nvc_bst_search_mmio_region root a = List.find (covers a) (inorder root)"
proof -
  have "noir_search_avl_node nvc_bst_search_mmio_region root a =
      List.find (\<lambda>r. nvc_bst_search_mmio_region r a = 0) (inorder root)"
  proof (rule search_inorder)
    have "sorted_wrt apart (inorder root)" using assms by (simp add: hooks_ok_def)
    then show "sorted_wrt (\<lambda>x y. (nvc_bst_search_mmio_region x a < 0 \<longrightarrow> nvc_bst_search_mmio_region y a < 0) \<and>
        (0 < nvc_bst_search_mmio_region y a \<longrightarrow> 0 < nvc_bst_search_mmio_region x a) \<and>
        \<not> (nvc_bst_search_mmio_region x a = 0 \<and> nvc_bst_search_mmio_region y a = 0)) (inorder root)"
      using assms by (elim sorted_wrt_mono_rel [rotated], intro search_order) (simp_all add: hooks_ok_def)
  qed
  also have "\<dots> = List.find (covers a) (inorder root)"
    using assms by (intro find_cong) (simp add: hooks_ok_def search_zero)
  finally show ?thesis .
qed


definition sample_mmio :: "u64 \<Rightarrow> u64 \<Rightarrow> noir_mmio_region" where
  "sample_mmio h a = \<lparr>mr_handler = h, mr_context = 0, phys = a, msize = 0xFF\<rparr>"

definition sample_hooks :: "noir_mmio_region avl_node" where
  "sample_hooks = Node (Node Null (sample_mmio 1 0x1000) 1 Null) (sample_mmio 2 0x2000) 2 (Node Null (sample_mmio 3 0x3000) 1 Null)"

lemma sample_hooks_ok: "hooks_ok sample_hooks"
  by (simp add: hooks_ok_def sample_hooks_def sample_mmio_def apart_def)


section \<open>Registration\<close>

lemma apart_phys: "apart a b \<Longrightarrow> phys a \<le> phys b"
  by (simp add: apart_def word_le_nat_alt)

lemma sorted_apart: "sorted_wrt apart rs \<Longrightarrow> sorted (map phys rs)"
  unfolding sorted_map by (rule sorted_wrt_mono_rel [OF apart_phys])

lemma insert_after_set [simp]: "set (insert_after key x ys) = insert x (set ys)"
  by (induction ys) auto

lemma insert_after_apart:
  assumes "sorted_wrt apart rs" "\<forall>r \<in> set rs. apart r x \<or> apart x r"
  shows "sorted_wrt apart (insert_after phys x rs)"
  using assms
proof (induction rs)
  case (Cons r rs)
  show ?case
  proof (cases "phys x < phys r")
    case True
    then have "apart x r" using Cons.prems(2) apart_phys [of r x] by auto
    moreover have "apart x b" if "b \<in> set rs" for b
      using Cons.prems that \<open>apart x r\<close> apart_phys [of r b]
      by (auto simp: apart_def word_le_nat_alt)
    ultimately show ?thesis using Cons.prems(1) True by simp
  next
    case False
    then have "apart r x" using Cons.prems(2) by (auto simp: apart_def word_less_nat_alt)
    then show ?thesis using Cons False by auto
  qed
qed simp


lemma sample_register:
  "nvc_register_mmio_region True (sample_mmio 4 0x4000) sample_hooks =
     Some (noir_success, Node (Node Null (sample_mmio 1 0x1000) 1 Null) (sample_mmio 2 0x2000) 3
       (Node Null (sample_mmio 3 0x3000) 2 (Node Null (sample_mmio 4 0x4000) 1 Null)))"
  by (simp add: nvc_register_mmio_region_def sample_hooks_def sample_mmio_def nvc_compare_mmio_region_avl_nodes_def
      rebalance_def Let_def i64_max_def)


text \<open>The rotations of the tree are inverted: registering three regions with distinct addresses
  dereferences a null child unless the region registered first lies between the other two.\<close>
theorem third_region_crashes:
  assumes "phys a \<noteq> phys b" "phys b \<noteq> phys c" "phys a \<noteq> phys c"
    and "nvc_register_mmio_region True a Null = Some (st1, t1)" "nvc_register_mmio_region True b t1 = Some (st2, t2)"
  shows "nvc_register_mmio_region True c t2 = None \<longleftrightarrow>
    \<not> (phys b < phys a \<and> phys a < phys c \<or> phys c < phys a \<and> phys a < phys b)"
proof -
  have t1: "t1 = Node Null a 1 Null" using assms(4) by (auto simp: nvc_register_mmio_region_def)
  have t2: "noir_insert_avl_node nvc_compare_mmio_region_avl_nodes (Node Null a 1 Null) (Node Null b 1 Null) = Some t2"
    using assms(5) by (auto simp: register_mmio t1 simp del: noir_insert_avl_node.simps)
  show ?thesis
    using insert_chain [OF compare_by_key(1) assms(1-3)] unfolding t2
    by (simp add: register_mmio)
qed

lemma sample_two:
  "nvc_register_mmio_region True (sample_mmio 1 0x1000) Null = Some (noir_success, Node Null (sample_mmio 1 0x1000) 1 Null)"
  "nvc_register_mmio_region True (sample_mmio 2 0x2000) (Node Null (sample_mmio 1 0x1000) 1 Null) =
     Some (noir_success, Node Null (sample_mmio 1 0x1000) 2 (Node Null (sample_mmio 2 0x2000) 1 Null))"
  by (simp_all add: nvc_register_mmio_region_def sample_mmio_def nvc_compare_mmio_region_avl_nodes_def rebalance_def Let_def i64_max_def)

theorem third_region_crashes_witness:
  "nvc_register_mmio_region True (sample_mmio 3 0x3000)
     (Node Null (sample_mmio 1 0x1000) 2 (Node Null (sample_mmio 2 0x2000) 1 Null)) = None"
  using third_region_crashes [OF _ _ _ sample_two, of "sample_mmio 3 0x3000"] by (simp add: sample_mmio_def)

text \<open>\<open>nvc_register_pio_region\<close> stores the port as the size: the first region registered receives
  the accesses to all ports from its port to twice its port, whatever its size.\<close>
theorem pio_size_is_port:
  assumes "nvc_register_pio_region True pr Null = Some (st, root)"
  shows "nvc_call_rw_pio_region call root direction p sz v s =
    (if unat (port pr) \<le> unat p \<and> unat p \<le> 2 * unat (port pr)
     then call (pr_handler pr) direction p sz v (pr_context pr) s else (v, s))"
  using assms
  by (auto simp: nvc_register_pio_region_def nvc_call_rw_pio_region_def nvc_bst_search_pio_region_def word_less_nat_alt)

lemma sample_pio:
  "nvc_register_pio_region True \<lparr>pr_handler = 1, pr_context = 0, port = 0x60, psize = 1\<rparr> Null =
     Some (noir_success, Node Null \<lparr>pr_handler = 1, pr_context = 0, port = 0x60, psize = 0x60\<rparr> 1 Null)"
  by (simp add: nvc_register_pio_region_def)

theorem pio_size_is_port_witness:
  "nvc_call_rw_pio_region (\<lambda>h d p sz v c s. (7, s))
     (Node Null \<lparr>pr_handler = 1, pr_context = 0, port = 0x60, psize = 0x60\<rparr> 1 Null) False 0x80 1 0 () = (7, ())"
  unfolding pio_size_is_port [OF sample_pio] by simp

section \<open>Unaligned accesses\<close>

lemma byte_of_push: "k < 8 \<Longrightarrow> i < 8 \<Longrightarrow> byte_of (push_bit (8 * k) v) i = (if k \<le> i then byte_of v (i - k) else 0)"
  by (intro bit_word_eqI) (auto simp: bit_byte_of bit_simps diff_mult_distrib2)

lemma byte_of_drop: "byte_of (drop_bit (8 * k) v) i = byte_of v (k + i)"
  by (intro bit_word_eqI) (auto simp: bit_byte_of bit_simps algebra_simps)

lemma byte_of_high: "8 \<le> i \<Longrightarrow> byte_of v i = 0"
  by (intro bit_word_eqI) (auto simp: bit_byte_of dest: bit_imp_le_length)

lemma load_shifted: "k < 8 \<Longrightarrow> load_u64 (store_u64 (\<lambda>_. 0) k v) 0 = push_bit (8 * k) v"
  by (rule bit_load_u64_eq) (auto simp: store_u64_def byte_of_push)

lemma load_next: "k \<le> n \<Longrightarrow> n \<le> 8 \<Longrightarrow> load_u64 (store_u64 (\<lambda>_. 0) k v) n = drop_bit (8 * (n - k)) v"
  by (rule bit_load_u64_eq) (auto simp: store_u64_def byte_of_drop byte_of_high)

lemma offset_less:
  fixes a n :: u64
  assumes "n \<noteq> 0"
  shows "a AND (n - 1) < n"
proof -
  have "a AND (n - 1) \<le> n - 1" by (rule word_and_le1)
  also have "n - 1 < n" using assms by (simp add: word_less_nat_alt unat_minus_one unat_gt_0)
  finally show ?thesis .
qed

text \<open>An unaligned write clobbers its neighbours: it becomes two aligned writes of full size, the first
  with zeros in the bytes below the access, the second with zeros in the bytes above it, instead of
  keeping what the device holds there. Handlers are assumed to leave the value of a write alone.\<close>
theorem unaligned_write_zero_fills:
  assumes "\<forall>h b m c x t. fst (call h True b m x c t) = x"
    and "0 < n" "n \<le> 8" "sz = of_nat n" "k = unat (a AND (sz - 1))" "0 < k"
  shows "nvc_call_rw_mmio_region call root True a sz v s =
    (let s1 = snd (nvc_call_rw_mmio_region_aligned call root True (a - of_nat k) sz (push_bit (8 * k) v) s)
     in Some (v, snd (nvc_call_rw_mmio_region_aligned call root True (a - of_nat k + sz) sz (drop_bit (8 * (n - k)) v) s1)))"
proof -
  have n: "unat sz = n" using assms(3,4) by (simp add: unat_of_nat)
  have "a AND (sz - 1) < sz"
    using assms(2) n by (intro offset_less) auto
  then have k: "k < n" using assms(5) n by (simp add: word_less_nat_alt)
  have off: "a AND (sz - 1) = of_nat k" "a AND (sz - 1) \<noteq> 0" using assms(5,6) by auto
  have uk: "unat (of_nat k :: u64) = k" using k assms(3) by (simp add: unat_of_nat)
  have leave: "fst (nvc_call_rw_mmio_region_aligned call root True b sz x t) = x" for b x t
    using assms(1) by (simp add: nvc_call_rw_mmio_region_aligned_def split: option.split)
  have pair: "(x, t) = p \<Longrightarrow> t = snd p" for x t and p :: "u64 \<times> 'a" by auto
  let ?b1 = "store_u64 (\<lambda>_. 0) k v"
  obtain s1 where s1: "nvc_call_rw_mmio_region_aligned call root True (a - of_nat k) sz (push_bit (8 * k) v) s = (push_bit (8 * k) v, s1)"
    by (metis leave prod.collapse)
  obtain s2 where s2: "nvc_call_rw_mmio_region_aligned call root True (a - of_nat k + sz) sz (drop_bit (8 * (n - k)) v) s1 = (drop_bit (8 * (n - k)) v, s2)"
    by (metis leave prod.collapse)
  have b2: "store_u64 ?b1 0 (push_bit (8 * k) v) = ?b1"
    using store_load_u64 [of ?b1 0] k assms(3) by (simp add: load_shifted)
  show ?thesis
    using k assms(3,6) n off s1 s2 b2 uk
    by (simp add: nvc_call_rw_mmio_region_def Let_def load_shifted load_next flip: assms(5))
qed

theorem unaligned_write_zero_fills_witness:
  "nvc_call_rw_mmio_region (\<lambda>h d a sz v c s. (v, (a, v) # s)) sample_hooks True 0x1002 4 0xAABBCCDD [] =
     Some (0xAABBCCDD, [(0x1004, 0xAABB), (0x1000, 0xAABBCCDD0000)])"
proof -
  have "nvc_call_rw_mmio_region (\<lambda>h d a sz v c s. (v, (a, v) # s)) sample_hooks True 0x1002 4 0xAABBCCDD [] =
    (let s1 = snd (nvc_call_rw_mmio_region_aligned (\<lambda>h d a sz v c s. (v, (a, v) # s)) sample_hooks True (0x1002 - of_nat 2) 4
        (push_bit (8 * 2) 0xAABBCCDD) [])
     in Some (0xAABBCCDD, snd (nvc_call_rw_mmio_region_aligned (\<lambda>h d a sz v c s. (v, (a, v) # s)) sample_hooks True
        (0x1002 - of_nat 2 + 4) 4 (drop_bit (8 * (4 - 2)) 0xAABBCCDD) s1)))"
    by (rule unaligned_write_zero_fills) simp_all
  then show ?thesis
    by (simp add: nvc_call_rw_mmio_region_aligned_def sample_hooks_def sample_mmio_def nvc_bst_search_mmio_region_def
        push_bit_eq_mult drop_bit_eq_div)
qed

end
