(* ===== verification/Npt_Range.thy ===== *)
theory Npt_Range
  imports Npt_Map Vcpu Rmt
begin

text \<open>
  Mapping and unmapping ranges of guest memory, and the accessed and dirty bits of a page
  (\<open>svm_core/svm_custom.c\<close>).
\<close>

section \<open>State\<close>

text \<open>The virtual machine as far as its memory is concerned; \<open>vm_vcpu\<close> are the headers of its processors.\<close>

record noir_svm_custom_vm =
  vm_asid :: u32
  vm_nptm :: svm_npt_manager
  vm_vcpu :: "nat \<Rightarrow> noir_cvm_virtual_cpu option"

record noir_cvm_address_mapping =
  map_gpa :: u64
  map_pages :: u32
  map_attributes :: u32

text \<open>
  What the operations use of the rest of the hypervisor, on a state \<open>'h\<close> of its own: whether secure
  virtualization is enabled, the reassignment of pages (\<open>hpa_list\<close>, \<open>gpa_list\<close>, \<open>asid\<close>, \<open>shared\<close>,
  \<open>ownership\<close>) and the decryption hypercall.
\<close>

record 'h hypervisor_services =
  enable_nsv :: bool
  reassign_pages :: "u64 list \<Rightarrow> u64 list \<Rightarrow> u32 \<Rightarrow> bool \<Rightarrow> u8 \<Rightarrow> 'h \<Rightarrow> bool \<times> 'h"
  crypto_pages :: "u64 list \<Rightarrow> 'h \<Rightarrow> 'h"

text \<open>\<open>gpa+page_4kb_mult(i)\<close>: the index is a \<open>u32\<close>, so the shift wraps at 32 bits.\<close>

definition nth_page :: "u64 \<Rightarrow> nat \<Rightarrow> u64" where
  "nth_page gpa i = gpa + ucast (push_bit 12 (of_nat i :: u32))"

section \<open>Unmapping\<close>

text \<open>Every iteration maps \<open>gpa\<close>, not the address of the page.\<close>

fun unmap_pages :: "u8 list \<Rightarrow> svm_npt_manager \<Rightarrow> u64 \<Rightarrow> nat \<Rightarrow> noir_status \<Rightarrow> allocs \<Rightarrow> noir_status \<times> svm_npt_manager \<times> allocs" where
  "unmap_pages host_pat m gpa 0 st al = (st, m, al)"
| "unmap_pages host_pat m gpa (Suc n) st al =
     (case nvc_svmc_set_page_map host_pat m gpa 0 null_map al of
        (st1, m1, al1) \<Rightarrow> if st1 \<noteq> noir_success then (st1, m1, al1) else unmap_pages host_pat m1 gpa n st1 al1)"

definition nvc_svmc_set_unmapping ::
  "'h hypervisor_services \<Rightarrow> u8 list \<Rightarrow> noir_svm_custom_vm \<Rightarrow> u64 \<Rightarrow> u32 \<Rightarrow> allocs \<Rightarrow> 'h \<Rightarrow>
     noir_status \<times> noir_svm_custom_vm \<times> allocs \<times> 'h" where
  "nvc_svmc_set_unmapping sv host_pat vm gpa npages al h =
     (case next_pool al of
        (False, al1) \<Rightarrow> (noir_insufficient_resources, vm, al1, h)
      | (True, al1) \<Rightarrow>
          let hpa_list = map (\<lambda>i. snd (nvc_svmc_get_physical_mapping (vm_nptm vm) (nth_page gpa i) True False False)) [0..<unat npages];
              (st, nsv_ret, h1) =
                (if enable_nsv sv
                 then (let (r, h1) = reassign_pages sv hpa_list hpa_list 1 False noir_nsv_rmt_subverted_host h
                       in (noir_nsv_violation, r, h1))
                 else (noir_insufficient_resources, True, h))
          in if nsv_ret
             then (case unmap_pages host_pat (vm_nptm vm) gpa (unat npages) st al1 of
                     (st1, m1, al2) \<Rightarrow> (st1, vm\<lparr>vm_nptm := m1\<rparr>, al2, h1))
             else (st, vm, al1, h1))"

section \<open>Mapping\<close>

fun map_pages_from ::
  "u8 list \<Rightarrow> svm_npt_manager \<Rightarrow> u64 \<Rightarrow> u32 \<Rightarrow> nat \<Rightarrow> u64 list \<Rightarrow> noir_status \<Rightarrow> allocs \<Rightarrow> noir_status \<times> svm_npt_manager \<times> allocs" where
  "map_pages_from host_pat m gpa attr_bits i [] st al = (st, m, al)"
| "map_pages_from host_pat m gpa attr_bits i (hpa # hpas) st al =
     (case nvc_svmc_set_page_map host_pat m (nth_page gpa i) hpa attr_bits al of
        (st1, m1, al1) \<Rightarrow>
          if st1 \<noteq> noir_success then (st1, m1, al1) else map_pages_from host_pat m1 gpa attr_bits (Suc i) hpas st1 al1)"

text \<open>\<open>state_cache.tl_valid=false\<close> for the first 255 processors.\<close>

definition invalidate_tlbs :: "noir_svm_custom_vm \<Rightarrow> noir_svm_custom_vm" where
  "invalidate_tlbs vm = vm\<lparr>vm_vcpu := \<lambda>i. if i < 255 then map_option (invalidate ''tl_valid'') (vm_vcpu vm i) else vm_vcpu vm i\<rparr>"

text \<open>
  \<open>phys_array\<close> holds one address per page; \<open>junk\<close> is what the memory of \<open>gpa_list\<close> holds when it is
  allocated: the list is filled after the reassignment has used it.
\<close>

definition nvc_svmc_set_mapping ::
  "'h hypervisor_services \<Rightarrow> u8 list \<Rightarrow> u64 list \<Rightarrow> noir_svm_custom_vm \<Rightarrow> noir_cvm_address_mapping \<Rightarrow> u64 list \<Rightarrow> allocs \<Rightarrow> 'h \<Rightarrow>
     noir_status \<times> noir_svm_custom_vm \<times> allocs \<times> 'h" where
  "nvc_svmc_set_mapping sv host_pat junk vm info phys_array al h =
     (case next_pool al of
        (False, al1) \<Rightarrow> (noir_insufficient_resources, vm, al1, h)
      | (True, al1) \<Rightarrow>
          let secure = bf_flag noir_cvm_mapping_attributes ''nsv_secure'' (map_attributes info);
              ownership = (if secure then noir_nsv_rmt_secure_guest else noir_nsv_rmt_insecure_guest);
              (nsv_ret, h1) =
                (if enable_nsv sv then reassign_pages sv phys_array junk (vm_asid vm) False ownership h else (True, h))
          in if \<not> nsv_ret then (noir_nsv_violation, vm, al1, h1)
             else
               let h2 = (if secure then crypto_pages sv phys_array h1 else h1) in
               if map_psize (map_attributes info) \<noteq> 0 then (noir_not_implemented, vm, al1, h2)
               else
                 (case map_pages_from host_pat (vm_nptm vm) (map_gpa info) (map_attributes info) 0 phys_array
                         noir_insufficient_resources al1 of
                    (st, m1, al2) \<Rightarrow>
                      let vm1 = invalidate_tlbs (vm\<lparr>vm_nptm := m1\<rparr>)
                      in if st \<noteq> noir_success
                         then (case nvc_svmc_set_unmapping sv host_pat vm1 (map_gpa info) (map_pages info) al2 h2 of
                                 (_, vm2, al3, h3) \<Rightarrow> (st, vm2, al3, h3))
                         else (st, vm1, al2, h2)))"

section \<open>Accessed and dirty bits\<close>

text \<open>
  The descriptor that the loops stop at: its region holds the address and its entry is present. The
  loops look at every descriptor of a list until they return.
\<close>

definition holds :: "u64 \<Rightarrow> string \<Rightarrow> u64 \<Rightarrow> npt_descriptor \<Rightarrow> bool" where
  "holds sz f gpa d \<longleftrightarrow> in_region sz gpa (gpa_start d) \<and> bf_flag amd64_npt_general_entry ''present'' (virt d (gpa_index f gpa))"

fun first_some :: "('a \<Rightarrow> 'b option) \<Rightarrow> 'a list \<Rightarrow> 'b option" where
  "first_some f [] = None"
| "first_some f (x # xs) = (case f x of None \<Rightarrow> first_some f xs | Some y \<Rightarrow> Some y)"

text \<open>Accessed and dirty stand at the same place in the three leaf formats. The levels below a descriptor of a list: which leaf entry the nested loops of
  \<open>nvc_svmc_clear_gpa_accessing_bit\<close> reach, as its level and the position of its descriptor.\<close>

datatype leaf_at = Huge_at nat | Large_at nat | Page_at nat

definition first_at :: "(nat \<Rightarrow> 'b option) \<Rightarrow> nat \<Rightarrow> 'b option" where
  "first_at f n = first_some f [0..<n]"

definition clear_pte :: "svm_npt_manager \<Rightarrow> u64 \<Rightarrow> leaf_at option" where
  "clear_pte m gpa = first_at (\<lambda>j. if holds page_2mb_size ''pte_offset'' gpa (pte_list m ! j) then Some (Page_at j) else None)
     (length (pte_list m))"

definition clear_pde :: "svm_npt_manager \<Rightarrow> u64 \<Rightarrow> leaf_at option" where
  "clear_pde m gpa = first_at (\<lambda>k.
     if holds page_1gb_size ''pde_offset'' gpa (pde_list m ! k)
     then (if bf_flag amd64_npt_large_pde ''large_pde'' (virt (pde_list m ! k) (gpa_index ''pde_offset'' gpa))
           then Some (Large_at k) else clear_pte m gpa)
     else None) (length (pde_list m))"

definition clear_pdpte :: "svm_npt_manager \<Rightarrow> u64 \<Rightarrow> leaf_at option" where
  "clear_pdpte m gpa = first_at (\<lambda>i.
     if holds page_512gb_size ''pdpte_offset'' gpa (pdpte_list m ! i)
     then (if bf_flag amd64_npt_huge_pdpte ''huge_pdpte'' (virt (pdpte_list m ! i) (gpa_index ''pdpte_offset'' gpa))
           then Some (Huge_at i) else clear_pde m gpa)
     else None) (length (pdpte_list m))"

definition clear_ad :: "u64 \<Rightarrow> u64" where
  "clear_ad e = bf_put amd64_npt_pte ''accessed'' 0 (bf_put amd64_npt_pte ''dirty'' 0 e)"

definition clear_at :: "npt_descriptor list \<Rightarrow> nat \<Rightarrow> 9 word \<Rightarrow> npt_descriptor list" where
  "clear_at ds k i = set_entry ds k i (clear_ad (virt (ds ! k) i))"

definition nvc_svmc_clear_gpa_accessing_bit :: "svm_npt_manager \<Rightarrow> u64 \<Rightarrow> bool \<times> svm_npt_manager" where
  "nvc_svmc_clear_gpa_accessing_bit m gpa =
     (if \<not> bf_flag amd64_npt_general_entry ''present'' (ncr3_virt m (gpa_index ''pml4e_offset'' gpa)) then (False, m)
      else (case clear_pdpte m gpa of
        None \<Rightarrow> (False, m)
      | Some (Huge_at i) \<Rightarrow> (True, m\<lparr>pdpte_list := clear_at (pdpte_list m) i (gpa_index ''pdpte_offset'' gpa)\<rparr>)
      | Some (Large_at k) \<Rightarrow> (True, m\<lparr>pde_list := clear_at (pde_list m) k (gpa_index ''pde_offset'' gpa)\<rparr>)
      | Some (Page_at j) \<Rightarrow> (True, m\<lparr>pte_list := clear_at (pte_list m) j (gpa_index ''pte_offset'' gpa)\<rparr>)))"

text \<open>\<open>gpa_start+(i<<page_4kb_shift)\<close>, again on a \<open>u32\<close>.\<close>

fun clear_bits_from :: "svm_npt_manager \<Rightarrow> u64 \<Rightarrow> nat \<Rightarrow> nat \<Rightarrow> noir_status \<times> svm_npt_manager" where
  "clear_bits_from m gpa i 0 = (noir_success, m)"
| "clear_bits_from m gpa i (Suc n) =
     (case nvc_svmc_clear_gpa_accessing_bit m (nth_page gpa i) of
        (r, m1) \<Rightarrow> if r then clear_bits_from m1 gpa (Suc i) n else (noir_guest_page_absent, m1))"

definition nvc_svmc_clear_gpa_accessing_bits :: "noir_svm_custom_vm \<Rightarrow> u64 \<Rightarrow> u32 \<Rightarrow> noir_status \<times> noir_svm_custom_vm" where
  "nvc_svmc_clear_gpa_accessing_bits vm gpa0 page_n =
     (case clear_bits_from (vm_nptm vm) gpa0 0 (unat page_n) of
        (st, m1) \<Rightarrow> (st, vm\<lparr>vm_nptm := m1\<rparr>))"

text \<open>
  In \<open>nvc_svmc_query_gpa_accessing_bit\<close> the step \<open>pde_p=pde_p->next\<close> stands behind the inner loop
  instead of in it: the loop looks at the first descriptor of the list only, and repeats for ever when
  that descriptor does not return; with an empty list the step reads through the null pointer.
  \<open>None\<close> is either.
\<close>

definition ad_bits :: "u64 \<Rightarrow> u8" where
  "ad_bits e = ucast (push_bit 1 (bf_get amd64_npt_pte ''dirty'' e) + bf_get amd64_npt_pte ''accessed'' e)"

definition query_pde :: "svm_npt_manager \<Rightarrow> u64 \<Rightarrow> u8 option" where
  "query_pde m gpa =
     (case pde_list m of
        [] \<Rightarrow> None
      | d # _ \<Rightarrow>
          (let e = virt d (gpa_index ''pde_offset'' gpa) in
           if holds page_1gb_size ''pde_offset'' gpa d
           then (if bf_flag amd64_npt_large_pde ''large_pde'' e then Some (ad_bits e)
                 else first_some (\<lambda>t. if holds page_2mb_size ''pte_offset'' gpa t
                                     then Some (ad_bits (virt t (gpa_index ''pte_offset'' gpa))) else None) (pte_list m))
           else None))"

definition nvc_svmc_query_gpa_accessing_bit :: "svm_npt_manager \<Rightarrow> u64 \<Rightarrow> u8 option" where
  "nvc_svmc_query_gpa_accessing_bit m gpa =
     (if \<not> bf_flag amd64_npt_general_entry ''present'' (ncr3_virt m (gpa_index ''pml4e_offset'' gpa)) then Some 0xff
      else (case List.find (holds page_512gb_size ''pdpte_offset'' gpa) (pdpte_list m) of
        None \<Rightarrow> Some 0xff
      | Some d \<Rightarrow>
          (let e = virt d (gpa_index ''pdpte_offset'' gpa) in
           if bf_flag amd64_npt_huge_pdpte ''huge_pdpte'' e then Some (ad_bits e) else query_pde m gpa)))"

text \<open>A bitmap as its bits: two bits per page, the accessed bit first.\<close>

fun query_bits_from :: "svm_npt_manager \<Rightarrow> u64 \<Rightarrow> nat \<Rightarrow> nat \<Rightarrow> (nat \<Rightarrow> bool) \<Rightarrow> (noir_status \<times> (nat \<Rightarrow> bool)) option" where
  "query_bits_from m gpa i 0 bm = Some (noir_success, bm)"
| "query_bits_from m gpa i (Suc n) bm =
     (case nvc_svmc_query_gpa_accessing_bit m (nth_page gpa i) of
        None \<Rightarrow> None
      | Some r \<Rightarrow>
          if r = 0xff then Some (noir_guest_page_absent, bm)
          else query_bits_from m gpa (Suc i) n (bm(2 * i := bit r 0, 2 * i + 1 := bit r 1)))"

definition nvc_svmc_query_gpa_accessing_bitmap ::
  "noir_svm_custom_vm \<Rightarrow> u64 \<Rightarrow> u32 \<Rightarrow> (nat \<Rightarrow> bool) \<Rightarrow> u32 \<Rightarrow> (noir_status \<times> (nat \<Rightarrow> bool)) option" where
  "nvc_svmc_query_gpa_accessing_bitmap vm gpa0 page_n bitmap bitmap_size =
     (if page_n \<le> push_bit 2 bitmap_size
      then query_bits_from (vm_nptm vm) gpa0 0 (unat page_n) bitmap
      else Some (noir_buffer_too_small, bitmap))"

end
