(* ===== verification/Npt_Range_Properties.thy ===== *)
theory Npt_Range_Properties
  imports Npt_Range Npt_Mapping
begin

text \<open>
  The properties of mapping and unmapping ranges of guest memory and of reading accessed bits.
\<close>

section \<open>The pages of a range\<close>

text \<open>A range inside the 48-bit space of at most \<open>2 ^ 20\<close> pages.\<close>

definition range_ok :: "u64 \<Rightarrow> nat \<Rightarrow> bool" where
  "range_ok gpa n \<longleftrightarrow> unat gpa + 4096 * n \<le> 2 ^ 48 \<and> n \<le> 2 ^ 20"

lemma unat_nth_page:
  assumes "range_ok gpa n" "i < n"
  shows "unat (nth_page gpa i) = unat gpa + 4096 * i"
proof -
  have i: "i < 2 ^ 20" "unat gpa + 4096 * i < 2 ^ 48" using assms by (simp_all add: range_ok_def)
  have "unat (push_bit 12 (of_nat i :: u32)) = 4096 * i"
    using i(1) by (simp add: push_bit_eq_mult unat_word_ariths unat_of_nat mult.commute)
  then have "unat (ucast (push_bit 12 (of_nat i :: u32)) :: u64) = 4096 * i"
    using i(1) by (simp add: unsigned_ucast_eq take_bit_nat_eq_self)
  then show ?thesis
    using i(2) by (simp add: nth_page_def unat_word_ariths)
qed

lemma nth_page_low: "range_ok gpa n \<Longrightarrow> i < n \<Longrightarrow> low_half (nth_page gpa i)"
  by (simp add: low_half_less unat_nth_page) (simp add: range_ok_def)

lemma nth_page_inj:
  assumes "range_ok gpa n" "i < n" "j < n" "page_4kb_count (nth_page gpa i) = page_4kb_count (nth_page gpa j)"
  shows "i = j"
proof -
  have "unat (page_4kb_count (nth_page gpa i)) = unat (page_4kb_count (nth_page gpa j))" using assms(4) by simp
  then have "(unat gpa + 4096 * i) div 4096 = (unat gpa + 4096 * j) div 4096"
    using assms(1-3) by (simp add: page_4kb_count_def unat_drop_bit_eq drop_bit_eq_div unat_div unat_nth_page)
  then show ?thesis by simp
qed

section \<open>Mapping a range\<close>

definition page_list :: "u64 \<Rightarrow> nat \<Rightarrow> nat \<Rightarrow> u64 \<Rightarrow> nat option" where
  "page_list gpa i n g = List.find (\<lambda>j. page_4kb_count g = page_4kb_count (nth_page gpa j)) [i..<i + n]"

lemma map_pages_law:
  assumes "range_ok gpa n" "i + length hpas \<le> n" "map_psize attr_bits = 0"
    and "wf_npt m" "fresh m al" "hpas = [] \<longrightarrow> st = noir_success"
    and "map_pages_from host_pat m gpa attr_bits i hpas st al = (noir_success, m', al')"
  shows "wf_npt m' \<and> fresh m' al' \<and>
    (\<forall>g. npt_leaf m' g = (case page_list gpa i (length hpas) g of
       Some j \<Rightarrow> nvc_svmc_set_pte_entry host_pat (hpas ! (j - i)) attr_bits | None \<Rightarrow> npt_leaf m g))"
  using assms(2,4-)
proof (induction hpas arbitrary: i m al st)
  case Nil
  then show ?case by (simp add: page_list_def)
next
  case (Cons hpa hpas)
  obtain m1 al1 where s: "nvc_svmc_set_page_map host_pat m (nth_page gpa i) hpa attr_bits al = (noir_success, m1, al1)"
    and r: "map_pages_from host_pat m1 gpa attr_bits (Suc i) hpas noir_success al1 = (noir_success, m', al')"
    using Cons.prems(5) by (auto split: prod.splits if_splits)
  have "low_half (nth_page gpa i)" using Cons.prems(1) by (intro nth_page_low [OF assms(1)]) simp
  note step = set_page_map_step [OF Cons.prems(2) this Cons.prems(3) assms(3) s]
  then have m1: "wf_npt m1" "fresh m1 al1" by blast+
  have IH: "wf_npt m' \<and> fresh m' al' \<and> (\<forall>g. npt_leaf m' g = (case page_list gpa (Suc i) (length hpas) g of
       Some j \<Rightarrow> nvc_svmc_set_pte_entry host_pat (hpas ! (j - Suc i)) attr_bits | None \<Rightarrow> npt_leaf m1 g))"
    using Cons.prems(1) by (intro Cons.IH [OF _ m1 _ r]) simp_all
  have "npt_leaf m' g = (case page_list gpa i (length (hpa # hpas)) g of
       Some j \<Rightarrow> nvc_svmc_set_pte_entry host_pat ((hpa # hpas) ! (j - i)) attr_bits | None \<Rightarrow> npt_leaf m g)" for g
  proof (cases "page_4kb_count g = page_4kb_count (nth_page gpa i)")
    case True
    have "page_list gpa (Suc i) (length hpas) g = None"
      unfolding page_list_def find_None_iff
    proof (rule notI, elim exE conjE)
      fix j assume j: "j \<in> set [Suc i..<Suc i + length hpas]" "page_4kb_count g = page_4kb_count (nth_page gpa j)"
      have "i < n" "j < n" using j(1) Cons.prems(1) by auto
      then have "i = j" using nth_page_inj [OF assms(1)] True j(2) by metis
      then show False using j(1) by auto
    qed
    moreover have "page_list gpa i (length (hpa # hpas)) g = Some i"
      using True by (simp add: page_list_def upt_rec [of i] del: upt_Suc)
    ultimately show ?thesis
      using IH step True by simp
  next
    case False
    have "page_list gpa i (length (hpa # hpas)) g = page_list gpa (Suc i) (length hpas) g"
      using False by (simp add: page_list_def upt_rec [of i] del: upt_Suc)
    moreover have "Suc i \<le> j" if "page_list gpa (Suc i) (length hpas) g = Some j" for j
      using that by (auto simp: page_list_def find_Some_iff simp del: upt_Suc)
    ultimately show ?thesis
      using IH step False by (auto simp: nth_Cons' split: option.split)
  qed
  with IH show ?case by blast
qed

lemma page_list_Some:
  assumes "range_ok gpa n" "j < n" "page_4kb_count g = page_4kb_count (nth_page gpa j)"
  shows "page_list gpa 0 n g = Some j"
proof -
  have "page_4kb_count g \<noteq> page_4kb_count (nth_page gpa k)" if "k < j" for k
    using nth_page_inj [OF assms(1), of j k] assms(2,3) that by auto
  then show ?thesis
    unfolding page_list_def find_Some_iff using assms(2,3) by (intro exI [of _ j] conjI) simp_all
qed

lemma page_list_None:
  "(\<forall>j < n. page_4kb_count g \<noteq> page_4kb_count (nth_page gpa j)) \<Longrightarrow> page_list gpa 0 n g = None"
  by (simp add: page_list_def find_None_iff)

lemma set_mapping_success:
  assumes "nvc_svmc_set_mapping sv host_pat junk vm info phys_array al h = (noir_success, vm', al', h')"
  shows "\<exists>m1 al1. map_psize (map_attributes info) = 0 \<and> granted_pages al1 = granted_pages al \<and>
    map_pages_from host_pat (vm_nptm vm) (map_gpa info) (map_attributes info) 0 phys_array noir_insufficient_resources al1 =
      (noir_success, m1, al') \<and> vm' = invalidate_tlbs (vm\<lparr>vm_nptm := m1\<rparr>)"
proof -
  obtain al1 where np: "next_pool al = (True, al1)"
    using assms by (cases "next_pool al") (auto simp: nvc_svmc_set_mapping_def split: bool.splits)
  have "map_psize (map_attributes info) = 0 \<and> (\<exists>m1.
    map_pages_from host_pat (vm_nptm vm) (map_gpa info) (map_attributes info) 0 phys_array noir_insufficient_resources al1 =
      (noir_success, m1, al') \<and> vm' = invalidate_tlbs (vm\<lparr>vm_nptm := m1\<rparr>))"
    using assms np
    by (auto simp: nvc_svmc_set_mapping_def Let_def noir_nsv_violation_def noir_success_def
        noir_insufficient_resources_def noir_not_implemented_def split: prod.splits if_splits)
  then show ?thesis using next_pool_granted [OF np] by blast
qed


definition sample_vm :: noir_svm_custom_vm where
  "sample_vm = \<lparr>vm_asid = 2, vm_nptm = empty_manager 0x4000, vm_vcpu = (\<lambda>_. None)\<rparr>"

definition sample_services :: "unit hypervisor_services" where
  "sample_services = \<lparr>enable_nsv = False, reassign_pages = \<lambda>_ _ _ _ _ h. (True, h), crypto_pages = \<lambda>_ h. h\<rparr>"

definition sample_mapping :: noir_cvm_address_mapping where
  "sample_mapping = \<lparr>map_gpa = 0x12345000, map_pages = 2, map_attributes = 7\<rparr>"

lemma described_page_succeeds:
  assumes "wf_npt m" "map_psize a = 0" "table_of 21 (pte_list m) g \<noteq> None"
  shows "\<exists>m'. nvc_svmc_set_page_map host_pat m g hpa a al = (noir_success, m', al)"
proof -
  have "wf_tables 21 (pte_list m)" using assms(1) by (simp add: wf_npt_def)
  then obtain j where "find_desc page_2mb_size g (pte_list m) = Some j"
    using find_desc_table [of 21 "pte_list m" g] assms(3) by (auto simp: page_2mb_size_def split: option.splits)
  then show ?thesis using assms(2) by (simp add: nvc_svmc_set_page_map_def)
qed

lemma leaf_described: "npt_leaf m g \<noteq> 0 \<Longrightarrow> table_of 21 (pte_list m) g \<noteq> None"
  by (cases "table_of 21 (pte_list m) g") (simp_all add: npt_leaf_def)

definition range_allocs :: allocs where
  "range_allocs = \<lparr>pool = [True, True, True, True], pages = [Some 0x5000, Some 0x6000, Some 0x7000]\<rparr>"

lemma range_allocs_fresh: "fresh (empty_manager 0x4000) range_allocs"
  by (simp add: fresh_def range_allocs_def granted_pages_def empty_manager_def npt_phys_def
      List.map_filter_simps page_frame_def page_4kb_mult_def page_4kb_count_def)

lemma sample_range: "range_ok 0x12345000 2" "nth_page 0x12345000 0 = 0x12345000" "nth_page 0x12345000 1 = 0x12346000"
  by (simp_all add: range_ok_def nth_page_def push_bit_eq_mult)

lemma sample_two_pages:
  "\<exists>m2 al2. (\<forall>st. map_pages_from wb_pat (empty_manager 0x4000) 0x12345000 7 0 [0xabc000, 0xdef000] st plenty = (noir_success, m2, al2)) \<and>
     wf_npt m2 \<and> fresh m2 al2 \<and> npt_leaf m2 0x12345000 \<noteq> 0 \<and>
     npt_leaf m2 0x12346678 = nvc_svmc_set_pte_entry wb_pat 0xdef000 7"
proof -
  obtain m1 al2 where s1: "nvc_svmc_set_page_map wb_pat (empty_manager 0x4000) 0x12345000 0xabc000 7 plenty = (noir_success, m1, al2)"
    using set_page_map_enough [OF example_ready(4) plenty_takes] by (metis prod.collapse)
  have low: "low_half 0x12345000" "low_half 0x12346000" by (simp_all add: low_half_def)
  note step = set_page_map_step [OF example_ready(1) low(1) example_ready(3,4) s1]
  have p: "bf_flag amd64_npt_pte ''present'' (npt_leaf m1 0x12345000)"
    using step by (simp add: set_pte_entry_get bf_flag_bit layout)
  then have leaf: "npt_leaf m1 0x12345000 \<noteq> 0" by (auto simp: bf_flag_bit layout)
  then have "table_of 21 (pte_list m1) 0x12346000 \<noteq> None"
    using leaf_described [of m1 "0x12345000"] table_of_cong [of 21 "0x12345000" "0x12346000" "pte_list m1"] by simp
  then obtain m2 where s2: "nvc_svmc_set_page_map wb_pat m1 0x12346000 0xdef000 7 al2 = (noir_success, m2, al2)"
    using described_page_succeeds [OF _ example_ready(4)] step by blast
  have "wf_npt m1" "fresh m1 al2" using step by blast+
  note step2 = set_page_map_step [OF this(1) low(2) this(2) example_ready(4) s2]
  have "map_pages_from wb_pat (empty_manager 0x4000) 0x12345000 7 0 [0xabc000, 0xdef000] st plenty = (noir_success, m2, al2)" for st
    using s1 s2 sample_range by simp
  then show ?thesis
    using step2 leaf by (intro exI [of _ m2] exI [of _ al2]) (simp add: page_4kb_count_def)
qed

lemma sample_map_runs:
  "\<exists>vm' al'. nvc_svmc_set_mapping sample_services wb_pat [0, 0] sample_vm sample_mapping [0xabc000, 0xdef000] range_allocs () =
     (noir_success, vm', al', ())"
proof -
  have np: "next_pool range_allocs = (True, plenty)"
    by (simp add: next_pool_def range_allocs_def plenty_def)
  obtain m2 al2 where
    "map_pages_from wb_pat (empty_manager 0x4000) 0x12345000 7 0 [0xabc000, 0xdef000] st plenty = (noir_success, m2, al2)" for st
    using sample_two_pages by blast
  then show ?thesis
    using np example_ready(4)
    by (simp add: nvc_svmc_set_mapping_def sample_services_def sample_vm_def sample_mapping_def Let_def bf_flag_bit layout)
qed


section \<open>Unmapping a range\<close>

lemma unmap_pages_law:
  assumes "wf_npt m" "low_half gpa" "fresh m al"
    and "unmap_pages host_pat m gpa n st al = (noir_success, m', al')"
  shows "wf_npt m' \<and> fresh m' al' \<and> (\<forall>g. npt_leaf m' g =
    (if 0 < n \<and> page_4kb_count g = page_4kb_count gpa then nvc_svmc_set_pte_entry host_pat 0 null_map else npt_leaf m g))"
  using assms(1,3,4)
proof (induction n arbitrary: m st al)
  case (Suc n)
  obtain m1 al1 where s: "nvc_svmc_set_page_map host_pat m gpa 0 null_map al = (noir_success, m1, al1)"
    and r: "unmap_pages host_pat m1 gpa n noir_success al1 = (noir_success, m', al')"
    using Suc.prems(3) by (auto split: prod.splits if_splits)
  note step = set_page_map_step [OF Suc.prems(1) assms(2) Suc.prems(2) map_psize_null s]
  then have "wf_npt m1" "fresh m1 al1" by blast+
  from Suc.IH [OF this r] step show ?case by simp
qed simp

text \<open>Unmapping a range of guest memory reports success after unmapping its first page only: the
  guest still reaches every other page of the range as before, and no processor is told that its
  translations are stale.\<close>
theorem unmapping_leaves_range_mapped:
  assumes "wf_npt (vm_nptm vm)" "low_half gpa" "fresh (vm_nptm vm) al" "\<not> enable_nsv sv"
    and "nvc_svmc_set_unmapping sv host_pat vm gpa n al h = (noir_success, vm', al', h')"
  shows "vm_vcpu vm' = vm_vcpu vm \<and>
    (\<forall>g w x. low_half g \<longrightarrow> nvc_svmc_get_physical_mapping (vm_nptm vm') g True w x =
      (if page_4kb_count g = page_4kb_count gpa then (False, 0)
       else nvc_svmc_get_physical_mapping (vm_nptm vm) g True w x))"
proof -
  obtain al1 where np: "next_pool al = (True, al1)"
    using assms(5) by (cases "next_pool al") (auto simp: nvc_svmc_set_unmapping_def split: bool.splits)
  obtain m1 where m1: "unmap_pages host_pat (vm_nptm vm) gpa (unat n) noir_insufficient_resources al1 = (noir_success, m1, al')"
    and vm': "vm' = vm\<lparr>vm_nptm := m1\<rparr>"
    using assms(4,5) np by (auto simp: nvc_svmc_set_unmapping_def Let_def split: prod.splits)
  have pos: "0 < unat n"
    using m1 by (cases "unat n") (auto simp: noir_success_def noir_insufficient_resources_def)
  have "fresh (vm_nptm vm) al1" using assms(3) next_pool_granted [OF np] by (simp add: fresh_def)
  note law = unmap_pages_law [OF assms(1,2) this m1]
  have "mapped_page 0 null_map g w x = (False, 0)" for g w x
    by (simp add: mapped_page_def null_map_def bf_flag_bit layout)
  then show ?thesis
    using law pos get_mapping_present [of m1] get_mapping_present [OF assms(1)]
    by (simp add: vm' leaf_mapping_set_pte)
qed

text \<open>The two sample pages: unmapping both leaves the second one mapped.\<close>

theorem unmapping_leaves_range_mapped_witness:
  "\<exists>m al vm' al'. nvc_svmc_get_physical_mapping m 0x12346678 True True True = (True, 0xdef678) \<and>
     nvc_svmc_set_unmapping sample_services wb_pat (sample_vm\<lparr>vm_nptm := m\<rparr>) 0x12345000 2 al () = (noir_success, vm', al', ()) \<and>
     nvc_svmc_get_physical_mapping (vm_nptm vm') 0x12346678 True True True = (True, 0xdef678)"
proof -
  obtain m al2 where m: "wf_npt m" "fresh m al2" "npt_leaf m 0x12345000 \<noteq> 0"
    "npt_leaf m 0x12346678 = nvc_svmc_set_pte_entry wb_pat 0xdef000 7"
    using sample_two_pages by blast
  define al where "al = al2\<lparr>pool := [True]\<rparr>"
  define al1 where "al1 = al2\<lparr>pool := []\<rparr>"
  have np: "next_pool al = (True, al1)" by (simp add: next_pool_def al_def al1_def)
  have f: "fresh m al" "fresh m al1" using m(2) by (simp_all add: fresh_def granted_pages_def al_def al1_def)
  have low: "low_half 0x12345000" "low_half 0x12346678" by (simp_all add: low_half_def)
  obtain m1 where s1: "nvc_svmc_set_page_map wb_pat m 0x12345000 0 null_map al1 = (noir_success, m1, al1)"
    using described_page_succeeds [OF m(1) map_psize_null leaf_described [OF m(3)]] by blast
  have "nvc_svmc_set_pte_entry wb_pat 0xdef000 7 \<noteq> 0"
    using set_pte_entry_get(1) [of wb_pat "0xdef000" 7] by (auto simp: bf_flag_bit layout)
  then have "npt_leaf m1 0x12346678 \<noteq> 0" "wf_npt m1"
    using set_page_map_step [OF m(1) low(1) f(2) map_psize_null s1] m(4) by (auto simp: page_4kb_count_def)
  then have "table_of 21 (pte_list m1) 0x12345000 \<noteq> None"
    using leaf_described [of m1 "0x12346678"] table_of_cong [of 21 "0x12345000" "0x12346678" "pte_list m1"] by simp
  then obtain m2 where s2: "nvc_svmc_set_page_map wb_pat m1 0x12345000 0 null_map al1 = (noir_success, m2, al1)"
    using described_page_succeeds [OF \<open>wf_npt m1\<close> map_psize_null] by blast
  define vm where "vm = sample_vm\<lparr>vm_nptm := m\<rparr>"
  have off: "\<not> enable_nsv sample_services" by (simp add: sample_services_def)
  have two: "unmap_pages wb_pat m 0x12345000 2 st al1 = (noir_success, m2, al1)" for st
    using s1 s2 by (simp add: numeral_2_eq_2)
  have run: "nvc_svmc_set_unmapping sample_services wb_pat vm 0x12345000 2 al () = (noir_success, vm\<lparr>vm_nptm := m2\<rparr>, al1, ())"
    using off np two by (simp add: nvc_svmc_set_unmapping_def Let_def vm_def)
  have "mapped_page 0xdef000 7 0x12346678 True True = (True, 0xdef678)"
    by (simp add: mapped_page_def bf_flag_bit layout page_4kb_base_def page_4kb_offset_def)
  then have before: "nvc_svmc_get_physical_mapping m 0x12346678 True True True = (True, 0xdef678)"
    using get_mapping_present [OF m(1) low(2)] m(4) by (simp add: leaf_mapping_set_pte)
  have "page_4kb_count 0x12346678 \<noteq> page_4kb_count 0x12345000" by (simp add: page_4kb_count_def)
  then have "nvc_svmc_get_physical_mapping m2 0x12346678 True True True = (True, 0xdef678)"
    using unmapping_leaves_range_mapped [OF _ low(1) _ off run] m(1) f(1) low(2) before by (simp add: vm_def)
  with before run show ?thesis unfolding vm_def by fastforce
qed

section \<open>Accessed and dirty bits\<close>

lemma holds_iff:
  assumes "wf_tables k ds" "k \<le> 39" "d \<in> set ds"
  shows "holds (2 ^ k) f gpa d \<longleftrightarrow>
    table_of k ds gpa = Some d \<and> bf_flag amd64_npt_general_entry ''present'' (virt d (gpa_index f gpa))"
  using assms table_of_iff [OF assms(1)] by (auto simp: holds_def wf_tables_def in_region_iff)

lemma first_some_find: "first_some (\<lambda>x. if P x then Some (f x) else None) xs = map_option f (List.find P xs)"
  by (induction xs) simp_all

lemma first_some_None: "(\<And>i. i \<in> set xs \<Longrightarrow> f i = None) \<Longrightarrow> first_some f xs = None"
  by (induction xs) simp_all

lemma first_some_only:
  "j \<in> set xs \<Longrightarrow> (\<And>i. i \<in> set xs \<Longrightarrow> i \<noteq> j \<Longrightarrow> f i = None) \<Longrightarrow> first_some f xs = f j"
proof (induction xs)
  case (Cons x xs)
  show ?case
  proof (cases "x = j \<and> j \<notin> set xs")
    case True
    then have "first_some f xs = None" using Cons.prems(2) by (intro first_some_None) auto
    with True show ?thesis by (simp split: option.split)
  next
    case False
    then have "first_some f xs = f j" using Cons by auto
    then show ?thesis using Cons.prems(2) [of x] by (cases "x = j") (simp_all split: option.split)
  qed
qed simp

text \<open>On a well-formed level the loops reach at most the one table of the address.\<close>

lemma first_at_level:
  assumes "wf_tables k ds" "k \<le> 39" "\<And>j. j < length ds \<Longrightarrow> F j \<noteq> None \<Longrightarrow> holds (2 ^ k) f gpa (ds ! j)"
  shows "(table_of k ds gpa = None \<and> first_at F (length ds) = None) \<or>
    (\<exists>j < length ds. table_of k ds gpa = Some (ds ! j) \<and> first_at F (length ds) = F j)"
proof -
  have h: "F j = None \<or> table_of k ds gpa = Some (ds ! j)" if "j < length ds" for j
    using assms(3) [OF that] holds_iff [OF assms(1,2) nth_mem [OF that]] by (cases "F j") auto
  show ?thesis
  proof (cases "table_of k ds gpa")
    case None
    then have "F j = None" if "j \<in> set [0..<length ds]" for j using h that by auto
    then have "first_some F [0..<length ds] = None" by (rule first_some_None)
    then show ?thesis using None by (simp add: first_at_def)
  next
    case (Some d)
    then obtain j where j: "j < length ds" "d = ds ! j" using table_of_iff [OF assms(1)] by (metis in_set_conv_nth)
    have "F i = None" if "i \<in> set [0..<length ds]" "i \<noteq> j" for i
    proof (rule ccontr)
      assume "F i \<noteq> None"
      then have "ds ! i = ds ! j" using h [of i] that(1) Some j(2) by auto
      moreover have "distinct ds" using assms(1) by (auto simp: wf_tables_def distinct_map)
      ultimately show False using that j(1) by (simp add: nth_eq_iff_index_eq)
    qed
    then have "first_at F (length ds) = F j"
      unfolding first_at_def using j(1) by (intro first_some_only) simp_all
    with Some j show ?thesis by blast
  qed
qed

lemma link_step:
  assumes "link k mk ps cs" "low_half gpa"
  shows "table_of (k + 9) ps gpa = None \<Longrightarrow> table_of k cs gpa = None"
    "table_of (k + 9) ps gpa = Some p \<Longrightarrow>
       virt p (ucast (drop_bit k gpa)) = (case table_of k cs gpa of None \<Rightarrow> 0 | Some c \<Rightarrow> mk (phys c))"
proof -
  have l: "linked mk (ucast (drop_bit k gpa)) (table_of (k + 9) ps gpa) (map_option phys (table_of k cs gpa))"
    using assms by (simp add: link_def)
  show "table_of (k + 9) ps gpa = None \<Longrightarrow> table_of k cs gpa = None" using l by simp
  show "table_of (k + 9) ps gpa = Some p \<Longrightarrow>
      virt p (ucast (drop_bit k gpa)) = (case table_of k cs gpa of None \<Rightarrow> 0 | Some c \<Rightarrow> mk (phys c))"
    using l by (cases "table_of k cs gpa") simp_all
qed

lemma link_flags:
  assumes "page_frame p"
  shows "bit (nvc_svmc_set_pml4e_entry p) 0" "bit (link_pdpte p) 0" "\<not> bit (link_pdpte p) 7"
    "bit (link_pde p) 0" "\<not> bit (link_pde p) 7"
  using page_frame_bits [OF assms] by (simp_all add: put_table_bits [OF assms])

lemma phys_frame: "wf_tables k ds \<Longrightarrow> table_of k ds gpa = Some d \<Longrightarrow> page_frame (phys d)"
  using table_of_iff [of k ds gpa d] by (auto simp: wf_tables_def)

text \<open>What a walk by the lists meets at an address of a well-formed manager.\<close>

lemma walk_entries:
  assumes "wf_npt m" "low_half gpa"
  shows "table_of 21 (pte_list m) gpa = Some t \<Longrightarrow>
      \<exists>d c. table_of 39 (pdpte_list m) gpa = Some d \<and> table_of 30 (pde_list m) gpa = Some c \<and>
        bit (ncr3_virt m (ucast (drop_bit 39 gpa))) 0 \<and> bit (virt d (ucast (drop_bit 30 gpa))) 0 \<and>
        bit (virt c (ucast (drop_bit 21 gpa))) 0"
    "table_of 39 (pdpte_list m) gpa = Some d \<Longrightarrow> \<not> bit (virt d (ucast (drop_bit 30 gpa))) 7"
    "table_of 30 (pde_list m) gpa = Some c \<Longrightarrow> \<not> bit (virt c (ucast (drop_bit 21 gpa))) 7"
proof -
  have wf: "wf_tables 39 (pdpte_list m)" "wf_tables 30 (pde_list m)" "wf_tables 21 (pte_list m)"
    and l: "link 39 nvc_svmc_set_pml4e_entry (npt_root m) (pdpte_list m)" "link 30 link_pdpte (pdpte_list m) (pde_list m)"
      "link 21 link_pde (pde_list m) (pte_list m)"
    using assms(1) by (auto simp: wf_npt_def upper2_def upper3_def)
  note root = link_step [OF l(1) assms(2), simplified, unfolded root_table [OF assms(2)], simplified]
  note mid = link_step [OF l(2) assms(2), simplified]
  note low = link_step [OF l(3) assms(2), simplified]
  show "\<not> bit (virt d (ucast (drop_bit 30 gpa))) 7" if "table_of 39 (pdpte_list m) gpa = Some d"
    using mid(2) [OF that] link_flags(3) phys_frame [OF wf(2)] by (cases "table_of 30 (pde_list m) gpa") simp_all
  show "\<not> bit (virt c (ucast (drop_bit 21 gpa))) 7" if "table_of 30 (pde_list m) gpa = Some c"
    using low(2) [OF that] link_flags(5) phys_frame [OF wf(3)] by (cases "table_of 21 (pte_list m) gpa") simp_all
  assume t: "table_of 21 (pte_list m) gpa = Some t"
  then obtain c where c: "table_of 30 (pde_list m) gpa = Some c"
    using low(1) by (cases "table_of 30 (pde_list m) gpa") simp_all
  then obtain d where d: "table_of 39 (pdpte_list m) gpa = Some d"
    using mid(1) by (cases "table_of 39 (pdpte_list m) gpa") simp_all
  show "\<exists>d c. table_of 39 (pdpte_list m) gpa = Some d \<and> table_of 30 (pde_list m) gpa = Some c \<and>
        bit (ncr3_virt m (ucast (drop_bit 39 gpa))) 0 \<and> bit (virt d (ucast (drop_bit 30 gpa))) 0 \<and>
        bit (virt c (ucast (drop_bit 21 gpa))) 0"
    using d c root mid(2) [OF d] low(2) [OF c] t link_flags phys_frame [OF wf(1) d] phys_frame [OF wf(2) c]
      phys_frame [OF wf(3) t] by simp
qed

lemma wf_npt_tables:
  "wf_npt m \<Longrightarrow> wf_tables 39 (pdpte_list m)" "wf_npt m \<Longrightarrow> wf_tables 30 (pde_list m)" "wf_npt m \<Longrightarrow> wf_tables 21 (pte_list m)"
  by (auto simp: wf_npt_def upper2_def upper3_def)

lemma general_present: "bf_flag amd64_npt_general_entry ''present'' e \<longleftrightarrow> bit e 0"
  by (simp add: bf_flag_bit layout)

lemma level_sizes: "page_2mb_size = 2 ^ 21" "page_1gb_size = 2 ^ 30" "page_512gb_size = 2 ^ 39"
  by (simp_all add: page_size_exp)

lemma clear_pte_eq:
  assumes "wf_npt m"
  shows "clear_pte m gpa = None \<and> \<not> bit (npt_leaf m gpa) 0 \<or>
    (\<exists>j < length (pte_list m). table_of 21 (pte_list m) gpa = Some (pte_list m ! j) \<and>
       clear_pte m gpa = Some (Page_at j) \<and> bit (npt_leaf m gpa) 0)"
proof -
  let ?F = "\<lambda>j. if holds (2 ^ 21) ''pte_offset'' gpa (pte_list m ! j) then Some (Page_at j) else None"
  have "(table_of 21 (pte_list m) gpa = None \<and> first_at ?F (length (pte_list m)) = None) \<or>
    (\<exists>j < length (pte_list m). table_of 21 (pte_list m) gpa = Some (pte_list m ! j) \<and> first_at ?F (length (pte_list m)) = ?F j)"
    using wf_npt_tables(3) [OF assms] by (rule first_at_level) (auto split: if_splits)
  then show ?thesis
  proof (elim disjE exE conjE)
    fix j assume j: "j < length (pte_list m)" "table_of 21 (pte_list m) gpa = Some (pte_list m ! j)"
      "first_at ?F (length (pte_list m)) = ?F j"
    have "holds (2 ^ 21) ''pte_offset'' gpa (pte_list m ! j) \<longleftrightarrow> bit (npt_leaf m gpa) 0"
      using holds_iff [OF wf_npt_tables(3) [OF assms] _ nth_mem [OF j(1)]] j(2)
      by (simp add: npt_leaf_def general_present page_4kb_count_def)
    then show ?thesis
      using j by (cases "bit (npt_leaf m gpa) 0") (auto simp: clear_pte_def level_sizes)
  qed (simp add: clear_pte_def level_sizes npt_leaf_def)
qed

lemma first_at_pass:
  assumes "wf_tables k ds" "k \<le> 39" "\<And>d. table_of k ds gpa = Some d \<Longrightarrow> \<not> large (virt d (gpa_index f gpa))"
    and "rest \<noteq> None \<Longrightarrow> \<exists>d. table_of k ds gpa = Some d \<and> bf_flag amd64_npt_general_entry ''present'' (virt d (gpa_index f gpa))"
  shows "first_at (\<lambda>j. if holds (2 ^ k) f gpa (ds ! j) then if large (virt (ds ! j) (gpa_index f gpa)) then Some (G j) else rest
      else None) (length ds) = rest" (is "first_at ?F _ = _")
proof -
  have "(table_of k ds gpa = None \<and> first_at ?F (length ds) = None) \<or>
    (\<exists>j < length ds. table_of k ds gpa = Some (ds ! j) \<and> first_at ?F (length ds) = ?F j)"
    using assms(1,2) by (rule first_at_level) (auto split: if_splits)
  then show ?thesis
  proof (elim disjE exE conjE)
    assume "table_of k ds gpa = None" "first_at ?F (length ds) = None"
    then show ?thesis using assms(4) by (cases rest) auto
  next
    fix j assume j: "j < length ds" "table_of k ds gpa = Some (ds ! j)" "first_at ?F (length ds) = ?F j"
    show ?thesis
      unfolding j(3) using holds_iff [OF assms(1,2) nth_mem [OF j(1)], of f gpa] assms(3) [OF j(2)] assms(4) j(2)
      by (cases rest) auto
  qed
qed

lemma clear_pde_eq:
  assumes "wf_npt m" "low_half gpa"
  shows "clear_pde m gpa = clear_pte m gpa"
  unfolding clear_pde_def level_sizes
proof (rule first_at_pass [OF wf_npt_tables(2) [OF assms(1)]])
  assume "clear_pte m gpa \<noteq> None"
  then obtain t where "table_of 21 (pte_list m) gpa = Some t" using clear_pte_eq [OF assms(1), of gpa] by auto
  from walk_entries(1) [OF assms this]
  show "\<exists>d. table_of 30 (pde_list m) gpa = Some d \<and> bf_flag amd64_npt_general_entry ''present'' (virt d (gpa_index ''pde_offset'' gpa))"
    by (auto simp: general_present)
qed (use walk_entries(3) [OF assms] in \<open>simp_all add: bf_flag_bit layout\<close>)

lemma clear_pdpte_eq:
  assumes "wf_npt m" "low_half gpa"
  shows "clear_pdpte m gpa = clear_pte m gpa"
  unfolding clear_pdpte_def level_sizes clear_pde_eq [OF assms]
proof (rule first_at_pass [OF wf_npt_tables(1) [OF assms(1)]])
  assume "clear_pte m gpa \<noteq> None"
  then obtain t where "table_of 21 (pte_list m) gpa = Some t" using clear_pte_eq [OF assms(1), of gpa] by auto
  from walk_entries(1) [OF assms this]
  show "\<exists>d. table_of 39 (pdpte_list m) gpa = Some d \<and> bf_flag amd64_npt_general_entry ''present'' (virt d (gpa_index ''pdpte_offset'' gpa))"
    by (auto simp: general_present)
qed (use walk_entries(2) [OF assms] in \<open>simp_all add: bf_flag_bit layout\<close>)

lemma clear_bit_eq:
  assumes "wf_npt m" "low_half gpa"
  shows "nvc_svmc_clear_gpa_accessing_bit m gpa = (False, m) \<and> \<not> bit (npt_leaf m gpa) 0 \<or>
    (\<exists>j < length (pte_list m). table_of 21 (pte_list m) gpa = Some (pte_list m ! j) \<and> bit (npt_leaf m gpa) 0 \<and>
       nvc_svmc_clear_gpa_accessing_bit m gpa =
         (True, m\<lparr>pte_list := clear_at (pte_list m) j (gpa_index ''pte_offset'' gpa)\<rparr>))"
  using clear_pte_eq [OF assms(1), of gpa] walk_entries(1) [OF assms]
  by (auto simp: nvc_svmc_clear_gpa_accessing_bit_def clear_pdpte_eq [OF assms] general_present)

lemma clear_at_effect:
  assumes "wf_npt m" "j < length (pte_list m)" "table_of 21 (pte_list m) gpa = Some (pte_list m ! j)"
  defines "m' \<equiv> m\<lparr>pte_list := clear_at (pte_list m) j (ucast (drop_bit 12 gpa))\<rparr>"
  shows "wf_npt m'" "npt_leaf m' g = (if page_4kb_count g = page_4kb_count gpa then clear_ad (npt_leaf m g) else npt_leaf m g)"
proof -
  note wf = wf_npt_tables(3) [OF assms(1)]
  show "wf_npt m'"
    using assms(1) by (simp add: wf_npt_def upper2_def upper3_def npt_root_def npt_phys_def m'_def clear_at_def
        link_set_entry [OF wf assms(2)])
  have fine: "drop_bit 21 x = drop_bit 21 y \<Longrightarrow> ucast (drop_bit 12 x) = (ucast (drop_bit 12 y) :: 9 word) \<Longrightarrow> drop_bit 12 x = drop_bit 12 y"
    for x y :: u64 using drop_bit_split [of 12 x y] by simp
  show "npt_leaf m' g = (if page_4kb_count g = page_4kb_count gpa then clear_ad (npt_leaf m g) else npt_leaf m g)"
  proof (cases "drop_bit 12 g = drop_bit 12 gpa")
    case True
    then have "drop_bit 21 g = drop_bit 21 gpa" using drop_bit_coarser [OF True] by simp
    then have "table_of 21 (pte_list m) g = Some (pte_list m ! j)" using assms(3) table_of_cong by metis
    then show ?thesis
      using True by (simp add: npt_leaf_def m'_def clear_at_def table_of_set_entry [OF wf assms(2)] page_4kb_count_def)
  next
    case False
    have "ucast (drop_bit 12 g) \<noteq> (ucast (drop_bit 12 gpa) :: 9 word)"
      if "table_of 21 (pte_list m) g = Some d" "gpa_start d = gpa_start (pte_list m ! j)" for d
    proof
      assume eq: "ucast (drop_bit 12 g) = (ucast (drop_bit 12 gpa) :: 9 word)"
      have "drop_bit 21 g = drop_bit 21 gpa"
        using that assms(3) by (simp add: table_of_iff [OF wf])
      from fine [OF this eq] False show False by simp
    qed
    then show ?thesis
      using False by (cases "table_of 21 (pte_list m) g")
        (simp_all add: npt_leaf_def m'_def clear_at_def table_of_set_entry [OF wf assms(2)] page_4kb_count_def)
  qed
qed

definition in_pages :: "u64 \<Rightarrow> nat \<Rightarrow> nat \<Rightarrow> u64 \<Rightarrow> bool" where
  "in_pages gpa i n g \<longleftrightarrow> (\<exists>j \<in> set [i..<i + n]. page_4kb_count g = page_4kb_count (nth_page gpa j))"

lemma bit_clear_ad: "bit (clear_ad e) n \<longleftrightarrow> bit e n \<and> n \<noteq> 5 \<and> n \<noteq> 6"
  by (auto simp: clear_ad_def bf_put_def layout bit_simps)

lemma clear_bits_law:
  assumes "range_ok gpa n" "i + k \<le> n" "wf_npt m" "clear_bits_from m gpa i k = (st, m')"
  shows "wf_npt m' \<and> (st = noir_success \<longleftrightarrow> (\<forall>j \<in> set [i..<i + k]. bit (npt_leaf m (nth_page gpa j)) 0)) \<and>
    (st = noir_success \<longrightarrow> (\<forall>g. npt_leaf m' g = (if in_pages gpa i k g then clear_ad (npt_leaf m g) else npt_leaf m g)))"
  using assms(2-)
proof (induction k arbitrary: i m)
  case 0
  then show ?case by (simp add: in_pages_def)
next
  case (Suc k)
  have low: "low_half (nth_page gpa i)" using Suc.prems(1) by (intro nth_page_low [OF assms(1)]) simp
  have range: "[i..<i + Suc k] = i # [Suc i..<Suc i + k]" by (simp add: upt_rec [of i] del: upt_Suc)
  from clear_bit_eq [OF Suc.prems(2) low] show ?case
  proof (elim disjE exE conjE)
    assume c: "nvc_svmc_clear_gpa_accessing_bit m (nth_page gpa i) = (False, m)" "\<not> bit (npt_leaf m (nth_page gpa i)) 0"
    then have "st = noir_guest_page_absent" "m' = m" using Suc.prems(3) by auto
    then show ?thesis using Suc.prems(2) c(2) range
      by (auto simp: noir_guest_page_absent_def noir_success_def simp del: upt_Suc)
  next
    fix j assume j: "j < length (pte_list m)" "table_of 21 (pte_list m) (nth_page gpa i) = Some (pte_list m ! j)"
      "bit (npt_leaf m (nth_page gpa i)) 0"
      "nvc_svmc_clear_gpa_accessing_bit m (nth_page gpa i) =
         (True, m\<lparr>pte_list := clear_at (pte_list m) j (gpa_index ''pte_offset'' (nth_page gpa i))\<rparr>)"
    define m1 where "m1 = m\<lparr>pte_list := clear_at (pte_list m) j (ucast (drop_bit 12 (nth_page gpa i)))\<rparr>"
    note m1 = clear_at_effect [OF Suc.prems(2) j(1,2), folded m1_def]
    have "clear_bits_from m1 gpa (Suc i) k = (st, m')" using Suc.prems(3) j(4) by (simp add: m1_def)
    from Suc.IH [OF _ m1(1) this] Suc.prems(1)
    have IH: "wf_npt m'" "st = noir_success \<longleftrightarrow> (\<forall>j \<in> set [Suc i..<Suc i + k]. bit (npt_leaf m1 (nth_page gpa j)) 0)"
      "st = noir_success \<longrightarrow> (\<forall>g. npt_leaf m' g = (if in_pages gpa (Suc i) k g then clear_ad (npt_leaf m1 g) else npt_leaf m1 g))"
      by simp_all
    have keep: "bit (npt_leaf m1 g) 0 = bit (npt_leaf m g) 0" for g by (simp add: m1(2) bit_clear_ad)
    have idem: "clear_ad (clear_ad e) = clear_ad e" for e by (rule bit_word_eqI) (simp add: bit_clear_ad)
    have pages: "in_pages gpa i (Suc k) g \<longleftrightarrow> page_4kb_count g = page_4kb_count (nth_page gpa i) \<or> in_pages gpa (Suc i) k g" for g
      unfolding in_pages_def range by simp
    show ?thesis
      using IH j(3) m1(2) idem unfolding range pages keep by auto
  qed
qed

text \<open>\<open>nvc_svmc_clear_gpa_accessing_bits\<close> succeeds exactly when every page of the range is present;
  then the accessed and dirty bits of exactly these pages are clear, and every access reads as before.\<close>
theorem clear_accessing_bits_effect:
  assumes "wf_npt (vm_nptm vm)" "range_ok gpa (unat n)" "nvc_svmc_clear_gpa_accessing_bits vm gpa n = (st, vm')"
  shows "wf_npt (vm_nptm vm') \<and>
    (st = noir_success \<longleftrightarrow> (\<forall>i < unat n. bf_flag amd64_npt_pte ''present'' (npt_leaf (vm_nptm vm) (nth_page gpa i)))) \<and>
    (st = noir_success \<longrightarrow>
      (\<forall>g. npt_leaf (vm_nptm vm') g =
        (if \<exists>i < unat n. page_4kb_count g = page_4kb_count (nth_page gpa i) then clear_ad (npt_leaf (vm_nptm vm) g)
         else npt_leaf (vm_nptm vm) g)) \<and>
      (\<forall>g w x. low_half g \<longrightarrow>
        nvc_svmc_get_physical_mapping (vm_nptm vm') g True w x = nvc_svmc_get_physical_mapping (vm_nptm vm) g True w x))"
proof -
  obtain m' where c: "clear_bits_from (vm_nptm vm) gpa 0 (unat n) = (st, m')" "vm_nptm vm' = m'"
    using assms(3) by (auto simp: nvc_svmc_clear_gpa_accessing_bits_def split: prod.splits)
  have "0 + unat n \<le> unat n" by simp
  note law = clear_bits_law [OF assms(2) this assms(1) c(1)]
  have "leaf_mapping (clear_ad e) g True w x = leaf_mapping e g True w x" for e g w x
  proof -
    have "bf_get amd64_npt_pte ''page_base'' (clear_ad e) = bf_get amd64_npt_pte ''page_base'' e"
      by (rule bit_word_eqI) (auto simp: bf_get_def layout bit_simps bit_clear_ad)
    then show ?thesis by (simp add: leaf_mapping_def perm_ok_def bf_flag_bit layout bit_clear_ad)
  qed
  then show ?thesis
    using law get_mapping_present [of m'] get_mapping_present [OF assms(1)]
    unfolding c(2) in_pages_def by (auto simp: bf_flag_bit layout)
qed

lemma find_holds:
  assumes "wf_tables k ds" "k \<le> 39" "table_of k ds gpa = Some d" "bf_flag amd64_npt_general_entry ''present'' (virt d (gpa_index f gpa))"
  shows "List.find (holds (2 ^ k) f gpa) ds = Some d"
proof -
  have d: "d \<in> set ds" using table_of_iff [OF assms(1)] assms(3) by blast
  have eq: "holds (2 ^ k) f gpa x \<longleftrightarrow> x = d" if "x \<in> set ds" for x
    using holds_iff [OF assms(1,2) that, of f gpa] assms(3,4) by auto
  have "distinct ds" using assms(1) by (auto simp: wf_tables_def distinct_map)
  then have "List.find (\<lambda>x. x = d) ds = Some d" using d find_Some_iff_distinct [of id ds d d] by simp
  moreover have "List.find (holds (2 ^ k) f gpa) ds = List.find (\<lambda>x. x = d) ds" using eq by (intro find_cong) simp_all
  ultimately show ?thesis by simp
qed

text \<open>Reading the accessed and dirty bits of a present page returns them only when the page lies in
  the GiB that the manager described first; for a page of any other GiB \<open>nvc_svmc_query_gpa_accessing_bit\<close>
  does not return, since the step to the next page directory is outside the loop.\<close>
theorem query_accessed_first_gib:
  assumes "wf_npt m" "low_half gpa" "bf_flag amd64_npt_pte ''present'' (npt_leaf m gpa)"
  shows "nvc_svmc_query_gpa_accessing_bit m gpa =
    (if table_of 30 (pde_list m) gpa = Some (hd (pde_list m)) then Some (ad_bits (npt_leaf m gpa)) else None)"
proof -
  have leaf: "bit (npt_leaf m gpa) 0" using assms(3) by (simp add: bf_flag_bit layout)
  then obtain t where t: "table_of 21 (pte_list m) gpa = Some t" "npt_leaf m gpa = virt t (ucast (drop_bit 12 gpa))"
    by (cases "table_of 21 (pte_list m) gpa") (simp_all add: npt_leaf_def page_4kb_count_def)
  obtain d c where w: "table_of 39 (pdpte_list m) gpa = Some d" "table_of 30 (pde_list m) gpa = Some c"
      "bit (ncr3_virt m (ucast (drop_bit 39 gpa))) 0" "bit (virt d (ucast (drop_bit 30 gpa))) 0"
      "bit (virt c (ucast (drop_bit 21 gpa))) 0"
    using walk_entries(1) [OF assms(1,2) t(1)] by blast
  note wf = wf_npt_tables [OF assms(1)]
  have upper: "List.find (holds page_512gb_size ''pdpte_offset'' gpa) (pdpte_list m) = Some d"
    unfolding level_sizes using w(1,4) by (intro find_holds [OF wf(1)]) (simp_all add: general_present)
  have lower: "List.find (holds page_2mb_size ''pte_offset'' gpa) (pte_list m) = Some t"
    unfolding level_sizes using t leaf by (intro find_holds [OF wf(3)]) (simp_all add: general_present)
  have huge: "\<not> bf_flag amd64_npt_huge_pdpte ''huge_pdpte'' (virt d (gpa_index ''pdpte_offset'' gpa))"
    using walk_entries(2) [OF assms(1,2) w(1)] by (simp add: bf_flag_bit layout)
  have large: "\<not> bf_flag amd64_npt_large_pde ''large_pde'' (virt c (gpa_index ''pde_offset'' gpa))"
    using walk_entries(3) [OF assms(1,2) w(2)] by (simp add: bf_flag_bit layout)
  obtain c0 cs where cs: "pde_list m = c0 # cs"
    using w(2) by (cases "pde_list m") simp_all
  have "holds page_1gb_size ''pde_offset'' gpa c0 \<longleftrightarrow> c = c0"
    using holds_iff [OF wf(2) _, of c0 "''pde_offset''" gpa] w(2,5) cs by (auto simp: level_sizes general_present)
  then have "query_pde m gpa = (if c = c0 then Some (ad_bits (npt_leaf m gpa)) else None)"
    using large lower t(2) by (cases "c = c0") (simp_all add: query_pde_def cs first_some_find Let_def)
  then show ?thesis
    using upper huge w(2,3) cs by (simp add: nvc_svmc_query_gpa_accessing_bit_def general_present)
qed

section \<open>Samples of the accessed bits\<close>

text \<open>One page in each of two GiB.\<close>

definition six_allocs :: allocs where
  "six_allocs = \<lparr>pool = replicate 6 True, pages = map Some [0x5000, 0x6000, 0x7000, 0x8000, 0x9000, 0xa000]\<rparr>"

definition one_gib :: "noir_status \<times> svm_npt_manager \<times> allocs" where
  "one_gib = nvc_svmc_set_page_map wb_pat (empty_manager 0x4000) 0x12345000 0xabc000 7 six_allocs"

definition two_gib :: "noir_status \<times> svm_npt_manager \<times> allocs" where
  "two_gib = (case one_gib of (st, m, al) \<Rightarrow> nvc_svmc_set_page_map wb_pat m 0x7fff5000 0xdef000 7 al)"

lemma two_gib_runs: "fst one_gib = noir_success" "fst two_gib = noir_success"
  by code_simp+

lemma two_gib_first: "map gpa_start (pde_list (fst (snd two_gib))) = [0, 0x40000000]"
  by code_simp

lemma two_gib_ready:
  "wf_npt (fst (snd two_gib)) \<and> bf_flag amd64_npt_pte ''present'' (npt_leaf (fst (snd two_gib)) 0x12345000) \<and>
   bf_flag amd64_npt_pte ''present'' (npt_leaf (fst (snd two_gib)) 0x7fff5000)"
proof -
  have f: "fresh (empty_manager 0x4000) six_allocs"
    by (simp add: fresh_def six_allocs_def granted_pages_def empty_manager_def npt_phys_def
        List.map_filter_simps page_frame_def page_4kb_mult_def page_4kb_count_def)
  have low: "low_half 0x12345000" "low_half 0x7fff5000" by (simp_all add: low_half_def)
  obtain m1 al1 where 1: "one_gib = (noir_success, m1, al1)" using two_gib_runs(1) by (metis prod.collapse)
  note step = set_page_map_step [OF example_ready(1) low(1) f example_ready(4) 1 [unfolded one_gib_def]]
  then have m1: "wf_npt m1" "fresh m1 al1" by blast+
  obtain m2 al2 where 2: "two_gib = (noir_success, m2, al2)" using two_gib_runs(2) by (metis prod.collapse)
  then have "nvc_svmc_set_page_map wb_pat m1 0x7fff5000 0xdef000 7 al1 = (noir_success, m2, al2)"
    by (simp add: two_gib_def 1)
  from set_page_map_step [OF m1(1) low(2) m1(2) example_ready(4) this] step
  show ?thesis by (simp add: 2 page_4kb_count_def set_pte_entry_get(1) bf_flag_bit layout)
qed

lemma two_gib_directory:
  "table_of 30 (pde_list (fst (snd two_gib))) gpa = Some (hd (pde_list (fst (snd two_gib)))) \<longleftrightarrow> drop_bit 30 gpa = 0"
proof -
  obtain a b where ab: "pde_list (fst (snd two_gib)) = [a, b]" "gpa_start a = 0" "gpa_start b = 0x40000000"
    using two_gib_first by (auto simp: map_eq_Cons_conv)
  then have "a \<noteq> b" by auto
  with ab show ?thesis by (auto simp: table_of_def)
qed

theorem query_accessed_first_gib_witness:
  "nvc_svmc_query_gpa_accessing_bit (fst (snd two_gib)) 0x12345000 = Some (ad_bits (npt_leaf (fst (snd two_gib)) 0x12345000)) \<and>
   nvc_svmc_query_gpa_accessing_bit (fst (snd two_gib)) 0x7fff5000 = None"
proof -
  have low: "low_half 0x12345000" "low_half 0x7fff5000" by (simp_all add: low_half_def)
  show ?thesis
    using two_gib_ready query_accessed_first_gib [OF _ low(1)] query_accessed_first_gib [OF _ low(2)]
    by (simp add: two_gib_directory)
qed

theorem clear_accessing_bits_effect_witness:
  "case nvc_svmc_clear_gpa_accessing_bits (sample_vm\<lparr>vm_nptm := fst (snd two_gib)\<rparr>) 0x7fff5000 1 of
     (st, vm') \<Rightarrow> st = noir_success \<and> \<not> bit (npt_leaf (vm_nptm vm') 0x7fff5000) 5 \<and>
       nvc_svmc_get_physical_mapping (vm_nptm vm') 0x12345678 True True True =
         nvc_svmc_get_physical_mapping (fst (snd two_gib)) 0x12345678 True True True"
proof -
  define vm where "vm = sample_vm\<lparr>vm_nptm := fst (snd two_gib)\<rparr>"
  obtain st vm' where r: "nvc_svmc_clear_gpa_accessing_bits vm 0x7fff5000 1 = (st, vm')" by (metis prod.exhaust)
  have wf: "wf_npt (vm_nptm vm)" and p: "bf_flag amd64_npt_pte ''present'' (npt_leaf (vm_nptm vm) 0x7fff5000)"
    using two_gib_ready by (simp_all add: vm_def)
  have range: "range_ok 0x7fff5000 (unat (1 :: u32))" by (simp add: range_ok_def)
  have nth: "nth_page 0x7fff5000 0 = 0x7fff5000" by (simp add: nth_page_def)
  have low: "low_half 0x12345678" by (simp add: low_half_def)
  note effect = clear_accessing_bits_effect [OF wf range r]
  then have "st = noir_success" using p nth by simp
  with effect have "\<not> bit (npt_leaf (vm_nptm vm') 0x7fff5000) 5"
    "nvc_svmc_get_physical_mapping (vm_nptm vm') 0x12345678 True True True =
       nvc_svmc_get_physical_mapping (vm_nptm vm) 0x12345678 True True True"
    using low by (simp_all add: nth bit_clear_ad)
  with \<open>st = noir_success\<close> r show ?thesis unfolding vm_def by simp
qed

end
