(* ===== verification/Cv_State.thy ===== *)
theory Cv_State
  imports Svm_World Paging_Units
begin

text \<open>
  The state of an exit from a customizable virtual processor (\<open>svm_core/svm_cvexit.c\<close>,
  \<open>svm_core/svm_exit.c\<close>, \<open>svm_core/svm_exit.h\<close>): the world of the switch, the exit context that the
  user hypervisor reads, the synthetic registers of secure guests, the CPUID quick path and the
  profiler.
\<close>

section \<open>State\<close>

text \<open>The counters of \<open>noir_cvm_vcpu_statistics\<close>.\<close>

datatype exit_class = St_scheduler | St_io | St_cpuid | St_halt | St_msr | St_cr | St_dr | St_npf
  | St_apic | St_hypercall | St_exception | St_emulation | St_rsm

record noir_cvm_cpuid_quickpath_info =
  qp_leaf :: u32
  qp_subleaf :: u32
  qp_options :: u64
  qp_eax :: u32
  qp_ebx :: u32
  qp_ecx :: u32
  qp_edx :: u32

text \<open>The synthetic registers of the protected page; the selector registers are their values.\<close>

record noir_nsv_internal_msr_state =
  vc_handler_cs :: u64
  vc_handler_rsp :: u64
  vc_handler_rip :: u64
  vc_return_cs :: u64
  vc_return_rsp :: u64
  vc_return_rip :: u64
  vc_return_rflags :: u64
  vc_next_rip :: u64
  vc_error_code :: u64
  vc_info1 :: u64
  vc_info2 :: u64

text \<open>
  \<open>x_union\<close> is the union of the exit context as memory, since its members overlap; the code of
  the exit is \<open>exit_intercept_code\<close> of the header. \<open>x_host_vmcb\<close> is the control block of the host.
\<close>

record exit_world =
  xw :: world
  x_union :: bytes
  x_cs :: segment_register
  x_rip :: u64
  x_rflags :: u64
  x_next_rip :: u64
  x_vcpu_state :: u64
  x_selector :: exit_class
  x_counter :: "exit_class \<Rightarrow> u64 \<times> u64"
  x_runtime :: u64
  x_runtime_start :: u64
  x_quickpath :: "noir_cvm_cpuid_quickpath_info list"
  x_vm_quickpath :: "noir_cvm_cpuid_quickpath_info list"
  x_mce :: bool
  x_rescission :: bool
  x_claim_start :: u64
  x_claim_end :: u64
  x_nsvs :: noir_nsv_internal_msr_state
  x_nsv_xstate :: bytes
  x_host_vmcb :: bytes

text \<open>
  What an exit reads of the rest: whether AVIC and the caching of control blocks are in use, the idle
  processor, the time-stamp counter, the clock at the two ends of the handler, the CPUID signature,
  the size of the extended state. \<open>e_scribble\<close> is what the MSR handler does to the structure of
  the virtual processor itself when it advances the instruction pointer of the wrong pointer.
\<close>

record exit_env =
  e_avic :: bool
  e_idle :: u64
  e_caching :: bool
  e_tsc :: u64
  e_now :: u64
  e_end :: u64
  e_fms :: u32
  e_xsize :: nat
  e_scribble :: "noir_svm_custom_vcpu \<Rightarrow> noir_svm_custom_vcpu"

definition on_cv :: "(noir_svm_custom_vcpu \<Rightarrow> noir_svm_custom_vcpu) \<Rightarrow> exit_world \<Rightarrow> exit_world" where
  "on_cv f s = s\<lparr>xw := (xw s)\<lparr>cvcpu := f (cvcpu (xw s))\<rparr>\<rparr>"

definition on_header :: "(noir_cvm_virtual_cpu \<Rightarrow> noir_cvm_virtual_cpu) \<Rightarrow> exit_world \<Rightarrow> exit_world" where
  "on_header f = on_cv (\<lambda>cv. cv\<lparr>header := f (header cv)\<rparr>)"

definition on_vmcb :: "(bytes \<Rightarrow> bytes) \<Rightarrow> exit_world \<Rightarrow> exit_world" where
  "on_vmcb f = on_cv (\<lambda>cv. cv\<lparr>vmcb := f (vmcb cv)\<rparr>)"

definition on_frame :: "((nat \<Rightarrow> u64) \<Rightarrow> nat \<Rightarrow> u64) \<Rightarrow> exit_world \<Rightarrow> exit_world" where
  "on_frame f s = s\<lparr>xw := (xw s)\<lparr>frame := f (frame (xw s))\<rparr>\<rparr>"

abbreviation xvmcb :: "exit_world \<Rightarrow> bytes" where "xvmcb s \<equiv> vmcb (cvcpu (xw s))"
abbreviation xheader :: "exit_world \<Rightarrow> noir_cvm_virtual_cpu" where "xheader s \<equiv> header (cvcpu (xw s))"
abbreviation xframe :: "exit_world \<Rightarrow> nat \<Rightarrow> u64" where "xframe s \<equiv> frame (xw s)"

definition set_intercept :: "u32 \<Rightarrow> exit_world \<Rightarrow> exit_world" where
  "set_intercept c = on_header (\<lambda>h. h\<lparr>exit_intercept_code := c\<rparr>)"

definition select :: "exit_class \<Rightarrow> exit_world \<Rightarrow> exit_world" where
  "select c s = s\<lparr>x_selector := c\<rparr>"

text \<open>\<open>nvc_svm_switch_to_host_vcpu\<close> on the state of an exit.\<close>

definition leave_guest :: "exit_env \<Rightarrow> exit_world \<Rightarrow> exit_world" where
  "leave_guest e s = s\<lparr>xw := nvc_svm_switch_to_host_vcpu (e_avic e) (e_idle e) (xw s)\<rparr>"

text \<open>Bit fields of the union, and the low half of a 64-bit register.\<close>

definition put16 :: "nat \<Rightarrow> bf_layout \<Rightarrow> string \<Rightarrow> u16 \<Rightarrow> bytes \<Rightarrow> bytes" where
  "put16 p L f v b = vmwrite16 b p (bf_put L f v (vmread16 b p))"

definition put32 :: "nat \<Rightarrow> bf_layout \<Rightarrow> string \<Rightarrow> u32 \<Rightarrow> bytes \<Rightarrow> bytes" where
  "put32 p L f v b = vmwrite32 b p (bf_put L f v (vmread32 b p))"

definition put8 :: "nat \<Rightarrow> bf_layout \<Rightarrow> string \<Rightarrow> u8 \<Rightarrow> bytes \<Rightarrow> bytes" where
  "put8 p L f v b = vmwrite8 b p (bf_put L f v (vmread8 b p))"

definition set_low32 :: "u64 \<Rightarrow> u32 \<Rightarrow> u64" where
  "set_low32 r v = slice_put 0 32 (ucast v) r"

section \<open>Constants\<close>

definition cv_invalid_state :: u32 where "cv_invalid_state = 0"
definition cv_shutdown_condition :: u32 where "cv_shutdown_condition = 1"
definition cv_memory_access :: u32 where "cv_memory_access = 2"
definition cv_hlt_instruction :: u32 where "cv_hlt_instruction = 4"
definition cv_io_instruction :: u32 where "cv_io_instruction = 5"
definition cv_cpuid_instruction :: u32 where "cv_cpuid_instruction = 6"
definition cv_rdmsr_instruction :: u32 where "cv_rdmsr_instruction = 7"
definition cv_wrmsr_instruction :: u32 where "cv_wrmsr_instruction = 8"
definition cv_cr_access :: u32 where "cv_cr_access = 9"
definition cv_dr_access :: u32 where "cv_dr_access = 10"
definition cv_hypercall :: u32 where "cv_hypercall = 11"
definition cv_exception :: u32 where "cv_exception = 12"
definition cv_rescission :: u32 where "cv_rescission = 13"
definition cv_interrupt_window :: u32 where "cv_interrupt_window = 14"
definition cv_scheduler_exit :: u32 where "cv_scheduler_exit = 0x80000000"
definition cv_scheduler_bug :: u32 where "cv_scheduler_bug = 0x80000002"
definition cv_scheduler_npt_misconfig :: u32 where "cv_scheduler_npt_misconfig = 0x80000003"
definition cv_scheduler_nsv_activate :: u32 where "cv_scheduler_nsv_activate = 0x80000004"
definition cv_scheduler_nsv_claim_security :: u32 where "cv_scheduler_nsv_claim_security = 0x80000005"

lemmas cv_codes = cv_invalid_state_def cv_shutdown_condition_def cv_memory_access_def cv_hlt_instruction_def
  cv_io_instruction_def cv_cpuid_instruction_def cv_rdmsr_instruction_def cv_wrmsr_instruction_def
  cv_cr_access_def cv_dr_access_def cv_hypercall_def cv_exception_def cv_rescission_def
  cv_interrupt_window_def cv_scheduler_exit_def cv_scheduler_bug_def cv_scheduler_npt_misconfig_def
  cv_scheduler_nsv_activate_def cv_scheduler_nsv_claim_security_def

definition amd64_debug_exception :: nat where "amd64_debug_exception = 1"
definition amd64_invalid_opcode :: nat where "amd64_invalid_opcode = 6"
definition amd64_segment_not_present :: nat where "amd64_segment_not_present = 11"
definition amd64_stack_segment_fault :: nat where "amd64_stack_segment_fault = 12"
definition amd64_general_protection :: nat where "amd64_general_protection = 13"
definition amd64_page_fault :: nat where "amd64_page_fault = 14"
definition amd64_alignment_check :: nat where "amd64_alignment_check = 17"
definition amd64_machine_check :: nat where "amd64_machine_check = 18"
definition amd64_control_protection :: nat where "amd64_control_protection = 21"
definition amd64_security_exception :: nat where "amd64_security_exception = 30"
definition amd64_external_virtual_interrupt :: nat where "amd64_external_virtual_interrupt = 0"
definition amd64_fault_trap_exception :: nat where "amd64_fault_trap_exception = 3"
definition amd64_sx_init_redirection :: u32 where "amd64_sx_init_redirection = 1"
definition amd64_cr0_pe :: nat where "amd64_cr0_pe = 0"
definition amd64_cr0_nw :: nat where "amd64_cr0_nw = 29"
definition amd64_cr0_cd :: nat where "amd64_cr0_cd = 30"
definition amd64_cr0_pg :: nat where "amd64_cr0_pg = 31"
definition amd64_cr4_pae :: nat where "amd64_cr4_pae = 5"
definition amd64_cr4_mce :: nat where "amd64_cr4_mce = 6"
definition amd64_cr4_mce_bit :: u64 where "amd64_cr4_mce_bit = 0x40"
definition amd64_rflags_tf :: nat where "amd64_rflags_tf = 8"
definition amd64_rflags_if :: nat where "amd64_rflags_if = 9"
definition nvc_svm_avic_control_virq :: nat where "nvc_svm_avic_control_virq = 8"
definition nvc_svm_avic_control_ignore_vtpr :: nat where "nvc_svm_avic_control_ignore_vtpr = 20"
definition noir_svm_clean_avic :: nat where "noir_svm_clean_avic = 11"
definition nvc_svm_tlb_control_do_nothing :: u32 where "nvc_svm_tlb_control_do_nothing = 0"

lemmas cv_constants = amd64_debug_exception_def amd64_invalid_opcode_def amd64_segment_not_present_def
  amd64_stack_segment_fault_def amd64_general_protection_def amd64_page_fault_def amd64_alignment_check_def
  amd64_machine_check_def amd64_control_protection_def amd64_security_exception_def
  amd64_external_virtual_interrupt_def amd64_fault_trap_exception_def amd64_sx_init_redirection_def
  amd64_cr0_pe_def amd64_cr0_nw_def amd64_cr0_cd_def amd64_cr0_pg_def amd64_cr4_pae_def amd64_cr4_mce_def
  amd64_cr4_mce_bit_def amd64_rflags_tf_def amd64_rflags_if_def nvc_svm_avic_control_virq_def
  nvc_svm_avic_control_ignore_vtpr_def noir_svm_clean_avic_def nvc_svm_tlb_control_do_nothing_def

definition nvc_svm_cr_access_exit_info :: bf_layout where
  "nvc_svm_cr_access_exit_info = [(''gpr'', 4), (''reserved'', 59), (''mov'', 1)]"

definition nvc_svm_dr_access_exit_info :: bf_layout where
  "nvc_svm_dr_access_exit_info = [(''gpr'', 4), (''reserved'', 60)]"

definition nvc_svm_io_exit_info :: bf_layout where
  "nvc_svm_io_exit_info =
    [(''type'', 1), (''reserved0'', 1), (''string'', 1), (''repeat'', 1), (''op_size'', 3),
     (''addr_size'', 3), (''segment'', 3), (''reserved1'', 3), (''port'', 16)]"

definition svm_segment_access_rights :: bf_layout where
  "svm_segment_access_rights =
    [(''segment_type'', 4), (''descriptor_type'', 1), (''dpl'', 2), (''present'', 1), (''available'', 1),
     (''long_mode'', 1), (''default_size'', 1), (''granularity'', 1), (''reserved'', 4)]"

definition amd64_event_injection :: bf_layout where
  "amd64_event_injection =
    [(''vector'', 8), (''type'', 3), (''error_valid'', 1), (''reserved'', 19), (''valid'', 1),
     (''error_code'', 32)]"

section \<open>Events and the instruction pointer\<close>

definition noir_svm_inject_event :: "bytes \<Rightarrow> nat \<Rightarrow> nat \<Rightarrow> bool \<Rightarrow> bool \<Rightarrow> u32 \<Rightarrow> bytes" where
  "noir_svm_inject_event b vector type ev v ec =
     (let put = bf_put amd64_event_injection;
          e = put ''error_code'' (ucast ec) (put ''valid'' (of_flag v) (put ''reserved'' 0
                (put ''error_valid'' (of_flag ev) (put ''type'' (of_nat type) (put ''vector'' (of_nat vector) 0)))))
      in vmwrite64 b event_injection e)"

definition noir_svm_advance_rip :: "bytes \<Rightarrow> bytes" where
  "noir_svm_advance_rip b =
     (let nrip = vmread64 b next_rip;
          b1 = (if vmcb_bt32 b guest_rflags amd64_rflags_tf
                then noir_svm_inject_event b amd64_debug_exception amd64_fault_trap_exception False True 0 else b)
      in if nrip \<noteq> 0 then vmwrite64 b1 guest_rip nrip else b1)"

section \<open>Basic exit context\<close>

definition nvc_svm_load_basic_exit_context :: "exit_world \<Rightarrow> exit_world" where
  "nvc_svm_load_basic_exit_context s =
     (let b = xvmcb s; put = bf_put noir_cvm_exit_vcpu_state;
          v1 = put ''instruction_length'' ((vmread64 b next_rip - vmread64 b guest_rip) AND 0xf) (x_vcpu_state s);
          v2 = put ''cpl'' (ucast (vmread8 b guest_cpl AND 3)) v1;
          v3 = put ''int_shadow'' (of_flag (vmcb_bt32 b guest_interrupt 0)) v2;
          v4 = put ''int_pending'' (of_flag (vmcb_bt32 b avic_control nvc_svm_avic_control_virq)) v3;
          v5 = put ''pe'' (of_flag (vmcb_bt32 b guest_cr0 amd64_cr0_pe)) v4;
          v6 = put ''pg'' (of_flag (vmcb_bt32 b guest_cr0 amd64_cr0_pg)) v5;
          v7 = put ''pae'' (of_flag (vmcb_bt32 b guest_cr4 amd64_cr4_pae)) v6;
          v8 = put ''lm'' (of_flag (vmcb_bt32 b guest_efer (unat amd64_efer_lma))) v7
      in s\<lparr>x_cs := \<lparr>selector = vmread16 b guest_cs_selector, attrib = svm_attrib_inverse (vmread16 b guest_cs_attrib),
                     limit = vmread32 b guest_cs_limit, base_addr = vmread64 b guest_cs_base\<rparr>,
           x_rflags := vmread64 b guest_rflags, x_rip := vmread64 b guest_rip, x_next_rip := vmread64 b next_rip,
           x_vcpu_state := put ''loaded'' 1 v8\<rparr>)"

end
