(* ===== verification/Cv_Exit.thy ===== *)
theory Cv_Exit
  imports Cv_State
begin

text \<open>
  The exit handlers of customizable virtual processors (\<open>svm_core/svm_cvexit.c\<close>) and the handlers of
  the synthetic registers of secure guests (\<open>svm_core/svm_cvnsv.c\<close>), as functions on the state of an
  exit. The profiler and the exit context are part of the state; log messages are left out.
\<close>

section \<open>Exceptions\<close>

text \<open>\<open>fetched\<close> is the memory behind \<open>fetched_instruction\<close>; it is read for page faults only.\<close>

definition nvc_svm_inject_cvm_exception ::
  "exit_env \<Rightarrow> nat \<Rightarrow> bool \<Rightarrow> u32 \<Rightarrow> u64 \<Rightarrow> u8 \<Rightarrow> bytes \<Rightarrow> exit_world \<Rightarrow> exit_world" where
  "nvc_svm_inject_cvm_exception e vector ev ec pf_addr fetch_length fetched s =
     (if \<not> noir_bt (exception_bitmap (xheader s)) vector then
        (let s1 = on_vmcb (\<lambda>b. noir_svm_inject_event b vector amd64_fault_trap_exception ev True ec) s;
             s2 = (if vector = amd64_page_fault
                   then on_vmcb (\<lambda>b. clean noir_svm_clean_cr2 (vmwrite64 b guest_cr2 pf_addr)) s1 else s1)
         in select St_emulation s2)
      else
        (let s1 = set_intercept cv_exception (leave_guest e s);
             put = put32 0 noir_cvm_exception_flags;
             u1 = vmwrite32 (put ''reserved'' 0 (put ''ev_valid'' (of_flag ev) (put ''vector'' (of_nat vector) (x_union s1)))) 4 ec;
             n = (if fetch_length < 15 then fetch_length else 15);
             u2 = (if vector = amd64_page_fault
                   then copy_bytes (vmwrite8 (vmwrite64 u1 8 pf_addr) 16 n) 17 fetched 0 (unat n) else u1)
         in select St_exception (s1\<lparr>x_union := u2\<rparr>)))"

definition inject_ud :: "exit_env \<Rightarrow> exit_world \<Rightarrow> exit_world" where
  "inject_ud e = nvc_svm_inject_cvm_exception e amd64_invalid_opcode False 0 0 0 (\<lambda>_. 0)"

definition nvc_svm_exception_cvexit_handler :: "exit_env \<Rightarrow> exit_world \<Rightarrow> exit_world" where
  "nvc_svm_exception_cvexit_handler e s =
     (let vector = unat (vmread32 (xvmcb s) exit_code AND 0x1f);
          s1 = set_intercept cv_exception (leave_guest e s);
          b = xvmcb s1;
          put = put32 0 noir_cvm_exception_flags;
          u1 = put ''vector'' (of_nat vector) (x_union s1);
          u2 = (if vector = amd64_page_fault
                then copy_bytes (vmwrite8 (vmwrite64 u1 8 (vmread64 b exit_info2)) 16 (vmread8 b number_of_bytes_fetched))
                       17 b guest_instruction_bytes 15
                else u1);
          u3 = (if vector \<in> {amd64_page_fault, amd64_segment_not_present, amd64_stack_segment_fault,
                             amd64_general_protection, amd64_alignment_check, amd64_control_protection}
                then vmwrite32 (put ''ev_valid'' 1 u2) 4 (vmread32 b exit_info1)
                else vmwrite32 (put ''ev_valid'' 0 u2) 4 0)
      in select St_exception (s1\<lparr>x_union := u3\<rparr>))"

section \<open>Scheduler exits\<close>

definition nvc_svm_default_cvexit_handler :: "exit_env \<Rightarrow> exit_world \<Rightarrow> exit_world" where
  "nvc_svm_default_cvexit_handler e s = set_intercept cv_scheduler_bug (leave_guest e s)"

definition nvc_svm_mc_cvexit_handler :: "exit_env \<Rightarrow> exit_world \<Rightarrow> exit_world" where
  "nvc_svm_mc_cvexit_handler e s = set_intercept cv_scheduler_exit (leave_guest e s)"

definition nvc_svm_extint_cvexit_handler :: "exit_env \<Rightarrow> exit_world \<Rightarrow> exit_world" where
  "nvc_svm_extint_cvexit_handler e s = set_intercept cv_scheduler_exit (leave_guest e s)"

definition nvc_svm_nmi_cvexit_handler :: "exit_env \<Rightarrow> exit_world \<Rightarrow> exit_world" where
  "nvc_svm_nmi_cvexit_handler e s = set_intercept cv_scheduler_exit (leave_guest e s)"

definition nvc_svm_smi_cvexit_handler :: "exit_env \<Rightarrow> exit_world \<Rightarrow> exit_world" where
  "nvc_svm_smi_cvexit_handler e s = set_intercept cv_scheduler_exit (leave_guest e s)"

definition nvc_svm_shutdown_cvexit_handler :: "exit_env \<Rightarrow> exit_world \<Rightarrow> exit_world" where
  "nvc_svm_shutdown_cvexit_handler e s =
     select St_emulation (set_intercept cv_shutdown_condition (leave_guest e s))"

text \<open>The registers of the host after an INIT signal. The general registers are in the frame.\<close>

definition init_segment :: "nat \<Rightarrow> u16 \<Rightarrow> u16 \<Rightarrow> u64 \<Rightarrow> bytes \<Rightarrow> bytes" where
  "init_segment p sel att base b =
     vmwrite64 (vmwrite32 (vmwrite16 (vmwrite16 b p sel) (p + 2) att) (p + 4) 0xFFFF) (p + 8) base"

definition init_table :: "nat \<Rightarrow> bytes \<Rightarrow> bytes" where
  "init_table p b = vmwrite64 (vmwrite32 b (p + 4) 0xFFFF) (p + 8) 0"

definition init_signal_vmcb :: "bytes \<Rightarrow> bytes" where
  "init_signal_vmcb b0 =
     (let b1 = vmwrite64 b0 guest_cr0 (vmread64 b0 guest_cr0 AND 0x60000000 OR 0x10);
          b2 = vmwrite64 (vmwrite64 (vmwrite64 b1 guest_cr2 0) guest_cr3 0) guest_cr4 0;
          b3 = vmwrite64 (vmwrite64 (vmwrite64 b2 guest_efer amd64_efer_svme_bit) guest_dr6 0xFFFF0FF0) guest_dr7 0x400;
          b4 = init_segment guest_cs_selector 0xF000 0x9B 0xFFFF0000 b3;
          b5 = init_segment guest_ds_selector 0 0x93 0 b4;
          b6 = init_segment guest_es_selector 0 0x93 0 b5;
          b7 = init_segment guest_fs_selector 0 0x93 0 b6;
          b8 = init_segment guest_gs_selector 0 0x93 0 b7;
          b9 = init_segment guest_ss_selector 0 0x93 0 b8;
          b10 = init_table guest_idtr_selector (init_table guest_gdtr_selector b9);
          b11 = init_segment guest_ldtr_selector 0 0x82 0 b10;
          b12 = init_segment guest_tr_selector 0 0x8b 0 b11;
          b13 = vmwrite64 (vmwrite64 (vmwrite16 (vmwrite16 b12 guest_gdtr_limit 0xFFFF) guest_idtr_limit 0xFFFF)
                  guest_gdtr_base 0) guest_idtr_base 0;
          b14 = vmwrite64 (vmwrite64 (vmwrite64 b13 guest_rsp 0) guest_rip 0xfff0) guest_rflags 2;
          b15 = flush_guest b14;
          b16 = clean noir_svm_clean_idt_gdt (clean noir_svm_clean_debug_reg (clean noir_svm_clean_control_reg b15))
      in clean noir_svm_clean_cr2 (clean noir_svm_clean_segment_reg b16))"

definition init_signal_frame :: "u32 \<Rightarrow> (nat \<Rightarrow> u64) \<Rightarrow> nat \<Rightarrow> u64" where
  "init_signal_frame fms f i = (if i = 2 then ucast fms else if i < 16 then 0 else f i)"

definition init_signal_dr :: "(nat \<Rightarrow> u64) \<Rightarrow> nat \<Rightarrow> u64" where
  "init_signal_dr d i = (if i < 4 then 0 else d i)"

definition nvc_svm_emulate_init_signal :: "exit_env \<Rightarrow> exit_world \<Rightarrow> exit_world" where
  "nvc_svm_emulate_init_signal e s =
     (let w = xw s
      in s\<lparr>x_host_vmcb := init_signal_vmcb (x_host_vmcb s),
           xw := w\<lparr>frame := init_signal_frame (e_fms e) (frame w),
                   cpu := (cpu w)\<lparr>pr_dr := init_signal_dr (pr_dr (cpu w))\<rparr>\<rparr>\<rparr>)"

definition nvc_svm_sx_cvexit_handler :: "exit_env \<Rightarrow> exit_world \<Rightarrow> exit_world" where
  "nvc_svm_sx_cvexit_handler e s =
     (let ec = vmread32 (xvmcb s) exit_info1 in
      if ec = amd64_sx_init_redirection
      then nvc_svm_emulate_init_signal e (set_intercept cv_scheduler_exit (leave_guest e s))
      else
        (let s1 = set_intercept cv_exception (leave_guest e s);
             put = put32 0 noir_cvm_exception_flags
         in s1\<lparr>x_union := vmwrite32 (put ''ev_valid'' 1 (put ''vector'' (of_nat amd64_security_exception) (x_union s1))) 4 ec\<rparr>))"

section \<open>Invalid states\<close>

datatype svm_failure = Unknown_failure | Cr0_cd0_nw1 | Cr0_high | Cr3_mbz | Cr4_mbz | Dr6_high | Dr7_high | Efer_mbz
  | Efer_lme1_cr0_pg1_cr4_pae0 | Efer_lme1_cr0_pg1_pe0 | Efer_lme1_cr0_pg1_cr4_pae1_cs_l1_d1
  | Illegal_event_injection | Incanonical_segment_base

fun failure_code :: "svm_failure \<Rightarrow> u32" where
  "failure_code Unknown_failure = 0" | "failure_code Cr0_cd0_nw1 = 1" | "failure_code Cr0_high = 2"
| "failure_code Cr3_mbz = 3" | "failure_code Cr4_mbz = 4" | "failure_code Dr6_high = 5" | "failure_code Dr7_high = 6"
| "failure_code Efer_mbz = 7" | "failure_code Efer_lme1_cr0_pg1_cr4_pae0 = 8" | "failure_code Efer_lme1_cr0_pg1_pe0 = 9"
| "failure_code Efer_lme1_cr0_pg1_cr4_pae1_cs_l1_d1 = 10" | "failure_code Illegal_event_injection = 11"
| "failure_code Incanonical_segment_base = 12"

definition incanonical :: "u64 \<Rightarrow> bool" where
  "incanonical a \<longleftrightarrow> 0x7fffffffffff < a \<and> a < 0xffff800000000000"

text \<open>The examinations in their order; a later one overwrites the reason of an earlier one.\<close>

definition examinations :: "bytes \<Rightarrow> (bool \<times> svm_failure) list" where
  "examinations b =
     (let c0 = vmread64 b guest_cr0; c4 = vmread64 b guest_cr4; ef = vmread64 b guest_efer;
          att = vmread16 b guest_cs_attrib; evi = vmread64 b event_injection;
          type = bf_get amd64_event_injection ''type'' evi;
          lm = noir_bt ef (unat amd64_efer_lme) \<and> noir_bt c0 amd64_cr0_pg
      in [(\<not> noir_bt c0 amd64_cr0_cd \<and> noir_bt c0 amd64_cr0_nw, Cr0_cd0_nw1),
          (0xFFFFFFFF < c0, Cr0_high),
          (drop_bit 52 (vmread64 b guest_cr3) \<noteq> 0, Cr3_mbz),
          (c4 AND 0xFFFFFFFFFF08F000 \<noteq> 0, Cr4_mbz),
          (0xFFFFFFFF < vmread64 b guest_dr6, Dr6_high),
          (0xFFFFFFFF < vmread64 b guest_dr7, Dr7_high),
          (ef AND 0xFFFFFFFFFFF90200 \<noteq> 0, Efer_mbz),
          (lm \<and> \<not> noir_bt c4 amd64_cr4_pae, Efer_lme1_cr0_pg1_cr4_pae0),
          (lm \<and> \<not> noir_bt c0 amd64_cr0_pe, Efer_lme1_cr0_pg1_pe0),
          (lm \<and> noir_bt c4 amd64_cr4_pae \<and> bf_flag svm_segment_access_rights ''long_mode'' att \<and>
             bf_flag svm_segment_access_rights ''default_size'' att, Efer_lme1_cr0_pg1_cr4_pae1_cs_l1_d1),
          (bf_flag amd64_event_injection ''valid'' evi \<and> type = 3 \<and> (0x20 \<le> type \<or> type = 2), Illegal_event_injection),
          (bf_flag amd64_event_injection ''valid'' evi \<and> (type = 1 \<or> 4 < type), Illegal_event_injection),
          (incanonical (vmread64 b guest_cs_base), Incanonical_segment_base),
          (incanonical (vmread64 b guest_ds_base), Incanonical_segment_base),
          (incanonical (vmread64 b guest_es_base), Incanonical_segment_base),
          (incanonical (vmread64 b guest_ss_base), Incanonical_segment_base)])"

definition diagnosis :: "bytes \<Rightarrow> svm_failure" where
  "diagnosis b = foldl (\<lambda>r (c, f). if c then f else r) Unknown_failure (examinations b)"

definition nvc_svm_invalid_state_cvexit_handler :: "exit_env \<Rightarrow> exit_world \<Rightarrow> exit_world" where
  "nvc_svm_invalid_state_cvexit_handler e s =
     (let s1 = set_intercept cv_invalid_state (leave_guest e s);
          put = put32 0 noir_cvm_invalid_state_context
      in s1\<lparr>x_union := put ''reason'' (failure_code (diagnosis (xvmcb s1))) (put ''id'' 1 (x_union s1))\<rparr>)"

end
