(* ===== verification/Cv_Access.thy ===== *)
theory Cv_Access
  imports Cv_Exit
begin

text \<open>
  The exits for register accesses, instructions and memory accesses of customizable virtual
  processors, and the dispatch of an exit (\<open>svm_core/svm_cvexit.c\<close>, \<open>svm_core/svm_exit.c\<close>).
\<close>

section \<open>Control and debug registers\<close>

definition nvc_svm_cr4_read_cvexit_handler :: "exit_env \<Rightarrow> exit_world \<Rightarrow> exit_world" where
  "nvc_svm_cr4_read_cvexit_handler e s =
     (let r = unat (bf_get nvc_svm_cr_access_exit_info ''gpr'' (vmread64 (xvmcb s) exit_info1));
          c4 = vmread64 (xvmcb s) guest_cr4;
          v = (if x_mce s then c4 else unset_bit amd64_cr4_mce c4)
      in select St_emulation (on_vmcb noir_svm_advance_rip (on_frame (\<lambda>f. f(r := v)) s)))"

definition nvc_svm_cr4_write_cvexit_handler :: "exit_env \<Rightarrow> exit_world \<Rightarrow> exit_world" where
  "nvc_svm_cr4_write_cvexit_handler e s =
     (let r = unat (bf_get nvc_svm_cr_access_exit_info ''gpr'' (vmread64 (xvmcb s) exit_info1));
          v = xframe s r
      in select St_emulation
           (on_vmcb (\<lambda>b. noir_svm_advance_rip (vmwrite64 b guest_cr4 (v OR amd64_cr4_mce_bit)))
             (s\<lparr>x_mce := noir_bt v amd64_cr4_mce\<rparr>)))"

definition nvc_svm_cr_access_cvexit_handler :: "exit_env \<Rightarrow> exit_world \<Rightarrow> exit_world" where
  "nvc_svm_cr_access_cvexit_handler e s =
     (let code = vmread32 (xvmcb s) exit_code;
          info = vmread64 (xvmcb s) exit_info1;
          s1 = set_intercept cv_cr_access (leave_guest e s);
          put = put32 0 noir_cvm_cr_access_context
      in select St_cr (s1\<lparr>x_union := put ''write'' (of_flag (noir_bt code 4))
           (put ''mov_instruction'' (ucast (bf_get nvc_svm_cr_access_exit_info ''mov'' info))
             (put ''gpr_number'' (ucast (bf_get nvc_svm_cr_access_exit_info ''gpr'' info))
               (put ''cr_number'' (code AND 0xf) (x_union s1))))\<rparr>))"

definition nvc_svm_dr_access_cvexit_handler :: "exit_env \<Rightarrow> exit_world \<Rightarrow> exit_world" where
  "nvc_svm_dr_access_cvexit_handler e s =
     (let code = vmread32 (xvmcb s) exit_code;
          info = vmread64 (xvmcb s) exit_info1;
          s1 = set_intercept cv_dr_access (leave_guest e s);
          put = put32 0 noir_cvm_dr_access_context
      in select St_dr (s1\<lparr>x_union := put ''write'' (of_flag (noir_bt code 4))
           (put ''gpr_number'' (ucast (bf_get nvc_svm_dr_access_exit_info ''gpr'' info))
             (put ''dr_number'' (code AND 0xf) (x_union s1)))\<rparr>))"

section \<open>Windows for interrupts\<close>

definition option_set :: "string \<Rightarrow> exit_world \<Rightarrow> bool" where
  "option_set f s = bf_flag noir_cvm_vcpu_options_bits f (vcpu_options (xheader s))"

definition nvc_svm_virtint_cvexit_handler :: "exit_env \<Rightarrow> exit_world \<Rightarrow> exit_world" where
  "nvc_svm_virtint_cvexit_handler e s =
     (if prev_virq (cvcpu (xw s)) then
        (let vector = unat (vmread8 (xvmcb s) avic_virq_vector);
             s1 = on_vmcb (\<lambda>b. clean noir_svm_clean_avic (vmcb_bts32
                    (noir_svm_inject_event b vector amd64_external_virtual_interrupt False True 0)
                    avic_control nvc_svm_avic_control_ignore_vtpr)) s;
             s2 = on_cv (\<lambda>cv. cv\<lparr>prev_virq := False\<rparr>) s1
         in on_header (\<lambda>h. h\<lparr>injected_event := bf_put noir_cvm_event_injection_attributes ''valid'' 0 (injected_event h)\<rparr>) s2)
      else
        (let s1 = on_vmcb (\<lambda>b. clean noir_svm_clean_avic (vmcb_btr32
                    (vmcb_btr32 b avic_control nvc_svm_avic_control_ignore_vtpr) avic_control nvc_svm_avic_control_virq)) s
         in if option_set ''intercept_interrupt_window'' s1
            then set_intercept cv_interrupt_window (leave_guest e s1) else s1))"

definition nvc_svm_iret_cvexit_handler :: "exit_env \<Rightarrow> exit_world \<Rightarrow> exit_world" where
  "nvc_svm_iret_cvexit_handler e s =
     select St_emulation
       (if prev_nmi (cvcpu (xw s)) then
          on_vmcb (\<lambda>b. vmwrite32 (vmwrite32 b event_injection (injected_event (xheader s))) event_error_code
                          (injected_error_code (xheader s)))
            (on_cv (\<lambda>cv. cv\<lparr>prev_nmi := False\<rparr>) s)
        else if option_set ''intercept_nmi_window'' s then
          (let s1 = set_intercept cv_interrupt_window (leave_guest e s);
               put = put32 0 noir_cvm_interrupt_window_context
           in on_vmcb (\<lambda>b. clean noir_svm_clean_interception (vmcb_btr32 b intercept_instruction1 nvc_svm_intercept_vector1_iret))
                (s1\<lparr>x_union := put ''reserved'' 0 (put ''iret_passed'' 0 (put ''nmi'' 1 (x_union s1)))\<rparr>))
        else s)"

section \<open>Non-automatic exits of secure guests\<close>

definition nvc_svm_nsv_load_nae_synthetic_msr_state :: "exit_world \<Rightarrow> exit_world" where
  "nvc_svm_nsv_load_nae_synthetic_msr_state s =
     (let b = xvmcb s; n = x_nsvs s;
          n1 = n\<lparr>vc_return_cs := ucast (vmread16 b guest_cs_selector) OR push_bit 16 (ucast (vmread16 b guest_ss_selector)),
                 vc_return_rsp := vmread64 b guest_rsp, vc_return_rip := vmread64 b guest_rip,
                 vc_return_rflags := vmread64 b guest_rflags, vc_next_rip := vmread64 b next_rip\<rparr>;
          b1 = vmwrite16 (vmwrite16 b guest_cs_selector (ucast (vc_handler_cs n))) guest_ss_selector
                 (ucast (drop_bit 16 (vc_handler_cs n)));
          b2 = vmwrite64 (vmwrite64 (clean noir_svm_clean_segment_reg b1) guest_rsp (vc_handler_rsp n)) guest_rip (vc_handler_rip n)
      in on_vmcb (\<lambda>_. vmcb_btr32 b2 guest_rflags amd64_rflags_if) (s\<lparr>x_nsvs := n1\<rparr>))"

section \<open>CPUID\<close>

text \<open>A loop over \<open>n\<close> entries of an array: \<open>None\<close> when it runs past the end of the array.\<close>

definition qp_matches :: "u32 \<Rightarrow> u32 \<Rightarrow> noir_cvm_cpuid_quickpath_info \<Rightarrow> bool" where
  "qp_matches leaf subleaf q \<longleftrightarrow> qp_leaf q = leaf \<and>
     (\<not> bf_flag noir_cvm_cpuid_quickpath_options ''has_subleaf'' (qp_options q) \<or> qp_subleaf q = subleaf)"

fun qp_search :: "nat \<Rightarrow> u32 \<Rightarrow> u32 \<Rightarrow> noir_cvm_cpuid_quickpath_info list \<Rightarrow> noir_cvm_cpuid_quickpath_info option option" where
  "qp_search 0 leaf subleaf qs = Some None"
| "qp_search (Suc n) leaf subleaf [] = None"
| "qp_search (Suc n) leaf subleaf (q # qs) =
     (if qp_matches leaf subleaf q then Some (Some q) else qp_search n leaf subleaf qs)"

definition noir_cvm_cpuid_quickpath_limit_per_vm :: nat where "noir_cvm_cpuid_quickpath_limit_per_vm = 64"
definition noir_cvm_cpuid_quickpath_limit_per_vcpu :: nat where "noir_cvm_cpuid_quickpath_limit_per_vcpu = 16"

definition cpuid_emulate :: "u32 \<Rightarrow> u32 \<Rightarrow> exit_world \<Rightarrow> (u32 \<times> u32 \<times> u32 \<times> u32) option" where
  "cpuid_emulate leaf subleaf s =
     (case qp_search noir_cvm_cpuid_quickpath_limit_per_vcpu leaf subleaf (x_quickpath s) of
        None \<Rightarrow> None
      | Some (Some q) \<Rightarrow> Some (qp_eax q, qp_ebx q, qp_ecx q, qp_edx q)
      | Some None \<Rightarrow>
          (case qp_search noir_cvm_cpuid_quickpath_limit_per_vm leaf subleaf (x_vm_quickpath s) of
             None \<Rightarrow> None
           | Some (Some q) \<Rightarrow> Some (qp_eax q, qp_ebx q, qp_ecx q, qp_edx q)
           | Some None \<Rightarrow> Some (0, 0, 0, 0)))"

definition nvc_svm_cpuid_cvexit_handler :: "exit_env \<Rightarrow> exit_world \<Rightarrow> exit_world option" where
  "nvc_svm_cpuid_cvexit_handler e s =
     (if option_set ''intercept_cpuid'' s then
        (if nsv_guest (xw s) then
           (let s1 = nvc_svm_nsv_load_nae_synthetic_msr_state s
            in Some (s1\<lparr>x_nsvs := (x_nsvs s1)\<lparr>vc_error_code := ucast cv_cpuid_instruction, vc_info1 := 0, vc_info2 := 0\<rparr>\<rparr>))
         else
           (let s1 = set_intercept cv_cpuid_instruction (leave_guest e s)
            in Some (select St_cpuid (s1\<lparr>x_union := vmwrite32 (vmwrite32 (x_union s1) 0 (ucast (gpr (xheader s1) 0)))
                       4 (ucast (gpr (xheader s1) 1))\<rparr>))))
      else
        (case cpuid_emulate (ucast (xframe s 0)) (ucast (xframe s 1)) s of
           None \<Rightarrow> None
         | Some (a, b, c, d) \<Rightarrow>
             Some (select St_emulation (on_vmcb noir_svm_advance_rip
               (on_frame (\<lambda>f. f(0 := set_low32 (f 0) a, 3 := set_low32 (f 3) b, 1 := set_low32 (f 1) c, 2 := set_low32 (f 2) d)) s)))))"

section \<open>Instructions\<close>

definition nvc_svm_rsm_cvexit_handler :: "exit_env \<Rightarrow> exit_world \<Rightarrow> exit_world" where
  "nvc_svm_rsm_cvexit_handler e s = inject_ud e s"

definition nvc_svm_invd_cvexit_handler :: "exit_env \<Rightarrow> exit_world \<Rightarrow> exit_world" where
  "nvc_svm_invd_cvexit_handler e s = select St_emulation (on_vmcb noir_svm_advance_rip s)"

definition nvc_svm_hlt_cvexit_handler :: "exit_env \<Rightarrow> exit_world \<Rightarrow> exit_world" where
  "nvc_svm_hlt_cvexit_handler e s =
     (let s1 = select St_halt (set_intercept cv_hlt_instruction (leave_guest e s))
      in if nsv_guest (xw s1) then on_vmcb noir_svm_advance_rip s1 else s1)"

definition nvc_svm_vmmcall_cvexit_handler :: "exit_env \<Rightarrow> exit_world \<Rightarrow> exit_world" where
  "nvc_svm_vmmcall_cvexit_handler e s =
     (let s1 = select St_hypercall (set_intercept cv_hypercall (leave_guest e s))
      in if nsv_guest (xw s1) then on_vmcb noir_svm_advance_rip s1 else s1)"

definition nvc_svm_invlpga_cvexit_handler :: "exit_env \<Rightarrow> exit_world \<Rightarrow> exit_world" where
  "nvc_svm_invlpga_cvexit_handler e s = select St_emulation (inject_ud e s)"

definition nvc_svm_vmrun_cvexit_handler :: "exit_env \<Rightarrow> exit_world \<Rightarrow> exit_world" where
  "nvc_svm_vmrun_cvexit_handler e s = select St_emulation (inject_ud e s)"

definition nvc_svm_vmload_cvexit_handler :: "exit_env \<Rightarrow> exit_world \<Rightarrow> exit_world" where
  "nvc_svm_vmload_cvexit_handler e s = select St_emulation (inject_ud e s)"

definition nvc_svm_vmsave_cvexit_handler :: "exit_env \<Rightarrow> exit_world \<Rightarrow> exit_world" where
  "nvc_svm_vmsave_cvexit_handler e s = select St_emulation (inject_ud e s)"

definition nvc_svm_stgi_cvexit_handler :: "exit_env \<Rightarrow> exit_world \<Rightarrow> exit_world" where
  "nvc_svm_stgi_cvexit_handler e s = select St_emulation (inject_ud e s)"

definition nvc_svm_clgi_cvexit_handler :: "exit_env \<Rightarrow> exit_world \<Rightarrow> exit_world" where
  "nvc_svm_clgi_cvexit_handler e s = select St_emulation (inject_ud e s)"

definition nvc_svm_skinit_cvexit_handler :: "exit_env \<Rightarrow> exit_world \<Rightarrow> exit_world" where
  "nvc_svm_skinit_cvexit_handler e s = select St_emulation (inject_ud e s)"

text \<open>The segment index selects a segment by its distance of 16 bytes from \<open>es\<close>.\<close>

definition io_access :: "u32 \<Rightarrow> bytes \<Rightarrow> bytes" where
  "io_access info u =
     (let put = put16 0 noir_cvm_io_access; field = bf_get nvc_svm_io_exit_info
      in vmwrite16 (put ''address_width'' (push_bit 1 (ucast (field ''addr_size'' info)))
           (put ''operand_size'' (ucast (field ''op_size'' info))
             (put ''repeat'' (ucast (field ''repeat'' info))
               (put ''string'' (ucast (field ''string'' info))
                 (put ''io_type'' (ucast (field ''type'' info)) u))))) 2 (ucast (field ''port'' info)))"

definition nvc_svm_io_cvexit_handler :: "exit_env \<Rightarrow> exit_world \<Rightarrow> exit_world" where
  "nvc_svm_io_cvexit_handler e s =
     (let info = vmread32 (xvmcb s) exit_info1;
          s1 = s\<lparr>x_union := io_access info (x_union s)\<rparr>
      in if nsv_guest (xw s1) then
           (let s2 = nvc_svm_nsv_load_nae_synthetic_msr_state s1
            in s2\<lparr>x_nsvs := (x_nsvs s2)\<lparr>vc_error_code := ucast cv_io_instruction,
                     vc_info1 := ucast (vmread16 (x_union s2) 0), vc_info2 := ucast (vmread16 (x_union s2) 2)\<rparr>\<rparr>)
         else
           (let s2 = set_intercept cv_io_instruction (leave_guest e s1);
                g = gpr (xheader s2); b = xvmcb s2;
                p = 16 * unat (bf_get nvc_svm_io_exit_info ''segment'' info);
                u1 = vmwrite64 (vmwrite64 (vmwrite64 (vmwrite64 (x_union s2) 8 (g 0)) 16 (g 1)) 24 (g 6)) 32 (g 7);
                u2 = vmwrite16 (vmwrite16 u1 40 (vmread16 b (p + guest_es_selector))) 42 (vmread16 b (p + guest_es_attrib));
                u3 = vmwrite64 (vmwrite32 u2 44 (vmread32 b (p + guest_es_limit))) 48 (vmread64 b (p + guest_es_base))
            in select St_io (s2\<lparr>x_union := u3\<rparr>)))"

section \<open>Nested page faults\<close>

definition nvc_svm_nested_pf_cvexit_handler :: "exit_env \<Rightarrow> exit_world \<Rightarrow> exit_world" where
  "nvc_svm_nested_pf_cvexit_handler e s =
     (let gpa = vmread64 (xvmcb s) exit_info2;
          s1 = leave_guest e s;
          b = xvmcb s1;
          fault = vmread64 b exit_info1;
          put = put8 0 noir_cvm_memory_access;
          field = (\<lambda>f. ucast (bf_get amd64_npt_fault_code f fault));
          u1 = put ''user'' (field ''user'') (put ''execute'' (field ''execute'') (put ''write'' (field ''write'')
                 (put ''present'' (field ''present'') (vmwrite64 (x_union s1) 16 gpa))));
          s2 = s1\<lparr>x_union := vmwrite64 u1 32 0\<rparr>;
          s3 = (if bf_flag amd64_npt_fault_code ''npf_addr'' fault
                then set_intercept cv_memory_access (s2\<lparr>x_union :=
                       copy_bytes (put ''fetched_bytes'' (vmread8 b number_of_bytes_fetched) (x_union s2)) 1 b guest_instruction_bytes 15\<rparr>)
                else if bf_flag amd64_npt_fault_code ''npf_table'' fault
                then set_intercept cv_scheduler_npt_misconfig s2
                else s2)
      in select St_npf s3)"

end
