(* ===== verification/Cv_Msr.thy ===== *)
theory Cv_Msr
  imports Cv_Access
begin

text \<open>
  Accesses to model-specific registers by customizable virtual processors (\<open>svm_core/svm_cvexit.c\<close>)
  and to the synthetic registers of NoirVisor (\<open>svm_core/svm_cvnsv.c\<close>).
\<close>

section \<open>Register numbers\<close>

definition amd64_tsc :: u32 where "amd64_tsc = 0x10"
definition amd64_apic_base :: u32 where "amd64_apic_base = 0x1B"
definition amd64_mtrr_cap :: u32 where "amd64_mtrr_cap = 0xFE"
definition amd64_sysenter_cs :: u32 where "amd64_sysenter_cs = 0x174"
definition amd64_sysenter_esp :: u32 where "amd64_sysenter_esp = 0x175"
definition amd64_sysenter_eip :: u32 where "amd64_sysenter_eip = 0x176"
definition amd64_pat :: u32 where "amd64_pat = 0x277"
definition amd64_mtrr_def_type :: u32 where "amd64_mtrr_def_type = 0x2FF"
definition amd64_x2apic_msr_start :: u32 where "amd64_x2apic_msr_start = 0x800"
definition amd64_x2apic_msr_end :: u32 where "amd64_x2apic_msr_end = 0x8FF"
definition amd64_efer :: u32 where "amd64_efer = 0xC0000080"
definition amd64_star :: u32 where "amd64_star = 0xC0000081"
definition amd64_lstar :: u32 where "amd64_lstar = 0xC0000082"
definition amd64_cstar :: u32 where "amd64_cstar = 0xC0000083"
definition amd64_sfmask :: u32 where "amd64_sfmask = 0xC0000084"
definition amd64_fs_base :: u32 where "amd64_fs_base = 0xC0000100"
definition amd64_gs_base :: u32 where "amd64_gs_base = 0xC0000101"
definition amd64_kernel_gs_base :: u32 where "amd64_kernel_gs_base = 0xC0000102"
definition amd64_apic_rsvd_mask :: u64 where "amd64_apic_rsvd_mask = 0xFFFF0000000006FF"
definition amd64_apic_bsc :: nat where "amd64_apic_bsc = 8"

lemmas msr_numbers = amd64_tsc_def amd64_apic_base_def amd64_mtrr_cap_def amd64_sysenter_cs_def amd64_sysenter_esp_def
  amd64_sysenter_eip_def amd64_pat_def amd64_mtrr_def_type_def amd64_x2apic_msr_start_def amd64_x2apic_msr_end_def
  amd64_efer_def amd64_star_def amd64_lstar_def amd64_cstar_def amd64_sfmask_def amd64_fs_base_def amd64_gs_base_def
  amd64_kernel_gs_base_def

text \<open>\<open>amd64_mtrr_phys_base0\<close> to \<open>mask7\<close> and the fixed-range registers.\<close>

definition mtrr_registers :: "u32 list" where
  "mtrr_registers = [0x200, 0x201, 0x202, 0x203, 0x204, 0x205, 0x206, 0x207, 0x208, 0x209, 0x20A, 0x20B, 0x20C, 0x20D,
     0x20E, 0x20F, 0x250, 0x258, 0x259, 0x268, 0x269, 0x26A, 0x26B, 0x26C, 0x26D, 0x26E, 0x26F]"

text \<open>\<open>amd64_u_cet\<close> to \<open>amd64_isst_addr\<close>, and the registers of the system-management mode.\<close>

definition cet_registers :: "u32 list" where
  "cet_registers = [0x6A0, 0x6A2, 0x6A4, 0x6A5, 0x6A6, 0x6A7, 0x6A8]"

definition smm_registers :: "u32 list" where
  "smm_registers = [0xC0010056, 0xC0010061, 0xC0010062, 0xC0010063, 0xC0010111, 0xC0010112, 0xC0010113, 0xC001011A]"

section \<open>Emulation\<close>

text \<open>Registers that are read and written straight from and to the control block.\<close>

definition plain_msr :: "u32 \<Rightarrow> nat option" where
  "plain_msr index = map_of
     [(amd64_sysenter_cs, guest_sysenter_cs), (amd64_sysenter_esp, guest_sysenter_esp), (amd64_sysenter_eip, guest_sysenter_eip),
      (amd64_star, guest_star), (amd64_lstar, guest_lstar), (amd64_cstar, guest_cstar), (amd64_sfmask, guest_sfmask),
      (amd64_fs_base, guest_fs_base), (amd64_gs_base, guest_gs_base), (amd64_kernel_gs_base, guest_kernel_gs_base)] index"

definition rdmsr_value :: "exit_env \<Rightarrow> exit_world \<Rightarrow> u32 \<Rightarrow> u64 option" where
  "rdmsr_value e s index =
     (let b = xvmcb s in
      if index = amd64_tsc then Some (vmread64 b tsc_offset + e_tsc e)
      else if index = amd64_apic_base then Some (apic_bar (xheader s))
      else if index = amd64_mtrr_cap then Some 0x400
      else if index = amd64_mtrr_def_type then Some (mtrr_def_type (xheader s))
      else if index = amd64_pat then Some (vmread64 b guest_pat)
      else if index = amd64_efer then
        Some (let v = vmread64 b guest_efer in if shadow_svme (cvcpu (xw s)) then v else unset_bit amd64_efer_svme v)
      else map_option (vmread64 b) (plain_msr index))"

definition nvc_svm_rdmsr_cvexit_handler :: "exit_env \<Rightarrow> exit_world \<Rightarrow> bool \<times> exit_world" where
  "nvc_svm_rdmsr_cvexit_handler e s =
     (case rdmsr_value e s (ucast (xframe s 1)) of
        None \<Rightarrow> (False, s)
      | Some v \<Rightarrow> (True, on_frame (\<lambda>f. f(0 := set_low32 (f 0) (ucast v), 2 := set_low32 (f 2) (ucast (drop_bit 32 v)))) s))"

definition msr_operand :: "exit_world \<Rightarrow> u64" where
  "msr_operand s = push_bit 32 (take_bit 32 (xframe s 2)) OR take_bit 32 (xframe s 0)"

definition nvc_svm_wrmsr_cvexit_handler :: "exit_env \<Rightarrow> exit_world \<Rightarrow> bool \<times> exit_world" where
  "nvc_svm_wrmsr_cvexit_handler e s =
     (let index = ucast (xframe s 1); v = msr_operand s; old = apic_bar (xheader s) in
      if index = amd64_tsc then
        (True, on_vmcb (\<lambda>b. clean noir_svm_clean_interception (vmwrite64 b tsc_offset (v - e_tsc e))) s)
      else if index = amd64_apic_base then
        (if v AND amd64_apic_rsvd_mask \<noteq> 0 then (False, s)
         else if page_4kb_base v = page_4kb_base old \<and> noir_bt v amd64_apic_bsc = noir_bt old amd64_apic_bsc
         then (True, on_header (\<lambda>h. h\<lparr>apic_bar := v\<rparr>) s)
         else (False, s))
      else if index = amd64_pat then
        (True, on_vmcb (\<lambda>b. clean noir_svm_clean_npt (vmwrite64 b guest_pat v)) s)
      else if index = amd64_efer then
        (True, on_vmcb (\<lambda>b. clean noir_svm_clean_control_reg (vmwrite64 b guest_efer (v OR amd64_efer_svme_bit)))
           (on_cv (\<lambda>cv. cv\<lparr>shadow_svme := noir_bt v amd64_efer_svme\<rparr>) s))
      else
        (case plain_msr index of
           None \<Rightarrow> (False, s) | Some p \<Rightarrow> (True, on_vmcb (\<lambda>b. vmwrite64 b p v) s)))"

section \<open>Synthetic registers\<close>

definition nsv_msr_ghcb :: u32 where "nsv_msr_ghcb = 0x40000001"
definition nsv_msr_activation :: u32 where "nsv_msr_activation = 0x40010130"
definition nsv_msr_vc_handler_cs :: u32 where "nsv_msr_vc_handler_cs = 0x40010140"
definition nsv_msr_vc_handler_rsp :: u32 where "nsv_msr_vc_handler_rsp = 0x40010141"
definition nsv_msr_vc_handler_rip :: u32 where "nsv_msr_vc_handler_rip = 0x40010142"
definition nsv_msr_vc_return_cs :: u32 where "nsv_msr_vc_return_cs = 0x40010150"
definition nsv_msr_vc_return_rsp :: u32 where "nsv_msr_vc_return_rsp = 0x40010151"
definition nsv_msr_vc_return_rip :: u32 where "nsv_msr_vc_return_rip = 0x40010152"
definition nsv_msr_vc_return_rflags :: u32 where "nsv_msr_vc_return_rflags = 0x40010153"
definition nsv_msr_vc_next_rip :: u32 where "nsv_msr_vc_next_rip = 0x40010154"
definition nsv_msr_vc_error_code :: u32 where "nsv_msr_vc_error_code = 0x40010155"
definition nsv_msr_vc_info1 :: u32 where "nsv_msr_vc_info1 = 0x40010156"
definition nsv_msr_vc_info2 :: u32 where "nsv_msr_vc_info2 = 0x40010157"
definition nsv_msr_claim_gpa_cmd :: u32 where "nsv_msr_claim_gpa_cmd = 0x40010180"
definition nsv_msr_claim_gpa_start :: u32 where "nsv_msr_claim_gpa_start = 0x40010181"
definition nsv_msr_claim_gpa_end :: u32 where "nsv_msr_claim_gpa_end = 0x40010182"

lemmas nsv_msr_numbers = nsv_msr_ghcb_def nsv_msr_activation_def nsv_msr_vc_handler_cs_def nsv_msr_vc_handler_rsp_def
  nsv_msr_vc_handler_rip_def nsv_msr_vc_return_cs_def nsv_msr_vc_return_rsp_def nsv_msr_vc_return_rip_def
  nsv_msr_vc_return_rflags_def nsv_msr_vc_next_rip_def nsv_msr_vc_error_code_def nsv_msr_vc_info1_def
  nsv_msr_vc_info2_def nsv_msr_claim_gpa_cmd_def nsv_msr_claim_gpa_start_def nsv_msr_claim_gpa_end_def

text \<open>\<open>noir_svm_inject_event\<close> of a general-protection fault with error code 0.\<close>

definition inject_gp :: "exit_world \<Rightarrow> exit_world" where
  "inject_gp = on_vmcb (\<lambda>b. noir_svm_inject_event b amd64_general_protection amd64_fault_trap_exception True True 0)"

definition nsv_msr_value :: "exit_world \<Rightarrow> u32 \<Rightarrow> u64 option" where
  "nsv_msr_value s index = map_of
     [(nsv_msr_ghcb, ghcb (xheader s)),
      (nsv_msr_vc_handler_cs, vc_handler_cs (x_nsvs s)), (nsv_msr_vc_handler_rsp, vc_handler_rsp (x_nsvs s)),
      (nsv_msr_vc_handler_rip, vc_handler_rip (x_nsvs s)), (nsv_msr_vc_return_cs, vc_return_cs (x_nsvs s)),
      (nsv_msr_vc_return_rsp, vc_return_rsp (x_nsvs s)), (nsv_msr_vc_return_rip, vc_return_rip (x_nsvs s)),
      (nsv_msr_vc_return_rflags, vc_return_rflags (x_nsvs s)), (nsv_msr_vc_next_rip, vc_next_rip (x_nsvs s)),
      (nsv_msr_vc_error_code, vc_error_code (x_nsvs s)), (nsv_msr_vc_info1, vc_info1 (x_nsvs s)),
      (nsv_msr_vc_info2, vc_info2 (x_nsvs s))] index"

definition nvc_svm_rdmsr_nsvexit_handler :: "exit_world \<Rightarrow> bool \<times> exit_world" where
  "nvc_svm_rdmsr_nsvexit_handler s =
     (case nsv_msr_value s (ucast (xframe s 1)) of
        None \<Rightarrow> (True, inject_gp s)
      | Some v \<Rightarrow> (True, on_vmcb noir_svm_advance_rip
          (on_frame (\<lambda>f. f(0 := set_low32 (f 0) (ucast v), 2 := set_low32 (f 2) (ucast (drop_bit 32 v)))) s)))"

text \<open>The registers that the control block does not hold move between the two states.\<close>

definition nvc_svm_nsv_synchronize_activation :: "exit_env \<Rightarrow> bool \<Rightarrow> exit_world \<Rightarrow> exit_world" where
  "nvc_svm_nsv_synchronize_activation e direction s =
     (let h = xheader s; n = vmsa (cvcpu (xw s)) in
      if direction then
        (on_cv (\<lambda>cv. cv\<lparr>vmsa := n\<lparr>nsv_gpr := (\<lambda>i. if i < 16 then gpr h i else nsv_gpr n i),
             nsv_dr := (\<lambda>i. if i < 4 then drs h i else nsv_dr n i), nsv_xcr0 := xcr0 h\<rparr>\<rparr>) s)
          \<lparr>x_nsv_xstate := copy_bytes (x_nsv_xstate s) 0 (xsave_area h) 0 (e_xsize e)\<rparr>
      else
        on_header (\<lambda>h. h\<lparr>gpr := (\<lambda>i. if i < 16 then nsv_gpr n i else gpr h i),
             drs := (\<lambda>i. if i < 4 then nsv_dr n i else drs h i), xcr0 := nsv_xcr0 n,
             xsave_area := copy_bytes (xsave_area h) 0 (x_nsv_xstate s) 0 (e_xsize e)\<rparr>) s)"

text \<open>\<open>Inl\<close> is the fault, \<open>Inr\<close> the result \<open>no_exit\<close> with the state.\<close>

definition nsv_write :: "exit_env \<Rightarrow> exit_world \<Rightarrow> u32 \<Rightarrow> u64 \<Rightarrow> exit_world + bool \<times> exit_world" where
  "nsv_write e s index v =
     (let n = x_nsvs s in
      if index = nsv_msr_ghcb then Inr (True, on_header (\<lambda>h. h\<lparr>ghcb := v\<rparr>) s)
      else if index = nsv_msr_activation then
        (let s1 = s\<lparr>x_union := vmwrite64 (x_union s) 0 v\<rparr> in
         if bf_flag noir_nsv_activation_context ''reserved'' v then Inl s1
         else Inr (False, nvc_svm_nsv_synchronize_activation e (bf_flag noir_nsv_activation_context ''activation'' v)
                (set_intercept cv_scheduler_nsv_activate s1)))
      else if index = nsv_msr_vc_handler_cs then Inr (True, s\<lparr>x_nsvs := n\<lparr>vc_handler_cs := v\<rparr>\<rparr>)
      else if index = nsv_msr_vc_handler_rsp then Inr (True, s\<lparr>x_nsvs := n\<lparr>vc_handler_rsp := v\<rparr>\<rparr>)
      else if index = nsv_msr_vc_handler_rip then Inr (True, s\<lparr>x_nsvs := n\<lparr>vc_handler_rip := v\<rparr>\<rparr>)
      else if index = nsv_msr_claim_gpa_cmd then
        (if \<not> nsv_guest (xw s) then Inl s
         else
           (let s1 = s\<lparr>x_union := vmwrite64 (x_union s) 0 v\<rparr> in
            if bf_flag noir_nsv_claim_pages_context ''reserved'' v then Inl s1
            else if 0xFFFFFFFF < page_4kb_count (x_claim_end s - x_claim_start s) then Inl s1
            else Inr (False, set_intercept cv_scheduler_nsv_claim_security s1)))
      else if index = nsv_msr_claim_gpa_start then Inr (True, s\<lparr>x_claim_start := v\<rparr>)
      else if index = nsv_msr_claim_gpa_end then Inr (True, s\<lparr>x_claim_end := v\<rparr>)
      else Inl s)"

definition nvc_svm_wrmsr_nsvexit_handler :: "exit_env \<Rightarrow> exit_world \<Rightarrow> bool \<times> exit_world" where
  "nvc_svm_wrmsr_nsvexit_handler e s =
     (case nsv_write e s (ucast (xframe s 1)) (msr_operand s) of
        Inl s1 \<Rightarrow> (True, inject_gp s1)
      | Inr (no_exit, s1) \<Rightarrow> (no_exit, on_vmcb noir_svm_advance_rip s1))"

section \<open>The handler\<close>

definition msr_option :: "string \<Rightarrow> exit_world \<Rightarrow> bool" where
  "msr_option f s = bf_flag noir_cvm_vcpu_msr_interceptions f (msr_interceptions (xheader s))"

definition msr_intercepted :: "exit_world \<Rightarrow> u32 \<Rightarrow> bool" where
  "msr_intercepted s index =
     (if \<not> msr_option ''valid'' s then True
      else if index = amd64_apic_base then msr_option ''intercept_apic'' s
      else if index \<in> set (amd64_mtrr_cap # amd64_pat # amd64_mtrr_def_type # mtrr_registers) then msr_option ''intercept_mtrr'' s
      else if index \<in> {amd64_sysenter_cs, amd64_sysenter_esp, amd64_sysenter_eip} then msr_option ''intercept_sysenter'' s
      else if index \<in> set cet_registers then msr_option ''intercept_cet'' s
      else if index \<in> {amd64_star, amd64_lstar, amd64_cstar, amd64_sfmask, amd64_fs_base, amd64_gs_base, amd64_kernel_gs_base}
        then msr_option ''intercept_syscall'' s
      else if index \<in> set smm_registers then msr_option ''intercept_smm'' s
      else if amd64_x2apic_msr_start \<le> index \<and> index \<le> amd64_x2apic_msr_end then msr_option ''intercept_apic'' s
      else False)"

definition deliver_msr :: "exit_env \<Rightarrow> bool \<Rightarrow> exit_world \<Rightarrow> exit_world" where
  "deliver_msr e op_write s =
     (let s1 = set_intercept (if op_write then cv_wrmsr_instruction else cv_rdmsr_instruction) (leave_guest e s);
          g = gpr (xheader s1)
      in select St_msr (s1\<lparr>x_union := vmwrite32 (vmwrite32 (vmwrite32 (x_union s1) 0 (ucast (g 0))) 4 (ucast (g 2))) 8 (ucast (g 1))\<rparr>))"

text \<open>The instruction pointer is advanced with the structure of the virtual processor as the control block.\<close>

definition emulate_msr :: "exit_env \<Rightarrow> bool \<Rightarrow> exit_world \<Rightarrow> exit_world" where
  "emulate_msr e op_write s =
     (case (if op_write then nvc_svm_wrmsr_cvexit_handler e s else nvc_svm_rdmsr_cvexit_handler e s) of
        (advance, s1) \<Rightarrow>
          (let s2 = select St_emulation s1 in
           if advance then on_cv (e_scribble e) s2 else inject_ud e s2))"

definition nvc_svm_msr_cvexit_handler :: "exit_env \<Rightarrow> exit_world \<Rightarrow> exit_world" where
  "nvc_svm_msr_cvexit_handler e s =
     (let op_write = vmread8 (xvmcb s) exit_info1 \<noteq> 0; index = ucast (xframe s 1) in
      if 0x40000000 \<le> index \<and> index < (0x80000000 :: u32) then
        (case (if op_write then nvc_svm_wrmsr_nsvexit_handler e s else nvc_svm_rdmsr_nsvexit_handler s) of
           (no_exit, s1) \<Rightarrow> if no_exit then s1 else leave_guest e s1)
      else if option_set ''intercept_msr'' s then
        (if msr_intercepted s index then deliver_msr e op_write s else emulate_msr e op_write s)
      else s)"

end
