(* ===== verification/Cv_Dispatch.thy ===== *)
theory Cv_Dispatch
  imports Cv_Msr
begin

text \<open>
  The tables of exit handlers (\<open>svm_core/svm_exit.h\<close>) and the part of \<open>nvc_svm_exit_handler\<close>
  (\<open>svm_core/svm_exit.c\<close>) that handles the exit of a customizable virtual processor, on processors
  that assist the decoding and save the next instruction pointer, where the decoders do nothing.
\<close>

section \<open>Tables of handlers\<close>

type_synonym cvexit_handler = "exit_env \<Rightarrow> exit_world \<Rightarrow> exit_world option"

definition total :: "(exit_env \<Rightarrow> exit_world \<Rightarrow> exit_world) \<Rightarrow> cvexit_handler" where
  "total f = (\<lambda>e s. Some (f e s))"

definition unhandled :: "nat \<Rightarrow> cvexit_handler list" where
  "unhandled n = replicate n (total nvc_svm_default_cvexit_handler)"

definition svm_cvexit_handler_group1 :: "cvexit_handler list" where
  "svm_cvexit_handler_group1 =
     replicate 4 (total nvc_svm_cr_access_cvexit_handler) @ [total nvc_svm_cr4_read_cvexit_handler] @
     replicate 15 (total nvc_svm_cr_access_cvexit_handler) @ [total nvc_svm_cr4_write_cvexit_handler] @
     replicate 11 (total nvc_svm_cr_access_cvexit_handler) @
     replicate 32 (total nvc_svm_dr_access_cvexit_handler) @
     replicate 18 (total nvc_svm_exception_cvexit_handler) @ [total nvc_svm_mc_cvexit_handler] @
     replicate 11 (total nvc_svm_exception_cvexit_handler) @ [total nvc_svm_sx_cvexit_handler] @
     [total nvc_svm_exception_cvexit_handler,
      total nvc_svm_extint_cvexit_handler, total nvc_svm_nmi_cvexit_handler, total nvc_svm_smi_cvexit_handler] @
     unhandled 1 @ [total nvc_svm_virtint_cvexit_handler] @ unhandled 13 @
     [nvc_svm_cpuid_cvexit_handler] @ unhandled 1 @ [total nvc_svm_iret_cvexit_handler] @ unhandled 1 @
     [total nvc_svm_invd_cvexit_handler] @ unhandled 1 @ [total nvc_svm_hlt_cvexit_handler] @ unhandled 1 @
     [total nvc_svm_invlpga_cvexit_handler, total nvc_svm_io_cvexit_handler, total nvc_svm_msr_cvexit_handler] @
     unhandled 2 @
     [total nvc_svm_shutdown_cvexit_handler, total nvc_svm_vmrun_cvexit_handler, total nvc_svm_vmmcall_cvexit_handler,
      total nvc_svm_vmload_cvexit_handler, total nvc_svm_vmsave_cvexit_handler, total nvc_svm_stgi_cvexit_handler,
      total nvc_svm_clgi_cvexit_handler, total nvc_svm_skinit_cvexit_handler] @ unhandled 30"

text \<open>The two handlers of AVIC exits do nothing.\<close>

definition nvc_svm_incomplete_ipi_cvexit_handler :: "exit_env \<Rightarrow> exit_world \<Rightarrow> exit_world" where
  "nvc_svm_incomplete_ipi_cvexit_handler e s = s"

definition nvc_svm_unaccelerated_avic_cvexit_handler :: "exit_env \<Rightarrow> exit_world \<Rightarrow> exit_world" where
  "nvc_svm_unaccelerated_avic_cvexit_handler e s = s"

definition svm_cvexit_handler_group2 :: "cvexit_handler list" where
  "svm_cvexit_handler_group2 =
     [total nvc_svm_nested_pf_cvexit_handler, total nvc_svm_incomplete_ipi_cvexit_handler,
      total nvc_svm_unaccelerated_avic_cvexit_handler, total nvc_svm_default_cvexit_handler]"

text \<open>The third entry is not initialized, so it is null; the array has three entries.\<close>

definition svm_cvexit_handler_negative :: "cvexit_handler option list" where
  "svm_cvexit_handler_negative =
     [Some (total nvc_svm_invalid_state_cvexit_handler), Some (total nvc_svm_default_cvexit_handler), None]"

text \<open>The groups 2 and 3 are null pointers. \<open>None\<close> is a call through a null pointer or past a table.\<close>

definition svm_cvexit_handlers :: "u32 \<Rightarrow> cvexit_handler option" where
  "svm_cvexit_handlers code =
     (if bit code 31 then Option.bind (nth_opt svm_cvexit_handler_negative (unat (NOT code))) id
      else
        (let group = unat (drop_bit 10 (code AND 0xC00)); num = unat (code AND 0x3FF) in
         if group = 0 then nth_opt svm_cvexit_handler_group1 num
         else if group = 1 then nth_opt svm_cvexit_handler_group2 num
         else None))"

section \<open>An exit\<close>

definition begin_exit :: "exit_env \<Rightarrow> exit_world \<Rightarrow> exit_world" where
  "begin_exit e s =
     (let b = xvmcb s;
          s1 = s\<lparr>x_runtime := x_runtime s + (e_now e - x_runtime_start s), x_selector := St_scheduler\<rparr>;
          s2 = on_frame (\<lambda>f. f(0 := vmread64 b guest_rax)) s1;
          s3 = (if e_caching e then on_vmcb (\<lambda>b. vmwrite32 b vmcb_clean_bits 0xffffffff) s2 else s2);
          s4 = on_vmcb (\<lambda>b. vmwrite32 b tlb_control nvc_svm_tlb_control_do_nothing) s3;
          s5 = on_header (set_cache ''synchronized'' 0) s4
      in s5\<lparr>x_vcpu_state := bf_put noir_cvm_exit_vcpu_state ''loaded'' 0 (x_vcpu_state s5)\<rparr>)"

definition deliver_exit :: "exit_world \<Rightarrow> exit_world" where
  "deliver_exit s =
     (if nsv_guest (xw s) then s
      else if exit_intercept_code (xheader s) \<noteq> cv_scheduler_exit \<and> \<not> bf_flag noir_cvm_exit_vcpu_state ''loaded'' (x_vcpu_state s)
      then nvc_svm_load_basic_exit_context s
      else if x_rescission s then set_intercept cv_rescission (s\<lparr>x_rescission := False\<rparr>)
      else s)"

definition end_exit :: "exit_env \<Rightarrow> exit_world \<Rightarrow> exit_world" where
  "end_exit e s =
     (let s1 = (if ls_guest_vmcb_pa (loader (xw s)) = vmcb_phys (cvcpu (xw s))
                then on_vmcb (\<lambda>b. vmwrite64 b guest_rax (xframe s 0)) s else deliver_exit s);
          c = x_counter s1 (x_selector s1);
          s2 = s1\<lparr>x_counter := (x_counter s1)(x_selector s1 := (fst c + 1, snd c + (e_end e - e_now e)))\<rparr>
      in on_frame (\<lambda>f. f(0 := ls_guest_vmcb_pa (loader (xw s2)))) s2)"

definition nvc_svm_exit_handler :: "exit_env \<Rightarrow> exit_world \<Rightarrow> exit_world option" where
  "nvc_svm_exit_handler e s =
     (case svm_cvexit_handlers (vmread32 (xvmcb s) exit_code) of
        None \<Rightarrow> None
      | Some f \<Rightarrow> map_option (end_exit e) (f e (begin_exit e s)))"

section \<open>Which codes are handled\<close>

lemma group1_length: "length svm_cvexit_handler_group1 = 165"
  by (simp add: svm_cvexit_handler_group1_def unhandled_def)

end
