(* ===== verification/Cv_Laws.thy ===== *)
theory Cv_Laws
  imports Cv_Dispatch
begin

text \<open>
  What the steps of the exit handlers leave alone, and the two ways in which an exit ends: the guest
  goes on, or the host is entered.
\<close>

section \<open>Projections\<close>

lemma on_cv_parts [simp]:
  "cvcpu (xw (on_cv f s)) = f (cvcpu (xw s))" "loader (xw (on_cv f s)) = loader (xw s)"
  "host (xw (on_cv f s)) = host (xw s)" "frame (xw (on_cv f s)) = frame (xw s)"
  "nsv_guest (xw (on_cv f s)) = nsv_guest (xw s)" "x_union (on_cv f s) = x_union s"
  "x_nsvs (on_cv f s) = x_nsvs s" "x_mce (on_cv f s) = x_mce s" "x_selector (on_cv f s) = x_selector s"
  "x_rip (on_cv f s) = x_rip s" "x_rflags (on_cv f s) = x_rflags s" "x_cs (on_cv f s) = x_cs s"
  "x_vcpu_state (on_cv f s) = x_vcpu_state s" "x_quickpath (on_cv f s) = x_quickpath s"
  "x_vm_quickpath (on_cv f s) = x_vm_quickpath s" "x_next_rip (on_cv f s) = x_next_rip s"
  by (simp_all add: on_cv_def)

lemma on_frame_parts [simp]:
  "cvcpu (xw (on_frame g s)) = cvcpu (xw s)" "loader (xw (on_frame g s)) = loader (xw s)"
  "host (xw (on_frame g s)) = host (xw s)" "frame (xw (on_frame g s)) = g (frame (xw s))"
  "nsv_guest (xw (on_frame g s)) = nsv_guest (xw s)" "x_union (on_frame g s) = x_union s"
  "x_nsvs (on_frame g s) = x_nsvs s" "x_mce (on_frame g s) = x_mce s" "x_selector (on_frame g s) = x_selector s"
  "x_rip (on_frame g s) = x_rip s" "x_rflags (on_frame g s) = x_rflags s" "x_cs (on_frame g s) = x_cs s"
  "x_vcpu_state (on_frame g s) = x_vcpu_state s" "x_quickpath (on_frame g s) = x_quickpath s"
  "x_vm_quickpath (on_frame g s) = x_vm_quickpath s" "x_next_rip (on_frame g s) = x_next_rip s"
  by (simp_all add: on_frame_def)

lemma leave_guest_parts [simp]:
  "host (xw (leave_guest e s)) = host (xw s)" "frame (xw (leave_guest e s)) = h_gpr (host (xw s))"
  "nsv_guest (xw (leave_guest e s)) = nsv_guest (xw s)" "x_union (leave_guest e s) = x_union s"
  "ls_guest_vmcb_pa (loader (xw (leave_guest e s))) = h_vmcb_phys (host (xw s))"
  "ls_custom_vcpu (loader (xw (leave_guest e s))) = e_idle e"
  "x_nsvs (leave_guest e s) = x_nsvs s" "x_rip (leave_guest e s) = x_rip s"
  "x_rflags (leave_guest e s) = x_rflags s" "x_cs (leave_guest e s) = x_cs s"
  "x_vcpu_state (leave_guest e s) = x_vcpu_state s" "x_next_rip (leave_guest e s) = x_next_rip s"
  by (auto simp: leave_guest_def nvc_svm_switch_to_host_vcpu_def Let_def save_guest_def nvc_svm_nsv_save_guest_vcpu_def
      split: prod.splits)

lemma select_parts [simp]:
  "xw (select c s) = xw s" "x_union (select c s) = x_union s" "x_nsvs (select c s) = x_nsvs s"
  "x_rip (select c s) = x_rip s" "x_rflags (select c s) = x_rflags s" "x_cs (select c s) = x_cs s"
  "x_vcpu_state (select c s) = x_vcpu_state s" "x_selector (select c s) = c" "x_next_rip (select c s) = x_next_rip s"
  by (simp_all add: select_def)

lemma derived_updates:
  "on_header f = on_cv (\<lambda>cv. cv\<lparr>header := f (header cv)\<rparr>)" "on_vmcb g = on_cv (\<lambda>cv. cv\<lparr>vmcb := g (vmcb cv)\<rparr>)"
  "set_intercept c = on_cv (\<lambda>cv. cv\<lparr>header := (header cv)\<lparr>exit_intercept_code := c\<rparr>\<rparr>)"
  by (simp_all add: on_header_def on_vmcb_def set_intercept_def)

section \<open>How an exit ends\<close>

text \<open>Either the loader still runs the guest, or it runs the host with the registers of the host (or
  those of a processor that has received an INIT signal).\<close>

definition goes_on :: "exit_world \<Rightarrow> exit_world \<Rightarrow> bool" where
  "goes_on s s' \<longleftrightarrow> loader (xw s') = loader (xw s) \<and> host (xw s') = host (xw s)"

definition enters_host :: "exit_env \<Rightarrow> exit_world \<Rightarrow> exit_world \<Rightarrow> bool" where
  "enters_host e s s' \<longleftrightarrow> host (xw s') = host (xw s) \<and> ls_guest_vmcb_pa (loader (xw s')) = h_vmcb_phys (host (xw s)) \<and>
     ls_custom_vcpu (loader (xw s')) = e_idle e \<and>
     (frame (xw s') = h_gpr (host (xw s)) \<or> (\<forall>i < 16. frame (xw s') i = (if i = 2 then ucast (e_fms e) else 0)))"

abbreviation ends :: "exit_env \<Rightarrow> exit_world \<Rightarrow> exit_world \<Rightarrow> bool" where
  "ends e s s' \<equiv> goes_on s s' \<or> enters_host e s s'"

lemmas ends_simps = goes_on_def enters_host_def derived_updates Let_def

lemma inject_ends: "ends e s (nvc_svm_inject_cvm_exception e v ev ec a n f s)"
  by (simp add: nvc_svm_inject_cvm_exception_def ends_simps)

lemma inject_ud_ends: "ends e s (inject_ud e s)"
  unfolding inject_ud_def by (rule inject_ends)

lemma ends_on_cv: "ends e s (on_cv f t) \<longleftrightarrow> ends e s t" "ends e s (select c t) \<longleftrightarrow> ends e s t"
  by (simp_all add: goes_on_def enters_host_def)

lemma exception_ends: "ends e s (nvc_svm_exception_cvexit_handler e s)"
  by (simp add: nvc_svm_exception_cvexit_handler_def ends_simps)

lemma scheduler_ends:
  "ends e s (nvc_svm_default_cvexit_handler e s)" "ends e s (nvc_svm_mc_cvexit_handler e s)"
  "ends e s (nvc_svm_extint_cvexit_handler e s)" "ends e s (nvc_svm_nmi_cvexit_handler e s)"
  "ends e s (nvc_svm_smi_cvexit_handler e s)" "ends e s (nvc_svm_shutdown_cvexit_handler e s)"
  "ends e s (nvc_svm_invalid_state_cvexit_handler e s)"
  by (simp_all add: nvc_svm_default_cvexit_handler_def nvc_svm_mc_cvexit_handler_def nvc_svm_extint_cvexit_handler_def
      nvc_svm_nmi_cvexit_handler_def nvc_svm_smi_cvexit_handler_def nvc_svm_shutdown_cvexit_handler_def
      nvc_svm_invalid_state_cvexit_handler_def ends_simps)

lemma sx_ends: "ends e s (nvc_svm_sx_cvexit_handler e s)"
  by (simp add: nvc_svm_sx_cvexit_handler_def nvc_svm_emulate_init_signal_def init_signal_frame_def fun_eq_iff ends_simps)

lemma register_ends:
  "ends e s (nvc_svm_cr4_read_cvexit_handler e s)" "ends e s (nvc_svm_cr4_write_cvexit_handler e s)"
  "ends e s (nvc_svm_cr_access_cvexit_handler e s)" "ends e s (nvc_svm_dr_access_cvexit_handler e s)"
  by (simp_all add: nvc_svm_cr4_read_cvexit_handler_def nvc_svm_cr4_write_cvexit_handler_def
      nvc_svm_cr_access_cvexit_handler_def nvc_svm_dr_access_cvexit_handler_def ends_simps)

lemma window_ends:
  "ends e s (nvc_svm_virtint_cvexit_handler e s)" "ends e s (nvc_svm_iret_cvexit_handler e s)"
  by (simp_all add: nvc_svm_virtint_cvexit_handler_def nvc_svm_iret_cvexit_handler_def ends_simps)

lemma instruction_ends:
  "ends e s (nvc_svm_invd_cvexit_handler e s)" "ends e s (nvc_svm_hlt_cvexit_handler e s)"
  "ends e s (nvc_svm_vmmcall_cvexit_handler e s)"
  by (simp_all add: nvc_svm_invd_cvexit_handler_def nvc_svm_hlt_cvexit_handler_def nvc_svm_vmmcall_cvexit_handler_def ends_simps)

lemma svm_instruction_ends:
  "ends e s (nvc_svm_invlpga_cvexit_handler e s)" "ends e s (nvc_svm_vmrun_cvexit_handler e s)"
  "ends e s (nvc_svm_vmload_cvexit_handler e s)" "ends e s (nvc_svm_vmsave_cvexit_handler e s)"
  "ends e s (nvc_svm_stgi_cvexit_handler e s)" "ends e s (nvc_svm_clgi_cvexit_handler e s)"
  "ends e s (nvc_svm_skinit_cvexit_handler e s)"
  using inject_ud_ends
  by (simp_all add: nvc_svm_invlpga_cvexit_handler_def nvc_svm_vmrun_cvexit_handler_def nvc_svm_vmload_cvexit_handler_def
      nvc_svm_vmsave_cvexit_handler_def nvc_svm_stgi_cvexit_handler_def nvc_svm_clgi_cvexit_handler_def
      nvc_svm_skinit_cvexit_handler_def ends_on_cv)

lemma io_ends: "ends e s (nvc_svm_io_cvexit_handler e s)"
  by (simp add: nvc_svm_io_cvexit_handler_def nvc_svm_nsv_load_nae_synthetic_msr_state_def ends_simps)

lemma npf_ends: "ends e s (nvc_svm_nested_pf_cvexit_handler e s)"
  by (simp add: nvc_svm_nested_pf_cvexit_handler_def ends_simps)

lemma avic_ends:
  "ends e s (nvc_svm_incomplete_ipi_cvexit_handler e s)" "ends e s (nvc_svm_unaccelerated_avic_cvexit_handler e s)"
  by (simp_all add: nvc_svm_incomplete_ipi_cvexit_handler_def nvc_svm_unaccelerated_avic_cvexit_handler_def goes_on_def)

lemma cpuid_ends: "nvc_svm_cpuid_cvexit_handler e s = Some t \<Longrightarrow> ends e s t"
  by (auto simp: nvc_svm_cpuid_cvexit_handler_def nvc_svm_nsv_load_nae_synthetic_msr_state_def ends_simps
      split: if_splits option.splits prod.splits)

lemma nsv_msr_goes_on:
  "goes_on s (snd (nvc_svm_rdmsr_nsvexit_handler s))" "goes_on s (snd (nvc_svm_wrmsr_nsvexit_handler e s))"
proof -
  show "goes_on s (snd (nvc_svm_rdmsr_nsvexit_handler s))"
    by (simp add: nvc_svm_rdmsr_nsvexit_handler_def inject_gp_def ends_simps split: option.split)
  have "\<And>t. nsv_write e s i v = Inl t \<Longrightarrow> goes_on s t" "\<And>r t. nsv_write e s i v = Inr (r, t) \<Longrightarrow> goes_on s t" for i v
    by (auto simp: nsv_write_def nvc_svm_nsv_synchronize_activation_def ends_simps split: if_splits)
  then show "goes_on s (snd (nvc_svm_wrmsr_nsvexit_handler e s))"
    by (auto simp: nvc_svm_wrmsr_nsvexit_handler_def inject_gp_def derived_updates goes_on_def split: sum.split prod.split)
qed

lemma leave_after: "goes_on s t \<Longrightarrow> ends e s (leave_guest e t)"
  by (simp add: goes_on_def enters_host_def)

lemma emulate_msr_ends: "ends e s (emulate_msr e op s)"
proof -
  have step: "goes_on s (snd (if op then nvc_svm_wrmsr_cvexit_handler e s else nvc_svm_rdmsr_cvexit_handler e s))"
    by (simp add: nvc_svm_wrmsr_cvexit_handler_def nvc_svm_rdmsr_cvexit_handler_def ends_simps split: option.split)
  obtain a t where t: "(if op then nvc_svm_wrmsr_cvexit_handler e s else nvc_svm_rdmsr_cvexit_handler e s) = (a, t)"
    by (metis prod.exhaust)
  have "ends e s u" if "ends e (select St_emulation t) u" for u
    using that step t by (simp add: goes_on_def enters_host_def split: if_splits)
  then have "ends e s (inject_ud e (select St_emulation t))" using inject_ud_ends by blast
  then show ?thesis
    using step t by (cases a) (simp_all add: emulate_msr_def Let_def ends_on_cv)
qed

lemma deliver_msr_ends: "ends e s (deliver_msr e op s)"
  by (simp add: deliver_msr_def ends_simps)

lemma msr_ends: "ends e s (nvc_svm_msr_cvexit_handler e s)"
proof -
  define op where "op = (vmread8 (xvmcb s) exit_info1 \<noteq> 0)"
  obtain r t where t: "(if op then nvc_svm_wrmsr_nsvexit_handler e s else nvc_svm_rdmsr_nsvexit_handler s) = (r, t)"
    by (metis prod.exhaust)
  have g: "goes_on s t" using nsv_msr_goes_on [of s] t by (metis snd_conv)
  have synthetic: "ends e s (case (r, t) of (no_exit, s1) \<Rightarrow> if no_exit then s1 else leave_guest e s1)"
    using g leave_after [OF g] by simp
  have "goes_on s s" by (simp add: goes_on_def)
  then show ?thesis
    unfolding nvc_svm_msr_cvexit_handler_def Let_def op_def [symmetric] t
    using synthetic emulate_msr_ends deliver_msr_ends by (simp only: split: if_split) blast
qed

section \<open>Every handler\<close>

definition ends_well :: "cvexit_handler \<Rightarrow> bool" where
  "ends_well f \<longleftrightarrow> (\<forall>e s t. f e s = Some t \<longrightarrow> ends e s t)"

lemma total_ends: "(\<And>e s. ends e s (f e s)) \<Longrightarrow> ends_well (total f)"
  by (simp add: ends_well_def total_def)

lemmas handlers_end = total_ends [OF exception_ends] total_ends [OF scheduler_ends(1)] total_ends [OF scheduler_ends(2)]
  total_ends [OF scheduler_ends(3)] total_ends [OF scheduler_ends(4)] total_ends [OF scheduler_ends(5)]
  total_ends [OF scheduler_ends(6)] total_ends [OF scheduler_ends(7)] total_ends [OF sx_ends]
  total_ends [OF register_ends(1)] total_ends [OF register_ends(2)] total_ends [OF register_ends(3)]
  total_ends [OF register_ends(4)] total_ends [OF window_ends(1)] total_ends [OF window_ends(2)]
  total_ends [OF instruction_ends(1)] total_ends [OF instruction_ends(2)] total_ends [OF instruction_ends(3)]
  total_ends [OF svm_instruction_ends(1)] total_ends [OF svm_instruction_ends(2)] total_ends [OF svm_instruction_ends(3)]
  total_ends [OF svm_instruction_ends(4)] total_ends [OF svm_instruction_ends(5)] total_ends [OF svm_instruction_ends(6)]
  total_ends [OF svm_instruction_ends(7)] total_ends [OF io_ends] total_ends [OF npf_ends] total_ends [OF avic_ends(1)]
  total_ends [OF avic_ends(2)] total_ends [OF msr_ends]

lemma cpuid_handler_ends: "ends_well nvc_svm_cpuid_cvexit_handler"
  using cpuid_ends by (simp add: ends_well_def)

lemma group1_ends: "f \<in> set svm_cvexit_handler_group1 \<Longrightarrow> ends_well f"
  unfolding svm_cvexit_handler_group1_def unhandled_def
  using handlers_end cpuid_handler_ends by (simp only: set_append set_replicate_conv_if list.set Un_iff insert_iff empty_iff) auto

lemma group2_ends: "f \<in> set svm_cvexit_handler_group2 \<Longrightarrow> ends_well f"
  unfolding svm_cvexit_handler_group2_def using handlers_end by auto

lemma negative_ends: "Some f \<in> set svm_cvexit_handler_negative \<Longrightarrow> ends_well f"
  unfolding svm_cvexit_handler_negative_def using handlers_end by auto

lemma dispatched_member:
  assumes "svm_cvexit_handlers code = Some f"
  shows "Some f \<in> set svm_cvexit_handler_negative \<or> f \<in> set svm_cvexit_handler_group1 \<or> f \<in> set svm_cvexit_handler_group2"
proof (cases "bit code 31")
  case True
  then have "Some f \<in> set svm_cvexit_handler_negative"
    using assms by (auto simp: svm_cvexit_handlers_def bind_eq_Some_conv in_set_conv_nth)
  then show ?thesis by blast
next
  case False
  then show ?thesis
    using assms by (auto simp: svm_cvexit_handlers_def Let_def split: if_splits)
qed

lemma dispatched_ends: "svm_cvexit_handlers code = Some f \<Longrightarrow> ends_well f"
  using dispatched_member group1_ends group2_ends negative_ends by blast

end
