(* ===== verification/Cv_Secure.thy ===== *)
theory Cv_Secure
  imports Cv_Laws
begin

text \<open>
  What the user hypervisor sees of a secure guest: no exit writes a register of the guest into the
  structure of the virtual processor or into the exit context, except the guest's own request to
  deactivate its protection.
\<close>

definition hidden :: "exit_world \<Rightarrow> exit_world \<Rightarrow> bool" where
  "hidden s t \<longleftrightarrow> nsv_guest (xw t) = nsv_guest (xw s) \<and>
     gpr (xheader t) = gpr (xheader s) \<and> drs (xheader t) = drs (xheader s) \<and>
     cr3 (xheader t) = cr3 (xheader s) \<and> xcr0 (xheader t) = xcr0 (xheader s) \<and>
     rip (xheader t) = rip (xheader s) \<and> rflags (xheader t) = rflags (xheader s) \<and>
     x_cs t = x_cs s \<and> x_rip t = x_rip s \<and> x_rflags t = x_rflags s \<and> x_next_rip t = x_next_rip s"

lemma hidden_refl: "hidden s s"
  by (simp add: hidden_def)

lemma hidden_trans: "hidden s t \<Longrightarrow> hidden t u \<Longrightarrow> hidden s u"
  by (simp add: hidden_def)

lemma hidden_leave: "nsv_guest (xw s) \<Longrightarrow> hidden s (leave_guest e s)"
  by (auto simp: hidden_def leave_guest_def nvc_svm_switch_to_host_vcpu_def Let_def save_guest_def
      nvc_svm_nsv_save_guest_vcpu_def save_event_def split: prod.splits)

lemma hidden_steps:
  "hidden s (on_vmcb f t) \<longleftrightarrow> hidden s t" "hidden s (select c t) \<longleftrightarrow> hidden s t" "hidden s (set_intercept i t) \<longleftrightarrow> hidden s t"
  "hidden s (on_frame g t) \<longleftrightarrow> hidden s t" "hidden s (t\<lparr>x_union := u\<rparr>) \<longleftrightarrow> hidden s t" "hidden s (t\<lparr>x_nsvs := n\<rparr>) \<longleftrightarrow> hidden s t"
  "hidden s (t\<lparr>x_mce := b\<rparr>) \<longleftrightarrow> hidden s t" "hidden s (on_cv (\<lambda>cv. cv\<lparr>prev_virq := b\<rparr>) t) \<longleftrightarrow> hidden s t"
  "hidden s (on_cv (\<lambda>cv. cv\<lparr>prev_nmi := b\<rparr>) t) \<longleftrightarrow> hidden s t" "hidden s (on_cv (\<lambda>cv. cv\<lparr>shadow_svme := b\<rparr>) t) \<longleftrightarrow> hidden s t"
  "hidden s (on_cv (\<lambda>cv. cv\<lparr>vmsa := n1\<rparr>) t) \<longleftrightarrow> hidden s t" "hidden s (t\<lparr>x_nsv_xstate := b1\<rparr>) \<longleftrightarrow> hidden s t"
  "hidden s (t\<lparr>x_claim_start := q\<rparr>) \<longleftrightarrow> hidden s t" "hidden s (t\<lparr>x_claim_end := q\<rparr>) \<longleftrightarrow> hidden s t"
  "hidden s (on_header (\<lambda>h. h\<lparr>injected_event := i\<rparr>) t) \<longleftrightarrow> hidden s t"
  "hidden s (on_header (\<lambda>h. h\<lparr>ghcb := q\<rparr>) t) \<longleftrightarrow> hidden s t" "hidden s (on_header (\<lambda>h. h\<lparr>apic_bar := q\<rparr>) t) \<longleftrightarrow> hidden s t"
  by (simp_all add: hidden_def derived_updates)

lemma hidden_event: "hidden s (on_header (\<lambda>h. h\<lparr>injected_event := k h\<rparr>) t) \<longleftrightarrow> hidden s t"
  by (simp add: hidden_def derived_updates)

lemma nsv_parts [simp]:
  "nsv_guest (xw (on_vmcb f s)) = nsv_guest (xw s)" "nsv_guest (xw (set_intercept i s)) = nsv_guest (xw s)"
  "nsv_guest (xw (on_header h s)) = nsv_guest (xw s)"
  by (simp_all add: derived_updates)

lemmas hides = hidden_steps hidden_event hidden_leave hidden_refl

lemma hidden_inject:
  "nsv_guest (xw s) \<Longrightarrow> hidden s (nvc_svm_inject_cvm_exception e v ev ec a n f s)"
  by (simp add: nvc_svm_inject_cvm_exception_def Let_def hides)

lemma hidden_scheduler:
  assumes "nsv_guest (xw s)"
  shows "hidden s (nvc_svm_default_cvexit_handler e s)" "hidden s (nvc_svm_mc_cvexit_handler e s)"
    "hidden s (nvc_svm_extint_cvexit_handler e s)" "hidden s (nvc_svm_nmi_cvexit_handler e s)"
    "hidden s (nvc_svm_smi_cvexit_handler e s)" "hidden s (nvc_svm_shutdown_cvexit_handler e s)"
    "hidden s (nvc_svm_invalid_state_cvexit_handler e s)" "hidden s (nvc_svm_exception_cvexit_handler e s)"
  using assms
  by (simp_all add: nvc_svm_default_cvexit_handler_def nvc_svm_mc_cvexit_handler_def nvc_svm_extint_cvexit_handler_def
      nvc_svm_nmi_cvexit_handler_def nvc_svm_smi_cvexit_handler_def nvc_svm_shutdown_cvexit_handler_def
      nvc_svm_invalid_state_cvexit_handler_def nvc_svm_exception_cvexit_handler_def Let_def hides)

lemma hidden_sx: "nsv_guest (xw s) \<Longrightarrow> hidden s (nvc_svm_sx_cvexit_handler e s)"
proof -
  assume n: "nsv_guest (xw s)"
  have "hidden t (nvc_svm_emulate_init_signal e t)" for t
    by (simp add: nvc_svm_emulate_init_signal_def Let_def hidden_def)
  from hidden_trans [OF _ this] show ?thesis
    using n by (simp add: nvc_svm_sx_cvexit_handler_def Let_def hides)
qed

lemma hidden_register:
  assumes "nsv_guest (xw s)"
  shows "hidden s (nvc_svm_cr4_read_cvexit_handler e s)" "hidden s (nvc_svm_cr4_write_cvexit_handler e s)"
    "hidden s (nvc_svm_cr_access_cvexit_handler e s)" "hidden s (nvc_svm_dr_access_cvexit_handler e s)"
  using assms
  by (simp_all add: nvc_svm_cr4_read_cvexit_handler_def nvc_svm_cr4_write_cvexit_handler_def
      nvc_svm_cr_access_cvexit_handler_def nvc_svm_dr_access_cvexit_handler_def Let_def hides)

lemma hidden_after: "hidden s t \<Longrightarrow> nsv_guest (xw s) \<Longrightarrow> hidden s (leave_guest e t)"
  using hidden_trans [OF _ hidden_leave] by (simp add: hidden_def)

lemma hidden_window:
  assumes "nsv_guest (xw s)"
  shows "hidden s (nvc_svm_virtint_cvexit_handler e s)" "hidden s (nvc_svm_iret_cvexit_handler e s)"
  using assms
  by (simp_all add: nvc_svm_virtint_cvexit_handler_def nvc_svm_iret_cvexit_handler_def Let_def hides hidden_after)

lemma hidden_nae: "hidden s (nvc_svm_nsv_load_nae_synthetic_msr_state s)"
  by (simp add: nvc_svm_nsv_load_nae_synthetic_msr_state_def Let_def hides)

lemma hidden_instruction:
  assumes "nsv_guest (xw s)"
  shows "hidden s (nvc_svm_invd_cvexit_handler e s)" "hidden s (nvc_svm_hlt_cvexit_handler e s)"
    "hidden s (nvc_svm_vmmcall_cvexit_handler e s)" "hidden s (nvc_svm_nested_pf_cvexit_handler e s)"
  using assms
  by (simp_all add: nvc_svm_invd_cvexit_handler_def nvc_svm_hlt_cvexit_handler_def nvc_svm_vmmcall_cvexit_handler_def
      nvc_svm_nested_pf_cvexit_handler_def Let_def hides)

lemma hidden_svm_instruction:
  assumes "nsv_guest (xw s)"
  shows "hidden s (nvc_svm_invlpga_cvexit_handler e s)" "hidden s (nvc_svm_vmrun_cvexit_handler e s)"
    "hidden s (nvc_svm_vmload_cvexit_handler e s)" "hidden s (nvc_svm_vmsave_cvexit_handler e s)"
    "hidden s (nvc_svm_stgi_cvexit_handler e s)" "hidden s (nvc_svm_clgi_cvexit_handler e s)"
    "hidden s (nvc_svm_skinit_cvexit_handler e s)"
  using hidden_inject [OF assms]
  by (simp_all add: nvc_svm_invlpga_cvexit_handler_def nvc_svm_vmrun_cvexit_handler_def nvc_svm_vmload_cvexit_handler_def
      nvc_svm_vmsave_cvexit_handler_def nvc_svm_stgi_cvexit_handler_def nvc_svm_clgi_cvexit_handler_def
      nvc_svm_skinit_cvexit_handler_def inject_ud_def hides)

lemma hidden_io: "nsv_guest (xw s) \<Longrightarrow> hidden s (nvc_svm_io_cvexit_handler e s)"
proof -
  assume n: "nsv_guest (xw s)"
  have "hidden s (nvc_svm_nsv_load_nae_synthetic_msr_state (s\<lparr>x_union := u\<rparr>))" for u
    using hidden_trans [OF _ hidden_nae] by (simp add: hides)
  then show ?thesis using n by (simp add: nvc_svm_io_cvexit_handler_def Let_def hides)
qed

lemma hidden_cpuid: "nsv_guest (xw s) \<Longrightarrow> nvc_svm_cpuid_cvexit_handler e s = Some t \<Longrightarrow> hidden s t"
  using hidden_nae [of s]
  by (auto simp: nvc_svm_cpuid_cvexit_handler_def Let_def hides split: if_splits option.splits prod.splits)

section \<open>Model-specific registers\<close>

definition deactivates :: "exit_world \<Rightarrow> bool" where
  "deactivates s \<longleftrightarrow> vmread8 (xvmcb s) exit_info1 \<noteq> 0 \<and> ucast (xframe s 1) = nsv_msr_activation \<and>
     \<not> bf_flag noir_nsv_activation_context ''activation'' (msr_operand s)"

text \<open>Advancing the wrong pointer writes the structure of the virtual processor at the offsets of the
  instruction pointer (\<open>0x578\<close>) and of the injected event (\<open>0xA8\<close>) of a control block, where none of
  these registers is; the control block is a page of its own.\<close>

definition scribble_hidden :: "exit_env \<Rightarrow> bool" where
  "scribble_hidden e \<longleftrightarrow> (\<forall>cv. let h = header (e_scribble e cv); g = header cv in
     vmcb (e_scribble e cv) = vmcb cv \<and> vmcb_phys (e_scribble e cv) = vmcb_phys cv \<and>
     gpr h = gpr g \<and> drs h = drs g \<and> cr3 h = cr3 g \<and> xcr0 h = xcr0 g \<and> rip h = rip g \<and> rflags h = rflags g)"

lemma hidden_nsv_write:
  assumes "nsv_guest (xw s)" "\<not> (i = nsv_msr_activation \<and> \<not> bf_flag noir_nsv_activation_context ''activation'' v)"
  shows "\<And>t. nsv_write e s i v = Inl t \<Longrightarrow> hidden s t" "\<And>r t. nsv_write e s i v = Inr (r, t) \<Longrightarrow> hidden s t"
  using assms by (auto simp: nsv_write_def nvc_svm_nsv_synchronize_activation_def Let_def hides split: if_splits)

lemma hidden_msr:
  assumes "nsv_guest (xw s)" "\<not> deactivates s" "scribble_hidden e"
  shows "hidden s (nvc_svm_msr_cvexit_handler e s)"
proof -
  define op where "op = (vmread8 (xvmcb s) exit_info1 \<noteq> 0)"
  define i :: u32 where "i = ucast (xframe s 1)"
  have "hidden s (snd (nvc_svm_wrmsr_nsvexit_handler e s))" if op
  proof -
    have "\<not> (i = nsv_msr_activation \<and> \<not> bf_flag noir_nsv_activation_context ''activation'' (msr_operand s))"
      using assms(2) that by (simp add: deactivates_def op_def i_def)
    from hidden_nsv_write [OF assms(1) this, of e] show ?thesis
      by (auto simp: nvc_svm_wrmsr_nsvexit_handler_def inject_gp_def hides i_def split: sum.split prod.split)
  qed
  moreover have "hidden s (snd (nvc_svm_rdmsr_nsvexit_handler s))"
    by (simp add: nvc_svm_rdmsr_nsvexit_handler_def inject_gp_def hides split: option.split)
  ultimately have synthetic: "hidden s (case (if op then nvc_svm_wrmsr_nsvexit_handler e s else nvc_svm_rdmsr_nsvexit_handler s) of
      (no_exit, s1) \<Rightarrow> if no_exit then s1 else leave_guest e s1)"
    using hidden_after [OF _ assms(1)] by (auto split: prod.splits)
  have emulated: "hidden s (emulate_msr e op s)"
  proof -
    obtain a t where t: "(if op then nvc_svm_wrmsr_cvexit_handler e s else nvc_svm_rdmsr_cvexit_handler e s) = (a, t)"
      by (metis prod.exhaust)
    have "hidden s (snd (if op then nvc_svm_wrmsr_cvexit_handler e s else nvc_svm_rdmsr_cvexit_handler e s))"
      by (simp add: nvc_svm_wrmsr_cvexit_handler_def nvc_svm_rdmsr_cvexit_handler_def Let_def hides split: option.split)
    then have h: "hidden s (select St_emulation t)" using t by (simp add: hides)
    moreover have "nsv_guest (xw (select St_emulation t))" using h assms(1) by (simp add: hidden_def)
    ultimately have "hidden s (inject_ud e (select St_emulation t))"
      using hidden_trans hidden_inject by (simp add: inject_ud_def)
    moreover have "hidden u (on_cv (e_scribble e) u)" for u
      using assms(3) by (simp add: scribble_hidden_def Let_def hidden_def)
    ultimately show ?thesis
      using t h hidden_trans [OF h] by (simp add: emulate_msr_def Let_def)
  qed
  have delivered: "hidden s (deliver_msr e op s)"
    using assms(1) by (simp add: deliver_msr_def Let_def hides)
  show ?thesis
    unfolding nvc_svm_msr_cvexit_handler_def Let_def op_def [symmetric]
    using synthetic emulated delivered hidden_refl by (simp only: split: if_split) blast
qed

section \<open>Every handler\<close>

definition hiding :: "exit_env \<Rightarrow> exit_world \<Rightarrow> cvexit_handler \<Rightarrow> bool" where
  "hiding e s f \<longleftrightarrow> (\<forall>t. f e s = Some t \<longrightarrow> hidden s t)"

lemma total_hiding: "hidden s (f e s) \<Longrightarrow> hiding e s (total f)"
  by (simp add: hiding_def total_def)

lemma dispatched_hiding:
  assumes "svm_cvexit_handlers code = Some f" "nsv_guest (xw s)" "\<not> deactivates s" "scribble_hidden e"
  shows "hiding e s f"
proof -
  note all = hidden_scheduler [OF assms(2)] hidden_sx [OF assms(2)] hidden_register [OF assms(2)]
    hidden_window [OF assms(2)] hidden_instruction [OF assms(2)] hidden_svm_instruction [OF assms(2)]
    hidden_io [OF assms(2)] hidden_msr [OF assms(2-4)]
  have cpuid: "hiding e s nvc_svm_cpuid_cvexit_handler" using hidden_cpuid [OF assms(2)] by (simp add: hiding_def)
  have avic: "hiding e s (total nvc_svm_incomplete_ipi_cvexit_handler)" "hiding e s (total nvc_svm_unaccelerated_avic_cvexit_handler)"
    by (simp_all add: hiding_def total_def nvc_svm_incomplete_ipi_cvexit_handler_def nvc_svm_unaccelerated_avic_cvexit_handler_def hidden_refl)
  have "Some f \<in> set svm_cvexit_handler_negative \<or> f \<in> set svm_cvexit_handler_group1 \<or> f \<in> set svm_cvexit_handler_group2"
    using dispatched_member [OF assms(1)] .
  then show ?thesis
  proof (elim disjE)
    assume "Some f \<in> set svm_cvexit_handler_negative"
    then show ?thesis unfolding svm_cvexit_handler_negative_def by (auto intro!: total_hiding all)
  next
    assume "f \<in> set svm_cvexit_handler_group1"
    then show ?thesis
      unfolding svm_cvexit_handler_group1_def unhandled_def
      by (simp only: set_append set_replicate_conv_if list.set Un_iff insert_iff empty_iff) (auto intro!: total_hiding all cpuid)
  next
    assume "f \<in> set svm_cvexit_handler_group2"
    then show ?thesis unfolding svm_cvexit_handler_group2_def by (auto intro!: total_hiding all avic)
  qed
qed

end
