(* ===== verification/Cv_Capture.thy ===== *)
theory Cv_Capture
  imports Cv_Laws
begin

text \<open>
  What the user hypervisor gets of an ordinary guest: whenever an exit enters the host, the structure
  of the virtual processor holds the registers with which the guest left.
\<close>

section \<open>Saved registers\<close>

definition saved :: "exit_world \<Rightarrow> noir_cvm_virtual_cpu \<Rightarrow> bool" where
  "saved s h \<longleftrightarrow> gpr h = (xframe s)(0 := vmread64 (xvmcb s) guest_rax, 4 := vmread64 (xvmcb s) guest_rsp) \<and>
     (\<forall>i < 4. drs h i = pr_dr (cpu (xw s)) i) \<and> xcr0 h = pr_xcr0 (cpu (xw s)) \<and> xsave_area h = pr_fpu (cpu (xw s))"

definition captured :: "exit_world \<Rightarrow> exit_world \<Rightarrow> bool" where
  "captured s t \<longleftrightarrow> loader (xw t) = loader (xw s) \<or> saved s (xheader t)"

lemma captured_stays: "loader (xw t) = loader (xw s) \<Longrightarrow> captured s t"
  by (simp add: captured_def)

lemma saved_leave: "\<not> nsv_guest (xw s) \<Longrightarrow> saved s (xheader (leave_guest e s))"
  by (auto simp: saved_def leave_guest_def nvc_svm_switch_to_host_vcpu_def Let_def save_guest_def save_event_def)

text \<open>A state that differs where nothing is saved from.\<close>

definition same_registers :: "exit_world \<Rightarrow> exit_world \<Rightarrow> bool" where
  "same_registers s t \<longleftrightarrow> nsv_guest (xw t) = nsv_guest (xw s) \<and> xframe t = xframe s \<and> cpu (xw t) = cpu (xw s) \<and>
     vmread64 (xvmcb t) guest_rax = vmread64 (xvmcb s) guest_rax \<and> vmread64 (xvmcb t) guest_rsp = vmread64 (xvmcb s) guest_rsp"

lemma captured_leave:
  assumes "\<not> nsv_guest (xw s)" "same_registers s t"
  shows "captured s (leave_guest e t)"
proof -
  have "saved t (xheader (leave_guest e t))" using assms by (simp add: saved_leave same_registers_def)
  then show ?thesis using assms(2) by (simp add: captured_def saved_def same_registers_def)
qed

lemma same_refl: "same_registers s s"
  by (simp add: same_registers_def)

lemma cpu_on_cv [simp]: "cpu (xw (on_cv f s)) = cpu (xw s)"
  by (simp add: on_cv_def)

lemma captured_steps:
  "captured s (on_vmcb f t) \<longleftrightarrow> captured s t" "captured s (select c t) \<longleftrightarrow> captured s t" "captured s (set_intercept i t) \<longleftrightarrow> captured s t"
  "captured s (on_frame g t) \<longleftrightarrow> captured s t" "captured s (t\<lparr>x_union := u\<rparr>) \<longleftrightarrow> captured s t" "captured s (t\<lparr>x_nsvs := n\<rparr>) \<longleftrightarrow> captured s t"
  "captured s (t\<lparr>x_mce := b\<rparr>) \<longleftrightarrow> captured s t" "captured s (on_cv (\<lambda>cv. cv\<lparr>prev_virq := b\<rparr>) t) \<longleftrightarrow> captured s t"
  "captured s (on_cv (\<lambda>cv. cv\<lparr>prev_nmi := b\<rparr>) t) \<longleftrightarrow> captured s t" "captured s (on_cv (\<lambda>cv. cv\<lparr>shadow_svme := b\<rparr>) t) \<longleftrightarrow> captured s t"
  "captured s (t\<lparr>x_host_vmcb := b1\<rparr>) \<longleftrightarrow> captured s t"
  "captured s (on_header (\<lambda>h. h\<lparr>injected_event := k h\<rparr>) t) \<longleftrightarrow> captured s t"
  by (simp_all add: captured_def saved_def derived_updates)

lemma captured_now: "\<not> nsv_guest (xw s) \<Longrightarrow> captured s (leave_guest e s)"
  by (simp add: captured_leave same_refl)

lemmas captures = captured_steps captured_now captured_stays

section \<open>The handlers\<close>

lemma captured_inject:
  assumes "\<not> nsv_guest (xw s)"
  shows "captured s (nvc_svm_inject_cvm_exception e v ev ec a n f s)"
proof (cases "noir_bt (exception_bitmap (xheader s)) v")
  case True
  then show ?thesis using assms by (simp add: nvc_svm_inject_cvm_exception_def Let_def captures)
next
  case False
  then show ?thesis by (intro captured_stays) (simp add: nvc_svm_inject_cvm_exception_def Let_def derived_updates)
qed

lemma captured_scheduler:
  assumes "\<not> nsv_guest (xw s)"
  shows "captured s (nvc_svm_default_cvexit_handler e s)" "captured s (nvc_svm_mc_cvexit_handler e s)"
    "captured s (nvc_svm_extint_cvexit_handler e s)" "captured s (nvc_svm_nmi_cvexit_handler e s)"
    "captured s (nvc_svm_smi_cvexit_handler e s)" "captured s (nvc_svm_shutdown_cvexit_handler e s)"
    "captured s (nvc_svm_invalid_state_cvexit_handler e s)" "captured s (nvc_svm_exception_cvexit_handler e s)"
  using assms
  by (simp_all add: nvc_svm_default_cvexit_handler_def nvc_svm_mc_cvexit_handler_def nvc_svm_extint_cvexit_handler_def
      nvc_svm_nmi_cvexit_handler_def nvc_svm_smi_cvexit_handler_def nvc_svm_shutdown_cvexit_handler_def
      nvc_svm_invalid_state_cvexit_handler_def nvc_svm_exception_cvexit_handler_def Let_def captures)

lemma captured_sx: "\<not> nsv_guest (xw s) \<Longrightarrow> captured s (nvc_svm_sx_cvexit_handler e s)"
proof -
  assume n: "\<not> nsv_guest (xw s)"
  have "captured s (nvc_svm_emulate_init_signal e t) \<longleftrightarrow> captured s t" for t
    by (simp add: nvc_svm_emulate_init_signal_def Let_def captured_def saved_def)
  then show ?thesis using n by (simp add: nvc_svm_sx_cvexit_handler_def Let_def captures)
qed

lemma captured_register:
  assumes "\<not> nsv_guest (xw s)"
  shows "captured s (nvc_svm_cr4_read_cvexit_handler e s)" "captured s (nvc_svm_cr4_write_cvexit_handler e s)"
    "captured s (nvc_svm_cr_access_cvexit_handler e s)" "captured s (nvc_svm_dr_access_cvexit_handler e s)"
  using assms
  by (simp_all add: nvc_svm_cr4_read_cvexit_handler_def nvc_svm_cr4_write_cvexit_handler_def
      nvc_svm_cr_access_cvexit_handler_def nvc_svm_dr_access_cvexit_handler_def Let_def captures)

lemma captured_window:
  assumes "\<not> nsv_guest (xw s)"
  shows "captured s (nvc_svm_virtint_cvexit_handler e s)" "captured s (nvc_svm_iret_cvexit_handler e s)"
proof -
  have vmcb_field: "same_registers s (on_cv (\<lambda>cv. cv\<lparr>prev_virq := b\<rparr>) (on_vmcb (\<lambda>m. clean k (vmcb_bts32
        (noir_svm_inject_event m v ty ev va ec) avic_control j)) s))" for b k v ty ev va ec j
    by (simp add: same_registers_def derived_updates clean_def noir_svm_inject_event_def Let_def vmwrite_wr vmcb vmcb_offsets)
  have reset: "same_registers s (on_vmcb (\<lambda>m. clean k (vmcb_btr32 (vmcb_btr32 m avic_control i) avic_control j)) s)" for k i j
    by (simp add: same_registers_def derived_updates clean_def vmwrite_wr vmcb vmcb_offsets)
  show "captured s (nvc_svm_virtint_cvexit_handler e s)"
    using assms captured_leave [OF assms vmcb_field] captured_leave [OF assms reset] by (simp add: nvc_svm_virtint_cvexit_handler_def Let_def captures)
  have "same_registers s (on_cv (\<lambda>cv. cv\<lparr>prev_nmi := b\<rparr>) s)" for b
    by (simp add: same_registers_def)
  from captured_leave [OF assms this] show "captured s (nvc_svm_iret_cvexit_handler e s)"
    using assms by (simp add: nvc_svm_iret_cvexit_handler_def Let_def captures)
qed

lemma same_union: "same_registers s (s\<lparr>x_union := u\<rparr>)"
  by (simp add: same_registers_def)

lemma captured_instruction:
  assumes "\<not> nsv_guest (xw s)"
  shows "captured s (nvc_svm_invd_cvexit_handler e s)" "captured s (nvc_svm_hlt_cvexit_handler e s)"
    "captured s (nvc_svm_vmmcall_cvexit_handler e s)" "captured s (nvc_svm_nested_pf_cvexit_handler e s)"
    "captured s (nvc_svm_io_cvexit_handler e s)"
  using assms captured_leave [OF assms same_union]
  by (simp_all add: nvc_svm_invd_cvexit_handler_def nvc_svm_hlt_cvexit_handler_def nvc_svm_vmmcall_cvexit_handler_def
      nvc_svm_nested_pf_cvexit_handler_def nvc_svm_io_cvexit_handler_def Let_def captures)

lemma captured_svm_instruction:
  assumes "\<not> nsv_guest (xw s)"
  shows "captured s (nvc_svm_invlpga_cvexit_handler e s)" "captured s (nvc_svm_vmrun_cvexit_handler e s)"
    "captured s (nvc_svm_vmload_cvexit_handler e s)" "captured s (nvc_svm_vmsave_cvexit_handler e s)"
    "captured s (nvc_svm_stgi_cvexit_handler e s)" "captured s (nvc_svm_clgi_cvexit_handler e s)"
    "captured s (nvc_svm_skinit_cvexit_handler e s)"
  using captured_inject [OF assms]
  by (simp_all add: nvc_svm_invlpga_cvexit_handler_def nvc_svm_vmrun_cvexit_handler_def nvc_svm_vmload_cvexit_handler_def
      nvc_svm_vmsave_cvexit_handler_def nvc_svm_stgi_cvexit_handler_def nvc_svm_clgi_cvexit_handler_def
      nvc_svm_skinit_cvexit_handler_def inject_ud_def captures)

lemma captured_cpuid: "\<not> nsv_guest (xw s) \<Longrightarrow> nvc_svm_cpuid_cvexit_handler e s = Some t \<Longrightarrow> captured s t"
  by (auto simp: nvc_svm_cpuid_cvexit_handler_def Let_def captures split: if_splits option.splits prod.splits)

section \<open>Model-specific registers\<close>

lemma captured_nsv_write:
  assumes "\<not> nsv_guest (xw s)" "nsv_write e s i v = Inr (False, t)"
  shows "same_registers s (on_vmcb noir_svm_advance_rip t)"
  using assms
  by (auto simp: nsv_write_def nvc_svm_nsv_synchronize_activation_def Let_def same_registers_def derived_updates
      noir_svm_advance_rip_def noir_svm_inject_event_def vmwrite_wr vmcb vmcb_offsets split: if_splits)

lemma refused_msr:
  "nvc_svm_wrmsr_cvexit_handler e s = (False, t) \<Longrightarrow> t = s" "nvc_svm_rdmsr_cvexit_handler e s = (False, t) \<Longrightarrow> t = s"
  by (auto simp: nvc_svm_wrmsr_cvexit_handler_def nvc_svm_rdmsr_cvexit_handler_def Let_def split: if_splits option.splits)

lemma captured_emulate:
  assumes "\<not> nsv_guest (xw s)"
  shows "captured s (emulate_msr e op s)"
proof -
  obtain a t where t: "(if op then nvc_svm_wrmsr_cvexit_handler e s else nvc_svm_rdmsr_cvexit_handler e s) = (a, t)"
    by (metis prod.exhaust)
  show ?thesis
  proof (cases a)
    case True
    have "goes_on s (snd (if op then nvc_svm_wrmsr_cvexit_handler e s else nvc_svm_rdmsr_cvexit_handler e s))"
      by (simp add: nvc_svm_wrmsr_cvexit_handler_def nvc_svm_rdmsr_cvexit_handler_def ends_simps split: option.split)
    then show ?thesis
      using t True by (intro captured_stays) (simp add: emulate_msr_def goes_on_def)
  next
    case False
    then have "t = s" using t refused_msr by (cases op) auto
    moreover have "captured (select St_emulation s) (inject_ud e (select St_emulation s))"
      using captured_inject assms by (simp add: inject_ud_def)
    ultimately show ?thesis
      using t False by (simp add: emulate_msr_def captured_def saved_def)
  qed
qed

lemma captured_msr:
  assumes "\<not> nsv_guest (xw s)"
  shows "captured s (nvc_svm_msr_cvexit_handler e s)"
proof -
  define op where "op = (vmread8 (xvmcb s) exit_info1 \<noteq> 0)"
  obtain r t where t: "(if op then nvc_svm_wrmsr_nsvexit_handler e s else nvc_svm_rdmsr_nsvexit_handler s) = (r, t)"
    by (metis prod.exhaust)
  have "goes_on s t" using nsv_msr_goes_on [of s] t by (metis snd_conv)
  then have on: "captured s t" by (intro captured_stays) (simp add: goes_on_def)
  have "same_registers s t" if "\<not> r"
    using t that captured_nsv_write [OF assms]
    by (auto simp: nvc_svm_wrmsr_nsvexit_handler_def nvc_svm_rdmsr_nsvexit_handler_def split: if_splits sum.splits option.splits prod.splits)
  then have synthetic: "captured s (case (r, t) of (no_exit, s1) \<Rightarrow> if no_exit then s1 else leave_guest e s1)"
    using on captured_leave [OF assms] by simp
  have "captured s (deliver_msr e op s)"
    using assms by (simp add: deliver_msr_def Let_def captures)
  then show ?thesis
    unfolding nvc_svm_msr_cvexit_handler_def Let_def op_def [symmetric] t
    using synthetic captured_emulate [OF assms] captured_stays [OF refl] by (simp only: split: if_split) blast
qed

section \<open>Every handler\<close>

definition capturing :: "exit_env \<Rightarrow> exit_world \<Rightarrow> cvexit_handler \<Rightarrow> bool" where
  "capturing e s f \<longleftrightarrow> (\<forall>t. f e s = Some t \<longrightarrow> captured s t)"

lemma total_capturing: "captured s (f e s) \<Longrightarrow> capturing e s (total f)"
  by (simp add: capturing_def total_def)

lemma dispatched_capturing:
  assumes "svm_cvexit_handlers code = Some f" "\<not> nsv_guest (xw s)"
  shows "capturing e s f"
proof -
  note all = captured_scheduler [OF assms(2)] captured_sx [OF assms(2)] captured_register [OF assms(2)]
    captured_window [OF assms(2)] captured_instruction [OF assms(2)] captured_svm_instruction [OF assms(2)]
    captured_msr [OF assms(2)]
  have cpuid: "capturing e s nvc_svm_cpuid_cvexit_handler" using captured_cpuid [OF assms(2)] by (simp add: capturing_def)
  have avic: "capturing e s (total nvc_svm_incomplete_ipi_cvexit_handler)" "capturing e s (total nvc_svm_unaccelerated_avic_cvexit_handler)"
    by (simp_all add: capturing_def total_def nvc_svm_incomplete_ipi_cvexit_handler_def nvc_svm_unaccelerated_avic_cvexit_handler_def captured_stays)
  have "Some f \<in> set svm_cvexit_handler_negative \<or> f \<in> set svm_cvexit_handler_group1 \<or> f \<in> set svm_cvexit_handler_group2"
    using dispatched_member [OF assms(1)] .
  then show ?thesis
  proof (elim disjE)
    assume "Some f \<in> set svm_cvexit_handler_negative"
    then show ?thesis unfolding svm_cvexit_handler_negative_def by (auto intro!: total_capturing all)
  next
    assume "f \<in> set svm_cvexit_handler_group1"
    then show ?thesis
      unfolding svm_cvexit_handler_group1_def unhandled_def
      by (simp only: set_append set_replicate_conv_if list.set Un_iff insert_iff empty_iff) (auto intro!: total_capturing all cpuid)
  next
    assume "f \<in> set svm_cvexit_handler_group2"
    then show ?thesis unfolding svm_cvexit_handler_group2_def by (auto intro!: total_capturing all avic)
  qed
qed

end
