(* ===== verification/Cv_Cpuid.thy ===== *)
theory Cv_Cpuid
  imports Cv_Access Vendor
begin

text \<open>
  The CPUID quick path (\<open>svm_core/svm_custom.c\<close>): the lists that answer the guest when its CPUID
  instructions are not delivered to the user hypervisor. The instruction itself is a parameter.
\<close>

section \<open>Entries\<close>

definition quickpath_empty :: noir_cvm_cpuid_quickpath_info where
  "quickpath_empty = \<lparr>qp_leaf = 0, qp_subleaf = 0, qp_options = 0, qp_eax = 0, qp_ebx = 0, qp_ecx = 0, qp_edx = 0\<rparr>"

definition quickpath_options :: "string list \<Rightarrow> u64" where
  "quickpath_options fs = foldl (\<lambda>v f. bf_put noir_cvm_cpuid_quickpath_options f 1 v) 0 fs"

definition quickpath :: "u32 \<Rightarrow> u32 \<Rightarrow> string list \<Rightarrow> u32 \<Rightarrow> u32 \<Rightarrow> u32 \<Rightarrow> u32 \<Rightarrow> noir_cvm_cpuid_quickpath_info" where
  "quickpath leaf subleaf fs a b c d =
     \<lparr>qp_leaf = leaf, qp_subleaf = subleaf, qp_options = quickpath_options fs,
      qp_eax = a, qp_ebx = b, qp_ecx = c, qp_edx = d\<rparr>"

definition quickpath_brand :: "cpuid \<Rightarrow> u32 \<Rightarrow> noir_cvm_cpuid_quickpath_info" where
  "quickpath_brand cpuid leaf =
     (let r = cpuid leaf 0 in quickpath leaf 0 [''active''] (cpuid_eax r) (cpuid_ebx r) (cpuid_ecx r) (cpuid_edx r))"

text \<open>Four characters of a string as \<open>noir_movsb\<close> stores them into a register.\<close>

definition dword_of_string :: "string \<Rightarrow> u32" where
  "dword_of_string cs = foldr (\<lambda>c w. push_bit 8 w OR of_nat (of_char c)) cs 0"

section \<open>Masks\<close>

definition noir_svm_cpuid_cvmask0_ecx_fn0000_0001 :: u32 where "noir_svm_cpuid_cvmask0_ecx_fn0000_0001 = 0xE2D83209"
definition noir_svm_cpuid_cvmask1_ecx_fn0000_0001 :: u32 where "noir_svm_cpuid_cvmask1_ecx_fn0000_0001 = 0x80000000"
definition noir_svm_cpuid_cvmask0_ebx_fn0000_0007 :: u32 where "noir_svm_cpuid_cvmask0_ebx_fn0000_0007 = 0x01DC0589"
definition noir_svm_cpuid_cvmask0_ecx_fn0000_0007 :: u32 where "noir_svm_cpuid_cvmask0_ecx_fn0000_0007 = 0x00000004"
definition noir_svm_cpuid_cvmask0_ecx_fn8000_0001 :: u32 where "noir_svm_cpuid_cvmask0_ecx_fn8000_0001 = 0x002001FB"
definition noir_svm_cpuid_cvmask0_edx_fn8000_0001 :: u32 where "noir_svm_cpuid_cvmask0_edx_fn8000_0001 = 0xEFDFBB7F"

section \<open>The two lists\<close>

text \<open>The identifier of the local APIC and the number of processors are shifted out of the byte that
  they are masked to; the mask of the feature bits in \<open>ecx\<close> is used for \<open>edx\<close> as well.\<close>

definition nvc_svm_init_vcpu_cpuid_quickpath ::
    "cpuid \<Rightarrow> u32 \<Rightarrow> u32 \<Rightarrow> noir_cvm_cpuid_quickpath_info list \<Rightarrow> noir_cvm_cpuid_quickpath_info list" where
  "nvc_svm_init_vcpu_cpuid_quickpath cpuid vcpu_id vcpu_count qs =
     (let r = cpuid 1 0;
          b = (cpuid_ebx r AND 0xFFFF) OR (push_bit 24 vcpu_id AND 0xff) OR (push_bit 16 vcpu_count AND 0xff);
          c = (cpuid_ecx r AND noir_svm_cpuid_cvmask0_ecx_fn0000_0001) OR noir_svm_cpuid_cvmask1_ecx_fn0000_0001;
          d = cpuid_edx r AND noir_svm_cpuid_cvmask0_ecx_fn0000_0001;
          area = of_nat sizeof_noir_fx_state
      in qs[0 := quickpath 1 0 [''active''] (cpuid_eax r) b c d,
            1 := quickpath 0xD 0 [''active'', ''has_subleaf''] 3 area area 0,
            2 := quickpath_brand cpuid 0x80000002,
            3 := quickpath_brand cpuid 0x80000003,
            4 := quickpath_brand cpuid 0x80000004])"

text \<open>The entry of the vendor leaf \<open>0x40000000\<close> is overwritten by the next one, since the index is not
  incremented after it.\<close>

definition nvc_svm_init_vm_cpuid_quickpath ::
    "cpuid \<Rightarrow> noir_cvm_cpuid_quickpath_info list \<Rightarrow> noir_cvm_cpuid_quickpath_info list" where
  "nvc_svm_init_vm_cpuid_quickpath cpuid qs =
     (let wide = [''active'', ''vm_wide'']; sub = [''active'', ''has_subleaf'', ''vm_wide''];
          v = cpuid 0 0; f = cpuid 7 0; xv = cpuid 0x80000000 0; xf = cpuid 0x80000001 0
      in qs[0 := quickpath 0 0 wide 0xD (cpuid_ebx v) (cpuid_ecx v) (cpuid_edx v),
            1 := quickpath 7 0 sub 0 (cpuid_ebx f AND noir_svm_cpuid_cvmask0_ebx_fn0000_0007)
                   (cpuid_ecx f AND noir_svm_cpuid_cvmask0_ecx_fn0000_0007) 0,
            2 := quickpath 0xD 1 sub 0 0x240 0 0,
            3 := quickpath 0x80000000 0 wide 0x80000008 (cpuid_ebx xv) (cpuid_ecx xv) (cpuid_edx xv),
            4 := quickpath 0x80000001 0 wide (cpuid_eax xf) (cpuid_ebx xf)
                   (cpuid_ecx xf AND noir_svm_cpuid_cvmask0_ecx_fn8000_0001)
                   (cpuid_edx xf AND noir_svm_cpuid_cvmask0_edx_fn8000_0001),
            5 := quickpath 0x80000008 0 wide 0x3030 0 0 0,
            6 := quickpath 0x40000000 0 wide 0x40000001 (dword_of_string ''Noir'') (dword_of_string ''Viso'')
                   (dword_of_string ''r ZT''),
            6 := quickpath 0x40000001 0 wide (dword_of_string ''Nv#1'') 0 0 0])"

section \<open>Searching\<close>

lemma quickpath_has_subleaf:
  "bf_flag noir_cvm_cpuid_quickpath_options ''has_subleaf'' (quickpath_options [''active''])
     = False"
  "bf_flag noir_cvm_cpuid_quickpath_options ''has_subleaf'' (quickpath_options [''active'', ''has_subleaf''])"
  "bf_flag noir_cvm_cpuid_quickpath_options ''has_subleaf'' (0 :: u64) = False"
  by code_simp+

lemma quickpath_matches:
  "qp_matches leaf subleaf (quickpath l sl [''active''] a b c d) \<longleftrightarrow> leaf = l"
  "qp_matches leaf subleaf (quickpath l sl [''active'', ''has_subleaf''] a b c d) \<longleftrightarrow> leaf = l \<and> subleaf = sl"
  "qp_matches leaf subleaf (quickpath_brand cpuid l) \<longleftrightarrow> leaf = l"
  "qp_matches leaf subleaf quickpath_empty \<longleftrightarrow> leaf = 0"
  using quickpath_has_subleaf
  by (auto simp: qp_matches_def quickpath_def quickpath_brand_def quickpath_empty_def Let_def)

lemma search_step:
  "qp_search n leaf subleaf (q # qs) =
     (if n = 0 then Some None else if qp_matches leaf subleaf q then Some (Some q) else qp_search (n - 1) leaf subleaf qs)"
  by (cases n) simp_all

lemma search_past: "qp_search n leaf subleaf [] = (if n = 0 then Some None else None)"
  by (cases n) simp_all

lemma vcpu_quickpath_list:
  "nvc_svm_init_vcpu_cpuid_quickpath cpuid v n (replicate 8 quickpath_empty) =
     [nvc_svm_init_vcpu_cpuid_quickpath cpuid v n (replicate 8 quickpath_empty) ! 0,
      quickpath 0xD 0 [''active'', ''has_subleaf''] 3 (of_nat sizeof_noir_fx_state) (of_nat sizeof_noir_fx_state) 0,
      quickpath_brand cpuid 0x80000002, quickpath_brand cpuid 0x80000003, quickpath_brand cpuid 0x80000004,
      quickpath_empty, quickpath_empty, quickpath_empty]"
  by (simp add: nvc_svm_init_vcpu_cpuid_quickpath_def Let_def numeral_eq_Suc)

end
