(* ===== verification/Cv_Properties.thy ===== *)
theory Cv_Properties
  imports Cv_Secure Cv_Capture Cv_Cpuid Svm_Registers
begin

text \<open>
  The properties of exits: how an exit ends, what it saves and what it hides, which codes have a
  handler, and where the handlers fail the guest.
\<close>

section \<open>An exit in three parts\<close>

lemma exit_parts:
  assumes "nvc_svm_exit_handler e s = Some t"
  obtains f u where "svm_cvexit_handlers (vmread32 (xvmcb s) exit_code) = Some f" "f e (begin_exit e s) = Some u"
    "t = end_exit e u"
  using assms by (auto simp: nvc_svm_exit_handler_def split: option.splits)

lemma saved_steps:
  "saved r (xheader (on_vmcb f s)) = saved r (xheader s)" "saved r (xheader (on_frame g s)) = saved r (xheader s)"
  "saved r (xheader (set_intercept c s)) = saved r (xheader s)"
  by (simp_all add: derived_updates saved_def)

lemma begin_exit_parts [simp]:
  "loader (xw (begin_exit e s)) = loader (xw s)" "host (xw (begin_exit e s)) = host (xw s)"
  "nsv_guest (xw (begin_exit e s)) = nsv_guest (xw s)" "cpu (xw (begin_exit e s)) = cpu (xw s)"
  "xframe (begin_exit e s) = (xframe s)(0 := vmread64 (xvmcb s) guest_rax)"
  by (simp_all add: begin_exit_def Let_def derived_updates fun_eq_iff) (simp add: on_frame_def)

lemma begin_exit_hides: "hidden s (begin_exit e s)"
  by (simp add: begin_exit_def Let_def derived_updates hidden_def set_cache_def)

lemma begin_exit_vmcb:
  assumes "p + 8 \<le> tlb_control \<or> tlb_control + 4 \<le> p" "p + 8 \<le> vmcb_clean_bits \<or> vmcb_clean_bits + 4 \<le> p"
  shows "vmread64 (xvmcb (begin_exit e s)) p = vmread64 (xvmcb s) p"
  using assms by (simp add: begin_exit_def Let_def derived_updates vmwrite_wr vmcb)

lemma deliver_exit_parts [simp]:
  "loader (xw (deliver_exit s)) = loader (xw s)" "host (xw (deliver_exit s)) = host (xw s)"
  "xframe (deliver_exit s) = xframe s" "xvmcb (deliver_exit s) = xvmcb s"
  "saved r (xheader (deliver_exit s)) = saved r (xheader s)"
  by (simp_all add: deliver_exit_def nvc_svm_load_basic_exit_context_def Let_def derived_updates saved_def)

lemma end_exit_parts [simp]:
  "loader (xw (end_exit e s)) = loader (xw s)" "host (xw (end_exit e s)) = host (xw s)"
  "saved r (xheader (end_exit e s)) = saved r (xheader s)"
  by (simp_all add: end_exit_def Let_def derived_updates(2) saved_steps)

lemma end_exit_frame: "xframe (end_exit e s) = (xframe s)(0 := ls_guest_vmcb_pa (loader (xw s)))"
  by (simp add: end_exit_def Let_def fun_eq_iff) (simp add: on_vmcb_def on_cv_def)

lemma end_exit_hides: "nsv_guest (xw s) \<Longrightarrow> hidden r (end_exit e s) \<longleftrightarrow> hidden r s"
  by (simp add: end_exit_def deliver_exit_def Let_def derived_updates hidden_def)

section \<open>Dispatch\<close>

lemma nth_opt_none: "nth_opt xs i = None \<longleftrightarrow> length xs \<le> i"
  by (simp add: nth_opt_def)

text \<open>Which exit codes have a handler. A code with bit 31 is complemented; of the others the bits 12
  to 30 are ignored. The table has the 165 entries up to \<open>0xA4\<close>, so that the exits of later processors
  (bus locks are \<open>0xA5\<close>) call what lies behind it, and the third negative code is a call through null.\<close>

theorem dispatch_defined:
  "svm_cvexit_handlers code = None \<longleftrightarrow>
     (if bit code 31 then 2 \<le> unat (NOT code)
      else case (unat (drop_bit 10 (code AND 0xC00)), unat (code AND 0x3FF)) of
             (grp, num) \<Rightarrow> grp \<noteq> 0 \<and> grp \<noteq> 1 \<or> grp = 0 \<and> 165 \<le> num \<or> grp = 1 \<and> 4 \<le> num)"
proof -
  have neg: "Option.bind (nth_opt svm_cvexit_handler_negative k) id = None \<longleftrightarrow> 2 \<le> k" for k
  proof -
    consider "k = 0" | "k = 1" | "k = 2" | "3 \<le> k" by linarith
    then show ?thesis by cases (simp_all add: svm_cvexit_handler_negative_def nth_opt_def)
  qed
  have two: "length svm_cvexit_handler_group2 = 4" by (simp add: svm_cvexit_handler_group2_def)
  show ?thesis
    by (simp add: svm_cvexit_handlers_def Let_def neg nth_opt_none group1_length two)
qed

lemma handler_hlt: "svm_cvexit_handlers 0x78 = Some (total nvc_svm_hlt_cvexit_handler)"
  by (simp add: svm_cvexit_handlers_def nth_opt_def svm_cvexit_handler_group1_def unhandled_def nth_append)

lemma handler_msr: "svm_cvexit_handlers 0x7C = Some (total nvc_svm_msr_cvexit_handler)"
  by (simp add: svm_cvexit_handlers_def nth_opt_def svm_cvexit_handler_group1_def unhandled_def nth_append)

lemma handler_cr4: "svm_cvexit_handlers 0x14 = Some (total nvc_svm_cr4_write_cvexit_handler)"
  by (simp add: svm_cvexit_handlers_def nth_opt_def svm_cvexit_handler_group1_def unhandled_def nth_append)

section \<open>How exits end\<close>

lemma exit_ended:
  assumes "nvc_svm_exit_handler e s = Some t"
  shows "host (xw t) = host (xw s) \<and> xframe t 0 = ls_guest_vmcb_pa (loader (xw t)) \<and>
    (loader (xw t) = loader (xw s) \<or>
     ls_guest_vmcb_pa (loader (xw t)) = h_vmcb_phys (host (xw s)) \<and> ls_custom_vcpu (loader (xw t)) = e_idle e \<and>
     ((\<forall>i. i \<noteq> 0 \<longrightarrow> xframe t i = h_gpr (host (xw s)) i) \<or>
      (\<forall>i \<in> {1 ..< 16}. xframe t i = (if i = 2 then ucast (e_fms e) else 0))))"
proof -
  obtain f u where f: "svm_cvexit_handlers (vmread32 (xvmcb s) exit_code) = Some f" "f e (begin_exit e s) = Some u"
    and t: "t = end_exit e u"
    using exit_parts [OF assms] .
  have "ends e (begin_exit e s) u"
    using dispatched_ends [OF f(1)] f(2) unfolding ends_well_def by blast
  then show ?thesis
    by (auto simp: t goes_on_def enters_host_def end_exit_frame)
qed


lemma exit_saved:
  assumes "nvc_svm_exit_handler e s = Some t" "\<not> nsv_guest (xw s)" "loader (xw t) \<noteq> loader (xw s)"
  shows "gpr (xheader t) = (xframe s)(0 := vmread64 (xvmcb s) guest_rax, 4 := vmread64 (xvmcb s) guest_rsp) \<and>
    (\<forall>i < 4. drs (xheader t) i = pr_dr (cpu (xw s)) i) \<and>
    xcr0 (xheader t) = pr_xcr0 (cpu (xw s)) \<and> xsave_area (xheader t) = pr_fpu (cpu (xw s))"
proof -
  obtain f u where f: "svm_cvexit_handlers (vmread32 (xvmcb s) exit_code) = Some f" "f e (begin_exit e s) = Some u"
    and t: "t = end_exit e u"
    using exit_parts [OF assms(1)] .
  have "captured (begin_exit e s) u"
    using dispatched_capturing [OF f(1), of "begin_exit e s" e] assms(2) f(2) unfolding capturing_def by simp
  moreover have "loader (xw u) \<noteq> loader (xw (begin_exit e s))" using assms(3) t by simp
  ultimately have "saved (begin_exit e s) (xheader t)" by (simp add: t captured_def)
  moreover have "vmread64 (xvmcb (begin_exit e s)) guest_rax = vmread64 (xvmcb s) guest_rax"
    "vmread64 (xvmcb (begin_exit e s)) guest_rsp = vmread64 (xvmcb s) guest_rsp"
    by (simp_all add: begin_exit_vmcb vmcb_offsets)
  ultimately show ?thesis by (simp add: saved_def)
qed



section \<open>Where the handlers fail the guest\<close>

text \<open>Reading what a secure guest computes. Its extended state is saved into the ordinary structure of
  the virtual processor when it leaves, so that the user hypervisor reads it with the view of the
  floating-point state; and entering the secure guest leaves the extended state of the host loaded.\<close>

theorem secure_fpu_exposed:
  assumes "nsv_guest w"
  shows "\<exists>buf' h'. nvc_view_vcpu_registers xsize tsc sync Fxstate buf sizeof_noir_fx_state
       (header (cvcpu (nvc_svm_switch_to_host_vcpu avic idle w))) = Some (noir_success, buf', h') \<and>
     (\<forall>i < sizeof_noir_fx_state. buf' i = pr_fpu (cpu w) i) \<and>
     pr_fpu (cpu (nvc_svm_switch_to_guest_vcpu avic w)) = pr_fpu (cpu w)"
proof -
  have out: "xsave_area (header (cvcpu (nvc_svm_switch_to_host_vcpu avic idle w))) = pr_fpu (cpu w)"
    using assms by (auto simp: nvc_svm_switch_to_host_vcpu_def Let_def save_guest_def nvc_svm_nsv_save_guest_vcpu_def)
  have "pr_fpu (cpu (nvc_svm_switch_to_guest_vcpu avic w)) = pr_fpu (cpu w)"
    using assms by (auto simp: nvc_svm_switch_to_guest_vcpu_def Let_def load_guest_def save_host_def migrate_def
        nvc_svm_nsv_load_guest_vcpu_def)
  then show ?thesis
    by (simp add: nvc_view_vcpu_registers_def Let_def out copy_bytes_def)
qed

definition emulated_msr :: "exit_env \<Rightarrow> exit_world \<Rightarrow> bool" where
  "emulated_msr e s \<longleftrightarrow> (let index = ucast (xframe s 1) :: u32 in
     \<not> (0x40000000 \<le> index \<and> index < 0x80000000) \<and>
     (option_set ''intercept_msr'' s \<longrightarrow> \<not> msr_intercepted s index \<and>
        fst (if vmread8 (xvmcb s) exit_info1 \<noteq> 0 then nvc_svm_wrmsr_cvexit_handler e s else nvc_svm_rdmsr_cvexit_handler e s)))"

lemma emulated_write_rip:
  "vmread64 (xvmcb (snd (nvc_svm_wrmsr_cvexit_handler e s))) guest_rip = vmread64 (xvmcb s) guest_rip"
proof -
  have "vmread64 (vmwrite64 b p v) guest_rip = vmread64 b guest_rip" if "plain_msr i = Some p" for b p v and i
    using that by (auto simp: plain_msr_def vmwrite_wr vmcb vmcb_offsets split: if_splits)
  then show ?thesis
    by (auto simp: nvc_svm_wrmsr_cvexit_handler_def Let_def derived_updates clean_def vmwrite_wr vmcb vmcb_offsets
        split: option.split)
qed

lemma plain_msr_handler:
  assumes "\<not> (0x40000000 \<le> (ucast (xframe s 1) :: u32) \<and> (ucast (xframe s 1) :: u32) < 0x80000000)"
  shows "nvc_svm_msr_cvexit_handler e s =
    (if option_set ''intercept_msr'' s then
       (if msr_intercepted s (ucast (xframe s 1)) then deliver_msr e (vmread8 (xvmcb s) exit_info1 \<noteq> 0) s
        else emulate_msr e (vmread8 (xvmcb s) exit_info1 \<noteq> 0) s)
     else s)"
  unfolding nvc_svm_msr_cvexit_handler_def Let_def by (subst if_not_P [OF assms]) simp

text \<open>An access to a model-specific register that is emulated is repeated for ever: when the delivery
  of these exits is off, nothing is done at all, and when the register is emulated the instruction
  pointer of the structure of the virtual processor is advanced, not that of its control block. The
  guest resumes at the same instruction.\<close>

theorem emulated_msr_repeats:
  assumes "vmread32 (xvmcb s) exit_code = 0x7C" "emulated_msr e (begin_exit e s)"
    "\<And>cv. vmcb (e_scribble e cv) = vmcb cv"
    "ls_guest_vmcb_pa (loader (xw s)) = vmcb_phys (cvcpu (xw s))"
  shows "\<exists>t. nvc_svm_exit_handler e s = Some t \<and> loader (xw t) = loader (xw s) \<and>
     vmread64 (xvmcb t) guest_rip = vmread64 (xvmcb s) guest_rip"
proof -
  let ?b = "begin_exit e s" and ?u = "nvc_svm_msr_cvexit_handler e (begin_exit e s)"
  have stay: "loader (xw ?u) = loader (xw s) \<and> vmread64 (xvmcb ?u) guest_rip = vmread64 (xvmcb ?b) guest_rip"
  proof (cases "option_set ''intercept_msr'' ?b")
    case False
    then show ?thesis
      using assms(2) plain_msr_handler [of ?b e] by (simp add: emulated_msr_def Let_def)
  next
    case True
    define op where "op = (vmread8 (xvmcb ?b) exit_info1 \<noteq> 0)"
    obtain a t where t: "(if op then nvc_svm_wrmsr_cvexit_handler e ?b else nvc_svm_rdmsr_cvexit_handler e ?b) = (a, t)"
      by (metis prod.exhaust)
    have "a" using assms(2) True t by (simp add: emulated_msr_def Let_def op_def [symmetric] split: if_splits)
    moreover have "?u = emulate_msr e op ?b"
      using assms(2) True plain_msr_handler [of ?b e] by (simp add: emulated_msr_def Let_def op_def)
    ultimately have u: "?u = on_cv (e_scribble e) (select St_emulation t)"
      using t by (simp add: emulate_msr_def)
    have "vmread64 (xvmcb t) guest_rip = vmread64 (xvmcb ?b) guest_rip"
    proof (cases op)
      case True
      then show ?thesis using t emulated_write_rip [of e ?b] by simp
    next
      case False
      then have "t = snd (nvc_svm_rdmsr_cvexit_handler e ?b)" using t by simp
      then show ?thesis by (simp add: nvc_svm_rdmsr_cvexit_handler_def split: option.split)
    qed
    moreover have "goes_on ?b (snd (if op then nvc_svm_wrmsr_cvexit_handler e ?b else nvc_svm_rdmsr_cvexit_handler e ?b))"
      by (simp add: nvc_svm_wrmsr_cvexit_handler_def nvc_svm_rdmsr_cvexit_handler_def ends_simps split: option.split)
    ultimately show ?thesis using t assms(3) by (simp add: u goes_on_def)
  qed
  have "nvc_svm_exit_handler e s = Some (end_exit e ?u)"
    using handler_msr by (simp add: nvc_svm_exit_handler_def assms(1) total_def)
  moreover have "vmread64 (xvmcb (end_exit e ?u)) guest_rip = vmread64 (xvmcb ?u) guest_rip"
    by (simp add: end_exit_def Let_def derived_updates(2) vmwrite_wr vmcb vmcb_offsets)
  ultimately show ?thesis
    using stay by (simp add: begin_exit_vmcb vmcb_offsets)
qed

text \<open>A write to \<open>cr4\<close> changes the register in the control block, but leaves it marked as clean when
  the processor caches control blocks, so that the processor may go on with the old value.\<close>

theorem cr4_write_stays_cached:
  assumes "vmread32 (xvmcb s) exit_code = 0x14" "e_caching e"
    "ls_guest_vmcb_pa (loader (xw s)) = vmcb_phys (cvcpu (xw s))"
  shows "\<exists>t. nvc_svm_exit_handler e s = Some t \<and>
     vmread64 (xvmcb t) guest_cr4 =
       xframe (begin_exit e s) (unat (bf_get nvc_svm_cr_access_exit_info ''gpr'' (vmread64 (xvmcb s) exit_info1))) OR amd64_cr4_mce_bit \<and>
     vmcb_bt32 (xvmcb t) vmcb_clean_bits noir_svm_clean_control_reg"
proof -
  let ?u = "nvc_svm_cr4_write_cvexit_handler e (begin_exit e s)"
  have info: "vmread64 (xvmcb (begin_exit e s)) exit_info1 = vmread64 (xvmcb s) exit_info1"
    by (rule begin_exit_vmcb) (simp_all add: vmcb_offsets)
  have run: "nvc_svm_exit_handler e s = Some (end_exit e ?u)"
    using handler_cr4 by (simp add: nvc_svm_exit_handler_def assms(1) total_def)
  have "vmcb_phys (cvcpu (xw (begin_exit e s))) = vmcb_phys (cvcpu (xw s))"
    by (simp add: begin_exit_def Let_def derived_updates)
  then have here: "ls_guest_vmcb_pa (loader (xw ?u)) = vmcb_phys (cvcpu (xw ?u))"
    using assms(3) by (simp add: nvc_svm_cr4_write_cvexit_handler_def Let_def derived_updates)
  then have ends: "xvmcb (end_exit e ?u) = vmwrite64 (xvmcb ?u) guest_rax (xframe ?u 0)"
    by (simp add: end_exit_def Let_def derived_updates(2))
  have "vmread64 (xvmcb ?u) guest_cr4 =
      xframe (begin_exit e s) (unat (bf_get nvc_svm_cr_access_exit_info ''gpr'' (vmread64 (xvmcb s) exit_info1))) OR amd64_cr4_mce_bit"
    by (simp add: nvc_svm_cr4_write_cvexit_handler_def Let_def derived_updates info [unfolded vmcb_offsets] noir_svm_advance_rip_def
        noir_svm_inject_event_def vmwrite_wr vmcb vmcb_offsets del: begin_exit_parts)
  moreover have "vmread32 (xvmcb ?u) vmcb_clean_bits = 0xffffffff"
    using assms(2) by (simp add: nvc_svm_cr4_write_cvexit_handler_def begin_exit_def Let_def derived_updates noir_svm_advance_rip_def
        noir_svm_inject_event_def vmwrite_wr vmcb vmcb_offsets)
  ultimately show ?thesis
    by (simp add: run ends vmcb_bt32_def vmwrite_wr vmcb vmcb_offsets noir_svm_clean_control_reg_def del: begin_exit_parts)
qed

text \<open>What the quick path answers on a fresh virtual processor, whatever the list of its VM holds: the
  leaves 1, \<open>0xD\<close> and the processor name are answered from the list of the virtual processor; leaf 0 with its vendor
  string is answered with zeros by an empty entry, since no entry is checked for being active; and every
  other leaf reads past the array of eight entries, since the loop runs to sixteen.\<close>

theorem cpuid_quickpath_answers:
  "cpuid_emulate leaf subleaf
     (s\<lparr>x_quickpath := nvc_svm_init_vcpu_cpuid_quickpath cpuid v n (replicate 8 quickpath_empty)\<rparr>) =
   (let entry = nvc_svm_init_vcpu_cpuid_quickpath cpuid v n (replicate 8 quickpath_empty) ! 0;
        brand = (\<lambda>r. (cpuid_eax r, cpuid_ebx r, cpuid_ecx r, cpuid_edx r)) in
    if leaf = 1 then Some (cpuid_eax (cpuid 1 0), qp_ebx entry, qp_ecx entry, qp_edx entry)
    else if leaf = 0xD \<and> subleaf = 0 then Some (3, 384, 384, 0)
    else if leaf \<in> {0x80000002, 0x80000003, 0x80000004} then Some (brand (cpuid leaf 0))
    else if leaf = 0 then Some (0, 0, 0, 0)
    else None)"
proof -
  let ?l = "nvc_svm_init_vcpu_cpuid_quickpath cpuid v n (replicate 8 quickpath_empty)"
  have head: "?l ! 0 = quickpath 1 0 [''active''] (cpuid_eax (cpuid 1 0)) (qp_ebx (?l ! 0)) (qp_ecx (?l ! 0)) (qp_edx (?l ! 0))"
    by (simp add: nvc_svm_init_vcpu_cpuid_quickpath_def Let_def quickpath_def numeral_eq_Suc)
  obtain b c d where head': "?l ! 0 = quickpath 1 0 [''active''] (cpuid_eax (cpuid 1 0)) b c d"
    using head by blast
  have size: "(of_nat sizeof_noir_fx_state :: u32) = 384" by (simp add: sizeof_noir_fx_state_def)
  have list: "?l = [quickpath 1 0 [''active''] (cpuid_eax (cpuid 1 0)) b c d,
      quickpath 0xD 0 [''active'', ''has_subleaf''] 3 384 384 0,
      quickpath_brand cpuid 0x80000002, quickpath_brand cpuid 0x80000003, quickpath_brand cpuid 0x80000004,
      quickpath_empty, quickpath_empty, quickpath_empty]"
    using vcpu_quickpath_list [of cpuid v n] by (simp add: head' size)
  show ?thesis
    unfolding Let_def head'
    by (simp add: list cpuid_emulate_def noir_cvm_cpuid_quickpath_limit_per_vcpu_def search_step search_past quickpath_matches)
      (auto simp: quickpath_def quickpath_brand_def quickpath_empty_def Let_def)
qed

section \<open>Witnesses\<close>

text \<open>A guest that left with a given exit code, in the two kinds of machine.\<close>

definition example_env :: exit_env where
  "example_env = \<lparr>e_avic = False, e_idle = 0x8000, e_caching = True, e_tsc = 0, e_now = 5, e_end = 6, e_fms = 0xA20F10,
     e_xsize = 832, e_scribble = id\<rparr>"

definition example_nsvs :: noir_nsv_internal_msr_state where
  "example_nsvs = \<lparr>vc_handler_cs = 0, vc_handler_rsp = 0, vc_handler_rip = 0, vc_return_cs = 0, vc_return_rsp = 0,
     vc_return_rip = 0, vc_return_rflags = 0, vc_next_rip = 0, vc_error_code = 0, vc_info1 = 0, vc_info2 = 0\<rparr>"

definition example_exit :: "bool \<Rightarrow> u32 \<Rightarrow> exit_world" where
  "example_exit nsv code =
     \<lparr>xw = (example_world nsv)\<lparr>loader := \<lparr>ls_custom_vcpu = 0x1000, ls_guest_vmcb_pa = 0x3000, ls_proc_id = 3\<rparr>,
        cvcpu := example_vcpu\<lparr>vmcb := vmwrite32 (vmwrite64 (\<lambda>_. 0) guest_rax 7) exit_code code\<rparr>\<rparr>,
      x_union = (\<lambda>_. 0), x_cs = \<lparr>selector = 0, attrib = 0, limit = 0, base_addr = 0\<rparr>, x_rip = 0, x_rflags = 0,
      x_next_rip = 0, x_vcpu_state = 0, x_selector = St_scheduler, x_counter = (\<lambda>_. (0, 0)), x_runtime = 0,
      x_runtime_start = 0, x_quickpath = [], x_vm_quickpath = [], x_mce = False, x_rescission = False,
      x_claim_start = 0, x_claim_end = 0, x_nsvs = example_nsvs, x_nsv_xstate = (\<lambda>_. 0), x_host_vmcb = (\<lambda>_. 0)\<rparr>"

lemma example_exit_code [simp]: "vmread32 (xvmcb (example_exit nsv code)) exit_code = code"
  by (simp add: example_exit_def vmwrite_wr vmcb)

lemma example_exit_parts [simp]:
  "nsv_guest (xw (example_exit nsv code)) = nsv" "h_vmcb_phys (host (xw (example_exit nsv code))) = 0x9000"
  "vmread64 (xvmcb (example_exit nsv code)) guest_rax = 7"
  "ls_guest_vmcb_pa (loader (xw (example_exit nsv code))) = 0x3000" "vmcb_phys (cvcpu (xw (example_exit nsv code))) = 0x3000"
  by (simp_all add: example_exit_def example_world_def example_vcpu_def vmwrite_wr vmcb vmcb_offsets)

definition example_halt :: "bool \<Rightarrow> exit_world" where
  "example_halt nsv = end_exit example_env (nvc_svm_hlt_cvexit_handler example_env (begin_exit example_env (example_exit nsv 0x78)))"

lemma example_halts: "nvc_svm_exit_handler example_env (example_exit nsv 0x78) = Some (example_halt nsv)"
  using handler_hlt by (simp add: nvc_svm_exit_handler_def example_halt_def total_def)

lemma example_halt_left: "ls_guest_vmcb_pa (loader (xw (example_halt nsv))) = 0x9000"
  by (simp add: example_halt_def nvc_svm_hlt_cvexit_handler_def Let_def derived_updates)




theorem secure_fpu_exposed_witness:
  "\<exists>buf' h'. nvc_view_vcpu_registers 832 0 id Fxstate (\<lambda>_. 1) sizeof_noir_fx_state
      (header (cvcpu (nvc_svm_switch_to_host_vcpu False 0 (example_world True)))) = Some (noir_success, buf', h') \<and> buf' 3 = 0"
proof -
  have "nsv_guest (example_world True)" by (simp add: example_world_def)
  from secure_fpu_exposed [OF this, of 832 0 id "\<lambda>_. 1" False 0] obtain buf' h' where
    v: "nvc_view_vcpu_registers 832 0 id Fxstate (\<lambda>_. 1) sizeof_noir_fx_state
      (header (cvcpu (nvc_svm_switch_to_host_vcpu False 0 (example_world True)))) = Some (noir_success, buf', h')"
    and b: "\<forall>i < sizeof_noir_fx_state. buf' i = pr_fpu (cpu (example_world True)) i" by blast
  have "buf' 3 = pr_fpu (cpu (example_world True)) 3" using b by (simp add: sizeof_noir_fx_state_def)
  then have "buf' 3 = 0" by (simp add: example_world_def)
  with v show ?thesis by blast
qed

theorem emulated_msr_repeats_witness:
  "\<exists>t. nvc_svm_exit_handler example_env (example_exit False 0x7C) = Some t \<and> vmread64 (xvmcb t) guest_rip = 0"
proof -
  have "option_set ''intercept_msr'' (begin_exit example_env (example_exit False 0x7C)) = False"
    by (simp add: option_set_def begin_exit_def Let_def derived_updates example_exit_def example_vcpu_def set_cache_def)
      (simp add: example_header_def bf_flag_def bf_get_def)
  then have "emulated_msr example_env (begin_exit example_env (example_exit False 0x7C))"
    by (simp add: emulated_msr_def Let_def) (simp add: example_exit_def example_world_def word_le_nat_alt)
  moreover have "\<And>cv. vmcb (e_scribble example_env cv) = vmcb cv" by (simp add: example_env_def)
  ultimately obtain t where "nvc_svm_exit_handler example_env (example_exit False 0x7C) = Some t"
    "vmread64 (xvmcb t) guest_rip = vmread64 (xvmcb (example_exit False 0x7C)) guest_rip"
    using emulated_msr_repeats [of "example_exit False 0x7C" example_env] by auto
  moreover have "vmread64 (xvmcb (example_exit False 0x7C)) guest_rip = 0"
    by (simp add: example_exit_def vmwrite_wr vmcb vmcb_offsets) (simp add: vmread64_def load_u64_def upt_rec)
  ultimately show ?thesis by auto
qed

theorem cr4_write_stays_cached_witness:
  "\<exists>t. nvc_svm_exit_handler example_env (example_exit False 0x14) = Some t \<and> vmcb_bt32 (xvmcb t) vmcb_clean_bits noir_svm_clean_control_reg"
proof -
  have "e_caching example_env" by (simp add: example_env_def)
  from cr4_write_stays_cached [OF _ this, of "example_exit False 0x14"] show ?thesis by simp blast
qed

end
