(* ===== verification/Bitmap.thy ===== *)
theory Bitmap
  imports Vmcb
begin

text \<open>
  Bitmaps in memory (\<open>xpf_core/devkits.c\<close>, \<open>include/nv_intrin.h\<close>): setting and resetting a bit
  works on 32-bit words, searching on 64-bit words. A bitmap is memory from a base address on.
\<close>

section \<open>Operations\<close>

text \<open>Bit \<open>k\<close> of the bitmap at \<open>base\<close>.\<close>

definition bitmap_bit :: "bytes \<Rightarrow> nat \<Rightarrow> nat \<Rightarrow> bool" where
  "bitmap_bit b base k \<longleftrightarrow> bit (b (base + k div 8)) (k mod 8)"

definition noir_set_bitmap :: "bytes \<Rightarrow> nat \<Rightarrow> u32 \<Rightarrow> bool \<times> bytes" where
  "noir_set_bitmap b base pos =
     (let i = base + 4 * unat (drop_bit 5 pos); j = unat (pos AND 0x1F)
      in (vmcb_bt32 b i j, vmcb_bts32 b i j))"

definition noir_reset_bitmap :: "bytes \<Rightarrow> nat \<Rightarrow> u32 \<Rightarrow> bool \<times> bytes" where
  "noir_reset_bitmap b base pos =
     (let i = base + 4 * unat (drop_bit 5 pos); j = unat (pos AND 0x1F)
      in (vmcb_bt32 b i j, vmcb_btr32 b i j))"

text \<open>The instruction that finds the least set bit; \<open>None\<close> is its failure, which keeps the result.\<close>

definition noir_bsf64 :: "u64 \<Rightarrow> nat option" where
  "noir_bsf64 x = find (bit x) [0 ..< 64]"

definition bitmap_words :: "u32 \<Rightarrow> nat" where
  "bitmap_words limit = unat (drop_bit 6 limit + (if limit AND 0x3F \<noteq> 0 then 1 else 0))"

fun scan_bitmap :: "(u64 \<Rightarrow> u64) \<Rightarrow> bytes \<Rightarrow> nat \<Rightarrow> nat \<Rightarrow> nat \<Rightarrow> u32" where
  "scan_bitmap f b base i 0 = 0xffffffff"
| "scan_bitmap f b base i (Suc n) =
     (case noir_bsf64 (f (vmread64 b (base + 8 * i))) of
        Some k \<Rightarrow> of_nat (k + 64 * i)
      | None \<Rightarrow> scan_bitmap f b base (Suc i) n)"

definition noir_find_clear_bit :: "bytes \<Rightarrow> nat \<Rightarrow> u32 \<Rightarrow> u32" where
  "noir_find_clear_bit b base limit = scan_bitmap NOT b base 0 (bitmap_words limit)"

definition noir_find_set_bit :: "bytes \<Rightarrow> nat \<Rightarrow> u32 \<Rightarrow> u32" where
  "noir_find_set_bit b base limit = scan_bitmap id b base 0 (bitmap_words limit)"

section \<open>Single bits\<close>

lemma word_split:
  fixes i r :: nat
  shows "(32 * i + r) div 8 = 4 * i + r div 8" "(32 * i + r) mod 8 = r mod 8"
    "(64 * i + r) div 8 = 8 * i + r div 8" "(64 * i + r) mod 8 = r mod 8"
proof -
  have "32 * i + r = r + (4 * i) * 8" "64 * i + r = r + (8 * i) * 8" by simp_all
  then show "(32 * i + r) div 8 = 4 * i + r div 8" "(32 * i + r) mod 8 = r mod 8"
    "(64 * i + r) div 8 = 8 * i + r div 8" "(64 * i + r) mod 8 = r mod 8"
    by (simp_all only: div_mult_self1 mod_mult_self1 mult_eq_0_iff zero_neq_numeral simp_thms)
qed

lemma bit_vmread32: "bit (vmread32 b p) n \<longleftrightarrow> n < 32 \<and> bit (b (p + n div 8)) (n mod 8)"
  by (simp add: vmread32_load bit_simps bit_load_u64) auto

lemma position_split:
  fixes pos :: u32
  shows "unat pos = 32 * unat (drop_bit 5 pos) + unat (pos AND 0x1F)" "unat (pos AND 0x1F) < 32"
proof -
  have "pos AND 0x1F = take_bit 5 pos" by (simp add: take_bit_eq_mask mask_numeral)
  then have low: "unat (pos AND 0x1F) = unat pos mod 32" by (simp add: take_bit_eq_mod unat_mod_distrib)
  moreover have "unat (drop_bit 5 pos) = unat pos div 32" by (simp add: drop_bit_eq_div unat_div_distrib)
  ultimately show "unat pos = 32 * unat (drop_bit 5 pos) + unat (pos AND 0x1F)" by simp
  show "unat (pos AND 0x1F) < 32" using low by simp
qed

lemma bitmap_word_bit:
  "bitmap_bit (vmwrite32 b (base + 4 * i) v) base k =
     (if k div 32 = i then bit v (k mod 32) else bitmap_bit b base k)"
proof (cases "k div 32 = i")
  case True
  define r where "r = k mod 32"
  have k: "k = 32 * i + r" and r: "r < 32" using True by (auto simp: r_def)
  have d: "k div 8 = 4 * i + r div 8" and m: "k mod 8 = r mod 8" unfolding k by (fact word_split)+
  have small: "r div 8 < 4" using r by simp
  have "bitmap_bit (vmwrite32 b (base + 4 * i) v) base k = bit (byte_of (ucast v) (r div 8)) (r mod 8)"
    using small by (simp add: bitmap_bit_def vmwrite32_def wr_def d m add.assoc)
  also have "\<dots> = bit v r"
    using r by (simp add: bit_byte_of bit_simps)
  finally show ?thesis using True by (simp add: r_def)
next
  case False
  then have "k < 32 * i \<or> 32 * i + 32 \<le> k" using div_nat_eqI [of 32 i k] by (auto simp: not_less)
  then have "k div 8 < 4 * i \<or> 4 * i + 4 \<le> k div 8"
    by (auto simp: less_eq_div_iff_mult_less_eq intro!: less_mult_imp_div_less)
  with False show ?thesis by (auto simp: bitmap_bit_def vmwrite32_def wr_def)
qed

lemma bitmap_word_read: "bit (vmread32 b (base + 4 * i)) n \<longleftrightarrow> n < 32 \<and> bitmap_bit b base (32 * i + n)"
proof -
  show ?thesis by (simp add: word_split bit_vmread32 bitmap_bit_def add.assoc)
qed

lemma position_eq:
  fixes pos :: u32
  assumes "k div 32 = unat (drop_bit 5 pos)"
  shows "k mod 32 = unat (pos AND 0x1F) \<longleftrightarrow> k = unat pos"
  using position_split(1) [of pos] assms mult_div_mod_eq [of 32 k] by linarith

lemma position_word: "k = unat pos \<Longrightarrow> k div 32 = unat (drop_bit 5 pos)" for pos :: u32
  by (simp add: drop_bit_eq_div unat_div_distrib)

lemma bitmap_set: "bitmap_bit (snd (noir_set_bitmap b base pos)) base k \<longleftrightarrow> k = unat pos \<or> bitmap_bit b base k"
proof -
  have "k div 32 = unat (drop_bit 5 pos) \<Longrightarrow> 32 * unat (drop_bit 5 pos) + k mod 32 = k"
    by (metis div_mult_mod_eq mult.commute)
  then show ?thesis
    using position_eq [of k pos] position_word [of k pos] position_split(2) [of pos]
    by (auto simp: noir_set_bitmap_def Let_def vmcb_bts32_def bitmap_word_bit bit_set_bit_iff bitmap_word_read possible_bit_word)
qed

lemma bitmap_reset: "bitmap_bit (snd (noir_reset_bitmap b base pos)) base k \<longleftrightarrow> k \<noteq> unat pos \<and> bitmap_bit b base k"
proof -
  have "k div 32 = unat (drop_bit 5 pos) \<Longrightarrow> 32 * unat (drop_bit 5 pos) + k mod 32 = k"
    by (metis div_mult_mod_eq mult.commute)
  then show ?thesis
    using position_eq [of k pos] position_word [of k pos] position_split(2) [of pos]
    by (auto simp: noir_reset_bitmap_def Let_def vmcb_btr32_def bitmap_word_bit bit_unset_bit_iff bitmap_word_read)
qed

lemma bitmap_test: "fst (noir_set_bitmap b base pos) \<longleftrightarrow> bitmap_bit b base (unat pos)"
  "fst (noir_reset_bitmap b base pos) \<longleftrightarrow> bitmap_bit b base (unat pos)"
  using position_split [of pos]
  by (auto simp: noir_set_bitmap_def noir_reset_bitmap_def Let_def vmcb_bt32_def bitmap_word_read)

section \<open>Searching\<close>

lemma bsf64_some: "noir_bsf64 x = Some k \<longleftrightarrow> k < 64 \<and> bit x k \<and> (\<forall>j < k. \<not> bit x j)"
  by (auto simp: noir_bsf64_def find_Some_iff)

lemma bsf64_none: "noir_bsf64 x = None \<longleftrightarrow> (\<forall>j < 64. \<not> bit x j)"
  by (auto simp: noir_bsf64_def find_None_iff)

lemma bitmap_qword_read: "bit (vmread64 b (base + 8 * i)) n \<longleftrightarrow> n < 64 \<and> bitmap_bit b base (64 * i + n)"
proof -
  show ?thesis by (simp add: word_split bit_vmread64 bitmap_bit_def add.assoc)
qed

text \<open>The search finds the least bit that is wanted, among all bits of the words that hold the limit.\<close>

lemma scan_least:
  assumes "\<And>k. k < 64 * n \<Longrightarrow> p (64 * i + k) = bit (f (vmread64 b (base + 8 * (i + k div 64)))) (k mod 64)"
  shows "scan_bitmap f b base i n = (case find p [64 * i ..< 64 * (i + n)] of Some k \<Rightarrow> of_nat k | None \<Rightarrow> 0xffffffff)"
  using assms
proof (induction n arbitrary: i)
  case 0
  then show ?case by simp
next
  case (Suc n)
  let ?w = "f (vmread64 b (base + 8 * i))"
  have here: "p (64 * i + k) = bit ?w k" if "k < 64" for k using Suc.prems [of k] that by simp
  have range: "[64 * i ..< 64 * (i + Suc n)] = [64 * i ..< 64 * i + 64] @ [64 * Suc i ..< 64 * (Suc i + n)]"
    using upt_add_eq_append [of "64 * i" "64 * i + 64" "64 * n"] by (simp add: algebra_simps)
  have split: "find p (xs @ ys) = (case find p xs of Some k \<Rightarrow> Some k | None \<Rightarrow> find p ys)" for xs ys
    by (induction xs) auto
  show ?case
  proof (cases "noir_bsf64 ?w")
    case (Some k)
    then have k: "k < 64" "p (64 * i + k)" "\<forall>j < k. \<not> p (64 * i + j)" using here by (auto simp: bsf64_some)
    have "find p [64 * i ..< 64 * i + 64] = Some (64 * i + k)"
      unfolding find_Some_iff using k by (intro exI [of _ k]) auto
    then show ?thesis unfolding range split using Some by (simp add: add.commute)
  next
    case None
    then have "\<not> p j" if "64 * i \<le> j" "j < 64 * i + 64" for j
      using here [of "j - 64 * i"] that by (auto simp: bsf64_none)
    then have none: "find p [64 * i ..< 64 * i + 64] = None" by (auto simp: find_None_iff)
    have later: "p (64 * Suc i + k) = bit (f (vmread64 b (base + 8 * (Suc i + k div 64)))) (k mod 64)" if "k < 64 * n" for k
    proof -
      have "(64 + k) div 64 = Suc (k div 64)" "(64 + k) mod 64 = k mod 64" by simp_all
      then show ?thesis using Suc.prems [of "64 + k"] that by (simp add: algebra_simps)
    qed
    show ?thesis unfolding range split using Suc.IH [of "Suc i", OF later] None none by simp
  qed
qed

lemma round_up_64: "(n + 63) div 64 = n div 64 + (if n mod 64 = 0 then 0 else 1)" for n :: nat
proof -
  define q r where "q = n div 64" and "r = n mod 64"
  have n: "n = 64 * q + r" and r: "r < 64" by (simp_all add: q_def r_def)
  show ?thesis
  proof (cases "r = 0")
    case False
    then have "(n + 63) div 64 = q + 1" using r by (simp add: n div_nat_eqI)
    then show ?thesis using False by (simp add: q_def r_def)
  qed (simp add: n)
qed

lemma bitmap_words_eq: "bitmap_words limit = (unat limit + 63) div 64"
proof -
  have low: "limit AND 0x3F = 0 \<longleftrightarrow> unat limit mod 64 = 0"
  proof -
    have "limit AND 0x3F = take_bit 6 limit" by (simp add: take_bit_eq_mask mask_numeral)
    then have "unat (limit AND 0x3F) = unat limit mod 64" by (simp add: take_bit_eq_mod unat_mod_distrib)
    then show ?thesis by (metis unat_eq_zero)
  qed
  have d: "unat (drop_bit 6 limit) = unat limit div 64" by (simp add: drop_bit_eq_div unat_div_distrib)
  have "unat limit < 2 ^ 32" using unsigned_less [of limit, where ?'a = nat] by simp
  then have "unat (drop_bit 6 limit) + 1 < 2 ^ 32" by (simp add: d)
  then have "unat (drop_bit 6 limit + 1) = unat limit div 64 + 1" by (simp add: unat_word_ariths d)
  then show ?thesis using d by (simp add: bitmap_words_def low round_up_64)
qed

lemma find_clear_bits:
  "noir_find_clear_bit b base limit =
     (case find (\<lambda>k. \<not> bitmap_bit b base k) [0 ..< 64 * ((unat limit + 63) div 64)] of Some k \<Rightarrow> of_nat k | None \<Rightarrow> 0xffffffff)"
proof -
  have "(\<not> bitmap_bit b base (64 * 0 + k)) = bit (NOT (vmread64 b (base + 8 * (0 + k div 64)))) (k mod 64)" for k
    using bitmap_qword_read [of b base "k div 64" "k mod 64"] by (simp add: bit_not_iff)
  from scan_least [where p = "\<lambda>k. \<not> bitmap_bit b base k" and i = 0 and f = "NOT", OF this]
  show ?thesis by (simp add: noir_find_clear_bit_def bitmap_words_eq)
qed

text \<open>The search for a clear bit, word by word, is a linear search of the bits. It goes on to the end
  of the last word, past the limit.\<close>

theorem find_clear_bit_linear:
  "noir_find_clear_bit b base limit =
     (case find (\<lambda>k. \<not> bitmap_bit b base k) [0 ..< 64 * ((unat limit + 63) div 64)] of Some k \<Rightarrow> of_nat k | None \<Rightarrow> 0xffffffff)"
  by (rule find_clear_bits)

lemma find_set_bit_linear:
  "noir_find_set_bit b base limit =
     (case find (bitmap_bit b base) [0 ..< 64 * ((unat limit + 63) div 64)] of Some k \<Rightarrow> of_nat k | None \<Rightarrow> 0xffffffff)"
proof -
  have "bitmap_bit b base (64 * 0 + k) = bit (id (vmread64 b (base + 8 * (0 + k div 64)))) (k mod 64)" for k
    using bitmap_qword_read [of b base "k div 64" "k mod 64"] by simp
  from scan_least [where p = "bitmap_bit b base" and i = 0 and f = id, OF this]
  show ?thesis by (simp add: noir_find_set_bit_def bitmap_words_eq)
qed

end
