(* ===== verification/Cv_Options.thy ===== *)
theory Cv_Options
  imports Bitmap Cv_State
begin

text \<open>
  The interceptions of a customizable virtual processor (\<open>svm_core/svm_custom.c\<close>,
  \<open>xpf_core/noirhvm.c\<close>): the initial control block, the options that the user hypervisor sets, and the
  permission maps of model-specific registers.
\<close>

section \<open>Layouts\<close>

text \<open>The two vectors of control-register intercepts of \<open>nvc_svm_cr_intercept\<close>, reads before writes.\<close>

definition nvc_svm_cra_intercept :: bf_layout where
  "nvc_svm_cra_intercept =
    [(''read.cr0'', 1), (''read.cr1'', 1), (''read.cr2'', 1), (''read.cr3'', 1), (''read.cr4'', 1),
     (''read.cr5'', 1), (''read.cr6'', 1), (''read.cr7'', 1), (''read.cr8'', 1), (''read.cr9'', 1),
     (''read.cr10'', 1), (''read.cr11'', 1), (''read.cr12'', 1), (''read.cr13'', 1),
     (''read.cr14'', 1), (''read.cr15'', 1), (''write.cr0'', 1), (''write.cr1'', 1),
     (''write.cr2'', 1), (''write.cr3'', 1), (''write.cr4'', 1), (''write.cr5'', 1),
     (''write.cr6'', 1), (''write.cr7'', 1), (''write.cr8'', 1), (''write.cr9'', 1),
     (''write.cr10'', 1), (''write.cr11'', 1), (''write.cr12'', 1), (''write.cr13'', 1),
     (''write.cr14'', 1), (''write.cr15'', 1)]"

definition nvc_svm_instruction_intercept1 :: bf_layout where
  "nvc_svm_instruction_intercept1 =
    [(''intercept_intr'', 1), (''intercept_nmi'', 1), (''intercept_smi'', 1),
     (''intercept_init'', 1), (''intercept_vint'', 1), (''intercept_cr0_tsmp'', 1),
     (''intercept_sidt'', 1), (''intercept_sgdt'', 1), (''intercept_sldt'', 1),
     (''intercept_str'', 1), (''intercept_lidt'', 1), (''intercept_lgdt'', 1),
     (''intercept_lldt'', 1), (''intercept_ltr'', 1), (''intercept_rdtsc'', 1),
     (''intercept_rdpmc'', 1), (''intercept_pushf'', 1), (''intercept_popf'', 1),
     (''intercept_cpuid'', 1), (''intercept_rsm'', 1), (''intercept_iret'', 1),
     (''intercept_int'', 1), (''intercept_invd'', 1), (''intercept_pause'', 1),
     (''intercept_hlt'', 1), (''intercept_invlpg'', 1), (''intercept_invlpga'', 1),
     (''intercept_io'', 1), (''intercept_msr'', 1), (''intercept_task_switch'', 1),
     (''intercept_ferr_freeze'', 1), (''intercept_shutdown'', 1)]"

definition nvc_svm_instruction_intercept2 :: bf_layout where
  "nvc_svm_instruction_intercept2 =
    [(''intercept_vmrun'', 1), (''intercept_vmmcall'', 1), (''intercept_vmload'', 1),
     (''intercept_vmsave'', 1), (''intercept_stgi'', 1), (''intercept_clgi'', 1),
     (''intercept_skinit'', 1), (''intercept_rdtscp'', 1), (''intercept_icebp'', 1),
     (''intercept_wbinvd'', 1), (''intercept_monitor'', 1), (''intercept_mwait'', 1),
     (''intercept_mwait_c'', 1), (''intercept_xsetbv'', 1), (''intercept_rdpru'', 1),
     (''intercept_post_efer_write'', 1)]"

definition nvc_svm_npt_control :: bf_layout where
  "nvc_svm_npt_control =
    [(''enable_npt'', 1), (''enable_sev'', 1), (''enable_sev_es'', 1), (''gmet'', 1),
     (''enable_sss_check'', 1), (''vte'', 1), (''enable_readonly_guest_pt'', 1),
     (''enable_invlpgb_tlbsync'', 1), (''reserved2'', 56)]"
section \<open>The control block\<close>

text \<open>What the control block takes from the machine: its address space and the physical addresses of
  its nested page table and permission maps.\<close>

record vm_pages =
  vp_asid :: u32
  vp_ncr3 :: u64
  vp_iopm :: u64
  vp_msrpm :: u64
  vp_msrpm_full :: u64

definition put_flags :: "bf_layout \<Rightarrow> string list \<Rightarrow> 'a::len word \<Rightarrow> 'a word" where
  "put_flags L fs v = foldl (\<lambda>v f. bf_put L f 1 v) v fs"

definition init_vector1 :: u32 where
  "init_vector1 = put_flags nvc_svm_instruction_intercept1
     [''intercept_intr'', ''intercept_nmi'', ''intercept_smi'', ''intercept_vint'', ''intercept_cpuid'', ''intercept_invd'',
      ''intercept_hlt'', ''intercept_invlpga'', ''intercept_io'', ''intercept_msr'', ''intercept_shutdown''] 0"

definition init_vector2 :: u16 where
  "init_vector2 = put_flags nvc_svm_instruction_intercept2
     [''intercept_vmrun'', ''intercept_vmmcall'', ''intercept_vmload'', ''intercept_vmsave'', ''intercept_stgi'',
      ''intercept_clgi'', ''intercept_skinit''] 0"

text \<open>Without secure virtualization there is no protected page: the last two writes go through a null
  pointer.\<close>

definition nvc_svm_initialize_cvm_vmcb :: "vm_pages \<Rightarrow> bool \<Rightarrow> noir_svm_custom_vcpu \<Rightarrow> noir_svm_custom_vcpu option" where
  "nvc_svm_initialize_cvm_vmcb m has_vmsa cv =
     (let b1 = vmcb_bts32 (vmcb_bts32 (vmcb cv) intercept_exceptions amd64_machine_check) intercept_exceptions amd64_security_exception;
          b2 = vmwrite32 b1 intercept_access_cr (put_flags nvc_svm_cra_intercept [''read.cr4'', ''write.cr4''] 0);
          b3 = vmwrite32 b2 intercept_instruction1 init_vector1;
          b4 = vmwrite16 b3 intercept_instruction2 init_vector2;
          b5 = flush_guest (vmwrite32 b4 guest_asid (vp_asid m));
          b6 = vmwrite64 b5 avic_control (bf_put nvc_svm_avic_control ''virtual_interrupt_masking'' 1 0);
          b7 = vmwrite64 (vmwrite64 b6 npt_control (bf_put nvc_svm_npt_control ''enable_npt'' 1 0)) npt_cr3 (vp_ncr3 m);
          b8 = vmwrite64 (vmwrite64 b7 iopm_physical_address (vp_iopm m)) msrpm_physical_address (vp_msrpm m)
      in if has_vmsa then
           Some (cv\<lparr>vmcb := b8, vmsa := (vmsa cv)\<lparr>parent_vcpu := cv_addr cv, parent_vmcb_virt := vmcb_virt cv,
                                                     parent_vmcb_phys := vmcb_phys cv\<rparr>\<rparr>)
         else None)"

definition vcpu_option :: "string \<Rightarrow> noir_svm_custom_vcpu \<Rightarrow> bool" where
  "vcpu_option f cv = bf_flag noir_cvm_vcpu_options_bits f (vcpu_options (header cv))"

text \<open>The result is the processor with the two bits that the hidden trap flag uses,
  \<open>special_state.mtf_active\<close> and \<open>shadowed_bits.tf\<close>.\<close>

definition nvc_svm_set_guest_vcpu_options ::
    "vm_pages \<Rightarrow> noir_svm_custom_vcpu \<Rightarrow> bool \<Rightarrow> noir_svm_custom_vcpu \<times> bool \<times> bool" where
  "nvc_svm_set_guest_vcpu_options m cv tf =
     (let b = vmcb cv;
          v = vmread32 b intercept_instruction1;
          must = push_bit amd64_machine_check 1 OR push_bit amd64_security_exception 1;
          b1 = (if \<not> vcpu_option ''intercept_exceptions'' cv then vmwrite32 b intercept_exceptions must
                else vmcb_bts32 (vmcb_bts32 (vmwrite32 b intercept_exceptions (exception_bitmap (header cv)))
                       intercept_exceptions amd64_machine_check) intercept_exceptions amd64_security_exception);
          b2 = (if vcpu_option ''intercept_cr3'' cv
                then vmcb_bts32 (vmcb_bts32 b1 intercept_access_cr 0x03) intercept_access_cr 0x13
                else vmcb_btr32 (vmcb_btr32 b1 intercept_access_cr 0x03) intercept_access_cr 0x13);
          b3 = vmwrite32 b2 intercept_access_dr (if vcpu_option ''intercept_drx'' cv then 0xFFFFFFFF else 0);
          b4 = vmwrite64 b3 msrpm_physical_address (if vcpu_option ''intercept_msr'' cv then vp_msrpm_full m else vp_msrpm m);
          b5 = vmwrite32 b4 intercept_instruction1
                 (bf_put nvc_svm_instruction_intercept1 ''intercept_rsm'' (of_flag (vcpu_option ''intercept_rsm'' cv)) v);
          mtf = vcpu_option ''hidden_tf'' cv;
          tf' = (if mtf then vmcb_bt32 b5 guest_rflags amd64_rflags_tf else tf);
          b6 = (if mtf then vmcb_bts32 (vmcb_bts32 b5 guest_rflags amd64_rflags_tf) intercept_exceptions amd64_debug_exception
                else b5)
      in (cv\<lparr>vmcb := clean noir_svm_clean_iomsrpm (clean noir_svm_clean_interception b6)\<rparr>, mtf, tf'))"

section \<open>The request of the user hypervisor\<close>

datatype noir_cvm_vcpu_option_type = Guest_vcpu_options | Exception_bitmap | Vcpu_priority | Msr_interception | Other_option

fun set_option :: "noir_cvm_vcpu_option_type \<Rightarrow> u32 \<Rightarrow> noir_cvm_virtual_cpu \<Rightarrow> noir_cvm_virtual_cpu option" where
  "set_option Guest_vcpu_options d h = Some (h\<lparr>vcpu_options := d\<rparr>)"
| "set_option Exception_bitmap d h = Some (h\<lparr>exception_bitmap := d\<rparr>)"
| "set_option Vcpu_priority d h = Some (h\<lparr>scheduling_priority := d\<rparr>)"
| "set_option Msr_interception d h = Some (h\<lparr>msr_interceptions := d\<rparr>)"
| "set_option Other_option d h = None"

text \<open>On AMD-V: the hypercall is made for valid options only.\<close>

definition nvc_set_guest_vcpu_options ::
    "vm_pages \<Rightarrow> noir_cvm_vcpu_option_type \<Rightarrow> u32 \<Rightarrow> noir_svm_custom_vcpu \<Rightarrow> bool \<Rightarrow> noir_status \<times> noir_svm_custom_vcpu" where
  "nvc_set_guest_vcpu_options m ty d cv tf =
     (case set_option ty d (header cv) of
        None \<Rightarrow> (noir_invalid_parameter, cv)
      | Some h \<Rightarrow> (noir_success, fst (nvc_svm_set_guest_vcpu_options m (cv\<lparr>header := h\<rparr>) tf)))"

section \<open>Permission maps of model-specific registers\<close>

definition svm_msrpm_bit :: "u8 \<Rightarrow> u32 \<Rightarrow> u8 \<Rightarrow> u32" where
  "svm_msrpm_bit bitmap index operation =
     (if bitmap = 1 then index * 2 + ucast operation
      else if bitmap = 2 then (index - 0xC0000000) * 2 + ucast operation
      else if bitmap = 3 then (index - 0xC0010000) * 2 + ucast operation
      else 0)"

definition noir_svm_msrpm_size :: nat where "noir_svm_msrpm_size = 0x1800"

definition pass_msr :: "u8 \<Rightarrow> nat \<Rightarrow> u32 \<Rightarrow> bytes \<Rightarrow> bytes" where
  "pass_msr n base index b =
     snd (noir_reset_bitmap (snd (noir_reset_bitmap b base (svm_msrpm_bit n index 0))) base (svm_msrpm_bit n index 1))"

end
