(* ===== verification/Cv_Guard.thy ===== *)
theory Cv_Guard
  imports Cv_Options Cv_Laws
begin

text \<open>
  The interceptions on which the hypervisor relies, and that they survive every option of the user
  hypervisor, every switch and every exit.
\<close>

section \<open>The interceptions\<close>

text \<open>Machine checks and security exceptions; \<open>cr4\<close>; interrupts, NMIs, SMIs, virtual interrupts, CPUID,
  INVD, HLT, INVLPGA, ports, model-specific registers and shutdowns; the instructions of SVM; the
  masking of virtual interrupts and nested paging.\<close>

definition guarded :: "bytes \<Rightarrow> bool" where
  "guarded b \<longleftrightarrow> (\<forall>n \<in> {18, 30}. bit (vmread32 b intercept_exceptions) n) \<and>
     (\<forall>n \<in> {4, 20}. bit (vmread32 b intercept_access_cr) n) \<and>
     (\<forall>n \<in> {0, 1, 2, 4, 18, 22, 24, 26, 27, 28, 31}. bit (vmread32 b intercept_instruction1) n) \<and>
     (\<forall>n < 7. bit (vmread16 b intercept_instruction2) n) \<and>
     bit (vmread64 b avic_control) 24 \<and> bit (vmread64 b npt_control) 0"

named_theorems guards

lemma guarded_far [guards]: "0x98 \<le> p \<Longrightarrow> guarded (wr n b p v) = guarded b"
  by (simp add: guarded_def vmcb vmcb_offsets)

lemma guarded_gap [guards]: "0x68 \<le> p \<Longrightarrow> p + n \<le> 0x90 \<Longrightarrow> guarded (wr n b p v) = guarded b"
  by (simp add: guarded_def vmcb vmcb_offsets)

lemma guarded_near [guards]: "0x12 \<le> p \<Longrightarrow> p + n \<le> 0x60 \<Longrightarrow> guarded (wr n b p v) = guarded b"
  by (simp add: guarded_def vmcb vmcb_offsets)

lemma guarded_dr [guards]: "4 \<le> p \<Longrightarrow> p + n \<le> 8 \<Longrightarrow> guarded (wr n b p v) = guarded b"
  by (simp add: guarded_def vmcb vmcb_offsets)

lemma vmread32_from_64: "vmread32 b p = ucast (vmread64 b p)"
  by (simp add: vmread32_load vmread64_def)

lemma wr4_low: "vmread64 (wr 4 b p v) p = (vmread64 b p AND NOT (mask 32)) OR take_bit 32 v"
proof (rule bit_word_eqI)
  fix n assume n: "n < LENGTH(64)"
  have "n div 8 < 4 \<longleftrightarrow> n < 32" by (simp add: div_less_iff_less_mult)
  moreover have "8 * (n div 8) + n mod 8 = n" by simp
  ultimately show "bit (vmread64 (wr 4 b p v) p) n = bit ((vmread64 b p AND NOT (mask 32)) OR take_bit 32 v) n"
    using n by (auto simp: bit_vmread64 wr_def bit_byte_of bit_simps)
qed

lemma guarded_avic [guards]:
  "bit v 24 \<Longrightarrow> guarded b \<Longrightarrow> guarded (wr 8 b 0x60 v)"
  "bit v 24 \<Longrightarrow> guarded b \<Longrightarrow> guarded (wr 4 b 0x60 v)"
  by (simp_all add: guarded_def vmcb vmcb_offsets wr4_low bit_simps)

lemma guarded_avic_bit: "guarded b \<Longrightarrow> bit (vmread64 b 0x60) 24" "guarded b \<Longrightarrow> bit (vmread32 b 0x60) 24"
  by (simp_all add: guarded_def vmcb_offsets vmread32_from_64 bit_simps)

section \<open>Options\<close>

lemma init_vectors:
  "\<forall>n \<in> {0, 1, 2, 4, 18, 22, 24, 26, 27, 28, 31}. bit init_vector1 n" "\<forall>n < 7. bit init_vector2 n"
  "\<forall>n \<in> {4, 20}. bit (put_flags nvc_svm_cra_intercept [''read.cr4'', ''write.cr4''] (0 :: u32)) n"
  "bit (bf_put nvc_svm_avic_control ''virtual_interrupt_masking'' 1 (0 :: u64)) 24"
  "bit (bf_put nvc_svm_npt_control ''enable_npt'' 1 (0 :: u64)) 0"
  by code_simp+

lemma guarded_init:
  assumes "nvc_svm_initialize_cvm_vmcb m v cv = Some cv'"
  shows "guarded (vmcb cv')"
  using assms init_vectors
  by (auto simp: nvc_svm_initialize_cvm_vmcb_def Let_def guarded_def flush_guest_def vmwrite_wr vmcb vmcb_offsets
      amd64_machine_check_def amd64_security_exception_def bit_simps split: if_splits)

lemma bit_bf_put:
  "bit (bf_put L f v (x :: 'a::len word)) n \<longleftrightarrow>
     (if bf_lo L f \<le> n \<and> n < bf_lo L f + bf_width L f then n < LENGTH('a) \<and> bit v (n - bf_lo L f) else bit x n)"
  by (simp add: bf_put_def bit_slice_put)

lemma intercept_positions:
  "bf_lo nvc_svm_instruction_intercept1 ''intercept_rsm'' = 19" "bf_width nvc_svm_instruction_intercept1 ''intercept_rsm'' = 1"
  "bf_lo nvc_svm_avic_control ''virtual_irq'' = 8" "bf_width nvc_svm_avic_control ''virtual_irq'' = 1"
  "bf_lo nvc_svm_avic_control ''virtual_interrupt_vector'' = 32" "bf_width nvc_svm_avic_control ''virtual_interrupt_vector'' = 8"
  "bf_lo nvc_svm_avic_control ''virtual_interrupt_priority'' = 16" "bf_width nvc_svm_avic_control ''virtual_interrupt_priority'' = 4"
  "bf_lo nvc_svm_avic_control ''ignore_virtual_tpr'' = 20" "bf_width nvc_svm_avic_control ''ignore_virtual_tpr'' = 1"
  by code_simp+

lemma guarded_exceptions:
  assumes "guarded b" "bit v 18" "bit v 30"
  shows "guarded (wr 4 b 8 (ucast (v :: u32)))"
  using assms by (simp add: guarded_def vmcb vmcb_offsets bit_simps)

lemma guarded_cr:
  assumes "guarded b" "bit v 4" "bit v 20"
  shows "guarded (wr 4 b 0 (ucast (v :: u32)))"
  using assms by (simp add: guarded_def vmcb vmcb_offsets bit_simps)

lemma guarded_vector1:
  assumes "guarded b" "\<And>n. n \<in> {0, 1, 2, 4, 18, 22, 24, 26, 27, 28, 31} \<Longrightarrow> bit v n = bit (vmread32 b 0xc) n"
  shows "guarded (wr 4 b 0xc (ucast (v :: u32)))"
  using assms by (simp add: guarded_def vmcb vmcb_offsets bit_simps)

lemma guarded_iret:
  "guarded b \<Longrightarrow> guarded (vmcb_bts32 b intercept_instruction1 nvc_svm_intercept_vector1_iret)"
  "guarded b \<Longrightarrow> guarded (vmcb_btr32 b intercept_instruction1 nvc_svm_intercept_vector1_iret)"
  unfolding vmwrite_wr vmcb_offsets nvc_svm_intercept_vector1_iret_def
  by (rule guarded_vector1; auto simp: bit_simps)+

text \<open>Every option keeps them: the masks of exceptions and of control registers are rewritten with the
  mandatory bits, and only the interception of RSM changes among the instructions.\<close>

lemma guarded_options:
  assumes "guarded (vmcb cv)"
  shows "guarded (vmcb (fst (nvc_svm_set_guest_vcpu_options m cv tf)))"
proof -
  let ?b = "vmcb cv"
  let ?must = "push_bit amd64_machine_check 1 OR push_bit amd64_security_exception 1 :: u32"
  define b1 where "b1 = (if \<not> vcpu_option ''intercept_exceptions'' cv then vmwrite32 ?b intercept_exceptions ?must
      else vmcb_bts32 (vmcb_bts32 (vmwrite32 ?b intercept_exceptions (exception_bitmap (header cv)))
             intercept_exceptions amd64_machine_check) intercept_exceptions amd64_security_exception)"
  have must: "bit ?must 18" "bit ?must 30"
    by (simp_all add: amd64_machine_check_def amd64_security_exception_def bit_simps)
  have e: "vmread32 b1 8 = (if \<not> vcpu_option ''intercept_exceptions'' cv then ?must
      else set_bit 30 (set_bit 18 (exception_bitmap (header cv))))"
    by (simp add: b1_def vmwrite_wr vmcb vmcb_offsets amd64_machine_check_def amd64_security_exception_def)
  have g1: "guarded b1"
    using assms must by (simp add: guarded_def e [unfolded vmcb_offsets] vmcb_offsets) (simp add: b1_def vmwrite_wr vmcb vmcb_offsets bit_simps)
  define b2 where "b2 = (if vcpu_option ''intercept_cr3'' cv
      then vmcb_bts32 (vmcb_bts32 b1 intercept_access_cr 0x03) intercept_access_cr 0x13
      else vmcb_btr32 (vmcb_btr32 b1 intercept_access_cr 0x03) intercept_access_cr 0x13)"
  have g2: "guarded b2"
    using g1 by (auto simp: b2_def guarded_def vmwrite_wr vmcb vmcb_offsets bit_simps)
  have v: "vmread32 b2 0xc = vmread32 ?b 0xc"
    by (simp add: b2_def b1_def vmwrite_wr vmcb vmcb_offsets)
  have tail: "guarded (wr 4 (wr 8 (wr 4 b2 4 x) 0x48 y) 0xc (ucast (bf_put nvc_svm_instruction_intercept1 ''intercept_rsm'' z (vmread32 ?b 0xc))))" for x y z
    by (rule guarded_vector1) (auto simp: guards g2 vmcb v bit_bf_put intercept_positions)
  have debug: "guarded (wr 4 b 8 (ucast (set_bit (Suc 0) (vmread32 b2 8))))" if "guarded b" for b
    using that g2 by (intro guarded_exceptions) (auto simp: guarded_def vmcb_offsets bit_simps)
  show ?thesis
    unfolding nvc_svm_set_guest_vcpu_options_def Let_def
    unfolding b1_def [symmetric]
    unfolding b2_def [symmetric]
    by (simp add: clean_def vmwrite_wr vmcb vmcb_offsets guards tail debug amd64_debug_exception_def)
qed

end
