(* ===== verification/Cv_Guard_Exits.thy ===== *)
theory Cv_Guard_Exits
  imports Cv_Guard
begin

text \<open>
  Every switch and every exit keeps the interceptions on which the hypervisor relies, so they hold
  throughout the life of a customizable virtual processor.
\<close>

section \<open>Parts of the control block\<close>

lemma wr1_low: "vmread64 (wr 1 b p v) p = (vmread64 b p AND NOT (mask 8)) OR take_bit 8 v"
proof (rule bit_word_eqI)
  fix n assume n: "n < LENGTH(64)"
  have "n div 8 = 0 \<longleftrightarrow> n < 8" by (simp add: div_eq_0_iff)
  moreover have "8 * (n div 8) + n mod 8 = n" by simp
  ultimately show "bit (vmread64 (wr 1 b p v) p) n = bit ((vmread64 b p AND NOT (mask 8)) OR take_bit 8 v) n"
    using n by (auto simp: bit_vmread64 wr_def bit_byte_of bit_simps)
qed

lemma guarded_tpr [guards]: "guarded (wr (Suc 0) b 0x60 v) = guarded b"
  by (simp add: guarded_def vmcb vmcb_offsets wr1_low [unfolded One_nat_def] bit_simps)

lemma guarded_clean [guards]: "guarded (clean n b) = guarded b"
  by (simp add: clean_def vmwrite_wr vmcb_offsets guards)

lemma guarded_flush [guards]: "guarded (flush_guest b) = guarded b"
  by (simp add: flush_guest_def vmwrite_wr vmcb_offsets guards)

lemma guarded_event [guards]: "guarded (noir_svm_inject_event b v ty ev va ec) = guarded b"
  by (simp add: noir_svm_inject_event_def Let_def vmwrite_wr vmcb_offsets guards)

lemma guarded_advance [guards]: "guarded (noir_svm_advance_rip b) = guarded b"
  by (simp add: noir_svm_advance_rip_def Let_def vmwrite_wr vmcb_offsets guards)

lemma guarded_save_area [guards]: "0x98 \<le> p \<Longrightarrow> guarded (vmwrite64 b p v) = guarded b" "0x98 \<le> p \<Longrightarrow> guarded (vmwrite32 b p v4) = guarded b"
  "0x98 \<le> p \<Longrightarrow> guarded (vmwrite16 b p v2) = guarded b"
  by (simp_all add: vmwrite_wr guards)

lemma guarded_scratch [guards]: "guarded (vmwrite64 b tsc_offset v) = guarded b" "guarded (vmwrite32 b tlb_control v4) = guarded b"
  by (simp_all add: vmwrite_wr vmcb_offsets guards)

section \<open>Entering the guest\<close>

lemma guarded_when_stale:
  assumes "guarded (snd hb)" "\<And>h b. guarded b \<Longrightarrow> guarded (w h b)"
  shows "guarded (snd (when_stale f w hb))"
  using assms by (cases hb) (simp add: when_stale_def)

lemma guarded_writers:
  "guarded (write_gpr h b) = guarded b" "guarded (write_dr h b) = guarded b" "guarded (write_cr h b) = guarded b"
  "guarded (write_cr2 h b) = guarded b" "guarded (write_tpr h b) = guarded b" "guarded (write_sr h b) = guarded b"
  "guarded (write_fg h b) = guarded b" "guarded (write_lt h b) = guarded b" "guarded (write_dt h b) = guarded b"
  "guarded (write_efer h b) = guarded b" "guarded (write_pat h b) = guarded b" "guarded (write_sysenter h b) = guarded b"
  "guarded (write_syscall h b) = guarded b" "guarded (write_tsc h b) = guarded b"
  by (simp_all add: write_gpr_def write_dr_def write_cr_def write_cr2_def write_tpr_def write_sr_def write_fg_def write_lt_def
      write_dt_def write_efer_def write_pat_def write_sysenter_def write_syscall_def write_tsc_def vmwrite_seg_def vmwrite_table_def
      Let_def vmwrite_wr vmcb_offsets guards)

lemma guarded_load: "guarded (snd hb) \<Longrightarrow> guarded (snd (load_vmcb hb))"
  unfolding load_vmcb_def Let_def by (intro guarded_when_stale) (simp_all add: guarded_writers)

lemma guarded_inject:
  assumes "guarded (vmcb cv)"
  shows "guarded (vmcb (inject_event cv))"
proof -
  have "bit (bf_put nvc_svm_avic_control ''ignore_virtual_tpr'' 0
          (bf_put nvc_svm_avic_control ''virtual_interrupt_priority'' p
            (bf_put nvc_svm_avic_control ''virtual_interrupt_vector'' v
              (bf_put nvc_svm_avic_control ''virtual_irq'' q (vmread64 (vmcb cv) 0x60))))) 24" for p v q
    using guarded_avic_bit(1) [OF assms] by (simp add: bit_bf_put intercept_positions)
  then have virq: "guarded (vmcb (inject_event cv))" if "event_field ''type'' (header cv) = 0"
    using that assms by (simp add: inject_event_def Let_def vmwrite_wr vmcb_offsets guards)
  have "guarded (vmcb (inject_event cv))" if "event_field ''type'' (header cv) \<noteq> 0"
    using that assms guarded_iret(1) [OF assms] by (simp add: inject_event_def Let_def guards) (simp add: vmcb_offsets guards)
  with virq show ?thesis by blast
qed

lemma guarded_switch_to_guest:
  assumes "guarded (vmcb (cvcpu w))"
  shows "guarded (vmcb (cvcpu (nvc_svm_switch_to_guest_vcpu avic w)))"
proof -
  have "guarded (vmcb (cvcpu (migrate w)))"
    using assms by (simp add: migrate_def vmcb_offsets guards)
  then have "guarded (vmcb (cvcpu (save_host (migrate w))))" by (simp add: save_host_def)
  then have "guarded (vmcb (cvcpu (load_guest (save_host (migrate w)))))"
    using guarded_load [of "(header (cvcpu (save_host (migrate w))), vmcb (cvcpu (save_host (migrate w))))"]
    by (auto simp: load_guest_def Let_def nvc_svm_nsv_load_guest_vcpu_def split: prod.splits)
  then show ?thesis
    by (simp add: nvc_svm_switch_to_guest_vcpu_def Let_def flush_npt_def guarded_inject guards)
qed

section \<open>Leaving the guest\<close>

definition holds :: "exit_world \<Rightarrow> exit_world \<Rightarrow> bool" where
  "holds s t \<longleftrightarrow> (guarded (xvmcb s) \<longrightarrow> guarded (xvmcb t))"

lemma holds_refl: "holds s s"
  by (simp add: holds_def)

lemma guarded_leave: "guarded (xvmcb s) \<Longrightarrow> guarded (xvmcb (leave_guest e s))"
  using guarded_avic_bit(1) [of "xvmcb s"]
  by (auto simp: leave_guest_def nvc_svm_switch_to_host_vcpu_def Let_def save_guest_def nvc_svm_nsv_save_guest_vcpu_def
      save_event_def vmwrite_wr vmcb_offsets guards split: prod.splits)

lemma holds_leave: "holds s t \<Longrightarrow> holds s (leave_guest e t)"
  by (simp add: holds_def guarded_leave)

lemma holds_steps:
  "holds s (select c t) \<longleftrightarrow> holds s t" "holds s (set_intercept i t) \<longleftrightarrow> holds s t"
  "holds s (on_frame g t) \<longleftrightarrow> holds s t" "holds s (t\<lparr>x_union := u\<rparr>) \<longleftrightarrow> holds s t" "holds s (t\<lparr>x_nsvs := n\<rparr>) \<longleftrightarrow> holds s t"
  "holds s (t\<lparr>x_mce := b\<rparr>) \<longleftrightarrow> holds s t" "holds s (on_cv (\<lambda>cv. cv\<lparr>prev_virq := b\<rparr>) t) \<longleftrightarrow> holds s t"
  "holds s (on_cv (\<lambda>cv. cv\<lparr>prev_nmi := b\<rparr>) t) \<longleftrightarrow> holds s t" "holds s (on_cv (\<lambda>cv. cv\<lparr>shadow_svme := b\<rparr>) t) \<longleftrightarrow> holds s t"
  "holds s (t\<lparr>x_host_vmcb := b1\<rparr>) \<longleftrightarrow> holds s t" "holds s (on_header k t) \<longleftrightarrow> holds s t"
  by (simp_all add: holds_def derived_updates)

lemma holds_vmcb: "holds s t \<Longrightarrow> (\<And>b. guarded b \<Longrightarrow> guarded (f b)) \<Longrightarrow> holds s (on_vmcb f t)"
  by (simp add: holds_def derived_updates)

lemmas held = holds_steps holds_refl holds_leave holds_vmcb

section \<open>The handlers\<close>

lemma holds_inject: "holds s (nvc_svm_inject_cvm_exception e v ev ec a n f s)"
  by (simp add: nvc_svm_inject_cvm_exception_def Let_def held guards vmcb_offsets)

lemma holds_scheduler:
  "holds s (nvc_svm_default_cvexit_handler e s)" "holds s (nvc_svm_mc_cvexit_handler e s)"
  "holds s (nvc_svm_extint_cvexit_handler e s)" "holds s (nvc_svm_nmi_cvexit_handler e s)"
  "holds s (nvc_svm_smi_cvexit_handler e s)" "holds s (nvc_svm_shutdown_cvexit_handler e s)"
  "holds s (nvc_svm_invalid_state_cvexit_handler e s)" "holds s (nvc_svm_exception_cvexit_handler e s)"
  by (simp_all add: nvc_svm_default_cvexit_handler_def nvc_svm_mc_cvexit_handler_def nvc_svm_extint_cvexit_handler_def
      nvc_svm_nmi_cvexit_handler_def nvc_svm_smi_cvexit_handler_def nvc_svm_shutdown_cvexit_handler_def
      nvc_svm_invalid_state_cvexit_handler_def nvc_svm_exception_cvexit_handler_def Let_def held)

lemma holds_sx: "holds s (nvc_svm_sx_cvexit_handler e s)"
proof -
  have "holds s (nvc_svm_emulate_init_signal e t) \<longleftrightarrow> holds s t" for t
    by (simp add: nvc_svm_emulate_init_signal_def Let_def holds_def)
  then show ?thesis by (simp add: nvc_svm_sx_cvexit_handler_def Let_def held)
qed

lemma holds_register:
  "holds s (nvc_svm_cr4_read_cvexit_handler e s)" "holds s (nvc_svm_cr4_write_cvexit_handler e s)"
  "holds s (nvc_svm_cr_access_cvexit_handler e s)" "holds s (nvc_svm_dr_access_cvexit_handler e s)"
  by (simp_all add: nvc_svm_cr4_read_cvexit_handler_def nvc_svm_cr4_write_cvexit_handler_def
      nvc_svm_cr_access_cvexit_handler_def nvc_svm_dr_access_cvexit_handler_def Let_def held guards vmcb_offsets)

lemma guarded_window [guards]:
  "guarded b \<Longrightarrow> guarded (vmcb_bts32 b avic_control nvc_svm_avic_control_ignore_vtpr)"
  "guarded b \<Longrightarrow> guarded (vmcb_bts32 b avic_control nvc_svm_avic_control_virq)"
  "guarded b \<Longrightarrow> guarded (vmcb_btr32 b avic_control nvc_svm_avic_control_ignore_vtpr)"
  "guarded b \<Longrightarrow> guarded (vmcb_btr32 b avic_control nvc_svm_avic_control_virq)"
  using guarded_avic_bit(2) [of b]
  by (simp_all add: vmwrite_wr vmcb_offsets guarded_avic bit_simps nvc_svm_avic_control_ignore_vtpr_def nvc_svm_avic_control_virq_def)

lemma holds_window: "holds s (nvc_svm_virtint_cvexit_handler e s)" "holds s (nvc_svm_iret_cvexit_handler e s)"
  by (simp_all add: nvc_svm_virtint_cvexit_handler_def nvc_svm_iret_cvexit_handler_def Let_def held guards guarded_iret)
    (simp add: vmcb_offsets guards held)?

lemma guarded_vc [guards]: "guarded b \<Longrightarrow> guarded (vmcb_btr32 b guest_rflags n)"
  by (simp add: vmwrite_wr vmcb_offsets guards)

lemma holds_synthetic: "xvmcb t = xvmcb s \<Longrightarrow> holds s (nvc_svm_nsv_load_nae_synthetic_msr_state t)"
  unfolding nvc_svm_nsv_load_nae_synthetic_msr_state_def Let_def holds_def derived_updates
  by (simp add: vmwrite_wr vmcb_offsets guards)

lemma holds_instruction:
  "holds s (nvc_svm_invd_cvexit_handler e s)" "holds s (nvc_svm_hlt_cvexit_handler e s)"
  "holds s (nvc_svm_vmmcall_cvexit_handler e s)" "holds s (nvc_svm_nested_pf_cvexit_handler e s)"
  "holds s (nvc_svm_io_cvexit_handler e s)"
  by (simp_all add: nvc_svm_invd_cvexit_handler_def nvc_svm_hlt_cvexit_handler_def nvc_svm_vmmcall_cvexit_handler_def
      nvc_svm_nested_pf_cvexit_handler_def nvc_svm_io_cvexit_handler_def Let_def held guards holds_synthetic)

lemma holds_svm_instruction:
  "holds s (nvc_svm_invlpga_cvexit_handler e s)" "holds s (nvc_svm_vmrun_cvexit_handler e s)"
  "holds s (nvc_svm_vmload_cvexit_handler e s)" "holds s (nvc_svm_vmsave_cvexit_handler e s)"
  "holds s (nvc_svm_stgi_cvexit_handler e s)" "holds s (nvc_svm_clgi_cvexit_handler e s)"
  "holds s (nvc_svm_skinit_cvexit_handler e s)"
  using holds_inject
  by (simp_all add: nvc_svm_invlpga_cvexit_handler_def nvc_svm_vmrun_cvexit_handler_def nvc_svm_vmload_cvexit_handler_def
      nvc_svm_vmsave_cvexit_handler_def nvc_svm_stgi_cvexit_handler_def nvc_svm_clgi_cvexit_handler_def
      nvc_svm_skinit_cvexit_handler_def inject_ud_def held)

lemma holds_cpuid: "nvc_svm_cpuid_cvexit_handler e s = Some t \<Longrightarrow> holds s t"
  by (auto simp: nvc_svm_cpuid_cvexit_handler_def Let_def held guards holds_synthetic split: if_splits option.splits prod.splits)

section \<open>Model-specific registers\<close>

lemma plain_msr_save_area: "plain_msr i = Some p \<Longrightarrow> 0x98 \<le> p"
  by (auto simp: plain_msr_def vmcb_offsets split: if_splits)

lemma holds_msr_emulation:
  "holds s (snd (nvc_svm_wrmsr_cvexit_handler e s))" "holds s (snd (nvc_svm_rdmsr_cvexit_handler e s))"
proof -
  show "holds s (snd (nvc_svm_rdmsr_cvexit_handler e s))"
    by (simp add: nvc_svm_rdmsr_cvexit_handler_def held split: option.split)
  have plain: "guarded (vmwrite64 b p v) = guarded b" if "plain_msr i = Some p" for i p b v
    using plain_msr_save_area [OF that] by (rule guarded_save_area)
  have area: "0x98 \<le> guest_pat" "0x98 \<le> guest_efer" by (simp_all add: vmcb_offsets)
  show "holds s (snd (nvc_svm_wrmsr_cvexit_handler e s))"
    unfolding nvc_svm_wrmsr_cvexit_handler_def Let_def
    by (auto simp: held guards area plain split: if_split option.split)
qed

lemma holds_nsv_write:
  "nsv_write e s i v = Inl t \<Longrightarrow> xvmcb t = xvmcb s" "nsv_write e s i v = Inr (r, t) \<Longrightarrow> xvmcb t = xvmcb s"
  by (auto simp: nsv_write_def nvc_svm_nsv_synchronize_activation_def Let_def derived_updates split: if_splits)

lemma holds_nsv:
  "holds s (snd (nvc_svm_rdmsr_nsvexit_handler s))" "holds s (snd (nvc_svm_wrmsr_nsvexit_handler e s))"
proof -
  show "holds s (snd (nvc_svm_rdmsr_nsvexit_handler s))"
    by (simp add: nvc_svm_rdmsr_nsvexit_handler_def inject_gp_def held guards split: option.split)
  show "holds s (snd (nvc_svm_wrmsr_nsvexit_handler e s))"
    by (auto simp: nvc_svm_wrmsr_nsvexit_handler_def inject_gp_def holds_def derived_updates guards holds_nsv_write
        split: sum.split)
qed

lemma holds_msr:
  assumes "\<And>cv. vmcb (e_scribble e cv) = vmcb cv"
  shows "holds s (nvc_svm_msr_cvexit_handler e s)"
proof -
  have scribbled: "holds s (on_cv (e_scribble e) t) \<longleftrightarrow> holds s t" for t
    using assms by (simp add: holds_def)
  have undefined: "holds s (inject_ud e t)" if "holds s t" for t
    using that holds_inject [of t] by (auto simp: inject_ud_def holds_def)
  have emulated: "holds s (emulate_msr e op s)" for op
    using holds_msr_emulation [of s e]
    by (cases op) (auto simp: emulate_msr_def Let_def scribbled held undefined split: prod.split)
  have delivered: "holds s (deliver_msr e op s)" for op
    by (simp add: deliver_msr_def Let_def held)
  have synthetic: "holds s (case (if op then nvc_svm_wrmsr_nsvexit_handler e s else nvc_svm_rdmsr_nsvexit_handler s) of
      (no_exit, s1) \<Rightarrow> if no_exit then s1 else leave_guest e s1)" for op
  proof (cases op)
    case True
    then show ?thesis using holds_nsv(2) [of s e] by (auto simp: held split: prod.split)
  next
    case False
    then show ?thesis using holds_nsv(1) [of s] by (auto simp: held split: prod.split)
  qed
  show ?thesis
    unfolding nvc_svm_msr_cvexit_handler_def Let_def
    using synthetic emulated delivered holds_refl by (simp only: split: if_split) blast
qed

section \<open>Every exit\<close>

definition holding :: "exit_env \<Rightarrow> exit_world \<Rightarrow> cvexit_handler \<Rightarrow> bool" where
  "holding e s f \<longleftrightarrow> (\<forall>t. f e s = Some t \<longrightarrow> holds s t)"

lemma total_holding: "holds s (f e s) \<Longrightarrow> holding e s (total f)"
  by (simp add: holding_def total_def)

lemma dispatched_holding:
  assumes "svm_cvexit_handlers code = Some f" "\<And>cv. vmcb (e_scribble e cv) = vmcb cv"
  shows "holding e s f"
proof -
  note all = holds_scheduler holds_sx holds_register holds_window holds_instruction holds_svm_instruction holds_msr [OF assms(2)]
  have cpuid: "holding e s nvc_svm_cpuid_cvexit_handler" using holds_cpuid by (simp add: holding_def)
  have avic: "holding e s (total nvc_svm_incomplete_ipi_cvexit_handler)" "holding e s (total nvc_svm_unaccelerated_avic_cvexit_handler)"
    by (simp_all add: holding_def total_def nvc_svm_incomplete_ipi_cvexit_handler_def nvc_svm_unaccelerated_avic_cvexit_handler_def holds_refl)
  have "Some f \<in> set svm_cvexit_handler_negative \<or> f \<in> set svm_cvexit_handler_group1 \<or> f \<in> set svm_cvexit_handler_group2"
    using dispatched_member [OF assms(1)] .
  then show ?thesis
  proof (elim disjE)
    assume "Some f \<in> set svm_cvexit_handler_negative"
    then show ?thesis unfolding svm_cvexit_handler_negative_def by (auto intro!: total_holding all)
  next
    assume "f \<in> set svm_cvexit_handler_group1"
    then show ?thesis
      unfolding svm_cvexit_handler_group1_def unhandled_def
      by (simp only: set_append set_replicate_conv_if list.set Un_iff insert_iff empty_iff) (auto intro!: total_holding all cpuid)
  next
    assume "f \<in> set svm_cvexit_handler_group2"
    then show ?thesis unfolding svm_cvexit_handler_group2_def by (auto intro!: total_holding all avic)
  qed
qed

lemma holds_ends: "holds s (begin_exit e s)" "holds s t \<Longrightarrow> holds s (end_exit e t)"
  by (simp_all add: begin_exit_def end_exit_def deliver_exit_def nvc_svm_load_basic_exit_context_def Let_def holds_def derived_updates guards vmcb_offsets)
    (simp add: vmwrite_wr guards)?

lemma exit_holds:
  assumes "nvc_svm_exit_handler e s = Some t" "\<And>cv. vmcb (e_scribble e cv) = vmcb cv" "guarded (xvmcb s)"
  shows "guarded (xvmcb t)"
proof -
  obtain f u where f: "svm_cvexit_handlers (vmread32 (xvmcb s) exit_code) = Some f" and u: "f e (begin_exit e s) = Some u"
    and t: "t = end_exit e u"
    using assms(1) by (auto simp: nvc_svm_exit_handler_def split: option.splits)
  have "holds (begin_exit e s) u"
    using dispatched_holding [OF f assms(2)] u by (simp add: holding_def)
  then have "holds s u" using holds_ends(1) [of s e] by (simp add: holds_def)
  from holds_ends(2) [OF this] show ?thesis using assms(3) t by (simp add: holds_def)
qed

end
