(* ===== verification/Cv_Msrpm.thy ===== *)
theory Cv_Msrpm
  imports Cv_Options Cv_Msr
begin

text \<open>
  The two permission maps of model-specific registers that a machine gets (\<open>svm_core/svm_custom.c\<close>),
  and which registers the processor intercepts with them.
\<close>

section \<open>The maps\<close>

text \<open>The three bitmaps of the map lie at \<open>0\<close>, \<open>0x800\<close> and \<open>0x1000\<close>.\<close>

definition nvc_svmc_setup_msr_interception_exception :: "bytes \<Rightarrow> bytes" where
  "nvc_svmc_setup_msr_interception_exception msrpm =
     foldl (\<lambda>b (n, base, index). pass_msr n base index b) msrpm
       [(1, 0, amd64_sysenter_cs), (1, 0, amd64_sysenter_esp), (1, 0, amd64_sysenter_eip),
        (2, 0x800, amd64_star), (2, 0x800, amd64_lstar), (2, 0x800, amd64_cstar), (2, 0x800, amd64_sfmask),
        (2, 0x800, amd64_fs_base), (2, 0x800, amd64_gs_base), (2, 0x800, amd64_kernel_gs_base), (1, 0, amd64_pat)]"

text \<open>As \<open>nvc_svmc_create_vm\<close> leaves the maps: contiguous memory is allocated zeroed, and only the
  first map is filled.\<close>

definition created_msrpm :: bytes where
  "created_msrpm = nvc_svmc_setup_msr_interception_exception (\<lambda>a. if a < noir_svm_msrpm_size then 0xff else 0)"

definition created_msrpm_full :: bytes where
  "created_msrpm_full = (\<lambda>_. 0)"

text \<open>What the processor does with a map: two bits for each register of three ranges, one for reads and
  one for writes; other registers are always intercepted.\<close>

definition msr_exits :: "bytes \<Rightarrow> u32 \<Rightarrow> bool \<Rightarrow> bool" where
  "msr_exits b index write =
     (let i = unat index; w = (if write then 1 else 0) in
      if i < 0x2000 then bitmap_bit b 0 (2 * i + w)
      else if 0xC0000000 \<le> i \<and> i < 0xC0002000 then bitmap_bit b 0x800 (2 * (i - 0xC0000000) + w)
      else if 0xC0010000 \<le> i \<and> i < 0xC0012000 then bitmap_bit b 0x1000 (2 * (i - 0xC0010000) + w)
      else True)"

definition passed_msrs :: "u32 list" where
  "passed_msrs = [amd64_sysenter_cs, amd64_sysenter_esp, amd64_sysenter_eip, amd64_pat, amd64_star, amd64_lstar, amd64_cstar,
     amd64_sfmask, amd64_fs_base, amd64_gs_base, amd64_kernel_gs_base]"

section \<open>Bits from the start of the map\<close>

lemma bitmap_from_start: "bitmap_bit b base k = bitmap_bit b 0 (8 * base + k)"
  by (simp add: bitmap_bit_def)

lemma reset_from_start:
  "bitmap_bit (snd (noir_reset_bitmap b base pos)) 0 j \<longleftrightarrow> j \<noteq> 8 * base + unat pos \<and> bitmap_bit b 0 j"
proof (cases "8 * base \<le> j")
  case True
  then obtain k where j: "j = 8 * base + k" using le_Suc_ex by blast
  have "bitmap_bit (snd (noir_reset_bitmap b base pos)) base k \<longleftrightarrow> k \<noteq> unat pos \<and> bitmap_bit b base k"
    by (rule bitmap_reset)
  then show ?thesis unfolding bitmap_from_start [of _ base] by (simp add: j)
next
  case False
  then have "j div 8 < base" by (simp add: less_mult_imp_div_less mult.commute)
  then have "snd (noir_reset_bitmap b base pos) (j div 8) = b (j div 8)"
    by (simp add: noir_reset_bitmap_def Let_def vmcb_btr32_def vmwrite32_def wr_def)
  then show ?thesis using False by (auto simp: bitmap_bit_def)
qed

lemma pass_from_start:
  "bitmap_bit (pass_msr n base index b) 0 j \<longleftrightarrow>
     j \<noteq> 8 * base + unat (svm_msrpm_bit n index 0) \<and> j \<noteq> 8 * base + unat (svm_msrpm_bit n index 1) \<and> bitmap_bit b 0 j"
  by (auto simp: pass_msr_def reset_from_start)

lemma created_bits:
  "bitmap_bit created_msrpm 0 j \<longleftrightarrow> j < 0xC000 \<and>
     j \<notin> {0x2E8, 0x2E9, 0x2EA, 0x2EB, 0x2EC, 0x2ED, 0x4EE, 0x4EF, 0x4102, 0x4103, 0x4104, 0x4105, 0x4106, 0x4107, 0x4108, 0x4109,
          0x4200, 0x4201, 0x4202, 0x4203, 0x4204, 0x4205}"
proof -
  have "j div 8 < 0x1800 \<longleftrightarrow> j < 0xC000" by (simp add: div_less_iff_less_mult)
  moreover have "bit (0xff :: u8) (j mod 8)"
  proof -
    have "bit (mask 8 :: u8) (j mod 8)" by (simp add: bit_mask_iff possible_bit_word)
    then show ?thesis by (simp add: mask_eq_exp_minus_1)
  qed
  ultimately have "bitmap_bit (\<lambda>a. if a < noir_svm_msrpm_size then 0xff else 0) 0 j \<longleftrightarrow> j < 0xC000"
    by (simp add: bitmap_bit_def noir_svm_msrpm_size_def)
  then show ?thesis
    unfolding created_msrpm_def nvc_svmc_setup_msr_interception_exception_def
    by (simp add: pass_from_start svm_msrpm_bit_def msr_numbers del: One_nat_def) blast
qed

section \<open>Properties\<close>

lemma passed_numbers:
  "index \<in> set passed_msrs \<longleftrightarrow> unat index \<in> {0x174, 0x175, 0x176, 0x277, 0xC0000081, 0xC0000082, 0xC0000083, 0xC0000084,
     0xC0000100, 0xC0000101, 0xC0000102}"
  by (auto simp: passed_msrs_def msr_numbers word_unat_eq_iff)

text \<open>C31: with the map that a machine starts with, the processor intercepts every access to a
  model-specific register, reads and writes alike, but those to the eleven registers that are switched
  with the control block.\<close>

theorem msrpm_passes:
  "msr_exits created_msrpm index write \<longleftrightarrow> index \<notin> set passed_msrs"
proof -
  define i where "i = unat index"
  have low: "i < 0x2000 \<Longrightarrow> bitmap_bit created_msrpm 0 (2 * i + (if write then 1 else 0)) \<longleftrightarrow> i \<notin> {0x174, 0x175, 0x176, 0x277}"
    unfolding created_bits by (cases "write") (simp, presburger)+
  have middle: "0xC0000000 \<le> i \<Longrightarrow> i < 0xC0002000 \<Longrightarrow>
      bitmap_bit created_msrpm 0x800 (2 * (i - 0xC0000000) + (if write then 1 else 0)) \<longleftrightarrow>
      i \<notin> {0xC0000081, 0xC0000082, 0xC0000083, 0xC0000084, 0xC0000100, 0xC0000101, 0xC0000102}"
    unfolding bitmap_from_start [of _ "0x800"] created_bits by (cases "write") (simp, presburger)+
  have high: "0xC0010000 \<le> i \<Longrightarrow> i < 0xC0012000 \<Longrightarrow>
      bitmap_bit created_msrpm 0x1000 (2 * (i - 0xC0010000) + (if write then 1 else 0))"
    unfolding bitmap_from_start [of _ "0x1000"] created_bits by (cases "write") simp_all
  show ?thesis
    unfolding msr_exits_def Let_def passed_numbers i_def [symmetric]
    using low middle high by (auto split: if_splits)
qed

text \<open>The option to deliver accesses to model-specific registers turns their interception off: it
  selects the second map, which is never filled, so that the guest accesses every register of the three
  ranges in the physical processor.\<close>

theorem msr_option_exposes:
  assumes "vcpu_option ''intercept_msr'' cv" "unat index < 0x2000 \<or> unat index \<in> {0xC0000000 ..< 0xC0002000} \<union> {0xC0010000 ..< 0xC0012000}"
  shows "vmread64 (vmcb (fst (nvc_svm_set_guest_vcpu_options m cv tf))) msrpm_physical_address = vp_msrpm_full m \<and>
    \<not> msr_exits created_msrpm_full index write"
proof -
  have "\<not> msr_exits created_msrpm_full index write"
    using assms(2) by (auto simp: msr_exits_def Let_def created_msrpm_full_def bitmap_bit_def)
  then show ?thesis
    using assms(1) by (simp add: nvc_svm_set_guest_vcpu_options_def Let_def clean_def vmwrite_wr vmcb vmcb_offsets)
qed

end
