(* ===== verification/Cv_Life.thy ===== *)
theory Cv_Life
  imports Cv_Guard_Exits Cv_Msrpm Cv_Properties Vcpu_Names
begin

text \<open>
  The life of a customizable virtual processor as a transition system: it is created, entered, runs and
  exits, and the user hypervisor sets its options and edits its registers in between, in any order.
\<close>

section \<open>Steps\<close>

text \<open>What the processor writes of a control block while the guest runs: the virtual interrupt and task
  priority, the interrupt shadow, the exit fields and the saved state. Interceptions, the other bits of
  the interrupt control and nested paging are only read.\<close>

definition processor_runs :: "bytes \<Rightarrow> bytes \<Rightarrow> bool" where
  "processor_runs b b' \<longleftrightarrow> (\<forall>p. p < 0x60 \<or> 0x62 \<le> p \<and> p < 0x68 \<or> 0x90 \<le> p \<and> p < 0x98 \<longrightarrow> b' p = b p)"

inductive vcpu_step :: "vm_pages \<Rightarrow> exit_world \<Rightarrow> exit_world \<Rightarrow> bool" for m where
  enter: "vcpu_step m s (s\<lparr>xw := nvc_svm_switch_to_guest_vcpu avic (xw s)\<rparr>)"
| run: "processor_runs (xvmcb s) b \<Longrightarrow> vcpu_step m s (on_vmcb (\<lambda>_. b) s)"
| leave: "nvc_svm_exit_handler e s = Some t \<Longrightarrow> (\<And>cv. vmcb (e_scribble e cv) = vmcb cv) \<Longrightarrow> vcpu_step m s t"
| option: "vcpu_step m s (on_cv (\<lambda>cv. snd (nvc_set_guest_vcpu_options m ty d cv tf)) s)"
| edit: "nvc_edit_vcpu_registers xsize tsc ty buf sz (xheader s) = Some (st, h) \<Longrightarrow> vcpu_step m s (on_header (\<lambda>_. h) s)"
| edit2: "nvc_edit_vcpu_registers2 tsc names sz4 buf (xheader s) = (st, h) \<Longrightarrow> vcpu_step m s (on_header (\<lambda>_. h) s)"
| view: "vcpu_step m s (on_cv nvc_svm_dump_guest_vcpu_state s)"
| other: "xvmcb t = xvmcb s \<Longrightarrow> vcpu_step m s t"

definition created :: "vm_pages \<Rightarrow> exit_world \<Rightarrow> bool" where
  "created m s \<longleftrightarrow> (\<exists>cv. nvc_svm_initialize_cvm_vmcb m True cv = Some (cvcpu (xw s)))"

section \<open>The invariant\<close>

lemma guarded_run:
  assumes "processor_runs b b'" "guarded b"
  shows "guarded b'"
proof -
  have byte: "b' p = b p" if "p < 0x60 \<or> 0x62 \<le> p \<and> p < 0x68 \<or> 0x90 \<le> p \<and> p < 0x98" for p
    using assms(1) that unfolding processor_runs_def by blast
  have r64: "bit (vmread64 b' p) n = bit (vmread64 b p) n" if "n < 64" "b' (p + n div 8) = b (p + n div 8)" for p n
    using that by (simp add: bit_vmread64)
  have r32: "bit (vmread32 b' p) n = bit (vmread32 b p) n" if "n < 32" "p < 0x10" for p n
  proof -
    have "n div 8 < 4" using that by (simp add: div_less_iff_less_mult)
    then have "p + n div 8 < 0x60" using that by simp
    then show ?thesis using byte [of "p + n div 8"] by (simp add: bit_vmread32)
  qed
  have r16: "vmread16 b' 0x10 = vmread16 b 0x10"
    using byte by (simp add: vmread16_def)
  have "bit (vmread64 b' 0x60) 24 = bit (vmread64 b 0x60) 24" "bit (vmread64 b' 0x90) 0 = bit (vmread64 b 0x90) 0"
    by (simp_all add: r64 byte)
  then show ?thesis
    using assms(2) by (simp add: guarded_def vmcb_offsets r32 r16)
qed

lemma guarded_request: "guarded (vmcb cv) \<Longrightarrow> guarded (vmcb (snd (nvc_set_guest_vcpu_options m ty d cv tf)))"
  using guarded_options [of "cv\<lparr>header := h\<rparr>" m tf for h]
  by (simp add: nvc_set_guest_vcpu_options_def split: option.split)

lemma guarded_step: "vcpu_step m s t \<Longrightarrow> guarded (xvmcb s) \<Longrightarrow> guarded (xvmcb t)"
proof (induction rule: vcpu_step.induct)
  case (enter s avic)
  then show ?case using guarded_switch_to_guest by simp
next
  case (run s b)
  then show ?case using guarded_run by (simp add: derived_updates)
next
  case (leave e s t)
  then show ?case using exit_holds by blast
next
  case (option s ty d tf)
  then show ?case using guarded_request by simp
next
  case (edit xsize tsc ty buf sz s st h)
  then show ?case by (simp add: derived_updates)
next
  case (edit2 tsc names sz4 buf s st h)
  then show ?case by (simp add: derived_updates)
next
  case (view s)
  then show ?case by (simp add: nvc_svm_dump_guest_vcpu_state_def)
next
  case (other t s)
  then show ?case by simp
qed

lemma created_guarded: "created m s \<Longrightarrow> guarded (xvmcb s)"
  using guarded_init by (auto simp: created_def)

section \<open>Properties\<close>

text \<open>C7: throughout the life of a customizable virtual processor, whatever options the user hypervisor sets,
  whatever registers it edits and whatever the guest does, the interceptions on which the hypervisor
  relies stay on: machine checks and security exceptions, accesses to \<open>cr4\<close>, interrupts and NMIs, CPUID,
  INVD, HLT, INVLPGA, ports, model-specific registers, shutdowns and the instructions of SVM; interrupts
  stay masked by the host, and nested paging stays enabled.\<close>

theorem interceptions_stay:
  assumes "created m s" "(vcpu_step m)\<^sup>*\<^sup>* s t"
  shows "guarded (xvmcb t)"
  using assms(2) created_guarded [OF assms(1)]
  by (induction rule: rtranclp_induct) (auto intro: guarded_step)

definition example_pages :: vm_pages where
  "example_pages = \<lparr>vp_asid = 5, vp_ncr3 = 0xA000, vp_iopm = 0xB000, vp_msrpm = 0xE000, vp_msrpm_full = 0x11000\<rparr>"

definition example_created :: exit_world where
  "example_created = on_cv (\<lambda>cv. the (nvc_svm_initialize_cvm_vmcb example_pages True cv)) (example_exit False 0)"

lemma example_created: "created example_pages example_created"
proof -
  have "nvc_svm_initialize_cvm_vmcb m True cv \<noteq> None" for m cv
    by (simp add: nvc_svm_initialize_cvm_vmcb_def Let_def)
  then have "nvc_svm_initialize_cvm_vmcb example_pages True (cvcpu (xw (example_exit False 0))) = Some (cvcpu (xw example_created))"
    by (auto simp: example_created_def)
  then show ?thesis by (auto simp: created_def)
qed

theorem interceptions_stay_witness:
  "bit (vmread32 (vmcb (cvcpu (nvc_svm_switch_to_guest_vcpu False (xw (on_cv (\<lambda>cv. snd (nvc_set_guest_vcpu_options example_pages Exception_bitmap 0 cv False))
     example_created))))) intercept_instruction1) 18"
proof -
  let ?s = "on_cv (\<lambda>cv. snd (nvc_set_guest_vcpu_options example_pages Exception_bitmap 0 cv False)) example_created"
  have "vcpu_step example_pages example_created ?s" by (rule vcpu_step.option)
  moreover have "vcpu_step example_pages ?s (?s\<lparr>xw := nvc_svm_switch_to_guest_vcpu False (xw ?s)\<rparr>)" by (rule vcpu_step.enter)
  ultimately have "(vcpu_step example_pages)\<^sup>*\<^sup>* example_created (?s\<lparr>xw := nvc_svm_switch_to_guest_vcpu False (xw ?s)\<rparr>)" by simp
  from interceptions_stay [OF example_created this] show ?thesis by (simp add: guarded_def)
qed

text \<open>The processor of the example with the delivery of model-specific registers switched on.\<close>

definition example_msr_vcpu :: noir_svm_custom_vcpu where
  "example_msr_vcpu = example_vcpu\<lparr>header := (header example_vcpu)
     \<lparr>vcpu_options := bf_put noir_cvm_vcpu_options_bits ''intercept_msr'' 1 0\<rparr>\<rparr>"

theorem msr_option_exposes_witness:
  "vmread64 (vmcb (fst (nvc_svm_set_guest_vcpu_options example_pages example_msr_vcpu False))) msrpm_physical_address = 0x11000 \<and>
   \<not> msr_exits created_msrpm_full amd64_apic_base True"
proof -
  have "vcpu_option ''intercept_msr'' example_msr_vcpu"
    by (simp add: example_msr_vcpu_def vcpu_option_def) code_simp
  moreover have "unat amd64_apic_base < 0x2000" by (simp add: amd64_apic_base_def)
  ultimately show ?thesis
    using msr_option_exposes [of example_msr_vcpu amd64_apic_base example_pages False True] by (simp add: example_pages_def)
qed

end
