(* ===== verification/Id_Pool.thy ===== *)
theory Id_Pool
  imports Bitmap
begin

text \<open>
  Pools of numbers: what an allocator promises to its clients, the pool of address-space identifiers
  (\<open>svm_core/svm_custom.c\<close>, \<open>svm_core/svm_main.c\<close>) and the slots of locked pages
  (\<open>xpf_core/noirhvm.c\<close>).
\<close>

section \<open>Contracts\<close>

text \<open>\<open>ids p\<close> are the numbers the pool hands out, \<open>taken p\<close> those that are in use.\<close>

locale id_source =
  fixes valid :: "'p \<Rightarrow> bool" and ids :: "'p \<Rightarrow> 'i set" and taken :: "'p \<Rightarrow> 'i set"
    and alloc :: "'p \<Rightarrow> 'i option \<times> 'p"
  assumes finite_ids: "finite (ids p)"
    and alloc_some: "valid p \<Longrightarrow> alloc p = (Some i, q) \<Longrightarrow>
      valid q \<and> ids q = ids p \<and> i \<in> ids p - taken p \<and> taken q = insert i (taken p)"
    and alloc_none: "valid p \<Longrightarrow> alloc p = (None, q) \<Longrightarrow> q = p \<and> ids p \<subseteq> taken p"
begin

text \<open>\<open>used hs p\<close>: the clients hold the numbers \<open>hs\<close>, each once.\<close>

definition used :: "'i list \<Rightarrow> 'p \<Rightarrow> bool" where
  "used hs p \<longleftrightarrow> valid p \<and> distinct hs \<and> set hs = taken p \<inter> ids p"

lemma alloc_used: "used hs p \<Longrightarrow> alloc p = (Some i, q) \<Longrightarrow> used (i # hs) q"
  using alloc_some [of p i q] by (auto simp: used_def)

lemma alloc_new: "used hs p \<Longrightarrow> alloc p = (Some i, q) \<Longrightarrow> i \<in> ids p \<and> i \<notin> set hs"
  using alloc_some [of p i q] by (auto simp: used_def)

lemma alloc_exhausted: "used hs p \<Longrightarrow> alloc p = (None, q) \<Longrightarrow> q = p \<and> length hs = card (ids p)"
  using alloc_none [of p q] by (auto simp: used_def distinct_card [symmetric] Int_absorb1)

lemma alloc_succeeds:
  assumes "used hs p" "length hs < card (ids p)"
  shows "\<exists>i q. alloc p = (Some i, q)"
proof (cases "alloc p")
  case (Pair r q)
  then show ?thesis using alloc_exhausted [of hs p q] assms by (cases r) auto
qed

end

locale id_pool = id_source valid ids taken alloc
  for valid :: "'p \<Rightarrow> bool" and ids :: "'p \<Rightarrow> 'i set" and taken :: "'p \<Rightarrow> 'i set" and alloc :: "'p \<Rightarrow> 'i option \<times> 'p" +
  fixes free :: "'i \<Rightarrow> 'p \<Rightarrow> 'p"
  assumes free_taken: "valid p \<Longrightarrow> i \<in> ids p \<Longrightarrow>
    valid (free i p) \<and> ids (free i p) = ids p \<and> taken (free i p) = taken p - {i}"
begin

lemma free_used: "used hs p \<Longrightarrow> i \<in> set hs \<Longrightarrow> used (remove1 i hs) (free i p)"
  using free_taken [of p i] by (auto simp: used_def)

lemma alloc_free:
  assumes "valid p" "alloc p = (Some i, q)"
  shows "taken (free i q) = taken p"
  using alloc_some [OF assms] free_taken [of q i] by auto

end

section \<open>Claiming a bit\<close>

text \<open>The allocators search a clear bit and set it.\<close>

definition claim_bit :: "nat \<Rightarrow> u32 \<Rightarrow> bytes \<Rightarrow> u32 \<times> bytes" where
  "claim_bit base limit b =
     (let k = noir_find_clear_bit b base limit in
      if k = 0xffffffff then (k, b) else (k, snd (noir_set_bitmap b base k)))"

definition words_bits :: "u32 \<Rightarrow> nat" where
  "words_bits limit = 64 * ((unat limit + 63) div 64)"

lemma words_bits_bounds: "unat limit \<le> words_bits limit" "words_bits limit \<le> unat limit + 63"
  unfolding words_bits_def by linarith+

lemma u32_number: "k < 4294967296 \<Longrightarrow> unat (of_nat k :: u32) = k"
  by (simp add: unat_of_nat take_bit_nat_eq_self)

lemma u32_not_last: "k < 4294967295 \<Longrightarrow> (of_nat k :: u32) \<noteq> 0xffffffff"
  using u32_number [of k] by (auto dest: arg_cong [of _ _ unat])

lemma claim_cases:
  assumes "unat limit \<le> 4294967232"
  obtains (free) k where "k < words_bits limit" "\<not> bitmap_bit b base k" "k < 4294967295"
      "claim_bit base limit b = (of_nat k, snd (noir_set_bitmap b base (of_nat k)))"
  | (full) "\<And>k. k < words_bits limit \<Longrightarrow> bitmap_bit b base k" "claim_bit base limit b = (0xffffffff, b)"
proof (cases "find (\<lambda>k. \<not> bitmap_bit b base k) [0 ..< words_bits limit]")
  case None
  then have "noir_find_clear_bit b base limit = 0xffffffff"
    using find_clear_bits [of b base limit] by (simp add: words_bits_def)
  then show ?thesis using full None by (simp add: claim_bit_def find_None_iff)
next
  case (Some k)
  then have k: "k < words_bits limit" "\<not> bitmap_bit b base k" by (auto simp: find_Some_iff)
  have small: "k < 4294967295" using k(1) words_bits_bounds(2) [of limit] assms by linarith
  then have "(of_nat k :: u32) \<noteq> 0xffffffff" by (rule u32_not_last)
  moreover have "noir_find_clear_bit b base limit = of_nat k"
    using find_clear_bits [of b base limit] Some by (simp add: words_bits_def)
  ultimately show ?thesis using free [OF k small] by (simp add: claim_bit_def Let_def)
qed

section \<open>Address-space identifiers\<close>

record tlb_tagging =
  asid_pool :: bytes
  tag_start :: u32
  tag_limit :: u32

definition nvc_svmc_free_asid :: "u32 \<Rightarrow> tlb_tagging \<Rightarrow> tlb_tagging" where
  "nvc_svmc_free_asid asid t = t\<lparr>asid_pool := snd (noir_reset_bitmap (asid_pool t) 0 (asid - tag_start t))\<rparr>"

definition nvc_svmc_alloc_asid :: "tlb_tagging \<Rightarrow> u32 \<times> tlb_tagging" where
  "nvc_svmc_alloc_asid t =
     (case claim_bit 0 (tag_limit t) (asid_pool t) of (asid, b) \<Rightarrow>
        (if asid \<noteq> 0xffffffff then asid + tag_start t else asid, t\<lparr>asid_pool := b\<rparr>))"

text \<open>The pool as \<open>nvc_svm_subvert_system\<close> sets it up, from the number of identifiers of the processor.\<close>

definition init_tlb_tagging :: "bool \<Rightarrow> u32 \<Rightarrow> tlb_tagging" where
  "init_tlb_tagging nested asid_limit =
     (if nested then
        (let start = drop_bit 1 asid_limit
         in \<lparr>asid_pool = (\<lambda>_. 0), tag_start = start, tag_limit = asid_limit - start\<rparr>)
      else \<lparr>asid_pool = (\<lambda>_. 0), tag_start = 2, tag_limit = asid_limit - 2\<rparr>)"

definition asid_valid :: "tlb_tagging \<Rightarrow> bool" where
  "asid_valid t \<longleftrightarrow> unat (tag_start t) + unat (tag_limit t) \<le> 4294967232"

definition asid_of :: "tlb_tagging \<Rightarrow> nat \<Rightarrow> u32" where
  "asid_of t k = of_nat k + tag_start t"

definition asid_ids :: "tlb_tagging \<Rightarrow> u32 set" where
  "asid_ids t = asid_of t ` {0 ..< words_bits (tag_limit t)}"

definition asid_taken :: "tlb_tagging \<Rightarrow> u32 set" where
  "asid_taken t = asid_of t ` {k \<in> {0 ..< words_bits (tag_limit t)}. bitmap_bit (asid_pool t) 0 k}"

definition asid_alloc :: "tlb_tagging \<Rightarrow> u32 option \<times> tlb_tagging" where
  "asid_alloc t = (case nvc_svmc_alloc_asid t of (a, t') \<Rightarrow> (if a = 0xffffffff then None else Some a, t'))"

lemma asid_of_unat:
  assumes "asid_valid t" "k < words_bits (tag_limit t)"
  shows "unat (asid_of t k) = k + unat (tag_start t)" "unat (asid_of t k) < 4294967295"
proof -
  have "k + unat (tag_start t) < 4294967295"
    using assms words_bits_bounds(2) [of "tag_limit t"] unfolding asid_valid_def by linarith
  moreover from this have "unat (of_nat k :: u32) = k" by (simp add: u32_number)
  ultimately show "unat (asid_of t k) = k + unat (tag_start t)" "unat (asid_of t k) < 4294967295"
    by (simp_all add: asid_of_def unat_word_ariths)
qed

lemma asid_of_inj:
  assumes "asid_valid t" "k < words_bits (tag_limit t)" "j < words_bits (tag_limit t)"
  shows "asid_of t k = asid_of t j \<longleftrightarrow> k = j"
  using asid_of_unat(1) [OF assms(1)] assms(2,3) by (metis add_right_cancel)

lemma asid_outcome:
  assumes "asid_valid t"
  obtains (free) k where "k < words_bits (tag_limit t)" "\<not> bitmap_bit (asid_pool t) 0 k"
      "asid_alloc t = (Some (asid_of t k), t\<lparr>asid_pool := snd (noir_set_bitmap (asid_pool t) 0 (of_nat k))\<rparr>)"
  | (full) "\<And>k. k < words_bits (tag_limit t) \<Longrightarrow> bitmap_bit (asid_pool t) 0 k" "asid_alloc t = (None, t)"
proof -
  have limit: "unat (tag_limit t) \<le> 4294967232" using assms by (simp add: asid_valid_def)
  show ?thesis
  proof (cases rule: claim_cases [OF limit, where base = 0 and b = "asid_pool t"])
    case (1 k)
    have "(of_nat k :: u32) \<noteq> 0xffffffff" using 1(3) by (rule u32_not_last)
    moreover have "asid_of t k \<noteq> 0xffffffff"
      using asid_of_unat(2) [OF assms 1(1)] by (auto dest: arg_cong [of _ _ unat])
    ultimately show ?thesis
      using free [OF 1(1,2)] 1(4) by (simp add: asid_alloc_def nvc_svmc_alloc_asid_def asid_of_def)
  next
    case 2
    then show ?thesis using full by (simp add: asid_alloc_def nvc_svmc_alloc_asid_def)
  qed
qed

lemma bit_number: "k < words_bits (tag_limit t) \<Longrightarrow> asid_valid t \<Longrightarrow> unat (of_nat k :: u32) = k"
  using words_bits_bounds(2) [of "tag_limit t"] by (simp add: asid_valid_def u32_number)

lemma asid_set_bit:
  assumes "asid_valid t" "k < words_bits (tag_limit t)"
  shows "asid_taken (t\<lparr>asid_pool := snd (noir_set_bitmap (asid_pool t) 0 (of_nat k))\<rparr>) = insert (asid_of t k) (asid_taken t)"
    "asid_taken (t\<lparr>asid_pool := snd (noir_reset_bitmap (asid_pool t) 0 (of_nat k))\<rparr>) = asid_taken t - {asid_of t k}"
proof -
  have same: "asid_of (t\<lparr>asid_pool := b\<rparr>) = asid_of t" for b by (simp add: asid_of_def fun_eq_iff)
  show "asid_taken (t\<lparr>asid_pool := snd (noir_set_bitmap (asid_pool t) 0 (of_nat k))\<rparr>) = insert (asid_of t k) (asid_taken t)"
    using assms(2) by (auto simp: asid_taken_def same bitmap_set bit_number [OF assms(2,1)])
  show "asid_taken (t\<lparr>asid_pool := snd (noir_reset_bitmap (asid_pool t) 0 (of_nat k))\<rparr>) = asid_taken t - {asid_of t k}"
    using assms(2) asid_of_inj [OF assms(1)] by (auto simp: asid_taken_def same bitmap_reset bit_number [OF assms(2,1)])
qed

interpretation asids: id_pool asid_valid asid_ids asid_taken asid_alloc nvc_svmc_free_asid
proof
  fix t u :: tlb_tagging and i :: u32
  have same: "asid_valid (t\<lparr>asid_pool := b\<rparr>) = asid_valid t" "asid_ids (t\<lparr>asid_pool := b\<rparr>) = asid_ids t" for b
    by (simp_all add: asid_valid_def asid_ids_def asid_of_def [abs_def])
  show "finite (asid_ids t)" by (simp add: asid_ids_def)
  assume valid: "asid_valid t"
  show "asid_valid u \<and> asid_ids u = asid_ids t \<and> i \<in> asid_ids t - asid_taken t \<and> asid_taken u = insert i (asid_taken t)"
    if "asid_alloc t = (Some i, u)"
  proof (cases rule: asid_outcome [OF valid])
    case (1 k)
    then have i: "i = asid_of t k" and u: "u = t\<lparr>asid_pool := snd (noir_set_bitmap (asid_pool t) 0 (of_nat k))\<rparr>"
      using that by auto
    have "asid_of t k \<notin> asid_taken t" using 1 asid_of_inj [OF valid] by (auto simp: asid_taken_def)
    then show ?thesis using 1(1) same asid_set_bit(1) [OF valid 1(1)] valid by (simp add: i u asid_ids_def)
  next
    case 2
    then show ?thesis using that by simp
  qed
  show "u = t \<and> asid_ids t \<subseteq> asid_taken t" if "asid_alloc t = (None, u)"
  proof (cases rule: asid_outcome [OF valid])
    case (1 k)
    then show ?thesis using that by simp
  next
    case 2
    then show ?thesis using that by (auto simp: asid_ids_def asid_taken_def)
  qed
  show "asid_valid (nvc_svmc_free_asid i t) \<and> asid_ids (nvc_svmc_free_asid i t) = asid_ids t \<and>
      asid_taken (nvc_svmc_free_asid i t) = asid_taken t - {i}" if i: "i \<in> asid_ids t"
  proof -
    obtain k where k: "k < words_bits (tag_limit t)" "i = asid_of t k" using i unfolding asid_ids_def by force
    then have "i - tag_start t = of_nat k" by (simp add: asid_of_def)
    then show ?thesis
      using valid same asid_set_bit(2) [OF valid k(1)] k(2) by (simp add: nvc_svmc_free_asid_def)
  qed
qed

section \<open>Handing out identifiers\<close>

primrec alloc_asids :: "nat \<Rightarrow> tlb_tagging \<Rightarrow> u32 list \<times> tlb_tagging" where
  "alloc_asids 0 t = ([], t)"
| "alloc_asids (Suc n) t =
     (case alloc_asids n t of (as, t1) \<Rightarrow> (case nvc_svmc_alloc_asid t1 of (a, t2) \<Rightarrow> (as @ [a], t2)))"

lemma find_first: "(\<And>j. j < k \<Longrightarrow> \<not> P j) \<Longrightarrow> P k \<Longrightarrow> k < n \<Longrightarrow> find P [0 ..< n] = Some k"
  by (auto simp: find_Some_iff intro!: exI [of _ k])

lemma claim_next:
  assumes "unat limit \<le> 4294967232" "\<And>j. j < words_bits limit \<Longrightarrow> bitmap_bit b base j = (j < k)"
  shows "claim_bit base limit b =
    (if k < words_bits limit then (of_nat k, snd (noir_set_bitmap b base (of_nat k))) else (0xffffffff, b))"
proof (cases rule: claim_cases [OF assms(1), where base = base and b = b])
  case (1 j)
  then have "k \<le> j" using assms(2) [of j] by simp
  then have k: "k < words_bits limit" "k < 4294967296" using 1 by simp_all
  then have "find (\<lambda>k. \<not> bitmap_bit b base k) [0 ..< words_bits limit] = Some k"
    by (intro find_first) (simp_all add: assms(2))
  then have "noir_find_clear_bit b base limit = of_nat k" by (simp add: find_clear_bits words_bits_def)
  moreover have "(of_nat k :: u32) \<noteq> 0xffffffff"
    using \<open>k \<le> j\<close> 1(3) by (intro u32_not_last) simp
  ultimately show ?thesis using k by (simp add: claim_bit_def Let_def)
next
  case 2
  then have "words_bits limit \<le> k" using assms(2) [of k] by (metis less_irrefl not_le)
  then show ?thesis using 2 by simp
qed

lemma alloc_asids_state:
  assumes "asid_valid t" "\<And>k. \<not> bitmap_bit (asid_pool t) 0 k"
  shows "fst (alloc_asids n t) = map (\<lambda>k. if k < words_bits (tag_limit t) then of_nat k + tag_start t else 0xffffffff) [0 ..< n] \<and>
    tag_start (snd (alloc_asids n t)) = tag_start t \<and> tag_limit (snd (alloc_asids n t)) = tag_limit t \<and>
    (\<forall>j < words_bits (tag_limit t). bitmap_bit (asid_pool (snd (alloc_asids n t))) 0 j = (j < n))"
proof (induction n)
  case 0
  then show ?case using assms by simp
next
  case (Suc n)
  obtain as u where a: "alloc_asids n t = (as, u)" by (cases "alloc_asids n t")
  have limit: "unat (tag_limit u) \<le> 4294967232" using Suc assms(1) a by (simp add: asid_valid_def)
  have c: "claim_bit 0 (tag_limit u) (asid_pool u) =
      (if n < words_bits (tag_limit t) then (of_nat n, snd (noir_set_bitmap (asid_pool u) 0 (of_nat n))) else (0xffffffff, asid_pool u))"
    using claim_next [OF limit, where base = 0 and b = "asid_pool u" and k = n] Suc a by simp
  show ?case
  proof (cases "n < words_bits (tag_limit t)")
    case True
    then have n: "unat (of_nat n :: u32) = n" using bit_number [OF _ assms(1)] by blast
    have "n < 4294967295" using asid_of_unat(2) [OF assms(1) True] asid_of_unat(1) [OF assms(1) True] by simp
    then have "(of_nat n :: u32) \<noteq> 0xffffffff" by (rule u32_not_last)
    then show ?thesis
      using Suc a c True n by (auto simp: nvc_svmc_alloc_asid_def bitmap_set less_Suc_eq)
  next
    case False
    then show ?thesis using Suc a c by (auto simp: nvc_svmc_alloc_asid_def)
  qed
qed

text \<open>The pool of address-space identifiers that a processor with \<open>asid_limit\<close> of them gets hands out
  consecutive identifiers from its start on, then the failure value. But it hands out as many as the
  64-bit words of its bitmap have bits: unless the limit is a multiple of 64, the last ones are not below
  \<open>asid_limit\<close>, so that the processor refuses to run a machine that has one.\<close>

theorem asids_handed_out:
  assumes "asid_valid (init_tlb_tagging nested asid_limit)"
  shows "fst (alloc_asids n (init_tlb_tagging nested asid_limit)) =
     map (\<lambda>k. if k < 64 * ((unat (tag_limit (init_tlb_tagging nested asid_limit)) + 63) div 64)
              then of_nat k + (if nested then drop_bit 1 asid_limit else 2) else 0xffffffff) [0 ..< n]"
proof -
  have "\<not> bitmap_bit (asid_pool (init_tlb_tagging nested asid_limit)) 0 k" for k
    by (simp add: init_tlb_tagging_def bitmap_bit_def Let_def)
  from alloc_asids_state [OF assms this, of n] show ?thesis
    by (simp add: words_bits_def) (simp add: init_tlb_tagging_def Let_def)
qed

theorem asids_handed_out_witness:
  "fst (alloc_asids 0x7fff (init_tlb_tagging False 0x8000)) ! 0x7ffe = 0x8000"
proof -
  have "asid_valid (init_tlb_tagging False 0x8000)" by (simp add: asid_valid_def init_tlb_tagging_def)
  from asids_handed_out [OF this, of "0x7fff"] show ?thesis by (simp add: init_tlb_tagging_def del: upt_Suc upt_rec_numeral)
qed

end
