(* ===== verification/List_Entry.thy ===== *)
theory List_Entry
  imports Prelude
begin

text \<open>
  The circular doubly linked lists of \<open>xpf_core/devkits.c\<close> on a heap of links, and their contents as
  a list: what insertion and removal do to it. An address names an entry; the structures around the
  entries play no part.
\<close>

section \<open>Operations\<close>

record list_heap =
  le_next :: "u64 \<Rightarrow> u64"
  le_prev :: "u64 \<Rightarrow> u64"

definition set_next :: "u64 \<Rightarrow> u64 \<Rightarrow> list_heap \<Rightarrow> list_heap" where
  "set_next e v h = h\<lparr>le_next := (le_next h)(e := v)\<rparr>"

definition set_prev :: "u64 \<Rightarrow> u64 \<Rightarrow> list_heap \<Rightarrow> list_heap" where
  "set_prev e v h = h\<lparr>le_prev := (le_prev h)(e := v)\<rparr>"

definition noir_initialize_list_entry :: "u64 \<Rightarrow> list_heap \<Rightarrow> list_heap" where
  "noir_initialize_list_entry entry h = set_prev entry entry (set_next entry entry h)"

definition noir_insert_to_prev :: "u64 \<Rightarrow> u64 \<Rightarrow> list_heap \<Rightarrow> list_heap" where
  "noir_insert_to_prev inserter insertee h =
     (let h1 = set_prev insertee (le_prev h inserter) h;
          h2 = set_next insertee inserter h1;
          h3 = set_next (le_prev h2 inserter) insertee h2
      in set_prev inserter insertee h3)"

definition noir_insert_to_next :: "u64 \<Rightarrow> u64 \<Rightarrow> list_heap \<Rightarrow> list_heap" where
  "noir_insert_to_next inserter insertee h =
     (let h1 = set_next insertee (le_next h inserter) h;
          h2 = set_prev insertee inserter h1;
          h3 = set_prev (le_next h2 inserter) insertee h2
      in set_next inserter insertee h3)"

definition noir_remove_list_entry :: "u64 \<Rightarrow> list_heap \<Rightarrow> list_heap" where
  "noir_remove_list_entry entry h =
     (let h1 = set_next (le_prev h entry) (le_next h entry) h;
          h2 = set_prev (le_next h1 entry) (le_prev h1 entry) h1;
          h3 = set_next entry entry h2
      in set_prev entry entry h3)"

section \<open>The contents of a list\<close>

definition linked :: "list_heap \<Rightarrow> u64 \<Rightarrow> u64 \<Rightarrow> bool" where
  "linked h a b \<longleftrightarrow> le_next h a = b \<and> le_prev h b = a"

fun links :: "list_heap \<Rightarrow> u64 list \<Rightarrow> bool" where
  "links h (a # b # r) \<longleftrightarrow> linked h a b \<and> links h (b # r)"
| "links h _ \<longleftrightarrow> True"

text \<open>The entries \<open>xs\<close> in the list with the given head, in the order of \<open>next\<close>.\<close>

definition ring :: "list_heap \<Rightarrow> u64 \<Rightarrow> u64 list \<Rightarrow> bool" where
  "ring h root xs \<longleftrightarrow> distinct (root # xs) \<and> links h (root # xs @ [root])"

lemmas heap_defs = set_next_def set_prev_def linked_def

lemma links_parts: "links h (xs @ a # ys) \<longleftrightarrow> links h (xs @ [a]) \<and> links h (a # ys)"
proof (induction xs)
  case (Cons x xs)
  then show ?case by (cases xs) auto
qed simp

text \<open>Links between other entries are not touched.\<close>

lemma links_frame:
  assumes "\<And>a. a \<in> set (butlast xs) \<Longrightarrow> le_next h' a = le_next h a" "\<And>a. a \<in> set (tl xs) \<Longrightarrow> le_prev h' a = le_prev h a"
  shows "links h' xs = links h xs"
  using assms
proof (induction h xs rule: links.induct)
  case (1 h a b r)
  then have "links h' (b # r) = links h (b # r)" by (cases r) auto
  moreover have "linked h' a b = linked h a b" using 1 by (simp add: linked_def)
  ultimately show ?case by simp
qed auto

section \<open>Refinement\<close>

lemma ring_initialize: "ring (noir_initialize_list_entry root h) root []"
  by (simp add: ring_def noir_initialize_list_entry_def heap_defs)

text \<open>An entry goes in front of the inserter, wherever it is in the list.\<close>

lemma insert_links:
  assumes "links h (xs @ [p])" "links h (i # ys)" "linked h p i" "distinct (xs @ [p])" "e \<notin> set (xs @ [p]) \<union> set (i # ys)"
    "i \<notin> set (tl (xs @ [p]))" "i \<notin> set ys" "p \<notin> set (butlast (i # ys))"
  shows "links (noir_insert_to_prev i e h) (xs @ [p, e, i] @ ys)"
proof -
  let ?h = "noir_insert_to_prev i e h"
  have p: "le_prev h i = p" using assms(3) by (simp add: linked_def)
  have ne: "e \<noteq> i" "e \<noteq> p" using assms(5) by auto
  have nxt: "le_next ?h = (le_next h)(e := i, p := e)"
    using ne p by (simp add: noir_insert_to_prev_def Let_def heap_defs)
  have prv: "le_prev ?h = (le_prev h)(e := p, i := e)"
    using p by (simp add: noir_insert_to_prev_def Let_def heap_defs)
  have tail: "e \<notin> set (tl (xs @ [p]))" using assms(5) by (auto dest: list.set_sel(2) [rotated])
  have left: "links ?h (xs @ [p])"
    using assms(1,4-6) tail by (subst links_frame [of _ _ h]) (auto simp: nxt prv)
  have right: "links ?h (i # ys)"
    using assms(2,5,7,8) by (subst links_frame [of _ _ h]) (auto simp: nxt prv dest: in_set_butlastD split: if_splits)
  have "linked ?h p e" "linked ?h e i" using ne by (auto simp: linked_def nxt prv)
  then have "links ?h (p # e # i # ys)" using right by simp
  then show ?thesis using left links_parts [of ?h xs p "e # i # ys"] by simp
qed

text \<open>A place in a list: the entry before it, the entry after it, and the rest.\<close>

lemma ring_place:
  assumes "ring h root (xs @ ys)"
  obtains left p i right where "root # xs = left @ [p]" "ys @ [root] = i # right"
    "p = last (root # xs)" "i = hd (ys @ [root])"
    "links h (left @ [p])" "linked h p i" "links h (i # right)"
    "i \<notin> set (tl (left @ [p]))" "i \<notin> set right" "p \<notin> set (butlast (i # right))"
proof -
  obtain left p where left: "root # xs = left @ [p]" by (metis rev_exhaust list.discI)
  obtain i right where right: "ys @ [root] = i # right" by (metis neq_Nil_conv snoc_eq_iff_butlast)
  have d: "distinct (root # xs @ ys)" using assms by (simp add: ring_def)
  have "root # (xs @ ys) @ [root] = (root # xs) @ (ys @ [root])" by simp
  then have "links h ((left @ [p]) @ i # right)"
    using assms unfolding ring_def left right by simp
  then have links: "links h (left @ [p])" "linked h p i" "links h (i # right)"
    using links_parts [of h left p "i # right"] by simp_all
  have tl: "tl (left @ [p]) = xs" using left by (metis list.sel(3))
  have bl: "butlast (i # right) = ys" using right by (metis butlast_snoc)
  have p: "p \<in> set (root # xs)" using left by simp
  show ?thesis
  proof (rule that [OF left right _ _ links])
    show "p = last (root # xs)" "i = hd (ys @ [root])" using left right by simp_all
    show "i \<notin> set (tl (left @ [p]))" using d right unfolding tl by (cases ys) auto
    show "i \<notin> set right" using d right by (cases ys) auto
    show "p \<notin> set (butlast (i # right))" using d p unfolding bl by auto
  qed
qed

lemma ring_insert_prev:
  assumes "ring h root (xs @ ys)" "e \<notin> set (root # xs @ ys)"
  shows "ring (noir_insert_to_prev (hd (ys @ [root])) e h) root (xs @ e # ys)"
proof -
  have d: "distinct (root # xs @ ys)" using assms(1) by (simp add: ring_def)
  obtain left p i right where place: "root # xs = left @ [p]" "ys @ [root] = i # right" "i = hd (ys @ [root])"
    "links h (left @ [p])" "linked h p i" "links h (i # right)"
    "i \<notin> set (tl (left @ [p]))" "i \<notin> set right" "p \<notin> set (butlast (i # right))"
    using ring_place [OF assms(1)] .
  have "set (left @ [p]) \<union> set (i # right) = set (root # xs) \<union> set (ys @ [root])" using place(1,2) by metis
  then have new: "e \<notin> set (left @ [p]) \<union> set (i # right)" using assms(2) by auto
  have old: "distinct (left @ [p])" using d unfolding place(1) [symmetric] by simp
  have "links (noir_insert_to_prev i e h) (left @ [p, e, i] @ right)"
    by (rule insert_links [OF place(4) place(6) place(5) old new place(7-9)])
  moreover have "root # (xs @ e # ys) @ [root] = left @ [p, e, i] @ right"
  proof -
    have "root # (xs @ e # ys) @ [root] = (root # xs) @ e # (ys @ [root])" by simp
    then show ?thesis unfolding place(1,2) by simp
  qed
  ultimately show ?thesis using d assms(2) place(3) by (auto simp: ring_def)
qed

lemma insert_next_prev:
  assumes "linked h p i" "e \<noteq> p" "e \<noteq> i"
  shows "noir_insert_to_next p e h = noir_insert_to_prev i e h"
  using assms by (auto simp: noir_insert_to_next_def noir_insert_to_prev_def Let_def heap_defs fun_eq_iff)

lemma ring_insert_next:
  assumes "ring h root (xs @ ys)" "e \<notin> set (root # xs @ ys)"
  shows "ring (noir_insert_to_next (last (root # xs)) e h) root (xs @ e # ys)"
proof -
  obtain p i where place: "p = last (root # xs)" "i = hd (ys @ [root])" "linked h p i"
    using ring_place [OF assms(1)] .
  have "p \<in> set (root # xs)" unfolding place(1) by (rule last_in_set) simp
  moreover have "i \<in> set (ys @ [root])" unfolding place(2) by (rule hd_in_set) simp
  ultimately have "e \<noteq> p" "e \<noteq> i" using assms(2) by auto
  then show ?thesis
    using insert_next_prev [OF place(3), of e] ring_insert_prev [OF assms] place by simp
qed

lemma ring_remove:
  assumes "ring h root (xs @ e # ys)"
  shows "ring (noir_remove_list_entry e h) root (xs @ ys)" "ring (noir_remove_list_entry e h) e []"
proof -
  let ?h = "noir_remove_list_entry e h"
  have d: "distinct (root # xs @ e # ys)" using assms by (simp add: ring_def)
  obtain left p where l: "root # xs = left @ [p]" "links h (left @ [p])" "linked h p e"
    using ring_place [OF assms] by (metis append_Cons list.sel(1))
  have "ring h root ((xs @ [e]) @ ys)" using assms by simp
  then obtain n right where r: "ys @ [root] = n # right" "linked h e n" "links h (n # right)" "n \<notin> set (tl (root # xs @ [e]))"
      "n \<notin> set right"
    by (rule ring_place) (metis append_is_Nil_conv last_ConsR last_snoc list.discI)
  have tl: "tl (left @ [p]) = xs" using l(1) by (metis list.sel(3))
  have bl: "butlast (n # right) = ys" using r(1) by (metis butlast_snoc)
  have p: "p \<in> set (root # xs)" "p \<notin> set left" using l(1) d by (simp, metis append_Cons distinct.simps(2) distinct_append not_distinct_conv_prefix in_set_conv_decomp)
  have n: "n \<in> set (ys @ [root])" using r(1) by simp
  have ne: "p \<noteq> e" "n \<noteq> e" using p(1) n d by auto
  have nxt: "le_next ?h = (le_next h)(p := n, e := e)" and prv: "le_prev ?h = (le_prev h)(n := p, e := e)"
    using l(3) r(2) ne by (simp_all add: noir_remove_list_entry_def Let_def heap_defs)
  have e: "e \<notin> set (left @ [p])" unfolding l(1) [symmetric] using d by auto
  have "links ?h (left @ [p])"
  proof (subst links_frame [of _ _ h])
    show "le_next ?h a = le_next h a" if "a \<in> set (butlast (left @ [p]))" for a
      using that p(2) e by (auto simp: nxt)
    show "le_prev ?h a = le_prev h a" if "a \<in> set (tl (left @ [p]))" for a
      using that r(4) d unfolding tl by (auto simp: prv)
  qed (fact l(2))
  moreover have "links ?h (n # right)"
  proof (subst links_frame [of _ _ h])
    show "le_next ?h a = le_next h a" if "a \<in> set (butlast (n # right))" for a
      using that d p(1) unfolding bl by (auto simp: nxt)
    show "le_prev ?h a = le_prev h a" if "a \<in> set (tl (n # right))" for a
      using that r(1,5) d by (cases ys) (auto simp: prv)
  qed (fact r(3))
  moreover have "linked ?h p n" using ne by (simp add: linked_def nxt prv)
  ultimately have "links ?h (left @ p # n # right)"
    using links_parts [of ?h left p "n # right"] by simp
  moreover have "root # (xs @ ys) @ [root] = left @ p # n # right"
  proof -
    have "root # (xs @ ys) @ [root] = (root # xs) @ (ys @ [root])" by simp
    then show ?thesis unfolding l(1) r(1) by simp
  qed
  ultimately show "ring ?h root (xs @ ys)" using d by (auto simp: ring_def)
  show "ring ?h e []" by (simp add: ring_def linked_def nxt prv)
qed

text \<open>Entries outside the list do not matter.\<close>

lemma ring_frame:
  assumes "e \<notin> set (root # xs)"
  shows "ring (set_next e v h) root xs = ring h root xs" "ring (set_prev e v h) root xs = ring h root xs"
proof -
  have "e \<notin> set (root # xs @ [root])" using assms by simp
  then have "links (set_next e v h) (root # xs @ [root]) = links h (root # xs @ [root])"
    "links (set_prev e v h) (root # xs @ [root]) = links h (root # xs @ [root])"
    by (intro links_frame; auto simp: heap_defs dest: in_set_butlastD)+
  then show "ring (set_next e v h) root xs = ring h root xs" "ring (set_prev e v h) root xs = ring h root xs"
    by (simp_all add: ring_def)
qed

end
