(* ===== verification/Vm_Life.thy ===== *)
theory Vm_Life
  imports Id_Pool List_Entry Status
begin

text \<open>
  Creating and releasing customizable virtual machines and their processors on AMD-V
  (\<open>svm_core/svm_custom.c\<close>, \<open>xpf_core/noirhvm.c\<close>): the memory, the address-space identifier and the
  tables that a machine owns, its place in the list of machines, and reference counts.
\<close>

section \<open>Memory of the host\<close>

text \<open>
  \<open>answers\<close> is what the next allocations return, 0 when they fail; \<open>pool\<close> holds the live blocks of
  nonpaged memory, \<open>contd\<close> the live pages of contiguous memory, as base address and number.
\<close>

record host_memory =
  answers :: "u64 list"
  pool :: "u64 set"
  contd :: "(u64 \<times> nat) set"

definition next_answer :: "host_memory \<Rightarrow> u64 \<times> host_memory" where
  "next_answer m = (case answers m of [] \<Rightarrow> (0, m) | a # r \<Rightarrow> (a, m\<lparr>answers := r\<rparr>))"

definition noir_alloc_nonpg_memory :: "host_memory \<Rightarrow> u64 \<times> host_memory" where
  "noir_alloc_nonpg_memory m =
     (case next_answer m of (a, m1) \<Rightarrow> (a, if a = 0 then m1 else m1\<lparr>pool := insert a (pool m1)\<rparr>))"

definition noir_alloc_contd_memory :: "nat \<Rightarrow> host_memory \<Rightarrow> u64 \<times> host_memory" where
  "noir_alloc_contd_memory n m =
     (case next_answer m of (a, m1) \<Rightarrow> (a, if a = 0 then m1 else m1\<lparr>contd := contd m1 \<union> {a} \<times> {0 ..< n}\<rparr>))"

definition noir_free_nonpg_memory :: "u64 \<Rightarrow> host_memory \<Rightarrow> host_memory" where
  "noir_free_nonpg_memory a m = m\<lparr>pool := pool m - {a}\<rparr>"

definition noir_free_contd_memory :: "u64 \<Rightarrow> nat \<Rightarrow> host_memory \<Rightarrow> host_memory" where
  "noir_free_contd_memory a n m = m\<lparr>contd := contd m - {a} \<times> {0 ..< n}\<rparr>"

text \<open>\<open>if(p)noir_free_contd_memory(p,n);\<close>\<close>

definition free_contd :: "u64 \<Rightarrow> nat \<Rightarrow> host_memory \<Rightarrow> host_memory" where
  "free_contd a n m = (if a \<noteq> 0 then noir_free_contd_memory a n m else m)"

section \<open>State\<close>

definition nvc_svm_avic_physical_apic_id_entry :: bf_layout where
  "nvc_svm_avic_physical_apic_id_entry =
    [(''host_physical_apic_id'', 8), (''reserved1'', 4), (''backing_page_pointer'', 40), (''reserved2'', 10),
     (''is_running'', 1), (''valid'', 1)]"

definition nvc_svm_avic_logical_apic_id_entry :: bf_layout where
  "nvc_svm_avic_logical_apic_id_entry = [(''guest_physical_apic_id'', 8), (''reserved'', 23), (''valid'', 1)]"

text \<open>A machine with its header. The list of processors and the two tables of AVIC are maps; \<open>vm_lockers\<close>
  are the pages of the list of lockers, the three lists of descriptors have a table each.\<close>

record noir_svm_custom_vm =
  vm_pid :: u32
  vm_ref_count :: u32
  vm_properties :: u32
  vm_vmsa :: u64
  vm_lockers :: "u64 list"
  vm_list_lock :: u64
  vm_vcpus :: u64
  vm_vcpu :: "nat \<Rightarrow> u64"
  vm_vcpu_count :: u32
  vm_asid :: u32
  vm_iopm :: u64
  vm_msrpm :: u64
  vm_msrpm_full :: u64
  vm_avic_logical :: u64
  vm_avic_physical :: u64
  vm_logical_id :: "nat \<Rightarrow> u32"
  vm_physical_id :: "nat \<Rightarrow> u64"
  vm_ncr3 :: u64
  vm_pdptes :: "(u64 \<times> u64) list"
  vm_pdes :: "(u64 \<times> u64) list"
  vm_ptes :: "(u64 \<times> u64) list"

text \<open>What the life cycle of a processor concerns.\<close>

record vcpu_life =
  vl_ref_count :: u32
  vl_vm :: u64
  vl_vcpu_id :: u32
  vl_proc_id :: u32
  vl_vmcb :: u64
  vl_apic_backing :: u64
  vl_xsave_area :: u64
  vl_vmsa :: u64
  vl_apic :: u64
  vl_xcr0 :: u64
  vl_mtrr_def_type :: u64

text \<open>The machines and processors by their addresses; a machine starts with its list entry.\<close>

record cvm_module =
  memory :: host_memory
  tags :: tlb_tagging
  heap :: list_heap
  vms :: "u64 \<Rightarrow> noir_svm_custom_vm option"
  vcpus :: "u64 \<Rightarrow> vcpu_life option"

text \<open>What the life cycle asks of the rest: whether secure virtualization and AVIC are in use, the
  address of the list head in the idle machine, physical addresses, the pages of an extended state,
  and whether the reverse-mapping table lets a page change its owner.\<close>

record cvm_services =
  cs_nsv :: bool
  cs_avic :: bool
  cs_idle :: u64
  cs_phys :: "u64 \<Rightarrow> u64"
  cs_xsave_pages :: nat
  cs_reassign :: "u64 \<Rightarrow> bool"

definition zero_vm :: noir_svm_custom_vm where
  "zero_vm = \<lparr>vm_pid = 0, vm_ref_count = 0, vm_properties = 0, vm_vmsa = 0, vm_lockers = [], vm_list_lock = 0,
     vm_vcpus = 0, vm_vcpu = (\<lambda>_. 0), vm_vcpu_count = 0, vm_asid = 0, vm_iopm = 0, vm_msrpm = 0, vm_msrpm_full = 0,
     vm_avic_logical = 0, vm_avic_physical = 0, vm_logical_id = (\<lambda>_. 0), vm_physical_id = (\<lambda>_. 0), vm_ncr3 = 0,
     vm_pdptes = [], vm_pdes = [], vm_ptes = []\<rparr>"

definition zero_vcpu :: vcpu_life where
  "zero_vcpu = \<lparr>vl_ref_count = 0, vl_vm = 0, vl_vcpu_id = 0, vl_proc_id = 0, vl_vmcb = 0, vl_apic_backing = 0,
     vl_xsave_area = 0, vl_vmsa = 0, vl_apic = 0, vl_xcr0 = 0, vl_mtrr_def_type = 0\<rparr>"

definition on_memory :: "(host_memory \<Rightarrow> host_memory) \<Rightarrow> cvm_module \<Rightarrow> cvm_module" where
  "on_memory f s = s\<lparr>memory := f (memory s)\<rparr>"

section \<open>Allocations with a common failure exit\<close>

text \<open>A step of a construction; \<open>Inl\<close> is the jump to \<open>alloc_failure\<close>.\<close>

type_synonym 'o construction = "'o \<times> cvm_module \<Rightarrow> ('o \<times> cvm_module) + ('o \<times> cvm_module)"

fun run_steps :: "'o construction list \<Rightarrow> 'o construction" where
  "run_steps [] x = Inr x"
| "run_steps (f # fs) x = (case f x of Inl y \<Rightarrow> Inl y | Inr y \<Rightarrow> run_steps fs y)"

definition alloc_step :: "(host_memory \<Rightarrow> u64 \<times> host_memory) \<Rightarrow> (u64 \<Rightarrow> 'o \<Rightarrow> 'o) \<Rightarrow> 'o construction" where
  "alloc_step alloc put = (\<lambda>(x, s). case alloc (memory s) of (a, m) \<Rightarrow>
     (let r = (put a x, s\<lparr>memory := m\<rparr>) in if a = 0 then Inl r else Inr r))"

definition unchecked_step :: "(host_memory \<Rightarrow> u64 \<times> host_memory) \<Rightarrow> (u64 \<Rightarrow> 'o \<Rightarrow> 'o) \<Rightarrow> 'o construction" where
  "unchecked_step alloc put = (\<lambda>(x, s). case alloc (memory s) of (a, m) \<Rightarrow> Inr (put a x, s\<lparr>memory := m\<rparr>))"

definition check_step :: "('o \<Rightarrow> bool) \<Rightarrow> 'o construction" where
  "check_step ok = (\<lambda>(x, s). if ok x then Inr (x, s) else Inl (x, s))"

definition plain_step :: "('o \<times> cvm_module \<Rightarrow> 'o \<times> cvm_module) \<Rightarrow> 'o construction" where
  "plain_step f = (\<lambda>xs. Inr (f xs))"

section \<open>Processors\<close>

text \<open>\<open>None\<close> is an access through a null pointer, to a machine that is gone, or past the list of
  processors. Locks other than missing ones are left out.\<close>

definition nvc_svmc_reference_vcpu :: "noir_svm_custom_vm \<Rightarrow> u32 \<Rightarrow> u64 option" where
  "nvc_svmc_reference_vcpu m vcpu_id = (if vm_vcpus m = 0 \<or> 256 \<le> vcpu_id then None else Some (vm_vcpu m (unat vcpu_id)))"

definition nvc_svmc_release_vcpu :: "cvm_services \<Rightarrow> u64 \<Rightarrow> cvm_module \<Rightarrow> cvm_module option" where
  "nvc_svmc_release_vcpu e p s =
     (if p = 0 then Some s
      else
        (case vcpus s p of None \<Rightarrow> None | Some v \<Rightarrow>
          (case vms s (vl_vm v) of None \<Rightarrow> None | Some m \<Rightarrow>
            (if vm_list_lock m = 0 \<or> vm_vcpus m = 0 then None
             else
               (let id = unat (vl_vcpu_id v);
                    h1 = free_contd (vl_vmcb v) 1 (memory s);
                    h2 = free_contd (vl_xsave_area v) (cs_xsave_pages e) h1;
                    h3 = (if cs_nsv e then free_contd (vl_vmsa v) 1 h2 else h2);
                    m1 = m\<lparr>vm_vcpu := (vm_vcpu m)(id := 0)\<rparr>;
                    m2 = (if cs_avic e then m1\<lparr>vm_physical_id := (vm_physical_id m1)(id := 0),
                                              vm_logical_id := (vm_logical_id m1)(id := 0)\<rparr> else m1);
                    h4 = (if cs_avic e then free_contd (vl_apic_backing v) 1 h3 else h3);
                    m3 = m2\<lparr>vm_vcpu_count := vm_vcpu_count m2 - 1\<rparr>
                in Some (s\<lparr>memory := noir_free_nonpg_memory p h4, vms := (vms s)(vl_vm v \<mapsto> m3),
                           vcpus := (vcpus s)(p := None)\<rparr>))))))"

definition amd64_apic_default_base :: u64 where "amd64_apic_default_base = 0xFEE00000"
definition amd64_apic_ae :: nat where "amd64_apic_ae = 11"
definition amd64_apic_bsc :: nat where "amd64_apic_bsc = 8"

text \<open>The entries of a processor in the two tables of AVIC.\<close>

definition avic_step :: "cvm_services \<Rightarrow> u64 \<Rightarrow> u32 \<Rightarrow> vcpu_life \<times> cvm_module \<Rightarrow> vcpu_life \<times> cvm_module" where
  "avic_step e vm vcpu_id = (\<lambda>(v, s).
     (v, s\<lparr>vms := (vms s)(vm := map_option (\<lambda>m. let i = unat vcpu_id in m\<lparr>
           vm_physical_id := (vm_physical_id m)(i :=
             bf_put nvc_svm_avic_physical_apic_id_entry ''valid'' 1
               (bf_put nvc_svm_avic_physical_apic_id_entry ''backing_page_pointer''
                 (drop_bit 12 (cs_phys e (vl_apic_backing v))) (vm_physical_id m i))),
           vm_logical_id := (vm_logical_id m)(i :=
             bf_put nvc_svm_avic_logical_apic_id_entry ''valid'' 1
               (bf_put nvc_svm_avic_logical_apic_id_entry ''guest_physical_apic_id'' vcpu_id (vm_logical_id m i)))\<rparr>) (vms s vm))\<rparr>))"

definition vcpu_build :: "cvm_services \<Rightarrow> u64 \<Rightarrow> u32 \<Rightarrow> vcpu_life construction list" where
  "vcpu_build e vm vcpu_id =
     [alloc_step (noir_alloc_contd_memory 1) (\<lambda>a v. v\<lparr>vl_vmcb := a\<rparr>)] @
     (if cs_nsv e then [check_step (\<lambda>v. cs_reassign e (cs_phys e (vl_vmcb v)))] else []) @
     (if cs_avic e then [alloc_step (noir_alloc_contd_memory 1) (\<lambda>a v. v\<lparr>vl_apic_backing := a\<rparr>),
                         plain_step (avic_step e vm vcpu_id)] else []) @
     [alloc_step (noir_alloc_contd_memory (cs_xsave_pages e)) (\<lambda>a v. v\<lparr>vl_xsave_area := a\<rparr>)] @
     (if cs_nsv e then [alloc_step (noir_alloc_contd_memory 1) (\<lambda>a v. v\<lparr>vl_vmsa := a\<rparr>),
                        check_step (\<lambda>v. cs_reassign e (cs_phys e (vl_vmsa v)))] else [])"

text \<open>The machine takes the processor in.\<close>

definition enlist_vcpu :: "u64 \<Rightarrow> u32 \<Rightarrow> u64 \<Rightarrow> vcpu_life \<Rightarrow> cvm_module \<Rightarrow> cvm_module" where
  "enlist_vcpu vm vcpu_id p v s =
     (let bar = set_bit amd64_apic_ae amd64_apic_default_base
      in s\<lparr>vcpus := (vcpus s)(p \<mapsto> v\<lparr>vl_vcpu_id := vcpu_id, vl_proc_id := 0xffffffff, vl_vm := vm,
                       vl_apic := (if vcpu_id = 0 then set_bit amd64_apic_bsc bar else bar)\<rparr>),
           vms := (vms s)(vm := map_option (\<lambda>m. m\<lparr>vm_vcpu := (vm_vcpu m)(unat vcpu_id := p),
                       vm_vcpu_count := vm_vcpu_count m + 1\<rparr>) (vms s vm))\<rparr>)"

text \<open>The second result is what is stored at \<open>virtual_cpu\<close>, if anything is.\<close>

definition nvc_svmc_create_vcpu ::
    "cvm_services \<Rightarrow> u64 \<Rightarrow> u32 \<Rightarrow> cvm_module \<Rightarrow> (noir_status \<times> u64 option \<times> cvm_module) option" where
  "nvc_svmc_create_vcpu e vm vcpu_id s =
     (case vms s vm of None \<Rightarrow> None | Some m \<Rightarrow>
       (case nvc_svmc_reference_vcpu m vcpu_id of
          None \<Rightarrow> None
        | Some old \<Rightarrow>
            (if vm_list_lock m = 0 then None
             else if old \<noteq> 0 then Some (noir_vcpu_already_created, None, s)
             else
               (case noir_alloc_nonpg_memory (memory s) of (p, h) \<Rightarrow>
                 (if p = 0 then Some (noir_success, Some 0, s\<lparr>memory := h\<rparr>)
                  else
                    (case run_steps (vcpu_build e vm vcpu_id) (zero_vcpu, s\<lparr>memory := h\<rparr>) of
                       Inr (v, s1) \<Rightarrow> Some (noir_success, Some p, enlist_vcpu vm vcpu_id p v s1)
                     | Inl (v, s1) \<Rightarrow>
                         map_option (\<lambda>s2. (noir_insufficient_resources, None, s2))
                           (nvc_svmc_release_vcpu e p (s1\<lparr>vcpus := (vcpus s1)(p \<mapsto> v)\<rparr>))))))))"

text \<open>\<open>nvc_create_vcpu\<close> and the reference count.\<close>

definition nvc_create_vcpu :: "cvm_services \<Rightarrow> u64 \<Rightarrow> u32 \<Rightarrow> cvm_module \<Rightarrow> (noir_status \<times> u64 option \<times> cvm_module) option" where
  "nvc_create_vcpu e vm vcpu_id s =
     (case nvc_svmc_create_vcpu e vm vcpu_id s of
        None \<Rightarrow> None
      | Some (st, out, s1) \<Rightarrow>
          (if st \<noteq> noir_success then Some (st, out, s1)
           else
             (case Option.bind out (vcpus s1) of
                None \<Rightarrow> None
              | Some v \<Rightarrow> Some (st, out, s1\<lparr>vcpus := (vcpus s1)(the out \<mapsto>
                    v\<lparr>vl_ref_count := 1, vl_xcr0 := 1, vl_mtrr_def_type := 6\<rparr>)\<rparr>))))"

definition nvc_release_vcpu :: "cvm_services \<Rightarrow> u64 \<Rightarrow> cvm_module \<Rightarrow> (noir_status \<times> cvm_module) option" where
  "nvc_release_vcpu e p s = map_option (Pair noir_success) (nvc_svmc_release_vcpu e p s)"

definition nvc_ref_vcpu :: "u64 \<Rightarrow> cvm_module \<Rightarrow> (noir_status \<times> cvm_module) option" where
  "nvc_ref_vcpu p s = map_option (\<lambda>v. (noir_success, s\<lparr>vcpus := (vcpus s)(p \<mapsto> v\<lparr>vl_ref_count := vl_ref_count v + 1\<rparr>)\<rparr>)) (vcpus s p)"

definition nvc_deref_vcpu :: "cvm_services \<Rightarrow> u64 \<Rightarrow> cvm_module \<Rightarrow> (noir_status \<times> cvm_module) option" where
  "nvc_deref_vcpu e p s =
     (case vcpus s p of None \<Rightarrow> None | Some v \<Rightarrow>
       (let s1 = s\<lparr>vcpus := (vcpus s)(p \<mapsto> v\<lparr>vl_ref_count := vl_ref_count v - 1\<rparr>)\<rparr> in
        if vl_ref_count v \<noteq> 1 then Some (noir_success, s1)
        else map_option (\<lambda>(st, s2). (noir_dereference_destroying, s2)) (nvc_release_vcpu e p s1)))"

section \<open>Machines\<close>

text \<open>The loop over the list of processors, which has 256 entries.\<close>

primrec release_vcpus :: "cvm_services \<Rightarrow> u64 \<Rightarrow> nat \<Rightarrow> cvm_module \<Rightarrow> cvm_module option" where
  "release_vcpus e vm 0 s = Some s"
| "release_vcpus e vm (Suc n) s =
     Option.bind (release_vcpus e vm n s)
       (\<lambda>s1. case vms s1 vm of None \<Rightarrow> None | Some m \<Rightarrow> nvc_svmc_release_vcpu e (vm_vcpu m n) s1)"

definition free_descriptors :: "(u64 \<times> u64) list \<Rightarrow> host_memory \<Rightarrow> host_memory" where
  "free_descriptors ds h = foldl (\<lambda>h (d, table). noir_free_nonpg_memory d (free_contd table 1 h)) h ds"

text \<open>What a machine owns besides its processors, in the order of \<open>nvc_svmc_release_vm\<close>. The encryption of
  the pages of a secure guest and their return to the host belong to the reverse-mapping table.\<close>

definition free_vm :: "cvm_services \<Rightarrow> noir_svm_custom_vm \<Rightarrow> host_memory \<Rightarrow> host_memory" where
  "free_vm e m h =
     (let h1 = free_contd (vm_ncr3 m) 1 h;
          h2 = free_descriptors (vm_ptes m) (free_descriptors (vm_pdes m) (free_descriptors (vm_pdptes m) h1));
          h3 = (if cs_nsv e then free_contd (vm_vmsa m) 1 h2 else h2);
          h4 = free_contd (vm_iopm m) 3 (free_contd (vm_msrpm_full m) 2 (free_contd (vm_msrpm m) 2 h3))
      in if cs_avic e then free_contd (vm_avic_physical m) 1 (free_contd (vm_avic_logical m) 1 h4) else h4)"

definition nvc_svmc_release_vm :: "cvm_services \<Rightarrow> u64 \<Rightarrow> cvm_module \<Rightarrow> cvm_module option" where
  "nvc_svmc_release_vm e vm s =
     (if vm = 0 then Some s
      else
        (case vms s vm of None \<Rightarrow> None | Some m \<Rightarrow>
          (if vm_list_lock m = 0 then None
           else
             Option.bind
               (if vm_vcpus m = 0 then Some s
                else map_option (\<lambda>s1. s1\<lparr>memory := noir_free_nonpg_memory (vm_vcpus m) (memory s1),
                       vms := (vms s1)(vm := map_option (\<lambda>m. m\<lparr>vm_vcpus := 0\<rparr>) (vms s1 vm))\<rparr>)
                     (release_vcpus e vm 255 s))
               (\<lambda>s2. Some (s2\<lparr>memory := free_vm e m (memory s2),
                              tags := (if vm_asid m \<noteq> 0xffffffff then nvc_svmc_free_asid (vm_asid m) (tags s2) else tags s2)\<rparr>)))))"

definition asid_step :: "noir_svm_custom_vm construction" where
  "asid_step = plain_step (\<lambda>(m, s). case nvc_svmc_alloc_asid (tags s) of (a, t) \<Rightarrow> (m\<lparr>vm_asid := a\<rparr>, s\<lparr>tags := t\<rparr>))"

text \<open>The second permission map is not checked: the test is of the first one again.\<close>

definition vm_build_maps :: "cvm_services \<Rightarrow> noir_svm_custom_vm construction list" where
  "vm_build_maps e =
     [alloc_step (noir_alloc_contd_memory 3) (\<lambda>a m. m\<lparr>vm_iopm := a\<rparr>),
      alloc_step (noir_alloc_contd_memory 2) (\<lambda>a m. m\<lparr>vm_msrpm := a\<rparr>),
      unchecked_step (noir_alloc_contd_memory 3) (\<lambda>a m. m\<lparr>vm_msrpm_full := a\<rparr>),
      check_step (\<lambda>m. vm_msrpm m \<noteq> 0)] @
     (if cs_nsv e then [alloc_step (noir_alloc_contd_memory 1) (\<lambda>a m. m\<lparr>vm_vmsa := a\<rparr>),
                        check_step (\<lambda>m. cs_reassign e (cs_phys e (vm_vmsa m)))] else []) @
     [alloc_step noir_alloc_nonpg_memory (\<lambda>a m. m\<lparr>vm_vcpus := a\<rparr>)] @
     (if cs_avic e then [alloc_step (noir_alloc_contd_memory 1) (\<lambda>a m. m\<lparr>vm_avic_logical := a\<rparr>),
                         alloc_step (noir_alloc_contd_memory 1) (\<lambda>a m. m\<lparr>vm_avic_physical := a\<rparr>)] else [])"

definition vm_build :: "cvm_services \<Rightarrow> noir_svm_custom_vm construction list" where
  "vm_build e = alloc_step (noir_alloc_contd_memory 1) (\<lambda>a m. m\<lparr>vm_ncr3 := a\<rparr>) # asid_step # vm_build_maps e"

text \<open>The second result is the machine, 0 when there is none. Its list entry is zeroed with the rest.\<close>

definition nvc_svmc_create_vm :: "cvm_services \<Rightarrow> cvm_module \<Rightarrow> (noir_status \<times> u64 \<times> cvm_module) option" where
  "nvc_svmc_create_vm e s =
     (case noir_alloc_nonpg_memory (memory s) of (a, h) \<Rightarrow>
       (if a = 0 then Some (noir_insufficient_resources, 0, s\<lparr>memory := h\<rparr>)
        else
          (case run_steps (vm_build e) (zero_vm, s\<lparr>memory := h, heap := set_next a 0 (set_prev a 0 (heap s))\<rparr>) of
             Inr (m, s1) \<Rightarrow> Some (noir_success, a, s1\<lparr>vms := (vms s1)(a \<mapsto> m)\<rparr>)
           | Inl (m, s1) \<Rightarrow>
               map_option (\<lambda>s2. (noir_insufficient_resources, 0, s2))
                 (nvc_svmc_release_vm e a (s1\<lparr>vms := (vms s1)(a \<mapsto> m)\<rparr>)))))"

definition nvc_release_vm :: "cvm_services \<Rightarrow> u64 \<Rightarrow> cvm_module \<Rightarrow> (noir_status \<times> cvm_module) option" where
  "nvc_release_vm e vm s =
     (case vms s vm of None \<Rightarrow> None | Some m \<Rightarrow>
       (if le_prev (heap s) vm = 0 \<or> le_next (heap s) vm = 0 then None
        else
          map_option (\<lambda>s1.
              (let h1 = foldl (\<lambda>h p. noir_free_nonpg_memory p h) (memory s1) (vm_lockers m);
                   h2 = (if vm_list_lock m \<noteq> 0 then noir_free_nonpg_memory (vm_list_lock m) h1 else h1)
               in (noir_success, s1\<lparr>memory := noir_free_nonpg_memory vm h2, vms := (vms s1)(vm := None)\<rparr>)))
            (nvc_svmc_release_vm e vm (s\<lparr>heap := noir_remove_list_entry vm (heap s)\<rparr>))))"

text \<open>The list lock is allocated before the first page of lockers; the machine is in the list by then.\<close>

definition nvc_create_vm_ex ::
    "cvm_services \<Rightarrow> u32 \<Rightarrow> u32 \<Rightarrow> cvm_module \<Rightarrow> (noir_status \<times> u64 \<times> cvm_module) option" where
  "nvc_create_vm_ex e process_id properties s =
     (if properties \<noteq> 0 then Some (noir_not_implemented, 0, s)
      else
        (case nvc_svmc_create_vm e s of
           None \<Rightarrow> None
         | Some (st, vm, s1) \<Rightarrow>
             (if st \<noteq> noir_success then Some (st, vm, s1)
              else
                (case (noir_alloc_nonpg_memory (memory s1), the (vms s1 vm)) of ((lock, h1), m) \<Rightarrow>
                  (let m1 = m\<lparr>vm_list_lock := lock\<rparr>;
                       s2 = s1\<lparr>memory := h1, vms := (vms s1)(vm \<mapsto> m1)\<rparr>;
                       fail = (\<lambda>s. map_option (\<lambda>(st, s3). (noir_insufficient_resources, vm, s3)) (nvc_release_vm e vm s))
                   in if lock = 0 then fail s2
                      else
                        (case noir_alloc_nonpg_memory h1 of (page, h2) \<Rightarrow>
                          (let s3 = s2\<lparr>memory := h2, heap := noir_insert_to_prev (cs_idle e) vm (heap s2),
                                      vms := (vms s2)(vm \<mapsto> m1\<lparr>vm_lockers := (if page = 0 then [] else [page])\<rparr>)\<rparr>
                           in if page = 0 then fail s3
                              else Some (noir_success, vm, s3\<lparr>vms := (vms s3)(vm \<mapsto>
                                     m1\<lparr>vm_lockers := [page], vm_properties := properties, vm_pid := process_id,
                                        vm_ref_count := 1\<rparr>)\<rparr>))))))))"

definition nvc_create_vm :: "cvm_services \<Rightarrow> u32 \<Rightarrow> cvm_module \<Rightarrow> (noir_status \<times> u64 \<times> cvm_module) option" where
  "nvc_create_vm e process_id s = nvc_create_vm_ex e process_id 0 s"

definition nvc_ref_vm :: "u64 \<Rightarrow> cvm_module \<Rightarrow> (noir_status \<times> cvm_module) option" where
  "nvc_ref_vm vm s = map_option (\<lambda>m. (noir_success, s\<lparr>vms := (vms s)(vm \<mapsto> m\<lparr>vm_ref_count := vm_ref_count m + 1\<rparr>)\<rparr>)) (vms s vm)"

definition nvc_deref_vm :: "cvm_services \<Rightarrow> u64 \<Rightarrow> cvm_module \<Rightarrow> (noir_status \<times> cvm_module) option" where
  "nvc_deref_vm e vm s =
     (case vms s vm of None \<Rightarrow> None | Some m \<Rightarrow>
       (let s1 = s\<lparr>vms := (vms s)(vm \<mapsto> m\<lparr>vm_ref_count := vm_ref_count m - 1\<rparr>)\<rparr> in
        if vm_ref_count m \<noteq> 1 then Some (noir_success, s1)
        else map_option (\<lambda>(st, s2). (noir_dereference_destroying, s2)) (nvc_release_vm e vm s1)))"

text \<open>The identifier of a machine, and the loop of \<open>nvc_print_vm_list\<close> over \<open>n\<close> machines at most. The idle
  machine has identifier 1.\<close>

definition nvc_get_vm_asid :: "cvm_services \<Rightarrow> u64 \<Rightarrow> cvm_module \<Rightarrow> u32 option" where
  "nvc_get_vm_asid e vm s = (if vm = cs_idle e then Some 1 else map_option vm_asid (vms s vm))"

fun walk_vms :: "nat \<Rightarrow> cvm_services \<Rightarrow> cvm_module \<Rightarrow> u64 \<Rightarrow> (u64 \<times> u32) list option" where
  "walk_vms n e s cur =
     (if cur = cs_idle e then Some []
      else
        (case (n, nvc_get_vm_asid e cur s) of
           (Suc k, Some a) \<Rightarrow> map_option ((#) (cur, a)) (walk_vms k e s (le_next (heap s) cur))
         | _ \<Rightarrow> None))"

declare walk_vms.simps [simp del]

definition nvc_print_vm_list :: "nat \<Rightarrow> cvm_services \<Rightarrow> cvm_module \<Rightarrow> (u64 \<times> u32) list option" where
  "nvc_print_vm_list n e s = walk_vms n e s (le_next (heap s) (cs_idle e))"

end
