(* ===== verification/Vm_Laws.thy ===== *)
theory Vm_Laws
  imports Vm_Life
begin

text \<open>
  The invariant of the life cycle of customizable machines: the list of machines, the pool of
  address-space identifiers and the lists of processors agree with the machines that exist.
\<close>

section \<open>Invariant\<close>

definition asid_at :: "cvm_module \<Rightarrow> u64 \<Rightarrow> u32" where
  "asid_at s a = vm_asid (the (vms s a))"

text \<open>The identifiers of the machines of a list; the failure value is none.\<close>

definition real_asids :: "cvm_module \<Rightarrow> u64 list \<Rightarrow> u32 list" where
  "real_asids s xs = filter (\<lambda>i. i \<noteq> 0xffffffff) (map (asid_at s) xs)"

definition vcpu_slots :: "noir_svm_custom_vm \<Rightarrow> nat set" where
  "vcpu_slots m = {i. i < 256 \<and> vm_vcpu m i \<noteq> 0}"

text \<open>A machine counts its processors, and each processor of its list points back to its slot.\<close>

definition vm_ok :: "(u64 \<Rightarrow> vcpu_life option) \<Rightarrow> u64 \<Rightarrow> noir_svm_custom_vm \<Rightarrow> bool" where
  "vm_ok vs a m \<longleftrightarrow> vm_list_lock m \<noteq> 0 \<and> vm_vcpus m \<noteq> 0 \<and> vm_vcpu_count m = of_nat (card (vcpu_slots m)) \<and>
     (\<forall>i \<in> vcpu_slots m. \<exists>v. vs (vm_vcpu m i) = Some v \<and> vl_vm v = a \<and> unat (vl_vcpu_id v) = i)"

definition wf_vcpus :: "cvm_module \<Rightarrow> bool" where
  "wf_vcpus s \<longleftrightarrow> vms s 0 = None \<and> vcpus s 0 = None \<and> (\<forall>a m. vms s a = Some m \<longrightarrow> vm_ok (vcpus s) a m)"

definition wf_list :: "cvm_services \<Rightarrow> u64 list \<Rightarrow> cvm_module \<Rightarrow> bool" where
  "wf_list e xs s \<longleftrightarrow> ring (heap s) (cs_idle e) xs \<and> set xs = dom (vms s) \<and> asids.used (real_asids s xs) (tags s)"

definition wf :: "cvm_services \<Rightarrow> cvm_module \<Rightarrow> bool" where
  "wf e s \<longleftrightarrow> (\<exists>xs. wf_list e xs s) \<and> wf_vcpus s"

text \<open>What allocations promise: blocks that are not null are not in use and differ from each other.\<close>

definition fresh :: "cvm_services \<Rightarrow> cvm_module \<Rightarrow> bool" where
  "fresh e s \<longleftrightarrow> distinct (filter (\<lambda>a. a \<noteq> 0) (answers (memory s))) \<and>
     set (answers (memory s)) \<inter> (dom (vms s) \<union> dom (vcpus s) \<union> {cs_idle e}) = {}"

section \<open>Releasing a processor\<close>

definition forget_vcpu :: "cvm_services \<Rightarrow> nat \<Rightarrow> noir_svm_custom_vm \<Rightarrow> noir_svm_custom_vm" where
  "forget_vcpu e i m =
     (let m1 = m\<lparr>vm_vcpu := (vm_vcpu m)(i := 0)\<rparr>;
          m2 = (if cs_avic e then m1\<lparr>vm_physical_id := (vm_physical_id m1)(i := 0),
                                    vm_logical_id := (vm_logical_id m1)(i := 0)\<rparr> else m1)
      in m2\<lparr>vm_vcpu_count := vm_vcpu_count m2 - 1\<rparr>)"

lemma forget_vcpu_parts [simp]:
  "vm_vcpu (forget_vcpu e i m) = (vm_vcpu m)(i := 0)" "vm_vcpu_count (forget_vcpu e i m) = vm_vcpu_count m - 1"
  "vm_asid (forget_vcpu e i m) = vm_asid m" "vm_list_lock (forget_vcpu e i m) = vm_list_lock m"
  "vm_vcpus (forget_vcpu e i m) = vm_vcpus m" "vm_lockers (forget_vcpu e i m) = vm_lockers m"
  by (simp_all add: forget_vcpu_def Let_def)

lemma release_vcpu_effect:
  assumes "nvc_svmc_release_vcpu e p s = Some t" "p \<noteq> 0"
  obtains v m h where "vcpus s p = Some v" "vms s (vl_vm v) = Some m"
    "t = s\<lparr>memory := h, vms := (vms s)(vl_vm v \<mapsto> forget_vcpu e (unat (vl_vcpu_id v)) m), vcpus := (vcpus s)(p := None)\<rparr>"
proof -
  obtain v m where v: "vcpus s p = Some v" "vms s (vl_vm v) = Some m"
    using assms by (auto simp: nvc_svmc_release_vcpu_def split: option.splits)
  have "\<exists>h. t = s\<lparr>memory := h, vms := (vms s)(vl_vm v \<mapsto> forget_vcpu e (unat (vl_vcpu_id v)) m), vcpus := (vcpus s)(p := None)\<rparr>"
    using assms v by (cases "cs_avic e"; cases "cs_nsv e")
      (auto simp: nvc_svmc_release_vcpu_def forget_vcpu_def Let_def split: if_splits)
  then show ?thesis using that [OF v] by blast
qed

lemma slots_forget: "vcpu_slots (forget_vcpu e i m) = vcpu_slots m - {i}"
  by (auto simp: vcpu_slots_def)

lemma finite_slots [simp]: "finite (vcpu_slots m)"
  by (simp add: vcpu_slots_def)

lemma vm_ok_forget:
  assumes "vm_ok vs a m" "i \<in> vcpu_slots m"
  shows "vm_ok (vs(vm_vcpu m i := None)) a (forget_vcpu e i m)"
proof -
  have "card (vcpu_slots m) = Suc (card (vcpu_slots m - {i}))" using assms(2) by (metis card_Suc_Diff1 finite_slots)
  then have count: "vm_vcpu_count m - 1 = of_nat (card (vcpu_slots m - {i}))" using assms(1) by (simp add: vm_ok_def)
  have "vm_vcpu m j \<noteq> vm_vcpu m i" if "j \<in> vcpu_slots m" "j \<noteq> i" for j
  proof
    assume "vm_vcpu m j = vm_vcpu m i"
    moreover have "\<exists>v. vs (vm_vcpu m k) = Some v \<and> unat (vl_vcpu_id v) = k" if "k \<in> vcpu_slots m" for k
      using assms(1) that by (auto simp: vm_ok_def)
    ultimately show False using that assms(2) by (metis option.inject)
  qed
  then show ?thesis
    using assms(1) count by (auto simp: vm_ok_def slots_forget)
qed

lemma vm_ok_other:
  assumes "vm_ok vs b m" "vs p = Some v" "vl_vm v \<noteq> b"
  shows "vm_ok (vs(p := None)) b m"
proof -
  have "vm_vcpu m i \<noteq> p" if "i \<in> vcpu_slots m" for i
    using assms that by (auto simp: vm_ok_def)
  then show ?thesis using assms(1) by (auto simp: vm_ok_def)
qed

text \<open>The processor is the one in its slot.\<close>

definition listed :: "cvm_module \<Rightarrow> u64 \<Rightarrow> bool" where
  "listed s p \<longleftrightarrow> (\<exists>a m i. vms s a = Some m \<and> i \<in> vcpu_slots m \<and> vm_vcpu m i = p)"

lemma release_vcpu_listed:
  assumes "wf_vcpus s" "vms s a = Some m" "i \<in> vcpu_slots m" "nvc_svmc_release_vcpu e (vm_vcpu m i) s = Some t"
  shows "\<exists>h. t = s\<lparr>memory := h, vms := (vms s)(a \<mapsto> forget_vcpu e i m), vcpus := (vcpus s)(vm_vcpu m i := None)\<rparr>"
    "wf_vcpus t"
proof -
  have "vm_vcpu m i \<noteq> 0" using assms(3) by (simp add: vcpu_slots_def)
  then obtain v m' h where v: "vcpus s (vm_vcpu m i) = Some v" "vms s (vl_vm v) = Some m'"
      "t = s\<lparr>memory := h, vms := (vms s)(vl_vm v \<mapsto> forget_vcpu e (unat (vl_vcpu_id v)) m'), vcpus := (vcpus s)(vm_vcpu m i := None)\<rparr>"
    using release_vcpu_effect [OF assms(4)] by metis
  have ok: "vm_ok (vcpus s) a m" using assms(1,2) by (simp add: wf_vcpus_def)
  then have "vl_vm v = a" "unat (vl_vcpu_id v) = i" using assms(3) v(1) by (auto simp: vm_ok_def)
  with v assms(2) have t: "t = s\<lparr>memory := h, vms := (vms s)(a \<mapsto> forget_vcpu e i m), vcpus := (vcpus s)(vm_vcpu m i := None)\<rparr>"
    by simp
  then show "\<exists>h. t = s\<lparr>memory := h, vms := (vms s)(a \<mapsto> forget_vcpu e i m), vcpus := (vcpus s)(vm_vcpu m i := None)\<rparr>" by blast
  have "vm_ok (vcpus t) b n" if "vms t b = Some n" for b n
    using that assms(1) vm_ok_forget [OF ok assms(3), of e] vm_ok_other [of "vcpus s" b n, OF _ v(1)] \<open>vl_vm v = a\<close>
    by (auto simp: t wf_vcpus_def split: if_splits)
  then show "wf_vcpus t" using assms(1,2) by (auto simp: wf_vcpus_def t)
qed

text \<open>What the release of processors leaves alone.\<close>

definition same_list :: "cvm_module \<Rightarrow> cvm_module \<Rightarrow> bool" where
  "same_list s t \<longleftrightarrow> heap t = heap s \<and> tags t = tags s \<and> dom (vms t) = dom (vms s) \<and> asid_at t = asid_at s"

lemma same_list_trans: "same_list s t \<Longrightarrow> same_list t u \<Longrightarrow> same_list s u"
  by (simp add: same_list_def)

lemma same_list_forget: "vms s a = Some m \<Longrightarrow> same_list s (s\<lparr>memory := h, vms := (vms s)(a \<mapsto> forget_vcpu e i m), vcpus := w\<rparr>)"
  by (auto simp: same_list_def asid_at_def fun_eq_iff)

lemma wf_list_same: "same_list s t \<Longrightarrow> wf_list e xs s = wf_list e xs t"
  by (simp add: wf_list_def same_list_def real_asids_def)

section \<open>Releasing a machine\<close>

lemma same_list_refl: "same_list s s"
  by (simp add: same_list_def)

text \<open>The loop clears the slots below its bound.\<close>

lemma release_vcpus_effect:
  assumes "wf_vcpus s" "release_vcpus e a n s = Some t" "n \<le> 256" "vms s a = Some m"
  shows "wf_vcpus t \<and> same_list s t \<and> (\<exists>m'. vms t a = Some m' \<and> vm_list_lock m' = vm_list_lock m \<and> vm_vcpus m' = vm_vcpus m \<and>
    vm_vcpu m' = (\<lambda>i. if i < n then 0 else vm_vcpu m i)) \<and> (\<forall>b. b \<noteq> a \<longrightarrow> vms t b = vms s b)"
  using assms(2,3)
proof (induction n arbitrary: t)
  case 0
  then show ?case using assms(1,4) by (auto simp: same_list_refl)
next
  case (Suc n)
  obtain u m' where u: "release_vcpus e a n s = Some u" "vms u a = Some m'" "nvc_svmc_release_vcpu e (vm_vcpu m' n) u = Some t"
    using Suc.prems(1) by (auto simp: bind_eq_Some_conv split: option.splits)
  have IH: "wf_vcpus u" "same_list s u" "vm_list_lock m' = vm_list_lock m" "vm_vcpus m' = vm_vcpus m"
      "vm_vcpu m' = (\<lambda>i. if i < n then 0 else vm_vcpu m i)" "\<forall>b. b \<noteq> a \<longrightarrow> vms u b = vms s b"
    using Suc.IH [OF u(1)] Suc.prems(2) u(2) by auto
  show ?case
  proof (cases "vm_vcpu m' n = 0")
    case True
    then have "t = u" using u(3) by (simp add: nvc_svmc_release_vcpu_def)
    moreover have "vm_vcpu m' = (\<lambda>i. if i < Suc n then 0 else vm_vcpu m i)"
      using IH(5) True by (auto simp: fun_eq_iff less_Suc_eq)
    ultimately show ?thesis using IH u(2) by auto
  next
    case False
    then have n: "n \<in> vcpu_slots m'" using Suc.prems(2) by (simp add: vcpu_slots_def)
    obtain h where t: "t = u\<lparr>memory := h, vms := (vms u)(a \<mapsto> forget_vcpu e n m'), vcpus := (vcpus u)(vm_vcpu m' n := None)\<rparr>"
      using release_vcpu_listed(1) [OF IH(1) u(2) n u(3)] by blast
    have "same_list s t" using same_list_trans [OF IH(2) same_list_forget [OF u(2)]] t by simp
    moreover have "wf_vcpus t" using release_vcpu_listed(2) [OF IH(1) u(2) n u(3)] .
    moreover have "(vm_vcpu m')(n := 0) = (\<lambda>i. if i < Suc n then 0 else vm_vcpu m i)"
      using IH(5) by (auto simp: fun_eq_iff less_Suc_eq)
    ultimately show ?thesis using IH by (auto simp: t)
  qed
qed

lemma vm_ok_clear_list: "vms s a = Some m \<Longrightarrow> wf_vcpus s \<Longrightarrow> wf_vcpus (s\<lparr>vms := (vms s)(a := None)\<rparr>)"
  by (simp add: wf_vcpus_def)

lemma svmc_release_vm_effect:
  assumes "wf_vcpus s" "vms s a = Some m" "nvc_svmc_release_vm e a s = Some t"
  shows "wf_vcpus (t\<lparr>vms := (vms t)(a := None)\<rparr>)" "heap t = heap s" "dom (vms t) = dom (vms s)" "asid_at t = asid_at s"
    "tags t = (if vm_asid m \<noteq> 0xffffffff then nvc_svmc_free_asid (vm_asid m) (tags s) else tags s)"
    "\<forall>b. b \<noteq> a \<longrightarrow> vms t b = vms s b"
proof -
  have ok: "vm_ok (vcpus s) a m" and a: "a \<noteq> 0" using assms(1,2) by (auto simp: wf_vcpus_def)
  then have lock: "vm_list_lock m \<noteq> 0" "vm_vcpus m \<noteq> 0" by (auto simp: vm_ok_def)
  then obtain u where u: "release_vcpus e a 255 s = Some u"
    and t: "t = u\<lparr>memory := free_vm e m (noir_free_nonpg_memory (vm_vcpus m) (memory u)),
      vms := (vms u)(a := map_option (\<lambda>m. m\<lparr>vm_vcpus := 0\<rparr>) (vms u a)),
      tags := (if vm_asid m \<noteq> 0xffffffff then nvc_svmc_free_asid (vm_asid m) (tags u) else tags u)\<rparr>"
    using assms(2,3) a by (auto simp: nvc_svmc_release_vm_def bind_eq_Some_conv)
  have "(255 :: nat) \<le> 256" by simp
  from release_vcpus_effect [OF assms(1) u this assms(2)]
  obtain m' where r: "wf_vcpus u" "same_list s u" "vms u a = Some m'" "\<forall>b. b \<noteq> a \<longrightarrow> vms u b = vms s b" by blast
  show "wf_vcpus (t\<lparr>vms := (vms t)(a := None)\<rparr>)"
    using r(1) by (auto simp: t wf_vcpus_def)
  show "heap t = heap s" "dom (vms t) = dom (vms s)"
    using r(2,3) by (auto simp: t same_list_def)
  show "asid_at t = asid_at s"
  proof
    fix b
    have "asid_at t b = asid_at u b" using r(3) by (auto simp: t asid_at_def)
    then show "asid_at t b = asid_at s b" using r(2) by (simp add: same_list_def)
  qed
  show "tags t = (if vm_asid m \<noteq> 0xffffffff then nvc_svmc_free_asid (vm_asid m) (tags s) else tags s)"
    using r(2) by (simp add: t same_list_def)
  show "\<forall>b. b \<noteq> a \<longrightarrow> vms t b = vms s b" using r(4) by (simp add: t)
qed

lemma real_asids_append: "real_asids s (xs @ ys) = real_asids s xs @ real_asids s ys"
  by (simp add: real_asids_def)

lemma real_asids_single: "real_asids s [a] = (if asid_at s a = 0xffffffff then [] else [asid_at s a])"
  by (simp add: real_asids_def)

lemma used_set: "asids.used hs t \<longleftrightarrow> asid_valid t \<and> distinct hs \<and> set hs = asid_taken t \<inter> asid_ids t"
  by (fact asids.used_def)

lemma used_perm: "set hs = set hs' \<Longrightarrow> distinct hs' \<Longrightarrow> asids.used hs t \<Longrightarrow> asids.used hs' t"
  by (simp add: used_set)

text \<open>A machine in the list leaves it, and gives its identifier back.\<close>

lemma wf_list_remove:
  assumes "wf_list e xs s" "vms s a = Some m" "a \<in> set xs"
    "heap t = noir_remove_list_entry a (heap s)" "vms t = (vms s)(a := None)"
    "tags t = (if vm_asid m \<noteq> 0xffffffff then nvc_svmc_free_asid (vm_asid m) (tags s) else tags s)"
  shows "wf_list e (remove1 a xs) t"
proof -
  obtain ys zs where xs: "xs = ys @ a # zs" using assms(3) split_list by fastforce
  have ring: "ring (heap s) (cs_idle e) (ys @ a # zs)" and used: "asids.used (real_asids s xs) (tags s)" and dom: "set xs = dom (vms s)"
    using assms(1) by (simp_all add: wf_list_def xs)
  have d: "distinct (ys @ a # zs)" using ring by (simp add: ring_def)
  then have rest: "remove1 a xs = ys @ zs" by (simp add: xs remove1_append)
  have "asid_at t b = asid_at s b" if "b \<in> set (ys @ zs)" for b
    using that d assms(5) by (auto simp: asid_at_def)
  then have same: "real_asids t (ys @ zs) = real_asids s (ys @ zs)" by (simp add: real_asids_def cong: map_cong)
  have at: "asid_at s a = vm_asid m" using assms(2) by (simp add: asid_at_def)
  have "asids.used (real_asids s (ys @ zs)) (tags t)"
  proof (cases "vm_asid m = 0xffffffff")
    case True
    then have "real_asids s xs = real_asids s (ys @ zs)" using at by (simp add: xs real_asids_def)
    then show ?thesis using used True assms(6) by simp
  next
    case False
    have all: "real_asids s xs = real_asids s ys @ vm_asid m # real_asids s zs" using at False by (simp add: xs real_asids_def)
    then have "distinct (real_asids s ys @ vm_asid m # real_asids s zs)" using used by (simp add: used_set)
    then have "remove1 (vm_asid m) (real_asids s xs) = real_asids s (ys @ zs)"
      by (simp add: all remove1_append real_asids_append)
    moreover have "vm_asid m \<in> set (real_asids s xs)" by (simp add: all)
    ultimately show ?thesis using asids.free_used [OF used, of "vm_asid m"] assms(6) False by simp
  qed
  moreover have "ring (heap t) (cs_idle e) (ys @ zs)" using ring_remove(1) [OF ring] assms(4) by simp
  moreover have "set (ys @ zs) = dom (vms t)" using dom d by (auto simp: xs assms(5))
  ultimately show ?thesis by (simp add: wf_list_def rest same)
qed

lemma release_vm_wf:
  assumes "wf e s" "nvc_release_vm e a s = Some (st, t)"
  shows "wf e t"
proof -
  obtain xs where list: "wf_list e xs s" and vs: "wf_vcpus s" using assms(1) by (auto simp: wf_def)
  obtain m u where m: "vms s a = Some m" and u: "nvc_svmc_release_vm e a (s\<lparr>heap := noir_remove_list_entry a (heap s)\<rparr>) = Some u"
    and t: "\<exists>h. t = u\<lparr>memory := h, vms := (vms u)(a := None)\<rparr>"
    using assms(2) by (auto simp: nvc_release_vm_def Let_def split: option.splits if_splits)
  have vs': "wf_vcpus (s\<lparr>heap := noir_remove_list_entry a (heap s)\<rparr>)" using vs by (simp add: wf_vcpus_def)
  note effect = svmc_release_vm_effect [OF vs' _ u, of m]
  have "vms u = (vms s)(a := vms u a)" using effect(6) m by (auto simp: fun_eq_iff)
  then have "vms t = (vms s)(a := None)" using t by (metis cvm_module.select_convs(4) cvm_module.surjective cvm_module.update_convs(1,4) fun_upd_upd)
  moreover have "a \<in> set xs" using list m by (auto simp: wf_list_def)
  moreover have "heap t = noir_remove_list_entry a (heap s)" using t effect(2) m by auto
  moreover have "tags t = (if vm_asid m \<noteq> 0xffffffff then nvc_svmc_free_asid (vm_asid m) (tags s) else tags s)"
    using t effect(5) m by auto
  ultimately have "wf_list e (remove1 a xs) t" using wf_list_remove [OF list m] by blast
  moreover have "wf_vcpus t" using t effect(1) m by (auto simp: wf_vcpus_def)
  ultimately show ?thesis by (auto simp: wf_def)
qed

end
