(* ===== verification/Vm_Create.thy ===== *)
theory Vm_Create
  imports Vm_Laws
begin

text \<open>
  Creating machines and processors keeps the invariant of their life cycle, and what becomes of an
  allocation that fails.
\<close>

section \<open>Constructions\<close>

lemma run_steps_append: "run_steps (fs @ gs) x = (case run_steps fs x of Inl y \<Rightarrow> Inl y | Inr y \<Rightarrow> run_steps gs y)"
  by (induction fs arbitrary: x) (auto split: sum.split)

text \<open>What every step keeps, and what every successful step keeps.\<close>

lemma run_steps_inv:
  assumes "\<forall>f \<in> set fs. \<forall>x y. P x \<longrightarrow> f x = Inl y \<or> f x = Inr y \<longrightarrow> P y"
  shows "P x \<Longrightarrow> run_steps fs x = Inl y \<or> run_steps fs x = Inr y \<Longrightarrow> P y"
  using assms
proof (induction fs arbitrary: x)
  case (Cons f fs)
  have tail: "\<forall>f \<in> set fs. \<forall>x y. P x \<longrightarrow> f x = Inl y \<or> f x = Inr y \<longrightarrow> P y"
    using Cons.prems(3) by (rule ballI [OF bspec]) (rule list.set_intros(2))
  have "\<forall>x y. P x \<longrightarrow> f x = Inl y \<or> f x = Inr y \<longrightarrow> P y"
    using Cons.prems(3) by (rule bspec) (rule list.set_intros(1))
  then have head: "P z" if "f x = Inl z \<or> f x = Inr z" for z using Cons.prems(1) that by iprover
  show ?case
  proof (cases "f x")
    case (Inl z)
    then show ?thesis using Cons.prems(2) head [of z] by auto
  next
    case (Inr z)
    then show ?thesis using Cons.IH [OF _ _ tail, of z] head [of z] Cons.prems(2) by simp
  qed
qed auto

lemma run_steps_ok:
  assumes "\<forall>f \<in> set fs. \<forall>x y. P x \<longrightarrow> f x = Inr y \<longrightarrow> P y"
  shows "P x \<Longrightarrow> run_steps fs x = Inr y \<Longrightarrow> P y"
  using assms
proof (induction fs arbitrary: x)
  case (Cons f fs)
  have tail: "\<forall>f \<in> set fs. \<forall>x y. P x \<longrightarrow> f x = Inr y \<longrightarrow> P y"
    using Cons.prems(3) by (rule ballI [OF bspec]) (rule list.set_intros(2))
  have "\<forall>x y. P x \<longrightarrow> f x = Inr y \<longrightarrow> P y"
    using Cons.prems(3) by (rule bspec) (rule list.set_intros(1))
  then have head: "P z" if "f x = Inr z" for z using Cons.prems(1) that by iprover
  show ?case
  proof (cases "f x")
    case (Inl z)
    then show ?thesis using Cons.prems(2) head [of z] by auto
  next
    case (Inr z)
    then show ?thesis using Cons.IH [OF _ _ tail, of z] head [of z] Cons.prems(2) by simp
  qed
qed auto

lemmas steps = alloc_step_def unchecked_step_def check_step_def plain_step_def Let_def

section \<open>A machine under construction\<close>

text \<open>Nothing but memory and the pool of identifiers changes, and the machine has no lock and no
  processors yet.\<close>

definition building :: "cvm_module \<Rightarrow> noir_svm_custom_vm \<times> cvm_module \<Rightarrow> bool" where
  "building s0 x \<longleftrightarrow> (case x of (m, s) \<Rightarrow> vms s = vms s0 \<and> vcpus s = vcpus s0 \<and> heap s = heap s0 \<and>
     vm_list_lock m = 0 \<and> vm_vcpu m = (\<lambda>_. 0) \<and> vm_vcpu_count m = 0)"

definition harmless :: "cvm_module \<Rightarrow> noir_svm_custom_vm construction \<Rightarrow> bool" where
  "harmless s0 f \<longleftrightarrow> (\<forall>x y. building s0 x \<longrightarrow> f x = Inl y \<or> f x = Inr y \<longrightarrow> building s0 y)"

lemma harmless_alloc:
  assumes "\<And>a m. vm_list_lock (put a m) = vm_list_lock m \<and> vm_vcpu (put a m) = vm_vcpu m \<and> vm_vcpu_count (put a m) = vm_vcpu_count m"
  shows "harmless s0 (alloc_step al put)" "harmless s0 (unchecked_step al put)"
  using assms by (auto simp: harmless_def building_def steps split: prod.splits if_splits)

lemma harmless_check: "harmless s0 (check_step p)"
  by (auto simp: harmless_def check_step_def building_def split: prod.splits if_splits)

lemma harmless_asid: "harmless s0 asid_step"
  by (auto simp: harmless_def asid_step_def plain_step_def building_def split: prod.splits)

lemma vm_building:
  assumes "run_steps (vm_build e) (zero_vm, s) = Inl y \<or> run_steps (vm_build e) (zero_vm, s) = Inr y"
  shows "building s y"
proof (rule run_steps_inv [OF _ _ assms])
  show "building s (zero_vm, s)" by (simp add: building_def zero_vm_def)
  have "\<forall>f \<in> set (vm_build e). harmless s f"
    by (auto simp: vm_build_def vm_build_maps_def harmless_alloc harmless_check harmless_asid)
  then show "\<forall>f \<in> set (vm_build e). \<forall>x y. building s x \<longrightarrow> f x = Inl y \<or> f x = Inr y \<longrightarrow> building s y"
    unfolding harmless_def .
qed

text \<open>The identifier comes from the pool, and the list of processors exists.\<close>

definition tagged :: "u32 \<times> tlb_tagging \<Rightarrow> noir_svm_custom_vm \<times> cvm_module \<Rightarrow> bool" where
  "tagged it x \<longleftrightarrow> (case x of (m, s) \<Rightarrow> (vm_asid m, tags s) = it)"

lemma asid_step_tags: "asid_step (m, s) = Inr y \<Longrightarrow> tagged (nvc_svmc_alloc_asid (tags s)) y"
  by (cases y) (auto simp: asid_step_def plain_step_def tagged_def split: prod.splits)

lemma vm_tagged:
  assumes "run_steps (vm_build e) (zero_vm, s) = Inr (m, t)"
  shows "(vm_asid m, tags t) = nvc_svmc_alloc_asid (tags s)"
proof -
  obtain m1 s1 y where first: "alloc_step (noir_alloc_contd_memory 1) (\<lambda>a m. m\<lparr>vm_ncr3 := a\<rparr>) (zero_vm, s) = Inr (m1, s1)"
    and asid: "asid_step (m1, s1) = Inr y" and rest: "run_steps (vm_build_maps e) y = Inr (m, t)"
    using assms unfolding vm_build_def run_steps.simps by (auto split: sum.splits)
  have "tags s1 = tags s" using first by (auto simp: steps split: prod.splits if_splits)
  then have start: "tagged (nvc_svmc_alloc_asid (tags s)) y" using asid_step_tags [OF asid] by simp
  have "tagged it v" if "f \<in> set (vm_build_maps e)" "tagged it u" "f u = Inr v" for f u v it
    using that by (cases u; cases v) (auto simp: vm_build_maps_def tagged_def steps split: prod.splits if_splits)
  then have "tagged (nvc_svmc_alloc_asid (tags s)) (m, t)"
    by (intro run_steps_ok [where P = "tagged (nvc_svmc_alloc_asid (tags s))", OF _ start rest]) blast
  then show ?thesis by (simp add: tagged_def)
qed

lemma vm_has_list:
  assumes "run_steps (vm_build e) (zero_vm, s) = Inr (m, t)"
  shows "vm_vcpus m \<noteq> 0"
proof -
  let ?list = "alloc_step noir_alloc_nonpg_memory (\<lambda>a m. m\<lparr>vm_vcpus := a\<rparr>)"
  let ?last = "if cs_avic e then [alloc_step (noir_alloc_contd_memory 1) (\<lambda>a m. m\<lparr>vm_avic_logical := a\<rparr>),
      alloc_step (noir_alloc_contd_memory 1) (\<lambda>a m. m\<lparr>vm_avic_physical := a\<rparr>)] else []"
  obtain before where before: "vm_build e = before @ [?list] @ ?last" by (simp add: vm_build_def vm_build_maps_def)
  obtain x y where y: "?list x = Inr y" "run_steps ?last y = Inr (m, t)"
    using assms unfolding before run_steps_append by (auto split: sum.splits)
  have start: "vm_vcpus (fst y) \<noteq> 0" using y(1) by (cases x) (auto simp: steps split: prod.splits if_splits)
  have "vm_vcpus (fst v) \<noteq> 0" if "f \<in> set ?last" "vm_vcpus (fst u) \<noteq> 0" "f u = Inr v" for f u v
    using that by (cases u) (auto simp: steps split: prod.splits if_splits)
  then have "vm_vcpus (fst (m, t)) \<noteq> 0"
    by (intro run_steps_ok [where P = "\<lambda>x. vm_vcpus (fst x) \<noteq> 0", OF _ start y(2)]) blast
  then show ?thesis by simp
qed

section \<open>Creating a machine\<close>

text \<open>Once the structure exists, a failed allocation ends in a lock that is null.\<close>

lemma svmc_create_vm_effect:
  assumes "nvc_svmc_create_vm e s = Some (st, a, t)"
  shows "(a = 0 \<and> st = noir_insufficient_resources \<and> (\<exists>h. t = s\<lparr>memory := h\<rparr>)) \<or>
    (a \<noteq> 0 \<and> st = noir_success \<and> a \<in> set (answers (memory s)) \<and>
     (\<exists>m h i u. nvc_svmc_alloc_asid (tags s) = (i, u) \<and> vm_asid m = i \<and> vm_list_lock m = 0 \<and> vm_vcpus m \<noteq> 0 \<and>
       vm_vcpu m = (\<lambda>_. 0) \<and> vm_vcpu_count m = 0 \<and>
       t = s\<lparr>memory := h, heap := set_next a 0 (set_prev a 0 (heap s)), vms := (vms s)(a \<mapsto> m), tags := u\<rparr>))"
proof -
  obtain b h where alloc: "noir_alloc_nonpg_memory (memory s) = (b, h)" by (metis prod.exhaust)
  show ?thesis
  proof (cases "b = 0")
    case True
    then show ?thesis using assms alloc by (auto simp: nvc_svmc_create_vm_def)
  next
    case False
    let ?s = "s\<lparr>memory := h, heap := set_next b 0 (set_prev b 0 (heap s))\<rparr>"
    have answer: "b \<in> set (answers (memory s))"
      using alloc False by (auto simp: noir_alloc_nonpg_memory_def next_answer_def split: list.splits)
    show ?thesis
    proof (cases "run_steps (vm_build e) (zero_vm, ?s)")
      case (Inl y)
      obtain m u where y: "y = (m, u)" by (cases y)
      have "building ?s y" using vm_building Inl by blast
      then have "nvc_svmc_release_vm e b (u\<lparr>vms := (vms u)(b \<mapsto> m)\<rparr>) = None"
        using False by (simp add: y building_def nvc_svmc_release_vm_def)
      then show ?thesis using assms alloc False Inl y by (simp add: nvc_svmc_create_vm_def)
    next
      case (Inr y)
      obtain m u where y: "y = (m, u)" by (cases y)
      have "building ?s y" using vm_building Inr by blast
      then have b: "vms u = vms s" "vcpus u = vcpus s" "heap u = heap ?s" "vm_list_lock m = 0" "vm_vcpu m = (\<lambda>_. 0)" "vm_vcpu_count m = 0"
        by (simp_all add: y building_def)
      have asid: "nvc_svmc_alloc_asid (tags s) = (vm_asid m, tags u)" using vm_tagged [OF Inr [unfolded y]] by simp
      have "t = u\<lparr>vms := (vms u)(b \<mapsto> m)\<rparr>" "st = noir_success" "a = b" using assms alloc False Inr y by (auto simp: nvc_svmc_create_vm_def)
      moreover have "u\<lparr>vms := (vms u)(b \<mapsto> m)\<rparr> =
          s\<lparr>memory := memory u, heap := set_next b 0 (set_prev b 0 (heap s)), vms := (vms s)(b \<mapsto> m), tags := tags u\<rparr>"
        using b by simp
      ultimately show ?thesis
        using False answer asid b(4-6) vm_has_list [OF Inr [unfolded y]] by blast
    qed
  qed
qed

lemma vm_ok_empty:
  "vm_list_lock m \<noteq> 0 \<Longrightarrow> vm_vcpus m \<noteq> 0 \<Longrightarrow> vm_vcpu m = (\<lambda>_. 0) \<Longrightarrow> vm_vcpu_count m = 0 \<Longrightarrow> vm_ok vs a m"
  by (simp add: vm_ok_def vcpu_slots_def)

text \<open>The machine in the list, its identifier taken from the pool.\<close>

lemma wf_insert:
  assumes "wf e s" "a \<noteq> 0" "a \<notin> dom (vms s)" "a \<noteq> cs_idle e" "nvc_svmc_alloc_asid (tags s) = (i, u)"
    "heap t = noir_insert_to_prev (cs_idle e) a (set_next a 0 (set_prev a 0 (heap s)))"
    "vms t = (vms s)(a \<mapsto> m)" "vm_asid m = i" "tags t = u" "vcpus t = vcpus s" "vm_ok (vcpus s) a m"
  shows "wf e t"
proof -
  obtain xs where list: "wf_list e xs s" and vs: "wf_vcpus s" using assms(1) by (auto simp: wf_def)
  have new: "a \<notin> set (cs_idle e # xs)" using list assms(3,4) by (auto simp: wf_list_def)
  then have "ring (set_next a 0 (set_prev a 0 (heap s))) (cs_idle e) (xs @ [])"
    using list by (simp add: wf_list_def ring_frame)
  from ring_insert_prev [OF this] have ring: "ring (heap t) (cs_idle e) (xs @ [a])" using new assms(6) by simp
  have "asid_at t b = asid_at s b" if "b \<in> set xs" for b using that new assms(7) by (auto simp: asid_at_def)
  then have "real_asids t xs = real_asids s xs" by (simp add: real_asids_def cong: map_cong)
  moreover have "asid_at t a = i" using assms(7,8) by (simp add: asid_at_def)
  ultimately have real: "real_asids t (xs @ [a]) = real_asids s xs @ (if i = 0xffffffff then [] else [i])"
    by (simp add: real_asids_append real_asids_single)
  have used: "asids.used (real_asids s xs) (tags s)" using list by (simp add: wf_list_def)
  have "asids.used (real_asids t (xs @ [a])) (tags t)"
  proof (cases "i = 0xffffffff")
    case True
    then have "asid_alloc (tags s) = (None, u)" using assms(5) by (simp add: asid_alloc_def)
    then have "u = tags s" using asids.alloc_exhausted [OF used] by blast
    then show ?thesis using used True assms(9) real by simp
  next
    case False
    then have "asid_alloc (tags s) = (Some i, u)" using assms(5) by (simp add: asid_alloc_def)
    from asids.alloc_used [OF used this] have "asids.used (i # real_asids s xs) u" .
    then show ?thesis using False unfolding real assms(9) by (simp add: used_set)
  qed
  moreover have "set (xs @ [a]) = dom (vms t)" using list assms(7) by (auto simp: wf_list_def)
  ultimately have "wf_list e (xs @ [a]) t" using ring by (simp add: wf_list_def)
  moreover have "wf_vcpus t" using vs assms(2,7,10,11) by (auto simp: wf_vcpus_def)
  ultimately show ?thesis by (auto simp: wf_def)
qed

lemma create_vm_wf:
  assumes "wf e s" "fresh e s" "nvc_create_vm_ex e pid props s = Some (st, a, t)"
  shows "wf e t"
proof -
  obtain st1 b s1 where c: "props = 0 \<longrightarrow> nvc_svmc_create_vm e s = Some (st1, b, s1)"
    using assms(3) by (auto simp: nvc_create_vm_ex_def split: if_splits option.splits)
  have memory: "wf e (s\<lparr>memory := h\<rparr>) = wf e s" for h
    by (simp add: wf_def wf_list_def wf_vcpus_def real_asids_def asid_at_def [abs_def])
  show ?thesis
  proof (cases "props = 0 \<and> st1 = noir_success")
    case False
    then have "t = s \<or> (\<exists>h. t = s\<lparr>memory := h\<rparr>)"
      using assms(3) c svmc_create_vm_effect [of e s st1 b s1] by (auto simp: nvc_create_vm_ex_def split: if_splits)
    then show ?thesis using assms(1) memory by auto
  next
    case True
    then have create: "nvc_svmc_create_vm e s = Some (noir_success, b, s1)" using c by simp
    then obtain m h i u where b: "b \<noteq> 0" "b \<in> set (answers (memory s))" "nvc_svmc_alloc_asid (tags s) = (i, u)" "vm_asid m = i"
        "vm_list_lock m = 0" "vm_vcpus m \<noteq> 0" "vm_vcpu m = (\<lambda>_. 0)" "vm_vcpu_count m = 0"
        "s1 = s\<lparr>memory := h, heap := set_next b 0 (set_prev b 0 (heap s)), vms := (vms s)(b \<mapsto> m), tags := u\<rparr>"
      using svmc_create_vm_effect [of e s noir_success b s1] by auto
    have new: "b \<notin> dom (vms s)" "b \<noteq> cs_idle e" using assms(2) b(2) by (auto simp: fresh_def)
    obtain lock h1 where lock: "noir_alloc_nonpg_memory (memory s1) = (lock, h1)" by (metis prod.exhaust)
    obtain page h2 where page: "noir_alloc_nonpg_memory h1 = (page, h2)" by (metis prod.exhaust)
    let ?m1 = "m\<lparr>vm_list_lock := lock\<rparr>"
    let ?s3 = "\<lambda>m2. s1\<lparr>memory := h2, heap := noir_insert_to_prev (cs_idle e) b (heap s1), vms := (vms s1)(b \<mapsto> m2)\<rparr>"
    note run = assms(3) [unfolded nvc_create_vm_ex_def conjunct1 [OF True] create lock prod.case option.case Let_def]
    have "lock \<noteq> 0"
    proof
      assume "lock = 0"
      then show False
        using run True b(9) by (simp add: nvc_release_vm_def set_next_def set_prev_def)
    qed
    have at: "the (vms s1 b) = m" using b(9) by simp
    note inserted = wf_insert [OF assms(1) b(1) new b(3)]
    show ?thesis
    proof (cases "page = 0")
      case False
      let ?m = "m\<lparr>vm_list_lock := lock, vm_lockers := [page], vm_properties := 0, vm_pid := pid, vm_ref_count := 1\<rparr>"
      have t: "heap t = noir_insert_to_prev (cs_idle e) b (heap s1)" "vms t = (vms s1)(b \<mapsto> ?m)" "tags t = tags s1" "vcpus t = vcpus s1"
        using run True page \<open>lock \<noteq> 0\<close> False by (auto simp: at)
      show ?thesis
        by (rule inserted [of t ?m]) (use t b(4-9) \<open>lock \<noteq> 0\<close> in \<open>auto intro: vm_ok_empty\<close>)
    next
      case page0: True
      let ?m = "m\<lparr>vm_list_lock := lock, vm_lockers := []\<rparr>"
      let ?s3 = "s1\<lparr>memory := h2, heap := noir_insert_to_prev (cs_idle e) b (heap s1), vms := (vms s1)(b \<mapsto> ?m)\<rparr>"
      have release: "\<exists>st3. nvc_release_vm e b ?s3 = Some (st3, t)"
        using run True page \<open>lock \<noteq> 0\<close> page0 by (auto simp: at)
      have "wf e ?s3"
        by (rule inserted [of ?s3 ?m]) (use b(4-9) \<open>lock \<noteq> 0\<close> in \<open>auto intro: vm_ok_empty\<close>)
      then show ?thesis using release release_vm_wf by blast
    qed
  qed
qed

section \<open>Creating a processor\<close>

text \<open>Only the tables of AVIC of the machine change while a processor is built.\<close>

definition core :: "noir_svm_custom_vm \<Rightarrow> noir_svm_custom_vm" where
  "core m = m\<lparr>vm_physical_id := (\<lambda>_. 0), vm_logical_id := (\<lambda>_. 0)\<rparr>"

definition preparing :: "cvm_module \<Rightarrow> vcpu_life \<times> cvm_module \<Rightarrow> bool" where
  "preparing s0 x \<longleftrightarrow> (case x of (v, s) \<Rightarrow> vl_vm v = 0 \<and> vcpus s = vcpus s0 \<and> heap s = heap s0 \<and> tags s = tags s0 \<and>
     (\<forall>a. map_option core (vms s a) = map_option core (vms s0 a)))"

definition calm :: "cvm_module \<Rightarrow> vcpu_life construction \<Rightarrow> bool" where
  "calm s0 f \<longleftrightarrow> (\<forall>x y. preparing s0 x \<longrightarrow> f x = Inl y \<or> f x = Inr y \<longrightarrow> preparing s0 y)"

lemma calm_alloc: "(\<And>a v. vl_vm (put a v) = vl_vm v) \<Longrightarrow> calm s0 (alloc_step al put)"
  by (auto simp: calm_def preparing_def steps split: prod.splits if_splits)

lemma calm_check: "calm s0 (check_step p)"
  by (auto simp: calm_def preparing_def check_step_def split: prod.splits if_splits)

lemma avic_core: "map_option core (vms (snd (avic_step e vm i (v, s))) a) = map_option core (vms s a)"
  by (cases "vms s a") (auto simp: avic_step_def Let_def core_def)

lemma calm_avic: "calm s0 (plain_step (avic_step e vm i))"
proof -
  have "preparing s0 (avic_step e vm i (v, s))" if "preparing s0 (v, s)" for v s
    using that avic_core [of e vm i v s] by (simp add: preparing_def avic_step_def)
  then show ?thesis by (auto simp: calm_def plain_step_def)
qed

lemma vcpu_preparing:
  assumes "run_steps (vcpu_build e vm i) (zero_vcpu, s) = Inl y \<or> run_steps (vcpu_build e vm i) (zero_vcpu, s) = Inr y"
  shows "preparing s y"
proof (rule run_steps_inv [OF _ _ assms])
  show "preparing s (zero_vcpu, s)" by (simp add: preparing_def zero_vcpu_def)
  have "\<forall>f \<in> set (vcpu_build e vm i). calm s f"
    by (auto simp: vcpu_build_def calm_alloc calm_check calm_avic)
  then show "\<forall>f \<in> set (vcpu_build e vm i). \<forall>x y. preparing s x \<longrightarrow> f x = Inl y \<or> f x = Inr y \<longrightarrow> preparing s y"
    unfolding calm_def .
qed

lemma vm_ok_core: "core m = core n \<Longrightarrow> vm_ok vs a m = vm_ok vs a n"
proof -
  assume c: "core m = core n"
  have "vm_list_lock (core k) = vm_list_lock k" "vm_vcpus (core k) = vm_vcpus k" "vm_vcpu_count (core k) = vm_vcpu_count k"
    "vm_vcpu (core k) = vm_vcpu k" for k by (simp_all add: core_def)
  then have "vm_list_lock m = vm_list_lock n" "vm_vcpus m = vm_vcpus n" "vm_vcpu_count m = vm_vcpu_count n" "vm_vcpu m = vm_vcpu n"
    using c by metis+
  then show ?thesis by (simp add: vm_ok_def vcpu_slots_def)
qed

text \<open>The outcomes: the slot is taken, the structure itself cannot be allocated, or the processor exists.
  Every later failure ends in the null machine of the half-built processor.\<close>

lemma svmc_create_vcpu_effect:
  assumes "nvc_svmc_create_vcpu e vm i s = Some (st, out, t)" "vms s 0 = None"
  obtains (taken) "st = noir_vcpu_already_created" "t = s"
  | (null) h where "st = noir_success" "out = Some 0" "t = s\<lparr>memory := h\<rparr>"
  | (exists) p v s1 m where "st = noir_success" "out = Some p" "p \<noteq> 0" "p \<in> set (answers (memory s))" "preparing s (v, s1)"
      "t = enlist_vcpu vm i p v s1" "vms s vm = Some m" "unat i < 256" "vm_vcpu m (unat i) = 0"
proof -
  obtain m old where m: "vms s vm = Some m" "nvc_svmc_reference_vcpu m i = Some old"
    using assms(1) by (auto simp: nvc_svmc_create_vcpu_def split: option.splits)
  then have i: "unat i < 256" and old: "old = vm_vcpu m (unat i)"
    by (auto simp: nvc_svmc_reference_vcpu_def word_le_nat_alt split: if_splits)
  obtain p h where p: "noir_alloc_nonpg_memory (memory s) = (p, h)" by (metis prod.exhaust)
  note run = assms(1) [unfolded nvc_svmc_create_vcpu_def m option.case p prod.case]
  show ?thesis
  proof (cases "old = 0 \<and> p \<noteq> 0")
    case False
    then show ?thesis using run taken null by (auto split: if_splits)
  next
    case True
    have answer: "p \<in> set (answers (memory s))"
      using p True by (auto simp: noir_alloc_nonpg_memory_def next_answer_def split: list.splits)
    show ?thesis
    proof (cases "run_steps (vcpu_build e vm i) (zero_vcpu, s\<lparr>memory := h\<rparr>)")
      case (Inl y)
      obtain v s1 where y: "y = (v, s1)" by (cases y)
      have prep: "preparing (s\<lparr>memory := h\<rparr>) (v, s1)" using vcpu_preparing Inl y by blast
      then have "vms s1 0 = None" using assms(2) by (simp add: preparing_def) (metis map_option_is_None)
      then have "nvc_svmc_release_vcpu e p (s1\<lparr>vcpus := (vcpus s1)(p \<mapsto> v)\<rparr>) = None"
        using prep True by (simp add: nvc_svmc_release_vcpu_def preparing_def)
      then show ?thesis using run True Inl y by (auto split: if_splits)
    next
      case (Inr y)
      obtain v s1 where y: "y = (v, s1)" by (cases y)
      have "preparing (s\<lparr>memory := h\<rparr>) (v, s1)" using vcpu_preparing Inr y by blast
      then have "preparing s (v, s1)" by (simp add: preparing_def)
      then show ?thesis using run True Inr y answer m i old exists by (auto split: if_splits)
    qed
  qed
qed

lemma vm_ok_fresh:
  assumes "vm_ok vs a m" "vs p = None"
  shows "vm_ok (vs(p \<mapsto> v)) a m"
  using assms by (auto simp: vm_ok_def)

lemma vm_ok_add:
  assumes "vm_ok vs a m" "vs p = None" "p \<noteq> 0" "i < 256" "vm_vcpu m i = 0" "vl_vm v = a" "unat (vl_vcpu_id v) = i"
  shows "vm_ok (vs(p \<mapsto> v)) a (m\<lparr>vm_vcpu := (vm_vcpu m)(i := p), vm_vcpu_count := vm_vcpu_count m + 1\<rparr>)"
proof -
  define n where "n = m\<lparr>vm_vcpu := (vm_vcpu m)(i := p), vm_vcpu_count := vm_vcpu_count m + 1\<rparr>"
  have parts: "vm_list_lock n = vm_list_lock m" "vm_vcpus n = vm_vcpus m" "vm_vcpu n = (vm_vcpu m)(i := p)"
    "vm_vcpu_count n = vm_vcpu_count m + 1" by (simp_all add: n_def)
  have slots: "vcpu_slots n = insert i (vcpu_slots m)" using assms(3,4) by (auto simp: vcpu_slots_def parts)
  have "i \<notin> vcpu_slots m" using assms(5) by (simp add: vcpu_slots_def)
  moreover have "vm_vcpu_count m = of_nat (card (vcpu_slots m))" using assms(1) by (simp add: vm_ok_def)
  ultimately have "vm_vcpu_count n = of_nat (card (vcpu_slots n))" unfolding slots parts by simp
  moreover have "vm_vcpu m j \<noteq> p" if "j \<in> vcpu_slots m" for j using assms(1,2) that by (auto simp: vm_ok_def)
  ultimately have "vm_ok (vs(p \<mapsto> v)) a n" using assms by (auto simp: vm_ok_def slots parts(1-3))
  then show ?thesis by (simp add: n_def)
qed

lemma wf_ids: "wf_list e xs s \<Longrightarrow> heap t = heap s \<Longrightarrow> tags t = tags s \<Longrightarrow> dom (vms t) = dom (vms s) \<Longrightarrow>
    asid_at t = asid_at s \<Longrightarrow> wf_list e xs t"
  by (simp add: wf_list_def real_asids_def)

lemma svmc_create_vcpu_wf:
  assumes "wf e s" "fresh e s" "nvc_svmc_create_vcpu e vm i s = Some (st, out, t)"
  shows "wf e t"
proof -
  obtain xs where list: "wf_list e xs s" and vs: "wf_vcpus s" using assms(1) by (auto simp: wf_def)
  have zero: "vms s 0 = None" using vs by (simp add: wf_vcpus_def)
  show ?thesis
  proof (cases rule: svmc_create_vcpu_effect [OF assms(3) zero])
    case 1
    then show ?thesis using assms(1) by simp
  next
    case (2 h)
    then show ?thesis using assms(1) by (simp add: wf_def wf_list_def wf_vcpus_def real_asids_def asid_at_def [abs_def])
  next
    case (3 p v s1 m)
    have new: "vcpus s p = None" using assms(2) 3(4) by (auto simp: fresh_def)
    have prep: "vcpus s1 = vcpus s" "heap s1 = heap s" "tags s1 = tags s" "\<And>a. map_option core (vms s1 a) = map_option core (vms s a)"
      using 3(5) by (simp_all add: preparing_def)
    have "vms s1 a = None \<longleftrightarrow> vms s a = None" for a using prep(4) [of a] by (metis map_option_is_None)
    then have dom1: "dom (vms s1) = dom (vms s)" by (simp add: dom_def)
    have core1: "core k = core n" if "vms s1 a = Some k" "vms s a = Some n" for a k n using prep(4) [of a] that by simp
    have "vm \<in> dom (vms s1)" unfolding dom1 using 3(7) by (rule domI)
    then obtain m1 where m1: "vms s1 vm = Some m1" by (auto simp: dom_def)
    have "core m1 = core m" using core1 m1 3(7) by blast
    then have "vm_vcpu (core m1) = vm_vcpu (core m)" by simp
    then have free: "vm_vcpu m1 (unat i) = 0" using 3(9) by (simp add: core_def)
    have ok1: "vm_ok (vcpus s) a k" if k: "vms s1 a = Some k" for a k
    proof -
      have "a \<in> dom (vms s)" using k unfolding dom1 [symmetric] by (rule domI)
      then obtain n where n: "vms s a = Some n" by (auto simp: dom_def)
      then have "vm_ok (vcpus s) a n" using vs by (simp add: wf_vcpus_def)
      then show ?thesis using vm_ok_core [OF core1 [OF k n]] by simp
    qed
    have dom_t: "dom (vms t) = dom (vms s1)" using 3(6) m1 by (auto simp: enlist_vcpu_def Let_def)
    have "vm_ok (vcpus t) a k" if k: "vms t a = Some k" for a k
    proof (cases "a = vm")
      case True
      then have "k = m1\<lparr>vm_vcpu := (vm_vcpu m1)(unat i := p), vm_vcpu_count := vm_vcpu_count m1 + 1\<rparr>"
        using k 3(6) m1 by (simp add: enlist_vcpu_def Let_def)
      moreover have "\<exists>w. vcpus t = (vcpus s)(p \<mapsto> w) \<and> vl_vm w = vm \<and> vl_vcpu_id w = i"
        using 3(6) prep(1) by (auto simp: enlist_vcpu_def Let_def)
      ultimately show ?thesis using vm_ok_add [OF ok1 [OF m1] new 3(3,8) free] True by auto
    next
      case False
      then have "vms s1 a = Some k" using k 3(6) by (simp add: enlist_vcpu_def Let_def)
      then have "vm_ok (vcpus s) a k" by (rule ok1)
      then show ?thesis using 3(6) prep(1) new by (simp add: enlist_vcpu_def Let_def vm_ok_fresh)
    qed
    moreover have "vms t 0 = None" using zero dom1 dom_t by (metis domIff)
    moreover have "vcpus t 0 = None" using 3(3,6) prep(1) vs by (simp add: enlist_vcpu_def Let_def wf_vcpus_def)
    ultimately have "wf_vcpus t" by (simp add: wf_vcpus_def)
    moreover have "asid_at t a = asid_at s a" for a
    proof -
      have "asid_at t a = asid_at s1 a" using 3(6) m1 by (auto simp: asid_at_def enlist_vcpu_def Let_def)
      moreover have "asid_at s1 a = asid_at s a"
      proof (cases "vms s1 a")
        case None
        then show ?thesis using prep(4) [of a] by (simp add: asid_at_def)
      next
        case (Some k)
        then have "a \<in> dom (vms s)" unfolding dom1 [symmetric] by (rule domI)
        then obtain n where n: "vms s a = Some n" by (auto simp: dom_def)
        have "vm_asid (core k) = vm_asid (core n)" using core1 [OF Some n] by simp
        then show ?thesis using Some n by (simp add: asid_at_def core_def)
      qed
      ultimately show ?thesis by simp
    qed
    ultimately show ?thesis
      using wf_ids [OF list, of t] 3(6) prep(2,3) dom1 dom_t by (auto simp: wf_def enlist_vcpu_def Let_def fun_eq_iff)
  qed
qed

end
