(* ===== verification/Vm_Properties.thy ===== *)
theory Vm_Properties
  imports Vm_Create
begin

text \<open>
  The life cycle of customizable machines as a transition system, its invariant, and what becomes of
  memory when machines go or allocations fail.
\<close>

section \<open>Steps\<close>

definition with_answers :: "u64 list \<Rightarrow> cvm_module \<Rightarrow> cvm_module" where
  "with_answers al s = s\<lparr>memory := (memory s)\<lparr>answers := al\<rparr>\<rparr>"

text \<open>The user hypervisor creates and releases machines and processors in any order, on processors that
  exist; each step has its own answers of the allocator.\<close>

inductive cvm_step :: "cvm_services \<Rightarrow> cvm_module \<Rightarrow> cvm_module \<Rightarrow> bool" for e where
  create_vm: "fresh e (with_answers al s) \<Longrightarrow> nvc_create_vm_ex e pid props (with_answers al s) = Some (st, a, t) \<Longrightarrow> cvm_step e s t"
| release_vm: "nvc_release_vm e a s = Some (st, t) \<Longrightarrow> cvm_step e s t"
| ref_vm: "nvc_ref_vm a s = Some (st, t) \<Longrightarrow> cvm_step e s t"
| deref_vm: "nvc_deref_vm e a s = Some (st, t) \<Longrightarrow> cvm_step e s t"
| create_vcpu: "fresh e (with_answers al s) \<Longrightarrow> nvc_create_vcpu e vm i (with_answers al s) = Some (st, out, t) \<Longrightarrow> cvm_step e s t"
| release_vcpu: "listed s p \<Longrightarrow> nvc_release_vcpu e p s = Some (st, t) \<Longrightarrow> cvm_step e s t"
| ref_vcpu: "nvc_ref_vcpu p s = Some (st, t) \<Longrightarrow> cvm_step e s t"
| deref_vcpu: "listed s p \<Longrightarrow> nvc_deref_vcpu e p s = Some (st, t) \<Longrightarrow> cvm_step e s t"

text \<open>The module as \<open>nvc_svmc_initialize_cvm_module\<close> and the start of the core leave it.\<close>

definition initial :: "cvm_services \<Rightarrow> bool \<Rightarrow> u32 \<Rightarrow> host_memory \<Rightarrow> list_heap \<Rightarrow> cvm_module" where
  "initial e nested asid_limit h l =
     \<lparr>memory = h, tags = init_tlb_tagging nested asid_limit, heap = noir_initialize_list_entry (cs_idle e) l,
      vms = Map.empty, vcpus = Map.empty\<rparr>"

section \<open>The invariant\<close>

lemma wf_initial: "asid_valid (init_tlb_tagging nested asid_limit) \<Longrightarrow> wf e (initial e nested asid_limit h l)"
proof -
  have "asid_taken (init_tlb_tagging nested asid_limit) = {}"
    by (simp add: asid_taken_def init_tlb_tagging_def bitmap_bit_def Let_def)
  moreover assume "asid_valid (init_tlb_tagging nested asid_limit)"
  ultimately have "asids.used [] (init_tlb_tagging nested asid_limit)" by (simp add: used_set)
  then have "wf_list e [] (initial e nested asid_limit h l)"
    by (simp add: wf_list_def initial_def ring_initialize real_asids_def)
  then show ?thesis by (auto simp: wf_def wf_vcpus_def initial_def)
qed

lemma wf_memory: "wf e (s\<lparr>memory := h\<rparr>) = wf e s"
  by (simp add: wf_def wf_list_def wf_vcpus_def real_asids_def asid_at_def [abs_def])

text \<open>Counts and registers of a processor or a machine do not matter.\<close>

lemma wf_vcpu_fields:
  assumes "wf e s" "vcpus s p = Some v" "vl_vm w = vl_vm v" "vl_vcpu_id w = vl_vcpu_id v"
  shows "wf e (s\<lparr>vcpus := (vcpus s)(p \<mapsto> w)\<rparr>)"
proof -
  have "vm_ok ((vcpus s)(p \<mapsto> w)) a m" if "vm_ok (vcpus s) a m" for a m
    using that assms(2-4) by (auto simp: vm_ok_def)
  moreover have "p \<noteq> 0" using assms(1,2) by (auto simp: wf_def wf_vcpus_def)
  ultimately have "wf_vcpus (s\<lparr>vcpus := (vcpus s)(p \<mapsto> w)\<rparr>)" using assms(1) by (simp add: wf_def wf_vcpus_def)
  moreover have "wf_list e xs (s\<lparr>vcpus := (vcpus s)(p \<mapsto> w)\<rparr>) = wf_list e xs s" for xs
    by (simp add: wf_list_def real_asids_def asid_at_def [abs_def])
  ultimately show ?thesis using assms(1) by (auto simp: wf_def)
qed

lemma wf_vm_count:
  assumes "wf e s" "vms s a = Some m"
  shows "wf e (s\<lparr>vms := (vms s)(a \<mapsto> m\<lparr>vm_ref_count := n\<rparr>)\<rparr>)"
proof -
  let ?t = "s\<lparr>vms := (vms s)(a \<mapsto> m\<lparr>vm_ref_count := n\<rparr>)\<rparr>"
  have at: "asid_at ?t = asid_at s" using assms(2) by (auto simp: asid_at_def fun_eq_iff)
  have "vm_ok (vcpus s) a (m\<lparr>vm_ref_count := n\<rparr>) = vm_ok (vcpus s) a m" by (simp add: vm_ok_def vcpu_slots_def)
  then have "wf_vcpus ?t" using assms by (auto simp: wf_def wf_vcpus_def)
  moreover have "wf_list e xs ?t" if "wf_list e xs s" for xs
    by (rule wf_ids [OF that]) (use at assms(2) in \<open>auto simp: dom_def\<close>)
  ultimately show ?thesis using assms(1) by (auto simp: wf_def)
qed

lemma release_vcpu_wf:
  assumes "wf e s" "listed s p" "nvc_svmc_release_vcpu e p s = Some t"
  shows "wf e t"
proof -
  obtain a m i where l: "vms s a = Some m" "i \<in> vcpu_slots m" "vm_vcpu m i = p" using assms(2) by (auto simp: listed_def)
  have vs: "wf_vcpus s" using assms(1) by (simp add: wf_def)
  have run: "nvc_svmc_release_vcpu e (vm_vcpu m i) s = Some t" using assms(3) l(3) by simp
  note r = release_vcpu_listed [OF vs l(1,2) run]
  then obtain h where "t = s\<lparr>memory := h, vms := (vms s)(a \<mapsto> forget_vcpu e i m), vcpus := (vcpus s)(vm_vcpu m i := None)\<rparr>" by blast
  then have "same_list s t" using same_list_forget [OF l(1)] by simp
  then have "\<exists>xs. wf_list e xs t" using assms(1) wf_list_same by (auto simp: wf_def)
  then show ?thesis using r(2) by (simp add: wf_def)
qed

lemma wf_step: "cvm_step e s t \<Longrightarrow> wf e s \<Longrightarrow> wf e t"
proof (induction rule: cvm_step.induct)
  case (create_vm al s pid props st a t)
  then show ?case using create_vm_wf [of e "with_answers al s"] by (simp add: with_answers_def wf_memory)
next
  case (release_vm a s st t)
  then show ?case using release_vm_wf by blast
next
  case (ref_vm a s st t)
  then show ?case using wf_vm_count by (auto simp: nvc_ref_vm_def)
next
  case (deref_vm a s st t)
  then obtain m where m: "vms s a = Some m" by (auto simp: nvc_deref_vm_def split: option.splits)
  have "wf e (s\<lparr>vms := (vms s)(a \<mapsto> m\<lparr>vm_ref_count := vm_ref_count m - 1\<rparr>)\<rparr>)" using deref_vm(2) m by (rule wf_vm_count)
  then show ?case using deref_vm(1) m release_vm_wf by (auto simp: nvc_deref_vm_def Let_def split: if_splits)
next
  case (create_vcpu al s vm i st out t)
  obtain st1 out1 s1 where c: "nvc_svmc_create_vcpu e vm i (with_answers al s) = Some (st1, out1, s1)"
    using create_vcpu(2) by (auto simp: nvc_create_vcpu_def split: option.splits)
  then have w: "wf e s1"
    using svmc_create_vcpu_wf [OF _ create_vcpu(1) c] create_vcpu(3) by (simp add: with_answers_def wf_memory)
  show ?case
  proof (cases "st1 = noir_success")
    case True
    then obtain p v where p: "out1 = Some p" "vcpus s1 p = Some v"
      using create_vcpu(2) c by (auto simp: nvc_create_vcpu_def bind_eq_Some_conv split: option.splits)
    then have "t = s1\<lparr>vcpus := (vcpus s1)(p \<mapsto> v\<lparr>vl_ref_count := 1, vl_xcr0 := 1, vl_mtrr_def_type := 6\<rparr>)\<rparr>"
      using create_vcpu(2) c True by (simp add: nvc_create_vcpu_def)
    then show ?thesis using wf_vcpu_fields [OF w p(2)] by simp
  next
    case False
    then show ?thesis using create_vcpu(2) c w by (simp add: nvc_create_vcpu_def)
  qed
next
  case (release_vcpu s p st t)
  then show ?case using release_vcpu_wf by (auto simp: nvc_release_vcpu_def)
next
  case (ref_vcpu p s st t)
  then show ?case using wf_vcpu_fields by (auto simp: nvc_ref_vcpu_def)
next
  case (deref_vcpu s p st t)
  then obtain v where v: "vcpus s p = Some v" by (auto simp: nvc_deref_vcpu_def split: option.splits)
  let ?s = "s\<lparr>vcpus := (vcpus s)(p \<mapsto> v\<lparr>vl_ref_count := vl_ref_count v - 1\<rparr>)\<rparr>"
  have "wf e ?s" "listed ?s p" using wf_vcpu_fields [OF deref_vcpu(3) v] deref_vcpu(1) by (auto simp: listed_def)
  then show ?case using deref_vcpu(2) v release_vcpu_wf [of e ?s p]
    by (auto simp: nvc_deref_vcpu_def nvc_release_vcpu_def Let_def split: if_splits)
qed

lemma wf_run: "(cvm_step e)\<^sup>*\<^sup>* s t \<Longrightarrow> wf e s \<Longrightarrow> wf e t"
  by (induction rule: rtranclp_induct) (auto intro: wf_step)

section \<open>The list of machines\<close>

lemma walk_links:
  assumes "links (heap s) (ys @ [cs_idle e])" "cs_idle e \<notin> set ys" "set ys \<subseteq> dom (vms s)"
  shows "walk_vms (length ys) e s (hd (ys @ [cs_idle e])) = Some (map (\<lambda>a. (a, asid_at s a)) ys)"
  using assms
proof (induction ys)
  case Nil
  then show ?case by (simp add: walk_vms.simps)
next
  case (Cons a ys)
  obtain m where m: "vms s a = Some m" using Cons.prems(3) by auto
  have "a \<noteq> cs_idle e" using Cons.prems(2) by auto
  moreover have "le_next (heap s) a = hd (ys @ [cs_idle e])" using Cons.prems(1) by (cases ys) (auto simp: linked_def)
  moreover have "links (heap s) (ys @ [cs_idle e])" using Cons.prems(1) by (cases ys) auto
  ultimately show ?case
    using Cons.IH Cons.prems(2,3) m by (subst walk_vms.simps) (simp add: nvc_get_vm_asid_def asid_at_def)
qed

lemma print_list:
  assumes "wf_list e xs s"
  shows "nvc_print_vm_list (length xs) e s = Some (map (\<lambda>a. (a, asid_at s a)) xs)"
proof -
  have r: "ring (heap s) (cs_idle e) xs" and "set xs = dom (vms s)" using assms by (auto simp: wf_list_def)
  moreover have "le_next (heap s) (cs_idle e) = hd (xs @ [cs_idle e])" "links (heap s) (xs @ [cs_idle e])"
    using r by (cases xs; auto simp: ring_def linked_def)+
  ultimately show ?thesis using walk_links [of s xs e] by (simp add: nvc_print_vm_list_def ring_def)
qed

text \<open>C4: whatever the user hypervisor creates and releases, the list of machines can be walked and holds
  every machine once, and the identifiers in use are those of the machines: no two machines share one, and
  none is lost. Only machines that were created after the pool ran dry have the failure value.\<close>

theorem machines_and_identifiers:
  assumes "asid_valid (init_tlb_tagging nested asid_limit)" "(cvm_step e)\<^sup>*\<^sup>* (initial e nested asid_limit h l) s"
  shows "\<exists>xs. nvc_print_vm_list (length xs) e s = Some (map (\<lambda>a. (a, vm_asid (the (vms s a)))) xs) \<and>
    distinct xs \<and> set xs = dom (vms s) \<and>
    distinct (filter (\<lambda>i. i \<noteq> 0xffffffff) (map (\<lambda>a. vm_asid (the (vms s a))) xs)) \<and>
    set (filter (\<lambda>i. i \<noteq> 0xffffffff) (map (\<lambda>a. vm_asid (the (vms s a))) xs)) = asid_taken (tags s) \<inter> asid_ids (tags s)"
proof -
  obtain xs where xs: "wf_list e xs s" using wf_run [OF assms(2) wf_initial [OF assms(1)]] by (auto simp: wf_def)
  then have "distinct xs" "set xs = dom (vms s)" by (simp_all add: wf_list_def ring_def)
  moreover have "asids.used (real_asids s xs) (tags s)" using xs by (simp add: wf_list_def)
  ultimately show ?thesis
    using print_list [OF xs] by (intro exI [of _ xs]) (simp add: used_set real_asids_def asid_at_def [abs_def])
qed

text \<open>Every machine counts its processors, and every processor of its list belongs to the machine under
  the number of its slot.\<close>

theorem processors_counted:
  assumes "asid_valid (init_tlb_tagging nested asid_limit)" "(cvm_step e)\<^sup>*\<^sup>* (initial e nested asid_limit h l) s" "vms s a = Some m"
  shows "vm_vcpu_count m = of_nat (card {i. i < 256 \<and> vm_vcpu m i \<noteq> 0}) \<and>
    (\<forall>i < 256. vm_vcpu m i \<noteq> 0 \<longrightarrow>
       (\<exists>v. vcpus s (vm_vcpu m i) = Some v \<and> vl_vm v = a \<and> unat (vl_vcpu_id v) = i))"
proof -
  have "wf_vcpus s" using wf_run [OF assms(2) wf_initial [OF assms(1)]] by (simp add: wf_def)
  then have "vm_ok (vcpus s) a m" using assms(3) by (simp add: wf_vcpus_def)
  then show ?thesis by (auto simp: vm_ok_def vcpu_slots_def)
qed


section \<open>Releasing a machine returns\<close>

lemma release_vcpu_returns:
  assumes "wf_vcpus s" "vms s a = Some m" "i \<in> vcpu_slots m"
  shows "\<exists>t. nvc_svmc_release_vcpu e (vm_vcpu m i) s = Some t"
proof -
  have "vm_ok (vcpus s) a m" using assms(1,2) by (simp add: wf_vcpus_def)
  then obtain v where "vcpus s (vm_vcpu m i) = Some v" "vl_vm v = a" "vm_list_lock m \<noteq> 0" "vm_vcpus m \<noteq> 0"
    using assms(3) by (auto simp: vm_ok_def)
  moreover have "vm_vcpu m i \<noteq> 0" using assms(3) by (simp add: vcpu_slots_def)
  ultimately show ?thesis using assms(2) by (simp add: nvc_svmc_release_vcpu_def Let_def)
qed

definition processors_of :: "noir_svm_custom_vm \<Rightarrow> nat \<Rightarrow> u64 set" where
  "processors_of m n = vm_vcpu m ` {i \<in> vcpu_slots m. i < n}"

lemma release_vcpus_returns:
  assumes "wf_vcpus s" "vms s a = Some m" "n \<le> 256"
  shows "\<exists>t. release_vcpus e a n s = Some t \<and> vcpus t = (\<lambda>p. if p \<in> processors_of m n then None else vcpus s p)"
  using assms(3)
proof (induction n)
  case 0
  then show ?case by (simp add: processors_of_def)
next
  case (Suc n)
  then obtain t where t: "release_vcpus e a n s = Some t" "vcpus t = (\<lambda>p. if p \<in> processors_of m n then None else vcpus s p)" by auto
  have "n \<le> 256" using Suc.prems by simp
  then obtain m' where r: "wf_vcpus t" "vms t a = Some m'" "vm_vcpu m' = (\<lambda>i. if i < n then 0 else vm_vcpu m i)"
    using release_vcpus_effect [OF assms(1) t(1) _ assms(2)] by blast
  show ?case
  proof (cases "n \<in> vcpu_slots m")
    case True
    then have n: "n \<in> vcpu_slots m'" "vm_vcpu m' n = vm_vcpu m n" using r(3) by (simp_all add: vcpu_slots_def)
    obtain u where u: "nvc_svmc_release_vcpu e (vm_vcpu m' n) t = Some u" using release_vcpu_returns [OF r(1,2) n(1)] by blast
    have "vcpus u = (vcpus t)(vm_vcpu m' n := None)" using release_vcpu_listed(1) [OF r(1,2) n(1) u] by auto
    moreover have "processors_of m (Suc n) = insert (vm_vcpu m n) (processors_of m n)"
      using True by (auto simp: processors_of_def less_Suc_eq)
    ultimately show ?thesis using t r(2) u n(2) by (auto simp: fun_eq_iff)
  next
    case False
    then have "vm_vcpu m' n = 0" using r(3) Suc.prems by (simp add: vcpu_slots_def)
    moreover have "processors_of m (Suc n) = processors_of m n" using False by (auto simp: processors_of_def less_Suc_eq)
    ultimately show ?thesis using t r(2) by (simp add: nvc_svmc_release_vcpu_def)
  qed
qed

lemma ring_neighbours:
  assumes "ring h root xs" "a \<in> set xs"
  shows "le_next h a \<in> set (root # xs)" "le_prev h a \<in> set (root # xs)"
proof -
  obtain ys zs where xs: "xs = ys @ a # zs" using assms(2) split_list by fastforce
  have r: "ring h root (ys @ (a # zs))" "ring h root ((ys @ [a]) @ zs)" using assms(1) xs by simp_all
  obtain p i where "p = last (root # ys)" "i = hd ((a # zs) @ [root])" "linked h p i" by (rule ring_place [OF r(1)])
  then have "p = last (root # ys)" "linked h p a" by simp_all
  moreover have "last (root # ys) \<in> set (root # ys)" by (rule last_in_set) simp
  ultimately show "le_prev h a \<in> set (root # xs)" by (simp add: linked_def xs)
  obtain q i where "q = last (root # ys @ [a])" "i = hd (zs @ [root])" "linked h q i" by (rule ring_place [OF r(2)])
  then have "i = hd (zs @ [root])" "linked h a i" by simp_all
  moreover have "hd (zs @ [root]) \<in> set (zs @ [root])" by (rule hd_in_set) simp
  ultimately show "le_next h a \<in> set (root # xs)" by (auto simp: linked_def xs)
qed

lemma vm_linked:
  assumes "wf e s" "vms s a = Some m" "cs_idle e \<noteq> 0"
  shows "le_prev (heap s) a \<noteq> 0" "le_next (heap s) a \<noteq> 0"
proof -
  obtain xs where xs: "ring (heap s) (cs_idle e) xs" "set xs = dom (vms s)" and vs: "wf_vcpus s"
    using assms(1) by (auto simp: wf_def wf_list_def)
  have a: "a \<in> set xs" and zero: "0 \<notin> set (cs_idle e # xs)" using xs(2) vs assms(2,3) by (auto simp: wf_vcpus_def)
  then show "le_prev (heap s) a \<noteq> 0" "le_next (heap s) a \<noteq> 0" using ring_neighbours [OF xs(1) a] by metis+
qed


section \<open>Creating a processor\<close>

text \<open>Creating a processor either finds its slot taken, and changes nothing, or hands out a new processor
  that belongs to the machine and starts with one reference. A failed allocation is never reported: the
  failure of the first is success with a null processor, which the caller writes to, and every later one
  releases a processor that has no machine yet.\<close>

theorem processor_or_crash:
  assumes "asid_valid (init_tlb_tagging nested asid_limit)" "(cvm_step e)\<^sup>*\<^sup>* (initial e nested asid_limit h l) s"
    "nvc_create_vcpu e a i (with_answers al s) = Some (st, out, t)"
  shows "st = noir_vcpu_already_created \<and> out = None \<and> t = with_answers al s \<or>
    (\<exists>p v m. st = noir_success \<and> out = Some p \<and> p \<noteq> 0 \<and> p \<in> set al \<and> vcpus t p = Some v \<and> vl_vm v = a \<and> vl_vcpu_id v = i \<and>
       vl_ref_count v = 1 \<and> vms t a = Some m \<and> vm_vcpu m (unat i) = p)"
proof -
  let ?s = "with_answers al s"
  have "wf_vcpus s" using wf_run [OF assms(2) wf_initial [OF assms(1)]] by (simp add: wf_def)
  then have zero: "vms ?s 0 = None" "vcpus ?s 0 = None" by (simp_all add: wf_vcpus_def with_answers_def)
  obtain st1 out1 s1 where c: "nvc_svmc_create_vcpu e a i ?s = Some (st1, out1, s1)"
    using assms(3) by (auto simp: nvc_create_vcpu_def split: option.splits)
  note run = assms(3) [unfolded nvc_create_vcpu_def c option.case prod.case]
  show ?thesis
  proof (cases rule: svmc_create_vcpu_effect [OF c zero(1)])
    case 1
    have "out1 = None" using c 1 by (auto simp: nvc_svmc_create_vcpu_def Let_def noir_alloc_nonpg_memory_def split: option.splits if_splits prod.splits sum.splits)
    then show ?thesis using run 1 by simp
  next
    case (2 h)
    then show ?thesis using run zero(2) by simp
  next
    case (3 p v s2 m)
    have "vms s2 a \<noteq> None" using 3(5,7) by (auto simp: preparing_def dest!: spec [of _ a])
    then show ?thesis using run 3(1-4,6) by (auto simp: enlist_vcpu_def Let_def with_answers_def)
  qed
qed

section \<open>A machine with a processor\<close>

definition small_services :: cvm_services where
  "small_services = \<lparr>cs_nsv = False, cs_avic = False, cs_idle = 0x100, cs_phys = (\<lambda>a. a), cs_xsave_pages = 1,
     cs_reassign = (\<lambda>_. True)\<rparr>"

definition no_machine :: cvm_module where
  "no_machine = initial small_services False 64 \<lparr>answers = [], pool = {}, contd = {}\<rparr> \<lparr>le_next = (\<lambda>_. 0), le_prev = (\<lambda>_. 0)\<rparr>"

definition one_machine :: cvm_module where
  "one_machine = snd (snd (the (nvc_create_vm_ex small_services 7 0
     (with_answers [0x1000, 0x2000, 0x3000, 0x6000, 0x8000, 0xB000, 0xC000, 0xD000] no_machine))))"

definition one_processor :: cvm_module where
  "one_processor = snd (snd (the (nvc_create_vcpu small_services 0x1000 255 (with_answers [0x20000, 0x21000, 0x22000] one_machine))))"

lemmas life_defs = nvc_create_vm_ex_def nvc_svmc_create_vm_def noir_alloc_nonpg_memory_def noir_alloc_contd_memory_def
  next_answer_def vm_build_def vm_build_maps_def alloc_step_def unchecked_step_def check_step_def plain_step_def asid_step_def
  with_answers_def small_services_def

lemma no_machine_asid: "nvc_svmc_alloc_asid (tags no_machine) = (2, (tags no_machine)\<lparr>asid_pool := snd (noir_set_bitmap (\<lambda>_. 0) 0 0)\<rparr>)"
proof -
  have "claim_bit 0 62 (\<lambda>_. 0) = (if 0 < words_bits 62 then (of_nat 0, snd (noir_set_bitmap (\<lambda>_. 0) 0 (of_nat 0))) else (0xffffffff, \<lambda>_. 0))"
    by (rule claim_next) (simp_all add: bitmap_bit_def Let_def)
  then show ?thesis
    by (simp add: nvc_svmc_alloc_asid_def no_machine_def initial_def init_tlb_tagging_def words_bits_def)
qed

lemma one_machine: "nvc_create_vm_ex small_services 7 0
     (with_answers [0x1000, 0x2000, 0x3000, 0x6000, 0x8000, 0xB000, 0xC000, 0xD000] no_machine) = Some (noir_success, 0x1000, one_machine)"
  by (simp add: one_machine_def life_defs no_machine_asid Let_def)


lemma no_machine_maps: "vms no_machine = Map.empty" "vcpus no_machine = Map.empty"
  by (simp_all add: no_machine_def initial_def)

lemma one_machine_vm: "vms one_machine = [0x1000 \<mapsto> zero_vm\<lparr>vm_pid := 7, vm_ref_count := 1, vm_lockers := [0xD000], vm_list_lock := 0xC000,
     vm_vcpus := 0xB000, vm_asid := 2, vm_iopm := 0x3000, vm_msrpm := 0x6000, vm_msrpm_full := 0x8000, vm_ncr3 := 0x2000\<rparr>]"
  "vcpus one_machine = Map.empty"
  by (simp_all add: one_machine_def life_defs no_machine_asid Let_def zero_vm_def no_machine_maps)

lemma one_processor: "nvc_create_vcpu small_services 0x1000 255 (with_answers [0x20000, 0x21000, 0x22000] one_machine) =
    Some (noir_success, Some 0x20000, one_processor)"
  by (simp add: one_processor_def nvc_create_vcpu_def nvc_svmc_create_vcpu_def nvc_svmc_reference_vcpu_def vcpu_build_def life_defs
    one_machine_vm zero_vm_def Let_def enlist_vcpu_def)

lemma one_processor_vm:
  "\<exists>m. vms one_processor 0x1000 = Some m \<and> vm_vcpu m 255 = 0x20000 \<and> vm_vcpu_count m = 1"
  by (simp add: one_processor_def nvc_create_vcpu_def nvc_svmc_create_vcpu_def nvc_svmc_reference_vcpu_def vcpu_build_def life_defs
    one_machine_vm zero_vm_def Let_def enlist_vcpu_def)

lemma start_valid: "asid_valid (init_tlb_tagging False 64)"
  by (simp add: asid_valid_def init_tlb_tagging_def)

lemma one_machine_run: "(cvm_step small_services)\<^sup>*\<^sup>* no_machine one_machine"
proof -
  have "fresh small_services (with_answers [0x1000, 0x2000, 0x3000, 0x6000, 0x8000, 0xB000, 0xC000, 0xD000] no_machine)"
    by (simp add: fresh_def with_answers_def no_machine_def initial_def small_services_def)
  from cvm_step.create_vm [OF this one_machine] show ?thesis by blast
qed

lemma one_processor_run: "(cvm_step small_services)\<^sup>*\<^sup>* no_machine one_processor"
proof -
  have "fresh small_services (with_answers [0x20000, 0x21000, 0x22000] one_machine)"
    by (simp add: fresh_def with_answers_def one_machine_vm small_services_def)
  from cvm_step.create_vcpu [OF this one_processor] one_machine_run show ?thesis by simp
qed

theorem machines_and_identifiers_witness:
  "\<exists>xs. nvc_print_vm_list (length xs) small_services one_machine = Some (map (\<lambda>a. (a, vm_asid (the (vms one_machine a)))) xs) \<and>
    set xs = {0x1000}"
  using machines_and_identifiers [OF start_valid one_machine_run [unfolded no_machine_def]] by (auto simp: one_machine_vm)

theorem processors_counted_witness:
  "\<exists>m v. vms one_processor 0x1000 = Some m \<and> (of_nat (card {i. i < 256 \<and> vm_vcpu m i \<noteq> 0}) :: u32) = 1 \<and>
    vcpus one_processor 0x20000 = Some v \<and> vl_vm v = 0x1000 \<and> unat (vl_vcpu_id v) = 255"
proof -
  obtain m where m: "vms one_processor 0x1000 = Some m" "vm_vcpu m 255 = 0x20000" "vm_vcpu_count m = 1" using one_processor_vm by auto
  note c = processors_counted [OF start_valid one_processor_run [unfolded no_machine_def] m(1)]
  have "(of_nat (card {i. i < 256 \<and> vm_vcpu m i \<noteq> 0}) :: u32) = 1" using c m(3) by simp
  moreover have "\<exists>v. vcpus one_processor (vm_vcpu m 255) = Some v \<and> vl_vm v = 0x1000 \<and> unat (vl_vcpu_id v) = 255"
    using conjunct2 [OF c, rule_format, of 255] m(2) by simp
  ultimately show ?thesis using m by simp
qed


text \<open>The witness also shows the crash when the structure cannot be allocated.\<close>

theorem processor_or_crash_witness:
  "nvc_create_vcpu small_services 0x1000 255 (with_answers [] one_machine) = None \<and>
   (\<exists>p v. p \<in> {0x20000, 0x21000, 0x22000} \<and> vcpus one_processor p = Some v \<and> vl_ref_count v = 1)"
proof -
  from processor_or_crash [OF start_valid one_machine_run [unfolded no_machine_def] one_processor]
  have "\<exists>p v. p \<in> {0x20000, 0x21000, 0x22000} \<and> vcpus one_processor p = Some v \<and> vl_ref_count v = 1"
    by (auto simp: noir_vcpu_already_created_def noir_success_def)
  moreover have "nvc_create_vcpu small_services 0x1000 255 (with_answers [] one_machine) = None"
    by (simp add: nvc_create_vcpu_def nvc_svmc_create_vcpu_def nvc_svmc_reference_vcpu_def life_defs one_machine_vm zero_vm_def)
  ultimately show ?thesis by blast
qed

end
