(* ===== verification/Vm_Memory.thy ===== *)
theory Vm_Memory
  imports Vm_Properties "HOL-Library.Multiset"
begin

text \<open>
  What the creation of a machine allocates and its release frees.
\<close>

section \<open>Memory of a machine\<close>

text \<open>Blocks of contiguous memory, and what a construction has taken since a state.\<close>

definition blocks :: "(u64 \<times> nat) list \<Rightarrow> (u64 \<times> nat) set" where
  "blocks ps = (\<Union>(a, n) \<in> set ps. if a = 0 then {} else {a} \<times> {0 ..< n})"

definition taken_since :: "cvm_module \<Rightarrow> (u64 \<times> nat) list \<Rightarrow> u64 list \<Rightarrow> cvm_module \<Rightarrow> bool" where
  "taken_since s ps qs t \<longleftrightarrow> contd (memory t) = contd (memory s) \<union> blocks ps \<and> pool (memory t) = pool (memory s) \<union> (set qs - {0}) \<and>
     (\<exists>pre. answers (memory s) = pre @ answers (memory t) \<and>
       mset (filter (\<lambda>a. a \<noteq> 0) pre) = mset (filter (\<lambda>a. a \<noteq> 0) (qs @ map fst ps)))"

lemma blocks_add [simp]: "blocks (ps @ [(a, n)]) = blocks ps \<union> (if a = 0 then {} else {a} \<times> {0 ..< n})"
  by (auto simp: blocks_def)

lemma taken_nothing: "memory t = memory s \<Longrightarrow> taken_since s [] [] t"
  by (auto simp: taken_since_def blocks_def)

lemma taken_contd:
  assumes "noir_alloc_contd_memory n (memory t) = (a, k)" "taken_since s ps qs t" "memory u = k"
  shows "taken_since s (ps @ [(a, n)]) qs u"
proof -
  obtain pre where pre: "answers (memory s) = pre @ answers (memory t)"
      "mset (filter (\<lambda>a. a \<noteq> 0) pre) = mset (filter (\<lambda>a. a \<noteq> 0) (qs @ map fst ps))"
    using assms(2) by (auto simp: taken_since_def)
  have "\<exists>new. answers (memory t) = new @ answers k \<and> filter (\<lambda>a. a \<noteq> 0) new = (if a = 0 then [] else [a])"
    using assms(1) by (cases "answers (memory t)") (auto simp: noir_alloc_contd_memory_def next_answer_def split: if_splits
      intro: exI [of _ "[]"] exI [of _ "[a]"])
  then obtain new where new: "answers (memory t) = new @ answers k" "filter (\<lambda>a. a \<noteq> 0) new = (if a = 0 then [] else [a])" by blast
  have "answers (memory s) = (pre @ new) @ answers k \<and>
      mset (filter (\<lambda>a. a \<noteq> 0) (pre @ new)) = mset (filter (\<lambda>a. a \<noteq> 0) (qs @ map fst (ps @ [(a, n)])))"
    using pre new by simp
  moreover have "contd k = contd (memory t) \<union> (if a = 0 then {} else {a} \<times> {0 ..< n})" "pool k = pool (memory t)"
    using assms(1) by (auto simp: noir_alloc_contd_memory_def next_answer_def split: list.splits if_splits)
  ultimately show ?thesis using assms(2,3) unfolding taken_since_def by (auto simp del: filter_append)
qed

lemma taken_pool:
  assumes "noir_alloc_nonpg_memory (memory t) = (a, k)" "taken_since s ps qs t" "memory u = k"
  shows "taken_since s ps (qs @ [a]) u"
proof -
  obtain pre where pre: "answers (memory s) = pre @ answers (memory t)"
      "mset (filter (\<lambda>a. a \<noteq> 0) pre) = mset (filter (\<lambda>a. a \<noteq> 0) (qs @ map fst ps))"
    using assms(2) by (auto simp: taken_since_def)
  have "\<exists>new. answers (memory t) = new @ answers k \<and> filter (\<lambda>a. a \<noteq> 0) new = (if a = 0 then [] else [a])"
    using assms(1) by (cases "answers (memory t)") (auto simp: noir_alloc_nonpg_memory_def next_answer_def split: if_splits
      intro: exI [of _ "[]"] exI [of _ "[a]"])
  then obtain new where new: "answers (memory t) = new @ answers k" "filter (\<lambda>a. a \<noteq> 0) new = (if a = 0 then [] else [a])" by blast
  have "answers (memory s) = (pre @ new) @ answers k \<and>
      mset (filter (\<lambda>a. a \<noteq> 0) (pre @ new)) = mset (filter (\<lambda>a. a \<noteq> 0) ((qs @ [a]) @ map fst ps))"
    using pre new by simp
  moreover have "contd k = contd (memory t)" "pool k = pool (memory t) \<union> (set [a] - {0})"
    using assms(1) by (auto simp: noir_alloc_nonpg_memory_def next_answer_def split: list.splits if_splits)
  ultimately show ?thesis using assms(2,3) unfolding taken_since_def by (auto simp del: filter_append)
qed

text \<open>The steps of a construction that succeeds.\<close>

definition quiet :: "cvm_module \<Rightarrow> cvm_module \<Rightarrow> bool" where
  "quiet s t \<longleftrightarrow> vms t = vms s \<and> heap t = heap s \<and> vcpus t = vcpus s"

lemma contd_step:
  assumes "run_steps (alloc_step (noir_alloc_contd_memory n) put # fs) (x, t) = Inr y" "taken_since s ps qs t" "quiet s t"
  shows "\<exists>a u. a \<noteq> 0 \<and> taken_since s (ps @ [(a, n)]) qs u \<and> quiet s u \<and> run_steps fs (put a x, u) = Inr y"
proof -
  obtain a k where a: "noir_alloc_contd_memory n (memory t) = (a, k)" by (metis prod.exhaust)
  then have "a \<noteq> 0" "run_steps fs (put a x, t\<lparr>memory := k\<rparr>) = Inr y"
    using assms(1) by (auto simp: alloc_step_def Let_def split: if_splits)
  then show ?thesis using taken_contd [OF a assms(2), of "t\<lparr>memory := k\<rparr>"] assms(3)
    by (intro exI [of _ a] exI [of _ "t\<lparr>memory := k\<rparr>"]) (simp add: quiet_def)
qed

lemma pool_step:
  assumes "run_steps (alloc_step noir_alloc_nonpg_memory put # fs) (x, t) = Inr y" "taken_since s ps qs t" "quiet s t"
  shows "\<exists>a u. a \<noteq> 0 \<and> taken_since s ps (qs @ [a]) u \<and> quiet s u \<and> run_steps fs (put a x, u) = Inr y"
proof -
  obtain a k where a: "noir_alloc_nonpg_memory (memory t) = (a, k)" by (metis prod.exhaust)
  then have "a \<noteq> 0" "run_steps fs (put a x, t\<lparr>memory := k\<rparr>) = Inr y"
    using assms(1) by (auto simp: alloc_step_def Let_def split: if_splits)
  then show ?thesis using taken_pool [OF a assms(2), of "t\<lparr>memory := k\<rparr>"] assms(3)
    by (intro exI [of _ a] exI [of _ "t\<lparr>memory := k\<rparr>"]) (simp add: quiet_def)
qed

lemma unchecked_contd:
  assumes "run_steps (unchecked_step (noir_alloc_contd_memory n) put # fs) (x, t) = Inr y" "taken_since s ps qs t" "quiet s t"
  shows "\<exists>a u. taken_since s (ps @ [(a, n)]) qs u \<and> quiet s u \<and> run_steps fs (put a x, u) = Inr y"
proof -
  obtain a k where a: "noir_alloc_contd_memory n (memory t) = (a, k)" by (metis prod.exhaust)
  then have "run_steps fs (put a x, t\<lparr>memory := k\<rparr>) = Inr y"
    using assms(1) by (auto simp: unchecked_step_def Let_def)
  then show ?thesis using taken_contd [OF a assms(2), of "t\<lparr>memory := k\<rparr>"] assms(3)
    by (intro exI [of _ a] exI [of _ "t\<lparr>memory := k\<rparr>"]) (simp add: quiet_def)
qed

lemma check_passed: "(case check_step ok x of Inl y \<Rightarrow> Inl y | Inr y \<Rightarrow> run_steps fs y) = Inr z \<Longrightarrow> run_steps fs x = Inr z"
  by (cases x) (auto simp: check_step_def split: if_splits)

text \<open>The pages of a machine, in the order of their allocation.\<close>

definition pages_of :: "cvm_services \<Rightarrow> noir_svm_custom_vm \<Rightarrow> (u64 \<times> nat) list" where
  "pages_of e m = [(vm_ncr3 m, 1), (vm_iopm m, 3), (vm_msrpm m, 2), (vm_msrpm_full m, 3)] @
     (if cs_nsv e then [(vm_vmsa m, 1)] else []) @ (if cs_avic e then [(vm_avic_logical m, 1), (vm_avic_physical m, 1)] else [])"

definition bare :: "noir_svm_custom_vm \<Rightarrow> bool" where
  "bare m \<longleftrightarrow> vm_pdptes m = [] \<and> vm_pdes m = [] \<and> vm_ptes m = [] \<and> vm_lockers m = [] \<and> vm_vcpu m = (\<lambda>_. 0) \<and> vm_list_lock m = 0"

lemma vm_build_memory:
  assumes "run_steps (vm_build e) (zero_vm, s) = Inr (m, t)"
  shows "taken_since s (pages_of e m) [vm_vcpus m] t \<and> quiet s t \<and> bare m \<and> vm_vcpus m \<noteq> 0"
proof -
  have start: "taken_since s [] [] s" "quiet s s" by (simp_all add: taken_nothing quiet_def)
  obtain n s1 where 1: "taken_since s [(n, 1)] [] s1" "quiet s s1"
      "run_steps (asid_step # vm_build_maps e) (zero_vm\<lparr>vm_ncr3 := n\<rparr>, s1) = Inr (m, t)"
    using contd_step [OF assms [unfolded vm_build_def] start] unfolding append.simps by blast
  obtain d s2 where 2: "taken_since s [(n, 1)] [] s2" "quiet s s2"
      "run_steps (vm_build_maps e) (zero_vm\<lparr>vm_ncr3 := n, vm_asid := d\<rparr>, s2) = Inr (m, t)"
  proof -
    obtain d g where d: "nvc_svmc_alloc_asid (tags s1) = (d, g)" by (metis prod.exhaust)
    show ?thesis
      by (rule that [of "s1\<lparr>tags := g\<rparr>" d]) (use 1 d in \<open>auto simp: asid_step_def plain_step_def taken_since_def quiet_def\<close>)
  qed
  define secure :: "noir_svm_custom_vm construction list" where "secure = (if cs_nsv e then [alloc_step (noir_alloc_contd_memory 1) (\<lambda>a m. m\<lparr>vm_vmsa := a\<rparr>),
    check_step (\<lambda>m. cs_reassign e (cs_phys e (vm_vmsa m)))] else [])"
  define avic :: "noir_svm_custom_vm construction list" where "avic = (if cs_avic e then [alloc_step (noir_alloc_contd_memory 1) (\<lambda>a m. m\<lparr>vm_avic_logical := a\<rparr>),
    alloc_step (noir_alloc_contd_memory 1) (\<lambda>a m. m\<lparr>vm_avic_physical := a\<rparr>)] else [])"
  obtain i s3 where 3: "taken_since s [(n, 1), (i, 3)] [] s3" "quiet s s3"
      "run_steps ([alloc_step (noir_alloc_contd_memory 2) (\<lambda>a m. m\<lparr>vm_msrpm := a\<rparr>),
        unchecked_step (noir_alloc_contd_memory 3) (\<lambda>a m. m\<lparr>vm_msrpm_full := a\<rparr>), check_step (\<lambda>m. vm_msrpm m \<noteq> 0)] @
        secure @ [alloc_step noir_alloc_nonpg_memory (\<lambda>a m. m\<lparr>vm_vcpus := a\<rparr>)] @ avic)
        (zero_vm\<lparr>vm_ncr3 := n, vm_asid := d, vm_iopm := i\<rparr>, s3) = Inr (m, t)"
    using contd_step [OF 2(3) [unfolded vm_build_maps_def append.simps] 2(1,2)] unfolding secure_def avic_def by auto
  obtain p s4 where 4: "taken_since s [(n, 1), (i, 3), (p, 2)] [] s4" "quiet s s4"
      "run_steps ([unchecked_step (noir_alloc_contd_memory 3) (\<lambda>a m. m\<lparr>vm_msrpm_full := a\<rparr>), check_step (\<lambda>m. vm_msrpm m \<noteq> 0)] @
        secure @ [alloc_step noir_alloc_nonpg_memory (\<lambda>a m. m\<lparr>vm_vcpus := a\<rparr>)] @ avic)
        (zero_vm\<lparr>vm_ncr3 := n, vm_asid := d, vm_iopm := i, vm_msrpm := p\<rparr>, s4) = Inr (m, t)"
    using contd_step [OF 3(3) [unfolded append.simps] 3(1,2)] by auto
  obtain f s5 where 5: "taken_since s [(n, 1), (i, 3), (p, 2), (f, 3)] [] s5" "quiet s s5"
      "run_steps (secure @ [alloc_step noir_alloc_nonpg_memory (\<lambda>a m. m\<lparr>vm_vcpus := a\<rparr>)] @ avic)
        (zero_vm\<lparr>vm_ncr3 := n, vm_asid := d, vm_iopm := i, vm_msrpm := p, vm_msrpm_full := f\<rparr>, s5) = Inr (m, t)"
    using unchecked_contd [OF 4(3) [unfolded append.simps] 4(1,2)] by (auto dest!: check_passed)
  obtain w s6 where 6: "taken_since s ([(n, 1), (i, 3), (p, 2), (f, 3)] @ (if cs_nsv e then [(w, 1)] else [])) [] s6" "quiet s s6"
      "run_steps (alloc_step noir_alloc_nonpg_memory (\<lambda>a m. m\<lparr>vm_vcpus := a\<rparr>) # avic)
        (zero_vm\<lparr>vm_ncr3 := n, vm_asid := d, vm_iopm := i, vm_msrpm := p, vm_msrpm_full := f, vm_vmsa := w\<rparr>, s6) = Inr (m, t)"
  proof (cases "cs_nsv e")
    case True
    then show ?thesis
      using contd_step [OF 5(3) [unfolded secure_def if_P [OF True] append.simps] 5(1,2)] True that by (auto dest!: check_passed)
  next
    case False
    have "vm_vmsa (zero_vm\<lparr>vm_ncr3 := n, vm_asid := d, vm_iopm := i, vm_msrpm := p, vm_msrpm_full := f\<rparr>) = 0"
      by (simp add: zero_vm_def)
    then show ?thesis using 5 False that [of 0 s5] by (simp add: secure_def zero_vm_def)
  qed
  obtain v s7 where 7: "v \<noteq> 0" "taken_since s ([(n, 1), (i, 3), (p, 2), (f, 3)] @ (if cs_nsv e then [(w, 1)] else [])) [v] s7" "quiet s s7"
      "run_steps avic
        (zero_vm\<lparr>vm_ncr3 := n, vm_asid := d, vm_iopm := i, vm_msrpm := p, vm_msrpm_full := f, vm_vmsa := w, vm_vcpus := v\<rparr>, s7) = Inr (m, t)"
    using pool_step [OF 6(3) 6(1,2)] by auto
  show ?thesis
  proof (cases "cs_avic e")
    case True
    obtain l s8 where 8: "taken_since s (([(n, 1), (i, 3), (p, 2), (f, 3)] @ (if cs_nsv e then [(w, 1)] else [])) @ [(l, 1)]) [v] s8" "quiet s s8"
      "run_steps [alloc_step (noir_alloc_contd_memory 1) (\<lambda>a m. m\<lparr>vm_avic_physical := a\<rparr>)]
        (zero_vm\<lparr>vm_ncr3 := n, vm_asid := d, vm_iopm := i, vm_msrpm := p, vm_msrpm_full := f, vm_vmsa := w, vm_vcpus := v,
           vm_avic_logical := l\<rparr>, s8) = Inr (m, t)"
      using contd_step [OF 7(4) [unfolded avic_def if_P [OF True]] 7(2,3)] by auto
    obtain g s9 where 9: "taken_since s ((([(n, 1), (i, 3), (p, 2), (f, 3)] @ (if cs_nsv e then [(w, 1)] else [])) @ [(l, 1)]) @ [(g, 1)]) [v] s9" "quiet s s9"
      "run_steps []
        (zero_vm\<lparr>vm_ncr3 := n, vm_asid := d, vm_iopm := i, vm_msrpm := p, vm_msrpm_full := f, vm_vmsa := w, vm_vcpus := v,
           vm_avic_logical := l, vm_avic_physical := g\<rparr>, s9) = Inr (m, t)"
      using contd_step [OF 8(3,1,2)] by auto
    then show ?thesis using 7(1) True by (auto simp: pages_of_def bare_def zero_vm_def)
  next
    case False
    then show ?thesis using 7 by (auto simp: pages_of_def bare_def zero_vm_def avic_def)
  qed
qed

section \<open>What comes back\<close>

lemma taken_trans:
  assumes "taken_since s ps qs t" "taken_since t ps' qs' u"
  shows "taken_since s (ps @ ps') (qs @ qs') u"
proof -
  obtain pre pre' where "answers (memory s) = pre @ answers (memory t)" "answers (memory t) = pre' @ answers (memory u)"
      "mset (filter (\<lambda>a. a \<noteq> 0) pre) = mset (filter (\<lambda>a. a \<noteq> 0) (qs @ map fst ps))"
      "mset (filter (\<lambda>a. a \<noteq> 0) pre') = mset (filter (\<lambda>a. a \<noteq> 0) (qs' @ map fst ps'))"
    using assms by (auto simp: taken_since_def)
  then have "answers (memory s) = (pre @ pre') @ answers (memory u) \<and>
      mset (filter (\<lambda>a. a \<noteq> 0) (pre @ pre')) = mset (filter (\<lambda>a. a \<noteq> 0) ((qs @ qs') @ map fst (ps @ ps')))"
    by (simp add: ac_simps)
  moreover have "blocks (ps @ ps') = blocks ps \<union> blocks ps'" by (auto simp: blocks_def)
  ultimately show ?thesis using assms unfolding taken_since_def by (auto simp del: filter_append)
qed

lemma taken_distinct:
  assumes "taken_since s ps qs t" "distinct (filter (\<lambda>a. a \<noteq> 0) (answers (memory s)))"
  shows "distinct (filter (\<lambda>a. a \<noteq> 0) (qs @ map fst ps))" "set (filter (\<lambda>a. a \<noteq> 0) (qs @ map fst ps)) \<subseteq> set (answers (memory s)) - {0}"
proof -
  obtain pre where pre: "answers (memory s) = pre @ answers (memory t)"
      "mset (filter (\<lambda>a. a \<noteq> 0) pre) = mset (filter (\<lambda>a. a \<noteq> 0) (qs @ map fst ps))"
    using assms(1) by (auto simp: taken_since_def)
  have "distinct (filter (\<lambda>a. a \<noteq> 0) pre)" using assms(2) pre(1) by simp
  then show "distinct (filter (\<lambda>a. a \<noteq> 0) (qs @ map fst ps))" using mset_eq_imp_distinct_iff [OF pre(2)] by blast
  show "set (filter (\<lambda>a. a \<noteq> 0) (qs @ map fst ps)) \<subseteq> set (answers (memory s)) - {0}"
    using mset_eq_setD [OF pre(2)] pre(1) by auto
qed

text \<open>The pages that the release of a machine without processors frees: one of the full map is not among them.\<close>

definition returned_pages :: "cvm_services \<Rightarrow> noir_svm_custom_vm \<Rightarrow> (u64 \<times> nat) list" where
  "returned_pages e m = [(vm_ncr3 m, 1), (vm_iopm m, 3), (vm_msrpm m, 2), (vm_msrpm_full m, 2)] @
     (if cs_nsv e then [(vm_vmsa m, 1)] else []) @ (if cs_avic e then [(vm_avic_logical m, 1), (vm_avic_physical m, 1)] else [])"

lemma free_contd_parts: "contd (free_contd a n h) = contd h - blocks [(a, n)]" "pool (free_contd a n h) = pool h"
  by (auto simp: free_contd_def noir_free_contd_memory_def blocks_def)

lemma free_bare:
  assumes "vm_pdptes m = []" "vm_pdes m = []" "vm_ptes m = []"
  shows "contd (free_vm e m h) = contd h - blocks (returned_pages e m)" "pool (free_vm e m h) = pool h"
proof -
  have "blocks (p # ps) = blocks [p] \<union> blocks ps" for p ps by (simp add: blocks_def)
  note split = this [of _ "_ # _"]
  show "contd (free_vm e m h) = contd h - blocks (returned_pages e m)"
    by (cases "cs_nsv e"; cases "cs_avic e")
      (simp_all add: free_vm_def free_descriptors_def assms Let_def free_contd_parts returned_pages_def split Diff_eq Int_ac Un_ac)
  show "pool (free_vm e m h) = pool h"
    by (cases "cs_nsv e"; cases "cs_avic e") (simp_all add: free_vm_def free_descriptors_def assms Let_def free_contd_parts)
qed

lemma blocks_bases: "(x, k) \<in> blocks ps \<Longrightarrow> x \<in> set (filter (\<lambda>a. a \<noteq> 0) (map fst ps))"
  by (auto simp: blocks_def split: if_splits intro: rev_image_eqI)

lemma blocks_kept:
  assumes "distinct (filter (\<lambda>a. a \<noteq> 0) (map fst (pages_of e m)))"
    "set (filter (\<lambda>a. a \<noteq> 0) (map fst (pages_of e m))) \<inter> fst ` c = {}"
  shows "(c \<union> blocks (pages_of e m)) - blocks (returned_pages e m) = c \<union> (if vm_msrpm_full m = 0 then {} else {(vm_msrpm_full m, 2)})"
proof -
  let ?f = "vm_msrpm_full m"
  obtain ls rs where parts: "pages_of e m = ls @ [(?f, 3)] @ rs" "returned_pages e m = ls @ [(?f, 2)] @ rs"
    by (rule that [of "[(vm_ncr3 m, 1), (vm_iopm m, 3), (vm_msrpm m, 2)]"]) (simp_all add: pages_of_def returned_pages_def)
  let ?B = "blocks (ls @ rs)"
  have sums: "blocks (ls @ [(a, n)] @ rs) = ?B \<union> blocks [(a, n)]" for a n by (auto simp: blocks_def)
  have "?B \<inter> blocks [(?f, 3)] = {}"
  proof -
    have "x \<noteq> ?f" if "(x, k) \<in> ?B" "?f \<noteq> 0" for x k
      using blocks_bases [OF that(1)] assms(1) that(2) unfolding parts by auto
    moreover have "x = ?f \<and> ?f \<noteq> 0" if "(x, k) \<in> blocks [(?f, 3)]" for x k
      using that by (simp add: blocks_def split: if_splits)
    ultimately show ?thesis by fast
  qed
  moreover have "c \<inter> blocks (pages_of e m) = {}"
  proof -
    have "(x, k) \<notin> c" if "(x, k) \<in> blocks (pages_of e m)" for x k
    proof
      assume "(x, k) \<in> c"
      then have "x \<in> fst ` c" by force
      then show False using blocks_bases [OF that] assms(2) by blast
    qed
    then show ?thesis by fast
  qed
  moreover have "blocks [(?f, 2)] \<subseteq> blocks [(?f, 3)]" by (auto simp: blocks_def)
  moreover have "blocks [(?f, 3)] - blocks [(?f, 2)] = (if ?f = 0 then {} else {(?f, 2)})" by (auto simp: blocks_def)
  ultimately show ?thesis unfolding parts sums by blast
qed

lemma no_processors: "vms s a = Some m \<Longrightarrow> vm_vcpu m = (\<lambda>_. 0) \<Longrightarrow> release_vcpus e a n s = Some s"
  by (induction n) (simp_all add: nvc_svmc_release_vcpu_def)

text \<open>A machine that was created successfully: what it took, and that it has no processors.\<close>

lemma created_machine:
  assumes "nvc_create_vm_ex e pid props s = Some (noir_success, a, u)"
  obtains m where "vms u = (vms s)(a \<mapsto> m)" "vcpus u = vcpus s" "vm_vcpu m = (\<lambda>_. 0)" "vm_pdptes m = []" "vm_pdes m = []" "vm_ptes m = []"
    "length (vm_lockers m) = 1" "vm_list_lock m \<noteq> 0" "vm_vcpus m \<noteq> 0" "hd (vm_lockers m) \<noteq> 0" "a \<noteq> 0"
    "taken_since s (pages_of e m) [a, vm_vcpus m, vm_list_lock m, hd (vm_lockers m)] u"
proof -
  have failures: "noir_insufficient_resources \<noteq> noir_success" "noir_not_implemented \<noteq> noir_success"
    by (simp_all add: noir_insufficient_resources_def noir_not_implemented_def noir_success_def)
  have props: "props = 0" using assms failures by (auto simp: nvc_create_vm_ex_def split: if_splits)
  obtain st1 b s1 where c: "nvc_svmc_create_vm e s = Some (st1, b, s1)" using assms props by (auto simp: nvc_create_vm_ex_def split: option.splits)
  have ok: "st1 = noir_success" using assms props c by (auto simp: nvc_create_vm_ex_def split: if_splits)
  obtain h where h: "noir_alloc_nonpg_memory (memory s) = (b, h)" "b \<noteq> 0"
    using c ok failures by (auto simp: nvc_svmc_create_vm_def split: prod.splits if_splits sum.splits)
  let ?s0 = "s\<lparr>memory := h, heap := set_next b 0 (set_prev b 0 (heap s))\<rparr>"
  obtain m s2 where m: "run_steps (vm_build e) (zero_vm, ?s0) = Inr (m, s2)" "s1 = s2\<lparr>vms := (vms s2)(b \<mapsto> m)\<rparr>"
    using c h ok failures by (auto simp: nvc_svmc_create_vm_def split: sum.splits)
  note build = vm_build_memory [OF m(1)]
  have "taken_since s [] [b] ?s0" using taken_pool [OF h(1) taken_nothing, where u = ?s0] by simp
  then have "taken_since s (pages_of e m) [b, vm_vcpus m] s2" using taken_trans build by fastforce
  then have t1: "taken_since s (pages_of e m) [b, vm_vcpus m] s1" by (simp add: taken_since_def m(2))
  obtain lock h1 where lock: "noir_alloc_nonpg_memory (memory s1) = (lock, h1)" by (metis prod.exhaust)
  obtain page h2 where page: "noir_alloc_nonpg_memory h1 = (page, h2)" by (metis prod.exhaust)
  have vms1: "vms s1 = (vms s)(b \<mapsto> m)" "vcpus s1 = vcpus s" using build m(2) by (simp_all add: quiet_def)
  note run = assms [unfolded nvc_create_vm_ex_def c option.case prod.case ok lock Let_def page]
  have nz: "lock \<noteq> 0" "page \<noteq> 0" and a: "a = b" using run props failures by (auto split: if_splits)
  let ?m = "m\<lparr>vm_list_lock := lock, vm_lockers := [page], vm_properties := 0, vm_pid := pid, vm_ref_count := 1\<rparr>"
  have u: "vms u = (vms s)(a \<mapsto> ?m)" "vcpus u = vcpus s" "memory u = h2"
    using run props nz by (auto simp: vms1 a)
  have "taken_since s (pages_of e m) ([b, vm_vcpus m] @ [lock]) (s1\<lparr>memory := h1\<rparr>)" using taken_pool [OF lock t1] by simp
  then have "taken_since s (pages_of e m) (([b, vm_vcpus m] @ [lock]) @ [page]) u"
    using taken_pool [of "s1\<lparr>memory := h1\<rparr>" page h2 s _ "[b, vm_vcpus m] @ [lock]" u] page u(3) by simp
  moreover have "pages_of e ?m = pages_of e m" by (simp add: pages_of_def)
  ultimately show ?thesis
    by (intro that [of ?m]) (use u nz h(2) build in \<open>simp_all add: bare_def a\<close>)
qed

lemma created_outside:
  assumes "nvc_create_vm_ex e pid props s = Some (noir_success, a, u)" "fresh e s"
  shows "a \<notin> dom (vms s)"
proof -
  obtain m where "a \<noteq> 0" "taken_since s (pages_of e m) [a, vm_vcpus m, vm_list_lock m, hd (vm_lockers m)] u"
    by (rule created_machine [OF assms(1)])
  then have "a \<in> set (answers (memory s))"
    using taken_distinct(2) [of s "pages_of e m" "[a, vm_vcpus m, vm_list_lock m, hd (vm_lockers m)]" u] assms(2)
    by (auto simp: fresh_def)
  then show ?thesis using assms(2) by (auto simp: fresh_def)
qed

text \<open>The identifiers in use are those of the machines.\<close>

lemma wf_taken:
  assumes "wf e s"
  shows "asid_taken (tags s) \<inter> asid_ids (tags s) = (\<lambda>a. vm_asid (the (vms s a))) ` dom (vms s) - {0xffffffff}"
proof -
  obtain xs where "set xs = dom (vms s)" "asids.used (real_asids s xs) (tags s)" using assms by (auto simp: wf_def wf_list_def)
  then have "asid_taken (tags s) \<inter> asid_ids (tags s) = {x \<in> (\<lambda>a. vm_asid (the (vms s a))) ` dom (vms s). x \<noteq> 0xffffffff}"
    by (simp add: used_set real_asids_def asid_at_def [abs_def])
  then show ?thesis by (simp add: set_diff_eq)
qed

text \<open>C5: releasing a machine right after its creation gives back all that the creation took, the machine, its
  identifier and its memory, except for the last page of the full permission map: three pages are allocated
  and two are freed.\<close>

theorem machine_returned:
  assumes "asid_valid (init_tlb_tagging nested asid_limit)" "(cvm_step e)\<^sup>*\<^sup>* (initial e nested asid_limit h l) s"
    "fresh e (with_answers al s)" "(set al - {0}) \<inter> (pool (memory s) \<union> fst ` contd (memory s)) = {}" "cs_idle e \<noteq> 0"
    "nvc_create_vm_ex e pid props (with_answers al s) = Some (noir_success, a, u)"
  shows "\<exists>t. nvc_release_vm e a u = Some (noir_success, t) \<and> vms t = vms s \<and> vcpus t = vcpus s \<and>
    asid_taken (tags t) \<inter> asid_ids (tags t) = asid_taken (tags s) \<inter> asid_ids (tags s) \<and> pool (memory t) = pool (memory s) \<and>
    contd (memory t) = contd (memory s) \<union>
      (let full = vm_msrpm_full (the (vms u a)) in if full = 0 then {} else {(full, 2)})"
proof -
  let ?s = "with_answers al s"
  obtain m where m: "vms u = (vms ?s)(a \<mapsto> m)" "vcpus u = vcpus ?s" "vm_vcpu m = (\<lambda>_. 0)" "vm_pdptes m = []" "vm_pdes m = []" "vm_ptes m = []"
    "length (vm_lockers m) = 1" "vm_list_lock m \<noteq> 0" "vm_vcpus m \<noteq> 0" "hd (vm_lockers m) \<noteq> 0" "a \<noteq> 0"
    "taken_since ?s (pages_of e m) [a, vm_vcpus m, vm_list_lock m, hd (vm_lockers m)] u"
    by (rule created_machine [OF assms(6)])
  have w: "wf e s" using wf_run [OF assms(2) wf_initial [OF assms(1)]] .
  have wu: "wf e u" using wf_step [OF cvm_step.create_vm [OF assms(3,6)] w] .
  have um: "vms u a = Some m" using m(1) by simp
  define page where "page = hd (vm_lockers m)"
  have page: "vm_lockers m = [page]" using m(7) by (cases "vm_lockers m") (auto simp: page_def)
  let ?h = "noir_free_nonpg_memory a (noir_free_nonpg_memory (vm_list_lock m) (noir_free_nonpg_memory page
      (free_vm e m (noir_free_nonpg_memory (vm_vcpus m) (memory u)))))"
  have v: "vms (u\<lparr>heap := noir_remove_list_entry a (heap u)\<rparr>) a = Some m" using um by simp
  obtain t where t: "nvc_release_vm e a u = Some (noir_success, t)" "vms t = (vms u)(a := None)" "vcpus t = vcpus u" "memory t = ?h"
    using vm_linked [OF wu um assms(5)] no_processors [OF v m(3), of e 255] m(8,9,11) um page
    by (simp add: nvc_release_vm_def nvc_svmc_release_vm_def Let_def)
  have own: "a \<notin> dom (vms s)" "vms ?s = vms s" "vcpus ?s = vcpus s" "pool (memory ?s) = pool (memory s)" "contd (memory ?s) = contd (memory s)"
    "answers (memory ?s) = al"
    using created_outside [OF assms(6,3)] by (auto simp: with_answers_def)
  have vms_t: "vms t = vms s" using t(2) m(1) own(1,2) by (auto simp: fun_eq_iff)
  have "distinct (filter (\<lambda>a. a \<noteq> 0) (answers (memory ?s)))" using assms(3) by (simp add: fresh_def)
  note d = taken_distinct [OF m(12) this]
  have pool_u: "pool (memory u) = pool (memory s) \<union> {a, vm_vcpus m, vm_list_lock m, page}"
    "contd (memory u) = contd (memory s) \<union> blocks (pages_of e m)"
    using m(8-12) own(4,5) by (auto simp: taken_since_def page_def)
  have bases: "{a, vm_vcpus m, vm_list_lock m, page} \<inter> pool (memory s) = {}"
    "set (filter (\<lambda>a. a \<noteq> 0) (map fst (pages_of e m))) \<inter> fst ` contd (memory s) = {}"
    using d(2) assms(4) m(8-11) own(6) by (auto simp: page_def)
  have dd: "distinct (filter (\<lambda>a. a \<noteq> 0) (map fst (pages_of e m)))"
    using d(1) unfolding filter_append distinct_append by blast
  have "pool (memory t) = pool (memory s)"
    unfolding t(4) by (simp add: noir_free_nonpg_memory_def free_bare [OF m(4-6)] pool_u) (use bases(1) in blast)
  moreover have "contd (memory t) = contd (memory s) \<union> (if vm_msrpm_full m = 0 then {} else {(vm_msrpm_full m, 2)})"
    unfolding t(4) by (simp add: noir_free_nonpg_memory_def free_bare [OF m(4-6)] pool_u blocks_kept [OF dd bases(2)])
  moreover have "asid_taken (tags t) \<inter> asid_ids (tags t) = asid_taken (tags s) \<inter> asid_ids (tags s)"
    using wf_taken [OF w] wf_taken [OF release_vm_wf [OF wu t(1)]] vms_t by simp
  ultimately show ?thesis using t(1,3) vms_t m(2) own(3) um by (simp add: Let_def)
qed

theorem machine_returned_witness:
  "\<exists>t. nvc_release_vm small_services 0x1000 one_machine = Some (noir_success, t) \<and> vms t = Map.empty \<and> pool (memory t) = {} \<and>
    contd (memory t) = {(0x8000, 2)}"
proof -
  have start: "(cvm_step small_services)\<^sup>*\<^sup>* (initial small_services False 64 \<lparr>answers = [], pool = {}, contd = {}\<rparr>
      \<lparr>le_next = (\<lambda>_. 0), le_prev = (\<lambda>_. 0)\<rparr>) no_machine"
    by (simp add: no_machine_def)
  have memory: "pool (memory no_machine) = {}" "contd (memory no_machine) = {}" by (simp_all add: no_machine_def initial_def)
  have fresh: "fresh small_services (with_answers [0x1000, 0x2000, 0x3000, 0x6000, 0x8000, 0xB000, 0xC000, 0xD000] no_machine)"
    by (simp add: fresh_def with_answers_def no_machine_maps small_services_def)
  have "cs_idle small_services \<noteq> 0" by (simp add: small_services_def)
  from machine_returned [OF start_valid start fresh _ this one_machine] show ?thesis
    by (auto simp: memory no_machine_maps one_machine_vm Let_def)
qed

end
