(* ===== verification/Lockers.thy ===== *)
theory Lockers
  imports Id_Pool
begin

text \<open>
  The slots in which a machine keeps the handles of locked pages (\<open>xpf_core/noirhvm.c\<close>,
  \<open>include/cvm_hvm.h\<close>): a list of pages, each with a pointer to the next one, a bitmap and 503 slots.
\<close>

section \<open>Operations\<close>

definition noir_cvm_lockers_per_array :: u32 where "noir_cvm_lockers_per_array = 503"

text \<open>The members of \<open>noir_cvm_lockers_list\<close> at a page: \<open>next\<close> at 0, \<open>bitmap\<close> at 8, \<open>lockers\<close> at 72.
  Memory is a map from addresses to bytes.\<close>

definition locker_next :: "bytes \<Rightarrow> nat \<Rightarrow> nat" where
  "locker_next m p = unat (vmread64 m p)"

definition locker_bitmap :: "nat \<Rightarrow> nat" where "locker_bitmap p = p + 8"

definition locker_slot :: "nat \<Rightarrow> nat \<Rightarrow> nat" where "locker_slot p i = p + 72 + 8 * i"

record lockers =
  lk_mem :: bytes
  lk_head :: nat
  lk_tail :: nat

text \<open>The loop over the pages, on \<open>n\<close> of them. The outer option is missing when it goes on, the inner
  one when no page has a clear bit.\<close>

fun scan_lockers :: "nat \<Rightarrow> bytes \<Rightarrow> nat \<Rightarrow> (nat \<times> bytes) option option" where
  "scan_lockers n m cur =
     (if cur = 0 then Some None
      else
        (case claim_bit (locker_bitmap cur) noir_cvm_lockers_per_array m of (index, m') \<Rightarrow>
           if index \<noteq> 0xffffffff then Some (Some (locker_slot cur (unat index), m'))
           else (case n of 0 \<Rightarrow> None | Suc k \<Rightarrow> scan_lockers k m (locker_next m cur))))"

declare scan_lockers.simps [simp del]

text \<open>\<open>fresh\<close> is the page that the allocation returns, zeroed, or 0; the result is 0 on failure. The tail
  stays what it is.\<close>

definition nvc_alloc_locker_slot :: "nat \<Rightarrow> nat \<Rightarrow> lockers \<Rightarrow> (nat \<times> lockers) option" where
  "nvc_alloc_locker_slot n fresh k =
     (case scan_lockers n (lk_mem k) (lk_head k) of
        None \<Rightarrow> None
      | Some (Some (slot, m)) \<Rightarrow> Some (slot, k\<lparr>lk_mem := m\<rparr>)
      | Some None \<Rightarrow>
          (let m = vmwrite64 (lk_mem k) (lk_tail k) (of_nat fresh) in
           if fresh \<noteq> 0
           then Some (locker_slot fresh 0,
                  k\<lparr>lk_mem := vmwrite8 (\<lambda>a. if fresh \<le> a \<and> a < fresh + 4096 then 0 else m a) (locker_bitmap fresh) 1\<rparr>)
           else Some (0, k\<lparr>lk_mem := m\<rparr>)))"

definition nvc_free_locker_slot :: "nat \<Rightarrow> bytes \<Rightarrow> bytes" where
  "nvc_free_locker_slot slot m =
     (let page = 4096 * (slot div 4096) in
      if page \<noteq> 0 then vmwrite64 (snd (noir_reset_bitmap m page (of_nat (slot mod 4096 div 8)))) slot 0 else m)"

lemma bit_full_byte [simp]: "bit (0xff :: u8) (j mod 8)"
proof -
  have "bit (mask 8 :: u8) (j mod 8)" by (simp add: bit_mask_iff possible_bit_word)
  then show ?thesis by (simp add: mask_eq_exp_minus_1)
qed

section \<open>A page as a source of slots\<close>

definition page_alloc :: "bytes \<times> nat \<Rightarrow> nat option \<times> (bytes \<times> nat)" where
  "page_alloc mp = (case mp of (m, p) \<Rightarrow>
     (case claim_bit (locker_bitmap p) noir_cvm_lockers_per_array m of (k, m') \<Rightarrow>
        (if k = 0xffffffff then None else Some (unat k), m', p)))"

definition page_taken :: "bytes \<times> nat \<Rightarrow> nat set" where
  "page_taken mp = {k. k < 512 \<and> bitmap_bit (fst mp) (locker_bitmap (snd mp)) k}"

lemma locker_words: "words_bits noir_cvm_lockers_per_array = 512"
  by (simp add: words_bits_def noir_cvm_lockers_per_array_def)

interpretation slots: id_source "\<lambda>_. True" "\<lambda>_. {0 ..< 512}" page_taken page_alloc
proof
  fix p q :: "bytes \<times> nat" and i :: nat
  obtain m a where p: "p = (m, a)" by (cases p)
  have limit: "unat noir_cvm_lockers_per_array \<le> 4294967232" by (simp add: noir_cvm_lockers_per_array_def)
  note cases = claim_cases [OF limit, where base = "locker_bitmap a" and b = m, unfolded locker_words]
  show "True \<and> {0..<512} = {0..<512::nat} \<and> i \<in> {0..<512} - page_taken p \<and> page_taken q = insert i (page_taken p)"
    if "page_alloc p = (Some i, q)"
  proof (cases rule: cases)
    case (1 k)
    then have "unat (of_nat k :: u32) = k" by (simp add: u32_number)
    then show ?thesis using 1 that by (auto simp: p page_alloc_def page_taken_def bitmap_set split: if_splits)
  next
    case 2
    then show ?thesis using that by (simp add: p page_alloc_def)
  qed
  show "q = p \<and> {0..<512} \<subseteq> page_taken p" if "page_alloc p = (None, q)"
  proof (cases rule: cases)
    case (1 k)
    have "(of_nat k :: u32) \<noteq> 0xffffffff" using 1(3) by (rule u32_not_last)
    then show ?thesis using 1 that by (auto simp: p page_alloc_def)
  next
    case 2
    then show ?thesis using that by (auto simp: p page_alloc_def page_taken_def)
  qed
qed simp_all

section \<open>Freeing a slot\<close>

lemma bitmap_in_page: "bitmap_bit m (locker_bitmap p) j = bitmap_bit m p (64 + j)"
proof -
  show ?thesis using word_split(3,4) [of 1 j] by (simp add: bitmap_bit_def locker_bitmap_def add.assoc)
qed

lemma slot_in_page:
  assumes "p mod 4096 = 0" "i < 503"
  shows "4096 * (locker_slot p i div 4096) = p" "locker_slot p i mod 4096 div 8 = 9 + i"
proof -
  obtain q where p: "p = 4096 * q" using assms(1) by auto
  have "locker_slot p i = 4096 * q + (72 + 8 * i)" and small: "72 + 8 * i < 4096" using assms(2) by (simp_all add: locker_slot_def p)
  then have "locker_slot p i div 4096 = q" "locker_slot p i mod 4096 = 72 + 8 * i" by (simp_all add: div_nat_eqI)
  then show "4096 * (locker_slot p i div 4096) = p" "locker_slot p i mod 4096 div 8 = 9 + i" by (simp_all add: p)
qed

lemma free_bits:
  assumes "p mod 4096 = 0" "0 < p" "i < 503" "j < 512"
  shows "bitmap_bit (nvc_free_locker_slot (locker_slot p i) m) (locker_bitmap p) j \<longleftrightarrow>
    bitmap_bit m (locker_bitmap p) j \<and> j + 55 \<noteq> i"
proof -
  have "j div 8 < 64" using assms(4) by (simp add: div_less_iff_less_mult)
  then have slot: "bitmap_bit (vmwrite64 b (locker_slot p i) 0) (locker_bitmap p) j = bitmap_bit b (locker_bitmap p) j" for b
    by (simp add: bitmap_bit_def locker_bitmap_def locker_slot_def vmwrite_wr wr_def)
  have "9 + i < 4294967296" using assms(3) by simp
  then obtain pos :: u32 where pos: "of_nat (9 + i) = pos" and n: "unat pos = 9 + i" using u32_number [of "9 + i"] by blast
  show ?thesis
    unfolding nvc_free_locker_slot_def Let_def slot_in_page [OF assms(1,3)] pos
    using assms(2) n by (simp add: slot) (auto simp: bitmap_in_page bitmap_reset)
qed

text \<open>Freeing a slot resets the wrong bit, since its position is counted from the start of the page and
  not from that of the bitmap: the slot itself stays taken for ever, and the slot 55 places before it is
  handed out again while it is in use.\<close>

theorem freed_slot_is_another:
  assumes "p mod 4096 = 0" "0 < p" "55 \<le> i" "i < 503" "page_taken (m, p) = {0 ..< 512}"
  shows "page_taken (nvc_free_locker_slot (locker_slot p i) m, p) = {0 ..< 512} - {i - 55} \<and>
    fst (page_alloc (nvc_free_locker_slot (locker_slot p i) m, p)) = Some (i - 55)"
proof -
  let ?m = "nvc_free_locker_slot (locker_slot p i) m"
  have taken: "page_taken (?m, p) = {0 ..< 512} - {i - 55}"
  proof -
    have "bitmap_bit m (locker_bitmap p) j" if "j < 512" for j
      using assms(5) that by (auto simp: page_taken_def set_eq_iff)
    then show ?thesis using assms(3,4) free_bits [OF assms(1,2,4)] by (auto simp: page_taken_def)
  qed
  obtain r q where r: "page_alloc (?m, p) = (r, q)" by (cases "page_alloc (?m, p)")
  have "r = Some (i - 55)"
  proof (cases r)
    case None
    then have all: "{0 ..< 512} \<subseteq> page_taken (?m, p)" using slots.alloc_none r by blast
    have "i - 55 \<in> {0 ..< 512}" using assms(4) by simp
    from subsetD [OF all this] show ?thesis by (simp add: taken)
  next
    case (Some k)
    then have "k \<in> {0 ..< 512} - page_taken (?m, p)" using slots.alloc_some [OF TrueI, of "(?m, p)" k q] r by blast
    then show ?thesis using taken Some by auto
  qed
  then show ?thesis using taken r by simp
qed

theorem freed_slot_is_another_witness:
  "fst (page_alloc (nvc_free_locker_slot (locker_slot 4096 100) (\<lambda>_. 0xff), 4096)) = Some 45"
proof -
  have "page_taken (\<lambda>_. 0xff, 4096) = {0 ..< 512}"
    unfolding page_taken_def bitmap_bit_def fst_conv using bit_full_byte by auto
  from freed_slot_is_another [OF _ _ _ _ this, of 100] show ?thesis by simp
qed

section \<open>Growing and releasing\<close>

text \<open>The loop of \<open>nvc_release_lockers\<close>: the handles it unlocks and the pages it frees.\<close>

fun nvc_release_lockers :: "nat \<Rightarrow> bytes \<Rightarrow> nat \<Rightarrow> (u64 list \<times> nat list) option" where
  "nvc_release_lockers n m cur =
     (if cur = 0 then Some ([], [])
      else
        (case n of 0 \<Rightarrow> None
         | Suc k \<Rightarrow>
             (case nvc_release_lockers k m (locker_next m cur) of
                None \<Rightarrow> None
              | Some (hs, ps) \<Rightarrow>
                  Some (filter (\<lambda>h. h \<noteq> 0) (map (\<lambda>i. vmread64 m (locker_slot cur i)) [0 ..< unat noir_cvm_lockers_per_array]) @ hs,
                        cur # ps))))"

declare nvc_release_lockers.simps [simp del]

lemma claim_full:
  assumes "page_taken (m, p) = {0 ..< 512}"
  shows "claim_bit (locker_bitmap p) noir_cvm_lockers_per_array m = (0xffffffff, m)"
proof -
  have limit: "unat noir_cvm_lockers_per_array \<le> 4294967232" by (simp add: noir_cvm_lockers_per_array_def)
  show ?thesis
  proof (cases rule: claim_cases [OF limit, where base = "locker_bitmap p" and b = m, unfolded locker_words])
    case (1 k)
    then have "k \<in> page_taken (m, p)" using assms by simp
    then show ?thesis using 1 by (simp add: page_taken_def)
  qed
qed

lemma scan_full: "p \<noteq> 0 \<Longrightarrow> page_taken (m, p) = {0 ..< 512} \<Longrightarrow>
    scan_lockers (Suc n) m p = scan_lockers n m (locker_next m p)"
  by (subst scan_lockers.simps) (simp add: claim_full)

lemma vmread64_cong: "(\<And>i. i < 8 \<Longrightarrow> b (p + i) = c (p + i)) \<Longrightarrow> vmread64 b p = vmread64 c p"
  unfolding vmread64_def by (rule load_u64_cong) simp

text \<open>The third page of slots is linked in place of the second one, because the tail of the list is
  never moved: releasing the machine neither unlocks the pages of the second one nor frees it.\<close>

theorem third_page_drops_second:
  assumes "lk_head k = h" "lk_tail k = h" "0 < h" "page_taken (lk_mem k, h) = {0 ..< 512}"
    "locker_next (lk_mem k) h = s" "0 < s" "page_taken (lk_mem k, s) = {0 ..< 512}" "locker_next (lk_mem k) s = 0"
    "0 < f" "f < 2 ^ 64" "h + 4096 \<le> f \<or> f + 4096 \<le> h"
  shows "\<exists>k' hs. nvc_alloc_locker_slot 2 f k = Some (locker_slot f 0, k') \<and>
    nvc_release_lockers 3 (lk_mem k') (lk_head k') = Some (hs, [h, f])"
proof -
  define old where "old = vmwrite64 (lk_mem k) h (of_nat f)"
  define m where "m = vmwrite8 (\<lambda>a. if f \<le> a \<and> a < f + 4096 then 0 else old a) (locker_bitmap f) 1"
  have "scan_lockers 0 (lk_mem k) 0 = Some None" by (simp add: scan_lockers.simps)
  then have "scan_lockers 2 (lk_mem k) h = Some None"
    using scan_full [of h "lk_mem k" 1] scan_full [of s "lk_mem k" 0] assms(3-8) by (simp add: numeral_2_eq_2)
  then have alloc: "nvc_alloc_locker_slot 2 f k = Some (locker_slot f 0, k\<lparr>lk_mem := m\<rparr>)"
    unfolding m_def old_def using assms(1,2,9) by (simp add: nvc_alloc_locker_slot_def Let_def)
  have "vmread64 m h = vmread64 old h"
    using assms(11) by (intro vmread64_cong) (auto simp: m_def vmwrite_wr wr_def locker_bitmap_def)
  then have next_h: "locker_next m h = f"
    using assms(10) by (simp add: old_def locker_next_def vmwrite_wr vmcb unat_of_nat take_bit_nat_eq_self)
  have "vmread64 m f = vmread64 (\<lambda>_. 0) f"
    by (intro vmread64_cong) (auto simp: m_def vmwrite_wr wr_def locker_bitmap_def)
  then have next_f: "locker_next m f = 0"
    by (simp add: locker_next_def) (simp add: vmread64_def load_u64_def upt_rec)
  have "\<exists>hs. nvc_release_lockers (Suc (Suc (Suc 0))) m h = Some (hs, [h, f])"
    using assms(3,9) by (simp add: nvc_release_lockers.simps next_h next_f)
  then show ?thesis using alloc assms(1) by (auto simp: numeral_3_eq_3)
qed

definition example_lockers :: lockers where
  "example_lockers = \<lparr>lk_mem = vmwrite64 (vmwrite64 (\<lambda>_. 0xff) 4096 8192) 8192 0, lk_head = 4096, lk_tail = 4096\<rparr>"

theorem third_page_drops_second_witness:
  "\<exists>k'. nvc_alloc_locker_slot 2 12288 example_lockers = Some (12360, k')"
proof -
  have "page_taken (lk_mem example_lockers, p) = {0 ..< 512}" if "p = 4096 \<or> p = 8192" for p
  proof -
    have "lk_mem example_lockers (p + 8 + j div 8) = 0xff" if "j < 512" for j
      using \<open>p = 4096 \<or> p = 8192\<close> that by (auto simp: example_lockers_def vmwrite_wr wr_def div_less_iff_less_mult)
    then have "bitmap_bit (lk_mem example_lockers) (p + 8) j" if "j < 512" for j
      unfolding bitmap_bit_def using that bit_full_byte [of j] by metis
    then show ?thesis by (auto simp: page_taken_def locker_bitmap_def)
  qed
  moreover have "locker_next (lk_mem example_lockers) 4096 = 8192" "locker_next (lk_mem example_lockers) 8192 = 0"
    by (simp_all add: example_lockers_def locker_next_def vmwrite_wr vmcb)
  ultimately show ?thesis
    using third_page_drops_second [of example_lockers 4096 8192 12288] by (auto simp: example_lockers_def locker_slot_def)
qed

end
