(* ===== verification/Crc.thy ===== *)
theory Crc
  imports Prelude
begin

text \<open>
  The checksum of code integrity (\<open>xpf_core/ci.c\<close>, \<open>xpf_core/ci.h\<close>): CRC-32C of a page, a byte at a time
  with a table.
\<close>

section \<open>The checksum\<close>

definition crc32c_table :: "u32 list" where
  "crc32c_table = [
   0x00000000, 0xf26b8303, 0xe13b70f7, 0x1350f3f4, 0xc79a971f, 0x35f1141c, 0x26a1e7e8, 0xd4ca64eb,
   0x8ad958cf, 0x78b2dbcc, 0x6be22838, 0x9989ab3b, 0x4d43cfd0, 0xbf284cd3, 0xac78bf27, 0x5e133c24,
   0x105ec76f, 0xe235446c, 0xf165b798, 0x030e349b, 0xd7c45070, 0x25afd373, 0x36ff2087, 0xc494a384,
   0x9a879fa0, 0x68ec1ca3, 0x7bbcef57, 0x89d76c54, 0x5d1d08bf, 0xaf768bbc, 0xbc267848, 0x4e4dfb4b,
   0x20bd8ede, 0xd2d60ddd, 0xc186fe29, 0x33ed7d2a, 0xe72719c1, 0x154c9ac2, 0x061c6936, 0xf477ea35,
   0xaa64d611, 0x580f5512, 0x4b5fa6e6, 0xb93425e5, 0x6dfe410e, 0x9f95c20d, 0x8cc531f9, 0x7eaeb2fa,
   0x30e349b1, 0xc288cab2, 0xd1d83946, 0x23b3ba45, 0xf779deae, 0x05125dad, 0x1642ae59, 0xe4292d5a,
   0xba3a117e, 0x4851927d, 0x5b016189, 0xa96ae28a, 0x7da08661, 0x8fcb0562, 0x9c9bf696, 0x6ef07595,
   0x417b1dbc, 0xb3109ebf, 0xa0406d4b, 0x522bee48, 0x86e18aa3, 0x748a09a0, 0x67dafa54, 0x95b17957,
   0xcba24573, 0x39c9c670, 0x2a993584, 0xd8f2b687, 0x0c38d26c, 0xfe53516f, 0xed03a29b, 0x1f682198,
   0x5125dad3, 0xa34e59d0, 0xb01eaa24, 0x42752927, 0x96bf4dcc, 0x64d4cecf, 0x77843d3b, 0x85efbe38,
   0xdbfc821c, 0x2997011f, 0x3ac7f2eb, 0xc8ac71e8, 0x1c661503, 0xee0d9600, 0xfd5d65f4, 0x0f36e6f7,
   0x61c69362, 0x93ad1061, 0x80fde395, 0x72966096, 0xa65c047d, 0x5437877e, 0x4767748a, 0xb50cf789,
   0xeb1fcbad, 0x197448ae, 0x0a24bb5a, 0xf84f3859, 0x2c855cb2, 0xdeeedfb1, 0xcdbe2c45, 0x3fd5af46,
   0x7198540d, 0x83f3d70e, 0x90a324fa, 0x62c8a7f9, 0xb602c312, 0x44694011, 0x5739b3e5, 0xa55230e6,
   0xfb410cc2, 0x092a8fc1, 0x1a7a7c35, 0xe811ff36, 0x3cdb9bdd, 0xceb018de, 0xdde0eb2a, 0x2f8b6829,
   0x82f63b78, 0x709db87b, 0x63cd4b8f, 0x91a6c88c, 0x456cac67, 0xb7072f64, 0xa457dc90, 0x563c5f93,
   0x082f63b7, 0xfa44e0b4, 0xe9141340, 0x1b7f9043, 0xcfb5f4a8, 0x3dde77ab, 0x2e8e845f, 0xdce5075c,
   0x92a8fc17, 0x60c37f14, 0x73938ce0, 0x81f80fe3, 0x55326b08, 0xa759e80b, 0xb4091bff, 0x466298fc,
   0x1871a4d8, 0xea1a27db, 0xf94ad42f, 0x0b21572c, 0xdfeb33c7, 0x2d80b0c4, 0x3ed04330, 0xccbbc033,
   0xa24bb5a6, 0x502036a5, 0x4370c551, 0xb11b4652, 0x65d122b9, 0x97baa1ba, 0x84ea524e, 0x7681d14d,
   0x2892ed69, 0xdaf96e6a, 0xc9a99d9e, 0x3bc21e9d, 0xef087a76, 0x1d63f975, 0x0e330a81, 0xfc588982,
   0xb21572c9, 0x407ef1ca, 0x532e023e, 0xa145813d, 0x758fe5d6, 0x87e466d5, 0x94b49521, 0x66df1622,
   0x38cc2a06, 0xcaa7a905, 0xd9f75af1, 0x2b9cd9f2, 0xff56bd19, 0x0d3d3e1a, 0x1e6dcdee, 0xec064eed,
   0xc38d26c4, 0x31e6a5c7, 0x22b65633, 0xd0ddd530, 0x0417b1db, 0xf67c32d8, 0xe52cc12c, 0x1747422f,
   0x49547e0b, 0xbb3ffd08, 0xa86f0efc, 0x5a048dff, 0x8ecee914, 0x7ca56a17, 0x6ff599e3, 0x9d9e1ae0,
   0xd3d3e1ab, 0x21b862a8, 0x32e8915c, 0xc083125f, 0x144976b4, 0xe622f5b7, 0xf5720643, 0x07198540,
   0x590ab964, 0xab613a67, 0xb831c993, 0x4a5a4a90, 0x9e902e7b, 0x6cfbad78, 0x7fab5e8c, 0x8dc0dd8f,
   0xe330a81a, 0x115b2b19, 0x020bd8ed, 0xf0605bee, 0x24aa3f05, 0xd6c1bc06, 0xc5914ff2, 0x37faccf1,
   0x69e9f0d5, 0x9b8273d6, 0x88d28022, 0x7ab90321, 0xae7367ca, 0x5c18e4c9, 0x4f48173d, 0xbd23943e,
   0xf36e6f75, 0x0105ec76, 0x12551f82, 0xe03e9c81, 0x34f4f86a, 0xc69f7b69, 0xd5cf889d, 0x27a40b9e,
   0x79b737ba, 0x8bdcb4b9, 0x988c474d, 0x6ae7c44e, 0xbe2da0a5, 0x4c4623a6, 0x5f16d052, 0xad7d5351]"

definition crc_byte :: "u32 \<Rightarrow> u8 \<Rightarrow> u32" where
  "crc_byte crc b = crc32c_table ! unat (ucast (crc XOR ucast (b AND 0xff)) :: u8) XOR drop_bit 8 crc"

text \<open>A page is the 4096 bytes of memory from its base on.\<close>

definition noir_crc32_page_std :: "(u64 \<Rightarrow> u8) \<Rightarrow> u64 \<Rightarrow> u32" where
  "noir_crc32_page_std mem p = foldl (\<lambda>crc i. crc_byte crc (mem (p + of_nat i))) 0xffffffff [0 ..< 4096]"

section \<open>Reference: division by the Castagnoli polynomial, bit by bit\<close>

definition crc_bit :: "u32 \<Rightarrow> u32" where
  "crc_bit c = (if bit c 0 then drop_bit 1 c XOR 0x82F63B78 else drop_bit 1 c)"

definition crc_ref :: "u32 \<Rightarrow> u8 \<Rightarrow> u32" where
  "crc_ref c b = (crc_bit ^^ 8) (c XOR ucast b)"

lemma crc_bit_xor: "crc_bit (x XOR y) = crc_bit x XOR crc_bit y"
  by (rule bit_word_eqI) (auto simp: crc_bit_def bit_xor_iff bit_drop_bit_eq)

lemma crc_bits_xor: "(crc_bit ^^ n) (x XOR y) = (crc_bit ^^ n) x XOR (crc_bit ^^ n) y"
  by (induction n) (simp_all add: crc_bit_xor)

text \<open>Zero bits only shift.\<close>

lemma crc_bits_shift: "take_bit n x = 0 \<Longrightarrow> (crc_bit ^^ n) x = drop_bit n x"
proof (induction n)
  case (Suc n)
  then have low: "\<not> bit x k" if "k < Suc n" for k
    using that bit_take_bit_iff [of "Suc n" x k] by simp
  then have "take_bit n x = 0" by (intro bit_word_eqI) (simp add: bit_take_bit_iff)
  then have "(crc_bit ^^ n) x = drop_bit n x" by (rule Suc.IH)
  moreover have "crc_bit (drop_bit n x) = drop_bit 1 (drop_bit n x)" using low [of n] by (simp add: crc_bit_def bit_drop_bit_eq)
  ultimately show ?case by (simp add: drop_bit_drop_bit)
qed simp

lemma crc_bits8: "(crc_bit ^^ 8) x = crc_bit (crc_bit (crc_bit (crc_bit (crc_bit (crc_bit (crc_bit (crc_bit x)))))))"
  by (simp add: numeral_eq_Suc)

primrec double_table :: "u32 list \<Rightarrow> u32 list \<Rightarrow> u32 list" where
  "double_table [] t = t"
| "double_table (b # bs) t = double_table bs (t @ map (\<lambda>x. x XOR b) t)"

lemma crc_powers: "map (crc_bit ^^ 8) [1, 2, 4, 8, 16, 32, 64, 128] =
    [0xf26b8303, 0xe13b70f7, 0xc79a971f, 0x8ad958cf, 0x105ec76f, 0x20bd8ede, 0x417b1dbc, 0x82f63b78]"
  by (simp add: crc_bits8 crc_bit_def)

lemma double_crc: "double_table [0xf26b8303, 0xe13b70f7, 0xc79a971f, 0x8ad958cf, 0x105ec76f, 0x20bd8ede, 0x417b1dbc, 0x82f63b78] [0] = crc32c_table"
  by (simp add: crc32c_table_def)

lemma number_split:
  assumes "i < 2 ^ j"
  shows "(of_nat (i + 2 ^ j) :: u32) = of_nat i XOR 2 ^ j"
proof -
  have "i = take_bit j i" using assms by (simp add: take_bit_nat_eq_self)
  then have "\<not> bit i j" by (metis bit_take_bit_iff less_irrefl)
  then have "(of_nat i :: u32) AND 2 ^ j = 0"
    by (intro bit_word_eqI) (auto simp: bit_and_iff bit_exp_iff bit_of_nat_iff)
  then show ?thesis by (simp add: disjunctive_add_eq_xor)
qed

lemma double_next:
  "map (\<lambda>i. (crc_bit ^^ 8) (of_nat i)) [0 ..< 2 ^ Suc j] =
     (let t = map (\<lambda>i. (crc_bit ^^ 8) (of_nat i)) [0 ..< 2 ^ j] in t @ map (\<lambda>x. x XOR (crc_bit ^^ 8) (2 ^ j)) t)"
proof -
  have "[0 ..< 2 ^ Suc j] = [0 ..< 2 ^ j] @ map (\<lambda>i. i + 2 ^ j) [0 ..< (2 :: nat) ^ j]"
    by (simp add: map_add_upt mult_2 flip: upt_add_eq_append [of 0 "2 ^ j" "2 ^ j", simplified])
  moreover have "(crc_bit ^^ 8) (of_nat (i + 2 ^ j)) = (crc_bit ^^ 8) (of_nat i) XOR (crc_bit ^^ 8) (2 ^ j)" if "i < 2 ^ j" for i
    using that by (simp only: number_split crc_bits_xor)
  ultimately show ?thesis
    by (simp add: Let_def o_def del: upt_Suc of_nat_add)
qed

lemma double_crc_table:
  "j \<le> n \<Longrightarrow> double_table (map (\<lambda>k. (crc_bit ^^ 8) (2 ^ k)) [j ..< n]) (map (\<lambda>i. (crc_bit ^^ 8) (of_nat i)) [0 ..< 2 ^ j]) =
     map (\<lambda>i. (crc_bit ^^ 8) (of_nat i)) [0 ..< 2 ^ n]"
proof (induction "n - j" arbitrary: j)
  case (Suc d)
  then have "[j ..< n] = j # [Suc j ..< n]" by (simp add: upt_conv_Cons)
  then show ?case using Suc.hyps(1) [of "Suc j"] Suc.hyps(2) Suc.prems double_next [of j] by (simp add: Let_def)
qed simp

lemma crc_table_map: "crc32c_table = map (\<lambda>i. (crc_bit ^^ 8) (of_nat i)) [0 ..< 2 ^ 8]"
proof -
  have "map (\<lambda>k. (crc_bit ^^ 8) (2 ^ k)) [0 ..< 8] = map (crc_bit ^^ 8) [1, 2, 4, 8, 16, 32, 64, 128]"
    by (simp add: upt_rec)
  moreover have "map (\<lambda>i. (crc_bit ^^ 8) (of_nat i)) [0 ..< 2 ^ 0] = [0 :: u32]"
    by (simp add: crc_bits8 crc_bit_def)
  ultimately show ?thesis
    using double_crc_table [of 0 8] unfolding crc_powers by (simp only: double_crc)
qed

lemma crc_table_entry:
  assumes "i < 256"
  shows "crc32c_table ! i = (crc_bit ^^ 8) (of_nat i)"
proof -
  have "i < 2 ^ 8 - 0" using assms by simp
  then show ?thesis unfolding crc_table_map by (simp only: nth_map_upt add_0)
qed

lemma crc_byte_ref: "crc_byte c b = crc_ref c b"
proof -
  have "(0xff :: u8) = - 1" by simp
  then have mask: "b AND 0xff = b" by (metis and.right_neutral)
  define x where "x = c XOR ucast b"
  have low: "crc32c_table ! unat (ucast x :: u8) = (crc_bit ^^ 8) (take_bit 8 x)"
  proof -
    have "unat (ucast x :: u8) < 256" using unsigned_less [of "ucast x :: u8"] by simp
    moreover have "(of_nat (unat (ucast x :: u8)) :: u32) = take_bit 8 x"
      by (rule bit_word_eqI) (auto simp: bit_simps)
    ultimately show ?thesis using crc_table_entry by simp
  qed
  have parts: "x = take_bit 8 x XOR push_bit 8 (drop_bit 8 x)" by (rule bit_word_eqI) (auto simp: bit_simps)
  have "take_bit 8 (push_bit 8 (drop_bit 8 x)) = 0" by (rule bit_word_eqI) (auto simp: bit_simps)
  then have "(crc_bit ^^ 8) (push_bit 8 (drop_bit 8 x)) = drop_bit 8 (push_bit 8 (drop_bit 8 x))" by (rule crc_bits_shift)
  also have "\<dots> = drop_bit 8 x" by (rule bit_word_eqI) (auto simp: bit_simps dest: bit_imp_le_length)
  also have "drop_bit 8 x = drop_bit 8 c" unfolding x_def by (rule bit_word_eqI) (auto simp: bit_simps dest: bit_imp_le_length)
  finally have "(crc_bit ^^ 8) x = (crc_bit ^^ 8) (take_bit 8 x) XOR drop_bit 8 c"
    by (subst parts) (simp add: crc_bits_xor)
  then show ?thesis by (simp add: crc_byte_def crc_ref_def mask low flip: x_def)
qed

text \<open>C32: the checksum of a page that the table computes a byte at a time is CRC-32C: starting from all
  ones, every byte is divided by the Castagnoli polynomial bit by bit.\<close>

theorem page_crc_is_crc32c:
  "noir_crc32_page_std mem p = foldl (\<lambda>crc i. crc_ref crc (mem (p + of_nat i))) 0xffffffff [0 ..< 4096]"
  by (simp only: noir_crc32_page_std_def crc_byte_ref)

section \<open>Detection\<close>

lemma xor_cancel: "(a XOR c = b XOR c) = (a = b)" "(c XOR a = c XOR b) = (a = b)" for a b c :: "'a::len word"
  by (metis xor.assoc xor.commute xor.right_neutral xor_self_eq)+

lemma crc_bit_inj: "crc_bit x = crc_bit y \<longleftrightarrow> x = y"
proof
  assume eq: "crc_bit x = crc_bit y"
  define d where "d = x XOR y"
  have "crc_bit d = 0" using eq by (simp add: d_def crc_bit_xor)
  have "\<not> bit d 0"
  proof
    assume "bit d 0"
    moreover have "\<not> bit d 32" using bit_imp_le_length [of d 32] by auto
    ultimately have "bit (crc_bit d) 31" by (simp add: crc_bit_def bit_simps)
    then show False using \<open>crc_bit d = 0\<close> by simp
  qed
  then have "drop_bit 1 d = 0" using \<open>crc_bit d = 0\<close> by (simp add: crc_bit_def)
  have "d = 0"
  proof (rule bit_word_eqI)
    fix n
    show "bit d n = bit 0 n"
    proof (cases n)
      case (Suc k)
      then show ?thesis using arg_cong [OF \<open>drop_bit 1 d = 0\<close>, of "\<lambda>w. bit w k"] by (simp add: bit_simps)
    qed (use \<open>\<not> bit d 0\<close> in simp)
  qed
  then show "x = y" using xor_cancel(1) [of x y y] by (simp add: d_def)
qed simp

lemma crc_bits_inj: "(crc_bit ^^ n) x = (crc_bit ^^ n) y \<longleftrightarrow> x = y"
  by (induction n) (simp_all add: crc_bit_inj)

definition crc_run :: "u32 \<Rightarrow> u8 list \<Rightarrow> u32" where
  "crc_run c bs = foldl crc_ref c bs"

lemma crc_run_inj: "crc_run c bs = crc_run d bs \<longleftrightarrow> c = d"
proof (induction bs arbitrary: c d)
  case (Cons b bs)
  have "crc_ref c b = crc_ref d b \<longleftrightarrow> c = d" by (simp add: crc_ref_def crc_bits_inj xor_cancel)
  then show ?case using Cons.IH [of "crc_ref c b" "crc_ref d b"] by (simp add: crc_run_def)
qed (simp add: crc_run_def)

lemma crc_run_append: "crc_run c (as @ bs) = crc_run (crc_run c as) bs"
  by (simp add: crc_run_def)

text \<open>Up to four bytes are taken in at once.\<close>

fun packed :: "u8 list \<Rightarrow> u32" where
  "packed [] = 0"
| "packed (b # bs) = ucast b XOR push_bit 8 (packed bs)"

lemma packed_bit: "bit (packed bs) n \<longleftrightarrow> n < 32 \<and> n div 8 < length bs \<and> bit (bs ! (n div 8)) (n mod 8)"
proof (induction bs arbitrary: n)
  case (Cons b bs)
  show ?case
  proof (cases "n < 8")
    case True
    then show ?thesis by (auto simp: bit_simps)
  next
    case False
    have "n div 8 = Suc ((n - 8) div 8)" "n mod 8 = (n - 8) mod 8" using False by (simp_all add: le_div_geq le_mod_geq)
    then show ?thesis using Cons.IH [of "n - 8"] False bit_imp_le_length [of b n] by (auto simp: bit_simps)
  qed
qed simp

lemma crc_run_packed: "length bs \<le> 4 \<Longrightarrow> crc_run c bs = (crc_bit ^^ (8 * length bs)) (c XOR packed bs)"
proof (induction bs arbitrary: c)
  case (Cons b bs)
  have "take_bit 8 (push_bit 8 (packed bs)) = 0" by (rule bit_word_eqI) (auto simp: bit_simps)
  then have "(crc_bit ^^ 8) (push_bit 8 (packed bs)) = drop_bit 8 (push_bit 8 (packed bs))" by (rule crc_bits_shift)
  also have "\<dots> = packed bs"
    using Cons.prems by (intro bit_word_eqI) (auto simp: bit_simps packed_bit div_less_iff_less_mult)
  finally have "crc_ref c b XOR packed bs = (crc_bit ^^ 8) (c XOR packed (b # bs))"
    by (simp add: crc_ref_def crc_bits_xor xor.assoc)
  moreover have "crc_run c (b # bs) = crc_run (crc_ref c b) bs" by (simp add: crc_run_def)
  moreover have "(crc_bit ^^ (8 * length bs)) ((crc_bit ^^ 8) y) = (crc_bit ^^ (8 * length (b # bs))) y" for y
    using funpow_add [of "8 * length bs" 8 crc_bit] by (simp add: add.commute)
  ultimately show ?case using Cons by simp
qed (simp add: crc_run_def)

lemma packed_inj:
  assumes "length as = length bs" "length bs \<le> 4" "packed as = packed bs"
  shows "as = bs"
proof (rule nth_equalityI [OF assms(1)])
  fix i
  assume i: "i < length as"
  show "as ! i = bs ! i"
  proof (rule bit_word_eqI)
    fix n
    assume n: "n < LENGTH(8)"
    have "bit (packed as) (8 * i + n) = bit (packed bs) (8 * i + n)" using assms(3) by simp
    then show "bit (as ! i) n = bit (bs ! i) n" using i n assms(1,2) by (simp add: packed_bit)
  qed
qed

lemma crc_burst:
  assumes "length as = length bs" "length bs \<le> 4" "as \<noteq> bs"
  shows "crc_run c (pre @ as @ post) \<noteq> crc_run c (pre @ bs @ post)"
  using assms packed_inj [OF assms(1,2)]
  by (auto simp: crc_run_append crc_run_inj crc_run_packed crc_bits_inj xor_cancel)

lemma page_crc_run: "noir_crc32_page_std mem p = crc_run 0xffffffff (map (\<lambda>i. mem (p + of_nat i)) [0 ..< 4096])"
  by (simp only: noir_crc32_page_std_def crc_byte_ref crc_run_def foldl_map)

text \<open>C33: every change of a page that is confined to four consecutive bytes changes its checksum.\<close>

theorem burst_detected:
  assumes "k + 4 \<le> 4096" "\<And>i. i < 4096 \<Longrightarrow> i < k \<or> k + 4 \<le> i \<Longrightarrow> mem' (p + of_nat i) = mem (p + of_nat i)"
    "j < 4096" "mem' (p + of_nat j) \<noteq> mem (p + of_nat j)"
  shows "noir_crc32_page_std mem' p \<noteq> noir_crc32_page_std mem p"
proof -
  let ?m = "\<lambda>m i. m (p + of_nat i)"
  have split: "[0 ..< 4096] = [0 ..< k] @ [k ..< k + 4] @ [k + 4 ..< 4096]"
    using assms(1) upt_add_eq_append [of 0 k "4096 - k"] upt_add_eq_append [of k "k + 4" "4096 - (k + 4)"] by simp
  have same: "map (?m mem') [0 ..< k] = map (?m mem) [0 ..< k]" "map (?m mem') [k + 4 ..< 4096] = map (?m mem) [k + 4 ..< 4096]"
    using assms(1,2) by simp_all
  have "k \<le> j" "j < k + 4" using assms(2) [OF assms(3)] assms(4) by (metis not_le)+
  then have "j \<in> set [k ..< k + 4]" by simp
  then have "map (?m mem') [k ..< k + 4] \<noteq> map (?m mem) [k ..< k + 4]" using assms(4) by (auto dest: map_eq_conv [THEN iffD1])
  then show ?thesis
    unfolding page_crc_run split map_append same by (intro crc_burst) simp_all
qed

theorem burst_detected_witness:
  "noir_crc32_page_std ((\<lambda>_. 0)(0x1003 := 1)) 0x1000 \<noteq> noir_crc32_page_std (\<lambda>_. 0) 0x1000"
proof (rule burst_detected [of 0 _ _ _ 3])
  fix i :: nat
  assume i: "i < 4096" "i < 0 \<or> 0 + 4 \<le> i"
  have "unat (of_nat i :: u64) = i" using i(1) by (simp add: unat_of_nat take_bit_nat_eq_self)
  then have "(of_nat i :: u64) \<noteq> 3" using i(2) by auto
  then show "((\<lambda>_. 0)(0x1003 := 1)) (0x1000 + of_nat i :: u64) = (0 :: u8)" by simp
qed simp_all

end
