(* ===== verification/Ci.thy ===== *)
theory Ci
  imports Crc Search Vendor Paging_Units "HOL-Library.Multiset"
begin

text \<open>
  Code integrity (\<open>xpf_core/ci.c\<close>): the list of protected pages, the thread that compares their
  checksums in turn, and the search by which a nested page fault recognizes a protected page.
\<close>

section \<open>State\<close>

record noir_ci_page =
  cp_virt :: u64
  cp_phys :: u64
  cp_crc :: u32
  cp_soft :: bool
  cp_hard :: bool

text \<open>\<open>page_ci\<close> is the array at the end of the page that holds the context: a header of 32 bytes and as many
  entries of 24 bytes as fit.\<close>

record noir_ci_context =
  ci_limit :: u32
  ci_pages :: u32
  ci_soft :: bool
  ci_hard :: bool
  page_ci :: "noir_ci_page list"

definition sizeof_noir_ci_context :: nat where "sizeof_noir_ci_context = 32"
definition sizeof_noir_ci_page :: nat where "sizeof_noir_ci_page = 24"

text \<open>What the host provides: physical addresses, the checksum by instructions of the processor, and
  whether it has them.\<close>

record ci_services =
  cs_physical :: "u64 \<Rightarrow> u64"
  cs_crc32_page_sse :: "(u64 \<Rightarrow> u8) \<Rightarrow> u64 \<Rightarrow> u32"
  cs_sse42 :: bool

definition noir_crc32_page :: "ci_services \<Rightarrow> (u64 \<Rightarrow> u8) \<Rightarrow> u64 \<Rightarrow> u32" where
  "noir_crc32_page e = (if cs_sse42 e then cs_crc32_page_sse e else noir_crc32_page_std)"

section \<open>Adding pages\<close>

definition bytes_to_pages :: "u32 \<Rightarrow> u32" where
  "bytes_to_pages x = drop_bit 12 x + (if x AND 0xFFF \<noteq> 0 then 1 else 0)"

definition ci_entry :: "ci_services \<Rightarrow> (u64 \<Rightarrow> u8) \<Rightarrow> u64 \<Rightarrow> bool \<Rightarrow> noir_ci_context \<Rightarrow> noir_ci_page" where
  "ci_entry e mem virt enable_scan c =
     \<lparr>cp_virt = virt, cp_phys = cs_physical e virt, cp_crc = noir_crc32_page e mem virt,
      cp_soft = (if enable_scan then ci_soft c else False), cp_hard = ci_hard c\<rparr>"

text \<open>The first \<open>n\<close> iterations; a write past the array is \<open>None\<close>.\<close>

primrec add_pages :: "ci_services \<Rightarrow> (u64 \<Rightarrow> u8) \<Rightarrow> u64 \<Rightarrow> bool \<Rightarrow> nat \<Rightarrow> noir_ci_context \<Rightarrow> noir_ci_context option" where
  "add_pages e mem base enable_scan 0 c = Some c"
| "add_pages e mem base enable_scan (Suc n) c =
     Option.bind (add_pages e mem base enable_scan n c)
       (\<lambda>c1. let i = unat (ci_pages c1) + n in
          if i < length (page_ci c1)
          then Some (c1\<lparr>page_ci := (page_ci c1)[i := ci_entry e mem (base + ucast (push_bit 12 (of_nat n :: u32))) enable_scan c1]\<rparr>)
          else None)"

definition noir_add_section_to_ci ::
    "ci_services \<Rightarrow> (u64 \<Rightarrow> u8) \<Rightarrow> u64 \<Rightarrow> u32 \<Rightarrow> bool \<Rightarrow> noir_ci_context \<Rightarrow> (bool \<times> noir_ci_context) option" where
  "noir_add_section_to_ci e mem base len enable_scan c =
     (let page_num = bytes_to_pages len in
      if ci_limit c \<le> ci_pages c + page_num then Some (False, c)
      else map_option (\<lambda>c1. (True, c1\<lparr>ci_pages := ci_pages c1 + page_num\<rparr>))
             (add_pages e mem base enable_scan (unat page_num) c))"

section \<open>Start\<close>

definition amd64_cpuid_ext_svm_features :: u32 where "amd64_cpuid_ext_svm_features = 0x8000000A"
definition amd64_cpuid_npt :: nat where "amd64_cpuid_npt = 0"

text \<open>\<open>proc_ctrl2\<close> is the upper half of the register of secondary controls. A processor of Intel that does not
  support VT-x falls through to the check for AMD.\<close>

definition noir_check_slat_paging :: "core_services \<Rightarrow> cpuid \<Rightarrow> u32 \<Rightarrow> bool option" where
  "noir_check_slat_paging cs cpuid proc_ctrl2 =
     (let svm_check = noir_bt (cpuid_edx (cpuid amd64_cpuid_ext_svm_features 0)) amd64_cpuid_npt in
      map_option (\<lambda>manuf.
          if vt_vendor manuf then (if nvc_is_vt_supported cs then noir_bt proc_ctrl2 2 else svm_check)
          else if svm_vendor manuf then svm_check
          else False)
        (nvc_confirm_cpu_manufacturer (c_string (noir_get_vendor_string cpuid))))"

definition zero_ci_page :: noir_ci_page where
  "zero_ci_page = \<lparr>cp_virt = 0, cp_phys = 0, cp_crc = 0, cp_soft = False, cp_hard = False\<rparr>"

definition fresh_ci_context :: "bool \<Rightarrow> bool \<Rightarrow> noir_ci_context" where
  "fresh_ci_context soft_ci hard_ci =
     (let limit = (4096 - sizeof_noir_ci_context) div sizeof_noir_ci_page in
      \<lparr>ci_limit = of_nat limit, ci_pages = 0, ci_soft = soft_ci, ci_hard = hard_ci, page_ci = replicate limit zero_ci_page\<rparr>)"

text \<open>\<open>page\<close> is the allocated page, 0 when there is none. The page is its own first protected page, and is not
  scanned. The result is \<open>noir_ci\<close>, which keeps a page that has been freed.\<close>

definition noir_initialize_ci ::
    "ci_services \<Rightarrow> bool option \<Rightarrow> (u64 \<Rightarrow> u8) \<Rightarrow> u64 \<Rightarrow> bool \<Rightarrow> bool \<Rightarrow> (bool \<times> noir_ci_context option) option" where
  "noir_initialize_ci e slat mem page soft_ci hard_ci =
     Option.bind slat (\<lambda>slat. let use_hard = hard_ci \<and> slat in
       if use_hard \<or> soft_ci then
         (if page = 0 then Some (False, None)
          else map_option (\<lambda>(added, c). (added, Some c))
                 (noir_add_section_to_ci e mem page 4096 False (fresh_ci_context soft_ci hard_ci)))
       else Some (False, None))"

text \<open>\<open>qsort\<close> is the sorting routine of the host, \<open>thread\<close> says whether the thread was created.\<close>

definition noir_activate_ci ::
    "(noir_ci_page list \<Rightarrow> noir_ci_page list) \<Rightarrow> bool \<Rightarrow> noir_ci_context option \<Rightarrow> bool \<times> noir_ci_context option" where
  "noir_activate_ci qsort thread ci =
     (case ci of None \<Rightarrow> (False, None)
      | Some c \<Rightarrow>
          (if ci_soft c \<and> \<not> thread then (False, Some c)
           else (True, Some (if ci_hard c
                  then c\<lparr>page_ci := qsort (take (unat (ci_pages c)) (page_ci c)) @ drop (unat (ci_pages c)) (page_ci c)\<rparr>
                  else c))))"

section \<open>The scanning thread\<close>

text \<open>One iteration on the selected page with the memory of that moment: whether it panics, and the page
  selected next.\<close>

definition ci_iteration :: "ci_services \<Rightarrow> noir_ci_context \<Rightarrow> (u64 \<Rightarrow> u8) \<Rightarrow> u32 \<Rightarrow> (u64 option \<times> u32) option" where
  "ci_iteration e c mem selected =
     map_option (\<lambda>p.
        (if \<not> cp_soft p then None
         else if noir_crc32_page e mem (cp_virt p) \<noteq> cp_crc p then Some (cp_virt p) else None,
         if selected + 1 = ci_pages c then 0 else selected + 1))
       (nth_opt (page_ci c) (unat selected))"

text \<open>The panics of \<open>n\<close> iterations, and the selected page after them.\<close>

primrec noir_ci_enforcement_worker ::
    "ci_services \<Rightarrow> noir_ci_context \<Rightarrow> (nat \<Rightarrow> u64 \<Rightarrow> u8) \<Rightarrow> nat \<Rightarrow> (u64 option list \<times> u32) option" where
  "noir_ci_enforcement_worker e c mems 0 = Some ([], 0)"
| "noir_ci_enforcement_worker e c mems (Suc n) =
     Option.bind (noir_ci_enforcement_worker e c mems n)
       (\<lambda>(events, selected). map_option (\<lambda>(ev, next). (events @ [ev], next)) (ci_iteration e c (mems n) selected))"

section \<open>The search\<close>

definition ci_probe :: "noir_ci_context \<Rightarrow> u64 \<Rightarrow> u32 \<Rightarrow> probe option" where
  "ci_probe c phys mid =
     map_option (\<lambda>p. if phys < cp_phys p then Before else if cp_phys p + 4096 \<le> phys then After else Found)
       (nth_opt (page_ci c) (unat mid))"

text \<open>The inner result is the virtual address that belongs to \<open>phys\<close>.\<close>

definition noir_ci_is_ci_phys_page :: "noir_ci_context \<Rightarrow> u64 \<Rightarrow> u64 option option" where
  "noir_ci_is_ci_phys_page c phys =
     (case bsearch 200 (ci_probe c phys) 0 (ci_pages c) of
        Hit mid \<Rightarrow> Some (Some (cp_virt (page_ci c ! unat mid) + (phys AND 0xFFF)))
      | Miss \<Rightarrow> Some None
      | _ \<Rightarrow> None)"

section \<open>Bounds\<close>

definition ci_ok :: "noir_ci_context \<Rightarrow> bool" where
  "ci_ok c \<longleftrightarrow> ci_limit c = 169 \<and> length (page_ci c) = 169 \<and> unat (ci_pages c) < 169"

lemma ci_ok_fresh: "ci_ok (fresh_ci_context soft_ci hard_ci)"
  by (simp add: ci_ok_def fresh_ci_context_def sizeof_noir_ci_context_def sizeof_noir_ci_page_def Let_def)

text \<open>What the loop leaves: the entries outside the new ones are as before.\<close>

lemma add_pages_effect:
  assumes "unat (ci_pages c) + n \<le> length (page_ci c)"
  shows "\<exists>ps. add_pages e mem base enable_scan n c = Some (c\<lparr>page_ci := ps\<rparr>) \<and> length ps = length (page_ci c) \<and>
    (\<forall>i < length ps. ps ! i = (if unat (ci_pages c) \<le> i \<and> i < unat (ci_pages c) + n
       then ci_entry e mem (base + ucast (push_bit 12 (of_nat (i - unat (ci_pages c)) :: u32))) enable_scan c
       else page_ci c ! i))"
  using assms
proof (induction n)
  case (Suc n)
  then obtain ps where ps: "add_pages e mem base enable_scan n c = Some (c\<lparr>page_ci := ps\<rparr>)" "length ps = length (page_ci c)"
    "\<forall>i < length ps. ps ! i = (if unat (ci_pages c) \<le> i \<and> i < unat (ci_pages c) + n
       then ci_entry e mem (base + ucast (push_bit 12 (of_nat (i - unat (ci_pages c)) :: u32))) enable_scan c
       else page_ci c ! i)" by auto
  have "ci_entry e mem v enable_scan (c\<lparr>page_ci := ps\<rparr>) = ci_entry e mem v enable_scan c" for v by (simp add: ci_entry_def)
  then show ?case
    using ps Suc.prems by (auto simp: Let_def nth_list_update intro!: exI [of _ "ps[unat (ci_pages c) + n := _]"])
qed (auto intro: exI [of _ "page_ci c"])

text \<open>The entries of a section, and the list that sections build up: a section that does not fit is left out.\<close>

definition section_entries :: "ci_services \<Rightarrow> (u64 \<Rightarrow> u8) \<Rightarrow> bool \<Rightarrow> bool \<Rightarrow> u64 \<times> u32 \<times> bool \<Rightarrow> noir_ci_page list" where
  "section_entries e mem soft hard = (\<lambda>(base, len, scan). map (\<lambda>k.
     ci_entry e mem (base + 4096 * of_nat k) scan (fresh_ci_context soft hard)) [0 ..< unat (bytes_to_pages len)])"

definition build_list :: "ci_services \<Rightarrow> (u64 \<Rightarrow> u8) \<Rightarrow> bool \<Rightarrow> bool \<Rightarrow> noir_ci_page list \<Rightarrow> u64 \<times> u32 \<times> bool \<Rightarrow> noir_ci_page list" where
  "build_list e mem soft hard ps sec =
     (if length ps + length (section_entries e mem soft hard sec) < 169 then ps @ section_entries e mem soft hard sec else ps)"

primrec add_sections :: "ci_services \<Rightarrow> (u64 \<Rightarrow> u8) \<Rightarrow> (u64 \<times> u32 \<times> bool) list \<Rightarrow> noir_ci_context \<Rightarrow> noir_ci_context option" where
  "add_sections e mem [] c = Some c"
| "add_sections e mem (sec # secs) c =
     (case sec of (base, len, scan) \<Rightarrow>
        Option.bind (noir_add_section_to_ci e mem base len scan c) (\<lambda>(added, c1). add_sections e mem secs c1))"

lemma bytes_to_pages_small: "unat (bytes_to_pages len) \<le> 2 ^ 20"
proof -
  have d: "unat (drop_bit 12 len) < 2 ^ 20"
    using unsigned_less [of len, where 'a = nat] by (simp add: drop_bit_eq_div unat_div_distrib div_less_iff_less_mult)
  then have "unat (drop_bit 12 len + 1) = unat (drop_bit 12 len) + 1" by (simp add: unat_word_ariths)
  then show ?thesis using d by (simp add: bytes_to_pages_def)
qed

definition building_list :: "ci_services \<Rightarrow> bool \<Rightarrow> bool \<Rightarrow> noir_ci_page list \<Rightarrow> noir_ci_context \<Rightarrow> bool" where
  "building_list e soft hard ps c \<longleftrightarrow> ci_limit c = 169 \<and> ci_soft c = soft \<and> ci_hard c = hard \<and>
     length ps < 169 \<and> unat (ci_pages c) = length ps \<and> page_ci c = ps @ replicate (169 - length ps) zero_ci_page"

lemma small_mult: "k < 169 \<Longrightarrow> ucast (push_bit 12 (of_nat k :: u32)) = (4096 * of_nat k :: u64)"
proof -
  assume k: "k < 169"
  have "unat (push_bit 12 (of_nat k :: u32)) = 4096 * k"
    using k by (simp add: push_bit_eq_mult unat_word_ariths unat_of_nat take_bit_nat_eq_self)
  moreover have "unat (4096 * of_nat k :: u64) = 4096 * k"
    using k by (simp add: unat_word_ariths unat_of_nat take_bit_nat_eq_self)
  ultimately have "unat (ucast (push_bit 12 (of_nat k :: u32)) :: u64) = unat (4096 * of_nat k :: u64)"
    using k by (simp add: unsigned_ucast_eq take_bit_nat_eq_self)
  then show ?thesis by (simp only: word_unat_eq_iff)
qed

lemma add_section_list:
  assumes "building_list e soft hard ps c"
  shows "\<exists>added c1. noir_add_section_to_ci e mem base len scan c = Some (added, c1) \<and>
    building_list e soft hard (build_list e mem soft hard ps (base, len, scan)) c1"
proof -
  let ?n = "unat (bytes_to_pages len)" and ?k = "unat (ci_pages c)"
  have c: "ci_limit c = 169" "length (page_ci c) = 169" "?k < 169" "ci_soft c = soft" "ci_hard c = hard"
      "page_ci c = ps @ replicate (169 - ?k) zero_ci_page" and len: "length ps = ?k"
    using assms by (auto simp: building_list_def)
  have sum: "unat (ci_pages c + bytes_to_pages len) = ?k + ?n"
    using c(3) bytes_to_pages_small [of len] by (simp add: unat_word_ariths)
  have n: "length (section_entries e mem soft hard (base, len, scan)) = ?n" by (simp add: section_entries_def)
  show ?thesis
  proof (cases "?k + ?n < 169")
    case False
    then have "ci_limit c \<le> ci_pages c + bytes_to_pages len" using c(1) sum by (simp add: word_le_nat_alt)
    then show ?thesis using assms False len n by (auto simp: noir_add_section_to_ci_def build_list_def)
  next
    case True
    then have fits: "\<not> ci_limit c \<le> ci_pages c + bytes_to_pages len" using c(1) sum by (simp add: word_le_nat_alt)
    obtain qs where qs: "add_pages e mem base scan ?n c = Some (c\<lparr>page_ci := qs\<rparr>)" "length qs = length (page_ci c)"
      "\<forall>i < length qs. qs ! i = (if ?k \<le> i \<and> i < ?k + ?n
         then ci_entry e mem (base + ucast (push_bit 12 (of_nat (i - ?k) :: u32))) scan c else page_ci c ! i)"
      using add_pages_effect [of c ?n e mem base scan] c(2) True by auto
    have entry: "ci_entry e mem v scan c = ci_entry e mem v scan (fresh_ci_context soft hard)" for v
      using c(4,5) by (simp add: ci_entry_def fresh_ci_context_def Let_def)
    have "qs = ps @ section_entries e mem soft hard (base, len, scan) @ replicate (169 - (?k + ?n)) zero_ci_page" (is "_ = ?list")
    proof (rule nth_equalityI)
      show "length qs = length ?list" using qs(2) c(2) True len n by simp
      fix i
      assume i: "i < length qs"
      consider "i < ?k" | d where "i = ?k + d" "d < ?n" | "?k + ?n \<le> i" by (metis le_Suc_ex not_less nat_add_left_cancel_less)
      then show "qs ! i = ?list ! i"
      proof cases
        case 1
        then show ?thesis using qs(3) i c(6) len by (simp add: nth_append)
      next
        case (2 d)
        then have "d < 169" using True by simp
        then have "qs ! i = ci_entry e mem (base + 4096 * of_nat d) scan c"
          using qs(3) i 2 small_mult by (simp del: of_nat_add)
        then show ?thesis using 2 len entry n by (simp add: nth_append) (simp add: section_entries_def)
      next
        case 3
        then have "qs ! i = page_ci c ! i" using qs(3) i by simp
        also have "\<dots> = zero_ci_page" using c(6) len 3 i qs(2) c(2) by (simp add: nth_append)
        finally show ?thesis using 3 len n i qs(2) c(2) by (simp add: nth_append)
      qed
    qed
    moreover have "noir_add_section_to_ci e mem base len scan c =
        Some (True, c\<lparr>page_ci := qs, ci_pages := ci_pages c + bytes_to_pages len\<rparr>)"
      using fits qs(1) by (simp add: noir_add_section_to_ci_def)
    ultimately show ?thesis
      using True c qs(2) sum len n by (auto simp: building_list_def build_list_def)
  qed
qed

lemma add_sections_list:
  "building_list e soft hard ps c \<Longrightarrow>
     \<exists>c1. add_sections e mem secs c = Some c1 \<and> building_list e soft hard (foldl (build_list e mem soft hard) ps secs) c1"
proof (induction secs arbitrary: ps c)
  case (Cons sec secs)
  obtain base len scan where sec: "sec = (base, len, scan)" by (cases sec)
  obtain added c1 where c1: "noir_add_section_to_ci e mem base len scan c = Some (added, c1)"
    "building_list e soft hard (build_list e mem soft hard ps (base, len, scan)) c1"
    using add_section_list [OF Cons.prems] by metis
  show ?case using Cons.IH [OF c1(2)] c1(1) sec by simp
qed simp

text \<open>C34: whatever sections are added, the list of protected pages stays inside the page that holds it,
  one entry is always left free, and the list holds, in order, the pages of the sections that fitted, with
  the checksum they had.\<close>

theorem protected_list_bounded:
  "\<exists>c. add_sections e mem secs (fresh_ci_context soft hard) = Some c \<and>
     take (unat (ci_pages c)) (page_ci c) = foldl (build_list e mem soft hard) [] secs \<and> unat (ci_pages c) + 1 \<le> length (page_ci c) \<and>
     sizeof_noir_ci_context + sizeof_noir_ci_page * length (page_ci c) \<le> 4096"
proof -
  have "building_list e soft hard [] (fresh_ci_context soft hard)"
    by (simp add: building_list_def fresh_ci_context_def sizeof_noir_ci_context_def sizeof_noir_ci_page_def Let_def)
  from add_sections_list [OF this, of mem secs] show ?thesis
    by (auto simp: building_list_def sizeof_noir_ci_context_def sizeof_noir_ci_page_def)
qed

section \<open>Scanning\<close>

text \<open>The pages are selected in turn.\<close>

lemma worker_turns:
  assumes "0 < unat (ci_pages c)" "unat (ci_pages c) \<le> length (page_ci c)"
  shows "\<exists>events. noir_ci_enforcement_worker e c mems n = Some (events, of_nat (n mod unat (ci_pages c))) \<and> length events = n \<and>
    (\<forall>t < n. events ! t = (let p = page_ci c ! (t mod unat (ci_pages c)) in
       if cp_soft p \<and> noir_crc32_page e (mems t) (cp_virt p) \<noteq> cp_crc p then Some (cp_virt p) else None))"
proof (induction n)
  case (Suc n)
  let ?p = "unat (ci_pages c)" and ?s = "of_nat (n mod unat (ci_pages c)) :: u32"
  obtain events where ev: "noir_ci_enforcement_worker e c mems n = Some (events, ?s)" "length events = n"
    "\<forall>t < n. events ! t = (let p = page_ci c ! (t mod ?p) in
       if cp_soft p \<and> noir_crc32_page e (mems t) (cp_virt p) \<noteq> cp_crc p then Some (cp_virt p) else None)" using Suc by blast
  have m: "n mod ?p < ?p" using assms(1) by simp
  have small: "?p < 2 ^ 32" using unsigned_less [of "ci_pages c", where 'a = nat] by simp
  have s: "unat ?s = n mod ?p" using m small by (simp add: unat_of_nat take_bit_nat_eq_self)
  have last: "?s + 1 = ci_pages c \<longleftrightarrow> n mod ?p + 1 = ?p"
  proof -
    have "unat (?s + 1) = n mod ?p + 1" using s m small by (simp add: unat_word_ariths)
    then show ?thesis by (metis word_unat_eq_iff)
  qed
  have next_page: "(if ?s + 1 = ci_pages c then 0 else ?s + 1) = (of_nat (Suc n mod ?p) :: u32)"
    unfolding last using m by (auto simp: mod_Suc)
  have "nth_opt (page_ci c) (unat ?s) = Some (page_ci c ! (n mod ?p))" using m assms(2) s by simp
  then show ?case
    using ev next_page by (auto simp: ci_iteration_def Let_def nth_append less_Suc_eq)
qed simp


section \<open>Searching\<close>

text \<open>What sorting the entries promises: distinct pages in increasing order, none of them the first page of
  physical memory nor the last.\<close>

definition ci_sorted :: "noir_ci_context \<Rightarrow> bool" where
  "ci_sorted c \<longleftrightarrow> ci_ok c \<and> page_ci c ! unat (ci_pages c) = zero_ci_page \<and>
     (\<forall>i < unat (ci_pages c). cp_phys (page_ci c ! i) \<le> 0xFFFFFFFFFFFFE000 \<and> (\<forall>j < i. cp_phys (page_ci c ! j) + 4096 \<le> cp_phys (page_ci c ! i)))"

lemma ci_slots:
  assumes "ci_sorted c" "4096 \<le> phys"
  shows "sorted_slots (ci_probe c phys) (unat (ci_pages c))"
proof
  let ?n = "unat (ci_pages c)" and ?p = "\<lambda>i. cp_phys (page_ci c ! i)"
  have ok: "length (page_ci c) = 169" "?n < 169" using assms(1) by (auto simp: ci_sorted_def ci_ok_def)
  have num: "unat (of_nat i :: u32) = i" if "i < 169" for i using that by (simp add: unat_of_nat take_bit_nat_eq_self)
  have probe: "ci_probe c phys (of_nat i) = Some (if phys < ?p i then Before else if ?p i + 4096 \<le> phys then After else Found)"
    if "i < 169" for i using that ok by (simp add: ci_probe_def num nth_opt_def)
  have no_wrap: "unat (?p i + 4096) = unat (?p i) + 4096" if "i < ?n" for i
    using assms(1) that by (auto simp: ci_sorted_def word_le_nat_alt unat_word_ariths)
  have up: "unat (?p j) + 4096 \<le> unat (?p i)" if "j < i" "i < ?n" for i j
  proof -
    have "unat (?p j + 4096) \<le> unat (?p i)" using assms(1) that by (simp add: ci_sorted_def word_le_nat_alt)
    then show ?thesis using no_wrap [of j] that by simp
  qed
  show "2 * ?n + 1 < 2 ^ LENGTH(32)" using ok by simp
  show "ci_probe c phys (of_nat i) \<noteq> None" if "i < ?n" for i using probe that ok by simp
  show "ci_probe c phys (of_nat j) = Some Before" if "i < j" "j < ?n" "ci_probe c phys (of_nat i) = Some Before" for i j
    using that probe [of i] probe [of j] up [of i j] ok by (auto simp: word_less_nat_alt word_le_nat_alt split: if_splits)
  show "ci_probe c phys (of_nat i) = Some After" if "i < j" "j < ?n" "ci_probe c phys (of_nat j) = Some After" for i j
    using that probe [of i] probe [of j] up [of i j] no_wrap [of i] no_wrap [of j] ok
    by (auto simp: word_less_nat_alt word_le_nat_alt split: if_splits)
  have "page_ci c ! ?n = zero_ci_page" using assms(1) by (simp add: ci_sorted_def)
  then show "ci_probe c phys (of_nat ?n) \<in> {None, Some After}"
    using probe [of ?n] ok assms(2) by (simp add: zero_ci_page_def)
  show "ci_probe c phys (mask (LENGTH(32) - 1)) = None" using ok by (simp add: ci_probe_def nth_opt_def mask_eq_exp_minus_1)
qed

lemma pages_apart:
  assumes "4096 dvd unat (a :: u64)" "4096 dvd unat b" "a < b"
  shows "a + 4096 \<le> b"
proof -
  obtain x y where xy: "unat a = 4096 * x" "unat b = 4096 * y" using assms(1,2) by (metis dvdE)
  have "x < y" using assms(3) by (simp add: word_less_nat_alt xy)
  then have le: "unat a + 4096 \<le> unat b" using xy by simp
  moreover have "unat b < 2 ^ 64" using unsigned_less [of b, where 'a = nat] by simp
  ultimately have "unat (a + 4096) = unat a + 4096" by (simp add: unat_word_ariths)
  then show ?thesis using le by (simp add: word_le_nat_alt)
qed

lemma activated_sorted:
  assumes "building_list e soft True ps c" "mset (qsort ps) = mset ps" "sorted (map cp_phys (qsort ps))"
    "distinct (map cp_phys ps)" "\<forall>p \<in> set ps. 4096 dvd unat (cp_phys p) \<and> cp_phys p \<le> 0xFFFFFFFFFFFFE000"
    "noir_activate_ci qsort thread (Some c) = (True, Some d)"
  shows "ci_sorted d \<and> unat (ci_pages d) = length ps \<and> page_ci d = qsort ps @ replicate (169 - length ps) zero_ci_page"
proof -
  let ?qs = "qsort ps"
  have c: "ci_limit c = 169" "ci_hard c" "length ps < 169" "unat (ci_pages c) = length ps" "page_ci c = ps @ replicate (169 - length ps) zero_ci_page"
    using assms(1) by (simp_all add: building_list_def)
  have d: "page_ci d = ?qs @ replicate (169 - length ps) zero_ci_page" "ci_pages d = ci_pages c" "ci_limit d = 169"
    using assms(6) c by (auto simp: noir_activate_ci_def split: if_splits)
  have len: "length ?qs = length ps" and elems: "set ?qs = set ps" using assms(2) by (metis size_mset, metis set_mset_mset)
  have "mset (map cp_phys ?qs) = mset (map cp_phys ps)" using assms(2) by simp
  then have "distinct (map cp_phys ?qs)" using assms(4) mset_eq_imp_distinct_iff by blast
  then have strict: "sorted_wrt (<) (map cp_phys ?qs)" using assms(3) by (simp add: strict_sorted_iff)
  have "cp_phys (?qs ! j) + 4096 \<le> cp_phys (?qs ! i)" if "j < i" "i < length ps" for i j
  proof (rule pages_apart)
    have "?qs ! i \<in> set ps" "?qs ! j \<in> set ps" using that len elems by (metis nth_mem, metis nth_mem less_trans)
    then show "4096 dvd unat (cp_phys (?qs ! j))" "4096 dvd unat (cp_phys (?qs ! i))" using assms(5) by blast+
    show "cp_phys (?qs ! j) < cp_phys (?qs ! i)" using strict that len by (simp add: sorted_wrt_iff_nth_less)
  qed
  moreover have "cp_phys (?qs ! i) \<le> 0xFFFFFFFFFFFFE000" if "i < length ps" for i
    using that len elems assms(5) by (metis nth_mem)
  ultimately have "ci_sorted d"
    using d c(3,4) len by (simp add: ci_sorted_def ci_ok_def nth_append)
  then show ?thesis using d c(4) by simp
qed

text \<open>The probes of a sorted list, and both ends of the search.\<close>

definition ci_holds :: "noir_ci_page \<Rightarrow> u64 \<Rightarrow> bool" where
  "ci_holds p phys \<longleftrightarrow> cp_phys p \<le> phys \<and> phys < cp_phys p + 4096"

lemma sorted_list:
  assumes "ci_sorted d" "unat (ci_pages d) = length qs" "page_ci d = qs @ replicate (169 - length qs) zero_ci_page" "i < length qs"
  shows "ci_probe d phys (of_nat i) = Some (if phys < cp_phys (qs ! i) then Before else if cp_phys (qs ! i) + 4096 \<le> phys then After else Found)"
    "j < i \<Longrightarrow> cp_phys (qs ! j) + 4096 \<le> cp_phys (qs ! i)" "length qs < 169" "ci_pages d = of_nat (length qs)"
    "unat (of_nat i :: u32) = i"
proof -
  show len: "length qs < 169" using assms(1,2) by (simp add: ci_sorted_def ci_ok_def)
  show num: "unat (of_nat i :: u32) = i" using assms(4) len by (simp add: unat_of_nat take_bit_nat_eq_self)
  show "ci_pages d = of_nat (length qs)" by (simp flip: assms(2))
  show "ci_probe d phys (of_nat i) = Some (if phys < cp_phys (qs ! i) then Before else if cp_phys (qs ! i) + 4096 \<le> phys then After else Found)"
    using assms(3,4) len by (simp add: ci_probe_def num nth_opt_def nth_append)
  show "cp_phys (qs ! j) + 4096 \<le> cp_phys (qs ! i)" if "j < i"
    using assms that by (auto simp: ci_sorted_def nth_append)
qed

lemma leaf_hit:
  assumes "ci_sorted d" "unat (ci_pages d) = length qs" "page_ci d = qs @ replicate (169 - length qs) zero_ci_page" "4096 \<le> phys"
    "k < length qs" "ci_holds (qs ! k) phys"
  shows "noir_ci_is_ci_phys_page d phys = Some (Some (cp_virt (qs ! k) + (phys AND 0xFFF)))"
proof -
  note list = sorted_list [OF assms(1-3)]
  have found: "ci_probe d phys (of_nat i) = Some Found \<longleftrightarrow> ci_holds (qs ! i) phys" if "i < length qs" for i
    using list(1) [OF that, of phys] by (auto simp: ci_holds_def not_less not_le)
  obtain m where m: "m < length qs" "bsearch 200 (ci_probe d phys) 0 (ci_pages d) = Hit (of_nat m)" "ci_holds (qs ! m) phys"
    using sorted_slots.found [OF ci_slots [OF assms(1,4)], of 200 k] found assms(2,5,6) list(3,4) [OF assms(5)] by auto
  have "\<not> m < k" "\<not> k < m"
    using list(2) [OF assms(5), of m] list(2) [OF m(1), of k] m(3) assms(6) unfolding ci_holds_def by (meson leD order_trans)+
  then have "m = k" by simp
  then show ?thesis using m(2) list(3,5) [OF assms(5)] assms(3,5) by (simp add: noir_ci_is_ci_phys_page_def nth_append)
qed

lemma leaf_miss:
  assumes "ci_sorted d" "unat (ci_pages d) = length qs" "page_ci d = qs @ replicate (169 - length qs) zero_ci_page" "4096 \<le> phys"
    "qs \<noteq> []" "\<forall>p \<in> set qs. \<not> ci_holds p phys" "sorted (map cp_phys qs)"
  shows "noir_ci_is_ci_phys_page d phys = (if \<forall>p \<in> set qs. phys < cp_phys p then None else Some None)"
proof -
  note list = sorted_list [OF assms(1-3)]
  have n0: "0 < length qs" using assms(5) by simp
  have no: "ci_probe d phys (of_nat i) \<noteq> Some Found" if "i < length qs" for i
    using list(1) [OF that, of phys] assms(6) nth_mem [OF that] by (auto simp: ci_holds_def not_less not_le)
  have all: "phys < cp_phys (qs ! 0) \<longleftrightarrow> (\<forall>p \<in> set qs. phys < cp_phys p)"
  proof
    assume low: "phys < cp_phys (qs ! 0)"
    show "\<forall>p \<in> set qs. phys < cp_phys p"
    proof
      fix p
      assume "p \<in> set qs"
      then obtain k where k: "k < length qs" "qs ! k = p" by (metis in_set_conv_nth)
      then have "map cp_phys qs ! 0 \<le> map cp_phys qs ! k" by (intro sorted_nth_mono [OF assms(7)]) simp_all
      then show "phys < cp_phys p" using low k n0 by simp
    qed
  qed (use n0 in simp)
  have "ci_probe d phys (of_nat (length qs)) \<noteq> None"
    using assms(2,3) list(3,4) [OF n0] by (simp add: ci_probe_def nth_opt_def)
  then show ?thesis
    using sorted_slots.missing [OF ci_slots [OF assms(1,4)], of 200] no n0 assms(2) list(3,4) [OF n0] list(1) [OF n0, of phys] all
    by (auto simp: noir_ci_is_ci_phys_page_def)
qed

text \<open>C36: on the activated list, whichever sections it was built from, the search finds every protected page
  and reports no other. But an address below the first protected page leads it out of the array: the upper
  bound wraps.\<close>

theorem protected_page_found:
  assumes "add_sections e mem secs (fresh_ci_context soft True) = Some c"
    "ps = take (unat (ci_pages c)) (page_ci c)" "mset (qsort ps) = mset ps" "sorted (map cp_phys (qsort ps))"
    "distinct (map cp_phys ps)" "\<forall>p \<in> set ps. 4096 dvd unat (cp_phys p) \<and> cp_phys p \<le> 0xFFFFFFFFFFFFE000"
    "noir_activate_ci qsort thread (Some c) = (True, Some d)" "4096 \<le> phys" "ps \<noteq> []"
  shows "(\<forall>p \<in> set ps. cp_phys p \<le> phys \<and> phys < cp_phys p + 4096 \<longrightarrow>
       noir_ci_is_ci_phys_page d phys = Some (Some (cp_virt p + (phys AND 0xFFF)))) \<and>
    ((\<forall>p \<in> set ps. \<not> (cp_phys p \<le> phys \<and> phys < cp_phys p + 4096)) \<longrightarrow>
       noir_ci_is_ci_phys_page d phys = (if \<forall>p \<in> set ps. phys < cp_phys p then None else Some None))"
proof -
  obtain qs where "building_list e soft True qs c"
    using add_sections_list [of e soft True "[]" "fresh_ci_context soft True" mem secs] assms(1)
    by (auto simp: building_list_def fresh_ci_context_def sizeof_noir_ci_context_def sizeof_noir_ci_page_def Let_def)
  moreover from this have "qs = ps" using assms(2) by (simp add: building_list_def)
  ultimately have "building_list e soft True ps c" by simp
  note act = activated_sorted [OF this assms(3-7)]
  have elems: "length (qsort ps) = length ps" "set (qsort ps) = set ps" using assms(3) by (metis size_mset, metis set_mset_mset)
  have d: "ci_sorted d" "unat (ci_pages d) = length (qsort ps)" "page_ci d = qsort ps @ replicate (169 - length (qsort ps)) zero_ci_page"
    using act elems by simp_all
  have "qsort ps \<noteq> []" using assms(9) elems(1) by auto
  from leaf_miss [OF d assms(8) this _ assms(4)] leaf_hit [OF d assms(8)] elems(2) show ?thesis
    unfolding ci_holds_def by (metis in_set_conv_nth)
qed

section \<open>Examples\<close>

definition example_ci_services :: ci_services where
  "example_ci_services = \<lparr>cs_physical = (\<lambda>v. v + 0x10000), cs_crc32_page_sse = (\<lambda>mem v. ucast (mem (v + 3))), cs_sse42 = True\<rparr>"

definition example_ci :: noir_ci_context where
  "example_ci = the (add_sections example_ci_services (\<lambda>_. 0) [(0x5000, 0x1001, True)] (fresh_ci_context True True))"

lemma example_ci: "add_sections example_ci_services (\<lambda>_. 0) [(0x5000, 0x1001, True)] (fresh_ci_context True True) = Some example_ci"
  "unat (ci_pages example_ci) = 2" "length (page_ci example_ci) = 169" "ci_hard example_ci"
  "take 2 (page_ci example_ci) = map (\<lambda>v. \<lparr>cp_virt = v, cp_phys = v + 0x10000, cp_crc = 0,
     cp_soft = True, cp_hard = True\<rparr>) [0x5000, 0x6000]"
proof -
  obtain c where c: "add_sections example_ci_services (\<lambda>_. 0) [(0x5000, 0x1001, True)] (fresh_ci_context True True) = Some c"
    "building_list example_ci_services True True (foldl (build_list example_ci_services (\<lambda>_. 0) True True) [] [(0x5000, 0x1001, True)]) c"
    using add_sections_list [of example_ci_services True True "[]" "fresh_ci_context True True" "\<lambda>_. 0" "[(0x5000, 0x1001, True)]"]
    by (auto simp: building_list_def fresh_ci_context_def sizeof_noir_ci_context_def sizeof_noir_ci_page_def Let_def)
  have n: "bytes_to_pages 0x1001 = 2" by (simp add: bytes_to_pages_def)
  have "foldl (build_list example_ci_services (\<lambda>_. 0) True True) [] [(0x5000, 0x1001, True)] =
    map (\<lambda>v. \<lparr>cp_virt = v, cp_phys = v + 0x10000, cp_crc = 0, cp_soft = True, cp_hard = True\<rparr>) [0x5000, 0x6000]"
    by (simp add: build_list_def section_entries_def n upt_rec_numeral ci_entry_def example_ci_services_def noir_crc32_page_def
      fresh_ci_context_def Let_def upt_rec)
  then show "add_sections example_ci_services (\<lambda>_. 0) [(0x5000, 0x1001, True)] (fresh_ci_context True True) = Some example_ci"
    "unat (ci_pages example_ci) = 2" "length (page_ci example_ci) = 169" "ci_hard example_ci"
    "take 2 (page_ci example_ci) = map (\<lambda>v. \<lparr>cp_virt = v, cp_phys = v + 0x10000, cp_crc = 0,
       cp_soft = True, cp_hard = True\<rparr>) [0x5000, 0x6000]"
    using c by (simp_all add: example_ci_def building_list_def)
qed


text \<open>Both pages are found at their addresses, and an address below them leads out of the array.\<close>

theorem protected_page_found_witness:
  "\<exists>d. noir_activate_ci (sort_key cp_phys) True (Some example_ci) = (True, Some d) \<and>
     noir_ci_is_ci_phys_page d 0x16004 = Some (Some 0x6004) \<and> noir_ci_is_ci_phys_page d 0x3000 = None"
proof -
  let ?ps = "take (unat (ci_pages example_ci)) (page_ci example_ci)"
  note ps = example_ci(2,5)
  obtain d where d: "noir_activate_ci (sort_key cp_phys) True (Some example_ci) = (True, Some d)" by (simp add: noir_activate_ci_def)
  have c: "mset (sort_key cp_phys ?ps) = mset ?ps" "sorted (map cp_phys (sort_key cp_phys ?ps))" "distinct (map cp_phys ?ps)"
    "\<forall>p \<in> set ?ps. 4096 dvd unat (cp_phys p) \<and> cp_phys p \<le> 0xFFFFFFFFFFFFE000" "?ps \<noteq> []" by (simp_all add: ps)
  note found = protected_page_found [OF example_ci(1) refl c(1-4) d _ c(5)]
  show ?thesis using d found [of "0x16004"] found [of "0x3000"] by (simp add: ps)
qed

end
