(* ===== verification/Nsv_Reassign.thy ===== *)
theory Nsv_Reassign
  imports Npt_Host_Progress Rmt_Laws
begin

text \<open>
  Reassigning pages of physical memory to another owner (\<open>svm_core/svm_npt.c\<close>): the nested paging of
  the host is split down to the pages, the reverse-mapping table is changed by a hypercall, and the
  rights that the host has to the pages are set by their new owners.
\<close>

section \<open>State\<close>

text \<open>The primary nested paging of the host, the reverse-mapping table, and the answers of the allocator.\<close>

record nsv_state =
  ns_npt :: npt_manager
  ns_rmt :: reverse_mapping
  ns_allocs :: allocs

section \<open>Setting the rights\<close>

definition remap_pte :: "u8 \<Rightarrow> u64 \<Rightarrow> u64" where
  "remap_pte ow e =
     (let put = bf_put amd64_npt_pte;
          e1 = (if ow = noir_nsv_rmt_noirvisor then put ''user'' 1 (put ''write'' 0 (put ''present'' 1 e))
                else if ow = noir_nsv_rmt_secure_guest then put ''user'' 0 (put ''write'' 0 (put ''present'' 0 e))
                else put ''user'' 1 (put ''write'' 1 (put ''present'' 1 e)))
      in put ''no_execute'' 0 e1)"

text \<open>One page: the table of its 2-MiB region must exist already. \<open>None\<close> is a null pointer of the
  reverse-mapping table or of the descriptor.\<close>

definition remap_page :: "u64 \<Rightarrow> nsv_state \<Rightarrow> (noir_status \<times> nsv_state) option" where
  "remap_page hpa s =
     Option.bind (nvc_get_rmt_entry (ns_rmt s) hpa) (\<lambda>rmt.
     Option.bind (nvc_npt_split_pdpte (ns_npt s) hpa True False (ns_allocs s)) (\<lambda>(pde_p, m1, al1).
     Option.bind (nvc_npt_split_pde m1 hpa True False al1) (\<lambda>(pte_p, m2, al2).
       let s2 = s\<lparr>ns_npt := m2, ns_allocs := al2\<rparr> in
       if pde_p = Null \<or> pte_p = Null then Some (noir_unsuccessful, s2)
       else (case pte_p of
           Desc j \<Rightarrow>
             (let i = page_entry_index64 (page_4kb_count hpa) in
              Option.bind rmt (\<lambda>p. map_option (\<lambda>e.
                (noir_success, s2\<lparr>ns_npt := set_pte m2 j i (remap_pte (rmt_owner e) (virt (ptes m2 ! j) i))\<rparr>))
                (rmt_deref (ns_rmt s) p)))
         | _ \<Rightarrow> None))))"

text \<open>\<open>st\<close> is the status so far; the caller does not initialize it. A page without a table ends the loop.\<close>

fun nvc_npt_reassign_page_ownership_hvrt :: "u64 list \<Rightarrow> noir_status \<Rightarrow> nsv_state \<Rightarrow> (noir_status \<times> nsv_state) option" where
  "nvc_npt_reassign_page_ownership_hvrt [] st s = Some (st, s)"
| "nvc_npt_reassign_page_ownership_hvrt (hpa # hs) st s =
     (case remap_page hpa s of
        None \<Rightarrow> None
      | Some (st1, s1) \<Rightarrow>
          if st1 = noir_unsuccessful then Some (st1, s1) else nvc_npt_reassign_page_ownership_hvrt hs st1 s1)"

section \<open>Reassignment\<close>

text \<open>The stages II and III, by the two hypercalls. The pages are given with their guest pages.\<close>

definition reassign_commit ::
    "noir_status \<Rightarrow> (u64 \<times> u64) list \<Rightarrow> u32 \<Rightarrow> bool \<Rightarrow> u8 \<Rightarrow> nsv_state \<Rightarrow> (bool \<times> nsv_state) option" where
  "reassign_commit st prs asid shared ow s =
     (case nsv_reassign_rmt (ns_rmt s) prs asid shared ow of
        None \<Rightarrow> None
      | Some (False, r) \<Rightarrow> Some (False, s\<lparr>ns_rmt := r\<rparr>)
      | Some (True, r) \<Rightarrow>
          map_option (\<lambda>(st1, s1). (st1 = noir_success, s1))
            (nvc_npt_reassign_page_ownership_hvrt (map fst prs) st (s\<lparr>ns_rmt := r\<rparr>)))"

text \<open>Stage I for one missing table: it is allocated and assigned to NoirVisor by \<open>assign\<close>, the function
  itself. The triple says whether to go on, and the variable \<open>result\<close>, which a failing allocation
  leaves alone.\<close>

type_synonym assign_page = "u64 \<Rightarrow> nsv_state \<Rightarrow> (bool \<times> nsv_state) option"

definition assign_table :: "assign_page \<Rightarrow> u64 \<Rightarrow> nsv_state \<Rightarrow> (bool \<times> bool \<times> nsv_state) option" where
  "assign_table assign p s = map_option (\<lambda>(r, s1). (r, r, s1)) (assign p s)"

definition make_pde :: "assign_page \<Rightarrow> u64 \<Rightarrow> bool \<Rightarrow> nsv_state \<Rightarrow> (bool \<times> bool \<times> nsv_state) option" where
  "make_pde assign hpa result s =
     (case nvc_npt_split_pdpte (ns_npt s) hpa False True (ns_allocs s) of
        None \<Rightarrow> None
      | Some (Null, m, al) \<Rightarrow> Some (False, result, s\<lparr>ns_npt := m, ns_allocs := al\<rparr>)
      | Some (Freed, m, al) \<Rightarrow> None
      | Some (Desc k, m, al) \<Rightarrow> assign_table assign (phys (pdes m ! k)) (s\<lparr>ns_npt := m, ns_allocs := al\<rparr>))"

definition make_pte :: "assign_page \<Rightarrow> u64 \<Rightarrow> bool \<Rightarrow> nsv_state \<Rightarrow> (bool \<times> bool \<times> nsv_state) option" where
  "make_pte assign hpa result s =
     (case nvc_npt_split_pde (ns_npt s) hpa False True (ns_allocs s) of
        None \<Rightarrow> None
      | Some (Null, m, al) \<Rightarrow> Some (False, result, s\<lparr>ns_npt := m, ns_allocs := al\<rparr>)
      | Some (Freed, m, al) \<Rightarrow> None
      | Some (Desc j, m, al) \<Rightarrow> assign_table assign (phys (ptes m ! j)) (s\<lparr>ns_npt := m, ns_allocs := al\<rparr>))"

definition prepare_page :: "assign_page \<Rightarrow> u64 \<Rightarrow> bool \<Rightarrow> nsv_state \<Rightarrow> (bool \<times> bool \<times> nsv_state) option" where
  "prepare_page assign hpa result s =
     Option.bind (nvc_npt_split_pdpte (ns_npt s) hpa False False (ns_allocs s)) (\<lambda>(pde_p, m1, al1).
     Option.bind (nvc_npt_split_pde m1 hpa False False al1) (\<lambda>(pte_p, m2, al2).
     let s0 = s\<lparr>ns_npt := m2, ns_allocs := al2\<rparr> in
     Option.bind (if pde_p = Null then make_pde assign hpa result s0 else Some (True, result, s0)) (\<lambda>(go1, result1, s1).
       if \<not> go1 then Some (False, result1, s1)
       else if pte_p = Null then make_pte assign hpa result1 s1 else Some (True, result1, s1))))"

fun prepare_pages :: "assign_page \<Rightarrow> u64 list \<Rightarrow> bool \<Rightarrow> nsv_state \<Rightarrow> (bool \<times> bool \<times> nsv_state) option" where
  "prepare_pages assign [] result s = Some (True, result, s)"
| "prepare_pages assign (hpa # hs) result s =
     (case prepare_page assign hpa result s of
        None \<Rightarrow> None
      | Some (go, result1, s1) \<Rightarrow> if go then prepare_pages assign hs result1 s1 else Some (False, result1, s1))"

text \<open>\<open>fuel\<close> bounds the recursion, which consumes an allocation each time.\<close>

primrec nvc_npt_reassign_page_ownership_unsafe ::
    "nat \<Rightarrow> noir_status \<Rightarrow> (u64 \<times> u64) list \<Rightarrow> u32 \<Rightarrow> bool \<Rightarrow> u8 \<Rightarrow> nsv_state \<Rightarrow> (bool \<times> nsv_state) option" where
  "nvc_npt_reassign_page_ownership_unsafe 0 st prs asid shared ow s = None"
| "nvc_npt_reassign_page_ownership_unsafe (Suc fuel) st prs asid shared ow s =
     (case prepare_pages (\<lambda>p. nvc_npt_reassign_page_ownership_unsafe fuel st [(p, p)] 0 True noir_nsv_rmt_noirvisor)
             (map fst prs) False s of
        None \<Rightarrow> None
      | Some (go, result, s1) \<Rightarrow> if go then reassign_commit st prs asid shared ow s1 else Some (result, s1))"

definition nvc_npt_reassign_page_ownership ::
    "bool \<Rightarrow> nat \<Rightarrow> noir_status \<Rightarrow> (u64 \<times> u64) list \<Rightarrow> u32 \<Rightarrow> bool \<Rightarrow> u8 \<Rightarrow> nsv_state \<Rightarrow> (bool \<times> nsv_state) option" where
  "nvc_npt_reassign_page_ownership enable_nsv fuel st prs asid shared ow s =
     (if enable_nsv then nvc_npt_reassign_page_ownership_unsafe fuel st prs asid shared ow s else Some (False, s))"

section \<open>All pages of a machine\<close>

text \<open>The pages of one slot that carry the identifier, with their guest pages.\<close>

definition slot_pages :: "u32 \<Rightarrow> noir_rmt_directory_entry \<Rightarrow> (u64 \<times> u64) list option" where
  "slot_pages vm_asid d =
     (let total_pages = unat (page_4kb_count (hpa_end d - hpa_start d)) in
      if total_pages = 0 then Some []
      else Option.bind (rm_table d) (\<lambda>t.
       if length t < total_pages then None
       else Some (map (\<lambda>j. (page_4kb_mult (of_nat j) + hpa_start d,
                            page_4kb_mult (bf_get noir_rmt_entry_high ''guest_pfn'' (high (t ! j)))))
              (filter (\<lambda>j. bf_get noir_rmt_entry_low ''asid'' (low (t ! j)) = ucast vm_asid) [0 ..< total_pages]))))"

fun asid_pages :: "u32 \<Rightarrow> noir_rmt_directory_entry list \<Rightarrow> (u64 \<times> u64) list option" where
  "asid_pages vm_asid [] = Some []"
| "asid_pages vm_asid (d # ds) =
     Option.bind (slot_pages vm_asid d) (\<lambda>ps. map_option ((@) ps) (asid_pages vm_asid ds))"

definition nvc_npt_reassign_cvm_all_pages_ownership ::
    "nat \<Rightarrow> noir_status \<Rightarrow> u32 \<Rightarrow> u32 \<Rightarrow> bool \<Rightarrow> u8 \<Rightarrow> nsv_state \<Rightarrow> (bool \<times> nsv_state) option" where
  "nvc_npt_reassign_cvm_all_pages_ownership fuel st vm_asid asid shared ow s =
     Option.bind (asid_pages vm_asid (take (unat (dir_count (ns_rmt s))) (directory (ns_rmt s)))) (\<lambda>ps.
       if (of_nat (length ps) :: u32) = 0 then Some (False, s)
       else
         (let (gpa_list, al1) = next_pool (ns_allocs s); (hpa_list, al2) = next_pool al1;
              s1 = s\<lparr>ns_allocs := al2\<rparr>
          in if gpa_list \<and> hpa_list
             then nvc_npt_reassign_page_ownership_unsafe fuel st (take (unat (of_nat (length ps) :: u32)) ps) asid shared ow s1
             else Some (False, s1)))"

section \<open>The pages of the hypervisor\<close>

definition hypervisor_pages :: "svm_hvm_pages \<Rightarrow> npt_manager \<Rightarrow> u64 list" where
  "hypervisor_pages hv m =
     concat (map (\<lambda>v. [vmcb_pa v, hvmcb_pa v, hsave_pa v]) (virtual_cpus hv)) @ [ncr3_pa m] @
     map (\<lambda>j. pdpt_pa m + push_bit 12 (of_nat j)) [0 ..< 512] @ map phys (pdes m) @ map phys (ptes m) @
     [msrpm_pa hv, msrpm_pa hv + 0x1000, iopm_pa hv, iopm_pa hv + 0x1000, iopm_pa hv + 0x2000]"

definition nvc_npt_build_reverse_map :: "svm_hvm_pages \<Rightarrow> npt_manager \<Rightarrow> reverse_mapping \<Rightarrow> reverse_mapping option" where
  "nvc_npt_build_reverse_map hv m r =
     configure_all r (map (\<lambda>p. (p, p)) (hypervisor_pages hv m)) 0 True noir_nsv_rmt_noirvisor"

end
