(* ===== verification/Nsv_Sealed.thy ===== *)
theory Nsv_Sealed
  imports Nsv_Reassign
begin

text \<open>
  What reassigning pages keeps: the tables stay well formed, and a page of a secure guest is never
  accessible to the host.
\<close>

section \<open>Splitting without linking\<close>

lemma pool_pages: "next_pool al = (b, al') \<Longrightarrow> granted_pages al = granted_pages al'"
  by simp

lemma page_pages: "next_page al = (q, al') \<Longrightarrow> granted_pages al = (case q of None \<Rightarrow> [] | Some p \<Rightarrow> [p]) @ granted_pages al'"
  by (auto simp: next_page_def granted_pages_def List.map_filter_simps split: list.splits option.splits)

text \<open>The pages that are tables or may become tables.\<close>

definition table_frames :: "npt_manager \<Rightarrow> allocs \<Rightarrow> u64 list" where
  "table_frames m al = map phys (pdes m) @ map phys (ptes m) @ granted_pages al"

lemma table_frames_frame [simp]:
  "table_frames (m\<lparr>pdpt := f\<rparr>) al = table_frames m al"
  "table_frames (set_pde m k i e) al = table_frames m al"
  "table_frames (set_pte m k i e) al = table_frames m al"
  by (simp_all add: table_frames_def set_pde_def set_pte_def)

lemma find_or_make_pde_frames:
  assumes "find_or_make_pde m gpa alloc al = (d, m', al')"
  shows "set (table_frames m' al') \<subseteq> set (table_frames m al)"
  using assms
  by (auto simp: find_or_make_pde_def table_frames_def split_desc_def dest!: pool_pages page_pages
      split: option.splits if_splits prod.splits bool.splits)

lemma split_pdpte_frames:
  assumes "nvc_npt_split_pdpte m gpa host alloc al = Some (d, m', al')"
  shows "set (table_frames m' al') \<subseteq> set (table_frames m al)"
proof -
  obtain d1 m1 al1 where f: "find_or_make_pde m gpa alloc al = (d1, m1, al1)" by (rule prod_cases3)
  have "al' = al1 \<and> table_frames m' al' = table_frames m1 al1"
    using assms by (auto simp: nvc_npt_split_pdpte_def set_pdpt_Some f split: desc_ref.splits if_splits)
  then show ?thesis using find_or_make_pde_frames [OF f] by metis
qed

lemma find_or_make_pte_frames:
  assumes "find_or_make_pte m gpa host alloc al = Some (d, m', al')"
  shows "set (table_frames m' al') \<subseteq> set (table_frames m al)"
proof (cases "find_desc page_2mb_size gpa (ptes m) = None \<and> alloc")
  case False
  then show ?thesis using assms by (auto simp: find_or_make_pte_def split: option.splits)
next
  case True
  obtain b al1 where b: "next_pool al = (b, al1)" by fastforce
  obtain q al2 where q: "next_page al1 = (q, al2)" by fastforce
  have lost: "set (table_frames m al1) = set (table_frames m al)" "set (table_frames m al2) \<subseteq> set (table_frames m al)"
    using pool_pages [OF b] page_pages [OF q] by (auto simp: table_frames_def)
  show ?thesis
  proof (cases "b \<and> q \<noteq> None")
    case False
    then show ?thesis using assms True b q lost by (cases b) (auto simp: find_or_make_pte_def)
  next
    case have_page: True
    then obtain p where p: "q = Some p" "b" by auto
    obtain d1 m1 where d1: "nvc_npt_split_pdpte m gpa host True al2 = Some (d1, m1, al')"
      and m': "m' = m1 \<or> m' = m1\<lparr>ptes := ptes m1 @ [split_desc 12 fresh_pte p (page_2mb_count gpa)]\<rparr>"
      using assms True b q p by (auto simp: find_or_make_pte_def split: option.splits desc_ref.splits)
    have "set (table_frames m' al') \<subseteq> insert p (set (table_frames m1 al'))"
      using m' by (auto simp: table_frames_def split_desc_def)
    also have "\<dots> \<subseteq> insert p (set (table_frames m al2))"
      using split_pdpte_frames [OF d1] by blast
    also have "\<dots> \<subseteq> set (table_frames m al)"
      using pool_pages [OF b] page_pages [OF q] p by (auto simp: table_frames_def)
    finally show ?thesis .
  qed
qed

lemma split_pde_frames:
  assumes "nvc_npt_split_pde m gpa host alloc al = Some (d, m', al')"
  shows "set (table_frames m' al') \<subseteq> set (table_frames m al)"
proof -
  obtain t m1 al1 where t: "find_or_make_pte m gpa host alloc al = Some (t, m1, al1)"
    using assms by (auto simp: nvc_npt_split_pde_def split: option.splits)
  show ?thesis
  proof (cases host)
    case False
    then show ?thesis using assms t find_or_make_pte_frames [OF t] by (simp add: nvc_npt_split_pde_def)
  next
    case True
    obtain q m2 where q: "nvc_npt_split_pdpte m1 gpa True alloc al1 = Some (q, m2, al')"
      and m': "table_frames m' al' = table_frames m2 al'"
      using assms t True by (auto simp: nvc_npt_split_pde_def Let_def split: option.splits desc_ref.splits)
    show ?thesis
      using find_or_make_pte_frames [OF t] split_pdpte_frames [OF q] m' by simp
  qed
qed

text \<open>Looking without allocating.\<close>

lemma split_query:
  assumes "nvc_npt_split_pdpte m gpa False False al = Some (d, m', al')"
  shows "m' = m \<and> al' = al \<and> d = (case find_desc page_1gb_size gpa (pdes m) of None \<Rightarrow> Null | Some k \<Rightarrow> Desc k)"
  using assms by (auto simp: nvc_npt_split_pdpte_def find_or_make_pde_def split: option.splits)

lemma split_query2:
  assumes "nvc_npt_split_pde m gpa False False al = Some (d, m', al')"
  shows "m' = m \<and> al' = al \<and> d = (case find_desc page_2mb_size gpa (ptes m) of None \<Rightarrow> Null | Some k \<Rightarrow> Desc k)"
  using assms by (auto simp: nvc_npt_split_pde_def find_or_make_pte_def split: option.splits)

text \<open>Splitting without linking shows the host what it saw before.\<close>

definition unseen :: "u64 list \<Rightarrow> npt_manager \<Rightarrow> npt_manager \<Rightarrow> allocs \<Rightarrow> bool" where
  "unseen held m m' al' \<longleftrightarrow> wf_host m' \<and> same_view m m' \<and> host_fresh held m' al'"

lemma host_fresh_lose:
  "host_fresh held m al \<Longrightarrow> next_pool al = (b, al1) \<Longrightarrow> host_fresh held m al1"
  "host_fresh held m al \<Longrightarrow> next_page al = (None, al1) \<Longrightarrow> host_fresh held m al1"
  by (auto simp: host_fresh_def dest!: pool_pages page_pages)

lemma split_pdpte_unseen:
  assumes wf: "wf_host m" "low_half gpa" "host_fresh held m al"
    and r: "nvc_npt_split_pdpte m gpa False alloc al = Some (d, m', al')"
  shows "unseen held m m' al' \<and> ptes m' = ptes m \<and> (\<forall>k. d = Desc k \<longrightarrow> k < length (pdes m'))"
proof (cases d)
  case (Desc k)
  then show ?thesis
    using find_or_make_pde_law [OF wf, of alloc k m' al'] r by (simp add: nvc_npt_split_pdpte_def unseen_def split: prod.splits)
next
  case Null
  then show ?thesis
    using wf r by (auto simp: nvc_npt_split_pdpte_def find_or_make_pde_def unseen_def intro: host_fresh_lose
        split: prod.splits option.splits if_splits bool.splits)
next
  case Freed
  then show ?thesis
    using wf r by (auto simp: nvc_npt_split_pdpte_def find_or_make_pde_def unseen_def intro: host_fresh_lose
        split: prod.splits option.splits if_splits bool.splits)
qed

lemma unseen_refl: "wf_host m \<Longrightarrow> host_fresh held m al \<Longrightarrow> unseen held m m al"
  by (simp add: unseen_def)

lemma unseen_trans: "unseen held m m1 al1 \<Longrightarrow> unseen held m1 m2 al2 \<Longrightarrow> unseen held m m2 al2"
  by (auto simp: unseen_def intro: same_view_trans)

lemma unseen_add_pte:
  assumes "unseen (p # held) m m1 al" "ptes m1 = ptes m" "low_half gpa" "table_of 21 (ptes m) gpa = None" "page_frame p"
  shows "unseen held m (m1\<lparr>ptes := ptes m1 @ [split_desc 12 fresh_pte p (drop_bit 21 gpa)]\<rparr>) al"
proof -
  let ?t = "split_desc 12 fresh_pte p (drop_bit 21 gpa)"
  have m1: "wf_host m1" "same_view m m1" "host_fresh (p # held) m1 al"
    using assms(1) by (simp_all add: unseen_def)
  show ?thesis
    using view_add_pte [OF refl m1(1) assms(3) _ assms(5) host_fresh_add(2) [OF m1(3)]] assms(2,4)
      host_fresh_add(4) [OF m1(3), of ?t] same_view_trans [OF m1(2)]
    by (simp add: unseen_def split_desc_def)
qed

lemma split_pde_unseen:
  assumes wf: "wf_host m" "low_half gpa" "host_fresh held m al"
    and r: "nvc_npt_split_pde m gpa False alloc al = Some (d, m', al')"
  shows "unseen held m m' al' \<and> (\<forall>k. d = Desc k \<longrightarrow> k < length (ptes m'))"
proof (cases "find_desc page_2mb_size gpa (ptes m)")
  case (Some k)
  then have "find_desc (2 ^ 21) gpa (ptes m) = Some k" by (simp add: page_2mb_size_def)
  from wf_hostD(4) [OF wf(1)] have "21 \<le> (39 :: nat) \<Longrightarrow> k < length (ptes m)"
    by (rule find_desc_cases [where gpa = gpa]) (use \<open>find_desc (2 ^ 21) gpa (ptes m) = Some k\<close> in auto)
  then show ?thesis using r wf Some by (auto simp: nvc_npt_split_pde_def find_or_make_pte_def unseen_refl)
next
  case none: None
  from wf_hostD(4) [OF wf(1)] have "21 \<le> (39 :: nat) \<Longrightarrow> table_of 21 (ptes m) gpa = None"
    by (rule find_desc_cases [where gpa = gpa]) (use none in \<open>auto simp: page_2mb_size_def\<close>)
  then have none': "table_of 21 (ptes m) gpa = None" by simp
  obtain b al1 where b: "next_pool al = (b, al1)" by fastforce
  obtain q al2 where q: "next_page al1 = (q, al2)" by fastforce
  have f1: "host_fresh held m al1" by (rule host_fresh_lose(1) [OF wf(3) b])
  note f2 = host_fresh_lose(2) [OF f1]
  show ?thesis
  proof (cases "alloc \<and> b \<and> q \<noteq> None")
    case False
    then show ?thesis
      using r none b q f1 f2 wf by (cases alloc; cases b) (auto simp: nvc_npt_split_pde_def find_or_make_pte_def unseen_refl)
  next
    case True
    then obtain p where p: "q = Some p" "b" by auto
    note fresh = host_fresh_next [OF wf(3) b [unfolded p(2) [THEN eqTrueI]] q [unfolded p(1)]]
    obtain d1 m1 where d1: "nvc_npt_split_pdpte m gpa False True al2 = Some (d1, m1, al')"
      and m': "d1 = Null \<and> d = Freed \<and> m' = m1 \<or>
        d = Desc (length (ptes m1)) \<and> m' = m1\<lparr>ptes := ptes m1 @ [split_desc 12 fresh_pte p (drop_bit 21 gpa)]\<rparr>"
      using r True none b q p
      by (auto simp: nvc_npt_split_pde_def find_or_make_pte_def page_2mb_count_def split: option.splits desc_ref.splits)
    from split_pdpte_unseen [OF wf(1,2) fresh(2) d1]
    have u: "unseen (p # held) m m1 al'" "ptes m1 = ptes m" by simp_all
    then have "unseen held m m1 al'" by (auto simp: unseen_def host_fresh_def)
    then show ?thesis
      using m' unseen_add_pte [OF u wf(2) none' fresh(1)] by auto
  qed
qed

section \<open>The invariant\<close>

text \<open>All physical memory that the table knows lies in the lower half of the address space.\<close>

definition low_memory :: "reverse_mapping \<Rightarrow> bool" where
  "low_memory r \<longleftrightarrow> (\<forall>x. rmt_lookup r x \<noteq> None \<longrightarrow> low_half x)"

definition nsv_ok :: "u64 list \<Rightarrow> nsv_state \<Rightarrow> bool" where
  "nsv_ok held s \<longleftrightarrow> wf_host (ns_npt s) \<and> host_fresh held (ns_npt s) (ns_allocs s) \<and>
     (\<forall>p \<in> set (table_frames (ns_npt s) (ns_allocs s)). low_half p) \<and> wf_rmt (ns_rmt s) \<and>
     0 < rmt_used (ns_rmt s) \<and> low_memory (ns_rmt s)"

text \<open>The address is present for the host; a page that is not present refuses every access.\<close>

definition host_reaches :: "nsv_state \<Rightarrow> u64 \<Rightarrow> bool" where
  "host_reaches s x \<longleftrightarrow> fst (fst (host_walk (ns_npt s) x))"

definition sealed :: "nsv_state \<Rightarrow> bool" where
  "sealed s \<longleftrightarrow> (\<forall>x e. low_half x \<longrightarrow> rmt_lookup (ns_rmt s) x = Some e \<longrightarrow> rmt_owner e = noir_nsv_rmt_secure_guest \<longrightarrow> \<not> host_reaches s x)"

lemma host_reaches_map: "nsv_ok held s \<Longrightarrow> low_half x \<Longrightarrow> host_reaches s x = fst (fst (host_map (ns_npt s) x))"
  by (simp add: host_reaches_def nsv_ok_def host_walk_map)

definition moves_to :: "u64 list \<Rightarrow> nsv_state \<Rightarrow> nsv_state \<Rightarrow> bool" where
  "moves_to held s s' \<longleftrightarrow> nsv_ok held s' \<and> (sealed s \<longrightarrow> sealed s')"

lemma moves_refl: "nsv_ok held s \<Longrightarrow> moves_to held s s"
  by (simp add: moves_to_def)

lemma moves_trans: "moves_to held s s1 \<Longrightarrow> moves_to held s1 s2 \<Longrightarrow> moves_to held s s2"
  by (simp add: moves_to_def)

lemma moves_unseen:
  assumes ok: "nsv_ok held s" and u: "unseen held (ns_npt s) m al"
    and sub: "set (table_frames m al) \<subseteq> set (table_frames (ns_npt s) (ns_allocs s))"
  shows "moves_to held s (s\<lparr>ns_npt := m, ns_allocs := al\<rparr>)"
proof -
  let ?s = "s\<lparr>ns_npt := m, ns_allocs := al\<rparr>"
  have ok': "nsv_ok held ?s" using ok u sub by (auto simp: nsv_ok_def unseen_def)
  moreover have "sealed ?s" if "sealed s"
    using that u host_reaches_map [OF ok] host_reaches_map [OF ok'] by (simp add: sealed_def unseen_def same_view_def)
  ultimately show ?thesis by (simp add: moves_to_def)
qed

section \<open>Setting the rights of one page\<close>

definition owner_rights :: "u8 \<Rightarrow> rights" where
  "owner_rights ow = (if ow = noir_nsv_rmt_noirvisor then (True, False, True)
     else if ow = noir_nsv_rmt_secure_guest then (False, False, True) else full_access)"

lemma remap_pte_fields:
  "rights (remap_pte ow e) = owner_rights ow"
  "bf_get amd64_npt_pte ''page_base'' (remap_pte ow e) = bf_get amd64_npt_pte ''page_base'' e"
proof -
  show "rights (remap_pte ow e) = owner_rights ow"
    by (auto simp: rights_bits remap_pte_def owner_rights_def Let_def rmt_owner_defs bf_put_def layout bit_simps)
  show "bf_get amd64_npt_pte ''page_base'' (remap_pte ow e) = bf_get amd64_npt_pte ''page_base'' e"
    by (simp add: remap_pte_def Let_def bf_get_put_other layout)
qed

lemma same_page: "drop_bit 12 x = drop_bit 12 y \<longleftrightarrow> pfn x = pfn y"
  by (simp add: pfn_eq page_4kb_count_def)

lemma low_half_pfn: "low_half x \<longleftrightarrow> pfn x < 2 ^ 36"
  by (simp add: low_half_less pfn_def div_less_iff_less_mult)

lemma low_half_page: "pfn x = pfn y \<Longrightarrow> low_half x \<longleftrightarrow> low_half y"
  by (simp add: low_half_pfn)

lemma snd_meet [simp]: "snd (meet a c) = snd c"
proof -
  obtain r w x where "a = (r, w, x)" by (rule prod_cases3)
  moreover obtain r2 w2 x2 z where "c = ((r2, w2, x2), z)" by (metis prod_cases3 surj_pair)
  ultimately show ?thesis by simp
qed

lemma upper_set_pte [simp]: "upper (set_pte m j i e) g = upper m g"
  by (simp add: upper_def set_pte_def pde_of_def)

text \<open>The translation after the rights of the page of \<open>hpa\<close> have been set.\<close>

definition remapped :: "u64 set \<Rightarrow> nsv_state \<Rightarrow> nsv_state \<Rightarrow> bool" where
  "remapped ps s s' \<longleftrightarrow> ns_rmt s' = ns_rmt s \<and>
     (\<forall>g. low_half g \<longrightarrow> upper (ns_npt s') g = upper (ns_npt s) g \<and>
       host_map (ns_npt s') g =
         (if pfn g \<in> pfn ` ps
          then meet (upper (ns_npt s) g)
                 (case rmt_lookup (ns_rmt s) g of Some e \<Rightarrow> owner_rights (rmt_owner e) | None \<Rightarrow> (False, False, False),
                  snd (host_map (ns_npt s) g))
          else host_map (ns_npt s) g))"

lemma linked2_map:
  assumes "linked2 m g"
  shows "host_map m g = meet (upper m g) (pte_target (the (pte_of m g)) g)"
proof -
  obtain q e where "pde_of m g = Some q" "pte_of m g = Some e"
    using assms by (auto simp: linked2_def linked1_def split: option.splits)
  then show ?thesis by (simp add: host_map_entries upper_def meet_meet)
qed

lemma remap_page_law:
  assumes ok: "nsv_ok held s" and r: "remap_page hpa s = Some (st, s')"
  shows "st = noir_success \<and> low_half hpa \<and> nsv_ok held s' \<and> rmt_lookup (ns_rmt s) hpa \<noteq> None \<and> remapped {hpa} s s'"
proof -
  obtain rmt pde_p m1 al1 pte_p m2 al2 where rmt: "nvc_get_rmt_entry (ns_rmt s) hpa = Some rmt"
    and p1: "nvc_npt_split_pdpte (ns_npt s) hpa True False (ns_allocs s) = Some (pde_p, m1, al1)"
    and p2: "nvc_npt_split_pde m1 hpa True False al1 = Some (pte_p, m2, al2)"
    using r unfolding remap_page_def by (auto split: bind_splits)
  have wf: "wf_host (ns_npt s)" "host_fresh held (ns_npt s) (ns_allocs s)" and wfr: "wf_rmt (ns_rmt s)" "0 < rmt_used (ns_rmt s)"
    using ok by (simp_all add: nsv_ok_def)
  obtain k where k: "pde_p = Desc k" "low_half hpa" "wf_host m1" "same_view (ns_npt s) m1" "host_fresh held m1 al1"
    using split_pdpte_law [OF wf p1] by blast
  obtain j where j: "pte_p = Desc j" "wf_host m2" "same_view m1 m2" "host_fresh held m2 al2" "j < length (ptes m2)"
      "table_of 21 (ptes m2) hpa = Some (ptes m2 ! j)" "linked2 m2 hpa"
    using split_pde_law [OF k(3,5) p2] by blast
  let ?i = "ucast (drop_bit 12 hpa) :: 9 word"
  let ?old = "virt (ptes m2 ! j) ?i"
  obtain p e where e: "rmt = Some p" "rmt_deref (ns_rmt s) p = Some e" and st: "st = noir_success"
    and s': "s' = s\<lparr>ns_npt := set_pte m2 j ?i (remap_pte (rmt_owner e) ?old), ns_allocs := al2\<rparr>"
    using r rmt p1 p2 k(1) j(1) unfolding remap_page_def page_entry_index64_ucast
    by (auto simp: Let_def page_4kb_count_def split: bind_splits)
  have look: "rmt_lookup (ns_rmt s) hpa = Some e"
    using get_entry_cases [OF wfr, of hpa] rmt e by (auto split: option.splits if_splits)
  have view: "same_view (ns_npt s) m2" using k(4) j(3) by (rule same_view_trans)
  have old: "pte_of m2 hpa = Some ?old" using j(6) by (simp add: pte_of_def)
  note w = write_pte_entry [OF j(2,5,6,7), of "remap_pte (rmt_owner e) ?old"]
  have map: "host_map (ns_npt s') g =
      (if pfn g = pfn hpa then meet (upper (ns_npt s) g) (owner_rights (rmt_owner e), snd (host_map (ns_npt s) g))
       else host_map (ns_npt s) g)" if low: "low_half g" for g
  proof (cases "pfn g = pfn hpa")
    case False
    then show ?thesis using w view low by (simp add: s' same_page same_view_def)
  next
    case True
    then have d: "drop_bit 12 g = drop_bit 12 hpa" by (simp add: same_page)
    then have d21: "drop_bit 21 g = drop_bit 21 hpa" using drop_bit_coarser by fastforce
    then have d30: "drop_bit 30 g = drop_bit 30 hpa" using drop_bit_coarser by fastforce
    have same: "pde_of m2 g = pde_of m2 hpa" "pte_of m2 g = pte_of m2 hpa"
      using d d21 table_of_cong [OF d21, of "ptes m2"] table_of_cong [OF d30, of "pdes m2"]
      by (simp_all add: pde_of_def pte_of_def)
    then have up: "upper m2 g = upper m2 hpa" using d30 by (simp add: upper_def)
    have l: "linked2 m2 g" using j(7) same d30 by (simp add: linked2_def linked1_def)
    have "snd (host_map (ns_npt s) g) = snd (pte_target ?old g)"
      using linked2_map [OF l] view low same old by (simp add: same_view_def)
    moreover have "host_map (ns_npt s') g = meet (upper m2 hpa) (pte_target (remap_pte (rmt_owner e) ?old) g)"
    proof -
      obtain q where "pde_of m2 hpa = Some q" using j(7) by (auto simp: linked2_def linked1_def)
      then show ?thesis using w d by (simp add: s' upper_def meet_meet)
    qed
    ultimately show ?thesis
      using view low up True by (simp add: pte_target_def remap_pte_fields same_view_def)
  qed
  have up: "upper (ns_npt s') g = upper (ns_npt s) g" if "low_half g" for g
    using view that by (simp add: s' same_view_def)
  have look': "rmt_lookup (ns_rmt s) g = Some e" if "pfn g = pfn hpa" for g
    using lookup_page [OF wfr(1) that] look by simp
  have "set (table_frames m2 al2) \<subseteq> set (table_frames (ns_npt s) (ns_allocs s))"
    using split_pdpte_frames [OF p1] split_pde_frames [OF p2] by blast
  then have "nsv_ok held s'"
    using ok j(4) w by (auto simp: nsv_ok_def s')
  then show ?thesis
    using st k(2) look map up look' by (auto simp: remapped_def s')
qed

section \<open>A batch of pages\<close>

lemma remapped_refl: "remapped {} s s"
  by (simp add: remapped_def)

lemma remapped_trans:
  assumes "remapped P s s1" "remapped Q s1 s2"
  shows "remapped (P \<union> Q) s s2"
  using assms by (auto simp: remapped_def)

lemma hvrt_law:
  assumes "nsv_ok held s" "nvc_npt_reassign_page_ownership_hvrt hs st s = Some (st', s')"
  shows "nsv_ok held s' \<and> remapped (set hs) s s' \<and> (\<forall>h \<in> set hs. low_half h \<and> rmt_lookup (ns_rmt s) h \<noteq> None) \<and>
    st' = (if hs = [] then st else noir_success)"
  using assms
proof (induction hs arbitrary: st s)
  case Nil
  then show ?case by (simp add: remapped_refl)
next
  case (Cons h hs)
  obtain st1 s1 where r: "remap_page h s = Some (st1, s1)"
    using Cons.prems(2) by (auto split: option.splits)
  note law = remap_page_law [OF Cons.prems(1) r]
  have "noir_success \<noteq> noir_unsuccessful" by simp
  then have "nvc_npt_reassign_page_ownership_hvrt hs st1 s1 = Some (st', s')"
    using Cons.prems(2) r law by simp
  with Cons.IH [of s1 st1] law
  have ih: "nsv_ok held s'" "remapped (set hs) s1 s'" "\<forall>h \<in> set hs. low_half h \<and> rmt_lookup (ns_rmt s1) h \<noteq> None"
      "st' = (if hs = [] then st1 else noir_success)" by auto
  have "ns_rmt s1 = ns_rmt s" using law by (simp add: remapped_def)
  then show ?case
    using ih law remapped_trans [of "{h}" s s1 "set hs" s'] by auto
qed

lemma unreadable: "\<not> fst (fst (meet a ((False, w, x), z)))"
  by (cases a) simp

lemma in_batch_image: "in_batch prs x \<longleftrightarrow> pfn x \<in> pfn ` fst ` set prs"
proof -
  have "in_batch prs x \<longleftrightarrow> (\<exists>p \<in> set prs. pfn x = pfn (fst p))"
    by (simp add: in_batch_def case_prod_unfold eq_commute)
  then show ?thesis by (simp add: image_iff)
qed

lemma commit_law:
  assumes ok: "nsv_ok held s" and r: "reassign_commit st prs asid shared ow s = Some (res, s')"
  shows "moves_to held s s' \<and>
    (if res then (prs \<noteq> [] \<longrightarrow> remapped (fst ` set prs) (s\<lparr>ns_rmt := ns_rmt s'\<rparr>) s') \<and>
       (\<forall>x. batch_effect prs asid shared ow x (rmt_lookup (ns_rmt s) x) (rmt_lookup (ns_rmt s') x) \<and>
            (in_batch prs x \<longrightarrow> (\<exists>e. rmt_lookup (ns_rmt s) x = Some e \<and> may_reassign ow shared e)))
     else prs \<noteq> [] \<longrightarrow> s' = s)"
proof -
  obtain b r1 where b: "nsv_reassign_rmt (ns_rmt s) prs asid shared ow = Some (b, r1)"
    using r by (auto simp: reassign_commit_def split: option.splits)
  have wfr: "wf_rmt (ns_rmt s)" "0 < rmt_used (ns_rmt s)" using ok by (simp_all add: nsv_ok_def)
  note law = reassign_cases [OF wfr b]
  let ?s = "s\<lparr>ns_rmt := r1\<rparr>"
  show ?thesis
  proof (cases b)
    case False
    then show ?thesis using r b law moves_refl [OF ok] by (auto simp: reassign_commit_def)
  next
    case True
    have "rmt_lookup r1 x \<noteq> None \<longleftrightarrow> rmt_lookup (ns_rmt s) x \<noteq> None" for x
      using reassign_cases [OF wfr b, of x] True by (auto simp: batch_effect_def split: if_splits)
    then have "low_memory r1" using ok by (simp add: nsv_ok_def low_memory_def)
    then have ok1: "nsv_ok held ?s" using ok law by (simp add: nsv_ok_def)
    obtain st1 where h: "nvc_npt_reassign_page_ownership_hvrt (map fst prs) st ?s = Some (st1, s')" "res \<longleftrightarrow> st1 = noir_success"
      using r b True by (auto simp: reassign_commit_def)
    note hv = hvrt_law [OF ok1 h(1)]
    then have r1: "ns_rmt s' = r1" by (simp add: remapped_def)
    have "sealed s'" if sealed: "sealed s"
      unfolding sealed_def
    proof (intro allI impI)
      fix x e
      assume x: "low_half x" "rmt_lookup (ns_rmt s') x = Some e" "rmt_owner e = noir_nsv_rmt_secure_guest"
      show "\<not> host_reaches s' x"
      proof (cases "pfn x \<in> pfn ` fst ` set prs")
        case True
        then show ?thesis
          using hv x by (simp add: host_reaches_map [of held] remapped_def r1 owner_rights_def rmt_owner_defs unreadable)
      next
        case False
        then have "\<not> in_batch prs x" by (simp add: in_batch_image)
        then have "rmt_lookup (ns_rmt s) x = Some e" using law x(2) True by (auto simp: batch_effect_def r1)
        then have "\<not> host_reaches s x" using sealed x by (auto simp: sealed_def)
        moreover have "host_map (ns_npt s') x = host_map (ns_npt s) x" using hv x(1) False by (simp add: remapped_def)
        ultimately show ?thesis using hv x(1) ok by (simp add: host_reaches_map [of held])
      qed
    qed
    then have m: "moves_to held s s'" using hv by (simp add: moves_to_def)
    have eff: "batch_effect prs asid shared ow x (rmt_lookup (ns_rmt s) x) (rmt_lookup (ns_rmt s') x) \<and>
            (in_batch prs x \<longrightarrow> (\<exists>e. rmt_lookup (ns_rmt s) x = Some e \<and> may_reassign ow shared e))" for x
      using reassign_cases [OF wfr b, of x] True r1 by simp
    show ?thesis
      using m eff hv h(2) r1 by auto
  qed
qed

section \<open>Preparing the tables\<close>

definition assigning :: "u64 list \<Rightarrow> assign_page \<Rightarrow> bool" where
  "assigning held assign \<longleftrightarrow> (\<forall>p s res s'. nsv_ok held s \<longrightarrow> low_half p \<longrightarrow> assign p s = Some (res, s') \<longrightarrow> moves_to held s s')"

lemma assigning_table:
  assumes "assigning held assign" "moves_to held s s1" "low_half p" "assign_table assign p s1 = Some (go, res, s')"
  shows "moves_to held s s'"
proof -
  have "moves_to held s1 s'"
    using assms(1,3,4) assms(2) by (auto simp: assigning_def assign_table_def moves_to_def)
  then show ?thesis by (rule moves_trans [OF assms(2)])
qed

lemma make_pde_law:
  assumes a: "assigning held assign" and ok: "nsv_ok held s" "low_half hpa"
    and r: "make_pde assign hpa result s = Some (go, res, s')"
  shows "moves_to held s s'"
proof -
  obtain d m al where d: "nvc_npt_split_pdpte (ns_npt s) hpa False True (ns_allocs s) = Some (d, m, al)"
    using r by (auto simp: make_pde_def split: option.splits)
  have wf: "wf_host (ns_npt s)" "host_fresh held (ns_npt s) (ns_allocs s)" using ok by (simp_all add: nsv_ok_def)
  note u = split_pdpte_unseen [OF wf(1) ok(2) wf(2) d]
  have mv: "moves_to held s (s\<lparr>ns_npt := m, ns_allocs := al\<rparr>)"
    using u by (intro moves_unseen [OF ok(1) _ split_pdpte_frames [OF d]]) simp
  show ?thesis
  proof (cases d)
    case (Desc k)
    have "phys (pdes m ! k) \<in> set (table_frames m al)" using u Desc by (simp add: table_frames_def)
    then have low: "low_half (phys (pdes m ! k))" using mv by (simp add: moves_to_def nsv_ok_def)
    have "assign_table assign (phys (pdes m ! k)) (s\<lparr>ns_npt := m, ns_allocs := al\<rparr>) = Some (go, res, s')"
      using r d Desc by (simp add: make_pde_def)
    then show ?thesis by (rule assigning_table [OF a mv low])
  qed (use r d mv in \<open>auto simp: make_pde_def\<close>)
qed

lemma make_pte_law:
  assumes a: "assigning held assign" and ok: "nsv_ok held s" "low_half hpa"
    and r: "make_pte assign hpa result s = Some (go, res, s')"
  shows "moves_to held s s'"
proof -
  obtain d m al where d: "nvc_npt_split_pde (ns_npt s) hpa False True (ns_allocs s) = Some (d, m, al)"
    using r by (auto simp: make_pte_def split: option.splits)
  have wf: "wf_host (ns_npt s)" "host_fresh held (ns_npt s) (ns_allocs s)" using ok by (simp_all add: nsv_ok_def)
  note u = split_pde_unseen [OF wf(1) ok(2) wf(2) d]
  have mv: "moves_to held s (s\<lparr>ns_npt := m, ns_allocs := al\<rparr>)"
    using u by (intro moves_unseen [OF ok(1) _ split_pde_frames [OF d]]) simp
  show ?thesis
  proof (cases d)
    case (Desc k)
    have "phys (ptes m ! k) \<in> set (table_frames m al)" using u Desc by (simp add: table_frames_def)
    then have low: "low_half (phys (ptes m ! k))" using mv by (simp add: moves_to_def nsv_ok_def)
    have "assign_table assign (phys (ptes m ! k)) (s\<lparr>ns_npt := m, ns_allocs := al\<rparr>) = Some (go, res, s')"
      using r d Desc by (simp add: make_pte_def)
    then show ?thesis by (rule assigning_table [OF a mv low])
  qed (use r d mv in \<open>auto simp: make_pte_def\<close>)
qed

lemma state_eta [simp]: "s\<lparr>ns_npt := ns_npt s, ns_allocs := ns_allocs s\<rparr> = s"
  by (cases s) simp

lemma prepare_page_eq:
  "prepare_page assign hpa result s =
     Option.bind (if find_desc page_1gb_size hpa (pdes (ns_npt s)) = None then make_pde assign hpa result s else Some (True, result, s))
       (\<lambda>(go1, result1, s1).
         if \<not> go1 then Some (False, result1, s1)
         else if find_desc page_2mb_size hpa (ptes (ns_npt s)) = None then make_pte assign hpa result1 s1
         else Some (True, result1, s1))"
  by (cases "find_desc page_1gb_size hpa (pdes (ns_npt s))"; cases "find_desc page_2mb_size hpa (ptes (ns_npt s))")
    (simp_all add: prepare_page_def nvc_npt_split_pdpte_def nvc_npt_split_pde_def find_or_make_pde_def find_or_make_pte_def Let_def
      cong: if_cong)

lemma prepare_page_law:
  assumes a: "assigning held assign" and ok: "nsv_ok held s" "low_half hpa"
    and r: "prepare_page assign hpa result s = Some (go, res, s')"
  shows "moves_to held s s'"
proof -
  obtain go1 result1 s1 where s1: "(if find_desc page_1gb_size hpa (pdes (ns_npt s)) = None then make_pde assign hpa result s
        else Some (True, result, s)) = Some (go1, result1, s1)"
    and s': "(if \<not> go1 then Some (False, result1, s1)
        else if find_desc page_2mb_size hpa (ptes (ns_npt s)) = None then make_pte assign hpa result1 s1
        else Some (True, result1, s1)) = Some (go, res, s')"
    using r unfolding prepare_page_eq by (auto split: bind_splits)
  have m1: "moves_to held s s1"
    using s1 make_pde_law [OF a ok] moves_refl [OF ok(1)] by (auto split: if_splits)
  then have "nsv_ok held s1" by (simp add: moves_to_def)
  then have "moves_to held s1 s'"
    using s' make_pte_law [OF a _ ok(2)] moves_refl by (auto split: if_splits)
  then show ?thesis by (rule moves_trans [OF m1])
qed

lemma prepare_pages_law:
  assumes a: "assigning held assign"
  shows "nsv_ok held s \<Longrightarrow> \<forall>h \<in> set hs. low_half h \<Longrightarrow> prepare_pages assign hs result s = Some (go, res, s') \<Longrightarrow> moves_to held s s'"
proof (induction hs arbitrary: s result)
  case (Cons h hs)
  obtain go1 result1 s1 where s1: "prepare_page assign h result s = Some (go1, result1, s1)"
    using Cons.prems(3) by (auto split: option.splits)
  have m: "moves_to held s s1"
    using Cons.prems by (intro prepare_page_law [OF a _ _ s1]) simp_all
  then show ?case
    using Cons.IH [of s1 result1] Cons.prems(2,3) s1 moves_trans [OF m] by (auto simp: moves_to_def split: if_splits)
qed (simp add: moves_refl)

lemma unsafe_law:
  "nsv_ok held s \<Longrightarrow> \<forall>(h, g) \<in> set prs. low_half h \<Longrightarrow>
   nvc_npt_reassign_page_ownership_unsafe fuel st prs asid shared ow s = Some (res, s') \<Longrightarrow> moves_to held s s'"
proof (induction fuel arbitrary: prs asid shared ow s res s')
  case (Suc fuel)
  let ?assign = "\<lambda>p. nvc_npt_reassign_page_ownership_unsafe fuel st [(p, p)] 0 True noir_nsv_rmt_noirvisor"
  have a: "assigning held ?assign"
    unfolding assigning_def using Suc.IH by force
  obtain go result s1 where p: "prepare_pages ?assign (map fst prs) False s = Some (go, result, s1)"
    using Suc.prems(3) by (auto split: option.splits)
  have m: "moves_to held s s1"
    using Suc.prems(2) by (intro prepare_pages_law [OF a Suc.prems(1) _ p]) auto
  then have "nsv_ok held s1" by (simp add: moves_to_def)
  then show ?case
    using Suc.prems(3) p m commit_law [of held s1 st prs asid shared ow res s'] moves_trans [OF m] by (auto split: if_splits)
qed simp

section \<open>Enough fuel\<close>

abbreviation pool_size :: "nsv_state \<Rightarrow> nat" where "pool_size s \<equiv> length (pool (ns_allocs s))"

lemma pool_taken: "next_pool al = (b, al') \<Longrightarrow> length (pool al') \<le> length (pool al) \<and> (b \<longrightarrow> length (pool al') < length (pool al))"
  by (auto simp: next_pool_def split: list.splits)

lemma uses_shrinks: "uses n al al' \<Longrightarrow> length (pool al') \<le> length (pool al)"
  by (auto simp: uses_def)

lemma split_pde_shrinks:
  assumes "nvc_npt_split_pde m gpa host alloc al = Some (d, m', al')"
  shows "length (pool al') \<le> length (pool al)"
proof (cases host)
  case True
  then show ?thesis using uses_shrinks [OF split_pde_uses [of m gpa alloc al d m' al']] assms by simp
next
  case False
  then have "find_or_make_pte m gpa False alloc al = Some (d, m', al')"
    using assms by (auto simp: nvc_npt_split_pde_def split: option.splits)
  then show ?thesis by (rule uses_shrinks [OF find_or_make_pte_uses])
qed

lemma split_made:
  "nvc_npt_split_pdpte m gpa False True al = Some (Desc k, m', al') \<Longrightarrow> find_desc page_1gb_size gpa (pdes m) = None \<Longrightarrow>
     length (pool al') < length (pool al)"
  "nvc_npt_split_pde m gpa False True al = Some (Desc k, m', al') \<Longrightarrow> find_desc page_2mb_size gpa (ptes m) = None \<Longrightarrow>
     length (pool al') < length (pool al)"
proof -
  assume "nvc_npt_split_pdpte m gpa False True al = Some (Desc k, m', al')" "find_desc page_1gb_size gpa (pdes m) = None"
  then obtain al1 q where a: "next_pool al = (True, al1)" "next_page al1 = (q, al')"
    by (auto simp: nvc_npt_split_pdpte_def find_or_make_pde_def split: option.splits prod.splits bool.splits)
  then show "length (pool al') < length (pool al)"
    using pool_taken [OF a(1)] uses_shrinks [OF uses_page [OF a(2)]] by simp
next
  assume a: "nvc_npt_split_pde m gpa False True al = Some (Desc k, m', al')" "find_desc page_2mb_size gpa (ptes m) = None"
  obtain b al1 where b: "next_pool al = (b, al1)" by fastforce
  obtain q al2 where q: "next_page al1 = (q, al2)" by fastforce
  have b': b using a b by (cases b) (auto simp: nvc_npt_split_pde_def find_or_make_pte_def)
  obtain d1 m1 where "nvc_npt_split_pdpte m gpa False True al2 = Some (d1, m1, al')"
    using a b q b' by (auto simp: nvc_npt_split_pde_def find_or_make_pte_def split: option.splits desc_ref.splits)
  then have "length (pool al') \<le> length (pool al2)" by (rule uses_shrinks [OF split_pdpte_uses])
  also have "\<dots> \<le> length (pool al1)" by (rule uses_shrinks [OF uses_page [OF q]])
  also have "\<dots> < length (pool al)" using pool_taken [OF b] b' by simp
  finally show "length (pool al') < length (pool al)" .
qed

lemma remap_page_shrinks:
  assumes "remap_page hpa s = Some (st, s')"
  shows "pool_size s' \<le> pool_size s"
proof -
  obtain rmt pde_p m1 al1 pte_p m2 al2 where rmt: "nvc_get_rmt_entry (ns_rmt s) hpa = Some rmt"
    and p1: "nvc_npt_split_pdpte (ns_npt s) hpa True False (ns_allocs s) = Some (pde_p, m1, al1)"
    and p2: "nvc_npt_split_pde m1 hpa True False al1 = Some (pte_p, m2, al2)"
    using assms unfolding remap_page_def by (auto split: bind_splits)
  have "ns_allocs s' = al2"
    using assms by (auto simp: remap_page_def rmt p1 p2 Let_def split: bind_splits if_splits desc_ref.splits)
  then show ?thesis
    using uses_shrinks [OF split_pdpte_uses [OF p1]] split_pde_shrinks [OF p2] by simp
qed

lemma hvrt_shrinks: "nvc_npt_reassign_page_ownership_hvrt hs st s = Some (st', s') \<Longrightarrow> pool_size s' \<le> pool_size s"
proof (induction hs arbitrary: st s)
  case (Cons h hs)
  then obtain st1 s1 where r: "remap_page h s = Some (st1, s1)" by (auto split: option.splits)
  then show ?case using Cons remap_page_shrinks [OF r] by (fastforce split: if_splits)
qed simp

lemma commit_shrinks: "reassign_commit st prs asid shared ow s = Some (res, s') \<Longrightarrow> pool_size s' \<le> pool_size s"
  by (auto simp: reassign_commit_def dest!: hvrt_shrinks split: option.splits bool.splits)

text \<open>What the preparation of a page may rely on: the recursive calls do not grow the pool. Two ways to
  assign a page that agree on smaller pools prepare alike.\<close>

definition shrinking :: "assign_page \<Rightarrow> bool" where
  "shrinking assign \<longleftrightarrow> (\<forall>p s res s'. assign p s = Some (res, s') \<longrightarrow> pool_size s' \<le> pool_size s)"

lemma assign_table_shrinks:
  "shrinking assign \<Longrightarrow> assign_table assign p s = Some (go, res, s') \<Longrightarrow> pool_size s' \<le> pool_size s"
  by (auto simp: assign_table_def shrinking_def)

lemma make_shrinks:
  assumes "shrinking assign"
  shows "make_pde assign hpa result s = Some (go, res, s') \<Longrightarrow> pool_size s' \<le> pool_size s"
    "make_pte assign hpa result s = Some (go, res, s') \<Longrightarrow> pool_size s' \<le> pool_size s"
  using uses_shrinks [OF split_pdpte_uses] split_pde_shrinks assign_table_shrinks [OF assms]
  by (fastforce simp: make_pde_def make_pte_def split: option.splits desc_ref.splits)+

lemma prepare_page_shrinks:
  assumes "shrinking assign" "prepare_page assign hpa result s = Some (go, res, s')"
  shows "pool_size s' \<le> pool_size s"
  using assms(2) make_shrinks [OF assms(1)] unfolding prepare_page_eq
  by (fastforce split: bind_splits if_splits dest: le_trans)

lemma prepare_pages_shrinks:
  assumes "shrinking assign"
  shows "prepare_pages assign hs result s = Some (go, res, s') \<Longrightarrow> pool_size s' \<le> pool_size s"
proof (induction hs arbitrary: s result)
  case (Cons h hs)
  then obtain go1 result1 s1 where r: "prepare_page assign h result s = Some (go1, result1, s1)" by (auto split: option.splits)
  show ?case using Cons r prepare_page_shrinks [OF assms r] by (fastforce split: if_splits)
qed simp

lemma unsafe_shrinks:
  "nvc_npt_reassign_page_ownership_unsafe fuel st prs asid shared ow s = Some (res, s') \<Longrightarrow> pool_size s' \<le> pool_size s"
proof (induction fuel arbitrary: prs asid shared ow s res s')
  case (Suc fuel)
  let ?assign = "\<lambda>p. nvc_npt_reassign_page_ownership_unsafe fuel st [(p, p)] 0 True noir_nsv_rmt_noirvisor"
  have a: "shrinking ?assign" using Suc.IH by (simp add: shrinking_def)
  obtain go result s1 where p: "prepare_pages ?assign (map fst prs) False s = Some (go, result, s1)"
    using Suc.prems by (auto split: option.splits)
  show ?case
    using Suc.prems p prepare_pages_shrinks [OF a p] commit_shrinks [of st prs asid shared ow s1] by (fastforce split: if_splits)
qed simp

definition agreeing :: "nat \<Rightarrow> assign_page \<Rightarrow> assign_page \<Rightarrow> bool" where
  "agreeing n f g \<longleftrightarrow> (\<forall>p s. pool_size s < n \<longrightarrow> f p s = g p s)"

lemma make_agree:
  assumes "agreeing (pool_size s) f g"
  shows "find_desc page_1gb_size hpa (pdes (ns_npt s)) = None \<Longrightarrow> make_pde f hpa result s = make_pde g hpa result s"
    "find_desc page_2mb_size hpa (ptes (ns_npt s)) = None \<Longrightarrow> make_pte f hpa result s = make_pte g hpa result s"
  using assms split_made
  by (fastforce simp: make_pde_def make_pte_def assign_table_def agreeing_def split: option.split desc_ref.split)+

lemma make_pte_agree:
  assumes "agreeing n f g" "pool_size s < n"
  shows "make_pte f hpa result s = make_pte g hpa result s"
  using assms split_pde_shrinks
  by (fastforce simp: make_pte_def assign_table_def agreeing_def split: option.split desc_ref.split dest: le_less_trans)

lemma make_pde_less:
  assumes "shrinking f" "find_desc page_1gb_size hpa (pdes (ns_npt s)) = None" "make_pde f hpa result s = Some (True, res, s')"
  shows "pool_size s' < pool_size s"
proof -
  obtain k m al where m: "nvc_npt_split_pdpte (ns_npt s) hpa False True (ns_allocs s) = Some (Desc k, m, al)"
    and t: "assign_table f (phys (pdes m ! k)) (s\<lparr>ns_npt := m, ns_allocs := al\<rparr>) = Some (True, res, s')"
    using assms(3) by (auto simp: make_pde_def split: option.splits desc_ref.splits)
  show ?thesis
    using split_made(1) [OF m assms(2)] assign_table_shrinks [OF assms(1) t] by simp
qed

lemma prepare_page_agree:
  assumes "shrinking f" "agreeing (pool_size s) f g"
  shows "prepare_page f hpa result s = prepare_page g hpa result s"
proof (cases "find_desc page_1gb_size hpa (pdes (ns_npt s)) = None")
  case False
  then show ?thesis using make_agree(2) [OF assms(2)] by (auto simp: prepare_page_eq)
next
  case True
  note e = make_agree(1) [OF assms(2) True, of result]
  show ?thesis
  proof (cases "make_pde f hpa result s")
    case None
    then show ?thesis using True e by (simp add: prepare_page_eq)
  next
    case (Some x)
    obtain go r1 s1 where x: "x = (go, r1, s1)" by (rule prod_cases3)
    have "make_pte f hpa r1 s1 = make_pte g hpa r1 s1" if go
      using make_pde_less [OF assms(1) True] Some that by (intro make_pte_agree [OF assms(2)]) (simp add: x)
    moreover have "make_pde g hpa result s = Some (go, r1, s1)" using e Some x by simp
    ultimately show ?thesis using True Some by (simp add: prepare_page_eq x)
  qed
qed

lemma prepare_pages_agree:
  assumes "shrinking f"
  shows "agreeing (pool_size s) f g \<Longrightarrow> prepare_pages f hs result s = prepare_pages g hs result s"
proof (induction hs arbitrary: s result)
  case (Cons h hs)
  note e = prepare_page_agree [OF assms Cons.prems, of h result]
  show ?case
  proof (cases "prepare_page f h result s")
    case None
    then show ?thesis using e by simp
  next
    case (Some x)
    obtain go r1 s1 where x: "x = (go, r1, s1)" by (rule prod_cases3)
    have "agreeing (pool_size s1) f g"
      using Cons.prems prepare_page_shrinks [OF assms Some [unfolded x]] by (auto simp: agreeing_def)
    then show ?thesis using Cons.IH [of s1 r1] Some e by (simp add: x)
  qed
qed simp

lemma unsafe_fuel:
  "pool_size s < fuel \<Longrightarrow> nvc_npt_reassign_page_ownership_unsafe (Suc fuel) st prs asid shared ow s =
     nvc_npt_reassign_page_ownership_unsafe fuel st prs asid shared ow s"
proof (induction fuel arbitrary: prs asid shared ow s)
  case (Suc fuel)
  let ?assign = "\<lambda>n p. nvc_npt_reassign_page_ownership_unsafe n st [(p, p)] 0 True noir_nsv_rmt_noirvisor"
  have "shrinking (?assign fuel)" using unsafe_shrinks by (auto simp: shrinking_def)
  moreover have "agreeing (pool_size s) (?assign fuel) (?assign (Suc fuel))"
    unfolding agreeing_def
  proof (intro allI impI)
    fix p t
    assume "pool_size t < pool_size s"
    then have "pool_size t < fuel" using Suc.prems by simp
    then show "?assign fuel p t = ?assign (Suc fuel) p t" by (rule Suc.IH [symmetric])
  qed
  ultimately have "prepare_pages (?assign fuel) (map fst prs) False s = prepare_pages (?assign (Suc fuel)) (map fst prs) False s"
    by (rule prepare_pages_agree)
  then show ?case by (simp only: nvc_npt_reassign_page_ownership_unsafe.simps)
qed simp

lemma unsafe_enough:
  assumes "pool_size s < fuel"
  shows "nvc_npt_reassign_page_ownership_unsafe (fuel + n) st prs asid shared ow s =
     nvc_npt_reassign_page_ownership_unsafe fuel st prs asid shared ow s"
  using assms by (induction n) (simp_all add: unsafe_fuel del: nvc_npt_reassign_page_ownership_unsafe.simps)

section \<open>The pages of a machine\<close>

text \<open>The pages found by the scan lie in the ranges of the directory.\<close>

lemma slot_pages_low:
  assumes "slot_ok d" "slot_pages vm_asid d = Some ps" "low_half (hpa_end d - 1)" "(h, g) \<in> set ps"
  shows "low_half h"
proof -
  let ?n = "unat (page_4kb_count (hpa_end d - hpa_start d))"
  obtain j where j: "j < ?n" "h = page_4kb_mult (of_nat j) + hpa_start d"
    using assms(2,4) by (auto simp: slot_pages_def Let_def split: if_splits bind_splits)
  obtain a b where ab: "unat (hpa_start d) = 4096 * a" "unat (hpa_end d) = 4096 * b" "a < b"
    using assms(1) by (auto simp: slot_ok_def page_aligned_def word_less_nat_alt elim!: dvdE)
  have "hpa_start d \<le> hpa_end d" using assms(1) by (simp add: slot_ok_def order_less_imp_le)
  then have n: "?n = b - a"
    using ab by (simp add: pfn_count [symmetric] pfn_def unat_sub flip: diff_mult_distrib2)
  have bound: "4096 * b < 2 ^ 64" using ab(2) unsigned_less [of "hpa_end d", where ?'a = nat] by simp
  have jn: "j + a < b" using j(1) n by simp
  then have j64: "4096 * (j + a) < 2 ^ 64" using bound by simp
  have "hpa_start d = of_nat (4096 * a)" by (simp flip: ab(1))
  then have "h = of_nat (4096 * (j + a))"
    by (simp add: j(2) page_4kb_mult_def push_bit_eq_mult algebra_simps)
  then have "unat h = 4096 * (j + a)"
    using j64 by (simp only: unat_of_nat) simp
  then have "pfn h = j + a" by (simp add: pfn_def)
  moreover have "pfn (hpa_end d - 1) = b - 1"
  proof -
    have "unat (hpa_end d - 1) = 4096 * b - 1"
      using ab by (subst unat_sub) (simp_all add: word_le_nat_alt)
    also have "\<dots> = 4096 * (b - 1) + 4095" using ab(3) by (cases b) simp_all
    finally show ?thesis by (simp add: pfn_def)
  qed
  ultimately show ?thesis using assms(3) jn by (simp add: low_half_pfn)
qed

lemma asid_pages_low:
  assumes "\<forall>d \<in> set ds. slot_ok d \<and> low_half (hpa_end d - 1)" "asid_pages vm_asid ds = Some ps"
  shows "\<forall>(h, g) \<in> set ps. low_half h"
  using assms
proof (induction ds arbitrary: ps)
  case (Cons d ds)
  obtain p q where p: "slot_pages vm_asid d = Some p" "asid_pages vm_asid ds = Some q" "ps = p @ q"
    using Cons.prems(2) by (auto split: bind_splits)
  have "\<forall>(h, g) \<in> set p. low_half h" using slot_pages_low [OF _ p(1)] Cons.prems(1) by auto
  then show ?case using Cons.IH [OF _ p(2)] Cons.prems(1) p(3) by auto
qed simp

lemma machine_pages_low:
  assumes ok: "nsv_ok held s" and ps: "asid_pages vm_asid (take (unat (dir_count (ns_rmt s))) (directory (ns_rmt s))) = Some ps"
  shows "\<forall>(h, g) \<in> set ps. low_half h"
proof (rule asid_pages_low [OF _ ps], rule ballI)
  fix d
  assume "d \<in> set (take (unat (dir_count (ns_rmt s))) (directory (ns_rmt s)))"
  then obtain i where i: "i < rmt_used (ns_rmt s)" "d = directory (ns_rmt s) ! i"
    by (auto simp: in_set_conv_nth rmt_used_def)
  have wf: "wf_rmt (ns_rmt s)" using ok by (simp add: nsv_ok_def)
  then have d: "slot_ok d" using i by (simp add: wf_rmt_def)
  then have less: "hpa_start d < hpa_end d" by (simp add: slot_ok_def)
  then have "hpa_start d \<le> hpa_end d - 1" "hpa_end d - 1 < hpa_end d"
    by (auto simp: word_le_nat_alt word_less_nat_alt unat_sub)
  then have "in_slot (hpa_end d - 1) (directory (ns_rmt s) ! i)" by (simp add: in_slot_def i)
  then have "rmt_lookup (ns_rmt s) (hpa_end d - 1) \<noteq> None" using lookup_None [OF wf] i(1) by blast
  then show "slot_ok d \<and> low_half (hpa_end d - 1)" using d ok by (simp add: nsv_ok_def low_memory_def)
qed

lemma all_pages_law:
  assumes ok: "nsv_ok held s" and r: "nvc_npt_reassign_cvm_all_pages_ownership fuel st vm_asid asid shared ow s = Some (res, s')"
  shows "moves_to held s s'"
proof -
  obtain ps where ps: "asid_pages vm_asid (take (unat (dir_count (ns_rmt s))) (directory (ns_rmt s))) = Some ps"
    using r by (auto simp: nvc_npt_reassign_cvm_all_pages_ownership_def split: bind_splits)
  obtain a al1 b al2 where al: "next_pool (ns_allocs s) = (a, al1)" "next_pool al1 = (b, al2)" by fastforce
  let ?s = "s\<lparr>ns_allocs := al2\<rparr>"
  have g: "granted_pages al2 = granted_pages (ns_allocs s)" using pool_pages [OF al(1)] pool_pages [OF al(2)] by simp
  then have "nsv_ok held ?s" using ok by (simp add: nsv_ok_def host_fresh_def table_frames_def)
  moreover have "sealed ?s = sealed s" by (simp add: sealed_def host_reaches_def)
  ultimately have m: "moves_to held s ?s" by (simp add: moves_to_def)
  let ?n = "unat (of_nat (length ps) :: u32)"
  have low: "\<forall>(h, g) \<in> set (take ?n ps). low_half h"
    using machine_pages_low [OF ok ps] by (meson in_set_takeD)
  have "(if (of_nat (length ps) :: u32) = 0 then Some (False, s)
     else if a \<and> b then nvc_npt_reassign_page_ownership_unsafe fuel st (take ?n ps) asid shared ow ?s else Some (False, ?s)) = Some (res, s')"
    using r by (simp add: nvc_npt_reassign_cvm_all_pages_ownership_def ps al Let_def cong: if_cong)
  then show ?thesis
    using m moves_refl [OF ok] unsafe_law [OF _ low, of held ?s] moves_trans [OF m]
    by (auto simp: moves_to_def split: if_splits)
qed

end
