(* ===== verification/Nsv_Properties.thy ===== *)
theory Nsv_Properties
  imports Nsv_Sealed Npt_Host_Properties Rmt_Properties
begin

text \<open>
  The properties of reassigning pages: secure pages stay sealed, what a reassignment achieves, that it ends,
  and the success that a failing one reports.
\<close>

section \<open>Sealing\<close>

text \<open>The calls that change owners, in any order and number.\<close>

inductive nsv_run :: "nsv_state \<Rightarrow> nsv_state \<Rightarrow> bool" for s where
  start: "nsv_run s s"
| pages: "nsv_run s s1 \<Longrightarrow> \<forall>(h, g) \<in> set prs. low_half h \<Longrightarrow>
    nvc_npt_reassign_page_ownership enable fuel st prs asid shared ow s1 = Some (res, s2) \<Longrightarrow> nsv_run s s2"
| machine: "nsv_run s s1 \<Longrightarrow> nvc_npt_reassign_cvm_all_pages_ownership fuel st vm_asid asid shared ow s1 = Some (res, s2) \<Longrightarrow>
    nsv_run s s2"

lemma run_moves: "nsv_run s t \<Longrightarrow> nsv_ok held s \<Longrightarrow> moves_to held s t"
proof (induction rule: nsv_run.induct)
  case start
  then show ?case by (rule moves_refl)
next
  case (pages s1 prs enable fuel st asid shared ow res s2)
  then have m: "moves_to held s s1" by simp
  then have ok: "nsv_ok held s1" by (simp add: moves_to_def)
  have "moves_to held s1 s2"
    using pages.hyps(2,3) unsafe_law [OF ok, of prs fuel st asid shared ow res s2] moves_refl [OF ok]
    by (auto simp: nvc_npt_reassign_page_ownership_def split: if_splits)
  then show ?case by (rule moves_trans [OF m])
next
  case (machine s1 fuel st vm_asid asid shared ow res s2)
  then have m: "moves_to held s s1" by simp
  then have "moves_to held s1 s2"
    using machine.hyps(2) by (intro all_pages_law) (simp_all add: moves_to_def)
  then show ?case by (rule moves_trans [OF m])
qed

text \<open>C2: a page of a secure guest is never present in the nested paging of the host. Whatever pages change
  their owners, in any order, with failing allocations in between and in spite of what the calls report:
  when the reverse-mapping table names a secure guest as the owner of a page, every access of the host
  to it faults.\<close>

theorem secure_pages_sealed:
  assumes "nsv_run s t" "nsv_ok held s" "sealed s"
    and "rmt_lookup (ns_rmt t) x = Some e" "rmt_owner e = noir_nsv_rmt_secure_guest"
  shows "\<not> fst (fst (host_walk (ns_npt t) x))"
proof -
  have "nsv_ok held t" "sealed t" using run_moves [OF assms(1,2)] assms(3) by (simp_all add: moves_to_def)
  then show ?thesis
    using assms(4,5) by (auto simp: sealed_def host_reaches_def nsv_ok_def low_memory_def)
qed

section \<open>Pages whose tables exist\<close>

definition prepared :: "nsv_state \<Rightarrow> u64 \<Rightarrow> bool" where
  "prepared s h \<longleftrightarrow> low_half h \<and> find_desc page_1gb_size h (pdes (ns_npt s)) \<noteq> None \<and>
     find_desc page_2mb_size h (ptes (ns_npt s)) \<noteq> None"

lemma prepared_pages: "\<forall>h \<in> set hs. prepared s h \<Longrightarrow> prepare_pages assign hs result s = Some (True, result, s)"
  by (induction hs) (auto simp: prepare_page_eq prepared_def)

lemma prepared_unsafe:
  "\<forall>h \<in> fst ` set prs. prepared s h \<Longrightarrow>
   nvc_npt_reassign_page_ownership_unsafe (Suc fuel) st prs asid shared ow s = reassign_commit st prs asid shared ow s"
  by (simp add: prepared_pages)

lemma find_desc_starts:
  "map gpa_start ds' = map gpa_start ds \<Longrightarrow> find_desc sz g ds' = find_desc sz g ds"
proof (induction ds' arbitrary: ds)
  case (Cons d' ds')
  then obtain d ds0 where "ds = d # ds0" "gpa_start d = gpa_start d'" "map gpa_start ds' = map gpa_start ds0"
    by (cases ds) auto
  then show ?case using Cons.IH [of ds0] by simp
qed simp

lemma find_desc_set_entry [simp]: "find_desc sz g (set_entry ds k i e) = find_desc sz g ds"
  by (rule find_desc_starts) simp

lemma prepared_split1:
  assumes "find_desc page_1gb_size h (pdes m) = Some k" "low_half h"
  shows "\<exists>m'. nvc_npt_split_pdpte m h True False al = Some (Desc k, m', al) \<and> pdes m' = pdes m \<and> ptes m' = ptes m"
  using assms by (simp add: nvc_npt_split_pdpte_def find_or_make_pde_def set_pdpt_Some)

lemma prepared_split2:
  assumes "find_desc page_1gb_size h (pdes m) = Some k" "find_desc page_2mb_size h (ptes m) = Some j" "low_half h"
  shows "\<exists>m'. nvc_npt_split_pde m h True False al = Some (Desc j, m', al) \<and>
    map gpa_start (pdes m') = map gpa_start (pdes m) \<and> map gpa_start (ptes m') = map gpa_start (ptes m)"
proof -
  obtain m1 where "nvc_npt_split_pdpte m h True False al = Some (Desc k, m1, al)" "pdes m1 = pdes m" "ptes m1 = ptes m"
    using prepared_split1 [OF assms(1,3)] by blast
  then show ?thesis
    using assms(2) by (simp add: nvc_npt_split_pde_def find_or_make_pte_def Let_def set_pde_def)
qed

definition same_tables :: "nsv_state \<Rightarrow> nsv_state \<Rightarrow> bool" where
  "same_tables s s' \<longleftrightarrow> ns_allocs s' = ns_allocs s \<and>
     (\<forall>sz g. find_desc sz g (pdes (ns_npt s')) = find_desc sz g (pdes (ns_npt s)) \<and>
             find_desc sz g (ptes (ns_npt s')) = find_desc sz g (ptes (ns_npt s)))"

lemma same_tables_prepared: "same_tables s s' \<Longrightarrow> prepared s' g \<longleftrightarrow> prepared s g"
  by (simp add: same_tables_def prepared_def)

lemma remap_page_progress:
  assumes ok: "nsv_ok held s" and h: "prepared s h" "rmt_lookup (ns_rmt s) h \<noteq> None"
  shows "\<exists>st s'. remap_page h s = Some (st, s') \<and> same_tables s s'"
proof -
  have wfr: "wf_rmt (ns_rmt s)" "0 < rmt_used (ns_rmt s)" using ok by (simp_all add: nsv_ok_def)
  obtain p e where p: "nvc_get_rmt_entry (ns_rmt s) h = Some (Some p)" "rmt_deref (ns_rmt s) p = Some e"
    using get_entry_cases [OF wfr, of h] h(2) by auto
  obtain k j where kj: "find_desc page_1gb_size h (pdes (ns_npt s)) = Some k" "find_desc page_2mb_size h (ptes (ns_npt s)) = Some j"
    and low: "low_half h" using h(1) by (auto simp: prepared_def)
  obtain m1 where m1: "nvc_npt_split_pdpte (ns_npt s) h True False (ns_allocs s) = Some (Desc k, m1, ns_allocs s)"
      "pdes m1 = pdes (ns_npt s)" "ptes m1 = ptes (ns_npt s)"
    using prepared_split1 [OF kj(1) low] by blast
  obtain m2 where m2: "nvc_npt_split_pde m1 h True False (ns_allocs s) = Some (Desc j, m2, ns_allocs s)"
      "map gpa_start (pdes m2) = map gpa_start (pdes m1)" "map gpa_start (ptes m2) = map gpa_start (ptes m1)"
    using prepared_split2 [of h m1 k j] kj low m1(2,3) by auto
  show ?thesis
    using m2(2,3) m1(2,3) find_desc_starts [OF m2(2)] find_desc_starts [OF m2(3)]
    by (simp add: remap_page_def p m1(1) m2(1) Let_def same_tables_def set_pte_def)
qed

lemma hvrt_progress:
  assumes "nsv_ok held s" "\<forall>h \<in> set hs. prepared s h \<and> rmt_lookup (ns_rmt s) h \<noteq> None"
  shows "\<exists>st' s'. nvc_npt_reassign_page_ownership_hvrt hs st s = Some (st', s') \<and> same_tables s s'"
  using assms
proof (induction hs arbitrary: st s)
  case (Cons h hs)
  obtain st1 s1 where r: "remap_page h s = Some (st1, s1)" "same_tables s s1"
    using remap_page_progress [OF Cons.prems(1), of h] Cons.prems(2) by auto
  note law = remap_page_law [OF Cons.prems(1) r(1)]
  then have "ns_rmt s1 = ns_rmt s" by (simp add: remapped_def)
  then have "\<exists>st' s'. nvc_npt_reassign_page_ownership_hvrt hs st1 s1 = Some (st', s') \<and> same_tables s1 s'"
    using Cons.IH [of s1 st1] Cons.prems(2) law same_tables_prepared [OF r(2)] by auto
  then show ?case using law r by (auto simp: same_tables_def)
qed (simp add: same_tables_def)

lemma validate_total:
  assumes wf: "wf_rmt m" "0 < rmt_used m" and "\<forall>(h, g) \<in> set ps. \<not> rmt_strays m h"
  shows "nvc_validate_rmt_reassignment m ps asid shared ow =
    Some (\<forall>(h, g) \<in> set ps. \<exists>e. rmt_lookup m h = Some e \<and> may_reassign ow shared e)"
  using assms(3)
proof (induction ps)
  case (Cons p ps)
  obtain h g where p: "p = (h, g)" by (cases p)
  have "nvc_validate_single_rmt_reassignment m h g asid shared ow = Some (\<exists>e. rmt_lookup m h = Some e \<and> may_reassign ow shared e)"
    using validate_cases [OF wf, of h g asid shared ow] Cons.prems by (simp add: p may_reassign_def split: option.split)
  then show ?case using Cons by (auto simp: p split: bool.split)
qed simp

lemma commit_total:
  assumes ok: "nsv_ok held s" and prs: "prs \<noteq> []" "\<forall>(h, g) \<in> set prs. prepared s h \<and> \<not> rmt_strays (ns_rmt s) h"
  shows "\<exists>s'. reassign_commit st prs asid shared ow s =
    Some (\<forall>(h, g) \<in> set prs. \<exists>e. rmt_lookup (ns_rmt s) h = Some e \<and> may_reassign ow shared e, s') \<and> same_tables s s'"
proof -
  have wf: "wf_rmt (ns_rmt s)" "0 < rmt_used (ns_rmt s)" using ok by (simp_all add: nsv_ok_def)
  define all where "all = (\<forall>(h, g) \<in> set prs. \<exists>e. rmt_lookup (ns_rmt s) h = Some e \<and> may_reassign ow shared e)"
  have v: "nvc_validate_rmt_reassignment (ns_rmt s) prs asid shared ow = Some all"
    unfolding all_def using prs(2) by (intro validate_total [OF wf]) auto
  have "\<exists>s'. reassign_commit st prs asid shared ow s = Some (all, s') \<and> same_tables s s'"
  proof (cases all)
    case False
    then show ?thesis using v by (simp add: reassign_commit_def nsv_reassign_rmt_def same_tables_def)
  next
    case True
    then have look: "\<forall>(h, g) \<in> set prs. rmt_lookup (ns_rmt s) h \<noteq> None" by (auto simp: all_def)
    obtain r where r: "configure_all (ns_rmt s) prs asid shared ow = Some r"
      using configure_all_cases [OF wf look] by blast
    have n: "nsv_reassign_rmt (ns_rmt s) prs asid shared ow = Some (True, r)"
      using v True r by (simp add: nsv_reassign_rmt_def)
    have dom: "rmt_lookup r x \<noteq> None \<longleftrightarrow> rmt_lookup (ns_rmt s) x \<noteq> None" for x
      using reassign_cases [OF wf n, of x] by (auto simp: batch_effect_def split: if_splits)
    then have ok1: "nsv_ok held (s\<lparr>ns_rmt := r\<rparr>)"
      using ok reassign_cases [OF wf n] by (simp add: nsv_ok_def low_memory_def)
    have "\<forall>h \<in> set (map fst prs). prepared (s\<lparr>ns_rmt := r\<rparr>) h \<and> rmt_lookup r h \<noteq> None"
      using prs(2) look dom by (fastforce simp: prepared_def)
    then obtain st' s' where h: "nvc_npt_reassign_page_ownership_hvrt (map fst prs) st (s\<lparr>ns_rmt := r\<rparr>) = Some (st', s')"
      and t: "same_tables (s\<lparr>ns_rmt := r\<rparr>) s'"
      using hvrt_progress [OF ok1, of "map fst prs" st] by auto
    have "st' = noir_success" using hvrt_law [OF ok1 h] prs(1) by simp
    then show ?thesis using n h t True by (simp add: reassign_commit_def same_tables_def)
  qed
  then show ?thesis by (simp add: all_def)
qed

lemma reassign_prepared:
  assumes ok: "nsv_ok held s" and prs: "prs \<noteq> []" "\<forall>(h, g) \<in> set prs. prepared s h \<and> \<not> rmt_strays (ns_rmt s) h"
  shows "\<exists>s'. nvc_npt_reassign_page_ownership True (Suc fuel) st prs asid shared ow s =
      Some (\<forall>(h, g) \<in> set prs. \<exists>e. rmt_lookup (ns_rmt s) h = Some e \<and> may_reassign ow shared e, s') \<and>
    (if \<forall>(h, g) \<in> set prs. \<exists>e. rmt_lookup (ns_rmt s) h = Some e \<and> may_reassign ow shared e
     then \<forall>x. low_half x \<longrightarrow> batch_effect prs asid shared ow x (rmt_lookup (ns_rmt s) x) (rmt_lookup (ns_rmt s') x) \<and>
            host_walk (ns_npt s') x =
              (if in_batch prs x then meet (upper (ns_npt s) x) (owner_rights ow, snd (host_walk (ns_npt s) x))
               else host_walk (ns_npt s) x)
     else s' = s)"
proof -
  define all where "all = (\<forall>(h, g) \<in> set prs. \<exists>e. rmt_lookup (ns_rmt s) h = Some e \<and> may_reassign ow shared e)"
  obtain s' where c: "reassign_commit st prs asid shared ow s = Some (all, s')"
    using commit_total [OF ok prs, of st asid shared ow] unfolding all_def by blast
  have "\<forall>h \<in> fst ` set prs. prepared s h" using prs(2) by auto
  from prepared_unsafe [OF this]
  have r: "nvc_npt_reassign_page_ownership True (Suc fuel) st prs asid shared ow s = Some (all, s')"
    using c by (simp only: nvc_npt_reassign_page_ownership_def if_True)
  note law = commit_law [OF ok c]
  have ok': "nsv_ok held s'" using law by (simp add: moves_to_def)
  have wf: "wf_host (ns_npt s)" "wf_host (ns_npt s')" using ok ok' by (simp_all add: nsv_ok_def)
  have walk: "host_walk (ns_npt s') x =
      (if in_batch prs x then meet (upper (ns_npt s) x) (owner_rights ow, snd (host_walk (ns_npt s) x)) else host_walk (ns_npt s) x)"
    if all and low: "low_half x" for x
  proof -
    have rm: "remapped (fst ` set prs) (s\<lparr>ns_rmt := ns_rmt s'\<rparr>) s'"
      and eff: "batch_effect prs asid shared ow x (rmt_lookup (ns_rmt s) x) (rmt_lookup (ns_rmt s') x)"
      using law that(1) prs(1) by simp_all
    show ?thesis
    proof (cases "in_batch prs x")
      case True
      then obtain e where "rmt_lookup (ns_rmt s') x = Some e" "rmt_owner e = ow"
        using eff by (auto simp: batch_effect_def assigned_def)
      then show ?thesis using rm low True by (simp add: remapped_def in_batch_image host_walk_map wf)
    next
      case False
      then show ?thesis using rm low by (simp add: remapped_def in_batch_image host_walk_map wf)
    qed
  qed
  show ?thesis
    using r law prs(1) walk by (auto simp flip: all_def)
qed

text \<open>C3: reassigning pages whose tables exist always ends with an answer. It is success exactly when every
  page is physical memory that NoirVisor does not own and no secure guest has already, and then those
  pages, and no others, have the new owner, identifier and guest page, and the host sees them with the
  rights that the new owner leaves it; otherwise nothing changes.\<close>

theorem reassignment_effect:
  assumes ok: "nsv_ok held s" and prs: "prs \<noteq> []" "\<forall>(h, g) \<in> set prs. prepared s h \<and> \<not> rmt_strays (ns_rmt s) h"
  shows "\<exists>s'. nvc_npt_reassign_page_ownership True (Suc fuel) st prs asid shared ow s =
      Some (\<forall>(h, g) \<in> set prs. \<exists>e. rmt_lookup (ns_rmt s) h = Some e \<and> may_reassign ow shared e, s') \<and>
    (if \<forall>(h, g) \<in> set prs. \<exists>e. rmt_lookup (ns_rmt s) h = Some e \<and> may_reassign ow shared e
     then \<forall>x. low_half x \<longrightarrow> batch_effect prs asid shared ow x (rmt_lookup (ns_rmt s) x) (rmt_lookup (ns_rmt s') x) \<and>
            host_walk (ns_npt s') x =
              (if in_batch prs x then meet (upper (ns_npt s) x) (owner_rights ow, snd (host_walk (ns_npt s) x))
               else host_walk (ns_npt s) x)
     else s' = s)"
  by (rule reassign_prepared [OF assms])


section \<open>A failure that is reported as success\<close>

lemma find_desc_append:
  "find_desc sz g ds = Some k \<Longrightarrow> find_desc sz g (ds @ es) = Some k"
  by (induction ds arbitrary: k) (auto split: if_splits)

text \<open>When the table of the directory of a page could be made and assigned to NoirVisor, but the pool
  is exhausted before its page table, the reassignment reports the success of the inner call, while the
  page has neither a new owner nor other rights.\<close>

theorem failure_reported_as_success:
  assumes ok: "nsv_ok held s" and h: "low_half h" "find_desc page_1gb_size h (pdes (ns_npt s)) = None"
      "find_desc page_2mb_size h (ptes (ns_npt s)) = None"
    and mem: "next_pool (ns_allocs s) = (True, al1)" "next_page al1 = (Some p, al2)" "next_pool al2 = (False, al3)"
    and p: "prepared s p" "\<not> rmt_strays (ns_rmt s) p" "rmt_lookup (ns_rmt s) p = Some e" "may_reassign noir_nsv_rmt_noirvisor True e"
      "pfn p \<noteq> pfn h"
  shows "\<exists>s'. nvc_npt_reassign_page_ownership True (Suc (Suc fuel)) st [(h, g)] asid shared ow s = Some (True, s') \<and>
    rmt_lookup (ns_rmt s') h = rmt_lookup (ns_rmt s) h \<and> host_walk (ns_npt s') h = host_walk (ns_npt s) h"
proof -
  let ?d = "split_desc 21 fresh_pde p (page_1gb_count h)"
  let ?m = "(ns_npt s)\<lparr>pdes := pdes (ns_npt s) @ [?d]\<rparr>"
  let ?s = "s\<lparr>ns_npt := ?m, ns_allocs := al2\<rparr>"
  have split: "nvc_npt_split_pdpte (ns_npt s) h False True (ns_allocs s) = Some (Desc (length (pdes (ns_npt s))), ?m, al2)"
    using h(2) mem(1,2) by (simp add: nvc_npt_split_pdpte_def find_or_make_pde_def)
  have wf: "wf_host (ns_npt s)" "host_fresh held (ns_npt s) (ns_allocs s)" using ok by (simp_all add: nsv_ok_def)
  have u: "unseen held (ns_npt s) ?m al2" using split_pdpte_unseen [OF wf(1) h(1) wf(2) split] by simp
  have ok1: "nsv_ok held ?s"
    using moves_unseen [OF ok u split_pdpte_frames [OF split]] by (simp add: moves_to_def)
  have prep: "prepared ?s p"
    using p(1) find_desc_append by (fastforce simp: prepared_def)
  obtain s2 where c: "reassign_commit st [(p, p)] 0 True noir_nsv_rmt_noirvisor ?s = Some (True, s2)" and t: "same_tables ?s s2"
    using commit_total [OF ok1, of "[(p, p)]" st 0 True noir_nsv_rmt_noirvisor] prep p(2-4) by auto
  note law = commit_law [OF ok1 c]
  have inner: "nvc_npt_reassign_page_ownership_unsafe (Suc fuel) st [(p, p)] 0 True noir_nsv_rmt_noirvisor ?s = Some (True, s2)"
    using prepared_unsafe [of "[(p, p)]" ?s fuel st] c prep by simp
  let ?a = "\<lambda>p. nvc_npt_reassign_page_ownership_unsafe (Suc fuel) st [(p, p)] 0 True noir_nsv_rmt_noirvisor"
  have pde: "make_pde ?a h False s = Some (True, True, s2)"
    using split inner by (simp add: make_pde_def assign_table_def split_desc_def del: nvc_npt_reassign_page_ownership_unsafe.simps)
  have t2: "find_desc page_2mb_size h (ptes (ns_npt s2)) = None" "ns_allocs s2 = al2"
    using t h(3) by (simp_all add: same_tables_def)
  have pte: "make_pte ?a h True s2 = Some (False, True, s2\<lparr>ns_allocs := al3\<rparr>)"
    using t2 mem(3) by (simp add: make_pte_def nvc_npt_split_pde_def find_or_make_pte_def)
  have "prepare_page ?a h False s = Some (False, True, s2\<lparr>ns_allocs := al3\<rparr>)"
    using h(2,3) pde pte by (simp add: prepare_page_eq del: nvc_npt_reassign_page_ownership_unsafe.simps)
  then have r: "nvc_npt_reassign_page_ownership True (Suc (Suc fuel)) st [(h, g)] asid shared ow s = Some (True, s2\<lparr>ns_allocs := al3\<rparr>)"
    by (simp add: nvc_npt_reassign_page_ownership_def del: nvc_npt_reassign_page_ownership_unsafe.simps(2))
      (simp add: nvc_npt_reassign_page_ownership_unsafe.simps(2) [of "Suc fuel"] del: nvc_npt_reassign_page_ownership_unsafe.simps)
  have nb: "\<not> in_batch [(p, p)] h" using p(5) by (simp add: in_batch_image)
  have look: "rmt_lookup (ns_rmt s2) h = rmt_lookup (ns_rmt s) h"
    using law nb by (simp add: batch_effect_def)
  have "host_map (ns_npt s2) h = host_map ?m h"
    using law h(1) p(5) by (simp add: remapped_def)
  also have "\<dots> = host_map (ns_npt s) h" using u h(1) by (simp add: unseen_def same_view_def)
  finally have "host_walk (ns_npt s2) h = host_walk (ns_npt s) h"
    using law wf(1) h(1) by (simp add: host_walk_map moves_to_def nsv_ok_def)
  then show ?thesis using r look by simp
qed

section \<open>Example\<close>

text \<open>A host whose first 2 MiB are split, two ranges of physical memory, and a pool that gives one table.\<close>

definition example_npt :: npt_manager where
  "example_npt = (case nvc_npt_split_pde sample_host 0x3000 True True sample_allocs of Some (_, m, _) \<Rightarrow> m | None \<Rightarrow> sample_host)"

definition example_memory :: "(bool \<times> u64 \<times> u64) list" where
  "example_memory = [(True, 0, 0x800000), (True, 0x40000000, 0x1000)]"

definition example_nsv :: nsv_state where
  "example_nsv = \<lparr>ns_npt = example_npt, ns_rmt = snd (the (nvc_build_reverse_mapping_table True example_memory)),
     ns_allocs = \<lparr>pool = [True, False], pages = [Some 0x5000]\<rparr>\<rparr>"

lemma example_npt:
  "wf_host example_npt" "distinct (map phys (pdes example_npt) @ map phys (ptes example_npt))"
  "phys ` set (pdes example_npt) \<union> phys ` set (ptes example_npt) \<subseteq> {0x3000, 0x4000}"
  "linked2 example_npt 0x3000" "wf_tables 30 (pdes example_npt)" "wf_tables 21 (ptes example_npt)"
proof -
  have low: "low_half 0x3000" by (simp add: low_half_def)
  obtain j m al where s: "nvc_npt_split_pde sample_host 0x3000 True True sample_allocs = Some (Desc j, m, al)"
    using split_pde_progress [OF sample_wf(1) sample_fresh low] sample_pools by blast
  then have m: "example_npt = m" by (simp add: example_npt_def)
  have law: "wf_host m" "host_fresh [] m al" "linked2 m 0x3000"
    using split_pde_law [OF sample_wf(1) sample_fresh s] by blast+
  show "wf_host example_npt" "linked2 example_npt 0x3000" "wf_tables 30 (pdes example_npt)" "wf_tables 21 (ptes example_npt)"
    using law by (simp_all add: m wf_hostD)
  show "distinct (map phys (pdes example_npt) @ map phys (ptes example_npt))"
    using law(2) by (auto simp: m host_fresh_def)
  have "set (table_frames m al) \<subseteq> {0x3000, 0x4000}"
    using split_pde_frames [OF s] by (simp add: table_frames_def sample_wf granted_pages_def sample_allocs_def List.map_filter_simps)
  then show "phys ` set (pdes example_npt) \<union> phys ` set (ptes example_npt) \<subseteq> {0x3000, 0x4000}"
    by (simp add: m table_frames_def)
qed

lemma example_rmt_built:
  "wf_rmt (ns_rmt example_nsv)" "rmt_used (ns_rmt example_nsv) = 2"
  "if in_ranges example_memory x then \<exists>e. rmt_lookup (ns_rmt example_nsv) x = Some e \<and> host_page x e
   else rmt_lookup (ns_rmt example_nsv) x = None"
proof -
  have "ranges_from 0 example_memory" "length example_memory \<le> rmt_slots" "list_all fst example_memory" "length example_memory = 2"
    by (simp_all add: example_memory_def page_aligned_def word_le_nat_alt word_less_nat_alt rmt_slots_eq)
  then show "wf_rmt (ns_rmt example_nsv)" "rmt_used (ns_rmt example_nsv) = 2"
    "if in_ranges example_memory x then \<exists>e. rmt_lookup (ns_rmt example_nsv) x = Some e \<and> host_page x e
     else rmt_lookup (ns_rmt example_nsv) x = None"
    using build_ok [of example_memory] by (auto simp: example_nsv_def)
qed

lemma example_starts: "map gpa_start (pdes example_npt) = [0]" "map gpa_start (ptes example_npt) = [0]"
  by (simp_all add: example_npt_def nvc_npt_split_pde_def nvc_npt_split_pdpte_def find_or_make_pte_def find_or_make_pde_def
      sample_wf sample_allocs_def next_pool_def next_page_def set_pdpt_def Let_def split_desc_def page_1gb_count_def
      page_2mb_count_def set_pde_def in_region_def page_1gb_size_def page_2mb_size_def)

lemma example_find:
  "find_desc sz g (pdes example_npt) = (if in_region sz g 0 then Some 0 else None)"
  "find_desc sz g (ptes example_npt) = (if in_region sz g 0 then Some 0 else None)"
  using find_desc_starts [of "pdes example_npt" "[\<lparr>virt = (\<lambda>_. 0), phys = 0, gpa_start = 0\<rparr>]"]
    find_desc_starts [of "ptes example_npt" "[\<lparr>virt = (\<lambda>_. 0), phys = 0, gpa_start = 0\<rparr>]"]
  by (simp_all add: example_starts)

lemma example_nsv_parts:
  "ns_npt example_nsv = example_npt" "ns_allocs example_nsv = \<lparr>pool = [True, False], pages = [Some 0x5000]\<rparr>"
  by (simp_all add: example_nsv_def)

lemma example_lookup:
  "x < 0x800000 \<Longrightarrow> \<exists>e. rmt_lookup (ns_rmt example_nsv) x = Some e \<and> rmt_owner e = noir_nsv_rmt_subverted_host"
  "rmt_lookup (ns_rmt example_nsv) x \<noteq> None \<Longrightarrow> x < 0x40001000"
  "rmt_lookup (ns_rmt example_nsv) x = Some e \<Longrightarrow> rmt_owner e = noir_nsv_rmt_subverted_host"
proof -
  note b = example_rmt_built(3) [of x]
  show "\<exists>e. rmt_lookup (ns_rmt example_nsv) x = Some e \<and> rmt_owner e = noir_nsv_rmt_subverted_host" if "x < 0x800000"
    using b that by (auto simp: in_ranges_def example_memory_def assigned_def)
  show "x < 0x40001000" if "rmt_lookup (ns_rmt example_nsv) x \<noteq> None"
    using b that by (auto simp: in_ranges_def example_memory_def word_less_nat_alt split: if_splits)
  show "rmt_owner e = noir_nsv_rmt_subverted_host" if "rmt_lookup (ns_rmt example_nsv) x = Some e"
    using b that by (auto simp: assigned_def split: if_splits)
qed

lemma example_ok: "nsv_ok [] example_nsv"
proof -
  have frames: "set (table_frames example_npt (ns_allocs example_nsv)) \<subseteq> {0x3000, 0x4000, 0x5000}"
    using example_npt(3) by (auto simp: table_frames_def example_nsv_parts granted_pages_def List.map_filter_simps)
  have "0x5000 \<notin> phys ` set (pdes example_npt) \<union> phys ` set (ptes example_npt)" using example_npt(3) by auto
  then have "host_fresh [] example_npt (ns_allocs example_nsv)"
    using example_npt(2) by (auto simp: host_fresh_def example_nsv_parts granted_pages_def List.map_filter_simps page_frame_def
        page_4kb_mult_def page_4kb_count_def)
  moreover have "\<forall>p \<in> set (table_frames example_npt (ns_allocs example_nsv)). low_half p"
    using frames by (auto simp: low_half_def)
  moreover have "low_half x" if "rmt_lookup (ns_rmt example_nsv) x \<noteq> None" for x
  proof -
    have "x < 0x40001000" using example_lookup(2) that by blast
    then show ?thesis by (simp add: low_half_less word_less_nat_alt)
  qed
  ultimately show ?thesis
    using example_npt(1) example_rmt_built(1,2) by (simp add: nsv_ok_def example_nsv_parts(1) low_memory_def)
qed

lemma example_sealed: "sealed example_nsv"
  using example_lookup(3) by (auto simp: sealed_def rmt_owner_defs)

lemma example_prepared:
  assumes "x < 0x200000"
  shows "prepared example_nsv x" "\<not> rmt_strays (ns_rmt example_nsv) x"
proof -
  have "low_half x" using assms by (simp add: low_half_less word_less_nat_alt)
  moreover have "x < 0x40000000" using assms by (simp add: word_less_nat_alt)
  ultimately show "prepared example_nsv x"
    using assms by (simp add: prepared_def example_nsv_parts example_find in_region_def page_1gb_size_def page_2mb_size_def)
  have "x < 0x800000" using assms by (simp add: word_less_nat_alt)
  then obtain e where "rmt_lookup (ns_rmt example_nsv) x = Some e" using example_lookup(1) by blast
  then show "\<not> rmt_strays (ns_rmt example_nsv) x" by (rule lookup_not_stray [OF example_rmt_built(1)])
qed

text \<open>Page \<open>0x6000\<close> is given to a secure guest.\<close>

lemma example_given:
  "\<exists>t e. nvc_npt_reassign_page_ownership True 3 0 [(0x6000, 0x9000)] 5 False noir_nsv_rmt_secure_guest example_nsv = Some (True, t) \<and>
     rmt_lookup (ns_rmt t) 0x6000 = Some e \<and> rmt_owner e = noir_nsv_rmt_secure_guest"
proof -
  obtain e where e: "rmt_lookup (ns_rmt example_nsv) 0x6000 = Some e" "rmt_owner e = noir_nsv_rmt_subverted_host"
    using example_lookup(1) [of "0x6000"] by auto
  have may: "may_reassign noir_nsv_rmt_secure_guest False e" using e(2) by (simp add: may_reassign_def rmt_owner_defs)
  obtain t where t: "nvc_npt_reassign_page_ownership True (Suc 2) 0 [(0x6000, 0x9000)] 5 False noir_nsv_rmt_secure_guest example_nsv = Some (True, t)"
    and eff: "\<forall>x. low_half x \<longrightarrow> batch_effect [(0x6000, 0x9000)] 5 False noir_nsv_rmt_secure_guest x (rmt_lookup (ns_rmt example_nsv) x) (rmt_lookup (ns_rmt t) x)"
    using reassign_prepared [OF example_ok, of "[(0x6000, 0x9000)]" 2 0 5 False noir_nsv_rmt_secure_guest] example_prepared [of "0x6000"] e(1) may
    by (auto simp del: nvc_npt_reassign_page_ownership_unsafe.simps split: if_splits)
  have "batch_effect [(0x6000, 0x9000)] 5 False noir_nsv_rmt_secure_guest 0x6000 (rmt_lookup (ns_rmt example_nsv) 0x6000) (rmt_lookup (ns_rmt t) 0x6000)"
    using eff by (simp add: low_half_def)
  then obtain e' where "rmt_lookup (ns_rmt t) 0x6000 = Some e'" "rmt_owner e' = noir_nsv_rmt_secure_guest"
    by (auto simp: batch_effect_def in_batch_def assigned_def)
  then show ?thesis using t by (simp add: numeral_3_eq_3 numeral_2_eq_2 del: nvc_npt_reassign_page_ownership_unsafe.simps)
qed

theorem secure_pages_sealed_witness:
  "\<exists>t. nvc_npt_reassign_page_ownership True 3 0 [(0x6000, 0x9000)] 5 False noir_nsv_rmt_secure_guest example_nsv = Some (True, t) \<and>
     \<not> fst (fst (host_walk (ns_npt t) 0x6000))"
proof -
  obtain t e where t: "nvc_npt_reassign_page_ownership True 3 0 [(0x6000, 0x9000)] 5 False noir_nsv_rmt_secure_guest example_nsv = Some (True, t)"
    and e: "rmt_lookup (ns_rmt t) 0x6000 = Some e" "rmt_owner e = noir_nsv_rmt_secure_guest"
    using example_given by blast
  have "nsv_run example_nsv t"
    by (rule nsv_run.pages [OF nsv_run.start _ t]) (simp add: low_half_def)
  from secure_pages_sealed [OF this example_ok example_sealed e] t show ?thesis by blast
qed

theorem reassignment_effect_witness:
  "\<exists>t. nvc_npt_reassign_page_ownership True 3 0 [(0x6000, 0x9000)] 5 False noir_nsv_rmt_noirvisor example_nsv = Some (True, t) \<and>
     host_walk (ns_npt t) 0x7000 = host_walk example_npt 0x7000"
proof -
  obtain e where e: "rmt_lookup (ns_rmt example_nsv) 0x6000 = Some e" "rmt_owner e = noir_nsv_rmt_subverted_host"
    using example_lookup(1) [of "0x6000"] by auto
  have may: "may_reassign noir_nsv_rmt_noirvisor False e" using e(2) by (simp add: may_reassign_def rmt_owner_defs)
  obtain t where t: "nvc_npt_reassign_page_ownership True (Suc 2) 0 [(0x6000, 0x9000)] 5 False noir_nsv_rmt_noirvisor example_nsv = Some (True, t)"
    and eff: "\<forall>x. low_half x \<longrightarrow> \<not> in_batch [(0x6000, 0x9000)] x \<longrightarrow> host_walk (ns_npt t) x = host_walk (ns_npt example_nsv) x"
    using reassignment_effect [OF example_ok, of "[(0x6000, 0x9000)]" 2 0 5 False noir_nsv_rmt_noirvisor] example_prepared [of "0x6000"] e(1) may
    by (auto simp del: nvc_npt_reassign_page_ownership_unsafe.simps split: if_splits)
  have "host_walk (ns_npt t) 0x7000 = host_walk example_npt 0x7000"
    using eff by (simp add: low_half_def in_batch_def pfn_def example_nsv_parts)
  then show ?thesis using t by (simp add: numeral_3_eq_3 numeral_2_eq_2 del: nvc_npt_reassign_page_ownership_unsafe.simps)
qed


theorem failure_reported_as_success_witness:
  "\<exists>t. nvc_npt_reassign_page_ownership True (Suc (Suc 0)) 0 [(0x40000000, 0)] 5 False noir_nsv_rmt_secure_guest example_nsv = Some (True, t) \<and>
     rmt_lookup (ns_rmt t) 0x40000000 = rmt_lookup (ns_rmt example_nsv) 0x40000000"
proof -
  obtain e where e: "rmt_lookup (ns_rmt example_nsv) 0x5000 = Some e" "rmt_owner e = noir_nsv_rmt_subverted_host"
    using example_lookup(1) [of "0x5000"] by auto
  have "may_reassign noir_nsv_rmt_noirvisor True e" using e(2) by (simp add: may_reassign_def rmt_owner_defs)
  from failure_reported_as_success [OF example_ok _ _ _ _ _ _ example_prepared [of "0x5000"] e(1) this, where h = "0x40000000"
      and ?al1.0 = "\<lparr>pool = [False], pages = [Some 0x5000]\<rparr>" and ?al2.0 = "\<lparr>pool = [False], pages = []\<rparr>" and ?al3.0 = "\<lparr>pool = [], pages = []\<rparr>"
      and fuel = 0 and st = 0 and g = 0 and asid = 5 and shared = False and ow = noir_nsv_rmt_secure_guest]
  show ?thesis
    by (auto simp: low_half_def example_nsv_parts example_find in_region_def page_1gb_size_def page_2mb_size_def next_pool_def
        next_page_def pfn_def simp del: nvc_npt_reassign_page_ownership_unsafe.simps)
qed

end
