(* ===== verification/Run.thy ===== *)
theory Run
  imports Cv_Dispatch Nsv_Reassign Npt_Custom Vendor
begin

text \<open>
  Running a customizable virtual processor (\<open>xpf_core/noirhvm.c\<close>, \<open>svm_core/svm_custom.c\<close>): the
  software checks, the rescission flag, the hypercall that enters the guest and the exits up to the
  one that enters the host, and the requests of a guest that need the rest of its machine.
\<close>

section \<open>State\<close>

text \<open>
  The exit, the pages of the machine and their ownership, the control blocks of the processors of the
  machine in the order of their slots, and the number of breakpoints (\<open>noir_int3\<close>) that were hit.
\<close>

record run_world =
  rw :: exit_world
  rw_pages :: nsv_state
  rw_nptm :: svm_npt_manager
  rw_asid :: u32
  rw_vmcbs :: "u64 list"
  rw_vcpu_count :: u32
  rw_breakpoints :: nat

text \<open>
  What running reads of the rest: whether the hypervisor is there, the chosen core, the supported bits
  of \<open>xcr0\<close>, whether AVIC and secure virtualization are in use, the clock, the bound for the
  recursion of a reassignment and the status it starts from, the decoder of memory accesses, which is
  a library, and the VT-x core.
\<close>

record run_env =
  r_hvm :: bool
  r_core :: u8
  r_support_mask :: u64
  r_avic :: bool
  r_enable_nsv :: bool
  r_now :: u64
  r_fuel :: nat
  r_status :: noir_status
  r_decode :: "exit_world \<Rightarrow> exit_world"
  r_vt_run :: "run_world \<Rightarrow> noir_status \<times> run_world"
  r_vt_rescind :: "run_world \<Rightarrow> noir_status \<times> run_world"

definition on_exit :: "(exit_world \<Rightarrow> exit_world) \<Rightarrow> run_world \<Rightarrow> run_world" where
  "on_exit f s = s\<lparr>rw := f (rw s)\<rparr>"

definition noir_int3 :: "run_world \<Rightarrow> run_world" where
  "noir_int3 s = s\<lparr>rw_breakpoints := rw_breakpoints s + 1\<rparr>"

abbreviation intercept :: "run_world \<Rightarrow> u32" where
  "intercept s \<equiv> exit_intercept_code (xheader (rw s))"

section \<open>In the guest\<close>

text \<open>
  The processor runs the guest until an exit, which the handler serves: \<open>hw\<close> is what the processor does
  in between. This goes on while the loader runs a guest. \<open>None\<close> is a call of a handler that does not
  exist, and the end of the given exits while the guest still runs.
\<close>

type_synonym guest_run = "(exit_world \<Rightarrow> exit_world) \<times> exit_env"

definition runs_guest :: "exit_world \<Rightarrow> bool" where
  "runs_guest s \<longleftrightarrow> ls_guest_vmcb_pa (loader (xw s)) \<noteq> h_vmcb_phys (host (xw s))"

fun guest_exits :: "guest_run list \<Rightarrow> exit_world \<Rightarrow> exit_world option" where
  "guest_exits [] s = (if runs_guest s then None else Some s)"
| "guest_exits ((hw, e) # ks) s =
     (if runs_guest s then Option.bind (nvc_svm_exit_handler e (hw s)) (guest_exits ks) else Some s)"

text \<open>The hypercall \<open>noir_svm_run_custom_vcpu\<close>.\<close>

definition enter_guest :: "run_env \<Rightarrow> exit_world \<Rightarrow> exit_world" where
  "enter_guest r s = s\<lparr>x_runtime_start := r_now r, xw := nvc_svm_switch_to_guest_vcpu (r_avic r) (xw s)\<rparr>"

definition vmmcall_run :: "run_env \<Rightarrow> guest_run list \<Rightarrow> exit_world \<Rightarrow> exit_world option" where
  "vmmcall_run r ks s = guest_exits ks (enter_guest r s)"

section \<open>Requests of secure guests\<close>

text \<open>The pages of the control blocks, and all pages of the machine when protection is given up. The
  results of the reassignments are ignored.\<close>

definition nsv_activate :: "run_env \<Rightarrow> run_world \<Rightarrow> run_world option" where
  "nsv_activate r s =
     (if \<not> r_enable_nsv r then Some (noir_int3 s)
      else
        (let active = bf_flag noir_nsv_activation_context ''activation'' (vmread64 (x_union (rw s)) 0);
             s1 = on_exit (\<lambda>x. x\<lparr>xw := (xw x)\<lparr>nsv_guest := active\<rparr>\<rparr>) s;
             (pa_list, al) = next_pool (ns_allocs (rw_pages s1));
             n1 = (rw_pages s1)\<lparr>ns_allocs := al\<rparr>
         in if \<not> pa_list then Some (s1\<lparr>rw_pages := n1\<rparr>)
            else if length (rw_vmcbs s) \<noteq> unat (rw_vcpu_count s) then None
            else
              Option.bind
                (if active then Some n1
                 else map_option snd (nvc_npt_reassign_cvm_all_pages_ownership (r_fuel r) (r_status r) (rw_asid s)
                        (rw_asid s) True noir_nsv_rmt_insecure_guest n1))
                (\<lambda>n2. map_option (\<lambda>(ok, n3). s1\<lparr>rw_pages := n3\<rparr>)
                   (nvc_npt_reassign_page_ownership (r_enable_nsv r) (r_fuel r) (r_status r)
                      (map (\<lambda>p. (p, p)) (rw_vmcbs s)) 0 False
                      (if active then noir_nsv_rmt_secure_guest else noir_nsv_rmt_insecure_guest) n2))))"

text \<open>The guest pages of the claimed range: the index is shifted as a number of 32 bits. A page that is
  not mapped gives the zero that the allocation left in the list.\<close>

definition claimed_pages :: "svm_npt_manager \<Rightarrow> u64 \<Rightarrow> u32 \<Rightarrow> (u64 \<times> u64) list" where
  "claimed_pages m start n =
     map (\<lambda>i. let gpa = start + ucast (page_4kb_mult (of_nat i :: u32))
              in (snd (nvc_svmc_get_physical_mapping m gpa True False False), gpa)) [0 ..< unat n]"

definition nsv_claim_security :: "run_env \<Rightarrow> run_world \<Rightarrow> run_world option" where
  "nsv_claim_security r s =
     (if \<not> r_enable_nsv r then Some (noir_int3 s)
      else
        (let n = ucast (page_4kb_count (x_claim_end (rw s) - x_claim_start (rw s))) :: u32;
             (hpa_list, al1) = next_pool (ns_allocs (rw_pages s)); (gpa_list, al2) = next_pool al1;
             p1 = (rw_pages s)\<lparr>ns_allocs := al2\<rparr>;
             claim = bf_flag noir_nsv_claim_pages_context ''claim'' (vmread64 (x_union (rw s)) 0)
         in if hpa_list \<and> gpa_list then
              map_option (\<lambda>(ok, p2). s\<lparr>rw_pages := p2\<rparr>)
                (nvc_npt_reassign_page_ownership (r_enable_nsv r) (r_fuel r) (r_status r)
                   (claimed_pages (rw_nptm s) (x_claim_start (rw s)) n) (rw_asid s) (\<not> claim)
                   (if claim then noir_nsv_rmt_secure_guest else noir_nsv_rmt_insecure_guest) p1)
            else Some (s\<lparr>rw_pages := p1\<rparr>)))"

section \<open>Running\<close>

definition after_exits :: "run_env \<Rightarrow> run_world \<Rightarrow> (noir_status \<times> run_world) option" where
  "after_exits r s =
     (if \<not> switch_success (cvcpu (xw (rw s))) then Some (noir_nsv_violation, noir_int3 s)
      else map_option (Pair noir_success)
        (if intercept s = cv_memory_access then Some (on_exit (r_decode r) s)
         else if intercept s = cv_scheduler_nsv_activate then nsv_activate r s
         else if intercept s = cv_scheduler_nsv_claim_security then nsv_claim_security r s
         else Some s))"

definition note_interrupt :: "exit_world \<Rightarrow> exit_world" where
  "note_interrupt s =
     (if event_field ''valid'' (xheader s) \<noteq> 0 \<and> event_field ''type'' (xheader s) = 0
      then on_cv (\<lambda>cv. cv\<lparr>prev_virq := True\<rparr>) s else s)"

definition nvc_svmc_run_vcpu :: "run_env \<Rightarrow> guest_run list \<Rightarrow> run_world \<Rightarrow> (noir_status \<times> run_world) option" where
  "nvc_svmc_run_vcpu r ks s =
     (if x_rescission (rw s)
      then Some (noir_success, on_exit (\<lambda>x. set_intercept cv_rescission (x\<lparr>x_rescission := False\<rparr>)) s)
      else Option.bind (vmmcall_run r ks (note_interrupt (rw s))) (\<lambda>x. after_exits r (s\<lparr>rw := x\<rparr>)))"

definition nvc_svmc_rescind_vcpu :: "run_world \<Rightarrow> noir_status \<times> run_world" where
  "nvc_svmc_rescind_vcpu s =
     (if x_rescission (rw s) then noir_already_rescinded else noir_success,
      on_exit (\<lambda>x. x\<lparr>x_rescission := True\<rparr>) s)"

section \<open>The interface\<close>

definition vcpu_option :: "string \<Rightarrow> noir_cvm_virtual_cpu \<Rightarrow> u32" where
  "vcpu_option f h = bf_get noir_cvm_vcpu_options_bits f (vcpu_options h)"

definition nvc_set_event_injection :: "u32 \<Rightarrow> u32 \<Rightarrow> noir_cvm_virtual_cpu \<Rightarrow> noir_status \<times> noir_cvm_virtual_cpu" where
  "nvc_set_event_injection ev ec h = (noir_success, h\<lparr>injected_event := ev, injected_error_code := ec\<rparr>)"

definition noir_cvm_tunnel_format_nvc :: u32 where "noir_cvm_tunnel_format_nvc = 1"
definition noir_cvm_tunnel_format_haxm :: u32 where "noir_cvm_tunnel_format_haxm = 2"

definition set_tunnel_option :: "u32 \<Rightarrow> noir_cvm_virtual_cpu \<Rightarrow> noir_cvm_virtual_cpu" where
  "set_tunnel_option fmt h =
     h\<lparr>vcpu_options := bf_put noir_cvm_vcpu_options_bits ''tunnel_format'' fmt
        (bf_put noir_cvm_vcpu_options_bits ''use_tunnel'' 1 (vcpu_options h))\<rparr>"

definition nvc_set_tunnel :: "u64 \<Rightarrow> noir_cvm_virtual_cpu \<Rightarrow> noir_status \<times> noir_cvm_virtual_cpu" where
  "nvc_set_tunnel p h = (noir_success, (set_tunnel_option noir_cvm_tunnel_format_nvc h)\<lparr>tunnel := p\<rparr>)"

text \<open>Thirteen pairs of counters and the time of running. The zeros are written to the buffer.\<close>

definition sizeof_noir_cvm_interception_counter :: nat where "sizeof_noir_cvm_interception_counter = 16"
definition sizeof_noir_cvm_vcpu_statistics :: nat where "sizeof_noir_cvm_vcpu_statistics = 13 * 16 + 8"

definition nvc_query_vcpu_statistics ::
    "bool \<Rightarrow> noir_cvm_virtual_cpu \<Rightarrow> bytes \<Rightarrow> nat \<Rightarrow> noir_status \<times> bytes" where
  "nvc_query_vcpu_statistics hvm h buf sz =
     (if \<not> hvm then (noir_hypervision_absent, buf)
      else
        (let n = min sz sizeof_noir_cvm_vcpu_statistics in
         if n < sizeof_noir_cvm_interception_counter then (noir_buffer_too_small, buf)
         else (noir_success, \<lambda>i. if i < sizeof_noir_cvm_interception_counter then 0
                                 else copy_bytes buf 0 (statistics h) 0 n i)))"

definition valid_state :: "u64 \<Rightarrow> noir_cvm_virtual_cpu \<Rightarrow> bool" where
  "valid_state supp h \<longleftrightarrow> bit (xcr0 h) 0 \<and> (bit (xcr0 h) 1 \<or> \<not> bit (xcr0 h) 2) \<and> xcr0 h AND supp = xcr0 h \<and>
     \<not> (vcpu_option ''use_tunnel'' h \<noteq> 0 \<and> tunnel h = 0)"

definition nvc_validate_vcpu_state :: "u64 \<Rightarrow> run_world \<Rightarrow> bool \<times> run_world" where
  "nvc_validate_vcpu_state supp s =
     (if valid_state supp (xheader (rw s)) then (True, s) else (False, on_exit (set_intercept cv_invalid_state) s))"

text \<open>The copy of the exit context, or the code at the start of the tunnel.\<close>

record noir_cvm_exit_context =
  ec_intercept_code :: u32
  ec_union :: bytes
  ec_cs :: segment_register
  ec_rip :: u64
  ec_rflags :: u64
  ec_next_rip :: u64
  ec_vcpu_state :: u64

definition exit_context_of :: "exit_world \<Rightarrow> noir_cvm_exit_context" where
  "exit_context_of s =
     \<lparr>ec_intercept_code = exit_intercept_code (xheader s), ec_union = x_union s, ec_cs = x_cs s, ec_rip = x_rip s,
      ec_rflags = x_rflags s, ec_next_rip = x_next_rip s, ec_vcpu_state = x_vcpu_state s\<rparr>"

datatype run_output = No_output | Context noir_cvm_exit_context | Tunnel_code u64 u32

text \<open>\<open>p\<close> is the pointer to the exit context. \<open>None\<close> is a null pointer that is written to.\<close>

definition report_exit :: "u64 \<Rightarrow> run_world \<Rightarrow> run_output option" where
  "report_exit p s =
     (let h = xheader (rw s) in
      if vcpu_option ''use_tunnel'' h = 0
      then (if p = 0 then None else Some (Context (exit_context_of (rw s))))
      else if vcpu_option ''tunnel_format'' h = noir_cvm_tunnel_format_nvc
      then (if tunnel h = 0 then None else Some (Tunnel_code (tunnel h) (exit_intercept_code h)))
      else Some No_output)"

definition run_by_core :: "run_env \<Rightarrow> guest_run list \<Rightarrow> run_world \<Rightarrow> (noir_status \<times> run_world) option" where
  "run_by_core r ks s =
     (if r_core r = use_svm_core then nvc_svmc_run_vcpu r ks s
      else if r_core r = use_vt_core then Some (r_vt_run r s)
      else Some (noir_unknown_processor, s))"

definition nvc_run_vcpu ::
    "run_env \<Rightarrow> guest_run list \<Rightarrow> u64 \<Rightarrow> run_world \<Rightarrow> (noir_status \<times> run_output \<times> run_world) option" where
  "nvc_run_vcpu r ks p s =
     (if \<not> r_hvm r then Some (noir_hypervision_absent, No_output, s)
      else
        (case nvc_validate_vcpu_state (r_support_mask r) s of (ok, s1) \<Rightarrow>
           Option.bind (if ok then run_by_core r ks s1 else Some (noir_success, s1)) (\<lambda>(st, s2).
             if st = noir_success then map_option (\<lambda>out. (st, out, s2)) (report_exit p s2)
             else Some (st, No_output, s2))))"

definition nvc_rescind_vcpu :: "run_env \<Rightarrow> run_world \<Rightarrow> noir_status \<times> run_world" where
  "nvc_rescind_vcpu r s =
     (if \<not> r_hvm r then (noir_hypervision_absent, s)
      else if r_core r = use_vt_core then r_vt_rescind r s
      else if r_core r = use_svm_core then nvc_svmc_rescind_vcpu s
      else (noir_unknown_processor, s))"

end
