(* ===== verification/Cv_Return.thy ===== *)
theory Cv_Return
  imports Cv_Laws
begin

text \<open>
  What the subverted host gets back: an exit that enters the host restores the extended state of the
  host, and no handler touches the flag of a rescission.
\<close>

section \<open>The law\<close>

definition gives_host :: "exit_world \<Rightarrow> exit_world \<Rightarrow> bool" where
  "gives_host s t \<longleftrightarrow> x_rescission t = x_rescission s \<and> host (xw t) = host (xw s) \<and>
     (loader (xw t) = loader (xw s) \<or>
      pr_xcr0 (cpu (xw t)) = h_xcr0 (host (xw s)) \<and> pr_fpu (cpu (xw t)) = h_xsave_area (host (xw s)))"

lemma rescission_parts [simp]:
  "x_rescission (on_cv f s) = x_rescission s" "x_rescission (on_frame g s) = x_rescission s"
  "x_rescission (select c s) = x_rescission s" "x_rescission (leave_guest e s) = x_rescission s"
  by (simp_all add: on_cv_def on_frame_def select_def leave_guest_def)

lemma processor_parts [simp]:
  "cpu (xw (on_cv f s)) = cpu (xw s)" "cpu (xw (on_frame g s)) = cpu (xw s)"
  "pr_xcr0 (cpu (xw (leave_guest e s))) = h_xcr0 (host (xw s))"
  "pr_fpu (cpu (xw (leave_guest e s))) = h_xsave_area (host (xw s))"
  by (auto simp: on_cv_def on_frame_def leave_guest_def nvc_svm_switch_to_host_vcpu_def Let_def save_guest_def
      nvc_svm_nsv_save_guest_vcpu_def split: prod.splits)

lemmas back_simps = gives_host_def derived_updates Let_def

lemma back_refl: "gives_host s s"
  by (simp add: gives_host_def)

lemma back_steps: "gives_host s (on_cv f t) \<longleftrightarrow> gives_host s t" "gives_host s (select c t) \<longleftrightarrow> gives_host s t"
  by (simp_all add: gives_host_def)

section \<open>The handlers\<close>

lemma inject_back: "gives_host s (nvc_svm_inject_cvm_exception e v ev ec a n f s)"
  by (simp add: nvc_svm_inject_cvm_exception_def back_simps)

lemma inject_ud_back: "gives_host s (inject_ud e s)"
  unfolding inject_ud_def by (rule inject_back)

lemma exception_back: "gives_host s (nvc_svm_exception_cvexit_handler e s)"
  by (simp add: nvc_svm_exception_cvexit_handler_def back_simps)

lemma scheduler_back:
  "gives_host s (nvc_svm_default_cvexit_handler e s)" "gives_host s (nvc_svm_mc_cvexit_handler e s)"
  "gives_host s (nvc_svm_extint_cvexit_handler e s)" "gives_host s (nvc_svm_nmi_cvexit_handler e s)"
  "gives_host s (nvc_svm_smi_cvexit_handler e s)" "gives_host s (nvc_svm_shutdown_cvexit_handler e s)"
  "gives_host s (nvc_svm_invalid_state_cvexit_handler e s)"
  by (simp_all add: nvc_svm_default_cvexit_handler_def nvc_svm_mc_cvexit_handler_def nvc_svm_extint_cvexit_handler_def
      nvc_svm_nmi_cvexit_handler_def nvc_svm_smi_cvexit_handler_def nvc_svm_shutdown_cvexit_handler_def
      nvc_svm_invalid_state_cvexit_handler_def back_simps)

lemma sx_back: "gives_host s (nvc_svm_sx_cvexit_handler e s)"
  by (simp add: nvc_svm_sx_cvexit_handler_def nvc_svm_emulate_init_signal_def back_simps)

lemma register_back:
  "gives_host s (nvc_svm_cr4_read_cvexit_handler e s)" "gives_host s (nvc_svm_cr4_write_cvexit_handler e s)"
  "gives_host s (nvc_svm_cr_access_cvexit_handler e s)" "gives_host s (nvc_svm_dr_access_cvexit_handler e s)"
  by (simp_all add: nvc_svm_cr4_read_cvexit_handler_def nvc_svm_cr4_write_cvexit_handler_def
      nvc_svm_cr_access_cvexit_handler_def nvc_svm_dr_access_cvexit_handler_def back_simps)

lemma window_back:
  "gives_host s (nvc_svm_virtint_cvexit_handler e s)" "gives_host s (nvc_svm_iret_cvexit_handler e s)"
  by (simp_all add: nvc_svm_virtint_cvexit_handler_def nvc_svm_iret_cvexit_handler_def back_simps)

lemma instruction_back:
  "gives_host s (nvc_svm_invd_cvexit_handler e s)" "gives_host s (nvc_svm_hlt_cvexit_handler e s)"
  "gives_host s (nvc_svm_vmmcall_cvexit_handler e s)"
  by (simp_all add: nvc_svm_invd_cvexit_handler_def nvc_svm_hlt_cvexit_handler_def nvc_svm_vmmcall_cvexit_handler_def
      back_simps)

lemma svm_instruction_back:
  "gives_host s (nvc_svm_invlpga_cvexit_handler e s)" "gives_host s (nvc_svm_vmrun_cvexit_handler e s)"
  "gives_host s (nvc_svm_vmload_cvexit_handler e s)" "gives_host s (nvc_svm_vmsave_cvexit_handler e s)"
  "gives_host s (nvc_svm_stgi_cvexit_handler e s)" "gives_host s (nvc_svm_clgi_cvexit_handler e s)"
  "gives_host s (nvc_svm_skinit_cvexit_handler e s)"
  using inject_ud_back
  by (simp_all add: nvc_svm_invlpga_cvexit_handler_def nvc_svm_vmrun_cvexit_handler_def nvc_svm_vmload_cvexit_handler_def
      nvc_svm_vmsave_cvexit_handler_def nvc_svm_stgi_cvexit_handler_def nvc_svm_clgi_cvexit_handler_def
      nvc_svm_skinit_cvexit_handler_def back_steps)

lemma io_back: "gives_host s (nvc_svm_io_cvexit_handler e s)"
  by (simp add: nvc_svm_io_cvexit_handler_def nvc_svm_nsv_load_nae_synthetic_msr_state_def back_simps)

lemma npf_back: "gives_host s (nvc_svm_nested_pf_cvexit_handler e s)"
  by (simp add: nvc_svm_nested_pf_cvexit_handler_def back_simps)

lemma avic_back:
  "gives_host s (nvc_svm_incomplete_ipi_cvexit_handler e s)" "gives_host s (nvc_svm_unaccelerated_avic_cvexit_handler e s)"
  by (simp_all add: nvc_svm_incomplete_ipi_cvexit_handler_def nvc_svm_unaccelerated_avic_cvexit_handler_def back_refl)

lemma cpuid_back: "nvc_svm_cpuid_cvexit_handler e s = Some t \<Longrightarrow> gives_host s t"
  by (auto simp: nvc_svm_cpuid_cvexit_handler_def nvc_svm_nsv_load_nae_synthetic_msr_state_def back_simps
      split: if_splits option.splits prod.splits)

lemma nsv_msr_stays:
  "gives_host s (snd (nvc_svm_rdmsr_nsvexit_handler s)) \<and> goes_on s (snd (nvc_svm_rdmsr_nsvexit_handler s))"
  "gives_host s (snd (nvc_svm_wrmsr_nsvexit_handler e s)) \<and> goes_on s (snd (nvc_svm_wrmsr_nsvexit_handler e s))"
proof -
  show "gives_host s (snd (nvc_svm_rdmsr_nsvexit_handler s)) \<and> goes_on s (snd (nvc_svm_rdmsr_nsvexit_handler s))"
    using nsv_msr_goes_on(1) by (simp add: nvc_svm_rdmsr_nsvexit_handler_def inject_gp_def back_simps split: option.split)
  have "\<And>t. nsv_write e s i v = Inl t \<Longrightarrow> gives_host s t" "\<And>r t. nsv_write e s i v = Inr (r, t) \<Longrightarrow> gives_host s t" for i v
    by (auto simp: nsv_write_def nvc_svm_nsv_synchronize_activation_def back_simps split: if_splits)
  then show "gives_host s (snd (nvc_svm_wrmsr_nsvexit_handler e s)) \<and> goes_on s (snd (nvc_svm_wrmsr_nsvexit_handler e s))"
    using nsv_msr_goes_on(2)
    by (auto simp: nvc_svm_wrmsr_nsvexit_handler_def inject_gp_def derived_updates back_steps split: sum.split prod.split)
qed

lemma leave_back: "gives_host s t \<Longrightarrow> goes_on s t \<Longrightarrow> gives_host s (leave_guest e t)"
  by (simp add: gives_host_def)

lemma emulate_msr_back: "gives_host s (emulate_msr e op s)"
proof -
  have step: "x_rescission t = x_rescission s \<and> goes_on s t"
    if "t = snd (if op then nvc_svm_wrmsr_cvexit_handler e s else nvc_svm_rdmsr_cvexit_handler e s)" for t
    by (simp add: that nvc_svm_wrmsr_cvexit_handler_def nvc_svm_rdmsr_cvexit_handler_def ends_simps split: option.split)
  obtain a t where t: "(if op then nvc_svm_wrmsr_cvexit_handler e s else nvc_svm_rdmsr_cvexit_handler e s) = (a, t)"
    by (metis prod.exhaust)
  have s: "x_rescission t = x_rescission s" "goes_on s t" using step [of t] t by simp_all
  have "gives_host (select St_emulation t) (inject_ud e (select St_emulation t))" by (rule inject_ud_back)
  then have "gives_host s (inject_ud e (select St_emulation t))" using s by (simp add: gives_host_def goes_on_def)
  then show ?thesis
    using s t by (cases a) (simp_all add: emulate_msr_def Let_def back_steps gives_host_def goes_on_def)
qed

lemma deliver_msr_back: "gives_host s (deliver_msr e op s)"
  by (simp add: deliver_msr_def back_simps)

lemma msr_back: "gives_host s (nvc_svm_msr_cvexit_handler e s)"
proof -
  define op where "op = (vmread8 (xvmcb s) exit_info1 \<noteq> 0)"
  obtain r t where t: "(if op then nvc_svm_wrmsr_nsvexit_handler e s else nvc_svm_rdmsr_nsvexit_handler s) = (r, t)"
    by (metis prod.exhaust)
  have g: "gives_host s t" "goes_on s t"
    using nsv_msr_stays [of s] t by (metis snd_conv)+
  have synthetic: "gives_host s (case (r, t) of (no_exit, s1) \<Rightarrow> if no_exit then s1 else leave_guest e s1)"
    using g leave_back [OF g] by simp
  show ?thesis
    unfolding nvc_svm_msr_cvexit_handler_def Let_def op_def [symmetric] t
    using synthetic emulate_msr_back deliver_msr_back back_refl by (simp only: split: if_split) blast
qed

section \<open>Every handler\<close>

definition gives_back :: "cvexit_handler \<Rightarrow> bool" where
  "gives_back f \<longleftrightarrow> (\<forall>e s t. f e s = Some t \<longrightarrow> gives_host s t)"

lemma total_back: "(\<And>e s. gives_host s (f e s)) \<Longrightarrow> gives_back (total f)"
  by (simp add: gives_back_def total_def)

lemmas handlers_back = total_back [OF exception_back] total_back [OF scheduler_back(1)] total_back [OF scheduler_back(2)]
  total_back [OF scheduler_back(3)] total_back [OF scheduler_back(4)] total_back [OF scheduler_back(5)]
  total_back [OF scheduler_back(6)] total_back [OF scheduler_back(7)] total_back [OF sx_back]
  total_back [OF register_back(1)] total_back [OF register_back(2)] total_back [OF register_back(3)]
  total_back [OF register_back(4)] total_back [OF window_back(1)] total_back [OF window_back(2)]
  total_back [OF instruction_back(1)] total_back [OF instruction_back(2)] total_back [OF instruction_back(3)]
  total_back [OF svm_instruction_back(1)] total_back [OF svm_instruction_back(2)] total_back [OF svm_instruction_back(3)]
  total_back [OF svm_instruction_back(4)] total_back [OF svm_instruction_back(5)] total_back [OF svm_instruction_back(6)]
  total_back [OF svm_instruction_back(7)] total_back [OF io_back] total_back [OF npf_back] total_back [OF avic_back(1)]
  total_back [OF avic_back(2)] total_back [OF msr_back]

lemma cpuid_handler_back: "gives_back nvc_svm_cpuid_cvexit_handler"
  using cpuid_back by (simp add: gives_back_def)

lemma dispatched_back: "svm_cvexit_handlers code = Some f \<Longrightarrow> gives_back f"
proof -
  have 1: "f \<in> set svm_cvexit_handler_group1 \<Longrightarrow> gives_back f" for f
    unfolding svm_cvexit_handler_group1_def unhandled_def using handlers_back cpuid_handler_back
    by (simp only: set_append set_replicate_conv_if list.set Un_iff insert_iff empty_iff) auto
  have 2: "f \<in> set svm_cvexit_handler_group2 \<Longrightarrow> gives_back f" for f
    unfolding svm_cvexit_handler_group2_def using handlers_back by auto
  have 3: "Some f \<in> set svm_cvexit_handler_negative \<Longrightarrow> gives_back f" for f
    unfolding svm_cvexit_handler_negative_def using handlers_back by auto
  show "svm_cvexit_handlers code = Some f \<Longrightarrow> gives_back f" using dispatched_member 1 2 3 by blast
qed

end
