(* ===== verification/Run_Properties.thy ===== *)
theory Run_Properties
  imports Run Cv_Return Cv_Properties
begin

text \<open>
  The properties of running a virtual processor: the subverted host gets its processor back, a
  rescission is reported, what a null tunnel does, and the range of a claim.
\<close>

section \<open>One exit\<close>

lemma begin_exit_rescission [simp]: "x_rescission (begin_exit e s) = x_rescission s"
  by (simp add: begin_exit_def Let_def derived_updates)

lemma deliver_exit_processor [simp]: "cpu (xw (deliver_exit s)) = cpu (xw s)"
  by (simp add: deliver_exit_def nvc_svm_load_basic_exit_context_def Let_def derived_updates)

lemma end_exit_processor [simp]: "cpu (xw (end_exit e s)) = cpu (xw s)"
  by (simp add: end_exit_def Let_def derived_updates)

lemma deliver_rescission:
  "x_rescission (deliver_exit s) = x_rescission s \<or>
   x_rescission s \<and> \<not> x_rescission (deliver_exit s) \<and> exit_intercept_code (xheader (deliver_exit s)) = cv_rescission"
  by (simp add: deliver_exit_def nvc_svm_load_basic_exit_context_def Let_def derived_updates)

lemma end_rescission:
  "x_rescission (end_exit e s) = x_rescission s \<or>
   x_rescission s \<and> \<not> x_rescission (end_exit e s) \<and> exit_intercept_code (xheader (end_exit e s)) = cv_rescission"
  using deliver_rescission [of s] by (simp add: end_exit_def Let_def derived_updates)

lemma exit_gives_host:
  assumes "nvc_svm_exit_handler e s = Some t"
  shows "loader (xw t) = loader (xw s) \<or>
    pr_xcr0 (cpu (xw t)) = h_xcr0 (host (xw s)) \<and> pr_fpu (cpu (xw t)) = h_xsave_area (host (xw s))"
    "x_rescission t = x_rescission s \<or>
     x_rescission s \<and> \<not> x_rescission t \<and> exit_intercept_code (xheader t) = cv_rescission"
proof -
  obtain f u where f: "svm_cvexit_handlers (vmread32 (xvmcb s) exit_code) = Some f" "f e (begin_exit e s) = Some u"
    and t: "t = end_exit e u"
    using exit_parts [OF assms] .
  have g: "gives_host (begin_exit e s) u"
    using dispatched_back [OF f(1)] f(2) unfolding gives_back_def by blast
  then show "loader (xw t) = loader (xw s) \<or>
    pr_xcr0 (cpu (xw t)) = h_xcr0 (host (xw s)) \<and> pr_fpu (cpu (xw t)) = h_xsave_area (host (xw s))"
    by (simp add: t gives_host_def)
  show "x_rescission t = x_rescission s \<or>
     x_rescission s \<and> \<not> x_rescission t \<and> exit_intercept_code (xheader t) = cv_rescission"
    using end_rescission [of e u] g by (simp add: t gives_host_def)
qed

section \<open>Any number of exits\<close>

text \<open>The processor running a guest writes neither the saved state of the host nor the stack of the
  loader: the nested paging of the guest does not map them.\<close>

definition spares_host :: "(exit_world \<Rightarrow> exit_world) \<Rightarrow> bool" where
  "spares_host hw \<longleftrightarrow> (\<forall>x. host (xw (hw x)) = host (xw x) \<and> loader (xw (hw x)) = loader (xw x))"

definition host_again :: "host_vcpu \<Rightarrow> exit_world \<Rightarrow> bool" where
  "host_again h t \<longleftrightarrow> host (xw t) = h \<and> ls_guest_vmcb_pa (loader (xw t)) = h_vmcb_phys h \<and>
     xframe t 0 = h_vmcb_phys h \<and> pr_xcr0 (cpu (xw t)) = h_xcr0 h \<and> pr_fpu (cpu (xw t)) = h_xsave_area h \<and>
     ((\<forall>i. i \<noteq> 0 \<longrightarrow> xframe t i = h_gpr h i) \<or> (\<exists>fms :: u32. \<forall>i \<in> {1 ..< 16}. xframe t i = (if i = 2 then ucast fms else 0)))"

lemma exit_host_again:
  assumes "nvc_svm_exit_handler e s = Some t" "runs_guest s" "\<not> runs_guest t"
  shows "host_again (host (xw s)) t"
proof -
  have ended: "host (xw t) = host (xw s)" "xframe t 0 = ls_guest_vmcb_pa (loader (xw t))"
    "loader (xw t) = loader (xw s) \<or>
     ls_guest_vmcb_pa (loader (xw t)) = h_vmcb_phys (host (xw s)) \<and> ls_custom_vcpu (loader (xw t)) = e_idle e \<and>
     ((\<forall>i. i \<noteq> 0 \<longrightarrow> xframe t i = h_gpr (host (xw s)) i) \<or>
      (\<forall>i \<in> {1 ..< 16}. xframe t i = (if i = 2 then ucast (e_fms e) else 0)))"
    using exit_ended [OF assms(1)] by simp_all
  have "loader (xw t) \<noteq> loader (xw s)" using assms(2,3) ended(1) by (auto simp: runs_guest_def)
  then show ?thesis
    using ended exit_gives_host(1) [OF assms(1)] unfolding host_again_def by metis
qed

lemma guest_exits_host:
  "guest_exits ks s = Some t \<Longrightarrow> \<forall>k \<in> set ks. spares_host (fst k) \<Longrightarrow> runs_guest s \<Longrightarrow> host_again (host (xw s)) t"
proof (induction ks s rule: guest_exits.induct)
  case (1 s)
  then show ?case by simp
next
  case (2 hw e ks s)
  obtain u where u: "nvc_svm_exit_handler e (hw s) = Some u" "guest_exits ks u = Some t"
    using "2.prems" by (auto simp: bind_eq_Some_conv)
  have spare: "host (xw (hw s)) = host (xw s)" "loader (xw (hw s)) = loader (xw s)"
    using "2.prems"(2) by (simp_all add: spares_host_def)
  then have run: "runs_guest (hw s)" using "2.prems"(3) by (simp add: runs_guest_def)
  have same: "host (xw u) = host (xw s)" using exit_ended [OF u(1)] spare by simp
  show ?case
  proof (cases "runs_guest u")
    case True
    then show ?thesis using "2.IH" [OF "2.prems"(3) u(1)] u "2.prems"(2) same by simp
  next
    case False
    then have "t = u" using u(2) by (cases ks) auto
    then show ?thesis using exit_host_again [OF u(1) run False] spare by simp
  qed
qed

section \<open>Entering\<close>

lemma inject_flush_parts [simp]: "vmcb_phys (flush_npt (inject_event cv)) = vmcb_phys cv"
  by (simp add: flush_npt_def inject_event_def Let_def)

lemma load_guest_parts [simp]:
  "host (load_guest w) = host w" "vmcb_phys (cvcpu (load_guest w)) = vmcb_phys (cvcpu w)"
  by (auto simp: load_guest_def nvc_svm_nsv_load_guest_vcpu_def Let_def split: prod.split)

lemma entered_parts:
  "host (nvc_svm_switch_to_guest_vcpu avic w) = host (save_host w)"
  "ls_guest_vmcb_pa (loader (nvc_svm_switch_to_guest_vcpu avic w)) = vmcb_phys (cvcpu w)"
  by (simp_all add: nvc_svm_switch_to_guest_vcpu_def Let_def save_host_def migrate_def cong: if_cong)

lemma host_again_after_run:
  assumes "vmmcall_run r ks s = Some t" "\<forall>k \<in> set ks. spares_host (fst k)"
    "vmcb_phys (cvcpu (xw s)) \<noteq> h_vmcb_phys (host (xw s))"
  shows "host_again (host (save_host (xw s))) t"
proof -
  have "runs_guest (enter_guest r s)"
    using assms(3) by (simp add: enter_guest_def runs_guest_def entered_parts) (simp add: save_host_def)
  moreover have "host (xw (enter_guest r s)) = host (save_host (xw s))" by (simp add: enter_guest_def entered_parts)
  ultimately show ?thesis
    using guest_exits_host [OF _ assms(2), of "enter_guest r s" t] assms(1) by (simp add: vmmcall_run_def)
qed

section \<open>The properties\<close>


text \<open>C38: a rescission is reported exactly once. Rescinding a virtual processor that is not running makes
  the next run return at once with the code of a rescission, before the guest executes an
  instruction; the flag is clear again then, so that the processor runs on afterwards. No exit loses
  the flag: it stays as it is, or it is cleared and the exit reports the rescission.\<close>

theorem rescission_reported:
  assumes "r_hvm r" "r_core r = use_svm_core" "valid_state (r_support_mask r) (xheader (rw s))"
    "vcpu_option ''use_tunnel'' (xheader (rw s)) = 0" "p \<noteq> 0"
    "nvc_svm_exit_handler e x = Some y"
  shows "\<exists>c t. nvc_run_vcpu r ks p (snd (nvc_rescind_vcpu r s)) = Some (noir_success, Context c, t) \<and>
      ec_intercept_code c = cv_rescission \<and> \<not> x_rescission (rw t) \<and> xw (rw t) = xw (set_intercept cv_rescission (rw s)) \<and>
      fst (nvc_rescind_vcpu r t) = noir_success \<and>
    (x_rescission y = x_rescission x \<or>
     x_rescission x \<and> \<not> x_rescission y \<and> exit_intercept_code (xheader y) = cv_rescission)"
proof -
  have "use_svm_core \<noteq> use_vt_core" by (simp add: core_defs)
  then show ?thesis
    using assms(1-5) exit_gives_host(2) [OF assms(6)]
    by (simp add: nvc_run_vcpu_def nvc_rescind_vcpu_def nvc_svmc_rescind_vcpu_def nvc_validate_vcpu_state_def
        run_by_core_def nvc_svmc_run_vcpu_def on_exit_def report_exit_def Let_def vcpu_option_def derived_updates
        exit_context_of_def valid_state_def) (simp add: on_cv_def)
qed

text \<open>A null tunnel brings the host down. A processor that uses a tunnel of the format of NoirVisor
  without having one is not run: the check of its state fails. The failure is then reported as an exit
  all the same, through the null pointer; with the format of HAXM it is reported, and with an exit
  context it would be.\<close>

theorem null_tunnel_crashes:
  assumes "r_hvm r" "tunnel h = 0"
  shows "nvc_run_vcpu r ks p (on_exit (on_header (\<lambda>_. snd (nvc_set_tunnel 0 h))) s) = None"
proof -
  let ?h = "snd (nvc_set_tunnel 0 h)"
  have small: "bf_size noir_cvm_vcpu_options_bits \<le> 32" by (simp add: bf_size_def noir_cvm_vcpu_options_bits_def)
  have fields: "vcpu_option ''use_tunnel'' ?h = 1" "vcpu_option ''tunnel_format'' ?h = noir_cvm_tunnel_format_nvc" "tunnel ?h = 0"
    using small by (simp_all add: nvc_set_tunnel_def set_tunnel_option_def vcpu_option_def bf_get_put_same bf_get_put_other
        noir_cvm_tunnel_format_nvc_def) (simp_all add: noir_cvm_vcpu_options_bits_def)
  then show ?thesis
    using assms(1) by (simp add: nvc_run_vcpu_def nvc_validate_vcpu_state_def valid_state_def report_exit_def on_exit_def
        derived_updates vcpu_option_def)
qed

text \<open>Which guest pages a claim covers. The pages of the range are listed in order up to 4 GiB; the
  index is shifted as a number of 32 bits, so that a longer range lists the pages of its first 4 GiB
  again and leaves the others out, although the handler of the request admits ranges of up to
  \<open>2^32 - 1\<close> pages.\<close>

theorem claim_covers_4gb:
  assumes "i < unat n"
  shows "snd (claimed_pages m start n ! i) = start + of_nat (4096 * (i mod 2 ^ 20))"
proof -
  have "(2 :: nat) ^ 32 = 4096 * 2 ^ 20" by simp
  then have "take_bit 32 (i * 4096) = 4096 * (i mod 2 ^ 20)"
    by (metis mult.commute mult_mod_right take_bit_eq_mod)
  moreover have "page_4kb_mult (of_nat i :: u32) = of_nat (i * 4096)"
    by (simp add: page_4kb_mult_def push_bit_eq_mult)
  ultimately have "(ucast (page_4kb_mult (of_nat i :: u32)) :: u64) = of_nat (4096 * (i mod 2 ^ 20))"
    by (simp only: unsigned_of_nat) simp
  then show ?thesis using assms by (simp add: claimed_pages_def Let_def)
qed

section \<open>Witnesses\<close>

definition example_run_env :: run_env where
  "example_run_env =
     \<lparr>r_hvm = True, r_core = use_svm_core, r_support_mask = 7, r_avic = False, r_enable_nsv = True, r_now = 0, r_fuel = 1,
      r_status = noir_success, r_decode = id, r_vt_run = Pair noir_success, r_vt_rescind = Pair noir_success\<rparr>"

definition example_run :: run_world where
  "example_run =
     \<lparr>rw = example_exit False 0x78,
      rw_pages = \<lparr>ns_npt = \<lparr>ncr3 = (\<lambda>_. 0), ncr3_pa = 0, pdpt = (\<lambda>_. 0), pdpt_pa = 0, pdes = [], ptes = []\<rparr>,
                  ns_rmt = \<lparr>directory = [], dir_count = 0\<rparr>, ns_allocs = \<lparr>pool = [], pages = []\<rparr>\<rparr>,
      rw_nptm = \<lparr>ncr3_virt = (\<lambda>_. 0), ncr3_phys = 0, pdpte_list = [], pde_list = [], pte_list = []\<rparr>,
      rw_asid = 1, rw_vmcbs = [0x3000], rw_vcpu_count = 1, rw_breakpoints = 0\<rparr>"

text \<open>The processor executes \<open>hlt\<close>.\<close>

definition halting :: "exit_world \<Rightarrow> exit_world" where
  "halting = on_vmcb (\<lambda>b. vmwrite32 b exit_code 0x78)"

lemma halting_exits:
  "\<exists>t. nvc_svm_exit_handler e (halting s) = Some t \<and> \<not> runs_guest t"
proof -
  have "vmread32 (xvmcb (halting s)) exit_code = 0x78" by (simp add: halting_def derived_updates vmwrite_wr vmcb)
  then have "nvc_svm_exit_handler e (halting s) = Some (end_exit e (nvc_svm_hlt_cvexit_handler e (begin_exit e (halting s))))"
    using handler_hlt by (simp add: nvc_svm_exit_handler_def total_def)
  moreover have "\<not> runs_guest (end_exit e (nvc_svm_hlt_cvexit_handler e (begin_exit e (halting s))))"
    by (simp add: runs_guest_def nvc_svm_hlt_cvexit_handler_def Let_def derived_updates)
  ultimately show ?thesis by blast
qed

lemma example_runs:
  "\<exists>t. vmmcall_run example_run_env [(halting, example_env)] (rw example_run) = Some t"
proof -
  let ?s = "enter_guest example_run_env (rw example_run)"
  obtain t where t: "nvc_svm_exit_handler example_env (halting ?s) = Some t" "\<not> runs_guest t"
    using halting_exits by blast
  then show ?thesis by (simp add: vmmcall_run_def)
qed


theorem rescission_reported_witness:
  "\<exists>c t. nvc_run_vcpu example_run_env [] 1 (snd (nvc_rescind_vcpu example_run_env example_run)) = Some (noir_success, Context c, t) \<and>
    ec_intercept_code c = cv_rescission"
proof -
  have "vcpu_option ''use_tunnel'' example_header = 0" by (simp add: vcpu_option_def example_header_def bf_get_def)
  moreover have "xheader (rw example_run) = example_header"
    by (simp add: example_run_def example_exit_def example_vcpu_def)
  moreover have "valid_state 7 example_header" using \<open>vcpu_option ''use_tunnel'' example_header = 0\<close>
    by (simp add: valid_state_def) (simp add: example_header_def bit_1_iff)
  moreover have "r_hvm example_run_env" "r_core example_run_env = use_svm_core" "r_support_mask example_run_env = 7"
    by (simp_all add: example_run_env_def)
  ultimately have "\<exists>c t. nvc_run_vcpu example_run_env [] 1 (snd (nvc_rescind_vcpu example_run_env example_run)) = Some (noir_success, Context c, t) \<and>
      ec_intercept_code c = cv_rescission \<and> \<not> x_rescission (rw t) \<and>
      xw (rw t) = xw (set_intercept cv_rescission (rw example_run)) \<and> fst (nvc_rescind_vcpu example_run_env t) = noir_success \<and>
      (x_rescission (example_halt False) = x_rescission (example_exit False 0x78) \<or>
       x_rescission (example_exit False 0x78) \<and> \<not> x_rescission (example_halt False) \<and>
       exit_intercept_code (xheader (example_halt False)) = cv_rescission)"
    by (intro rescission_reported [OF _ _ _ _ _ example_halts]) simp_all
  then show ?thesis by blast
qed

theorem null_tunnel_crashes_witness:
  "nvc_run_vcpu example_run_env [] 0 (on_exit (on_header (\<lambda>_. snd (nvc_set_tunnel 0 example_header))) example_run) = None"
  using null_tunnel_crashes [of example_run_env example_header "[]" 0 example_run]
  by (simp add: example_run_env_def example_header_def)

theorem claim_covers_4gb_witness:
  "snd (claimed_pages (rw_nptm example_run) 0x1000 3 ! 2) = 0x3000"
  using claim_covers_4gb [of 2 3 "rw_nptm example_run" "0x1000"] by simp

end
