(* ===== verification/Walk.thy ===== *)
theory Walk
  imports Vmcb Paging_Units
begin

text \<open>
  The walkers of page tables: nested paging of customizable machines (\<open>svm_core/svm_decode.c\<close>), the
  page tables of the subverted host and those of a guest (\<open>xpf_core/noirhvm.c\<close>), and the copies of
  virtual memory on top of them. Physical memory is identity mapped, so it is memory seen through a
  byte pointer, and address 0 is a page like any other.
\<close>

section \<open>Outcomes\<close>

text \<open>
  \<open>Fault\<close> is \<open>false\<close> with the error code, \<open>No_table\<close> is \<open>false\<close> with the error code left alone, and
  \<open>Undefined\<close> is a shift of a number of 32 bits by 32 bits or more.
\<close>

datatype walk = Page u64 | Fault u32 | No_table | Undefined

text \<open>An entry lacks a right: \<open>present<r\<close>, \<open>write<w\<close>, \<open>user<u\<close>, \<open>no_execute>x\<close> on one-bit values.\<close>

definition pf_code :: "bool \<Rightarrow> bool \<Rightarrow> bool \<Rightarrow> bool \<Rightarrow> u32" where
  "pf_code p w u x =
     (let put = bf_put noir_page_fault_error_code
      in put ''user'' (of_flag u) (put ''execute'' (of_flag x) (put ''write'' (of_flag w) (put ''present'' (of_flag p) 0))))"

definition lacks :: "bf_layout \<Rightarrow> string \<Rightarrow> 'a::len word \<Rightarrow> bool \<Rightarrow> bool" where
  "lacks L f e wanted \<longleftrightarrow> wanted \<and> \<not> bf_flag L f e"

abbreviation entry64 :: "string \<Rightarrow> u64 \<Rightarrow> bool" where
  "entry64 f e \<equiv> bf_flag noir_paging64_general_entry f e"

definition pf_code64 :: "u64 \<Rightarrow> bool \<Rightarrow> bool \<Rightarrow> bool \<Rightarrow> bool \<Rightarrow> u32" where
  "pf_code64 e r w x u =
     pf_code (lacks noir_paging64_general_entry ''present'' e r) (lacks noir_paging64_general_entry ''write'' e w)
       (lacks noir_paging64_general_entry ''user'' e u) (entry64 ''no_execute'' e \<and> \<not> x)"

text \<open>The entry of a table at a level (level 1 has the pages), and the page of a large entry.\<close>

definition level_shift :: "nat \<Rightarrow> nat" where "level_shift level = (level - 1) * 9 + 12"

definition table_entry :: "bytes \<Rightarrow> u64 \<Rightarrow> u64 \<Rightarrow> nat \<Rightarrow> u64" where
  "table_entry mem pt va level =
     vmread64 mem (unat pt + 8 * unat (page_entry_index64 (drop_bit (level_shift level) va)))"

definition large_page :: "u64 \<Rightarrow> u64 \<Rightarrow> nat \<Rightarrow> walk" where
  "large_page base va level =
     (if 32 \<le> level_shift level then Undefined
      else Page (push_bit (level_shift level) (drop_bit ((level - 1) * 9) base) + (va AND (2 ^ level_shift level - 1))))"

section \<open>Nested paging\<close>

fun nvc_svm_translate_custom_gpa :: "bytes \<Rightarrow> u64 \<Rightarrow> nat \<Rightarrow> u64 \<Rightarrow> u32 \<Rightarrow> walk" where
  "nvc_svm_translate_custom_gpa mem pt 0 gpa access = Undefined"
| "nvc_svm_translate_custom_gpa mem pt (Suc l) gpa access =
     (let e = table_entry mem pt gpa (Suc l); L = amd64_npt_general_entry;
          err = pf_code (lacks L ''present'' e (noir_bt access 0)) (lacks L ''write'' e (noir_bt access 1)) False
                  (bf_flag L ''no_execute'' e \<and> \<not> noir_bt access 2)
      in if err \<noteq> 0 then Fault err
         else if 0 < l then
           (if bf_flag L ''psize'' e then large_page (bf_get L ''base'' e) gpa (Suc l)
            else nvc_svm_translate_custom_gpa mem (page_4kb_mult (bf_get L ''base'' e)) l gpa access)
         else Page (page_4kb_mult (bf_get L ''base'' e) + page_4kb_offset gpa))"

section \<open>The subverted host\<close>

fun nvc_translate_host_virtual_address_routine64 ::
    "bytes \<Rightarrow> u64 \<Rightarrow> u64 \<Rightarrow> nat \<Rightarrow> bool \<Rightarrow> bool \<Rightarrow> bool \<Rightarrow> bool \<Rightarrow> walk" where
  "nvc_translate_host_virtual_address_routine64 mem pt va 0 r w x u = Undefined"
| "nvc_translate_host_virtual_address_routine64 mem pt va (Suc l) r w x u =
     (let e = table_entry mem pt va (Suc l); L = noir_paging64_general_entry; err = pf_code64 e r w x u
      in if err \<noteq> 0 \<and> l = 0 then Fault err
         else if 0 < l then
           (if bf_flag L ''psize'' e then large_page (bf_get L ''base'' e) va (Suc l)
            else nvc_translate_host_virtual_address_routine64 mem (page_4kb_mult (bf_get L ''base'' e)) va l r w x u)
         else Page (page_4kb_mult (bf_get L ''base'' e) + page_4kb_offset va))"

text \<open>
  Copying between the virtual memory of the host and a buffer: the state is the memory with the
  buffer, the numbers are the offset into the buffer and the length; the result counts the bytes.
  A range that crosses a page is copied in pieces, none of them longer than what the first page of
  the range has left, and each piece is copied by the function itself.
\<close>

type_synonym copy_state = "bytes \<times> bytes"

definition move_bytes :: "bool \<Rightarrow> u64 \<Rightarrow> nat \<Rightarrow> nat \<Rightarrow> copy_state \<Rightarrow> copy_state" where
  "move_bytes wrt pa pos n st =
     (case st of (mem, buf) \<Rightarrow>
        if wrt then (copy_bytes mem (unat pa) buf pos n, buf) else (mem, copy_bytes buf pos mem (unat pa) n))"

definition page_left :: "u64 \<Rightarrow> nat" where "page_left va = 4096 - unat (page_4kb_offset va)"

function nvc_copy_host_virtual_memory64 ::
      "bool \<Rightarrow> bool \<Rightarrow> u64 \<Rightarrow> u64 \<Rightarrow> nat \<Rightarrow> nat \<Rightarrow> copy_state \<Rightarrow> (nat \<times> copy_state) option"
  and copy_host_pieces ::
      "bool \<Rightarrow> bool \<Rightarrow> u64 \<Rightarrow> u64 \<Rightarrow> u64 \<Rightarrow> nat \<Rightarrow> nat \<Rightarrow> nat \<Rightarrow> nat \<Rightarrow> copy_state \<Rightarrow> (nat \<times> copy_state) option"
  where
  "nvc_copy_host_virtual_memory64 wrt la57 pt va pos len st =
     (if 4096 < unat (page_4kb_offset va) + len
      then copy_host_pieces wrt la57 pt va (va + of_nat len) (page_left va) pos 0 0 st
      else (case nvc_translate_host_virtual_address_routine64 (fst st) pt va (if la57 then 5 else 4) True wrt False False of
              Page pa \<Rightarrow> Some (len, move_bytes wrt pa pos len st)
            | Undefined \<Rightarrow> None
            | _ \<Rightarrow> Some (0, st)))"
| "copy_host_pieces wrt la57 pt cur_va end_va end_len pos copied real_size st =
     (if cur_va < end_va
      then
        (let copy_size = min end_len (unat (end_va - cur_va)) in
         if copy_size = 0 then None
         else Option.bind (nvc_copy_host_virtual_memory64 wrt la57 pt cur_va (pos + copied) copy_size st) (\<lambda>(n, st1).
           if real_size + n < copied + copy_size then Some (real_size + n, st1)
           else copy_host_pieces wrt la57 pt (cur_va + of_nat copy_size) end_va end_len pos (copied + copy_size)
                  (real_size + n) st1))
      else Some (real_size, st))"
  by pat_completeness auto

lemma offset_small: "unat (page_4kb_offset va) < 4096"
proof -
  have "unat (page_4kb_offset va) = take_bit 12 (unat va)" by (simp add: page_offset_mask unsigned_take_bit_eq)
  also have "\<dots> < 2 ^ 12" by (rule take_bit_nat_less_exp)
  finally show ?thesis by simp
qed

lemma page_left_less: "4096 < unat (page_4kb_offset va) + len \<Longrightarrow> page_left va < len"
  using offset_small [of va] by (simp add: page_left_def)

lemma piece_left:
  assumes "(cur :: u64) < end_va" "c = min k (unat (end_va - cur))"
  shows "unat (end_va - (cur + of_nat c)) = unat (end_va - cur) - c" "unat (cur + of_nat c) = unat cur + c"
proof -
  have d: "unat (end_va - cur) = unat end_va - unat cur" using assms(1) by (simp add: unat_sub order_less_imp_le)
  have lt: "unat cur < unat end_va" using assms(1) by (simp add: word_less_nat_alt)
  have c: "c \<le> unat end_va - unat cur" using assms(2) d by simp
  have big: "unat end_va < 2 ^ 64" using unsigned_less [of end_va, where ?'a = nat] by simp
  then have "unat (of_nat c :: u64) = c" using c by (simp add: unsigned_of_nat take_bit_nat_eq_self)
  then show s: "unat (cur + of_nat c) = unat cur + c"
    using c lt big by (simp add: unat_add_lem [THEN iffD1])
  have "cur + of_nat c \<le> end_va" using s c lt by (simp add: word_le_nat_alt)
  then show "unat (end_va - (cur + of_nat c)) = unat (end_va - cur) - c"
    using s d by (simp add: unat_sub)
qed

termination nvc_copy_host_virtual_memory64
  by (relation "measures [\<lambda>a. case a of Inl (_, _, _, _, _, n, _) \<Rightarrow> n | Inr (_, _, _, _, _, k, _) \<Rightarrow> k,
      \<lambda>a. case a of Inl _ \<Rightarrow> 0 | Inr (_, _, _, c, e, _) \<Rightarrow> 1 + unat (e - c)]")
    (auto simp: page_left_less piece_left)

declare nvc_copy_host_virtual_memory64.simps [simp del] copy_host_pieces.simps [simp del]

section \<open>A guest\<close>

text \<open>
  The walkers of a guest translate the address of each table and store the result through the null
  pointer \<open>table\<close>, not into it: the page at address 0 receives the address of the table, and it is
  this page that is read as the table.
\<close>

definition null_table :: "bytes \<Rightarrow> u64 \<Rightarrow> bytes" where
  "null_table mem hpa = store_u64 mem 0 hpa"

fun nvc_translate_guest_virtual_address_routine64 ::
    "bytes \<Rightarrow> u64 \<Rightarrow> u64 \<Rightarrow> nat \<Rightarrow> u64 \<Rightarrow> u32 \<Rightarrow> walk \<times> bytes" where
  "nvc_translate_guest_virtual_address_routine64 mem np_base pt 0 gva access = (Undefined, mem)"
| "nvc_translate_guest_virtual_address_routine64 mem np_base pt (Suc l) gva access =
     (case nvc_svm_translate_custom_gpa mem np_base 4 pt 0 of
        Undefined \<Rightarrow> (Undefined, mem)
      | Page hpa \<Rightarrow>
          (let mem1 = null_table mem hpa; e = table_entry mem1 0 gva (Suc l); L = noir_paging64_general_entry;
               err = pf_code64 e (noir_bt access 0) (noir_bt access 1) (noir_bt access 2) (noir_bt access 3)
           in if err \<noteq> 0 then (Fault err, mem1)
              else if 0 < l then
                (if bf_flag L ''psize'' e then (large_page (bf_get L ''base'' e) gva (Suc l), mem1)
                 else nvc_translate_guest_virtual_address_routine64 mem1 np_base (page_4kb_mult (bf_get L ''base'' e)) l gva access)
              else (Page (page_4kb_mult (bf_get L ''base'' e) + page_4kb_offset gva), mem1))
      | _ \<Rightarrow> (No_table, mem))"

text \<open>Paging with entries of 32 bits: the right of a user is tested on the bit of a writable page.\<close>

definition table_entry32 :: "bytes \<Rightarrow> u32 \<Rightarrow> u32" where
  "table_entry32 mem i = vmread32 mem (4 * unat i)"

definition nvc_translate_guest_virtual_address_routine32 ::
    "bytes \<Rightarrow> u64 \<Rightarrow> u64 \<Rightarrow> u64 \<Rightarrow> u32 \<Rightarrow> walk \<times> bytes" where
  "nvc_translate_guest_virtual_address_routine32 mem np_base pt gva access =
     (case nvc_svm_translate_custom_gpa mem np_base 4 pt 0 of
        Undefined \<Rightarrow> (Undefined, mem)
      | Page hpa \<Rightarrow>
          (let mem1 = null_table mem hpa;
               e = table_entry32 mem1 (bf_get noir_addr32_translator ''pde'' (ucast gva :: u32)); L = noir_paging32_pde;
               err = pf_code (lacks L ''present'' e (noir_bt access 0)) (lacks L ''write'' e (noir_bt access 1))
                       (lacks L ''user'' e (noir_bt access 3)) False
           in if err \<noteq> 0 then (Fault err, mem1)
              else if bf_flag L ''psize'' e then
                (Page (ucast (page_4mb_mult (bf_get noir_paging32_large_pde ''base_lo'' e)) +
                       push_bit 32 (ucast (bf_get noir_paging32_large_pde ''base_hi'' e)) + page_4mb_offset gva), mem1)
              else
                (case nvc_svm_translate_custom_gpa mem1 np_base 4 (ucast (page_4kb_mult (bf_get L ''pte_base'' e))) 0 of
                   Undefined \<Rightarrow> (Undefined, mem1)
                 | Page hpa2 \<Rightarrow>
                     (let mem2 = null_table mem1 hpa2;
                          f = table_entry32 mem2 (bf_get noir_addr32_translator ''pte'' (ucast gva :: u32)); M = noir_paging32_pte;
                          err = pf_code (lacks M ''present'' f (noir_bt access 0)) (lacks M ''write'' f (noir_bt access 1))
                                  (lacks M ''write'' f (noir_bt access 3)) False
                      in if err \<noteq> 0 then (Fault err, mem2)
                         else (Page (ucast (page_4kb_mult (bf_get M ''base'' f)) + page_4kb_offset gva), mem2))
                 | _ \<Rightarrow> (No_table, mem1)))
      | _ \<Rightarrow> (No_table, mem))"

definition amd64_cr0_pg_bit :: u64 where "amd64_cr0_pg_bit = 0x80000000"
definition amd64_efer_lma_bit :: u64 where "amd64_efer_lma_bit = 0x400"
definition amd64_cr4_pae_bit :: u64 where "amd64_cr4_pae_bit = 0x20"
definition amd64_cr4_la57 :: nat where "amd64_cr4_la57 = 12"

text \<open>The control registers of the guest: \<open>cr0\<close>, \<open>cr3\<close>, \<open>cr4\<close> and \<open>EFER\<close>, and the root of its nested paging.\<close>

record paging_state =
  ps_cr0 :: u64
  ps_cr3 :: u64
  ps_cr4 :: u64
  ps_efer :: u64
  ps_np_base :: u64

definition nvc_translate_guest_virtual_address :: "paging_state \<Rightarrow> u64 \<Rightarrow> u32 \<Rightarrow> bytes \<Rightarrow> walk \<times> bytes" where
  "nvc_translate_guest_virtual_address g gva access mem =
     (if ps_cr0 g AND amd64_cr0_pg_bit \<noteq> 0 then
        (if ps_efer g AND amd64_efer_lma_bit \<noteq> 0 then
           nvc_translate_guest_virtual_address_routine64 mem (ps_np_base g) (page_4kb_base (ps_cr3 g))
             ((if noir_bt (ps_cr4 g) amd64_cr4_la57 then 1 else 0) + 4) gva access
         else if ps_cr4 g AND amd64_cr4_pae_bit \<noteq> 0 then
           nvc_translate_guest_virtual_address_routine64 mem (ps_np_base g) (page_pae_base (ps_cr3 g)) 3 gva access
         else nvc_translate_guest_virtual_address_routine32 mem (ps_np_base g) (page_4kb_base (ps_cr3 g)) gva access)
      else (Page gva, mem))"

definition nvc_copy_guest_virtual_memory_in_page ::
    "paging_state \<Rightarrow> bool \<Rightarrow> u64 \<Rightarrow> nat \<Rightarrow> nat \<Rightarrow> copy_state \<Rightarrow> (nat \<times> copy_state) option" where
  "nvc_copy_guest_virtual_memory_in_page g wrt gva pos len st =
     (let flags = (if wrt then 3 else 1) in
      case nvc_translate_guest_virtual_address g gva flags (fst st) of
        (Undefined, mem1) \<Rightarrow> None
      | (Page gpa, mem1) \<Rightarrow>
          (case nvc_svm_translate_custom_gpa mem1 (ps_np_base g) 4 gpa flags of
             Page hpa \<Rightarrow> Some (len, move_bytes wrt hpa pos len (mem1, snd st))
           | Undefined \<Rightarrow> None
           | _ \<Rightarrow> Some (0, mem1, snd st))
      | (_, mem1) \<Rightarrow> Some (0, mem1, snd st))"

text \<open>Every piece is as long as what the page of the first byte has left.\<close>

function copy_guest_pieces ::
    "paging_state \<Rightarrow> bool \<Rightarrow> u64 \<Rightarrow> u64 \<Rightarrow> nat \<Rightarrow> nat \<Rightarrow> nat \<Rightarrow> nat \<Rightarrow> copy_state \<Rightarrow> (nat \<times> copy_state) option" where
  "copy_guest_pieces g wrt cur_va end_va end_len pos copied real_size st =
     (if cur_va < end_va
      then
        (let copy_size = min end_len (unat (end_va - cur_va)) in
         if copy_size = 0 then None
         else Option.bind (nvc_copy_guest_virtual_memory_in_page g wrt cur_va (pos + copied) copy_size st) (\<lambda>(n, st1).
           if real_size + n < copied + copy_size then Some (real_size + n, st1)
           else copy_guest_pieces g wrt (cur_va + of_nat copy_size) end_va end_len pos (copied + copy_size)
                  (real_size + n) st1))
      else Some (real_size, st))"
  by pat_completeness auto

termination copy_guest_pieces
  by (relation "measure (\<lambda>(_, _, c, e, _). unat (e - c))") (auto simp: piece_left)

declare copy_guest_pieces.simps [simp del]

definition nvc_copy_guest_virtual_memory ::
    "paging_state \<Rightarrow> bool \<Rightarrow> u64 \<Rightarrow> nat \<Rightarrow> copy_state \<Rightarrow> (nat \<times> copy_state) option" where
  "nvc_copy_guest_virtual_memory g wrt gva len st =
     copy_guest_pieces g wrt gva (gva + of_nat len) (page_left gva) 0 0 0 st"

end
