(* ===== verification/Walk_Properties.thy ===== *)
theory Walk_Properties
  imports Walk
begin

text \<open>
  The properties of the walkers: copying the virtual memory of the host is bytewise translation, which
  rights the walk checks, and that the walk through the page tables of a guest never reads them.
\<close>

section \<open>Addresses of one page\<close>

lemma offset_nat: "unat (page_4kb_offset x) = unat x mod 4096"
  by (simp only: page_offset_mask unsigned_take_bit_eq) (simp add: take_bit_eq_mod)

lemma nat_same_page:
  fixes n :: nat
  assumes "n mod 4096 + i < 4096" "12 \<le> k"
  shows "(n + i) div 2 ^ k = n div 2 ^ k" "(n + i) mod 2 ^ k = n mod 2 ^ k + i"
proof -
  have k: "(2 :: nat) ^ k = 4096 * 2 ^ (k - 12)"
    using assms(2) power_add [of "2 :: nat" 12 "k - 12"] by simp
  have "(n + i) div 4096 = n div 4096"
  proof -
    have "n + i = 4096 * (n div 4096) + (n mod 4096 + i)" by (simp add: algebra_simps)
    then have "(n + i) div 4096 = n div 4096 + (n mod 4096 + i) div 4096" by (metis div_mult_self4 zero_neq_numeral)
    then show ?thesis using assms(1) by simp
  qed
  then show d: "(n + i) div 2 ^ k = n div 2 ^ k" by (simp add: k div_mult2_eq)
  show "(n + i) mod 2 ^ k = n mod 2 ^ k + i"
    using mult_div_mod_eq [of "2 ^ k" n] mult_div_mod_eq [of "2 ^ k" "n + i"] unfolding d
    by (metis add.assoc add_left_cancel)
qed

lemma unat_in_page:
  fixes va :: u64
  assumes "unat (page_4kb_offset va) + i < 4096"
  shows "unat (va + of_nat i) = unat va + i"
proof -
  have m: "unat va mod 4096 + i < 4096" using assms by (simp add: offset_nat)
  have "unat va < 2 ^ 64" using unsigned_less [of va, where ?'a = nat] by simp
  then have "unat va div 2 ^ 64 = 0" by simp
  then have "(unat va + i) div 2 ^ 64 = 0" using nat_same_page(1) [OF m, of 64] by simp
  then have b: "unat va + i < 2 ^ 64" by (simp add: div_eq_0_iff)
  then have "unat (of_nat i :: u64) = i" by (simp add: unsigned_of_nat take_bit_nat_eq_self)
  then show ?thesis using b by (simp add: unat_add_lem [THEN iffD1])
qed

lemma same_page_bits:
  fixes va :: u64
  assumes "unat (page_4kb_offset va) + i < 4096" "12 \<le> k" "k < 64"
  shows "drop_bit k (va + of_nat i) = drop_bit k va" "take_bit k (va + of_nat i) = take_bit k va + of_nat i"
proof -
  have m: "unat va mod 4096 + i < 4096" using assms by (simp add: offset_nat)
  show "drop_bit k (va + of_nat i) = drop_bit k va"
    using nat_same_page(1) [OF m assms(2)]
    by (simp only: word_unat_eq_iff unat_in_page [OF assms(1)] unat_drop_bit_eq drop_bit_eq_div [where 'a = nat])
  have i: "unat (of_nat i :: u64) = i" using assms(1) by (simp add: unsigned_of_nat take_bit_nat_eq_self)
  have "unat va mod 2 ^ k + i = (unat va + i) mod 2 ^ k" using nat_same_page(2) [OF m assms(2)] by simp
  also have "\<dots> < 2 ^ k" by simp
  also have "\<dots> \<le> (2 :: nat) ^ 64" using assms(3) by (intro power_increasing) simp_all
  finally have small: "unat va mod 2 ^ k + i < 2 ^ 64" .
  have part: "unat (take_bit k va) = unat va mod 2 ^ k"
    by (simp only: unsigned_take_bit_eq) (simp add: take_bit_eq_mod)
  have "unat (take_bit k va) + unat (of_nat i :: u64) < 2 ^ 64" using small by (simp only: i part)
  then have "unat (take_bit k va + of_nat i) = unat (take_bit k va) + unat (of_nat i :: u64)"
    by (intro unat_add_lem [THEN iffD1]) simp
  then have "unat (take_bit k va + of_nat i) = unat va mod 2 ^ k + i" by (simp only: i part)
  then show "take_bit k (va + of_nat i) = take_bit k va + of_nat i"
    using nat_same_page(2) [OF m assms(2)]
    by (simp only: word_unat_eq_iff unat_in_page [OF assms(1)] unsigned_take_bit_eq) (simp add: take_bit_eq_mod)
qed

section \<open>The walk on one page\<close>

primrec shift_walk :: "nat \<Rightarrow> walk \<Rightarrow> walk" where
  "shift_walk i (Page p) = Page (p + of_nat i)"
| "shift_walk i (Fault e) = Fault e"
| "shift_walk i No_table = No_table"
| "shift_walk i Undefined = Undefined"

definition host_walk :: "bool \<Rightarrow> bool \<Rightarrow> bytes \<Rightarrow> u64 \<Rightarrow> u64 \<Rightarrow> walk" where
  "host_walk wrt la57 mem pt va =
     nvc_translate_host_virtual_address_routine64 mem pt va (if la57 then 5 else 4) True wrt False False"

lemma level_12: "12 \<le> level_shift level" by (simp add: level_shift_def)

lemma large_page_mask: "(va :: u64) AND (2 ^ k - 1) = take_bit k va"
  by (simp add: take_bit_eq_mask mask_eq_exp_minus_1)

lemma large_page_in_page:
  assumes "unat (page_4kb_offset va) + i < 4096"
  shows "large_page base (va + of_nat i) level = shift_walk i (large_page base va level)"
  using same_page_bits(2) [OF assms level_12, of level] by (simp add: large_page_def large_page_mask add.assoc)

lemma page_offset_in_page:
  assumes "unat (page_4kb_offset va) + i < 4096"
  shows "page_4kb_offset (va + of_nat i) = page_4kb_offset va + of_nat i"
  using same_page_bits(2) [OF assms, of 12] by (simp add: page_offset_mask)

lemma table_entry_in_page:
  assumes "unat (page_4kb_offset va) + i < 4096" "level \<le> 5"
  shows "table_entry mem pt (va + of_nat i) level = table_entry mem pt va level"
proof -
  have "level_shift level < 64" using assms(2) by (simp add: level_shift_def)
  then show ?thesis using same_page_bits(1) [OF assms(1) level_12] by (simp add: table_entry_def)
qed

lemma walk_in_page:
  assumes "unat (page_4kb_offset va) + i < 4096" "level \<le> 5"
  shows "nvc_translate_host_virtual_address_routine64 mem pt (va + of_nat i) level r w x u =
    shift_walk i (nvc_translate_host_virtual_address_routine64 mem pt va level r w x u)"
  using assms(2)
proof (induction level arbitrary: pt)
  case 0
  then show ?case by simp
next
  case (Suc l)
  then show ?case
    by (simp add: Let_def table_entry_in_page [OF assms(1)] large_page_in_page [OF assms(1)]
        page_offset_in_page [OF assms(1)] add.assoc)
qed

lemma push_low: "12 \<le> k \<Longrightarrow> take_bit 12 (push_bit k (x :: u64)) = 0"
  by (intro bit_word_eqI) (auto simp: bit_simps)

lemma low_of_sum:
  assumes "12 \<le> k"
  shows "take_bit 12 (push_bit k (x :: u64) + y) = take_bit 12 y"
proof -
  have part: "unat (take_bit 12 z) = unat z mod 4096" for z :: u64
    by (simp only: unsigned_take_bit_eq) (simp add: take_bit_eq_mod)
  have p: "unat (push_bit k x) mod 4096 = 0" using part [of "push_bit k x"] by (simp only: push_low [OF assms]) simp
  have "unat (push_bit k x + y) mod 4096 = (unat (push_bit k x) + unat y) mod 2 ^ 64 mod 4096"
    by (simp add: unat_word_ariths)
  also have "\<dots> = (unat (push_bit k x) + unat y) mod 4096" by (rule mod_mod_cancel) simp
  also have "\<dots> = unat y mod 4096" using p by (metis add_0 mod_add_left_eq)
  finally show ?thesis by (simp only: word_unat_eq_iff part)
qed

lemma large_page_offset:
  assumes "large_page base va level = Page p"
  shows "page_4kb_offset p = page_4kb_offset va"
proof -
  have "p = push_bit (level_shift level) (drop_bit ((level - 1) * 9) base) + take_bit (level_shift level) va"
    using assms by (simp add: large_page_def large_page_mask split: if_splits)
  then have "take_bit 12 p = take_bit 12 (take_bit (level_shift level) va)" by (simp only: low_of_sum level_12)
  also have "\<dots> = take_bit 12 va" using level_12 [of level] by (simp only: take_bit_take_bit min_absorb1)
  finally show ?thesis by (simp only: page_offset_mask)
qed

lemma small_page_offset: "page_4kb_offset (page_4kb_mult b + page_4kb_offset va) = page_4kb_offset va"
  by (simp only: page_offset_mask page_4kb_mult_def low_of_sum take_bit_take_bit) simp

lemma walk_offset:
  "nvc_translate_host_virtual_address_routine64 mem pt va level r w x u = Page p \<Longrightarrow> page_4kb_offset p = page_4kb_offset va"
proof (induction level arbitrary: pt)
  case (Suc l)
  then show ?case
    by (auto simp: Let_def small_page_offset split: if_splits intro: large_page_offset)
qed simp

section \<open>Copying\<close>

text \<open>The first \<open>n\<close> of \<open>len\<close> bytes have been copied by bytewise translation, and the next one cannot be.\<close>

definition copied_bytes :: "(u64 \<Rightarrow> walk) \<Rightarrow> bytes \<Rightarrow> u64 \<Rightarrow> nat \<Rightarrow> nat \<Rightarrow> nat \<Rightarrow> bytes \<Rightarrow> bytes \<Rightarrow> bool" where
  "copied_bytes tr mem va pos len n buf buf' \<longleftrightarrow> n \<le> len \<and>
     (\<forall>i < n. \<exists>p. tr (va + of_nat i) = Page p \<and> buf' (pos + i) = mem (unat p)) \<and>
     (\<forall>a. a < pos \<or> pos + n \<le> a \<longrightarrow> buf' a = buf a) \<and>
     (n < len \<longrightarrow> (\<forall>p. tr (va + of_nat n) \<noteq> Page p))"

lemma copied_nothing: "copied_bytes tr mem va pos 0 0 buf buf"
  by (simp add: copied_bytes_def)

lemma copied_append:
  assumes "copied_bytes tr mem va pos c c buf buf1" "copied_bytes tr mem (va + of_nat c) (pos + c) len m buf1 buf2"
  shows "copied_bytes tr mem va pos (c + len) (c + m) buf buf2"
proof -
  have "\<exists>p. tr (va + of_nat i) = Page p \<and> buf2 (pos + i) = mem (unat p)" if "i < c + m" for i
  proof (cases "i < c")
    case True
    then show ?thesis using assms by (auto simp: copied_bytes_def)
  next
    case False
    then have "i - c < m" "va + of_nat c + of_nat (i - c) = va + of_nat i" "pos + c + (i - c) = pos + i"
      using that by (simp_all add: add.assoc flip: of_nat_add)
    then show ?thesis using assms(2) unfolding copied_bytes_def by metis
  qed
  moreover have "buf2 a = buf a" if "a < pos \<or> pos + (c + m) \<le> a" for a
    using that assms by (auto simp: copied_bytes_def)
  moreover have "\<forall>p. tr (va + of_nat (c + m)) \<noteq> Page p" if "m < len"
    using that assms(2) by (simp add: copied_bytes_def add.assoc)
  ultimately show ?thesis using assms(2) by (simp add: copied_bytes_def)
qed

lemma copied_short:
  "copied_bytes tr mem va pos c n buf buf' \<Longrightarrow> n < c \<Longrightarrow> c \<le> len \<Longrightarrow> copied_bytes tr mem va pos len n buf buf'"
  by (simp add: copied_bytes_def)

lemma copy_step:
  "nvc_copy_host_virtual_memory64 wrt la57 pt va pos len st =
     (if 4096 < unat (page_4kb_offset va) + len
      then copy_host_pieces wrt la57 pt va (va + of_nat len) (page_left va) pos 0 0 st
      else (case host_walk wrt la57 (fst st) pt va of
              Page pa \<Rightarrow> Some (len, move_bytes wrt pa pos len st) | Undefined \<Rightarrow> None | _ \<Rightarrow> Some (0, st)))"
  by (simp add: nvc_copy_host_virtual_memory64.simps [of wrt la57 pt va pos len] host_walk_def cong: if_cong)

lemma one_page:
  assumes "unat (page_4kb_offset va) + len \<le> 4096" "host_walk wrt la57 mem pt va = Page p"
  shows "copied_bytes (host_walk wrt la57 mem pt) mem va pos len len buf (copy_bytes buf pos mem (unat p) len)"
proof -
  have "host_walk wrt la57 mem pt (va + of_nat i) = Page (p + of_nat i) \<and> unat (p + of_nat i) = unat p + i" if "i < len" for i
  proof -
    have i: "unat (page_4kb_offset va) + i < 4096" using assms(1) that by simp
    then have "unat (page_4kb_offset p) + i < 4096" using walk_offset [OF assms(2) [unfolded host_walk_def]] by simp
    then have "unat (p + of_nat i) = unat p + i" by (rule unat_in_page)
    moreover have "host_walk wrt la57 mem pt (va + of_nat i) = shift_walk i (host_walk wrt la57 mem pt va)"
      unfolding host_walk_def by (rule walk_in_page [OF i]) simp
    ultimately show ?thesis using assms(2) by simp
  qed
  then show ?thesis by (auto simp: copied_bytes_def copy_bytes_def)
qed

lemma no_wrap:
  assumes "unat (va :: u64) + len < 2 ^ 64"
  shows "unat (va + of_nat len) = unat va + len" "va \<le> va + of_nat len" "unat (va + of_nat len - va) = len"
proof -
  have l: "unat (of_nat len :: u64) = len" using assms by (simp add: unsigned_of_nat take_bit_nat_eq_self)
  then show s: "unat (va + of_nat len) = unat va + len" using assms by (simp add: unat_add_lem [THEN iffD1])
  then show le: "va \<le> va + of_nat len" by (simp add: word_le_nat_alt)
  show "unat (va + of_nat len - va) = len" using l by simp
qed

lemma copying:
  "\<not> wrt \<Longrightarrow> 0 < len \<Longrightarrow> unat va + len < 2 ^ 64 \<Longrightarrow> \<forall>i < len. host_walk False la57 (fst st) pt (va + of_nat i) \<noteq> Undefined \<Longrightarrow>
     \<exists>n buf'. nvc_copy_host_virtual_memory64 wrt la57 pt va pos len st = Some (n, fst st, buf') \<and>
       copied_bytes (host_walk False la57 (fst st) pt) (fst st) va pos len n (snd st) buf'"
  "\<not> wrt \<Longrightarrow> 0 < k \<Longrightarrow> cur \<le> end_va \<Longrightarrow> r = c \<Longrightarrow>
     \<forall>i < unat (end_va - cur). host_walk False la57 (fst st) pt (cur + of_nat i) \<noteq> Undefined \<Longrightarrow>
     \<exists>m buf'. copy_host_pieces wrt la57 pt cur end_va k pos c r st = Some (c + m, fst st, buf') \<and>
       copied_bytes (host_walk False la57 (fst st) pt) (fst st) cur (pos + c) (unat (end_va - cur)) m (snd st) buf'"
proof (induction wrt la57 pt va pos len st and wrt la57 pt cur end_va k pos c r st
    rule: nvc_copy_host_virtual_memory64_copy_host_pieces.induct)
  case (1 wrt la57 pt va pos len st)
  show ?case
  proof (cases "4096 < unat (page_4kb_offset va) + len")
    case True
    have "0 < page_left va" using offset_small [of va] by (simp add: page_left_def)
    then show ?thesis
      using "1.IH" [OF True] "1.prems" no_wrap [OF "1.prems"(3)]
      by (simp add: copy_step True)
  next
    case False
    then have fits: "unat (page_4kb_offset va) + len \<le> 4096" by simp
    consider (found) p where "host_walk False la57 (fst st) pt va = Page p"
      | (undef) "host_walk False la57 (fst st) pt va = Undefined"
      | (missing) "host_walk False la57 (fst st) pt va \<noteq> Undefined" "\<forall>p. host_walk False la57 (fst st) pt va \<noteq> Page p"
      by metis
    then show ?thesis
    proof cases
      case found
      then show ?thesis
        using one_page [OF fits found, where buf = "snd st" and pos = pos] "1.prems"(1) False
        by (cases st) (simp add: copy_step move_bytes_def)
    next
      case undef
      then show ?thesis using "1.prems"(2,4) by force
    next
      case missing
      then have "(case host_walk False la57 (fst st) pt va of Page pa \<Rightarrow> Some (len, move_bytes False pa pos len st)
        | Undefined \<Rightarrow> None | _ \<Rightarrow> Some (0, st)) = Some (0, st)"
        by (cases "host_walk False la57 (fst st) pt va") simp_all
      moreover have "copied_bytes (host_walk False la57 (fst st) pt) (fst st) va pos len 0 (snd st) (snd st)"
        using missing(2) by (simp add: copied_bytes_def)
      moreover have "nvc_copy_host_virtual_memory64 wrt la57 pt va pos len st =
          (case host_walk False la57 (fst st) pt va of Page pa \<Rightarrow> Some (len, move_bytes False pa pos len st)
           | Undefined \<Rightarrow> None | _ \<Rightarrow> Some (0, st))"
        using "1.prems"(1) False
        by (simp add: copy_step)
      ultimately show ?thesis by (metis prod.collapse)
    qed
  qed
next
  case (2 wrt la57 pt cur end_va k pos c r st)
  show ?case
  proof (cases "cur < end_va")
    case False
    have "copy_host_pieces wrt la57 pt cur end_va k pos c r st = Some (c + 0, fst st, snd st)"
      using False "2.prems"(4) by (simp add: copy_host_pieces.simps [of wrt la57 pt cur end_va])
    moreover have "unat (end_va - cur) = 0" using False "2.prems"(3) by simp
    ultimately show ?thesis using copied_nothing by metis
  next
    case True
    define cs where "cs = min k (unat (end_va - cur))"
    have rem: "0 < unat (end_va - cur)" using True by (simp add: unat_gt_0) 
    then have pos': "cs \<noteq> 0" using "2.prems"(2) by (simp add: cs_def)
    note left = piece_left [OF True cs_def]
    have le: "cs \<le> unat (end_va - cur)" by (simp add: cs_def)
    have "unat cur + cs < 2 ^ 64" using unsigned_less [of "cur + of_nat cs", where ?'a = nat] left(2) by simp
    moreover have "\<forall>i < cs. host_walk False la57 (fst st) pt (cur + of_nat i) \<noteq> Undefined" using "2.prems"(5) le by simp
    ultimately obtain n buf1 where
      c1: "nvc_copy_host_virtual_memory64 wrt la57 pt cur (pos + c) cs st = Some (n, fst st, buf1)"
        "copied_bytes (host_walk False la57 (fst st) pt) (fst st) cur (pos + c) cs n (snd st) buf1"
      using "2.IH"(1) [OF True cs_def pos' "2.prems"(1)] pos' by blast
    have n: "n \<le> cs" using c1(2) by (simp add: copied_bytes_def)
    show ?thesis
    proof (cases "n < cs")
      case short: True
      have "copy_host_pieces wrt la57 pt cur end_va k pos c r st = Some (c + n, fst st, buf1)"
        using True pos' c1(1) short "2.prems"(4)
        by (simp add: copy_host_pieces.simps [of wrt la57 pt cur end_va] flip: cs_def)
      then show ?thesis using copied_short [OF c1(2) short le] by blast
    next
      case False
      then have all: "n = cs" using n by simp
      have "unat (end_va - cur) = unat end_va - unat cur" using True by (simp add: unat_sub order_less_imp_le)
      moreover have "unat cur < unat end_va" using True by (simp add: word_less_nat_alt)
      ultimately have "cur + of_nat cs \<le> end_va" using left(2) le by (simp add: word_le_nat_alt)
      moreover have "\<forall>i < unat (end_va - (cur + of_nat cs)). host_walk False la57 (fst st) pt (cur + of_nat cs + of_nat i) \<noteq> Undefined"
      proof (intro allI impI)
        fix i assume "i < unat (end_va - (cur + of_nat cs))"
        then have "cs + i < unat (end_va - cur)" using left(1) by simp
        then show "host_walk False la57 (fst st) pt (cur + of_nat cs + of_nat i) \<noteq> Undefined"
          using "2.prems"(5) by (metis add.assoc of_nat_add)
      qed
      ultimately obtain m buf2 where
        c2: "copy_host_pieces wrt la57 pt (cur + of_nat cs) end_va k pos (c + cs) (r + n) (fst st, buf1) = Some (c + cs + m, fst st, buf2)"
          "copied_bytes (host_walk False la57 (fst st) pt) (fst st) (cur + of_nat cs) (pos + (c + cs)) (unat (end_va - (cur + of_nat cs))) m buf1 buf2"
        using "2.IH"(2) [OF True cs_def pos', of "(n, fst st, buf1)" n "(fst st, buf1)"] "2.prems"(1,2,4) all c1(1) by auto
      have "copy_host_pieces wrt la57 pt cur end_va k pos c r st = Some (c + (cs + m), fst st, buf2)"
        using True pos' c1(1) c2(1) all "2.prems"(4)
        by (simp add: copy_host_pieces.simps [of wrt la57 pt cur end_va] add.assoc flip: cs_def)
      moreover have "cs + unat (end_va - (cur + of_nat cs)) = unat (end_va - cur)" using left(1) le by simp
      moreover have "copied_bytes (host_walk False la57 (fst st) pt) (fst st) cur (pos + c)
          (cs + unat (end_va - (cur + of_nat cs))) (cs + m) (snd st) buf2"
        using copied_append [OF c1(2) [unfolded all]] c2(2) by (simp add: add.assoc)
      ultimately show ?thesis by auto
    qed
  qed
qed

section \<open>The properties\<close>

text \<open>C39: copying from the virtual memory of the host is a bytewise translation, however the range lies to
  the pages, small and large: the function returns, it returns the number of the leading bytes whose
  addresses can be translated, the buffer holds exactly those bytes of physical memory, and neither
  the rest of the buffer nor the memory is changed.\<close>

theorem host_copy_bytewise:
  assumes "0 < len" "unat va + len < 2 ^ 64" "\<forall>i < len. host_walk False la57 mem pt (va + of_nat i) \<noteq> Undefined"
  shows "\<exists>n buf'. nvc_copy_host_virtual_memory64 False la57 pt va pos len (mem, buf) = Some (n, mem, buf') \<and> n \<le> len \<and>
     (\<forall>i < n. \<exists>p. host_walk False la57 mem pt (va + of_nat i) = Page p \<and> buf' (pos + i) = mem (unat p)) \<and>
     (\<forall>a. a < pos \<or> pos + n \<le> a \<longrightarrow> buf' a = buf a) \<and>
     (n < len \<longrightarrow> (\<forall>p. host_walk False la57 mem pt (va + of_nat n) \<noteq> Page p))"
  using copying(1) [where wrt = False and va = va and len = len and ?la57.0 = la57 and st = "(mem, buf)" and pt = pt and pos = pos] assms by (simp add: copied_bytes_def)

text \<open>The walk of the processor: every level must grant the rights.\<close>

fun strict_walk :: "bytes \<Rightarrow> u64 \<Rightarrow> u64 \<Rightarrow> nat \<Rightarrow> bool \<Rightarrow> bool \<Rightarrow> bool \<Rightarrow> bool \<Rightarrow> walk" where
  "strict_walk mem pt va 0 r w x u = Undefined"
| "strict_walk mem pt va (Suc l) r w x u =
     (let e = table_entry mem pt va (Suc l); b = bf_get noir_paging64_general_entry ''base'' e; err = pf_code64 e r w x u in
      if err \<noteq> 0 then Fault err
      else if l = 0 then Page (page_4kb_mult b + page_4kb_offset va)
      else if entry64 ''psize'' e then large_page b va (Suc l)
      else strict_walk mem (page_4kb_mult b) va l r w x u)"

lemma strict_walk_sound:
  "strict_walk mem pt va level r w x u = Page p \<Longrightarrow>
   nvc_translate_host_virtual_address_routine64 mem pt va level r w x u = Page p"
proof (induction level arbitrary: pt)
  case (Suc l)
  then show ?case by (auto simp: Let_def split: if_splits)
qed simp

lemma strict_walk_faults:
  "nvc_translate_host_virtual_address_routine64 mem pt va level r w x u = Fault err \<Longrightarrow>
   \<exists>err'. strict_walk mem pt va level r w x u = Fault err'"
proof (induction level arbitrary: pt)
  case (Suc l)
  then show ?case by (auto simp: Let_def large_page_def split: if_splits)
qed simp

text \<open>The walk of the host is at least as permissive as the processor. Whatever the processor
  translates with the rights of all levels is translated to the same physical address, and an address
  at which the walk faults is one at which the processor faults. The converse fails: only the last
  of the four or five tables is checked, so that a large page whose entry is not present is translated
  all the same, as the example shows.\<close>

theorem host_walk_permissive:
  "(strict_walk mem pt va level r w x u = Page p \<longrightarrow>
      nvc_translate_host_virtual_address_routine64 mem pt va level r w x u = Page p) \<and>
   (nvc_translate_host_virtual_address_routine64 mem pt va level r w x u = Fault err \<longrightarrow>
      (\<exists>err'. strict_walk mem pt va level r w x u = Fault err'))"
  using strict_walk_sound strict_walk_faults by blast

section \<open>Guests\<close>

lemma pf_present: "pf_code True w u x \<noteq> 0"
proof
  assume z: "pf_code True w u x = 0"
  have "bf_get noir_page_fault_error_code ''present'' (pf_code True w u x) = 1"
    by (simp add: pf_code_def Let_def bf_get_put_other bf_get_put_same layout bf_size_def noir_page_fault_error_code_def)
  then show False by (simp add: z bf_get_def)
qed

lemma entry_present: "entry64 ''present'' e \<longleftrightarrow> bit e 0"
  by (simp add: bf_flag_bit layout)

lemma npt_walk_offset:
  "nvc_svm_translate_custom_gpa mem pt level gpa access = Page p \<Longrightarrow> page_4kb_offset p = page_4kb_offset gpa"
proof (induction level arbitrary: pt)
  case (Suc l)
  then show ?case
    by (auto simp: Let_def small_page_offset split: if_splits intro: large_page_offset)
qed simp

lemma bit_0_offset: "bit (x :: u64) 0 \<longleftrightarrow> bit (page_4kb_offset x) 0"
  by (simp add: page_offset_mask bit_take_bit_iff)

lemma null_entry_absent:
  assumes "\<forall>a. 8 \<le> a \<and> a < 4096 \<longrightarrow> mem a = 0" "\<not> bit hpa 0"
  shows "\<not> entry64 ''present'' (table_entry (null_table mem hpa) 0 gva level)"
proof -
  define i where "i = unat (page_entry_index64 (drop_bit (level_shift level) gva))"
  have i: "i < 512" using unsigned_less [of "page_entry_index64 (drop_bit (level_shift level) gva)", where ?'a = nat]
    by (simp add: i_def)
  have "\<not> bit (vmread64 (null_table mem hpa) (8 * i)) 0"
  proof (cases "i = 0")
    case True
    then show ?thesis using assms(2) by (simp add: null_table_def vmread64_def)
  next
    case False
    then have "store_u64 mem 0 hpa (8 * i) = mem (8 * i)" by (intro store_u64_outside) simp
    moreover have "mem (8 * i) = 0" using assms(1) False i by simp
    ultimately show ?thesis by (simp add: bit_vmread64 null_table_def)
  qed
  then show ?thesis by (simp add: entry_present table_entry_def i_def)
qed

lemma guest_walk_absent:
  assumes "\<forall>a. 8 \<le> a \<and> a < 4096 \<longrightarrow> mem a = 0" "\<not> bit pt 0" "noir_bt access 0"
  shows "fst (nvc_translate_guest_virtual_address_routine64 mem np_base pt level gva access) \<noteq> Page p"
proof (cases level)
  case 0
  then show ?thesis by simp
next
  case (Suc l)
  show ?thesis
  proof (cases "nvc_svm_translate_custom_gpa mem np_base 4 pt 0")
    case (Page hpa)
    then have "\<not> bit hpa 0" using assms(2) npt_walk_offset [OF Page] bit_0_offset by metis
    from null_entry_absent [OF assms(1) this] show ?thesis
      using assms(3) by (simp add: Suc Page Let_def pf_code64_def lacks_def pf_present)
  qed (simp_all add: Suc)
qed

text \<open>With paging no virtual address of a guest is ever translated. The walk stores the address of a
  table through a null pointer and then reads page 0 as the table, so that the tables of the guest
  play no part. As long as page 0 is empty but for what the walk itself writes there, every readable
  access faults, whatever the guest maps.\<close>

theorem guest_walk_never_succeeds:
  assumes "\<forall>a. 8 \<le> a \<and> a < 4096 \<longrightarrow> mem a = 0" "noir_bt access 0" "ps_cr0 g AND amd64_cr0_pg_bit \<noteq> 0"
    "ps_efer g AND amd64_efer_lma_bit \<noteq> 0 \<or> ps_cr4 g AND amd64_cr4_pae_bit \<noteq> 0"
  shows "fst (nvc_translate_guest_virtual_address g gva access mem) \<noteq> Page p"
proof -
  have "\<not> bit (page_4kb_base x) 0" "\<not> bit (page_pae_base x) 0" for x
    by (simp_all add: page_4kb_base_def page_pae_base_def bit_and_iff)
  then show ?thesis
    using assms(3,4) guest_walk_absent [OF assms(1) _ assms(2)]
    by (simp add: nvc_translate_guest_virtual_address_def)
qed

section \<open>Witnesses\<close>

text \<open>A large page of 2 MiB at address 0, below a directory at 0x3000.\<close>

definition example_tables :: bytes where
  "example_tables = store_u64 (store_u64 (store_u64 (\<lambda>_. 0) 0x1000 0x2001) 0x2000 0x3001) 0x3000 0x81"

definition example_paging :: paging_state where
  "example_paging = \<lparr>ps_cr0 = 0x80000001, ps_cr3 = 0x1000, ps_cr4 = 0x20, ps_efer = 0x500, ps_np_base = 0x5000\<rparr>"

theorem guest_walk_never_succeeds_witness:
  "fst (nvc_translate_guest_virtual_address example_paging 0x12345678 1 (\<lambda>_. 0)) \<noteq> Page 0x678"
  by (rule guest_walk_never_succeeds)
    (simp_all add: example_paging_def amd64_cr0_pg_bit_def amd64_efer_lma_bit_def noir_bt_def)

lemma example_entries:
  "vmread64 example_tables 0x1000 = 0x2001" "vmread64 example_tables 0x2000 = 0x3001" "vmread64 example_tables 0x3000 = 0x81"
  by (simp_all add: example_tables_def vmread64_def)

lemma example_walk:
  assumes "va < 0x200000"
  shows "host_walk False False example_tables 0x1000 va = Page va"
proof -
  have small: "unat va < 2 ^ 21" using assms by (simp add: word_less_nat_alt)
  have "unat (drop_bit k va) = 0" if "21 \<le> k" for k
  proof -
    have "unat va < 2 ^ k" using small power_increasing [OF that, of "2 :: nat"] by simp
    then show ?thesis by (simp only: unat_drop_bit_eq) (simp add: drop_bit_eq_div)
  qed
  then have d: "drop_bit k va = 0" if "21 \<le> k" for k using that by (simp add: unat_eq_zero)
  have "take_bit 21 va = va" using small by (simp only: word_unat_eq_iff unsigned_take_bit_eq take_bit_nat_eq_self)
  then have m: "va AND 0x1fffff = va" by (simp add: take_bit_eq_mask mask_eq_exp_minus_1)
  have e: "table_entry example_tables pt va l = vmread64 example_tables (unat pt)" if "2 \<le> l" for pt l
    using d [of "level_shift l"] that by (simp add: table_entry_def level_shift_def page_entry_index64_def)
  have bits: "bf_flag noir_paging64_general_entry ''psize'' (0x2001 :: u64) = False"
    "bf_flag noir_paging64_general_entry ''psize'' (0x3001 :: u64) = False"
    "bf_flag noir_paging64_general_entry ''psize'' (0x81 :: u64) = True"
    "page_4kb_mult (bf_get noir_paging64_general_entry ''base'' (0x2001 :: u64)) = 0x2000"
    "page_4kb_mult (bf_get noir_paging64_general_entry ''base'' (0x3001 :: u64)) = 0x3000"
    "bf_get noir_paging64_general_entry ''base'' (0x81 :: u64) = 0"
    by (simp_all add: bf_flag_def bf_get_def layout slice_get_def page_4kb_mult_def)
  have four: "(4 :: nat) = Suc (Suc (Suc (Suc 0)))" by simp
  show ?thesis
    unfolding host_walk_def four if_False
    by (simp add: Let_def e example_entries bits large_page_def level_shift_def m)
qed

theorem host_copy_bytewise_witness:
  "\<exists>n buf'. nvc_copy_host_virtual_memory64 False False 0x1000 0x1ffe 0 4 (example_tables, \<lambda>_. 7) = Some (n, example_tables, buf') \<and>
    (3 < n \<longrightarrow> buf' 3 = 0x30)"
proof -
  have i: "(0x1ffe :: u64) + of_nat i < 0x200000" if lt: "i < 4" for i
  proof -
    consider "i = 0" | "i = 1" | "i = 2" | "i = 3" using lt by linarith
    then show ?thesis by cases simp_all
  qed
  then have "\<forall>i < 4. host_walk False False example_tables 0x1000 (0x1ffe + of_nat i) \<noteq> Undefined"
    using example_walk by simp
  from host_copy_bytewise [OF _ _ this, of 0 "\<lambda>_. 7"] obtain n buf' where
    c: "nvc_copy_host_virtual_memory64 False False 0x1000 0x1ffe 0 4 (example_tables, \<lambda>_. 7) = Some (n, example_tables, buf')"
      "\<forall>i < n. \<exists>p. host_walk False False example_tables 0x1000 (0x1ffe + of_nat i) = Page p \<and> buf' (0 + i) = example_tables (unat p)"
    by auto
  have "buf' 3 = example_tables 0x2001" if "3 < n"
    using c(2) that example_walk [OF i [of 3]] by auto
  moreover have "example_tables 0x2001 = 0x30"
    by (simp add: example_tables_def store_u64_def byte_of_def)
  ultimately show ?thesis using c(1) by auto
qed

text \<open>A large page that is absent, below a directory at 0x3000; seen as a page table, the same page has
  no page at all.\<close>

definition example_absent :: bytes where "example_absent = store_u64 (\<lambda>_. 0) 0x3000 0x80"

lemma absent_entry:
  "level = 1 \<or> level = 2 \<Longrightarrow> table_entry example_absent 0x3000 0x100 level = 0x80"
  by (auto simp: table_entry_def level_shift_def page_entry_index64_def example_absent_def vmread64_def)

theorem host_walk_permissive_witness:
  "(\<exists>err. strict_walk example_absent 0x3000 0x100 1 True False False False = Fault err) \<and>
   nvc_translate_host_virtual_address_routine64 example_absent 0x3000 0x100 2 True False False False = Page 0x100 \<and>
   (\<exists>err. strict_walk example_absent 0x3000 0x100 2 True False False False = Fault err)"
proof -
  have e: "table_entry example_absent 0x3000 0x100 (Suc 0) = 0x80" "table_entry example_absent 0x3000 0x100 (Suc (Suc 0)) = 0x80"
    using absent_entry [of 1] absent_entry [of 2] by (simp_all add: numeral_2_eq_2)
  have err: "pf_code64 0x80 True False False False \<noteq> 0"
    by (simp add: pf_code64_def lacks_def pf_present bf_flag_bit layout)
  have "nvc_translate_host_virtual_address_routine64 example_absent 0x3000 0x100 1 True False False False =
      Fault (pf_code64 0x80 True False False False)"
    using err by (simp add: e)
  with host_walk_permissive [of example_absent "0x3000" "0x100" 1 True False False False]
  have "\<exists>err. strict_walk example_absent 0x3000 0x100 1 True False False False = Fault err" by blast
  moreover have "bf_flag noir_paging64_general_entry ''psize'' (0x80 :: u64)" "bf_get noir_paging64_general_entry ''base'' (0x80 :: u64) = 0"
    by (simp_all add: bf_flag_def bf_get_def layout slice_get_def)
  ultimately show ?thesis
    using err by (simp add: numeral_2_eq_2 e large_page_def level_shift_def)
qed

end
