(* ===== verification/Hax.thy ===== *)
theory Hax
  imports Svm_Registers Run
begin

text \<open>
  The interface for user hypervisors written for HAXM (\<open>xpf_core/cvhax.c\<close>): versions and
  capabilities, memory, registers in one block, model-specific registers in an array, and running with
  a tunnel that the user hypervisor shares.
\<close>

section \<open>Versions, capabilities and memory\<close>

definition noir_hax_current_version :: u32 where "noir_hax_current_version = 4"
definition noir_hax_compat_version :: u32 where "noir_hax_compat_version = 1"
definition noir_hax_cap_status_working :: u16 where "noir_hax_cap_status_working = 1"
definition noir_hax_cap_ept :: u16 where "noir_hax_cap_ept = 1"
definition noir_hax_cap_ug :: u16 where "noir_hax_cap_ug = 4"
definition noir_hax_cap_64bit_ramblock :: u16 where "noir_hax_cap_64bit_ramblock = 8"
definition noir_hax_cap_64bit_setram :: u16 where "noir_hax_cap_64bit_setram = 0x10"

record noir_hax_module_version =
  compat_version :: u32
  current_version :: u32

record noir_hax_capability_info =
  hc_status :: u16
  hc_info :: u16
  hc_ref_count :: u32
  hc_mem_quota :: u64

text \<open>The results are the status, what is written to the buffer, and the returned size.\<close>

definition nvc_hax_get_version_info :: "nat \<Rightarrow> noir_hax_module_version \<Rightarrow> noir_status \<times> noir_hax_module_version \<times> nat" where
  "nvc_hax_get_version_info sz b =
     (if sz < 8 then (noir_buffer_too_small, b, 8)
      else (noir_success, \<lparr>compat_version = noir_hax_compat_version, current_version = noir_hax_current_version\<rparr>, 8))"

definition nvc_hax_get_capability ::
    "bool \<Rightarrow> nat \<Rightarrow> noir_hax_capability_info \<Rightarrow> noir_status \<times> noir_hax_capability_info \<times> nat" where
  "nvc_hax_get_capability hvm sz b =
     (if sz < 16 then (noir_buffer_too_small, b, 16)
      else if hvm then
        (noir_success, b\<lparr>hc_status := noir_hax_cap_status_working,
           hc_info := noir_hax_cap_ept OR noir_hax_cap_ug OR noir_hax_cap_64bit_ramblock OR noir_hax_cap_64bit_setram\<rparr>, 16)
      else (noir_success, \<lparr>hc_status = 0, hc_info = 0, hc_ref_count = 0, hc_mem_quota = 0\<rparr>, 16))"

definition nvc_hax_set_memlimit :: "noir_status \<times> nat" where
  "nvc_hax_set_memlimit = (noir_success, 0)"

record noir_hax_set_ram_info =
  ram_gpa :: u64
  ram_bytes :: u32
  ram_read_only :: bool
  ram_invalid :: bool
  ram_hva :: u64

definition noir_cvm_memory_wb :: u32 where "noir_cvm_memory_wb = 6"

text \<open>The mapping with its address in the user hypervisor; a rest of a page is dropped.\<close>

definition hax_mapping :: "noir_hax_set_ram_info \<Rightarrow> u64 \<times> u64 \<times> u32 \<times> u32" where
  "hax_mapping r =
     (let put = bf_put noir_cvm_mapping_attributes;
          attr = (if ram_invalid r then 0
                  else put ''caching'' noir_cvm_memory_wb (put ''user'' 1 (put ''execute'' 1
                         (put ''write'' (of_flag (\<not> ram_read_only r)) (put ''present'' 1 0)))))
      in (ram_gpa r, ram_hva r, drop_bit 12 (ram_bytes r), attr))"

definition nvc_hax_set_mapping :: "(u64 \<times> u64 \<times> u32 \<times> u32 \<Rightarrow> 's \<Rightarrow> noir_status \<times> 's) \<Rightarrow> noir_hax_set_ram_info \<Rightarrow> 's \<Rightarrow> noir_status \<times> 's" where
  "nvc_hax_set_mapping set_mapping r s = set_mapping (hax_mapping r) s"

section \<open>Registers\<close>

record noir_hax_segment =
  hs_selector :: u16
  hs_dummy :: u16
  hs_limit :: u32
  hs_base :: u64
  hs_access_rights :: u32
  hs_pad :: u32

record noir_hax_vcpu_state =
  hx_gpr :: "nat \<Rightarrow> u64"
  hx_rip :: u64
  hx_rflags :: u64
  hx_seg :: "seg_reg \<Rightarrow> noir_hax_segment"
  hx_cr0 :: u64
  hx_cr2 :: u64
  hx_cr3 :: u64
  hx_cr4 :: u64
  hx_dr :: "nat \<Rightarrow> u64"
  hx_pde :: u64
  hx_efer :: u32
  hx_sysenter_cs :: u32
  hx_sysenter_eip :: u64
  hx_sysenter_esp :: u64
  hx_activity_state :: u32
  hx_interruptibility_state :: u64

definition sizeof_noir_hax_vcpu_state :: nat where
  "sizeof_noir_hax_vcpu_state = 16 * 8 + 2 * 8 + 10 * 24 + 4 * 8 + 6 * 8 + 8 + 4 + 4 + 8 + 8 + 4 + 4 + 8"

definition nvc_hax_convert_from_hax_segment :: "noir_hax_segment \<Rightarrow> segment_register" where
  "nvc_hax_convert_from_hax_segment hax =
     \<lparr>selector = hs_selector hax, attrib = ucast (hs_access_rights hax), limit = hs_limit hax, base_addr = hs_base hax\<rparr>"

definition nvc_hax_convert_to_hax_segment :: "segment_register \<Rightarrow> noir_hax_segment" where
  "nvc_hax_convert_to_hax_segment sg =
     \<lparr>hs_selector = selector sg, hs_dummy = 0, hs_limit = limit sg, hs_base = base_addr sg,
      hs_access_rights = ucast (attrib sg), hs_pad = 0\<rparr>"

definition hax_load :: "noir_hax_vcpu_state \<Rightarrow> noir_cvm_virtual_cpu \<Rightarrow> noir_cvm_virtual_cpu" where
  "hax_load st v =
     (let v1 = invalidate ''gprvalid'' (v\<lparr>gpr := hx_gpr st\<rparr>);
          v2 = v1\<lparr>seg := \<lambda>r. nvc_hax_convert_from_hax_segment (hx_seg st r)\<rparr>;
          v3 = invalidate ''lt_valid'' (invalidate ''dt_valid'' (invalidate ''fg_valid'' (invalidate ''sr_valid'' v2)));
          v4 = v3\<lparr>cr0 := hx_cr0 st, cr2 := hx_cr2 st, cr3 := hx_cr3 st, cr4 := hx_cr4 st\<rparr>;
          v5 = invalidate ''cr2valid'' (invalidate ''cr_valid'' v4);
          v6 = invalidate ''dr_valid'' (v5\<lparr>drs := \<lambda>i. if i < 6 then hx_dr st i else drs v5 i\<rparr>);
          v7 = invalidate ''ef_valid'' (v6\<lparr>efer := ucast (hx_efer st)\<rparr>)
      in invalidate ''se_valid'' (v7\<lparr>sysenter := (sysenter v7)(0 := ucast (hx_sysenter_cs st), 1 := hx_sysenter_esp st,
              2 := hx_sysenter_eip st)\<rparr>))"

definition nvc_hax_set_vcpu_registers ::
    "bool \<Rightarrow> nat \<Rightarrow> noir_hax_vcpu_state \<Rightarrow> noir_cvm_virtual_cpu \<Rightarrow> noir_status \<times> noir_cvm_virtual_cpu" where
  "nvc_hax_set_vcpu_registers hvm sz st v =
     (if sz < sizeof_noir_hax_vcpu_state then (noir_buffer_too_small, v)
      else if hvm then (noir_success, hax_load st v)
      else (noir_hypervision_absent, v))"

text \<open>Segment \<open>gs\<close> is filled from \<open>cs\<close>.\<close>

definition hax_store :: "noir_cvm_virtual_cpu \<Rightarrow> noir_hax_vcpu_state \<Rightarrow> noir_hax_vcpu_state" where
  "hax_store v st =
     st\<lparr>hx_gpr := gpr v,
        hx_seg := \<lambda>r. nvc_hax_convert_to_hax_segment (seg v (if r = Gs then Cs else r)),
        hx_cr0 := cr0 v, hx_cr2 := cr2 v, hx_cr3 := cr3 v, hx_cr4 := cr4 v,
        hx_dr := (\<lambda>i. if i < 6 then drs v i else hx_dr st i),
        hx_efer := ucast (efer v), hx_sysenter_cs := ucast (sysenter v 0),
        hx_sysenter_esp := sysenter v 1, hx_sysenter_eip := sysenter v 2\<rparr>"

definition nvc_hax_get_vcpu_registers ::
    "bool \<Rightarrow> (noir_cvm_virtual_cpu \<Rightarrow> noir_cvm_virtual_cpu) \<Rightarrow> nat \<Rightarrow> noir_hax_vcpu_state \<Rightarrow> noir_cvm_virtual_cpu \<Rightarrow>
       noir_status \<times> noir_hax_vcpu_state \<times> noir_cvm_virtual_cpu" where
  "nvc_hax_get_vcpu_registers hvm sync sz st v =
     (if sz < sizeof_noir_hax_vcpu_state then (noir_buffer_too_small, st, v)
      else if hvm then (let v1 = sync v in (noir_success, hax_store v1 st, v1))
      else (noir_hypervision_absent, st, v))"

definition nvc_hax_get_fpu_state ::
    "nat \<Rightarrow> u64 \<Rightarrow> (noir_cvm_virtual_cpu \<Rightarrow> noir_cvm_virtual_cpu) \<Rightarrow> bytes \<Rightarrow> nat \<Rightarrow> noir_cvm_virtual_cpu \<Rightarrow>
       (noir_status \<times> bytes \<times> noir_cvm_virtual_cpu) option" where
  "nvc_hax_get_fpu_state xsize tsc sync buf sz v = nvc_view_vcpu_registers xsize tsc sync Fxstate buf sz v"

definition nvc_hax_set_fpu_state ::
    "nat \<Rightarrow> u64 \<Rightarrow> bytes \<Rightarrow> nat \<Rightarrow> noir_cvm_virtual_cpu \<Rightarrow> (noir_status \<times> noir_cvm_virtual_cpu) option" where
  "nvc_hax_set_fpu_state xsize tsc buf sz v = nvc_edit_vcpu_registers xsize tsc Fxstate buf sz v"

section \<open>Model-specific registers\<close>

definition hax_msr_tsc :: u64 where "hax_msr_tsc = 0x10"
definition hax_msr_sysenter_cs :: u64 where "hax_msr_sysenter_cs = 0x174"
definition hax_msr_sysenter_esp :: u64 where "hax_msr_sysenter_esp = 0x175"
definition hax_msr_sysenter_eip :: u64 where "hax_msr_sysenter_eip = 0x176"
definition hax_msr_efer :: u64 where "hax_msr_efer = 0xC0000080"
definition hax_msr_star :: u64 where "hax_msr_star = 0xC0000081"
definition hax_msr_lstar :: u64 where "hax_msr_lstar = 0xC0000082"
definition hax_msr_cstar :: u64 where "hax_msr_cstar = 0xC0000083"
definition hax_msr_fmask :: u64 where "hax_msr_fmask = 0xC0000084"
definition hax_msr_kernel_gs_base :: u64 where "hax_msr_kernel_gs_base = 0xC0000102"
definition hax_max_msr_array :: nat where "hax_max_msr_array = 20"

lemmas hax_msrs = hax_msr_tsc_def hax_msr_sysenter_cs_def hax_msr_sysenter_esp_def hax_msr_sysenter_eip_def
  hax_msr_efer_def hax_msr_star_def hax_msr_lstar_def hax_msr_cstar_def hax_msr_fmask_def hax_msr_kernel_gs_base_def

definition set_hax_msr :: "u64 \<Rightarrow> u64 \<Rightarrow> u64 \<Rightarrow> noir_cvm_virtual_cpu \<Rightarrow> noir_cvm_virtual_cpu option" where
  "set_hax_msr tsc n x v =
     (if n = hax_msr_tsc then Some (invalidate ''ts_valid'' (v\<lparr>tsc_off := x - tsc\<rparr>))
      else if n = hax_msr_sysenter_cs then Some (invalidate ''se_valid'' (v\<lparr>sysenter := (sysenter v)(0 := x)\<rparr>))
      else if n = hax_msr_sysenter_esp then Some (invalidate ''se_valid'' (v\<lparr>sysenter := (sysenter v)(1 := x)\<rparr>))
      else if n = hax_msr_sysenter_eip then Some (invalidate ''se_valid'' (v\<lparr>sysenter := (sysenter v)(2 := x)\<rparr>))
      else if n = hax_msr_efer then Some (invalidate ''ef_valid'' (v\<lparr>efer := x\<rparr>))
      else if n = hax_msr_star then Some (invalidate ''sc_valid'' (v\<lparr>star := (star v)(0 := x)\<rparr>))
      else if n = hax_msr_lstar then Some (invalidate ''sc_valid'' (v\<lparr>star := (star v)(1 := x)\<rparr>))
      else if n = hax_msr_cstar then Some (invalidate ''sc_valid'' (v\<lparr>star := (star v)(2 := x)\<rparr>))
      else if n = hax_msr_fmask then Some (invalidate ''sc_valid'' (v\<lparr>star := (star v)(3 := x)\<rparr>))
      else if n = hax_msr_kernel_gs_base then Some (invalidate ''fg_valid'' (v\<lparr>gsswap := x\<rparr>))
      else None)"

text \<open>The loop returns at the first unknown register; what was set before stays set. The time-stamp
  counter is read by each entry.\<close>

fun set_hax_msrs :: "(nat \<Rightarrow> u64) \<Rightarrow> nat \<Rightarrow> (u64 \<times> u64) list \<Rightarrow> noir_cvm_virtual_cpu \<Rightarrow> noir_status \<times> noir_cvm_virtual_cpu" where
  "set_hax_msrs tsc i [] v = (noir_success, v)"
| "set_hax_msrs tsc i ((n, x) # es) v =
     (case set_hax_msr (tsc i) n x v of
        None \<Rightarrow> (noir_invalid_parameter, v) | Some v1 \<Rightarrow> set_hax_msrs tsc (Suc i) es v1)"

definition sizeof_noir_hax_msr_data :: nat where "sizeof_noir_hax_msr_data = 8 + 20 * 16"

definition nvc_hax_set_msrs ::
    "bool \<Rightarrow> (nat \<Rightarrow> u64) \<Rightarrow> nat \<Rightarrow> nat \<Rightarrow> (u64 \<times> u64) list \<Rightarrow> noir_cvm_virtual_cpu \<Rightarrow> noir_status \<times> noir_cvm_virtual_cpu" where
  "nvc_hax_set_msrs hvm tsc sz nr_msr entries v =
     (if sz < sizeof_noir_hax_msr_data then (noir_buffer_too_small, v)
      else if \<not> hvm then (noir_hypervision_absent, v)
      else if hax_max_msr_array \<le> nr_msr then (noir_invalid_parameter, v)
      else set_hax_msrs tsc 0 (take nr_msr entries) v)"

definition get_hax_msr :: "u64 \<Rightarrow> u64 \<Rightarrow> noir_cvm_virtual_cpu \<Rightarrow> u64 option" where
  "get_hax_msr tsc n v =
     (if n = hax_msr_tsc then Some (tsc_off v + tsc)
      else if n = hax_msr_sysenter_cs then Some (sysenter v 0)
      else if n = hax_msr_sysenter_esp then Some (sysenter v 1)
      else if n = hax_msr_sysenter_eip then Some (sysenter v 2)
      else if n = hax_msr_efer then Some (efer v)
      else if n = hax_msr_star then Some (star v 0)
      else if n = hax_msr_lstar then Some (star v 1)
      else if n = hax_msr_cstar then Some (star v 2)
      else if n = hax_msr_fmask then Some (star v 3)
      else if n = hax_msr_kernel_gs_base then Some (gsswap v)
      else None)"

fun get_hax_msrs :: "(nat \<Rightarrow> u64) \<Rightarrow> nat \<Rightarrow> (u64 \<times> u64) list \<Rightarrow> noir_cvm_virtual_cpu \<Rightarrow> noir_status \<times> (u64 \<times> u64) list" where
  "get_hax_msrs tsc i [] v = (noir_success, [])"
| "get_hax_msrs tsc i ((n, x) # es) v =
     (case get_hax_msr (tsc i) n v of
        None \<Rightarrow> (noir_invalid_parameter, (n, x) # es)
      | Some y \<Rightarrow> (case get_hax_msrs tsc (Suc i) es v of (st, rs) \<Rightarrow> (st, (n, y) # rs)))"

definition nvc_hax_get_msrs ::
    "bool \<Rightarrow> (nat \<Rightarrow> u64) \<Rightarrow> (noir_cvm_virtual_cpu \<Rightarrow> noir_cvm_virtual_cpu) \<Rightarrow> nat \<Rightarrow> nat \<Rightarrow> (u64 \<times> u64) list \<Rightarrow>
       noir_cvm_virtual_cpu \<Rightarrow> noir_status \<times> (u64 \<times> u64) list \<times> noir_cvm_virtual_cpu" where
  "nvc_hax_get_msrs hvm tsc sync sz nr_msr entries v =
     (if sz < sizeof_noir_hax_msr_data then (noir_buffer_too_small, entries, v)
      else if \<not> hvm then (noir_hypervision_absent, entries, v)
      else if hax_max_msr_array \<le> nr_msr then (noir_invalid_parameter, entries, v)
      else
        (let v1 = sync v in
         case get_hax_msrs tsc 0 (take nr_msr entries) v1 of (st, rs) \<Rightarrow> (st, rs @ drop nr_msr entries, v1)))"

section \<open>Running\<close>

definition nvc_hax_set_tunnel :: "u64 \<Rightarrow> noir_cvm_virtual_cpu \<Rightarrow> noir_status \<times> noir_cvm_virtual_cpu" where
  "nvc_hax_set_tunnel p h = (noir_success, (set_tunnel_option noir_cvm_tunnel_format_haxm h)\<lparr>tunnel := p\<rparr>)"

definition hax_exit_io :: u32 where "hax_exit_io = 1"
definition hax_exit_interrupt :: u32 where "hax_exit_interrupt = 4"
definition hax_exit_unknown :: u32 where "hax_exit_unknown = 5"
definition hax_exit_hlt :: u32 where "hax_exit_hlt = 6"
definition hax_exit_state_change :: u32 where "hax_exit_state_change = 7"
definition hax_exit_page_fault :: u32 where "hax_exit_page_fault = 10"

text \<open>The tunnel with the variant for port I/O.\<close>

record noir_hax_tunnel =
  ht_exit_reason :: u32
  ht_exit_status :: u32
  ht_ready_for_event_injection :: bool
  ht_direction :: u8
  ht_size :: u16
  ht_port :: u16
  ht_count :: u16
  ht_string :: bool
  ht_gva :: u64

record hax_world =
  hx_run :: run_world
  hx_tunnel :: noir_hax_tunnel
  hx_iobuff :: bytes

definition on_run :: "(run_world \<Rightarrow> run_world) \<Rightarrow> hax_world \<Rightarrow> hax_world" where
  "on_run f s = s\<lparr>hx_run := f (hx_run s)\<rparr>"

text \<open>The copy of an input starts at \<open>rax\<close> and may run over the registers behind it; past the
  16 general registers it would leave their structure.\<close>

definition copy_to_gprs :: "bytes \<Rightarrow> nat \<Rightarrow> (nat \<Rightarrow> u64) \<Rightarrow> (nat \<Rightarrow> u64) option" where
  "copy_to_gprs b n g =
     (if 16 * 8 < n then None
      else Some (load_array (copy_bytes (store_array (\<lambda>_. 0) 0 16 g) 0 b 0 n) 0 16 g))"

definition finish_input :: "hax_world \<Rightarrow> hax_world option" where
  "finish_input s =
     (let t = hx_tunnel s in
      if ht_exit_status t = hax_exit_io \<and> ht_direction t \<noteq> 0 \<and> \<not> ht_string t
      then map_option (\<lambda>g. on_run (on_exit (on_header (\<lambda>h. h\<lparr>gpr := g\<rparr>))) s)
             (copy_to_gprs (hx_iobuff s) (unat (ht_size t)) (gpr (xheader (rw (hx_run s)))))
      else Some s)"

text \<open>HAXM advances the instruction pointer itself.\<close>

definition hax_advance :: "hax_world \<Rightarrow> hax_world" where
  "hax_advance s =
     on_run (on_exit (\<lambda>x. on_header (\<lambda>h. snd (edit_registers 0 0 Instruction_pointer (store_u64 (\<lambda>_. 0) 0 (x_next_rip x)) 8 h)) x)) s"

definition io_field :: "string \<Rightarrow> bytes \<Rightarrow> u16" where
  "io_field f u = bf_get noir_cvm_io_access f (vmread16 u 0)"

text \<open>String instructions stop at a breakpoint. \<open>None\<close> is a copy past the variable \<open>mask_b\<close>.\<close>

definition hax_io_exit :: "hax_world \<Rightarrow> hax_world option" where
  "hax_io_exit s =
     (let u = x_union (rw (hx_run s));
          t = (hx_tunnel s)\<lparr>ht_exit_status := hax_exit_io, ht_direction := ucast (io_field ''io_type'' u), ht_port := vmread16 u 2,
                 ht_size := io_field ''operand_size'' u AND 0xff, ht_string := (io_field ''string'' u \<noteq> 0), ht_count := 1\<rparr>;
          n = unat (io_field ''operand_size'' u); w = unat (io_field ''address_width'' u)
      in if ht_string t then
           (if 8 < w then None
            else
              (let gva = (if ht_direction t \<noteq> 0 then vmread64 u 32 else vmread64 u 24) + vmread64 u 48
               in Some (hax_advance (on_run noir_int3 (s\<lparr>hx_tunnel := t\<lparr>ht_gva := take_bit (8 * w) gva\<rparr>\<rparr>)))))
         else if ht_direction t = 0 then
           Some (hax_advance (s\<lparr>hx_tunnel := t, hx_iobuff := copy_bytes (hx_iobuff s) 0 u 8 n\<rparr>))
         else Some (hax_advance (s\<lparr>hx_tunnel := t\<rparr>)))"

definition hax_status :: "u32 \<Rightarrow> hax_world \<Rightarrow> hax_world" where
  "hax_status st s = s\<lparr>hx_tunnel := (hx_tunnel s)\<lparr>ht_exit_status := st\<rparr>\<rparr>"

definition translate_exit :: "hax_world \<Rightarrow> hax_world option" where
  "translate_exit s =
     (let c = intercept (hx_run s) in
      map_option (\<lambda>s1. s1\<lparr>hx_tunnel := (hx_tunnel s1)\<lparr>ht_exit_reason := intercept (hx_run s1)\<rparr>\<rparr>)
        (if c = cv_invalid_state \<or> c = cv_shutdown_condition then Some (on_run noir_int3 (hax_status hax_exit_state_change s))
         else if c = cv_memory_access then Some (on_run noir_int3 (hax_status hax_exit_page_fault s))
         else if c = cv_hlt_instruction then
           Some (hax_advance (s\<lparr>hx_tunnel := (hx_tunnel s)\<lparr>ht_exit_status := hax_exit_hlt, ht_ready_for_event_injection := True\<rparr>\<rparr>))
         else if c = cv_io_instruction then hax_io_exit s
         else if c = cv_scheduler_exit then Some (hax_status hax_exit_interrupt s)
         else Some (hax_status hax_exit_unknown s)))"

text \<open>The loop never resumes the guest by itself. \<open>None\<close> is also a null tunnel.\<close>

definition nvc_hax_run_vcpu :: "run_env \<Rightarrow> guest_run list \<Rightarrow> hax_world \<Rightarrow> (noir_status \<times> hax_world) option" where
  "nvc_hax_run_vcpu r ks s =
     (if tunnel (xheader (rw (hx_run s))) = 0 then None
      else Option.bind (finish_input s) (\<lambda>s1.
        Option.bind (nvc_run_vcpu r ks 0 (hx_run s1)) (\<lambda>(st, out, w).
          let s2 = s1\<lparr>hx_run := w\<rparr> in
          if st = noir_success then map_option (Pair st) (translate_exit s2) else Some (st, s2))))"

end
