(* ===== verification/Hax_Properties.thy ===== *)
theory Hax_Properties
  imports Hax
begin

text \<open>
  The properties of the interface for HAXM: what setting the registers does to the guest, what reading
  them back gives, and the array of model-specific registers.
\<close>

section \<open>Registers\<close>

lemma hax_load_parts [simp]:
  "gpr (hax_load st v) = hx_gpr st" "seg (hax_load st v) = (\<lambda>r. nvc_hax_convert_from_hax_segment (hx_seg st r))"
  "cr0 (hax_load st v) = hx_cr0 st" "cr2 (hax_load st v) = hx_cr2 st" "cr3 (hax_load st v) = hx_cr3 st"
  "cr4 (hax_load st v) = hx_cr4 st" "cr8 (hax_load st v) = cr8 v" "efer (hax_load st v) = ucast (hx_efer st)"
  "drs (hax_load st v) = (\<lambda>i. if i < 6 then hx_dr st i else drs v i)"
  "sysenter (hax_load st v) = (sysenter v)(0 := ucast (hx_sysenter_cs st), 1 := hx_sysenter_esp st, 2 := hx_sysenter_eip st)"
  "pat (hax_load st v) = pat v" "star (hax_load st v) = star v" "gsswap (hax_load st v) = gsswap v"
  "rip (hax_load st v) = rip v" "rflags (hax_load st v) = rflags v" "tsc_off (hax_load st v) = tsc_off v"
  "xcr0 (hax_load st v) = xcr0 v"
  by (simp_all add: hax_load_def Let_def cong: if_cong)

definition hax_classes :: "string list" where
  "hax_classes = [''gprvalid'', ''sr_valid'', ''fg_valid'', ''dt_valid'', ''lt_valid'', ''cr_valid'', ''cr2valid'', ''dr_valid'',
     ''ef_valid'', ''se_valid'']"

lemma hax_load_cached:
  "f \<in> set hax_classes \<Longrightarrow> \<not> cached f (hax_load st v)"
  "f \<notin> set hax_classes \<Longrightarrow> cached f (hax_load st v) = cached f v"
  by (auto simp: hax_load_def Let_def hax_classes_def)

lemma hax_load_stale [simp]:
  "\<not> cached ''gprvalid'' (hax_load st v)" "\<not> cached ''sr_valid'' (hax_load st v)" "\<not> cached ''fg_valid'' (hax_load st v)"
  "\<not> cached ''dt_valid'' (hax_load st v)" "\<not> cached ''lt_valid'' (hax_load st v)" "\<not> cached ''cr_valid'' (hax_load st v)"
  "\<not> cached ''cr2valid'' (hax_load st v)" "\<not> cached ''dr_valid'' (hax_load st v)" "\<not> cached ''ef_valid'' (hax_load st v)"
  "\<not> cached ''se_valid'' (hax_load st v)" "cached ''tp_valid'' (hax_load st v) = cached ''tp_valid'' v"
  "cached ''pa_valid'' (hax_load st v) = cached ''pa_valid'' v" "cached ''sc_valid'' (hax_load st v) = cached ''sc_valid'' v"
  "cached ''ts_valid'' (hax_load st v) = cached ''ts_valid'' v"
  by (rule hax_load_cached; simp add: hax_classes_def)+

lemma seg_cache_stale [simp]: "\<not> cached (seg_cache r) (hax_load st v)"
  by (cases r) simp_all

text \<open>The registers of the block.\<close>

fun hax_reg :: "noir_hax_vcpu_state \<Rightarrow> guest_reg \<Rightarrow> u64 option" where
  "hax_reg st (Gpr i) = Some (hx_gpr st i)"
| "hax_reg st Cr0 = Some (hx_cr0 st)" | "hax_reg st Cr2 = Some (hx_cr2 st)"
| "hax_reg st Cr3 = Some (hx_cr3 st)" | "hax_reg st Cr4 = Some (hx_cr4 st)"
| "hax_reg st (Dr i) = (if i < 6 then Some (hx_dr st i) else None)"
| "hax_reg st (Sel r) = Some (ucast (hs_selector (hx_seg st r)))"
| "hax_reg st (Attr r) = Some (ucast (svm_attrib (ucast (hs_access_rights (hx_seg st r)))))"
| "hax_reg st (Lim r) = Some (ucast (hs_limit (hx_seg st r)))"
| "hax_reg st (Base r) = Some (hs_base (hx_seg st r))"
| "hax_reg st Efer = Some (ucast (hx_efer st))"
| "hax_reg st (Sysenter i) =
     (if i = 0 then Some (ucast (hx_sysenter_cs st)) else if i = 1 then Some (hx_sysenter_esp st)
      else if i = 2 then Some (hx_sysenter_eip st) else None)"
| "hax_reg st _ = None"

text \<open>C40: setting the registers through the interface of HAXM sets the guest. The next run starts with the
  values of the block in the general, segment, control and debug registers, \<open>EFER\<close> and the registers
  of \<open>sysenter\<close>, whatever the control block held, and with the old value of every other register. The
  instruction pointer and the flags of the block are not among them, and the kernel base of \<open>gs\<close>
  falls back to the software copy, which nothing has synchronized.\<close>

theorem hax_set_arch:
  assumes "nvc_hax_set_vcpu_registers True sz st h = (noir_success, h')" "gprs_saved h b"
  shows "arch s h' b r =
    (case hax_reg st r of Some x \<Rightarrow> x | None \<Rightarrow> if r = Kernel_gs_base then gsswap h else arch s h b r)"
proof -
  have "noir_buffer_too_small \<noteq> noir_success" by (simp add: noir_buffer_too_small_def noir_success_def)
  then have h': "h' = hax_load st h" using assms(1) by (simp add: nvc_hax_set_vcpu_registers_def split: if_splits)
  show ?thesis
    unfolding h' using assms(2)
    by - (rule guest_reg_exhaust [of r]; simp add: nvc_hax_convert_from_hax_segment_def gprs_saved_def is_table_def; auto)
qed

text \<open>A segment as it comes back: without the upper half of the access rights.\<close>

definition hax_segment_kept :: "noir_hax_segment \<Rightarrow> noir_hax_segment" where
  "hax_segment_kept x = x\<lparr>hs_dummy := 0, hs_pad := 0, hs_access_rights := ucast (ucast (hs_access_rights x) :: u16)\<rparr>"

lemma segment_kept: "nvc_hax_convert_to_hax_segment (nvc_hax_convert_from_hax_segment x) = hax_segment_kept x"
  by (cases x) (simp only: nvc_hax_convert_to_hax_segment_def nvc_hax_convert_from_hax_segment_def hax_segment_kept_def
      segment_register.simps noir_hax_segment.simps)

text \<open>What the dump leaves alone: a view of the software state on which only stale classes write.\<close>

lemma fold_keeps:
  assumes "list_all (\<lambda>(f, rd). (\<forall>h. state_cache (rd h) = state_cache h) \<and> (f \<in> S \<or> (\<forall>h. view (rd h) = view h))) steps"
    "\<forall>f \<in> S. \<not> cached f h"
  shows "view (fold (\<lambda>(f, rd). when_valid f rd) steps h) = view h"
  using assms
proof (induction steps arbitrary: h)
  case (Cons step steps)
  obtain f rd where step: "step = (f, rd)" by fastforce
  let ?h = "when_valid f rd h"
  have "state_cache ?h = state_cache h" using Cons.prems(1) by (simp add: step when_valid_def)
  then have stale: "\<forall>f \<in> S. \<not> cached f ?h" using Cons.prems(2) by (simp add: cached_def)
  have "view ?h = view h" using Cons.prems by (auto simp: step when_valid_def)
  then show ?case using Cons.IH [of ?h] Cons.prems(1) stale by (simp add: step)
qed simp

lemma dump_keeps:
  assumes "list_all (\<lambda>(f, rd). f \<in> S \<or> (\<forall>h. view (rd h) = view h)) (dump_list s b)" "\<forall>f \<in> S. \<not> cached f h"
    "\<And>h x. view (set_cache ''synchronized'' x h) = view h"
  shows "view (dump_vmcb s b h) = view h"
proof -
  have "list_all (\<lambda>(f, rd). (\<forall>h. state_cache (rd h) = state_cache h)) (dump_list s b)"
    using dump_list_faithful [of s b] by (auto simp: list_all_iff faithful_def)
  then have "list_all (\<lambda>(f, rd). (\<forall>h. state_cache (rd h) = state_cache h) \<and> (f \<in> S \<or> (\<forall>h. view (rd h) = view h))) (dump_list s b)"
    using assms(1) by (auto simp: list_all_iff)
  from fold_keeps [OF this assms(2)] show ?thesis by (simp add: dump_as_steps assms(3))
qed

lemma dump_keeps_hax: "hax_store (dump_vmcb s b (hax_load st v)) st0 = hax_store (hax_load st v) st0"
  by (rule dump_keeps [where S = "set hax_classes" and view = "\<lambda>h. hax_store h st0"])
    (simp_all add: dump_list_def hax_classes_def hax_store_def cong: if_cong)

text \<open>C40: reading the registers back. What was set comes back, although reading synchronizes first, but for
  three places: \<open>gs\<close> comes back as \<open>cs\<close>, and the instruction pointer and the flags of the buffer are not
  filled in at all.\<close>

theorem hax_registers_round_trip:
  assumes "sizeof_noir_hax_vcpu_state \<le> sz"
  shows "\<exists>st' v'. nvc_hax_get_vcpu_registers True (dump_vmcb s b) sz st0 (snd (nvc_hax_set_vcpu_registers True sz st v)) =
       (noir_success, st', v') \<and>
     hx_gpr st' = hx_gpr st \<and> (\<forall>i < 6. hx_dr st' i = hx_dr st i) \<and>
     hx_cr0 st' = hx_cr0 st \<and> hx_cr2 st' = hx_cr2 st \<and> hx_cr3 st' = hx_cr3 st \<and> hx_cr4 st' = hx_cr4 st \<and>
     hx_efer st' = hx_efer st \<and> hx_sysenter_cs st' = hx_sysenter_cs st \<and>
     hx_sysenter_esp st' = hx_sysenter_esp st \<and> hx_sysenter_eip st' = hx_sysenter_eip st \<and>
     (\<forall>r. hx_seg st' r = hax_segment_kept (hx_seg st (if r = Gs then Cs else r))) \<and>
     hx_rip st' = hx_rip st0 \<and> hx_rflags st' = hx_rflags st0"
  using assms
  by (simp add: nvc_hax_get_vcpu_registers_def nvc_hax_set_vcpu_registers_def dump_keeps_hax Let_def)
    (simp add: hax_store_def segment_kept)

section \<open>Model-specific registers\<close>

definition hax_msr_class :: "u64 \<Rightarrow> string" where
  "hax_msr_class n =
     (if n = hax_msr_tsc then ''ts_valid'' else if n \<in> {hax_msr_sysenter_cs, hax_msr_sysenter_esp, hax_msr_sysenter_eip} then ''se_valid''
      else if n = hax_msr_efer then ''ef_valid'' else if n = hax_msr_kernel_gs_base then ''fg_valid'' else ''sc_valid'')"

lemma set_hax_msr_same:
  "set_hax_msr t n x v = Some v1 \<Longrightarrow> get_hax_msr t n v1 = Some x \<and> \<not> cached (hax_msr_class n) v1"
  by (auto simp: set_hax_msr_def get_hax_msr_def hax_msr_class_def hax_msrs split: if_splits)

lemma set_hax_msr_other:
  "set_hax_msr t n x v = Some v1 \<Longrightarrow> m \<noteq> n \<Longrightarrow> get_hax_msr t' m v1 = get_hax_msr t' m v"
  by (auto simp: set_hax_msr_def split: if_split_asm) (simp_all add: get_hax_msr_def cong: if_cong)

lemma set_hax_msr_stale:
  assumes "set_hax_msr t n x v = Some v1" "\<not> cached f v" "f \<in> {''ts_valid'', ''se_valid'', ''ef_valid'', ''sc_valid'', ''fg_valid''}"
  shows "\<not> cached f v1"
  using assms by (auto simp: set_hax_msr_def split: if_splits)

lemma hax_class_in: "hax_msr_class n \<in> {''ts_valid'', ''se_valid'', ''ef_valid'', ''sc_valid'', ''fg_valid''}"
  by (simp add: hax_msr_class_def)

definition known_msrs :: "u64 set" where
  "known_msrs = {hax_msr_tsc, hax_msr_sysenter_cs, hax_msr_sysenter_esp, hax_msr_sysenter_eip, hax_msr_efer, hax_msr_star,
     hax_msr_lstar, hax_msr_cstar, hax_msr_fmask, hax_msr_kernel_gs_base}"

lemma known_set: "set_hax_msr t n x v = None \<longleftrightarrow> n \<notin> known_msrs"
  by (auto simp: set_hax_msr_def known_msrs_def)

lemma get_after_set:
  "set_hax_msrs tsc i es v = (noir_success, v') \<Longrightarrow> distinct (map fst es) \<Longrightarrow>
     (\<forall>k < length es. get_hax_msr (tsc (i + k)) (fst (es ! k)) v' = Some (snd (es ! k)) \<and>
        \<not> cached (hax_msr_class (fst (es ! k))) v') \<and>
     (\<forall>m t. m \<notin> fst ` set es \<longrightarrow> get_hax_msr t m v' = get_hax_msr t m v) \<and>
     (\<forall>f. \<not> cached f v \<and> f \<in> {''ts_valid'', ''se_valid'', ''ef_valid'', ''sc_valid'', ''fg_valid''} \<longrightarrow> \<not> cached f v')"
proof (induction tsc i es v arbitrary: v' rule: set_hax_msrs.induct)
  case (1 tsc i v)
  then show ?case by simp
next
  case (2 tsc i n x es v)
  have "noir_invalid_parameter \<noteq> noir_success" by (simp add: noir_invalid_parameter_def noir_success_def)
  then obtain v1 where v1: "set_hax_msr (tsc i) n x v = Some v1" "set_hax_msrs tsc (Suc i) es v1 = (noir_success, v')"
    using "2.prems"(1) by (auto split: option.splits)
  have d: "distinct (map fst es)" "n \<notin> fst ` set es" using "2.prems"(2) by simp_all
  note ih = "2.IH" [OF v1 d(1)]
  have first: "get_hax_msr (tsc i) n v' = Some x" using ih d(2) set_hax_msr_same [OF v1(1)] by simp
  have stale: "\<not> cached (hax_msr_class n) v'" using ih set_hax_msr_same [OF v1(1)] hax_class_in by blast
  have others: "get_hax_msr t m v' = get_hax_msr t m v" if "m \<notin> fst ` set ((n, x) # es)" for m t
    using that ih set_hax_msr_other [OF v1(1)] by simp
  have keep: "\<not> cached f v'" if "\<not> cached f v" "f \<in> {''ts_valid'', ''se_valid'', ''ef_valid'', ''sc_valid'', ''fg_valid''}" for f
    using ih set_hax_msr_stale [OF v1(1) that] that(2) by blast
  have "get_hax_msr (tsc (i + k)) (fst (((n, x) # es) ! k)) v' = Some (snd (((n, x) # es) ! k)) \<and>
      \<not> cached (hax_msr_class (fst (((n, x) # es) ! k))) v'" if "k < length ((n, x) # es)" for k
    using that first stale ih by (cases k) simp_all
  with others keep show ?case by blast
qed

lemma dump_keeps_msr:
  assumes "\<not> cached (hax_msr_class n) h"
  shows "get_hax_msr t n (dump_vmcb s b h) = get_hax_msr t n h"
proof (cases "n \<in> known_msrs")
  case True
  then have "list_all (\<lambda>(f, rd). f \<in> {hax_msr_class n} \<or> (\<forall>h. get_hax_msr t n (rd h) = get_hax_msr t n h)) (dump_list s b)"
    unfolding known_msrs_def
    by (elim insertE emptyE; simp add: dump_list_def hax_msr_class_def get_hax_msr_def hax_msrs
        nvc_svm_dump_guest_segments_def nvc_svm_dump_guest_fs_gs_def)
  moreover have "get_hax_msr t n (set_cache f x h) = get_hax_msr t n h" for f x h
    by (simp add: get_hax_msr_def cong: if_cong)
  ultimately show ?thesis using dump_keeps [of "{hax_msr_class n}" "get_hax_msr t n"] assms by blast
next
  case False
  then have "get_hax_msr t n v = None" for v by (simp add: get_hax_msr_def known_msrs_def)
  then show ?thesis by simp
qed

lemma get_all:
  "\<forall>k < length es. get_hax_msr (tsc (i + k)) (fst (es ! k)) v = Some (snd (es ! k)) \<Longrightarrow>
   get_hax_msrs tsc i es v = (noir_success, es)"
proof (induction tsc i es v rule: get_hax_msrs.induct)
  case (2 tsc i n x es v)
  have "get_hax_msr (tsc i) n v = Some x" using "2.prems" by force
  moreover have "\<forall>k < length es. get_hax_msr (tsc (Suc i + k)) (fst (es ! k)) v = Some (snd (es ! k))"
    using "2.prems" by force
  ultimately show ?case using "2.IH" by simp
qed simp

text \<open>C40: the array of model-specific registers. Setting up to 19 different registers of the ten known ones
  and reading the same entries at the same times gives the values back, although reading synchronizes
  first. A full array of 20 entries is refused, and at the first unknown register the call fails with the
  registers before it set and those after it not.\<close>

theorem hax_msrs_round_trip:
  assumes "sizeof_noir_hax_msr_data \<le> sz"
  shows "(nr < 20 \<longrightarrow> nr \<le> length es \<longrightarrow> distinct (map fst (take nr es)) \<longrightarrow> fst ` set (take nr es) \<subseteq> known_msrs \<longrightarrow>
      (\<exists>v1 v2. nvc_hax_set_msrs True tsc sz nr es v = (noir_success, v1) \<and>
        nvc_hax_get_msrs True tsc (dump_vmcb s b) sz nr es v1 = (noir_success, es, v2))) \<and>
    (20 \<le> nr \<longrightarrow> nvc_hax_set_msrs True tsc sz nr es v = (noir_invalid_parameter, v)) \<and>
    (fst ` set ks \<subseteq> known_msrs \<longrightarrow> n \<notin> known_msrs \<longrightarrow>
      set_hax_msrs tsc i (ks @ (n, x) # es) v = (noir_invalid_parameter, snd (set_hax_msrs tsc i ks v)))"
proof -
  have ok: "fst (set_hax_msrs tsc i ks v) = noir_success" if "fst ` set ks \<subseteq> known_msrs" for i ks v
    using that
  proof (induction tsc i ks v rule: set_hax_msrs.induct)
    case (2 tsc i n x es v)
    then show ?case using known_set [of "tsc i" n x v] by (auto split: option.split)
  qed simp
  have "set_hax_msrs tsc i (ks @ (n, x) # es) v = (noir_invalid_parameter, snd (set_hax_msrs tsc i ks v))"
    if "fst ` set ks \<subseteq> known_msrs" "n \<notin> known_msrs" for i ks v n x es
    using that
  proof (induction tsc i ks v rule: set_hax_msrs.induct)
    case (1 tsc i v)
    then show ?case using known_set [of "tsc i" n x v] by simp
  next
    case (2 tsc i m y ks v)
    then show ?case using known_set [of "tsc i" m y v] by (auto split: option.split)
  qed
  moreover have "\<exists>v1 v2. nvc_hax_set_msrs True tsc sz nr es v = (noir_success, v1) \<and>
      nvc_hax_get_msrs True tsc (dump_vmcb s b) sz nr es v1 = (noir_success, es, v2)"
    if lim: "nr < 20" and le: "nr \<le> length es" and dist: "distinct (map fst (take nr es))"
      and known: "fst ` set (take nr es) \<subseteq> known_msrs"
  proof -
    obtain v1 where v1: "set_hax_msrs tsc 0 (take nr es) v = (noir_success, v1)"
      using ok [OF known] by (metis prod.collapse)
    let ?d = "dump_vmcb s b v1"
    have "\<forall>k < length (take nr es). get_hax_msr (tsc (0 + k)) (fst (take nr es ! k)) ?d = Some (snd (take nr es ! k))"
      using get_after_set [OF v1 dist] dump_keeps_msr by simp
    then have "get_hax_msrs tsc 0 (take nr es) ?d = (noir_success, take nr es)" by (rule get_all)
    then show ?thesis
      using assms lim v1 by (simp add: nvc_hax_set_msrs_def nvc_hax_get_msrs_def hax_max_msr_array_def Let_def)
  qed
  ultimately show ?thesis
    using assms by (simp add: nvc_hax_set_msrs_def hax_max_msr_array_def)
qed

section \<open>Witnesses\<close>

definition example_hax_state :: noir_hax_vcpu_state where
  "example_hax_state =
     \<lparr>hx_gpr = (\<lambda>i. if i = 0 then 5 else 0), hx_rip = 0x100, hx_rflags = 2,
      hx_seg = (\<lambda>_. \<lparr>hs_selector = 8, hs_dummy = 0, hs_limit = 0xffff, hs_base = 0, hs_access_rights = 0x9b, hs_pad = 0\<rparr>),
      hx_cr0 = 0x11, hx_cr2 = 0, hx_cr3 = 0x7000, hx_cr4 = 0, hx_dr = (\<lambda>_. 0), hx_pde = 0, hx_efer = 0,
      hx_sysenter_cs = 0, hx_sysenter_eip = 0, hx_sysenter_esp = 0, hx_activity_state = 0, hx_interruptibility_state = 0\<rparr>"

theorem hax_set_arch_witness:
  "arch False (snd (nvc_hax_set_vcpu_registers True 512 example_hax_state example_header)) (\<lambda>_. 0) Cr3 = 0x7000 \<and>
   arch False (snd (nvc_hax_set_vcpu_registers True 512 example_hax_state example_header)) (\<lambda>_. 0) Rip =
     arch False example_header (\<lambda>_. 0) Rip"
proof -
  let ?h = "snd (nvc_hax_set_vcpu_registers True 512 example_hax_state example_header)"
  have set: "nvc_hax_set_vcpu_registers True 512 example_hax_state example_header = (noir_success, ?h)"
    by (simp add: nvc_hax_set_vcpu_registers_def sizeof_noir_hax_vcpu_state_def)
  have saved: "gprs_saved example_header (\<lambda>_. 0)"
    by (simp add: gprs_saved_def cached_def example_header_def bf_flag_def bf_get_def)
  show ?thesis
    using hax_set_arch [OF set saved, of False Cr3] hax_set_arch [OF set saved, of False Rip]
    by (simp add: example_hax_state_def)
qed

theorem hax_registers_round_trip_witness:
  "\<exists>st' v'. nvc_hax_get_vcpu_registers True (dump_vmcb False (\<lambda>_. 0)) 512 example_hax_state
       (snd (nvc_hax_set_vcpu_registers True 512 example_hax_state example_header)) = (noir_success, st', v') \<and>
     hx_cr3 st' = 0x7000 \<and> hx_gpr st' 0 = 5"
proof -
  have "sizeof_noir_hax_vcpu_state \<le> 512" by (simp add: sizeof_noir_hax_vcpu_state_def)
  from hax_registers_round_trip [OF this, of False "\<lambda>_. 0" example_hax_state example_hax_state example_header]
  have "\<exists>st' v'. nvc_hax_get_vcpu_registers True (dump_vmcb False (\<lambda>_. 0)) 512 example_hax_state
       (snd (nvc_hax_set_vcpu_registers True 512 example_hax_state example_header)) = (noir_success, st', v') \<and>
     hx_cr3 st' = hx_cr3 example_hax_state \<and> hx_gpr st' 0 = hx_gpr example_hax_state 0"
    by (elim ex_forward conjE) (intro conjI; simp)
  moreover have "hx_cr3 example_hax_state = 0x7000" "hx_gpr example_hax_state 0 = 5"
    by (simp_all add: example_hax_state_def)
  ultimately show ?thesis by simp
qed

theorem hax_msrs_round_trip_witness:
  "\<exists>v1 v2. nvc_hax_set_msrs True (\<lambda>_. 7) 512 2 [(0x10, 100), (0xC0000081, 3)] example_header = (noir_success, v1) \<and>
     nvc_hax_get_msrs True (\<lambda>_. 7) (dump_vmcb False (\<lambda>_. 0)) 512 2 [(0x10, 100), (0xC0000081, 3)] v1 =
       (noir_success, [(0x10, 100), (0xC0000081, 3)], v2)"
proof -
  have "sizeof_noir_hax_msr_data \<le> 512" by (simp add: sizeof_noir_hax_msr_data_def)
  from hax_msrs_round_trip [OF this, of 2 "[(0x10, 100), (0xC0000081, 3)]" "\<lambda>_. 7" example_header False "\<lambda>_. 0" "[]" 0 0 0]
  show ?thesis by (simp add: known_msrs_def hax_msrs)
qed

end
