(* ===== verification/Host_State.thy ===== *)
theory Host_State
  imports Cv_Options Vendor Ci Rmt
begin

text \<open>
  The processor of the subverted host as its exit handlers see it (\<open>include/svm_hvm.h\<close>,
  \<open>include/mshv_hvm.h\<close>): physical memory in pages, the control block that runs next, the nested
  virtualization of a hypervisor in the host, and the interface of the Microsoft hypervisor. The
  control blocks of the code are pages; its pointers to them and the physical addresses that a nested
  hypervisor gives (which the host page tables map to themselves) name the page. The configuration is
  the one of a driver (\<open>_hv_type1\<close> is not defined, \<open>_amd64\<close> is).
\<close>

section \<open>Pages and copies between control blocks\<close>

type_synonym pages = "u64 \<Rightarrow> bytes"

definition on_page :: "u64 \<Rightarrow> (bytes \<Rightarrow> bytes) \<Rightarrow> pages \<Rightarrow> pages" where
  "on_page p f m = m(p := f (m p))"

definition vmcopy8 :: "u64 \<Rightarrow> u64 \<Rightarrow> nat \<Rightarrow> pages \<Rightarrow> pages" where
  "vmcopy8 d s f m = on_page d (\<lambda>b. vmwrite8 b f (vmread8 (m s) f)) m"
definition vmcopy16 :: "u64 \<Rightarrow> u64 \<Rightarrow> nat \<Rightarrow> pages \<Rightarrow> pages" where
  "vmcopy16 d s f m = on_page d (\<lambda>b. vmwrite16 b f (vmread16 (m s) f)) m"
definition vmcopy32 :: "u64 \<Rightarrow> u64 \<Rightarrow> nat \<Rightarrow> pages \<Rightarrow> pages" where
  "vmcopy32 d s f m = on_page d (\<lambda>b. vmwrite32 b f (vmread32 (m s) f)) m"
definition vmcopy64 :: "u64 \<Rightarrow> u64 \<Rightarrow> nat \<Rightarrow> pages \<Rightarrow> pages" where
  "vmcopy64 d s f m = on_page d (\<lambda>b. vmwrite64 b f (vmread64 (m s) f)) m"

text \<open>A sequence of copies, as widths in bits and offsets.\<close>

datatype field = B8 nat | B16 nat | B32 nat | B64 nat

fun copy_field :: "u64 \<Rightarrow> u64 \<Rightarrow> field \<Rightarrow> pages \<Rightarrow> pages" where
  "copy_field d s (B8 f) m = vmcopy8 d s f m"
| "copy_field d s (B16 f) m = vmcopy16 d s f m"
| "copy_field d s (B32 f) m = vmcopy32 d s f m"
| "copy_field d s (B64 f) m = vmcopy64 d s f m"

definition copy_fields :: "u64 \<Rightarrow> u64 \<Rightarrow> field list \<Rightarrow> pages \<Rightarrow> pages" where
  "copy_fields d s fs m = fold (copy_field d s) fs m"

fun field_bytes :: "field \<Rightarrow> nat set" where
  "field_bytes (B8 f) = {f..<f + 1}"
| "field_bytes (B16 f) = {f..<f + 2}"
| "field_bytes (B32 f) = {f..<f + 4}"
| "field_bytes (B64 f) = {f..<f + 8}"

definition fields_bytes :: "field list \<Rightarrow> nat set" where
  "fields_bytes fs = (\<Union>f \<in> set fs. field_bytes f)"

lemma on_page_apply [simp]: "on_page p f m q = (if q = p then f (m p) else m q)"
  by (simp add: on_page_def)

lemma byte_of_load: "k < 8 \<Longrightarrow> byte_of (load_u64 b p) k = b (p + k)"
proof (rule bit_word_eqI)
  fix n assume "k < 8" "n < LENGTH(8)"
  then show "bit (byte_of (load_u64 b p) k) n \<longleftrightarrow> bit (b (p + k)) n"
    by (simp add: bit_byte_of bit_load_u64)
qed

lemma byte_of_narrow:
  assumes "8 * Suc k \<le> LENGTH('a)" "k < 8"
  shows "byte_of (ucast (ucast x :: 'a::len word) :: u64) k = byte_of x k"
proof (rule bit_word_eqI)
  fix n assume "n < LENGTH(8)"
  then show "bit (byte_of (ucast (ucast x :: 'a::len word) :: u64) k) n \<longleftrightarrow> bit (byte_of x k) n"
    using assms by (simp add: bit_byte_of bit_simps)
qed

lemma copied_bytes:
  "vmwrite8 d f (vmread8 s f) = (\<lambda>i. if i \<in> {f..<f + 1} then s i else d i)"
  "vmwrite16 d f (vmread16 s f) = (\<lambda>i. if i \<in> {f..<f + 2} then s i else d i)"
  "vmwrite32 d f (vmread32 s f) = (\<lambda>i. if i \<in> {f..<f + 4} then s i else d i)"
  "vmwrite64 d f (vmread64 s f) = (\<lambda>i. if i \<in> {f..<f + 8} then s i else d i)"
proof -
  show "vmwrite8 d f (vmread8 s f) = (\<lambda>i. if i \<in> {f..<f + 1} then s i else d i)"
    by (auto simp: vmwrite8_def vmread8_def wr_def fun_eq_iff byte_of_def)
  have 2: "byte_of (ucast (vmread16 s f)) (i - f) = s i" if "f \<le> i" "i < f + 2" for i
    using that by (simp add: vmread16_load byte_of_narrow byte_of_load)
  have 4: "byte_of (ucast (vmread32 s f)) (i - f) = s i" if "f \<le> i" "i < f + 4" for i
    using that by (simp add: vmread32_load byte_of_narrow byte_of_load)
  have 8: "byte_of (vmread64 s f) (i - f) = s i" if "f \<le> i" "i < f + 8" for i
    using that by (simp add: vmread64_def byte_of_load)
  show "vmwrite16 d f (vmread16 s f) = (\<lambda>i. if i \<in> {f..<f + 2} then s i else d i)"
    using 2 by (auto simp: vmwrite16_def wr_def fun_eq_iff)
  show "vmwrite32 d f (vmread32 s f) = (\<lambda>i. if i \<in> {f..<f + 4} then s i else d i)"
    using 4 by (auto simp: vmwrite32_def wr_def fun_eq_iff)
  show "vmwrite64 d f (vmread64 s f) = (\<lambda>i. if i \<in> {f..<f + 8} then s i else d i)"
    using 8 by (auto simp: vmwrite64_def wr_def fun_eq_iff)
qed

lemma copy_field_bytes:
  "copy_field d s f m = m(d := \<lambda>i. if i \<in> field_bytes f then m s i else m d i)"
  by (cases f) (simp_all add: vmcopy8_def vmcopy16_def vmcopy32_def vmcopy64_def on_page_def copied_bytes)

text \<open>Copying fields copies their bytes and nothing else, also when both are the same page.\<close>

lemma copy_fields_bytes:
  "copy_fields d s fs m = m(d := \<lambda>i. if i \<in> fields_bytes fs then m s i else m d i)"
proof (induction fs arbitrary: m)
  case Nil
  then show ?case by (simp add: copy_fields_def fields_bytes_def)
next
  case (Cons f fs)
  have "copy_fields d s (f # fs) m = copy_fields d s fs (copy_field d s f m)" by (simp add: copy_fields_def)
  then show ?case by (auto simp: Cons.IH copy_field_bytes fields_bytes_def fun_eq_iff)
qed

lemma fields_bytes_append [simp]: "fields_bytes (fs @ gs) = fields_bytes fs \<union> fields_bytes gs"
  by (simp add: fields_bytes_def)

section \<open>State\<close>

record noir_svm_nested_vcpu_node =
  vmcb_t :: u64
  vmcb_c :: u64
  node_clean :: bool

record noir_svm_nested_vcpu =
  hsave_gpa :: u64
  hsave_hva :: u64
  node_pool :: "nat \<Rightarrow> noir_svm_nested_vcpu_node"
  nested_svme :: bool
  nested_forward :: bool
  nested_gif :: bool
  r_init :: bool
  pending_db :: bool
  pending_nmi :: bool
  pending_mc :: bool
  pending_init :: bool

record noir_mshv_vcpu =
  vp_index :: u64
  npiep_config :: u64
  mshv_event :: u64
  synic_icr :: u64

record noir_svm_fallback_info =
  fb_valid :: bool
  fb_offset :: u32
  fb_value :: u64
  fb_field_size :: nat
  fb_rip :: u64
  fb_fault_info :: u64

text \<open>What a processor is left with when it leaves the hypervisor.\<close>

record host_return =
  hr_gpr :: "nat \<Rightarrow> u64"
  hr_cr3 :: u64
  hr_cr4 :: u64
  hr_idtr :: "u16 \<times> u64"
  hr_gdtr :: "u16 \<times> u64"

text \<open>
  The state of the customizable machines behind the hypercalls is of a type of its own, breakpoints are
  counted, and \<open>hw_sipi\<close> is the vector of a start-up signal that another processor has sent.
\<close>

record 'c host_world =
  hw_frame :: "nat \<Rightarrow> u64"
  hw_pages :: pages
  hw_vmcb :: u64
  hw_guest_vmcb_pa :: u64
  hw_nested_vcpu :: nat
  hw_nested :: noir_svm_nested_vcpu
  hw_mshv :: noir_mshv_vcpu
  hw_fallback :: noir_svm_fallback_info
  hw_guest_os_id :: u64
  hw_hypercall_ctrl :: u64
  hw_if :: bool
  hw_cr3 :: u64
  hw_cr8 :: u64
  hw_dr :: "nat \<Rightarrow> u64"
  hw_invlpga :: "(u64 \<times> u32) list"
  hw_breakpoints :: nat
  hw_callexit :: "host_return option"
  hw_status :: u8
  hw_sipi :: "u8 option"
  hw_cvm :: 'c

abbreviation host_vmcb :: "'c host_world \<Rightarrow> bytes" where
  "host_vmcb s \<equiv> hw_pages s (hw_vmcb s)"

definition on_host_vmcb :: "(bytes \<Rightarrow> bytes) \<Rightarrow> 'c host_world \<Rightarrow> 'c host_world" where
  "on_host_vmcb f s = s\<lparr>hw_pages := on_page (hw_vmcb s) f (hw_pages s)\<rparr>"

definition on_nested :: "(noir_svm_nested_vcpu \<Rightarrow> noir_svm_nested_vcpu) \<Rightarrow> 'c host_world \<Rightarrow> 'c host_world" where
  "on_nested f s = s\<lparr>hw_nested := f (hw_nested s)\<rparr>"

definition host_int3 :: "'c host_world \<Rightarrow> 'c host_world" where
  "host_int3 s = s\<lparr>hw_breakpoints := hw_breakpoints s + 1\<rparr>"

lemma on_host_vmcb_simps [simp]:
  "hw_frame (on_host_vmcb f s) = hw_frame s" "hw_vmcb (on_host_vmcb f s) = hw_vmcb s"
  "hw_guest_vmcb_pa (on_host_vmcb f s) = hw_guest_vmcb_pa s" "hw_nested (on_host_vmcb f s) = hw_nested s"
  "hw_nested_vcpu (on_host_vmcb f s) = hw_nested_vcpu s" "hw_mshv (on_host_vmcb f s) = hw_mshv s"
  "hw_cvm (on_host_vmcb f s) = hw_cvm s" "hw_breakpoints (on_host_vmcb f s) = hw_breakpoints s"
  "hw_callexit (on_host_vmcb f s) = hw_callexit s" "hw_status (on_host_vmcb f s) = hw_status s" "hw_sipi (on_host_vmcb f s) = hw_sipi s"
  "hw_guest_os_id (on_host_vmcb f s) = hw_guest_os_id s" "hw_hypercall_ctrl (on_host_vmcb f s) = hw_hypercall_ctrl s"
  "hw_dr (on_host_vmcb f s) = hw_dr s" "hw_invlpga (on_host_vmcb f s) = hw_invlpga s" "hw_fallback (on_host_vmcb f s) = hw_fallback s"
  "hw_if (on_host_vmcb f s) = hw_if s" "hw_cr3 (on_host_vmcb f s) = hw_cr3 s" "hw_cr8 (on_host_vmcb f s) = hw_cr8 s"
  "hw_pages (on_host_vmcb f s) = (hw_pages s)(hw_vmcb s := f (host_vmcb s))"
  by (simp_all add: on_host_vmcb_def on_page_def)

text \<open>
  What a processor has besides: the options and images of the hypervisor, the hooked and the original
  system call, the tables of nested paging, the identification of the processor, whether it caches
  control blocks, the number of identifiers before those of customizable machines, the table of CPUID
  handlers and which of the two handlers is set. The processor, the operating system and the
  disassembler are functions.
\<close>

record noir_image = im_base :: u64  im_size :: u32

record host_env =
  he_hv_presence :: bool
  he_nested_virtualization :: bool
  he_hv_image :: noir_image
  he_layered_hv_image :: noir_image
  he_system_call :: u64
  he_orig_system_call :: u64
  he_primary_ncr3 :: u64
  he_secondary_ncr3 :: u64
  he_host_cr3 :: u64
  he_cpuid_fms :: u32
  he_caching :: bool
  he_tlb_tagging_start :: u32
  he_cpuid_leaf_max :: u32
  he_present_handler :: bool
  he_svm_core :: bool
  he_cpuid :: cpuid
  he_process_cr3 :: u64
  he_virt_by_phys :: "u64 \<Rightarrow> u64"
  he_ci :: noir_ci_context
  he_instruction_length :: "bytes \<Rightarrow> bool \<Rightarrow> u32"

definition in_image :: "noir_image \<Rightarrow> u64 \<Rightarrow> bool" where
  "in_image i p \<longleftrightarrow> im_base i \<le> p \<and> p < im_base i + ucast (im_size i)"

end
