(* ===== verification/Nested.thy ===== *)
theory Nested
  imports Host_State
begin

text \<open>
  Nested virtualization of AMD-V (\<open>svm_core/svm_nvcpu.c\<close>): a hypervisor in the subverted host runs a
  guest with its control block \<open>vmcb_c\<close>, which is copied into the control block \<open>vmcb_t\<close> that the
  processor runs. Copies are lazy: a class of fields is copied again when the nested hypervisor has
  cleared its clean bit.
\<close>

section \<open>Constants\<close>

definition noir_svm_clean_asid :: nat where "noir_svm_clean_asid = 2"
definition noir_svm_clean_lbr :: nat where "noir_svm_clean_lbr = 10"
definition noir_svm_clean_cet :: nat where "noir_svm_clean_cet = 12"
definition nvc_svm_intercept_vector1_cpuid :: nat where "nvc_svm_intercept_vector1_cpuid = 18"
definition nvc_svm_intercept_vector1_shutdown :: nat where "nvc_svm_intercept_vector1_shutdown = 31"
definition nvc_svm_npt_control_npt :: nat where "nvc_svm_npt_control_npt = 0"
definition nvc_svm_lbr_virt_control_lbr :: nat where "nvc_svm_lbr_virt_control_lbr = 0"
definition nvc_svm_avic_control_vintr_mask :: nat where "nvc_svm_avic_control_vintr_mask = 24"
definition noir_svm_maximum_clean_state_bits :: nat where "noir_svm_maximum_clean_state_bits = 13"
definition noir_svm_cached_nested_vmcb :: nat where "noir_svm_cached_nested_vmcb = 16"

lemmas nested_constants = noir_svm_clean_asid_def noir_svm_clean_lbr_def noir_svm_clean_cet_def
  nvc_svm_intercept_vector1_cpuid_def nvc_svm_intercept_vector1_shutdown_def nvc_svm_npt_control_npt_def
  nvc_svm_lbr_virt_control_lbr_def nvc_svm_avic_control_vintr_mask_def noir_svm_maximum_clean_state_bits_def
  noir_svm_cached_nested_vmcb_def

section \<open>Copying a class of fields\<close>

text \<open>What each routine copies, in its order. The arguments are the control block of the nested
  hypervisor and the one that runs.\<close>

definition segment_fields :: "nat \<Rightarrow> field list" where
  "segment_fields p = [B16 p, B16 (p + 2), B32 (p + 4), B64 (p + 8)]"

definition interception_fields :: "field list" where
  "interception_fields =
     [B32 intercept_access_cr, B32 intercept_access_dr, B32 intercept_exceptions, B32 intercept_instruction1,
      B32 intercept_instruction2, B32 intercept_instruction3, B16 pause_filter_threshold, B16 pause_filter_count,
      B64 tsc_offset]"

definition seg_fields :: "field list" where
  "seg_fields = segment_fields guest_cs_selector @ segment_fields guest_ds_selector @
     segment_fields guest_es_selector @ segment_fields guest_ss_selector"

definition lbr_fields :: "field list" where
  "lbr_fields = [B64 guest_debug_ctrl, B64 guest_last_branch_from, B64 guest_last_branch_to,
     B64 guest_last_exception_from, B64 guest_last_exception_to]"

definition clean_at :: "u64 \<Rightarrow> nat \<Rightarrow> pages \<Rightarrow> pages" where
  "clean_at t n = on_page t (clean n)"

definition nvc_svm_clean_vmcb_interceptions :: "u64 \<Rightarrow> u64 \<Rightarrow> pages \<Rightarrow> pages" where
  "nvc_svm_clean_vmcb_interceptions c t m =
     (let m1 = copy_fields t c interception_fields m;
          m2 = on_page t (\<lambda>b. vmcb_bts32 b intercept_instruction1 nvc_svm_intercept_vector1_cpuid) m1;
          m3 = on_page t (\<lambda>b. vmcb_bts32 b intercept_instruction1 nvc_svm_intercept_vector1_shutdown) m2
      in clean_at t noir_svm_clean_interception m3)"

definition nvc_svm_clean_vmcb_iomsrpm :: "u64 \<Rightarrow> u64 \<Rightarrow> pages \<Rightarrow> pages" where
  "nvc_svm_clean_vmcb_iomsrpm c t m =
     clean_at t noir_svm_clean_iomsrpm (copy_fields t c [B64 iopm_physical_address, B64 msrpm_physical_address] m)"

text \<open>The identifier is a signed number; the addition wraps.\<close>

definition nested_asid :: "u32 \<Rightarrow> u32" where
  "nested_asid asid = (if sint asid \<le> 0 then 0 else asid + 1)"

definition nvc_svm_clean_vmcb_asid :: "u64 \<Rightarrow> u64 \<Rightarrow> pages \<Rightarrow> pages" where
  "nvc_svm_clean_vmcb_asid c t m =
     (let asid = vmread32 (m c) guest_asid
      in clean_at t noir_svm_clean_asid (on_page t (\<lambda>b. vmwrite32 b guest_asid (nested_asid asid)) m))"

definition nvc_svm_clean_vmcb_tpr :: "u64 \<Rightarrow> u64 \<Rightarrow> pages \<Rightarrow> pages" where
  "nvc_svm_clean_vmcb_tpr c t m = clean_at t noir_svm_clean_tpr (copy_fields t c [B64 avic_control] m)"

definition nvc_svm_clean_vmcb_np :: "u64 \<Rightarrow> u64 \<Rightarrow> u64 \<Rightarrow> pages \<Rightarrow> pages" where
  "nvc_svm_clean_vmcb_np ncr3 c t m =
     (let m1 = (if vmcb_bt32 (m c) npt_control nvc_svm_npt_control_npt
                then copy_fields t c [B64 npt_control, B64 npt_cr3] m
                else on_page t (\<lambda>b. vmwrite64 (vmwrite64 b npt_control (bf_put nvc_svm_npt_control ''enable_npt'' 1 0))
                       npt_cr3 ncr3) m)
      in clean_at t noir_svm_clean_npt (copy_fields t c [B64 guest_pat] m1))"

definition nvc_svm_clean_vmcb_crx :: "u64 \<Rightarrow> u64 \<Rightarrow> pages \<Rightarrow> pages" where
  "nvc_svm_clean_vmcb_crx c t m =
     clean_at t noir_svm_clean_control_reg (copy_fields t c [B64 guest_cr0, B64 guest_cr3, B64 guest_cr4, B64 guest_efer] m)"

definition nvc_svm_clean_vmcb_drx :: "u64 \<Rightarrow> u64 \<Rightarrow> pages \<Rightarrow> pages" where
  "nvc_svm_clean_vmcb_drx c t m =
     clean_at t noir_svm_clean_debug_reg (copy_fields t c [B64 guest_dr6, B64 guest_dr7] m)"

definition nvc_svm_clean_vmcb_dt :: "u64 \<Rightarrow> u64 \<Rightarrow> pages \<Rightarrow> pages" where
  "nvc_svm_clean_vmcb_dt c t m =
     clean_at t noir_svm_clean_idt_gdt
       (copy_fields t c [B16 guest_gdtr_limit, B64 guest_gdtr_base, B16 guest_idtr_limit, B64 guest_idtr_base] m)"

definition nvc_svm_clean_vmcb_seg :: "u64 \<Rightarrow> u64 \<Rightarrow> pages \<Rightarrow> pages" where
  "nvc_svm_clean_vmcb_seg c t m = clean_at t noir_svm_clean_segment_reg (copy_fields t c seg_fields m)"

definition nvc_svm_clean_vmcb_cr2 :: "u64 \<Rightarrow> u64 \<Rightarrow> pages \<Rightarrow> pages" where
  "nvc_svm_clean_vmcb_cr2 c t m = clean_at t noir_svm_clean_cr2 (copy_fields t c [B64 guest_cr2] m)"

definition nvc_svm_clean_vmcb_lbr :: "u64 \<Rightarrow> u64 \<Rightarrow> pages \<Rightarrow> pages" where
  "nvc_svm_clean_vmcb_lbr c t m = clean_at t noir_svm_clean_lbr (copy_fields t c lbr_fields m)"

text \<open>The bit of the last branches is reset, not that of AVIC.\<close>

definition nvc_svm_clean_vmcb_avic :: "u64 \<Rightarrow> u64 \<Rightarrow> pages \<Rightarrow> pages" where
  "nvc_svm_clean_vmcb_avic c t m =
     clean_at t noir_svm_clean_lbr
       (copy_fields t c [B64 avic_apic_bar, B64 avic_backing_page_pointer, B64 avic_logical_table_pointer,
          B64 avic_physical_table_pointer] m)"

definition nvc_svm_clean_vmcb_cet :: "u64 \<Rightarrow> u64 \<Rightarrow> pages \<Rightarrow> pages" where
  "nvc_svm_clean_vmcb_cet c t m =
     clean_at t noir_svm_clean_cet (copy_fields t c [B64 guest_s_cet, B64 guest_ssp, B64 guest_isst] m)"

definition svm_clean_vmcb :: "u64 \<Rightarrow> (u64 \<Rightarrow> u64 \<Rightarrow> pages \<Rightarrow> pages) list" where
  "svm_clean_vmcb ncr3 =
     [nvc_svm_clean_vmcb_interceptions, nvc_svm_clean_vmcb_iomsrpm, nvc_svm_clean_vmcb_asid, nvc_svm_clean_vmcb_tpr,
      nvc_svm_clean_vmcb_np ncr3, nvc_svm_clean_vmcb_crx, nvc_svm_clean_vmcb_drx, nvc_svm_clean_vmcb_dt,
      nvc_svm_clean_vmcb_seg, nvc_svm_clean_vmcb_cr2, nvc_svm_clean_vmcb_lbr, nvc_svm_clean_vmcb_avic,
      nvc_svm_clean_vmcb_cet]"

section \<open>Entering a nested guest\<close>

definition copy_class :: "u64 \<Rightarrow> bool \<Rightarrow> u64 \<Rightarrow> u64 \<Rightarrow> nat \<Rightarrow> pages \<Rightarrow> pages" where
  "copy_class ncr3 is_clean c t i m =
     (if \<not> is_clean \<or> \<not> vmcb_bt32 (m c) vmcb_clean_bits i then (svm_clean_vmcb ncr3 ! i) c t m else m)"

definition always_fields :: "field list" where
  "always_fields = [B64 tlb_control, B64 guest_interrupt, B64 event_injection, B64 guest_rflags, B64 guest_rip,
     B64 guest_rsp, B64 guest_rax]"

definition nested_entry_pages :: "u64 \<Rightarrow> bool \<Rightarrow> u64 \<Rightarrow> u64 \<Rightarrow> pages \<Rightarrow> pages" where
  "nested_entry_pages ncr3 is_clean c t m =
     fold (copy_class ncr3 is_clean c t) [0..<noir_svm_maximum_clean_state_bits] m"

definition nvc_svm_switch_to_nested_vcpu :: "host_env \<Rightarrow> nat \<Rightarrow> 'c host_world \<Rightarrow> 'c host_world" where
  "nvc_svm_switch_to_nested_vcpu e n s =
     (let nd = node_pool (hw_nested s) n; t = vmcb_t nd; c = vmcb_c nd;
          m1 = nested_entry_pages (he_primary_ncr3 e) (node_clean nd) c t (hw_pages s);
          masked = bit (vmread64 (m1 t) avic_control) nvc_svm_avic_control_vintr_mask;
          s1 = (if masked then s\<lparr>hw_if := vmcb_bt32 (m1 (hw_vmcb s)) guest_rflags amd64_rflags_if\<rparr> else s);
          s2 = s1\<lparr>hw_pages := copy_fields t c always_fields m1\<rparr>;
          s3 = on_nested (\<lambda>h. h\<lparr>node_pool := (node_pool h)(n := nd\<lparr>node_clean := True\<rparr>)\<rparr>) s2
      in s3\<lparr>hw_nested_vcpu := n, hw_guest_vmcb_pa := t\<rparr>)"

section \<open>Leaving a nested guest\<close>

definition exit_information :: "field list" where
  "exit_information = [B64 exit_code, B64 exit_info1, B64 exit_info2, B64 exit_interrupt_info, B64 next_rip,
     B8 number_of_bytes_fetched] @ map (\<lambda>i. B8 (guest_instruction_bytes + i)) [0..<15]"

text \<open>The base of the GDT is copied twice, the base of the IDT never.\<close>

definition saved_fields :: "field list" where
  "saved_fields = [B64 avic_control, B64 guest_interrupt] @
     segment_fields guest_es_selector @ segment_fields guest_cs_selector @ segment_fields guest_ss_selector @
     segment_fields guest_ds_selector @
     [B16 guest_gdtr_limit, B64 guest_gdtr_base, B16 guest_idtr_limit, B64 guest_gdtr_base,
      B8 guest_cpl, B64 guest_efer, B64 guest_cr4, B64 guest_cr3, B64 guest_cr0, B64 guest_dr7, B64 guest_dr6,
      B64 guest_rflags, B64 guest_rip, B64 guest_rsp, B64 guest_s_cet, B64 guest_ssp, B64 guest_isst, B64 guest_rax,
      B64 guest_cr2]"

text \<open>What \<open>vmload\<close> and \<open>vmsave\<close> cover, in the order of the exit and in that of \<open>nvc_svm_vmsl_helper\<close>.\<close>

definition vmload_fields :: "field list" where
  "vmload_fields = segment_fields guest_fs_selector @ segment_fields guest_gs_selector @
     segment_fields guest_tr_selector @ segment_fields guest_ldtr_selector @
     [B64 guest_sysenter_cs, B64 guest_sysenter_esp, B64 guest_sysenter_eip, B64 guest_star, B64 guest_lstar,
      B64 guest_cstar, B64 guest_sfmask, B64 guest_kernel_gs_base]"

definition nvc_svm_switch_from_nested_vcpu :: "'c host_world \<Rightarrow> 'c host_world" where
  "nvc_svm_switch_from_nested_vcpu s =
     (let nd = node_pool (hw_nested s) (hw_nested_vcpu s); t = vmcb_t nd; c = vmcb_c nd; l1 = hw_vmcb s;
          m1 = copy_fields c t (exit_information @ saved_fields) (hw_pages s);
          m2 = (if vmcb_bt32 (m1 t) npt_control nvc_svm_npt_control_npt then copy_fields c t [B64 guest_pat] m1 else m1);
          m3 = (if vmcb_bt32 (m2 t) lbr_virtualization_control nvc_svm_lbr_virt_control_lbr
                then copy_fields c t lbr_fields m2 else m2);
          m4 = copy_fields l1 t vmload_fields m3;
          m5 = on_page l1 (\<lambda>b. vmcb_btr32 b guest_rflags amd64_rflags_if) m4
      in s\<lparr>hw_pages := m5, hw_guest_vmcb_pa := hw_vmcb s\<rparr>)"

section \<open>The pool of nested control blocks\<close>

text \<open>The address of a control block is hashed to 4 bits.\<close>

definition nested_hash :: "u64 \<Rightarrow> u8" where
  "nested_hash pa = foldl (\<lambda>h i. h XOR (ucast (drop_bit i pa) AND 0xF)) 0xC [12, 16, 20, 24, 28, 32, 36, 40, 44, 48, 52, 56, 60]"

definition nvc_svm_get_nested_vcpu_node :: "u64 \<Rightarrow> nat" where
  "nvc_svm_get_nested_vcpu_node pa = unat (nested_hash pa)"

section \<open>The emulated global interrupt flag\<close>

text \<open>Defined in the source and not called there.\<close>

definition nvc_svm_clear_nested_gif :: "'c host_world \<Rightarrow> 'c host_world" where
  "nvc_svm_clear_nested_gif s =
     (let s1 = on_host_vmcb (\<lambda>b. vmcb_bts32 b avic_control nvc_svm_avic_control_vintr_mask) s;
          s2 = on_host_vmcb (\<lambda>b. vmwrite8 b avic_control (ucast (hw_cr8 s1))) s1
      in (on_host_vmcb (clean noir_svm_clean_tpr) s2)\<lparr>hw_if := False\<rparr>)"

definition nvc_svm_set_nested_gif :: "'c host_world \<Rightarrow> 'c host_world" where
  "nvc_svm_set_nested_gif s =
     (let s1 = on_host_vmcb (\<lambda>b. vmcb_btr32 b avic_control nvc_svm_avic_control_vintr_mask) s;
          s2 = s1\<lparr>hw_cr8 := ucast (vmread8 (host_vmcb s1) avic_control)\<rparr>
      in on_host_vmcb (clean noir_svm_clean_tpr) s2)"

end
