(* ===== verification/Mshv.thy ===== *)
theory Mshv
  imports Nested
begin

text \<open>
  The interface of the Microsoft hypervisor towards the subverted host (\<open>mshv_core\<close>) and the CPUID
  handlers of the AMD-V core that use it (\<open>svm_core/svm_exit.c\<close>). Log messages are left out.
\<close>

section \<open>Prevention of non-privileged instructions\<close>

definition amd64_cr4_umip :: nat where "amd64_cr4_umip = 11"
definition noir_mshv_npiep_prevent_sgdt :: nat where "noir_mshv_npiep_prevent_sgdt = 0"
definition noir_mshv_npiep_prevent_sidt :: nat where "noir_mshv_npiep_prevent_sidt = 1"
definition noir_mshv_npiep_prevent_sldt :: nat where "noir_mshv_npiep_prevent_sldt = 2"
definition noir_mshv_npiep_prevent_str :: nat where "noir_mshv_npiep_prevent_str = 3"

lemmas npiep_constants = amd64_cr4_umip_def noir_mshv_npiep_prevent_sgdt_def noir_mshv_npiep_prevent_sidt_def
  noir_mshv_npiep_prevent_sldt_def noir_mshv_npiep_prevent_str_def

definition nvc_svm_reconfigure_npiep_interceptions :: "'c host_world \<Rightarrow> 'c host_world" where
  "nvc_svm_reconfigure_npiep_interceptions s =
     (let put = bf_put nvc_svm_instruction_intercept1;
          cfg = npiep_config (hw_mshv s);
          umip = bit (vmread64 (host_vmcb s) guest_cr4) amd64_cr4_umip;
          on = (\<lambda>n. of_flag (\<not> umip \<and> bit cfg n));
          list1 = vmread32 (host_vmcb s) intercept_instruction1;
          list2 = put ''intercept_str'' (on noir_mshv_npiep_prevent_str)
                   (put ''intercept_sldt'' (on noir_mshv_npiep_prevent_sldt)
                     (put ''intercept_sgdt'' (on noir_mshv_npiep_prevent_sgdt)
                       (put ''intercept_sidt'' (on noir_mshv_npiep_prevent_sidt) list1)))
      in on_host_vmcb (\<lambda>b. clean noir_svm_clean_interception (vmwrite32 b intercept_instruction1 list2)) s)"

section \<open>Synthetic registers\<close>

definition hv_x64_msr_guest_os_id :: u32 where "hv_x64_msr_guest_os_id = 0x40000000"
definition hv_x64_msr_hypercall :: u32 where "hv_x64_msr_hypercall = 0x40000001"
definition hv_x64_msr_vp_index :: u32 where "hv_x64_msr_vp_index = 0x40000002"
definition hv_x64_msr_npiep_config :: u32 where "hv_x64_msr_npiep_config = 0x40000040"
definition hv_x64_msr_eoi :: u32 where "hv_x64_msr_eoi = 0x40000070"
definition hv_x64_msr_icr :: u32 where "hv_x64_msr_icr = 0x40000071"
definition hv_x64_msr_tpr :: u32 where "hv_x64_msr_tpr = 0x40000072"

lemmas hv_x64_msrs = hv_x64_msr_guest_os_id_def hv_x64_msr_hypercall_def hv_x64_msr_vp_index_def
  hv_x64_msr_npiep_config_def hv_x64_msr_eoi_def hv_x64_msr_icr_def hv_x64_msr_tpr_def

definition noir_mshv_msr_hypercall :: bf_layout where
  "noir_mshv_msr_hypercall = [(''enable'', 1), (''locked'', 1), (''reserved'', 10), (''hypercall_gpfn'', 52)]"

definition nvc_mshv_hypercall_code64 :: "u8 list" where
  "nvc_mshv_hypercall_code64 = [0xB8, 0x02, 0x00, 0x00, 0x00, 0xC3]"

definition hypercall_page :: "bytes \<Rightarrow> bytes" where
  "hypercall_page b i = (if i < 6 then nvc_mshv_hypercall_code64 ! i else if i < 4096 then 0 else b i)"

definition nvc_mshv_msr_r40000000_handler :: "bool \<Rightarrow> u64 \<Rightarrow> 'c host_world \<Rightarrow> u64 \<times> 'c host_world" where
  "nvc_mshv_msr_r40000000_handler wrt val s =
     (let s1 = (if wrt then s\<lparr>hw_guest_os_id := val\<rparr> else s) in (hw_guest_os_id s1, s1))"

text \<open>The exchange is one of 32 bits.\<close>

definition nvc_mshv_msr_r40000001_handler :: "bool \<Rightarrow> u64 \<Rightarrow> 'c host_world \<Rightarrow> u64 \<times> 'c host_world" where
  "nvc_mshv_msr_r40000001_handler wrt val s =
     (let s1 =
        (if wrt \<and> hw_guest_os_id s \<noteq> 0 \<and> \<not> bf_flag noir_mshv_msr_hypercall ''locked'' val then
           (let s2 = s\<lparr>hw_hypercall_ctrl := push_bit 32 (drop_bit 32 (hw_hypercall_ctrl s)) OR take_bit 32 val\<rparr>
            in if bf_flag noir_mshv_msr_hypercall ''enable'' val
               then s2\<lparr>hw_pages := on_page (push_bit 12 (bf_get noir_mshv_msr_hypercall ''hypercall_gpfn'' val)) hypercall_page (hw_pages s2)\<rparr>
               else s2)
         else s)
      in (hw_hypercall_ctrl s1, s1))"

definition nvc_mshv_msr_r40000002_handler :: "bool \<Rightarrow> u64 \<Rightarrow> 'c host_world \<Rightarrow> u64 \<times> 'c host_world" where
  "nvc_mshv_msr_r40000002_handler wrt val s = (vp_index (hw_mshv s), s)"

definition nvc_mshv_msr_r40000040_handler :: "host_env \<Rightarrow> bool \<Rightarrow> u64 \<Rightarrow> 'c host_world \<Rightarrow> u64 \<times> 'c host_world" where
  "nvc_mshv_msr_r40000040_handler e wrt val s =
     (let s1 =
        (if wrt then
           (let s2 = s\<lparr>hw_mshv := (hw_mshv s)\<lparr>npiep_config := val\<rparr>\<rparr>
            in if he_svm_core e then nvc_svm_reconfigure_npiep_interceptions s2 else s2)
         else s)
      in (npiep_config (hw_mshv s1), s1))"

definition nvc_mshv_rdmsr_handler :: "host_env \<Rightarrow> u32 \<Rightarrow> 'c host_world \<Rightarrow> u64 \<times> 'c host_world" where
  "nvc_mshv_rdmsr_handler e index s =
     (if index = hv_x64_msr_guest_os_id then nvc_mshv_msr_r40000000_handler False 0 s
      else if index = hv_x64_msr_hypercall then nvc_mshv_msr_r40000001_handler False 0 s
      else if index = hv_x64_msr_vp_index then nvc_mshv_msr_r40000002_handler False 0 s
      else if index = hv_x64_msr_npiep_config then nvc_mshv_msr_r40000040_handler e False 0 s
      else (0, s))"

definition nvc_mshv_wrmsr_handler :: "host_env \<Rightarrow> u32 \<Rightarrow> u64 \<Rightarrow> 'c host_world \<Rightarrow> 'c host_world" where
  "nvc_mshv_wrmsr_handler e index val s =
     (if index = hv_x64_msr_guest_os_id then snd (nvc_mshv_msr_r40000000_handler True val s)
      else if index = hv_x64_msr_hypercall then snd (nvc_mshv_msr_r40000001_handler True val s)
      else if index = hv_x64_msr_vp_index then snd (nvc_mshv_msr_r40000002_handler True val s)
      else if index = hv_x64_msr_npiep_config then snd (nvc_mshv_msr_r40000040_handler e True val s)
      else s)"

section \<open>CPUID leaves of the hypervisor\<close>

definition hvm_cpuid_base :: u32 where "hvm_cpuid_base = 0x40000000"
definition hvm_cpuid_implementation_limits :: u32 where "hvm_cpuid_implementation_limits = 0x40000005"

definition chars32 :: "string \<Rightarrow> u32" where
  "chars32 cs = foldr (\<lambda>c v. push_bit 8 v OR of_char c) cs 0"

definition no_leaf :: cpuid_regs where
  "no_leaf = \<lparr>cpuid_eax = 0, cpuid_ebx = 0, cpuid_ecx = 0, cpuid_edx = 0\<rparr>"

definition mshv_feature1 :: bf_layout where
  "mshv_feature1 =
     [(''access_vp_runtime_msr'', 1), (''access_partition_ref_counter'', 1), (''access_synic_msrs'', 1),
      (''access_synthetic_timer_msrs'', 1), (''access_apic_msrs'', 1), (''access_hypercall_msrs'', 1),
      (''access_vp_index'', 1), (''access_reset_msr'', 1), (''access_stats_msr'', 1), (''access_partition_ref_tsc'', 1),
      (''access_guest_idle_msr'', 1), (''access_frequency_msrs'', 1), (''reserved'', 20)]"

definition nvc_mshv_cpuid_fn40000000_handler :: cpuid_regs where
  "nvc_mshv_cpuid_fn40000000_handler =
     \<lparr>cpuid_eax = hvm_cpuid_implementation_limits, cpuid_ebx = chars32 ''Noir'', cpuid_ecx = chars32 ''Viso'',
      cpuid_edx = chars32 ''r ZT''\<rparr>"

definition nvc_mshv_cpuid_fn40000001_handler :: cpuid_regs where
  "nvc_mshv_cpuid_fn40000001_handler = no_leaf\<lparr>cpuid_eax := chars32 ''Hv#1''\<rparr>"

definition nvc_mshv_cpuid_fn40000002_handler :: cpuid_regs where "nvc_mshv_cpuid_fn40000002_handler = no_leaf"

definition nvc_mshv_cpuid_fn40000003_handler :: cpuid_regs where
  "nvc_mshv_cpuid_fn40000003_handler =
     no_leaf\<lparr>cpuid_eax := bf_put mshv_feature1 ''access_vp_index'' 1 (bf_put mshv_feature1 ''access_hypercall_msrs'' 1 0)\<rparr>"

definition nvc_mshv_cpuid_fn40000004_handler :: cpuid_regs where "nvc_mshv_cpuid_fn40000004_handler = no_leaf"
definition nvc_mshv_cpuid_fn40000005_handler :: cpuid_regs where "nvc_mshv_cpuid_fn40000005_handler = no_leaf"

definition hvm_cpuid_handlers :: "cpuid_regs list" where
  "hvm_cpuid_handlers =
     [nvc_mshv_cpuid_fn40000000_handler, nvc_mshv_cpuid_fn40000001_handler, nvc_mshv_cpuid_fn40000002_handler,
      nvc_mshv_cpuid_fn40000003_handler, nvc_mshv_cpuid_fn40000004_handler, nvc_mshv_cpuid_fn40000005_handler]"

text \<open>The result is the length of the table, or 0 when it cannot be allocated.\<close>

definition nvc_mshv_build_cpuid_handlers :: "bool \<Rightarrow> u32 \<times> cpuid_regs list option" where
  "nvc_mshv_build_cpuid_handlers allocated =
     (if allocated then (hvm_cpuid_implementation_limits - hvm_cpuid_base + 1, Some hvm_cpuid_handlers) else (0, None))"

definition nvc_mshv_teardown_cpuid_handlers :: "cpuid_regs list option \<Rightarrow> cpuid_regs list option" where
  "nvc_mshv_teardown_cpuid_handlers handlers = None"

section \<open>CPUID of the subverted host\<close>

definition hvm_leaf_index :: u32 where "hvm_leaf_index = 1"
definition noir_cpuid_class :: "u32 \<Rightarrow> u32" where "noir_cpuid_class x = drop_bit 30 x"
definition noir_cpuid_index :: "u32 \<Rightarrow> u32" where "noir_cpuid_index x = x AND 0x3FFFFFFF"
definition amd64_cpuid_std_proc_feature :: u32 where "amd64_cpuid_std_proc_feature = 1"
definition amd64_cpuid_ext_proc_feature :: u32 where "amd64_cpuid_ext_proc_feature = 0x80000001"
definition amd64_cpuid_ext_svm_features :: u32 where "amd64_cpuid_ext_svm_features = 0x8000000A"
definition amd64_cpuid_ext_mem_crypting :: u32 where "amd64_cpuid_ext_mem_crypting = 0x8000001F"
definition amd64_cpuid_svm :: nat where "amd64_cpuid_svm = 2"
definition amd64_cpuid_hv_presence :: nat where "amd64_cpuid_hv_presence = 31"
definition amd64_cpuid_npt :: nat where "amd64_cpuid_npt = 0"
definition amd64_cpuid_nrips :: nat where "amd64_cpuid_nrips = 3"
definition amd64_cpuid_vmcb_clean :: nat where "amd64_cpuid_vmcb_clean = 5"
definition amd64_cpuid_flush_asid :: nat where "amd64_cpuid_flush_asid = 6"
definition amd64_cpuid_decoder :: nat where "amd64_cpuid_decoder = 7"

lemmas cpuid_constants = hvm_leaf_index_def noir_cpuid_class_def noir_cpuid_index_def
  amd64_cpuid_std_proc_feature_def amd64_cpuid_ext_proc_feature_def amd64_cpuid_ext_svm_features_def
  amd64_cpuid_ext_mem_crypting_def amd64_cpuid_svm_def amd64_cpuid_hv_presence_def amd64_cpuid_npt_def
  amd64_cpuid_nrips_def amd64_cpuid_vmcb_clean_def amd64_cpuid_flush_asid_def amd64_cpuid_decoder_def

definition nvc_svm_cpuid_nested_virtualization_handler :: "host_env \<Rightarrow> cpuid_regs \<Rightarrow> cpuid_regs" where
  "nvc_svm_cpuid_nested_virtualization_handler e i =
     (if \<not> he_nested_virtualization e then no_leaf
      else
        (let d = foldl (\<lambda>d n. set_bit n d) 0 [amd64_cpuid_npt, amd64_cpuid_nrips, amd64_cpuid_vmcb_clean,
                   amd64_cpuid_flush_asid, amd64_cpuid_decoder]
         in i\<lparr>cpuid_eax := 0, cpuid_ebx := he_tlb_tagging_start e - 2, cpuid_edx := d AND cpuid_edx i\<rparr>))"

text \<open>\<open>None\<close>: the parameter instead of the structure is overwritten, with what follows it on the stack.\<close>

definition nvc_svm_cpuid_hvp_handler :: "host_env \<Rightarrow> u32 \<Rightarrow> u32 \<Rightarrow> cpuid_regs option" where
  "nvc_svm_cpuid_hvp_handler e leaf subleaf =
     (if noir_cpuid_class leaf = hvm_leaf_index then
        (if noir_cpuid_index leaf < he_cpuid_leaf_max e then nth_opt hvm_cpuid_handlers (unat (noir_cpuid_index leaf))
         else None)
      else
        (let i = he_cpuid e leaf subleaf in
         Some (if leaf = amd64_cpuid_std_proc_feature then i\<lparr>cpuid_ecx := set_bit amd64_cpuid_hv_presence (cpuid_ecx i)\<rparr>
               else if leaf = amd64_cpuid_ext_proc_feature then
                 (if he_nested_virtualization e then i else i\<lparr>cpuid_ecx := unset_bit amd64_cpuid_svm (cpuid_ecx i)\<rparr>)
               else if leaf = amd64_cpuid_ext_svm_features then nvc_svm_cpuid_nested_virtualization_handler e i
               else if leaf = amd64_cpuid_ext_mem_crypting then no_leaf
               else i)))"

definition nvc_svm_cpuid_hvs_handler :: "host_env \<Rightarrow> u32 \<Rightarrow> u32 \<Rightarrow> cpuid_regs option" where
  "nvc_svm_cpuid_hvs_handler e leaf subleaf =
     (let i = he_cpuid e leaf subleaf in
      if leaf = amd64_cpuid_ext_proc_feature then Some i
      else if leaf = amd64_cpuid_ext_svm_features then Some (nvc_svm_cpuid_nested_virtualization_handler e i)
      else if leaf = amd64_cpuid_ext_mem_crypting then None
      else Some i)"

definition nvcp_svm_cpuid_handler :: "host_env \<Rightarrow> u32 \<Rightarrow> u32 \<Rightarrow> cpuid_regs option" where
  "nvcp_svm_cpuid_handler e = (if he_present_handler e then nvc_svm_cpuid_hvp_handler e else nvc_svm_cpuid_hvs_handler e)"

definition nvc_svm_set_mshv_handler :: "bool \<Rightarrow> host_env \<Rightarrow> host_env" where
  "nvc_svm_set_mshv_handler option e = e\<lparr>he_present_handler := option\<rparr>"

end
