(* ===== verification/Host_Exit.thy ===== *)
theory Host_Exit
  imports Mshv Cv_Exit
begin

text \<open>
  The exits of the subverted host on AMD-V (\<open>svm_core/svm_exit.c\<close>). A handler is a function on the
  state of the processor; \<open>None\<close> is an access through a null pointer, a call past a table, a write
  over the stack or a wait that never ends. Log messages are left out, and the decoders do nothing on
  processors that assist the decoding and save the next instruction pointer.
\<close>

type_synonym 'c host_handler = "host_env \<Rightarrow> 'c host_world \<Rightarrow> 'c host_world option"

section \<open>Constants\<close>

definition amd64_cr4_pse :: nat where "amd64_cr4_pse = 4"
definition amd64_cr4_pge :: nat where "amd64_cr4_pge = 7"
definition amd64_cr4_pcide :: nat where "amd64_cr4_pcide = 17"
definition amd64_cr4_pke :: nat where "amd64_cr4_pke = 22"
definition amd64_dr6_bd :: nat where "amd64_dr6_bd = 13"
definition amd64_dr6_bs :: nat where "amd64_dr6_bs = 14"
definition amd64_dr6_bt :: nat where "amd64_dr6_bt = 15"
definition amd64_exception_has_error_code_mask :: u32 where "amd64_exception_has_error_code_mask = 0x60227D00"
definition amd64_vmcr :: u32 where "amd64_vmcr = 0xC0010114"
definition amd64_hsave_pa :: u32 where "amd64_hsave_pa = 0xC0010117"
definition amd64_lstar :: u32 where "amd64_lstar = 0xC0000082"
definition amd64_efer :: u32 where "amd64_efer = 0xC0000080"
definition amd64_vmcr_r_init :: nat where "amd64_vmcr_r_init = 1"
definition nvc_svm_tlb_control_flush_non_global :: u8 where "nvc_svm_tlb_control_flush_non_global = 7"

lemmas host_constants = amd64_cr4_pse_def amd64_cr4_pge_def amd64_cr4_pcide_def amd64_cr4_pke_def amd64_dr6_bd_def
  amd64_dr6_bs_def amd64_dr6_bt_def amd64_exception_has_error_code_mask_def amd64_vmcr_def amd64_hsave_pa_def
  amd64_lstar_def amd64_efer_def amd64_vmcr_r_init_def nvc_svm_tlb_control_flush_non_global_def

section \<open>Helpers\<close>

definition inject :: "nat \<Rightarrow> bool \<Rightarrow> bool \<Rightarrow> u32 \<Rightarrow> 'c host_world \<Rightarrow> 'c host_world" where
  "inject vector ev v ec = on_host_vmcb (\<lambda>b. noir_svm_inject_event b vector amd64_fault_trap_exception ev v ec)"

definition inject_gp :: "'c host_world \<Rightarrow> 'c host_world" where "inject_gp = inject amd64_general_protection True True 0"
definition inject_host_ud :: "'c host_world \<Rightarrow> 'c host_world" where "inject_host_ud = inject amd64_invalid_opcode False True 0"

definition advance_rip :: "'c host_world \<Rightarrow> 'c host_world" where "advance_rip = on_host_vmcb noir_svm_advance_rip"

definition on_host_frame :: "((nat \<Rightarrow> u64) \<Rightarrow> nat \<Rightarrow> u64) \<Rightarrow> 'c host_world \<Rightarrow> 'c host_world" where
  "on_host_frame f s = s\<lparr>hw_frame := f (hw_frame s)\<rparr>"

text \<open>An instruction that faults in nested paging is skipped by its length.\<close>

definition skip_instruction :: "host_env \<Rightarrow> 'c host_world \<Rightarrow> 'c host_world" where
  "skip_instruction e s =
     (let b = host_vmcb s; long_mode = vmcb_bt32 b guest_cs_attrib 9;
          gip = vmread64 b guest_rip + ucast (he_instruction_length e (\<lambda>i. b (guest_instruction_bytes + i)) long_mode)
      in on_host_vmcb (\<lambda>b. vmwrite64 b guest_rip (if long_mode then gip else gip AND 0xffffffff)) s)"

section \<open>Invalid states and control registers\<close>

definition nvc_svm_default_handler :: "'c host_handler" where "nvc_svm_default_handler e s = Some (host_int3 s)"

definition nvc_svm_invalid_guest_state :: "'c host_handler" where
  "nvc_svm_invalid_guest_state e s =
     (let f = hw_fallback s in
      if fb_valid f then
        (if 8 < fb_field_size f then None
         else
           (let s1 = on_host_vmcb (\<lambda>b. vmwrite64 (vmwrite64 (wr (fb_field_size f) b (unat (fb_offset f)) (fb_value f))
                        guest_rip (fb_rip f)) event_injection (fb_fault_info f)) s
            in Some (s1\<lparr>hw_fallback := f\<lparr>fb_valid := False\<rparr>\<rparr>)))
      else Some (host_int3 s))"

text \<open>When the translations of the guest must be flushed.\<close>

definition cr4_flush :: "u64 \<Rightarrow> u64 \<Rightarrow> bool" where
  "cr4_flush old new \<longleftrightarrow>
     bit new amd64_cr4_pae \<noteq> bit old amd64_cr4_pae \<or> bit new amd64_cr4_pse \<noteq> bit old amd64_cr4_pse \<or>
     bit new amd64_cr4_pge \<noteq> bit old amd64_cr4_pge \<or> (bit new amd64_cr4_pke \<and> \<not> bit old amd64_cr4_pke) \<or>
     (\<not> bit new amd64_cr4_pcide \<and> bit old amd64_cr4_pcide)"

definition nvc_svm_cr4_write_handler :: "'c host_handler" where
  "nvc_svm_cr4_write_handler e s =
     (let old = vmread64 (host_vmcb s) guest_cr4;
          new = hw_frame s (unat (bf_get nvc_svm_cr_access_exit_info ''gpr'' (vmread64 (host_vmcb s) exit_info1)));
          s1 = on_host_vmcb (\<lambda>b. vmwrite64 b guest_cr4 new) s;
          s2 = (if bit old amd64_cr4_umip \<noteq> bit new amd64_cr4_umip then nvc_svm_reconfigure_npiep_interceptions s1 else s1);
          s3 = on_host_vmcb (clean noir_svm_clean_control_reg) s2;
          s4 = (if cr4_flush old new then on_host_vmcb (\<lambda>b. vmwrite8 b tlb_control nvc_svm_tlb_control_flush_guest) s3 else s3)
      in Some (advance_rip (if new \<noteq> old then s4 else s)))"

section \<open>Exceptions\<close>

definition nvc_svm_db_exception_handler :: "'c host_handler" where
  "nvc_svm_db_exception_handler e s =
     (let n = hw_nested s; b = host_vmcb s in
      Some (if \<not> nested_gif n \<and> nested_svme n then
              (if vmcb_bt32 b guest_dr6 amd64_dr6_bs then on_nested (\<lambda>n. n\<lparr>pending_db := True\<rparr>) s
               else if vmcb_bt32 b guest_dr6 amd64_dr6_bd \<or> vmcb_bt32 b guest_dr6 amd64_dr6_bt
               then inject amd64_debug_exception False True 0 s
               else s)
            else s))"

definition nvc_svm_ud_exception_handler :: "'c host_handler" where
  "nvc_svm_ud_exception_handler e s =
     (let s1 = s\<lparr>hw_cr3 := he_process_cr3 e\<rparr> in Some (s1\<lparr>hw_cr3 := he_host_cr3 e\<rparr>))"

definition nvc_svm_pf_exception_handler :: "'c host_handler" where
  "nvc_svm_pf_exception_handler e s =
     (let b = host_vmcb s; fault_address = vmread64 b exit_info2 in
      Some (if fault_address = he_system_call e then
              on_host_vmcb (\<lambda>b. vmwrite8 (clean noir_svm_clean_control_reg (vmwrite64 b guest_cr3 (he_process_cr3 e)))
                tlb_control nvc_svm_tlb_control_flush_non_global) s
            else
              (let s1 = on_host_vmcb (\<lambda>b. vmwrite64 b guest_cr2 fault_address) s
               in on_host_vmcb (clean noir_svm_clean_cr2) (inject amd64_page_fault True True (vmread32 b exit_info1) s1))))"

definition nvc_svm_mc_exception_handler :: "'c host_handler" where
  "nvc_svm_mc_exception_handler e s =
     Some (if \<not> nested_gif (hw_nested s) then on_nested (\<lambda>n. n\<lparr>pending_mc := True\<rparr>) s else s)"

text \<open>The wait for the start-up signal ends when another processor has sent one. Shifting the vector of
  8 bits by 8 leaves a selector of 16 bits.\<close>

definition nvc_svm_sx_exception_handler :: "'c host_handler" where
  "nvc_svm_sx_exception_handler e s =
     (let ec = vmread32 (host_vmcb s) exit_info1 in
      if ec = amd64_sx_init_redirection then
        (if nested_gif (hw_nested s) then Some (on_nested (\<lambda>n. n\<lparr>pending_init := True\<rparr>) s)
         else if r_init (hw_nested s) then Some (inject amd64_security_exception True True amd64_sx_init_redirection s)
         else
           (let s1 = (on_host_vmcb init_signal_vmcb s)
                  \<lparr>hw_frame := init_signal_frame (he_cpuid_fms e) (hw_frame s), hw_dr := init_signal_dr (hw_dr s)\<rparr>
            in case hw_sipi s1 of
                 None \<Rightarrow> None
               | Some v \<Rightarrow>
                   Some (on_host_vmcb (\<lambda>b. vmwrite64 (vmwrite64 (vmwrite16 b guest_cs_selector (push_bit 8 (ucast v)))
                           guest_cs_base (push_bit 12 (ucast v))) guest_rip 0) (s1\<lparr>hw_sipi := None\<rparr>))))
      else Some (inject amd64_security_exception True True ec s))"

definition nvc_svm_exception_handler :: "'c host_handler" where
  "nvc_svm_exception_handler e s =
     (let vector = vmread64 (host_vmcb s) exit_code - 0x40; ec = vmread32 (host_vmcb s) exit_info1 in
      Some (inject (unat (take_bit 8 vector)) (bit amd64_exception_has_error_code_mask (unat vector)) True ec s))"

definition nvc_svm_nmi_handler :: "'c host_handler" where
  "nvc_svm_nmi_handler e s = Some (on_nested (\<lambda>n. n\<lparr>pending_nmi := True\<rparr>) s)"

section \<open>Reading the descriptor tables\<close>

text \<open>
  The operand is not decoded yet: the result stays 0 and success is reported. The copy of the registers
  that the decoder gets is left out.
\<close>

definition nvc_svm_parse_npiep_operand :: "bool \<times> u64" where
  "nvc_svm_parse_npiep_operand = (True, 0)"

text \<open>An operand in a register.\<close>

definition npiep_to_register :: "nat \<Rightarrow> u64 \<Rightarrow> 'c host_world \<Rightarrow> 'c host_world" where
  "npiep_to_register field result s =
     (let v = vmread16 (host_vmcb s) field;
          operand_size = ucast (drop_bit 30 result) :: u8;
          r = unat (ucast (result AND 0xf) :: u8)
      in if r = 4 then
           on_host_vmcb (\<lambda>b. if operand_size = 1 then vmwrite16 b guest_rsp v
             else if operand_size = 2 then vmwrite32 b guest_rsp (ucast v) else vmwrite64 b guest_rsp (ucast v)) s
         else
           on_host_frame (\<lambda>f. f(r := (let x = (if operand_size = 2 then set_low32 (f r) 0 else if operand_size = 3 then 0 else f r)
              in push_bit 16 (drop_bit 16 x) OR ucast v))) s)"

text \<open>An operand in memory is written when the instruction runs at level 0 or when its prevention is
  configured. The pointer is the result of the decoder, which is 0.\<close>

definition npiep_handler :: "nat \<Rightarrow> (u64 \<Rightarrow> 'c host_world \<Rightarrow> 'c host_world) \<Rightarrow> 'c host_handler" where
  "npiep_handler prevent to_register e s =
     (let superv_instruction = vmread8 (host_vmcb s) guest_cpl = 0;
          s1 = (if superv_instruction then s else s\<lparr>hw_cr3 := he_process_cr3 e\<rparr>)
      in if fst nvc_svm_parse_npiep_operand then
           (if superv_instruction \<or> bit (npiep_config (hw_mshv s1)) prevent then None else Some (advance_rip s1))
         else Some (advance_rip (to_register (snd nvc_svm_parse_npiep_operand) s1)))"

definition nvc_svm_sidt_handler :: "'c host_handler" where
  "nvc_svm_sidt_handler = npiep_handler noir_mshv_npiep_prevent_sidt (\<lambda>_ s. s)"
definition nvc_svm_sgdt_handler :: "'c host_handler" where
  "nvc_svm_sgdt_handler = npiep_handler noir_mshv_npiep_prevent_sgdt (\<lambda>_ s. s)"

text \<open>Both test the bit of SGDT.\<close>

definition nvc_svm_sldt_handler :: "'c host_handler" where
  "nvc_svm_sldt_handler = npiep_handler noir_mshv_npiep_prevent_sgdt (npiep_to_register guest_ldtr_selector)"
definition nvc_svm_str_handler :: "'c host_handler" where
  "nvc_svm_str_handler = npiep_handler noir_mshv_npiep_prevent_sgdt (npiep_to_register guest_tr_selector)"

section \<open>Instructions\<close>

text \<open>Only the low halves of the registers are written.\<close>

definition nvc_svm_cpuid_handler :: "'c host_handler" where
  "nvc_svm_cpuid_handler e s =
     (case nvcp_svm_cpuid_handler e (ucast (hw_frame s 0)) (ucast (hw_frame s 1)) of
        None \<Rightarrow> None
      | Some i \<Rightarrow>
          Some (advance_rip (on_host_frame (\<lambda>f. f(0 := set_low32 (f 0) (cpuid_eax i), 3 := set_low32 (f 3) (cpuid_ebx i),
            1 := set_low32 (f 1) (cpuid_ecx i), 2 := set_low32 (f 2) (cpuid_edx i))) s)))"

definition nvc_svm_invlpga_handler :: "'c host_handler" where
  "nvc_svm_invlpga_handler e s =
     Some (if nested_svme (hw_nested s) then
             (let asid = ucast (hw_frame s 1) :: u32 in
              advance_rip (if 0 < asid \<and> asid < he_tlb_tagging_start e - 2
                then s\<lparr>hw_invlpga := (hw_frame s 0, asid + 1) # hw_invlpga s\<rparr> else s))
           else inject_host_ud s)"

text \<open>The hooks for port I/O are not implemented.\<close>

definition nvc_svm_io_handler :: "'c host_handler" where "nvc_svm_io_handler e s = Some s"

definition nvc_svm_shutdown_handler :: "'c host_handler" where "nvc_svm_shutdown_handler e s = Some (host_int3 s)"

section \<open>Model-specific registers\<close>

definition noir_is_synthetic_msr :: "u32 \<Rightarrow> bool" where "noir_is_synthetic_msr i \<longleftrightarrow> drop_bit 30 i = 1"

definition write_event :: "'c host_world \<Rightarrow> 'c host_world" where
  "write_event s = on_host_vmcb (\<lambda>b. vmwrite64 b event_injection (mshv_event (hw_mshv s))) s"

definition clear_event :: "'c host_world \<Rightarrow> 'c host_world" where
  "clear_event s = s\<lparr>hw_mshv := (hw_mshv s)\<lparr>mshv_event := 0\<rparr>\<rparr>"

definition read_synthetic_msr :: "host_env \<Rightarrow> u32 \<Rightarrow> 'c host_world \<Rightarrow> u64 \<times> 'c host_world" where
  "read_synthetic_msr e index s =
     (if \<not> he_hv_presence e then (0, inject_gp s)
      else if index = hv_x64_msr_eoi then (0, inject_gp s)
      else if index = hv_x64_msr_icr then (synic_icr (hw_mshv s), s)
      else if index = hv_x64_msr_tpr then (hw_cr8 s, s)
      else (case nvc_mshv_rdmsr_handler e index (clear_event s) of (v, s1) \<Rightarrow> (v, write_event s1)))"

text \<open>Reading the address of the save area assigns the result, which is 0, to it.\<close>

definition read_host_msr :: "host_env \<Rightarrow> u32 \<Rightarrow> 'c host_world \<Rightarrow> u64 \<times> 'c host_world" where
  "read_host_msr e index s =
     (if index = amd64_efer then
        (let v = vmread64 (host_vmcb s) guest_efer
         in (if nested_svme (hw_nested s) then v else v AND NOT amd64_efer_svme_bit, s))
      else if index = amd64_hsave_pa then (0, on_nested (\<lambda>n. n\<lparr>hsave_gpa := 0\<rparr>) s)
      else if index = amd64_lstar then
        (let lstar = vmread64 (host_vmcb s) guest_lstar
         in (if lstar = he_system_call e then he_orig_system_call e else lstar, s))
      else (0, s))"

definition nvc_svm_rdmsr_handler :: "host_env \<Rightarrow> 'c host_world \<Rightarrow> 'c host_world" where
  "nvc_svm_rdmsr_handler e s =
     (let index = ucast (hw_frame s 1) in
      case (if noir_is_synthetic_msr index then read_synthetic_msr e index s else read_host_msr e index s) of
        (v, s1) \<Rightarrow> on_host_frame (\<lambda>f. f(0 := take_bit 32 v, 2 := drop_bit 32 v)) s1)"

definition write_synthetic_msr :: "host_env \<Rightarrow> u32 \<Rightarrow> u64 \<Rightarrow> 'c host_world \<Rightarrow> 'c host_world" where
  "write_synthetic_msr e index v s =
     (if he_hv_presence e then write_event (nvc_mshv_wrmsr_handler e index v (clear_event s)) else inject_gp s)"

definition write_host_msr :: "host_env \<Rightarrow> u32 \<Rightarrow> u64 \<Rightarrow> 'c host_world \<Rightarrow> 'c host_world" where
  "write_host_msr e index v s =
     (if index = amd64_efer then
        (let svme = bit v amd64_efer_svme in
         if svme \<and> \<not> he_nested_virtualization e then inject_gp s
         else on_nested (\<lambda>n. n\<lparr>nested_svme := svme\<rparr>)
                (on_host_vmcb (\<lambda>b. clean noir_svm_clean_control_reg (vmwrite64 b guest_efer (v OR amd64_efer_svme_bit))) s))
      else if index = amd64_vmcr then on_nested (\<lambda>n. n\<lparr>r_init := bit v amd64_vmcr_r_init\<rparr>) s
      else if index = amd64_hsave_pa then
        (if page_4kb_offset v \<noteq> 0 then inject_gp s
         else on_nested (\<lambda>n. n\<lparr>hsave_gpa := v, hsave_hva := he_virt_by_phys e v\<rparr>) s)
      else if index = amd64_lstar then
        on_host_vmcb (\<lambda>b. vmwrite64 b guest_lstar (if v = he_orig_system_call e then he_system_call e else v)) s
      else s)"

definition nvc_svm_wrmsr_handler :: "host_env \<Rightarrow> 'c host_world \<Rightarrow> 'c host_world" where
  "nvc_svm_wrmsr_handler e s =
     (let index = ucast (hw_frame s 1); v = push_bit 32 (hw_frame s 2) OR take_bit 32 (hw_frame s 0) in
      if noir_is_synthetic_msr index then write_synthetic_msr e index v s else write_host_msr e index v s)"

text \<open>The instruction pointer is advanced also when an exception has been injected.\<close>

definition nvc_svm_msr_handler :: "'c host_handler" where
  "nvc_svm_msr_handler e s =
     (let op_write = vmread8 (host_vmcb s) exit_info1 \<noteq> 0 in
      Some (advance_rip (if op_write then nvc_svm_wrmsr_handler e s else nvc_svm_rdmsr_handler e s)))"

section \<open>Instructions of a nested hypervisor\<close>

definition assign_node :: "u64 \<Rightarrow> noir_svm_nested_vcpu_node \<Rightarrow> noir_svm_nested_vcpu_node" where
  "assign_node pa nd = (if vmcb_c nd \<noteq> pa then nd\<lparr>vmcb_c := pa, node_clean := False\<rparr> else nd)"

definition nvc_svm_vmrun_handler :: "'c host_handler" where
  "nvc_svm_vmrun_handler e s =
     (let pa = hw_frame s 0; n = nvc_svm_get_nested_vcpu_node pa in
      Some (if \<not> nested_svme (hw_nested s) then inject_host_ud s
            else if page_4kb_offset pa \<noteq> 0 then inject_gp s
            else advance_rip (nvc_svm_switch_to_nested_vcpu e n
                   (on_nested (\<lambda>h. h\<lparr>node_pool := (node_pool h)(n := assign_node pa (node_pool h n))\<rparr>) s))))"

definition nvc_svm_vmsl_helper :: "u64 \<Rightarrow> u64 \<Rightarrow> pages \<Rightarrow> pages" where
  "nvc_svm_vmsl_helper dest src = copy_fields dest src vmload_fields"

definition nvc_svm_vmload_handler :: "'c host_handler" where
  "nvc_svm_vmload_handler e s =
     (let pa = hw_frame s 0 in
      Some (if \<not> nested_svme (hw_nested s) then inject_host_ud s
            else if page_4kb_offset pa \<noteq> 0 then inject_gp s
            else advance_rip (s\<lparr>hw_pages := fold (\<lambda>i. nvc_svm_vmsl_helper (vmcb_t (node_pool (hw_nested s) i)) pa)
                   [0..<noir_svm_cached_nested_vmcb] (nvc_svm_vmsl_helper (hw_vmcb s) pa (hw_pages s))\<rparr>)))"

definition nvc_svm_vmsave_handler :: "'c host_handler" where
  "nvc_svm_vmsave_handler e s =
     (let pa = hw_frame s 0 in
      Some (if \<not> nested_svme (hw_nested s) then inject_host_ud s
            else if page_4kb_offset pa \<noteq> 0 then inject_gp s
            else advance_rip (s\<lparr>hw_pages := nvc_svm_vmsl_helper pa (hw_vmcb s) (hw_pages s)\<rparr>)))"

definition nvc_svm_stgi_handler :: "'c host_handler" where
  "nvc_svm_stgi_handler e s =
     Some (if nested_svme (hw_nested s) then advance_rip (on_nested (\<lambda>n. n\<lparr>nested_gif := True\<rparr>) s) else inject_host_ud s)"

definition nvc_svm_clgi_handler :: "'c host_handler" where
  "nvc_svm_clgi_handler e s =
     Some (if nested_svme (hw_nested s) then advance_rip (on_nested (\<lambda>n. n\<lparr>nested_gif := False\<rparr>) s) else inject_host_ud s)"

definition nvc_svm_skinit_handler :: "'c host_handler" where "nvc_svm_skinit_handler e s = Some (inject_host_ud s)"

end
