(* ===== verification/Host_Dispatch.thy ===== *)
theory Host_Dispatch
  imports Host_Exit
begin

text \<open>
  Hypercalls, nested page faults and the dispatch of the exits of the subverted host and of nested guests
  (\<open>svm_core/svm_exit.c\<close>, \<open>svm_exit.h\<close>, \<open>svm_nvcpu.c\<close>). What a hypercall does to a customizable
  machine is modelled in the theories of those machines; here it is a function on their state.
\<close>

section \<open>Hypercalls\<close>

definition noir_svm_callexit :: u32 where "noir_svm_callexit = 0x1"
definition noir_svm_call_flush_tlb :: u32 where "noir_svm_call_flush_tlb = 0x2"
definition noir_svm_call_signal_runtime :: u32 where "noir_svm_call_signal_runtime = 0x3"
definition noir_svm_init_custom_vmcb :: u32 where "noir_svm_init_custom_vmcb = 0x10000"
definition noir_svm_run_custom_vcpu :: u32 where "noir_svm_run_custom_vcpu = 0x10001"
definition noir_svm_dump_vcpu_vmcb :: u32 where "noir_svm_dump_vcpu_vmcb = 0x10002"
definition noir_svm_set_vcpu_options :: u32 where "noir_svm_set_vcpu_options = 0x10003"
definition noir_svm_nsv_reassign_rmt :: u32 where "noir_svm_nsv_reassign_rmt = 0x10005"
definition noir_svm_nsv_remap_by_rmt :: u32 where "noir_svm_nsv_remap_by_rmt = 0x10006"
definition noir_svm_nsv_crypto_for_rmt :: u32 where "noir_svm_nsv_crypto_for_rmt = 0x10007"
definition noir_virt_trans :: u8 where "noir_virt_trans = 2"

lemmas hypercalls = noir_svm_callexit_def noir_svm_call_flush_tlb_def noir_svm_call_signal_runtime_def
  noir_svm_init_custom_vmcb_def noir_svm_run_custom_vcpu_def noir_svm_dump_vcpu_vmcb_def noir_svm_set_vcpu_options_def
  noir_svm_nsv_reassign_rmt_def noir_svm_nsv_remap_by_rmt_def noir_svm_nsv_crypto_for_rmt_def

text \<open>The operations take the address of the structure the caller passes.\<close>

record 'c cvm_calls =
  cc_init :: "u64 \<Rightarrow> 'c \<Rightarrow> 'c"
  cc_run :: "u64 \<Rightarrow> 'c host_world \<Rightarrow> 'c host_world"
  cc_dump :: "u64 \<Rightarrow> 'c \<Rightarrow> 'c"
  cc_options :: "u64 \<Rightarrow> 'c \<Rightarrow> 'c"
  cc_reassign :: "u64 \<Rightarrow> 'c \<Rightarrow> 'c"
  cc_remap :: "u64 \<Rightarrow> 'c \<Rightarrow> 'c"
  cc_crypto :: "u64 \<Rightarrow> 'c \<Rightarrow> 'c"
  cc_rmt :: "'c \<Rightarrow> reverse_mapping"

definition on_cvm :: "('c \<Rightarrow> 'c) \<Rightarrow> 'c host_world \<Rightarrow> 'c host_world" where
  "on_cvm f s = s\<lparr>hw_cvm := f (hw_cvm s)\<rparr>"

text \<open>The event is injected without its valid bit.\<close>

definition reject_call :: "'c host_world \<Rightarrow> 'c host_world" where
  "reject_call = inject amd64_invalid_opcode False False 0"

text \<open>Leaving the hypervisor: the processor goes on behind the hypercall, with what the exit saved.\<close>

definition leave_hypervisor :: "host_env \<Rightarrow> 'c host_world \<Rightarrow> 'c host_world" where
  "leave_hypervisor e s =
     (let b = host_vmcb s;
          saved = (hw_frame s)(0 := vmread64 b next_rip, 1 := vmread64 b guest_rflags, 2 := vmread64 b guest_rsp);
          s1 = on_host_vmcb (\<lambda>b. vmwrite64 b guest_lstar (he_orig_system_call e)) s
      in s1\<lparr>hw_status := noir_virt_trans,
            hw_callexit := Some \<lparr>hr_gpr = saved, hr_cr3 = vmread64 b guest_cr3, hr_cr4 = vmread64 b guest_cr4,
              hr_idtr = (vmread16 b guest_idtr_limit, vmread64 b guest_idtr_base),
              hr_gdtr = (vmread16 b guest_gdtr_limit, vmread64 b guest_gdtr_base)\<rparr>\<rparr>)"

definition nvc_svm_vmmcall_handler :: "'c cvm_calls \<Rightarrow> 'c host_handler" where
  "nvc_svm_vmmcall_handler c e s =
     (let func = ucast (hw_frame s 1) :: u32; context = hw_frame s 2;
          gip = vmread64 (host_vmcb s) guest_rip;
          layered = in_image (he_layered_hv_image e) gip;
          advance = advance_rip
      in Some (
        if func = noir_svm_callexit then
          (if in_image (he_hv_image e) gip then leave_hypervisor e s else advance (reject_call s))
        else if func = noir_svm_call_flush_tlb then
          advance (if layered then on_host_vmcb (clean noir_svm_clean_npt) s else reject_call s)
        else if func = noir_svm_call_signal_runtime then advance (reject_call s)
        else if func = noir_svm_init_custom_vmcb then
          advance (if layered then on_cvm (cc_init c context) s else reject_call s)
        else if func = noir_svm_run_custom_vcpu then
          advance (if layered then cc_run c context s else reject_call s)
        else if func = noir_svm_dump_vcpu_vmcb then
          advance (if layered then on_cvm (cc_dump c context) s else reject_call s)
        else if func = noir_svm_set_vcpu_options then
          advance (if layered then on_cvm (cc_options c context) s else s)
        else if func = noir_svm_nsv_reassign_rmt then
          advance (if layered then on_cvm (cc_reassign c context) s else s)
        else if func = noir_svm_nsv_remap_by_rmt then
          advance (if layered then on_cvm (cc_remap c context) s else s)
        else if func = noir_svm_nsv_crypto_for_rmt then
          advance (if layered then on_cvm (cc_crypto c context) s else s)
        else reject_call s))"

section \<open>Nested page faults\<close>

text \<open>A page of NoirVisor, a page of the host, a page of a secure guest, or no memory.\<close>

definition nvc_svm_nested_pf_handler :: "'c cvm_calls \<Rightarrow> 'c host_handler" where
  "nvc_svm_nested_pf_handler c e s =
     (let b = host_vmcb s; gpa = vmread64 b exit_info2; fault = vmread64 b exit_info1; m = cc_rmt c (hw_cvm s) in
      case nvc_get_rmt_entry m gpa of
        None \<Rightarrow> None
      | Some None \<Rightarrow> Some s
      | Some (Some p) \<Rightarrow>
          Option.bind (rmt_deref m p) (\<lambda>entry.
            let asid = bf_get noir_rmt_entry_low ''asid'' (low entry) in
            if asid \<noteq> 1 then Some (skip_instruction e s)
            else if bf_flag amd64_npt_fault_code ''execute'' fault then
              Some (on_host_vmcb (\<lambda>b. vmwrite8 (clean noir_svm_clean_npt
                       (vmwrite64 b npt_cr3 (if he_primary_ncr3 e = vmread64 b npt_cr3 then he_secondary_ncr3 e else he_primary_ncr3 e)))
                     tlb_control nvc_svm_tlb_control_flush_guest) s)
            else
              (case noir_ci_is_ci_phys_page (he_ci e) gpa of
                 None \<Rightarrow> None
               | Some (Some gva) \<Rightarrow> Some (skip_instruction e s)
               | Some None \<Rightarrow>
                   Some (skip_instruction e (host_int3 (on_host_frame (\<lambda>f. f(4 := vmread64 b guest_rsp)) s))))))"

section \<open>Tables of handlers\<close>

definition host_unhandled :: "nat \<Rightarrow> 'c host_handler list" where
  "host_unhandled n = replicate n nvc_svm_default_handler"

definition svm_exit_handler_group1 :: "'c cvm_calls \<Rightarrow> 'c host_handler list" where
  "svm_exit_handler_group1 c =
     host_unhandled 20 @ [nvc_svm_cr4_write_handler] @ host_unhandled 43 @
     [nvc_svm_exception_handler, nvc_svm_db_exception_handler] @ replicate 12 nvc_svm_exception_handler @
     [nvc_svm_pf_exception_handler] @ replicate 3 nvc_svm_exception_handler @ [nvc_svm_mc_exception_handler] @
     replicate 11 nvc_svm_exception_handler @ [nvc_svm_sx_exception_handler, nvc_svm_exception_handler] @
     [nvc_svm_default_handler, nvc_svm_nmi_handler] @ host_unhandled 4 @
     [nvc_svm_sidt_handler, nvc_svm_sgdt_handler, nvc_svm_sldt_handler, nvc_svm_str_handler] @ host_unhandled 8 @
     [nvc_svm_cpuid_handler] @ host_unhandled 7 @
     [nvc_svm_invlpga_handler, nvc_svm_io_handler, nvc_svm_msr_handler] @ host_unhandled 2 @
     [nvc_svm_shutdown_handler, nvc_svm_vmrun_handler, nvc_svm_vmmcall_handler c, nvc_svm_vmload_handler,
      nvc_svm_vmsave_handler, nvc_svm_stgi_handler, nvc_svm_clgi_handler, nvc_svm_skinit_handler] @ host_unhandled 30"

definition svm_exit_handler_group2 :: "'c cvm_calls \<Rightarrow> 'c host_handler list" where
  "svm_exit_handler_group2 c = nvc_svm_nested_pf_handler c # host_unhandled 3"

definition svm_exit_handler_negative :: "'c host_handler list" where
  "svm_exit_handler_negative = nvc_svm_invalid_guest_state # host_unhandled 2"

definition table_entry_of :: "'h list \<Rightarrow> 'h list \<Rightarrow> 'h list \<Rightarrow> u32 \<Rightarrow> 'h option" where
  "table_entry_of group1 group2 negative code =
     (if bit code 31 then nth_opt negative (unat (NOT code))
      else
        (let group = unat (drop_bit 10 (code AND 0xC00)); num = unat (code AND 0x3FF) in
         if group = 0 then nth_opt group1 num else if group = 1 then nth_opt group2 num else None))"

definition svm_exit_handlers :: "'c cvm_calls \<Rightarrow> u32 \<Rightarrow> 'c host_handler option" where
  "svm_exit_handlers c = table_entry_of (svm_exit_handler_group1 c) (svm_exit_handler_group2 c) svm_exit_handler_negative"

section \<open>Exits of nested guests\<close>

definition forward :: "bool \<Rightarrow> 'c host_world \<Rightarrow> 'c host_world" where
  "forward v = on_nested (\<lambda>n. n\<lparr>nested_forward := v\<rparr>)"

definition running_node :: "'c host_world \<Rightarrow> noir_svm_nested_vcpu_node" where
  "running_node s = node_pool (hw_nested s) (hw_nested_vcpu s)"

definition nvc_svm_nvexit_default_handler :: "'c host_handler" where "nvc_svm_nvexit_default_handler e s = Some s"

definition nvc_svm_nvexit_cpuid_handler :: "'c host_handler" where
  "nvc_svm_nvexit_cpuid_handler e s =
     (let nd = running_node s; t = vmcb_t nd;
          intercepted = vmcb_bt32 (hw_pages s (vmcb_c nd)) intercept_instruction1 nvc_svm_intercept_vector1_cpuid;
          s1 = forward intercepted s
      in if intercepted then Some s1
         else
           (case nvcp_svm_cpuid_handler e (vmread32 (hw_pages s t) guest_rax) (ucast (hw_frame s 1)) of
              None \<Rightarrow> None
            | Some i \<Rightarrow>
                Some (on_host_frame (\<lambda>f. f(3 := set_low32 (f 3) (cpuid_ebx i), 1 := set_low32 (f 1) (cpuid_ecx i),
                       2 := set_low32 (f 2) (cpuid_edx i)))
                  (s1\<lparr>hw_pages := on_page t (\<lambda>b. noir_svm_advance_rip (vmwrite32 b guest_rax (cpuid_eax i))) (hw_pages s1)\<rparr>))))"

definition nvc_svm_nvexit_shutdown_handler :: "'c host_handler" where
  "nvc_svm_nvexit_shutdown_handler e s = Some (host_int3 s)"

definition svm_nvexit_handler_group1 :: "'c host_handler list" where
  "svm_nvexit_handler_group1 =
     replicate 114 nvc_svm_nvexit_default_handler @ [nvc_svm_nvexit_cpuid_handler] @
     replicate 12 nvc_svm_nvexit_default_handler @ [nvc_svm_nvexit_shutdown_handler] @
     replicate 37 nvc_svm_nvexit_default_handler"

text \<open>The third negative entry is null.\<close>

definition svm_nvexit_handlers :: "u32 \<Rightarrow> 'c host_handler option" where
  "svm_nvexit_handlers =
     table_entry_of svm_nvexit_handler_group1 (replicate 4 nvc_svm_nvexit_default_handler)
       (replicate 2 nvc_svm_nvexit_default_handler)"

section \<open>An exit\<close>

definition begin_host_exit :: "host_env \<Rightarrow> 'c host_world \<Rightarrow> 'c host_world" where
  "begin_host_exit e s =
     (let s1 = on_host_frame (\<lambda>f. f(0 := vmread64 (host_vmcb s) guest_rax)) s;
          s2 = (if he_caching e then on_host_vmcb (\<lambda>b. vmwrite32 b vmcb_clean_bits 0xffffffff) s1 else s1)
      in on_host_vmcb (\<lambda>b. vmwrite32 b tlb_control nvc_svm_tlb_control_do_nothing) s2)"

definition next_world :: "'c host_world \<Rightarrow> 'c host_world" where
  "next_world s = on_host_frame (\<lambda>f. f(0 := hw_guest_vmcb_pa s)) s"

text \<open>A processor that leaves the hypervisor does not come back from the handler.\<close>

definition end_host_exit :: "'c host_world \<Rightarrow> 'c host_world" where
  "end_host_exit s =
     (if hw_callexit s \<noteq> None then s
      else next_world (if hw_guest_vmcb_pa s = hw_vmcb s
             then on_host_vmcb (\<lambda>b. vmwrite64 b guest_rax (hw_frame s 0)) s else s))"

definition host_exit :: "'c cvm_calls \<Rightarrow> 'c host_handler" where
  "host_exit c e s =
     (case svm_exit_handlers c (vmread32 (host_vmcb s) exit_code) of
        None \<Rightarrow> None
      | Some f \<Rightarrow> map_option end_host_exit (f e (begin_host_exit e s)))"

definition nested_exit :: "'c host_handler" where
  "nested_exit e s =
     (let t = vmcb_t (running_node s); code = vmread32 (hw_pages s t) exit_code;
          s1 = (forward True s)\<lparr>hw_pages := on_page t (\<lambda>b. vmwrite32 b vmcb_clean_bits 0xffffffff) (hw_pages s)\<rparr>
      in case svm_nvexit_handlers code of
           None \<Rightarrow> None
         | Some f \<Rightarrow>
             map_option (\<lambda>s2. next_world (if nested_forward (hw_nested s2) then nvc_svm_switch_from_nested_vcpu s2 else s2))
               (f e s1))"

text \<open>The exits of a customizable machine are \<open>Cv_Dispatch.nvc_svm_exit_handler\<close>.\<close>

definition host_or_nested_exit :: "'c cvm_calls \<Rightarrow> 'c host_handler" where
  "host_or_nested_exit c e s =
     (if hw_frame s 0 = hw_vmcb s then host_exit c e s
      else if hw_frame s 0 = vmcb_t (running_node s) then nested_exit e s
      else Some (next_world (host_int3 s)))"

lemma host_group1_length [simp]: "length (svm_exit_handler_group1 c) = 165"
  by (simp add: svm_exit_handler_group1_def host_unhandled_def)

lemma nvexit_group1_length [simp]: "length svm_nvexit_handler_group1 = 165"
  by (simp add: svm_nvexit_handler_group1_def)

end
