(* ===== verification/Nested_Properties.thy ===== *)
theory Nested_Properties
  imports Host_Dispatch
begin

text \<open>
  The properties of nested virtualization: what the control block that runs holds after an entry, and
  that a nested guest goes on as it was left.
\<close>

section \<open>Copies of classes\<close>

text \<open>The fields of each class that are copied as they are.\<close>

definition class_fields :: "field list list" where
  "class_fields =
     [interception_fields, [B64 iopm_physical_address, B64 msrpm_physical_address], [], [B64 avic_control], [B64 guest_pat],
      [B64 guest_cr0, B64 guest_cr3, B64 guest_cr4, B64 guest_efer], [B64 guest_dr6, B64 guest_dr7],
      [B16 guest_gdtr_limit, B64 guest_gdtr_base, B16 guest_idtr_limit, B64 guest_idtr_base], seg_fields, [B64 guest_cr2],
      lbr_fields,
      [B64 avic_apic_bar, B64 avic_backing_page_pointer, B64 avic_logical_table_pointer, B64 avic_physical_table_pointer],
      [B64 guest_s_cet, B64 guest_ssp, B64 guest_isst]]"

text \<open>The fields that NoirVisor decides on, and the clean bits.\<close>

definition special_fields :: "field list" where
  "special_fields = [B32 intercept_instruction1, B32 guest_asid, B64 npt_control, B64 npt_cr3, B32 vmcb_clean_bits]"

text \<open>Which clean bit the routine of a class resets.\<close>

definition class_flag :: "nat \<Rightarrow> nat" where "class_flag k = (if k = noir_svm_clean_avic then noir_svm_clean_lbr else k)"

definition reloaded :: "noir_svm_nested_vcpu_node \<Rightarrow> pages \<Rightarrow> nat \<Rightarrow> bool" where
  "reloaded nd m k \<longleftrightarrow> \<not> node_clean nd \<or> \<not> vmcb_bt32 (m (vmcb_c nd)) vmcb_clean_bits k"

lemma vmread32_cong:
  assumes "\<And>k. k < 4 \<Longrightarrow> a (p + k) = b (p + k)"
  shows "vmread32 a p = vmread32 b p"
proof -
  have three: "p + 2 + 1 = p + 3" by simp
  have "a p = b p" using assms [of 0] by simp
  then show ?thesis
    using assms [of 1] assms [of 2] assms [of 3] by (simp only: vmread32_def vmread16_def three)
qed

lemma wr_outside: "i \<notin> {p..<p + n} \<Longrightarrow> wr n b p v i = b i"
  by (auto simp: wr_def)

lemma clean_outside: "i \<notin> {vmcb_clean_bits..<vmcb_clean_bits + 4} \<Longrightarrow> clean n b i = b i"
  by (simp add: clean_def vmcb_btr32_def vmwrite32_def wr_outside)

lemma clean_flags: "vmread32 (clean n b) vmcb_clean_bits = unset_bit n (vmread32 b vmcb_clean_bits)"
  by (simp add: clean_def vmcb_btr32_def vmwrite32_def vmcb)

lemma copies_flags:
  assumes "fields_bytes fs \<inter> {vmcb_clean_bits..<vmcb_clean_bits + 4} = {}"
  shows "vmread32 (copy_fields d s fs m d) vmcb_clean_bits = vmread32 (m d) vmcb_clean_bits"
  using assms by (intro vmread32_cong) (auto simp: copy_fields_bytes)

lemma other_page: "q \<noteq> t \<Longrightarrow> copy_fields t s fs m q = m q" "q \<noteq> t \<Longrightarrow> clean_at t n m q = m q"
  by (simp_all add: copy_fields_bytes clean_at_def)

lemmas clean_routines = nvc_svm_clean_vmcb_interceptions_def nvc_svm_clean_vmcb_iomsrpm_def nvc_svm_clean_vmcb_asid_def
  nvc_svm_clean_vmcb_tpr_def nvc_svm_clean_vmcb_np_def nvc_svm_clean_vmcb_crx_def nvc_svm_clean_vmcb_drx_def
  nvc_svm_clean_vmcb_dt_def nvc_svm_clean_vmcb_seg_def nvc_svm_clean_vmcb_cr2_def nvc_svm_clean_vmcb_lbr_def
  nvc_svm_clean_vmcb_avic_def nvc_svm_clean_vmcb_cet_def

lemmas plain_routines = nvc_svm_clean_vmcb_iomsrpm_def [abs_def] nvc_svm_clean_vmcb_tpr_def [abs_def]
  nvc_svm_clean_vmcb_crx_def [abs_def] nvc_svm_clean_vmcb_drx_def [abs_def] nvc_svm_clean_vmcb_dt_def [abs_def]
  nvc_svm_clean_vmcb_seg_def [abs_def] nvc_svm_clean_vmcb_cr2_def [abs_def] nvc_svm_clean_vmcb_lbr_def [abs_def]
  nvc_svm_clean_vmcb_avic_def [abs_def] nvc_svm_clean_vmcb_cet_def [abs_def]

lemmas clean_constants = noir_svm_clean_iomsrpm_def noir_svm_clean_tpr_def noir_svm_clean_control_reg_def
  noir_svm_clean_debug_reg_def noir_svm_clean_idt_gdt_def noir_svm_clean_segment_reg_def noir_svm_clean_cr2_def
  noir_svm_clean_lbr_def noir_svm_clean_cet_def

text \<open>The law of one routine.\<close>

definition copies_class :: "u64 \<Rightarrow> u64 \<Rightarrow> nat \<Rightarrow> (pages \<Rightarrow> pages) \<Rightarrow> bool" where
  "copies_class c t k f \<longleftrightarrow> (\<forall>m. (\<forall>q. q \<noteq> t \<longrightarrow> f m q = m q) \<and>
     (\<forall>i. i \<notin> fields_bytes special_fields \<longrightarrow> f m t i = (if i \<in> fields_bytes (class_fields ! k) then m c i else m t i)) \<and>
     vmread32 (f m t) vmcb_clean_bits = unset_bit (class_flag k) (vmread32 (m t) vmcb_clean_bits))"

lemma copies_class_plain:
  assumes "c \<noteq> t" "fs = class_fields ! k" "fields_bytes fs \<inter> {vmcb_clean_bits..<vmcb_clean_bits + 4} = {}" "n = class_flag k"
  shows "copies_class c t k (\<lambda>m. clean_at t n (copy_fields t c fs m))"
  using assms copies_flags [OF assms(3), of t c]
  by (auto simp: copies_class_def other_page clean_at_def clean_flags clean_outside copy_fields_bytes special_fields_def fields_bytes_def)

lemma class_flag_simps [simp]:
  "k \<noteq> 11 \<Longrightarrow> class_flag k = k" "class_flag 11 = 10"
  by (simp_all add: class_flag_def noir_svm_clean_avic_def noir_svm_clean_lbr_def)

lemma class_less:
  assumes "(k :: nat) < 13"
  shows "k = 0 \<or> k = 1 \<or> k = 2 \<or> k = 3 \<or> k = 4 \<or> k = 5 \<or> k = 6 \<or> k = 7 \<or> k = 8 \<or> k = 9 \<or> k = 10 \<or> k = 11 \<or> k = 12"
  using assms by arith

lemma copies_classes:
  assumes "c \<noteq> t" "k < 13"
  shows "copies_class c t k ((svm_clean_vmcb ncr3 ! k) c t)"
proof -
  have plain: "copies_class c t k (\<lambda>m. clean_at t n (copy_fields t c (class_fields ! k) m))"
    if "k \<in> {1, 3, 5, 6, 7, 8, 9, 10, 11, 12}" "n = class_flag k" for n
    using that by (intro copies_class_plain [OF assms(1) refl])
      (auto simp: class_fields_def seg_fields_def segment_fields_def lbr_fields_def fields_bytes_def vmcb_offsets)
  note offs = fields_bytes_def class_fields_def special_fields_def interception_fields_def vmcb_bts32_def vmwrite32_def
    vmwrite64_def wr_outside vmcb_offsets
  have flags: "vmread32 (nvc_svm_clean_vmcb_interceptions c t m t) vmcb_clean_bits = unset_bit 0 (vmread32 (m t) vmcb_clean_bits)"
    "vmread32 (nvc_svm_clean_vmcb_asid c t m t) vmcb_clean_bits = unset_bit 2 (vmread32 (m t) vmcb_clean_bits)"
    "vmread32 (nvc_svm_clean_vmcb_np ncr3 c t m t) vmcb_clean_bits = unset_bit 4 (vmread32 (m t) vmcb_clean_bits)" for m
    unfolding clean_routines Let_def clean_at_def on_page_apply if_True simp_thms clean_flags
      noir_svm_clean_interception_def noir_svm_clean_asid_def noir_svm_clean_npt_def
    by (intro arg_cong [where f = "unset_bit _"] vmread32_cong; simp add: copy_fields_bytes offs)+
  have bytes: "nvc_svm_clean_vmcb_interceptions c t m t i = (if i \<in> fields_bytes (class_fields ! 0) then m c i else m t i)"
    "nvc_svm_clean_vmcb_asid c t m t i = m t i"
    "nvc_svm_clean_vmcb_np ncr3 c t m t i = (if i \<in> fields_bytes (class_fields ! 4) then m c i else m t i)"
    if "i \<notin> fields_bytes special_fields" for m i
    using that assms(1) by (auto simp: clean_routines Let_def clean_at_def clean_outside copy_fields_bytes offs)
  have others: "nvc_svm_clean_vmcb_interceptions c t m q = m q" "nvc_svm_clean_vmcb_asid c t m q = m q"
    "nvc_svm_clean_vmcb_np ncr3 c t m q = m q" if "q \<noteq> t" for m q
    using that by (auto simp: clean_routines Let_def other_page)
  have special: "copies_class c t 0 (nvc_svm_clean_vmcb_interceptions c t)" "copies_class c t 2 (nvc_svm_clean_vmcb_asid c t)"
      "copies_class c t 4 (nvc_svm_clean_vmcb_np ncr3 c t)"
    using flags bytes others unfolding copies_class_def by (simp_all add: class_fields_def fields_bytes_def)
  show ?thesis
    using class_less [OF assms(2)] special plain
    by (elim disjE) (simp_all add: svm_clean_vmcb_def plain_routines class_fields_def clean_constants)
qed

section \<open>Entering\<close>

definition loads :: "(nat \<Rightarrow> bool) \<Rightarrow> nat \<Rightarrow> nat \<Rightarrow> bool" where
  "loads r n i \<longleftrightarrow> (\<exists>k < n. r k \<and> i \<in> fields_bytes (class_fields ! k))"

definition unflags :: "(nat \<Rightarrow> bool) \<Rightarrow> nat \<Rightarrow> nat \<Rightarrow> bool" where
  "unflags r n j \<longleftrightarrow> (\<exists>k < n. r k \<and> class_flag k = j)"

lemma loads_simps [simp]:
  "\<not> loads r 0 i" "loads r (Suc n) i \<longleftrightarrow> loads r n i \<or> r n \<and> i \<in> fields_bytes (class_fields ! n)"
  by (auto simp: loads_def less_Suc_eq)

lemma unflags_simps [simp]:
  "\<not> unflags r 0 j" "unflags r (Suc n) j \<longleftrightarrow> unflags r n j \<or> r n \<and> class_flag n = j"
  by (auto simp: unflags_def less_Suc_eq)

text \<open>What the copies of the first classes leave in the control block that runs.\<close>

definition entered :: "u64 \<Rightarrow> u64 \<Rightarrow> (nat \<Rightarrow> bool) \<Rightarrow> nat \<Rightarrow> pages \<Rightarrow> pages \<Rightarrow> bool" where
  "entered c t r n m m' \<longleftrightarrow>
     (\<forall>q. q \<noteq> t \<longrightarrow> m' q = m q) \<and>
     (\<forall>i. i \<notin> fields_bytes special_fields \<longrightarrow> m' t i = (if loads r n i then m c i else m t i)) \<and>
     (\<forall>j. bit (vmread32 (m' t) vmcb_clean_bits) j \<longleftrightarrow> bit (vmread32 (m t) vmcb_clean_bits) j \<and> \<not> unflags r n j)"

lemma entered_step:
  assumes "c \<noteq> t" "n < 13" "entered c t r n m m'" "r n \<longleftrightarrow> \<not> cl \<or> \<not> vmcb_bt32 (m c) vmcb_clean_bits n"
  shows "entered c t r (Suc n) m (copy_class ncr3 cl c t n m')"
proof (cases "r n")
  case True
  have same: "m' c = m c" using assms(1, 3) by (simp add: entered_def)
  have law: "copies_class c t n ((svm_clean_vmcb ncr3 ! n) c t)" using assms(1, 2) by (rule copies_classes)
  have run: "copy_class ncr3 cl c t n m' = (svm_clean_vmcb ncr3 ! n) c t m'"
    using True assms(4) by (simp add: copy_class_def same)
  show ?thesis
    using law assms(3) True unfolding run copies_class_def entered_def
    by (auto simp: same bit_unset_bit_iff)
next
  case False
  have "m' c = m c" using assms(1, 3) by (simp add: entered_def)
  then have "copy_class ncr3 cl c t n m' = m'"
    using False assms(4) by (simp add: copy_class_def)
  then show ?thesis using assms(3) False by (simp add: entered_def)
qed

lemma entered_pages:
  assumes "c \<noteq> t"
  shows "entered c t (\<lambda>k. \<not> cl \<or> \<not> vmcb_bt32 (m c) vmcb_clean_bits k) 13 m (nested_entry_pages ncr3 cl c t m)"
proof -
  have "entered c t (\<lambda>k. \<not> cl \<or> \<not> vmcb_bt32 (m c) vmcb_clean_bits k) n m (fold (copy_class ncr3 cl c t) [0..<n] m)"
    if "n \<le> 13" for n
    using that
  proof (induction n)
    case 0
    then show ?case by (simp add: entered_def)
  next
    case (Suc n)
    then show ?case using assms by (simp add: entered_step)
  qed
  then show ?thesis by (simp add: nested_entry_pages_def noir_svm_maximum_clean_state_bits_def)
qed

text \<open>The fields that a routine decides on.\<close>

definition class_special :: "nat \<Rightarrow> field list" where
  "class_special k =
     (if k = 0 then [B32 intercept_instruction1] else if k = 2 then [B32 guest_asid]
      else if k = 4 then [B64 npt_control, B64 npt_cr3] else [])"

lemma class_keeps:
  assumes "c \<noteq> t" "k < 13" "i \<notin> fields_bytes (class_fields ! k @ class_special k @ [B32 vmcb_clean_bits])"
  shows "(svm_clean_vmcb ncr3 ! k) c t m t i = m t i"
proof (cases "i \<in> fields_bytes special_fields")
  case False
  then show ?thesis
    using copies_classes [OF assms(1, 2), of ncr3] assms(3) by (simp add: copies_class_def)
next
  case True
  show ?thesis
    using class_less [OF assms(2)] assms(3)
    by (elim disjE)
      (auto simp: svm_clean_vmcb_def clean_routines Let_def class_fields_def class_special_def clean_at_def clean_outside
        copy_fields_bytes fields_bytes_def vmcb_bts32_def vmwrite32_def vmwrite64_def wr_outside interception_fields_def)
qed

text \<open>A set of bytes that only the class \<open>k\<close> can change is what it was, or what the class made of it.\<close>

lemma special_of_entry:
  assumes "c \<noteq> t" "k < 13"
    and alone: "\<And>j. j < 13 \<Longrightarrow> j \<noteq> k \<Longrightarrow> fields_bytes (class_fields ! j @ class_special j @ [B32 vmcb_clean_bits]) \<inter> A = {}"
  obtains m1 where "m1 c = m c" "\<And>i. i \<in> A \<Longrightarrow> m1 t i = m t i"
    "\<And>i. i \<in> A \<Longrightarrow> nested_entry_pages ncr3 cl c t m t i =
       (if \<not> cl \<or> \<not> vmcb_bt32 (m c) vmcb_clean_bits k then (svm_clean_vmcb ncr3 ! k) c t m1 t i else m t i)"
proof -
  define run where "run n = fold (copy_class ncr3 cl c t) [0..<n] m" for n
  have step: "run (Suc n) = copy_class ncr3 cl c t n (run n)" for n by (simp add: run_def)
  have c: "run n c = m c" if "n \<le> 13" for n
    using that
  proof (induction n)
    case (Suc n)
    then show ?case
      using copies_classes [OF assms(1), of n ncr3] assms(1) by (simp add: step copy_class_def copies_class_def)
  qed (simp add: run_def)
  have other: "run (Suc n) t i = run n t i" if "n < 13" "n \<noteq> k" "i \<in> A" for n i
    using alone [OF that(1, 2)] that class_keeps [OF assms(1) that(1), of i ncr3 "run n"]
    by (auto simp: step copy_class_def)
  have before: "run n t i = m t i" if "n \<le> k" "i \<in> A" for n i
    using that(1)
  proof (induction n)
    case (Suc n)
    then show ?case using other [of n i] that(2) assms(2) by simp
  qed (simp add: run_def)
  have after: "run n t i = run (Suc k) t i" if "Suc k \<le> n" "n \<le> 13" "i \<in> A" for n i
    using that(1, 2)
  proof (induction n rule: dec_induct)
    case (step n)
    then show ?case using other [of n i] that(3) by simp
  qed simp
  have "nested_entry_pages ncr3 cl c t m = run 13"
    by (simp add: nested_entry_pages_def run_def noir_svm_maximum_clean_state_bits_def)
  then show thesis
    using that [of "run k"] c [of k] before [of k] after [of 13] assms(2)
    by (simp add: step copy_class_def)
qed

lemma entry_read32:
  assumes "c \<noteq> t" "k < 13" "{f..<f + 4} \<inter> fields_bytes always_fields = {}"
    and alone: "\<And>j. j < 13 \<Longrightarrow> j \<noteq> k \<Longrightarrow>
      fields_bytes (class_fields ! j @ class_special j @ [B32 vmcb_clean_bits]) \<inter> {f..<f + 4} = {}"
  obtains m1 where "m1 c = m c"
    "vmread32 (copy_fields t c always_fields (nested_entry_pages h cl c t m) t) f =
       (if \<not> cl \<or> \<not> vmcb_bt32 (m c) vmcb_clean_bits k then vmread32 ((svm_clean_vmcb h ! k) c t m1 t) f
        else vmread32 (m t) f)"
proof -
  obtain m1 where m1: "m1 c = m c"
    "\<And>i. i \<in> {f..<f + 4} \<Longrightarrow> nested_entry_pages h cl c t m t i =
       (if \<not> cl \<or> \<not> vmcb_bt32 (m c) vmcb_clean_bits k then (svm_clean_vmcb h ! k) c t m1 t i else m t i)"
    using special_of_entry [OF assms(1, 2) alone] by metis
  have "f + j \<notin> fields_bytes always_fields" if "j < 4" for j
    using assms(3) that by (auto simp: disjoint_iff)
  then have "vmread32 (copy_fields t c always_fields (nested_entry_pages h cl c t m) t) f =
      vmread32 (nested_entry_pages h cl c t m t) f"
    by (intro vmread32_cong) (simp add: copy_fields_bytes)
  moreover have "vmread32 (nested_entry_pages h cl c t m t) f =
      (if \<not> cl \<or> \<not> vmcb_bt32 (m c) vmcb_clean_bits k then vmread32 ((svm_clean_vmcb h ! k) c t m1 t) f
       else vmread32 (m t) f)"
    using m1(2) by (auto intro!: vmread32_cong)
  ultimately show thesis using that [of m1] m1(1) by simp
qed

text \<open>What NoirVisor insists on in a control block of a nested guest.\<close>

definition guarded :: "bytes \<Rightarrow> bool" where
  "guarded b \<longleftrightarrow> vmcb_bt32 b intercept_instruction1 nvc_svm_intercept_vector1_cpuid \<and>
     vmcb_bt32 b intercept_instruction1 nvc_svm_intercept_vector1_shutdown \<and> vmread32 b guest_asid \<noteq> 1"

lemma nested_asid_not_host: "nested_asid a \<noteq> 1"
proof
  assume one: "nested_asid a = 1"
  then have "a + 1 = 1" "\<not> sint a \<le> 0" by (auto simp: nested_asid_def split: if_splits)
  then show False by simp
qed

lemma switch_pages:
  "hw_pages (nvc_svm_switch_to_nested_vcpu e n s) =
     copy_fields (vmcb_t (node_pool (hw_nested s) n)) (vmcb_c (node_pool (hw_nested s) n)) always_fields
       (nested_entry_pages (he_primary_ncr3 e) (node_clean (node_pool (hw_nested s) n)) (vmcb_c (node_pool (hw_nested s) n))
          (vmcb_t (node_pool (hw_nested s) n)) (hw_pages s))"
  by (simp add: nvc_svm_switch_to_nested_vcpu_def Let_def on_nested_def)

lemma copied_read32:
  "{f..<f + 4} \<subseteq> fields_bytes fs \<Longrightarrow> vmread32 (copy_fields d s fs m d) f = vmread32 (m s) f"
  by (intro vmread32_cong) (simp add: copy_fields_bytes subset_iff)

lemma clean_read32: "f + 4 \<le> vmcb_clean_bits \<Longrightarrow> vmread32 (clean n b) f = vmread32 b f"
  by (intro vmread32_cong) (simp add: clean_outside)

lemma interceptions_read:
  "vmread32 (nvc_svm_clean_vmcb_interceptions c t m t) intercept_instruction1 =
     set_bit 31 (set_bit 18 (vmread32 (m c) intercept_instruction1))"
proof -
  have "vmread32 (copy_fields t c interception_fields m t) intercept_instruction1 = vmread32 (m c) intercept_instruction1"
    by (rule copied_read32) (auto simp: interception_fields_def fields_bytes_def)
  moreover have "intercept_instruction1 + 4 \<le> vmcb_clean_bits" by (simp add: vmcb_offsets)
  ultimately show ?thesis
    by (simp add: nvc_svm_clean_vmcb_interceptions_def Let_def clean_at_def clean_read32 vmwrite_wr vmcb
        nvc_svm_intercept_vector1_cpuid_def nvc_svm_intercept_vector1_shutdown_def)
qed

lemma asid_read:
  "vmread32 (nvc_svm_clean_vmcb_asid c t m t) guest_asid = nested_asid (vmread32 (m c) guest_asid)"
proof -
  have "guest_asid + 4 \<le> vmcb_clean_bits" by (simp add: vmcb_offsets)
  then show ?thesis
    by (simp add: nvc_svm_clean_vmcb_asid_def Let_def clean_at_def clean_read32 vmwrite_wr vmcb)
qed

lemma entry_guards:
  assumes "c \<noteq> t" "\<not> cl \<or> guarded (m t)"
  shows "guarded (copy_fields t c always_fields (nested_entry_pages ncr3 cl c t m) t)"
proof -
  let ?b = "copy_fields t c always_fields (nested_entry_pages ncr3 cl c t m) t"
  let ?writes = "\<lambda>j. fields_bytes (class_fields ! j @ class_special j @ [B32 vmcb_clean_bits])"
  note sets = class_fields_def class_special_def fields_bytes_def always_fields_def interception_fields_def
    seg_fields_def segment_fields_def lbr_fields_def vmcb_offsets
  have always: "{intercept_instruction1..<intercept_instruction1 + 4} \<inter> fields_bytes always_fields = {}"
      "{guest_asid..<guest_asid + 4} \<inter> fields_bytes always_fields = {}"
    by (auto simp: sets)
  have one: "?writes j \<inter> {intercept_instruction1..<intercept_instruction1 + 4} = {}" if "j < 13" "j \<noteq> 0" for j
    using class_less [OF that(1)] that(2) by (elim disjE) (auto simp: sets)
  have two: "?writes j \<inter> {guest_asid..<guest_asid + 4} = {}" if "j < 13" "j \<noteq> 2" for j
    using class_less [OF that(1)] that(2) by (elim disjE) (auto simp: sets)
  have small: "(0 :: nat) < 13" "(2 :: nat) < 13" by simp_all
  have routines: "svm_clean_vmcb ncr3 ! 0 = nvc_svm_clean_vmcb_interceptions" "svm_clean_vmcb ncr3 ! 2 = nvc_svm_clean_vmcb_asid"
    by (simp_all add: svm_clean_vmcb_def)
  obtain m1 where "m1 c = m c" "vmread32 ?b intercept_instruction1 =
      (if \<not> cl \<or> \<not> vmcb_bt32 (m c) vmcb_clean_bits 0
       then vmread32 ((svm_clean_vmcb ncr3 ! 0) c t m1 t) intercept_instruction1 else vmread32 (m t) intercept_instruction1)"
    by (rule entry_read32 [OF assms(1) small(1) always(1) one])
  moreover obtain m2 where "m2 c = m c" "vmread32 ?b guest_asid =
      (if \<not> cl \<or> \<not> vmcb_bt32 (m c) vmcb_clean_bits 2
       then vmread32 ((svm_clean_vmcb ncr3 ! 2) c t m2 t) guest_asid else vmread32 (m t) guest_asid)"
    by (rule entry_read32 [OF assms(1) small(2) always(2) two])
  ultimately show ?thesis
    using assms(2)
    by (auto simp: guarded_def vmcb_bt32_def routines interceptions_read asid_read nested_asid_not_host nvc_svm_intercept_vector1_cpuid_def
        nvc_svm_intercept_vector1_shutdown_def bit_set_bit_iff)
qed

text \<open>What the control block holds after an entry.\<close>

lemma switch_bytes:
  assumes "node_pool (hw_nested s) n = nd" "vmcb_c nd \<noteq> vmcb_t nd" "i \<notin> fields_bytes special_fields"
  shows "hw_pages (nvc_svm_switch_to_nested_vcpu e n s) (vmcb_t nd) i =
    (if i \<in> fields_bytes always_fields \<or> loads (reloaded nd (hw_pages s)) 13 i then hw_pages s (vmcb_c nd) i
     else hw_pages s (vmcb_t nd) i)"
  using entered_pages [OF assms(2), of "node_clean nd" "hw_pages s" "he_primary_ncr3 e"] assms
  by (simp add: switch_pages copy_fields_bytes entered_def reloaded_def [abs_def])

lemma switch_flags:
  assumes "node_pool (hw_nested s) n = nd" "vmcb_c nd \<noteq> vmcb_t nd"
  shows "bit (vmread32 (hw_pages (nvc_svm_switch_to_nested_vcpu e n s) (vmcb_t nd)) vmcb_clean_bits) j \<longleftrightarrow>
    bit (vmread32 (hw_pages s (vmcb_t nd)) vmcb_clean_bits) j \<and> \<not> unflags (reloaded nd (hw_pages s)) 13 j"
proof -
  have "fields_bytes always_fields \<inter> {vmcb_clean_bits..<vmcb_clean_bits + 4} = {}"
    by (auto simp: always_fields_def fields_bytes_def vmcb_offsets)
  then show ?thesis
    using entered_pages [OF assms(2), of "node_clean nd" "hw_pages s" "he_primary_ncr3 e"] assms
    by (simp add: switch_pages copies_flags entered_def reloaded_def [abs_def])
qed

text \<open>What an exit of a nested guest leaves in the three control blocks.\<close>

lemma exit_bytes:
  assumes "node_pool (hw_nested s) (hw_nested_vcpu s) = nd" "vmcb_c nd \<noteq> vmcb_t nd"
    "hw_vmcb s \<noteq> vmcb_t nd" "hw_vmcb s \<noteq> vmcb_c nd"
  shows "hw_pages (nvc_svm_switch_from_nested_vcpu s) (vmcb_t nd) = hw_pages s (vmcb_t nd)"
    "hw_pages (nvc_svm_switch_from_nested_vcpu s) (vmcb_c nd) i =
      (if i \<in> fields_bytes (exit_information @ saved_fields) \<or>
          vmcb_bt32 (hw_pages s (vmcb_t nd)) npt_control nvc_svm_npt_control_npt \<and> i \<in> fields_bytes [B64 guest_pat] \<or>
          vmcb_bt32 (hw_pages s (vmcb_t nd)) lbr_virtualization_control nvc_svm_lbr_virt_control_lbr \<and> i \<in> fields_bytes lbr_fields
       then hw_pages s (vmcb_t nd) i else hw_pages s (vmcb_c nd) i)"
    "hw_nested (nvc_svm_switch_from_nested_vcpu s) = hw_nested s"
    "hw_nested_vcpu (nvc_svm_switch_from_nested_vcpu s) = hw_nested_vcpu s"
  using assms by (simp_all add: nvc_svm_switch_from_nested_vcpu_def Let_def copy_fields_bytes fun_upd_apply)

lemma exit_reloaded:
  assumes "node_pool (hw_nested s) (hw_nested_vcpu s) = nd" "vmcb_c nd \<noteq> vmcb_t nd"
    "hw_vmcb s \<noteq> vmcb_t nd" "hw_vmcb s \<noteq> vmcb_c nd"
  shows "reloaded nd (hw_pages (nvc_svm_switch_from_nested_vcpu s)) = reloaded nd (hw_pages s)"
proof -
  have "vmread32 (hw_pages (nvc_svm_switch_from_nested_vcpu s) (vmcb_c nd)) vmcb_clean_bits =
      vmread32 (hw_pages s (vmcb_c nd)) vmcb_clean_bits"
    by (intro vmread32_cong)
      (auto simp: exit_bytes(2) [OF assms] exit_information_def saved_fields_def segment_fields_def lbr_fields_def
        fields_bytes_def vmcb_offsets)
  then show ?thesis by (simp add: reloaded_def [abs_def] vmcb_bt32_def fun_eq_iff)
qed

lemma resumed_bytes:
  assumes "node_pool (hw_nested s) (hw_nested_vcpu s) = nd" "vmcb_c nd \<noteq> vmcb_t nd"
    "hw_vmcb s \<noteq> vmcb_t nd" "hw_vmcb s \<noteq> vmcb_c nd" "i \<notin> fields_bytes special_fields"
  shows "hw_pages (nvc_svm_switch_to_nested_vcpu e (hw_nested_vcpu s) (nvc_svm_switch_from_nested_vcpu s)) (vmcb_t nd) i =
    (if i \<in> fields_bytes always_fields \<or> loads (reloaded nd (hw_pages s)) 13 i
     then hw_pages (nvc_svm_switch_from_nested_vcpu s) (vmcb_c nd) i else hw_pages s (vmcb_t nd) i)"
  using switch_bytes [of "nvc_svm_switch_from_nested_vcpu s" "hw_nested_vcpu s" nd i e] assms
  by (simp add: exit_bytes [OF assms(1-4)] exit_reloaded [OF assms(1-4)])

text \<open>What \<open>vmload\<close> loads is in no class.\<close>

lemma vmload_alone:
  "k < 13 \<Longrightarrow> fields_bytes (class_fields ! k) \<inter> fields_bytes vmload_fields = {}"
  "fields_bytes always_fields \<inter> fields_bytes vmload_fields = {}"
  "fields_bytes special_fields \<inter> (fields_bytes saved_fields \<union> fields_bytes vmload_fields) = {}"
proof -
  note sets = fields_bytes_def vmload_fields_def segment_fields_def vmcb_offsets Int_Un_distrib Int_Un_distrib2
  show "fields_bytes (class_fields ! k) \<inter> fields_bytes vmload_fields = {}" if "k < 13"
    using class_less [OF that]
    by (elim disjE) (simp_all add: sets class_fields_def interception_fields_def seg_fields_def lbr_fields_def)
  show "fields_bytes always_fields \<inter> fields_bytes vmload_fields = {}" by (simp add: sets always_fields_def)
  show "fields_bytes special_fields \<inter> (fields_bytes saved_fields \<union> fields_bytes vmload_fields) = {}"
    by (simp add: sets special_fields_def saved_fields_def)
qed

section \<open>The properties\<close>

text \<open>A hypervisor at \<open>0x3000\<close> that has run its guest with the control block at \<open>0x1000\<close>, whose copy is
  at \<open>0x2000\<close>; the first fields of the copy are set up, and the cache is not valid.\<close>

definition sample_node :: noir_svm_nested_vcpu_node where
  "sample_node = \<lparr>vmcb_t = 0x2000, vmcb_c = 0x1000, node_clean = False\<rparr>"

definition sample_nested :: noir_svm_nested_vcpu where
  "sample_nested = \<lparr>hsave_gpa = 0, hsave_hva = 0, node_pool = (\<lambda>_. sample_node), nested_svme = True, nested_forward = False,
     nested_gif = True, r_init = False, pending_db = False, pending_nmi = False, pending_mc = False, pending_init = False\<rparr>"

definition sample_host :: "unit host_world" where
  "sample_host = \<lparr>hw_frame = (\<lambda>_. 0), hw_pages = (\<lambda>p i. if p = 0x1000 then 1 else if p = 0x2000 then 2 else 3),
     hw_vmcb = 0x3000, hw_guest_vmcb_pa = 0x2000, hw_nested_vcpu = 0, hw_nested = sample_nested,
     hw_mshv = \<lparr>vp_index = 0, npiep_config = 0, mshv_event = 0, synic_icr = 0\<rparr>,
     hw_fallback = \<lparr>fb_valid = False, fb_offset = 0, fb_value = 0, fb_field_size = 0, fb_rip = 0, fb_fault_info = 0\<rparr>,
     hw_guest_os_id = 0, hw_hypercall_ctrl = 0, hw_if = True, hw_cr3 = 0, hw_cr8 = 0, hw_dr = (\<lambda>_. 0), hw_invlpga = [],
     hw_breakpoints = 0, hw_callexit = None, hw_status = 0, hw_sipi = None, hw_cvm = ()\<rparr>"

lemma sample_simps [simp]:
  "node_pool (hw_nested sample_host) n = sample_node" "vmcb_t sample_node = 0x2000" "vmcb_c sample_node = 0x1000"
  "hw_vmcb sample_host = 0x3000" "hw_pages sample_host 0x1000 = (\<lambda>_. 1)" "hw_pages sample_host 0x2000 = (\<lambda>_. 2)"
  "\<not> node_clean sample_node" "hw_nested_vcpu sample_host = 0"
  by (simp_all add: sample_host_def sample_nested_def sample_node_def)

text \<open>C14: an entry into a nested guest leaves in the control block that runs, outside the fields that NoirVisor
  decides on, exactly the bytes of the nested hypervisor's control block for the fields that are never
  cached and for the classes that are reloaded (all of them when the cache of the block is not valid, else those whose
  clean bit the nested hypervisor has reset), and its own bytes elsewhere; every other page is left alone, the node is
  marked clean and the block is the one that runs next.\<close>

theorem nested_entry_loads:
  assumes "node_pool (hw_nested s) n = nd" "vmcb_c nd \<noteq> vmcb_t nd"
  shows "(\<forall>i. i \<notin> fields_bytes special_fields \<longrightarrow>
      hw_pages (nvc_svm_switch_to_nested_vcpu e n s) (vmcb_t nd) i =
        (if i \<in> fields_bytes always_fields \<or> loads (reloaded nd (hw_pages s)) 13 i then hw_pages s (vmcb_c nd) i
         else hw_pages s (vmcb_t nd) i)) \<and>
    (\<forall>q. q \<noteq> vmcb_t nd \<longrightarrow> hw_pages (nvc_svm_switch_to_nested_vcpu e n s) q = hw_pages s q) \<and>
    hw_guest_vmcb_pa (nvc_svm_switch_to_nested_vcpu e n s) = vmcb_t nd \<and>
    node_pool (hw_nested (nvc_svm_switch_to_nested_vcpu e n s)) n = nd\<lparr>node_clean := True\<rparr>"
proof (intro conjI allI impI)
  show "hw_pages (nvc_svm_switch_to_nested_vcpu e n s) (vmcb_t nd) i =
      (if i \<in> fields_bytes always_fields \<or> loads (reloaded nd (hw_pages s)) 13 i then hw_pages s (vmcb_c nd) i
       else hw_pages s (vmcb_t nd) i)" if "i \<notin> fields_bytes special_fields" for i
    using assms that by (rule switch_bytes)
  show "hw_pages (nvc_svm_switch_to_nested_vcpu e n s) q = hw_pages s q" if "q \<noteq> vmcb_t nd" for q
    using entered_pages [OF assms(2), of "node_clean nd" "hw_pages s" "he_primary_ncr3 e"] assms(1) that
    by (simp add: switch_pages copy_fields_bytes entered_def)
qed (simp_all add: nvc_svm_switch_to_nested_vcpu_def Let_def on_nested_def assms(1))

lemma nested_entry_loads_witness:
  "\<forall>e. hw_pages (nvc_svm_switch_to_nested_vcpu e 0 sample_host) 0x2000 guest_cr3 = 1 \<and>
   hw_pages (nvc_svm_switch_to_nested_vcpu e 0 sample_host) 0x2000 guest_fs_base = 2"
proof -
  have "loads (reloaded sample_node (hw_pages sample_host)) 13 guest_cr3"
    by (auto simp: loads_def reloaded_def class_fields_def fields_bytes_def intro!: exI [of _ 5])
  moreover have "\<not> loads (reloaded sample_node (hw_pages sample_host)) 13 guest_fs_base"
    using class_less by (fastforce simp: loads_def class_fields_def fields_bytes_def interception_fields_def seg_fields_def
        segment_fields_def lbr_fields_def vmcb_offsets)
  moreover have "guest_cr3 \<notin> fields_bytes special_fields" "guest_fs_base \<notin> fields_bytes special_fields"
      "guest_fs_base \<notin> fields_bytes always_fields"
    by (auto simp: special_fields_def always_fields_def fields_bytes_def vmcb_offsets)
  ultimately show ?thesis
    using nested_entry_loads [of sample_host 0 sample_node] by simp
qed

text \<open>C15: whatever the control block of the nested hypervisor holds, the block that runs intercepts CPUID and
  shutdowns and does not run with the address space identifier of the subverted host, provided that the cache was not
  valid or that it was so before.\<close>

theorem nested_entry_guards:
  assumes "node_pool (hw_nested s) n = nd" "vmcb_c nd \<noteq> vmcb_t nd"
    "\<not> node_clean nd \<or> guarded (hw_pages s (vmcb_t nd))"
  shows "guarded (hw_pages (nvc_svm_switch_to_nested_vcpu e n s) (vmcb_t nd))"
  using entry_guards [where c = "vmcb_c nd" and m = "hw_pages s", OF assms(2, 3)] assms(1) by (simp add: switch_pages)

lemma nested_entry_guards_witness:
  "\<forall>e. guarded (hw_pages (nvc_svm_switch_to_nested_vcpu e 0 sample_host) 0x2000)"
  using nested_entry_guards [of sample_host 0 sample_node] by simp



text \<open>C0: the base of the IDT is not among the registers that an exit saves. With the class of the tables reloaded,
  a nested guest goes on with the base that its hypervisor had set before, not with the one that it has loaded.\<close>

theorem nested_idt_reverts:
  assumes "node_pool (hw_nested s) (hw_nested_vcpu s) = nd" "vmcb_c nd \<noteq> vmcb_t nd"
    "hw_vmcb s \<noteq> vmcb_t nd" "hw_vmcb s \<noteq> vmcb_c nd" "reloaded nd (hw_pages s) noir_svm_clean_idt_gdt"
    "guest_idtr_base \<le> i" "i < guest_idtr_base + 8"
  shows "hw_pages (nvc_svm_switch_to_nested_vcpu e (hw_nested_vcpu s) (nvc_svm_switch_from_nested_vcpu s)) (vmcb_t nd) i =
    hw_pages s (vmcb_c nd) i"
proof -
  have "loads (reloaded nd (hw_pages s)) 13 i"
    using assms(5-7) by (auto simp: loads_def class_fields_def fields_bytes_def noir_svm_clean_idt_gdt_def intro!: exI [of _ 7])
  moreover have "i \<notin> fields_bytes special_fields" "i \<notin> fields_bytes (exit_information @ saved_fields)"
      "i \<notin> fields_bytes [B64 guest_pat]" "i \<notin> fields_bytes lbr_fields"
    using assms(6, 7) by (auto simp: special_fields_def exit_information_def saved_fields_def segment_fields_def
        lbr_fields_def fields_bytes_def vmcb_offsets)
  ultimately show ?thesis
    using resumed_bytes [OF assms(1-4)] by (simp add: exit_bytes(2) [OF assms(1-4)] del: fields_bytes_append)
qed

lemma nested_idt_reverts_witness:
  "\<forall>e. hw_pages (nvc_svm_switch_to_nested_vcpu e 0 (nvc_svm_switch_from_nested_vcpu sample_host)) 0x2000 guest_idtr_base = 1"
  using nested_idt_reverts [of sample_host sample_node guest_idtr_base] by (simp add: reloaded_def)

end
