(* ===== verification/Host_Properties.thy ===== *)
theory Host_Properties
  imports Nested_Properties
begin

text \<open>
  The properties of the exits of the subverted host: who may call the hypervisor, what the host sees of
  the model-specific registers that NoirVisor changes, and where \<open>vmload\<close> loads.
\<close>

section \<open>Functions on the control block\<close>

lemma on_host_vmcb_comp: "on_host_vmcb f (on_host_vmcb g s) = on_host_vmcb (f \<circ> g) s"
  by (simp add: on_host_vmcb_def on_page_def)

lemma on_host_vmcb_eq: "on_host_vmcb f s = s\<lparr>hw_pages := (hw_pages s)(hw_vmcb s := f (host_vmcb s))\<rparr>"
  by (simp add: on_host_vmcb_def on_page_def)

lemma inject_outside:
  "i \<notin> {event_injection..<event_injection + 8} \<Longrightarrow> noir_svm_inject_event b vector type ev v ec i = b i"
  by (simp add: noir_svm_inject_event_def Let_def vmwrite64_def wr_outside)

lemma advance_outside:
  assumes "i \<notin> {event_injection..<event_injection + 8}" "i \<notin> {guest_rip..<guest_rip + 8}"
  shows "noir_svm_advance_rip b i = b i"
  using assms by (simp add: noir_svm_advance_rip_def Let_def inject_outside vmwrite64_def wr_outside)

lemma advance_event:
  assumes "\<not> vmcb_bt32 b guest_rflags amd64_rflags_tf"
  shows "vmread64 (noir_svm_advance_rip b) event_injection = vmread64 b event_injection"
  using assms by (simp add: noir_svm_advance_rip_def Let_def vmwrite_wr vmcb vmcb_offsets)

lemma injected_flags:
  "vmcb_bt32 (noir_svm_inject_event b vector type ev v ec) guest_rflags n = vmcb_bt32 b guest_rflags n"
  by (simp add: noir_svm_inject_event_def Let_def vmcb_bt32_def vmwrite_wr vmcb vmcb_offsets)

lemma rejected_event:
  "\<not> bf_flag amd64_event_injection ''valid''
     (vmread64 (noir_svm_inject_event b vector type ev False ec) event_injection)"
proof -
  have size: "bf_size amd64_event_injection \<le> LENGTH(64)" by (simp add: amd64_event_injection_def bf_size_def)
  show ?thesis
    by (simp add: noir_svm_inject_event_def Let_def vmwrite_wr vmcb bf_flag_def bf_get_put_other bf_get_put_same [OF size] of_flag_def)
qed

text \<open>What may change of the control block of a caller that is turned away.\<close>

definition turned_away :: "bytes \<Rightarrow> bytes \<Rightarrow> bool" where
  "turned_away b b' \<longleftrightarrow>
     (\<forall>i. i \<notin> {event_injection..<event_injection + 8} \<and> i \<notin> {guest_rip..<guest_rip + 8} \<longrightarrow> b' i = b i) \<and>
     (\<not> vmcb_bt32 b guest_rflags amd64_rflags_tf \<longrightarrow> vmread64 b' event_injection = vmread64 b event_injection \<or>
        \<not> bf_flag amd64_event_injection ''valid'' (vmread64 b' event_injection))"

lemma turned_away_ways:
  "turned_away b (noir_svm_advance_rip b)"
  "turned_away b (noir_svm_inject_event b vector type ev False ec)"
  "turned_away b (noir_svm_advance_rip (noir_svm_inject_event b vector type ev False ec))"
  by (simp_all add: turned_away_def advance_outside inject_outside advance_event injected_flags rejected_event)

text \<open>A processor whose host guest runs at \<open>0x1000\<close>, outside the images of the hypervisor.\<close>

definition sample_env :: host_env where
  "sample_env = \<lparr>he_hv_presence = True, he_nested_virtualization = True, he_hv_image = \<lparr>im_base = 0, im_size = 0\<rparr>,
     he_layered_hv_image = \<lparr>im_base = 0, im_size = 0\<rparr>, he_system_call = 0x5000, he_orig_system_call = 0x6000,
     he_primary_ncr3 = 0, he_secondary_ncr3 = 0, he_host_cr3 = 0, he_cpuid_fms = 0, he_caching = True,
     he_tlb_tagging_start = 10, he_cpuid_leaf_max = 0, he_present_handler = True, he_svm_core = True,
     he_cpuid = (\<lambda>_ _. \<lparr>cpuid_eax = 0, cpuid_ebx = 0, cpuid_ecx = 0, cpuid_edx = 0\<rparr>), he_process_cr3 = 0, he_virt_by_phys = (\<lambda>p. p), 
     he_ci = \<lparr>ci_limit = 0, ci_pages = 0, ci_soft = False, ci_hard = False, page_ci = []\<rparr>,
     he_instruction_length = (\<lambda>_ _. 0)\<rparr>"



section \<open>Model-specific registers\<close>

lemma assembled_value:
  "take_bit 32 (push_bit 32 d OR take_bit 32 (a :: u64)) = take_bit 32 a"
  "drop_bit 32 (push_bit 32 d OR take_bit 32 (a :: u64)) = take_bit 32 (d :: u64)"
  "bit (push_bit 32 d OR take_bit 32 (a :: u64)) amd64_efer_svme = bit a amd64_efer_svme"
proof -
  show "take_bit 32 (push_bit 32 d OR take_bit 32 a) = take_bit 32 a"
    by (rule bit_word_eqI) (auto simp: bit_simps)
  show "drop_bit 32 (push_bit 32 d OR take_bit 32 a) = take_bit 32 d"
    by (rule bit_word_eqI) (auto simp: bit_simps)
  show "bit (push_bit 32 d OR take_bit 32 a) amd64_efer_svme = bit a amd64_efer_svme"
    by (simp add: bit_simps amd64_efer_svme_def)
qed

lemma svme_masked:
  "bit v amd64_efer_svme \<Longrightarrow> v OR amd64_efer_svme_bit = v"
  "\<not> bit v amd64_efer_svme \<Longrightarrow> (v OR amd64_efer_svme_bit) AND NOT amd64_efer_svme_bit = v"
  "bit (v OR amd64_efer_svme_bit) amd64_efer_svme"
proof -
  have power: "amd64_efer_svme_bit = 2 ^ 12" by (simp add: amd64_efer_svme_bit_def)
  have bits: "bit amd64_efer_svme_bit n \<longleftrightarrow> n = amd64_efer_svme" for n
    unfolding power bit_exp_iff by (auto simp: amd64_efer_svme_def)
  show "v OR amd64_efer_svme_bit = v" if "bit v amd64_efer_svme"
    using that by (intro bit_word_eqI) (auto simp: bit_simps bits)
  show "(v OR amd64_efer_svme_bit) AND NOT amd64_efer_svme_bit = v" if "\<not> bit v amd64_efer_svme"
    using that by (intro bit_word_eqI) (auto simp: bit_simps bits)
  show "bit (v OR amd64_efer_svme_bit) amd64_efer_svme" by (simp add: bit_simps bits)
qed

lemma not_synthetic:
  "\<not> noir_is_synthetic_msr amd64_efer" "\<not> noir_is_synthetic_msr amd64_lstar"
  "amd64_lstar \<noteq> amd64_efer" "amd64_lstar \<noteq> amd64_vmcr" "amd64_lstar \<noteq> amd64_hsave_pa"
  by (simp_all add: noir_is_synthetic_msr_def amd64_efer_def amd64_lstar_def amd64_vmcr_def amd64_hsave_pa_def drop_bit_eq_div)

text \<open>A host that writes a register and reads it again.\<close>

definition write_then_read :: "host_env \<Rightarrow> 'c host_world \<Rightarrow> nat \<Rightarrow> u64" where
  "write_then_read e s = hw_frame (nvc_svm_rdmsr_handler e (nvc_svm_wrmsr_handler e s))"

text \<open>C17: unless NoirVisor refuses to let the host enable nested virtualization, the host reads back the EFER that it has
  written, although the control block that runs always has its virtualization bit set.\<close>

theorem efer_read_back:
  assumes "ucast (hw_frame s 1) = amd64_efer" "bit (hw_frame s 0) amd64_efer_svme \<Longrightarrow> he_nested_virtualization e"
  shows "write_then_read e s = (hw_frame s)(0 := take_bit 32 (hw_frame s 0), 2 := take_bit 32 (hw_frame s 2)) \<and>
    bit (vmread64 (host_vmcb (nvc_svm_wrmsr_handler e s)) guest_efer) amd64_efer_svme"
proof -
  let ?v = "push_bit 32 (hw_frame s 2) OR take_bit 32 (hw_frame s 0)"
  let ?s = "nvc_svm_wrmsr_handler e s"
  have written: "?s = on_nested (\<lambda>n. n\<lparr>nested_svme := bit ?v amd64_efer_svme\<rparr>)
      (on_host_vmcb (\<lambda>b. clean noir_svm_clean_control_reg (vmwrite64 b guest_efer (?v OR amd64_efer_svme_bit))) s)"
    using assms by (auto simp: nvc_svm_wrmsr_handler_def Let_def not_synthetic write_host_msr_def assembled_value(3))
  have efer: "vmread64 (host_vmcb ?s) guest_efer = ?v OR amd64_efer_svme_bit"
    unfolding written by (simp add: on_nested_def clean_def vmwrite_wr vmcb vmcb_offsets)
  have "hw_frame ?s = hw_frame s" "nested_svme (hw_nested ?s) = bit ?v amd64_efer_svme"
    unfolding written by (simp_all add: on_nested_def)
  then have "fst (read_host_msr e amd64_efer ?s) = ?v" "snd (read_host_msr e amd64_efer ?s) = ?s"
    by (simp_all add: read_host_msr_def Let_def efer svme_masked)
  then have "write_then_read e s = (hw_frame s)(0 := take_bit 32 ?v, 2 := drop_bit 32 ?v)"
    using assms(1) \<open>hw_frame ?s = hw_frame s\<close>
    by (simp add: write_then_read_def nvc_svm_rdmsr_handler_def Let_def not_synthetic on_host_frame_def split_beta)
  then show ?thesis by (simp only: assembled_value efer svme_masked)
qed

lemma efer_read_back_witness:
  "write_then_read sample_env (sample_host\<lparr>hw_frame := \<lambda>_. 0xC0000080\<rparr>) 0 = 0xC0000080"
proof -
  have "he_nested_virtualization sample_env" by (simp add: sample_env_def)
  then show ?thesis
    using efer_read_back [of "sample_host\<lparr>hw_frame := \<lambda>_. 0xC0000080\<rparr>" sample_env]
    by (simp add: amd64_efer_def take_bit_eq_mod)
qed

text \<open>C18: the host never sees that its system-call entry is hooked: any other entry that it writes is read back, also
  the original one, which is replaced by the hook in the control block.\<close>

theorem lstar_read_back:
  assumes "ucast (hw_frame s 1) = amd64_lstar"
    "push_bit 32 (hw_frame s 2) OR take_bit 32 (hw_frame s 0) \<noteq> he_system_call e"
  shows "write_then_read e s = (hw_frame s)(0 := take_bit 32 (hw_frame s 0), 2 := take_bit 32 (hw_frame s 2)) \<and>
    vmread64 (host_vmcb (nvc_svm_wrmsr_handler e s)) guest_lstar =
      (if push_bit 32 (hw_frame s 2) OR take_bit 32 (hw_frame s 0) = he_orig_system_call e then he_system_call e
       else push_bit 32 (hw_frame s 2) OR take_bit 32 (hw_frame s 0))"
proof -
  let ?v = "push_bit 32 (hw_frame s 2) OR take_bit 32 (hw_frame s 0)"
  let ?s = "nvc_svm_wrmsr_handler e s"
  have written: "?s = on_host_vmcb (\<lambda>b. vmwrite64 b guest_lstar (if ?v = he_orig_system_call e then he_system_call e else ?v)) s"
    using assms(1)
    by (simp add: nvc_svm_wrmsr_handler_def Let_def not_synthetic write_host_msr_def)
  have lstar: "vmread64 (host_vmcb ?s) guest_lstar = (if ?v = he_orig_system_call e then he_system_call e else ?v)"
    unfolding written by (simp add: vmwrite_wr vmcb)
  have "hw_frame ?s = hw_frame s" unfolding written by simp
  moreover have "read_host_msr e amd64_lstar ?s = (?v, ?s)"
    using assms(2) by (simp add: read_host_msr_def Let_def lstar not_synthetic)
  ultimately have "write_then_read e s = (hw_frame s)(0 := take_bit 32 ?v, 2 := drop_bit 32 ?v)"
    using assms(1)
    by (simp add: write_then_read_def nvc_svm_rdmsr_handler_def Let_def not_synthetic on_host_frame_def split_beta)
  then show ?thesis by (simp only: assembled_value lstar)
qed

lemma lstar_read_back_witness:
  "vmread64 (host_vmcb (nvc_svm_wrmsr_handler sample_env (sample_host\<lparr>hw_frame := (\<lambda>_. 0)(0 := 0x6000, 1 := 0xC0000082)\<rparr>)))
     guest_lstar = 0x5000"
  using lstar_read_back [of "sample_host\<lparr>hw_frame := (\<lambda>_. 0)(0 := 0x6000, 1 := 0xC0000082)\<rparr>" sample_env]
  by (simp add: amd64_lstar_def take_bit_eq_mod sample_env_def)

section \<open>Loading and saving the hidden state\<close>

lemma loaded_page:
  "i \<in> fields_bytes vmload_fields \<Longrightarrow> nvc_svm_vmsl_helper d pa m q i = (if q = d then m pa i else m q i)"
  by (simp add: nvc_svm_vmsl_helper_def copy_fields_bytes)

lemma loaded_pages:
  assumes "i \<in> fields_bytes vmload_fields"
  shows "fold (\<lambda>n. nvc_svm_vmsl_helper (t n) pa) ns m q i = (if q \<in> t ` set ns then m pa i else m q i)"
proof (induction ns arbitrary: m)
  case (Cons n ns)
  then show ?case
    using assms by (simp add: loaded_page)
qed simp

lemma advance_keeps_loaded:
  "i \<in> fields_bytes vmload_fields \<Longrightarrow> noir_svm_advance_rip b i = b i"
  by (rule advance_outside) (auto simp: vmload_fields_def segment_fields_def fields_bytes_def vmcb_offsets)

text \<open>C19: after a \<open>vmload\<close> of a nested hypervisor, its own control block and those of all its guests, cached or
  not, hold the hidden state of the page that it names, also when that page is one of these blocks. (An entry into
  a guest does not touch this state.)\<close>

theorem vmload_reaches_guests:
  assumes "nested_svme (hw_nested s)" "page_4kb_offset (hw_frame s 0) = 0"
    "q = hw_vmcb s \<or> (\<exists>n < 16. q = vmcb_t (node_pool (hw_nested s) n))"
    "i \<in> fields_bytes vmload_fields"
  shows "\<exists>s'. nvc_svm_vmload_handler e s = Some s' \<and> hw_pages s' q i = hw_pages s (hw_frame s 0) i"
proof -
  let ?t = "\<lambda>n. vmcb_t (node_pool (hw_nested s) n)"
  let ?m = "fold (\<lambda>i. nvc_svm_vmsl_helper (?t i) (hw_frame s 0)) [0..<16] (nvc_svm_vmsl_helper (hw_vmcb s) (hw_frame s 0) (hw_pages s))"
  have "?m q i = hw_pages s (hw_frame s 0) i"
    using assms(3, 4) by (auto simp: loaded_pages loaded_page)
  moreover have "nvc_svm_vmload_handler e s = Some (advance_rip (s\<lparr>hw_pages := ?m\<rparr>))"
    using assms(1, 2) by (simp add: nvc_svm_vmload_handler_def Let_def noir_svm_cached_nested_vmcb_def)
  ultimately show ?thesis
    using assms(4) by (auto simp: advance_rip_def advance_keeps_loaded)
qed

lemma vmload_reaches_guests_witness:
  "\<forall>e. \<exists>s'. nvc_svm_vmload_handler e (sample_host\<lparr>hw_frame := \<lambda>_. 0x1000\<rparr>) = Some s' \<and> hw_pages s' 0x2000 guest_fs_base = 1"
proof
  fix e
  let ?s = "sample_host\<lparr>hw_frame := \<lambda>_. 0x1000\<rparr>"
  have "nested_svme (hw_nested ?s)" by (simp add: sample_host_def sample_nested_def)
  moreover have "page_4kb_offset (hw_frame ?s 0) = 0" by (simp add: page_4kb_offset_def)
  moreover have "0x2000 = hw_vmcb ?s \<or> (\<exists>n < 16. 0x2000 = vmcb_t (node_pool (hw_nested ?s) n))"
    by (intro disjI2 exI [of _ 0]) simp
  moreover have "guest_fs_base \<in> fields_bytes vmload_fields"
    by (simp add: vmload_fields_def segment_fields_def fields_bytes_def vmcb_offsets)
  ultimately show "\<exists>s'. nvc_svm_vmload_handler e ?s = Some s' \<and> hw_pages s' 0x2000 guest_fs_base = 1"
    using vmload_reaches_guests [of ?s "0x2000" guest_fs_base e] by simp
qed

end
